(* ===== verification/Prelude.thy ===== *)
theory Prelude
  imports Main "HOL-Library.Char_ord" "HOL-Library.List_Lexorder"
begin

text \<open>
  Shared vocabulary of the development: the exceptions the services throw, the shape of an
  operation that may throw, the fact collections the component proofs use, and generic lemmas
  on lists.  Byte strings (\<open>std::string\<close>) are HOL's \<open>string\<close>; they are ordered
  lexicographically by byte value, as \<open>std::less<std::string>\<close> orders the keys of a
  \<open>std::map\<close>.
\<close>

section \<open>Fact collections\<close>

named_theorems awsmock_simps "equations of the model used as rewrite rules"
named_theorems inv_intros "introduction rules for the invariants of the components"
named_theorems store_defs "definitions of the operations of the in-memory stores"
named_theorems service_defs "definitions of the service operations"

section \<open>Exceptions and results\<close>

text \<open>
  \<open>ServiceException\<close>, \<open>NotFoundException\<close>, \<open>DatabaseException\<close> and \<open>JsonException\<close> are the
  classes of \<open>core/exception\<close>; all four derive from \<open>Poco::Exception\<close> and carry the message.
  \<open>InvalidArgument\<close> and \<open>OutOfRange\<close> are \<open>std::invalid_argument\<close> and
  \<open>std::out_of_range\<close>, which \<open>std::stoi\<close> throws and which no \<open>catch (Poco::Exception &)\<close>
  catches; \<open>StdException\<close> is any other exception of the standard library (\<open>std::bad_array_new_length\<close>).
  \<open>UndefinedBehaviour\<close> marks the places where the C++ program has no defined
  behaviour (for instance dereferencing the end iterator): it is not catchable either.
\<close>

datatype exn =
    ServiceException string
  | NotFoundException string
  | DatabaseException string
  | JsonException string
  | PocoException string
  | InvalidArgument
  | OutOfRange
  | StdException
  | UndefinedBehaviour

type_synonym 'a result = "exn + 'a"

text \<open>An operation on a state: the outcome and the state it leaves, also when it throws.\<close>

type_synonym ('a, 's) outcome = "'a result \<times> 's"

text \<open>
  The \<open>catch (Poco::Exception &ex) { throw Core::ServiceException(ex.message()); }\<close> clause that
  closes nearly every service method.
\<close>

fun rethrow_service :: "exn \<Rightarrow> exn" where
  "rethrow_service (ServiceException m) = ServiceException m"
| "rethrow_service (NotFoundException m) = ServiceException m"
| "rethrow_service (DatabaseException m) = ServiceException m"
| "rethrow_service (JsonException m) = ServiceException m"
| "rethrow_service (PocoException m) = ServiceException m"
| "rethrow_service InvalidArgument = InvalidArgument"
| "rethrow_service OutOfRange = OutOfRange"
| "rethrow_service StdException = StdException"
| "rethrow_service UndefinedBehaviour = UndefinedBehaviour"

definition catch_poco :: "('a, 's) outcome \<Rightarrow> ('a, 's) outcome" where
  "catch_poco r = (case r of (Inl e, s) \<Rightarrow> (Inl (rethrow_service e), s) | (Inr x, s) \<Rightarrow> (Inr x, s))"

lemma catch_poco_simps [simp, awsmock_simps]:
  "catch_poco (Inl e, s) = (Inl (rethrow_service e), s)"
  "catch_poco (Inr x, s) = (Inr x, s)"
  by (simp_all add: catch_poco_def)

lemma snd_catch_poco [simp]: "snd (catch_poco r) = snd r"
  by (cases r; cases "fst r") auto

lemma catch_poco_Inr_iff [simp]: "catch_poco r = (Inr x, s) \<longleftrightarrow> r = (Inr x, s)"
  by (cases r; cases "fst r") auto

text \<open>Sequencing: the continuation runs on the state left by the first operation.\<close>

definition andthen :: "('a, 's) outcome \<Rightarrow> ('a \<Rightarrow> 's \<Rightarrow> ('b, 's) outcome) \<Rightarrow> ('b, 's) outcome" where
  "andthen r k = (case r of (Inl e, s) \<Rightarrow> (Inl e, s) | (Inr x, s) \<Rightarrow> k x s)"

lemma andthen_simps [simp, awsmock_simps]:
  "andthen (Inl e, s) k = (Inl e, s)"
  "andthen (Inr x, s) k = k x s"
  by (simp_all add: andthen_def)

lemma andthen_cases:
  obtains (Throw) e s where "r = (Inl e, s)" | (Return) x s where "r = (Inr x, s)"
  by (cases r; cases "fst r") auto

lemma snd_andthen_return: "snd (andthen r (\<lambda>x s. (Inr (f x), s))) = snd r"
  by (cases r rule: andthen_cases) simp_all

lemma andthen_invariant:
  assumes "P (snd r)" and "\<And>x s. r = (Inr x, s) \<Longrightarrow> P s \<Longrightarrow> P (snd (k x s))"
  shows "P (snd (andthen r k))"
  using assms by (cases r rule: andthen_cases) auto

text \<open>Sequencing of computations that may throw and change no state, and a loop of them.\<close>

definition rbind :: "'a result \<Rightarrow> ('a \<Rightarrow> 'b result) \<Rightarrow> 'b result" where
  "rbind r k = (case r of Inl e \<Rightarrow> Inl e | Inr x \<Rightarrow> k x)"

lemma rbind_simps [simp, awsmock_simps]:
  "rbind (Inl e) k = Inl e"
  "rbind (Inr x) k = k x"
  by (simp_all add: rbind_def)

lemma rbind_Inr_iff: "rbind r k = Inr y \<longleftrightarrow> (\<exists>x. r = Inr x \<and> k x = Inr y)"
  by (cases r) auto

primrec foldr_result :: "('a \<Rightarrow> 'b \<Rightarrow> 'b result) \<Rightarrow> 'a list \<Rightarrow> 'b \<Rightarrow> 'b result" where
  "foldr_result f [] b = Inr b"
| "foldr_result f (x # xs) b = rbind (f x b) (foldr_result f xs)"

text \<open>Division that truncates toward zero, as the C++ operator and \<open>duration_cast\<close> do.\<close>

definition tdiv :: "int \<Rightarrow> int \<Rightarrow> int" where
  "tdiv a b = sgn a * sgn b * (\<bar>a\<bar> div \<bar>b\<bar>)"

lemma tdiv_nonneg: "0 \<le> a \<Longrightarrow> 0 < b \<Longrightarrow> tdiv a b = a div b"
  by (cases "a = 0") (simp_all add: tdiv_def)

section \<open>Lists\<close>

lemma find_Some_iff_filter: "List.find P xs = Some x \<longleftrightarrow> (\<exists>ys. filter P xs = x # ys)"
  by (induction xs) auto

lemma find_None_filter: "List.find P xs = None \<longleftrightarrow> filter P xs = []"
  by (induction xs) auto

lemma find_None_not_ex: "List.find P xs = None \<longleftrightarrow> \<not> (\<exists>x \<in> set xs. P x)"
  by (induction xs) auto

lemma find_Some_mem: "List.find P xs = Some x \<Longrightarrow> x \<in> set xs \<and> P x"
  by (induction xs) (auto split: if_splits)

lemma find_cong_set: "(\<And>x. x \<in> set xs \<Longrightarrow> P x = Q x) \<Longrightarrow> List.find P xs = List.find Q xs"
  by (induction xs) auto

lemma find_map_pres:
  assumes "\<And>x. x \<in> set xs \<Longrightarrow> P (f x) = P x"
  shows "List.find P (map f xs) = map_option f (List.find P xs)"
  using assms by (induction xs) auto

lemma filter_length_eq_card_pred: "length (filter P xs) \<le> length xs"
  by simp

lemma sorted_wrt_map_fst_filter:
  "sorted_wrt r (map fst m) \<Longrightarrow> sorted_wrt r (map fst (filter P m))"
  by (induction m) (auto)

lemma distinct_set_singleton:
  assumes "distinct xs" "set xs = {x}"
  shows "xs = [x]"
proof -
  have "length xs = 1" using assms distinct_card [OF assms(1)] by simp
  then obtain y where "xs = [y]" by (auto simp: length_Suc_conv)
  with assms show ?thesis by simp
qed

lemma filter_eq_singleton:
  assumes "distinct xs" "x \<in> set xs" "P x" "\<And>y. y \<in> set xs \<Longrightarrow> P y \<Longrightarrow> y = x"
  shows "filter P xs = [x]"
proof (rule distinct_set_singleton)
  show "distinct (filter P xs)" using assms(1) by simp
  have "y \<in> {x}" if "y \<in> set (filter P xs)" for y
    unfolding singleton_iff by (rule assms(4)) (use that in simp_all)
  then have "set (filter P xs) \<subseteq> {x}" by (rule subsetI)
  moreover have "{x} \<subseteq> set (filter P xs)" using assms(2,3) by simp
  ultimately show "set (filter P xs) = {x}" by (rule equalityI)
qed

lemma list_comprehension_filter:
  "concat (map (\<lambda>x. if P x then [f x] else []) xs) = map f (filter P xs)"
  by (induction xs) auto

end
