(* ===== verification/StdMap.thy ===== *)
theory StdMap
  imports Prelude
begin

text \<open>
  \<open>std::map\<close> as the stores use it.  A map is the list of its nodes in iteration order, that is
  sorted strictly by key.  \<open>smap_get\<close> is \<open>find(key)\<close>, \<open>smap_put\<close> is \<open>m[key] = v\<close>,
  \<open>smap_find_if\<close> is \<open>std::find_if(m.begin(), m.end(), p)\<close> (the first node in key order),
  \<open>smap_erase_if\<close> is \<open>std::erase_if\<close>.
\<close>

type_synonym ('k, 'v) smap = "('k \<times> 'v) list"

definition smap_inv :: "('k::linorder, 'v) smap \<Rightarrow> bool" where
  "smap_inv m \<longleftrightarrow> sorted_wrt (<) (map fst m)"

definition smap_get :: "'k \<Rightarrow> ('k, 'v) smap \<Rightarrow> 'v option" where
  "smap_get k m = map_of m k"

fun smap_put :: "'k::linorder \<Rightarrow> 'v \<Rightarrow> ('k, 'v) smap \<Rightarrow> ('k, 'v) smap" where
  "smap_put k v [] = [(k, v)]"
| "smap_put k v ((k', v') # m) =
     (if k' < k then (k', v') # smap_put k v m
      else if k = k' then (k, v) # m
      else (k, v) # (k', v') # m)"

definition smap_find_if :: "('k \<times> 'v \<Rightarrow> bool) \<Rightarrow> ('k, 'v) smap \<Rightarrow> ('k \<times> 'v) option" where
  "smap_find_if P m = List.find P m"

definition smap_erase_if :: "('k \<times> 'v \<Rightarrow> bool) \<Rightarrow> ('k, 'v) smap \<Rightarrow> ('k, 'v) smap" where
  "smap_erase_if P m = filter (\<lambda>kv. \<not> P kv) m"

definition smap_values :: "('k, 'v) smap \<Rightarrow> 'v list" where
  "smap_values m = map snd m"

definition smap_count_if :: "('k \<times> 'v \<Rightarrow> bool) \<Rightarrow> ('k, 'v) smap \<Rightarrow> int" where
  "smap_count_if P m = int (length (filter P m))"

section \<open>Invariant\<close>

lemma smap_inv_Nil [simp]: "smap_inv []"
  by (simp add: smap_inv_def)

lemma smap_inv_Cons:
  "smap_inv ((k, v) # m) \<longleftrightarrow> (\<forall>k' \<in> fst ` set m. k < k') \<and> smap_inv m"
  by (auto simp: smap_inv_def)

lemma set_smap_put_keys: "fst ` set (smap_put k v m) = insert k (fst ` set m)"
proof (induction m)
  case (Cons kv m)
  then show ?case by (cases kv) auto
qed simp

lemma smap_inv_put [simp, inv_intros]:
  fixes k :: "'k::linorder"
  assumes "smap_inv m"
  shows "smap_inv (smap_put k v m)"
  using assms
proof (induction m)
  case Nil
  then show ?case by (simp add: smap_inv_def)
next
  case (Cons kv m)
  obtain k' w where kv: "kv = (k', w)" by (cases kv)
  have inv: "\<forall>k'' \<in> fst ` set m. k' < k''" "smap_inv m"
    using Cons.prems by (simp_all add: kv smap_inv_Cons)
  consider "k' < k" | "k = k'" | "k < k'" by (rule linorder_cases) auto
  then show ?case
  proof cases
    case 1
    then show ?thesis using Cons.IH inv by (simp add: kv smap_inv_Cons set_smap_put_keys)
  next
    case 2
    then show ?thesis using inv by (simp add: kv smap_inv_Cons)
  next
    case 3
    then have "\<forall>k'' \<in> fst ` set m. k < k''" using inv(1) by (auto dest: less_trans)
    with 3 inv show ?thesis by (auto simp: kv smap_inv_Cons)
  qed
qed

lemma smap_inv_erase_if [simp, inv_intros]: "smap_inv m \<Longrightarrow> smap_inv (smap_erase_if P m)"
  by (simp add: smap_inv_def smap_erase_if_def sorted_wrt_map_fst_filter)

lemma smap_inv_map_values [simp, inv_intros]:
  "smap_inv m \<Longrightarrow> smap_inv (map (\<lambda>(k, v). (k, f k v)) m)"
  by (simp add: smap_inv_def comp_def case_prod_beta)

lemma smap_inv_distinct: "smap_inv m \<Longrightarrow> distinct (map fst m)"
  by (simp add: smap_inv_def strict_sorted_iff)

section \<open>Lookup\<close>

lemma smap_get_Nil [simp]: "smap_get k [] = None"
  by (simp add: smap_get_def)

lemma smap_get_put [simp]: "smap_inv m \<Longrightarrow> smap_get k (smap_put k' v m) = (if k = k' then Some v else smap_get k m)"
  by (induction m) (auto simp: smap_get_def smap_inv_Cons)

lemma smap_get_iff: "smap_inv m \<Longrightarrow> smap_get k m = Some v \<longleftrightarrow> (k, v) \<in> set m"
  by (simp add: smap_get_def smap_inv_distinct)

lemma smap_get_None_iff: "smap_get k m = None \<longleftrightarrow> k \<notin> fst ` set m"
  by (simp add: smap_get_def map_of_eq_None_iff)

lemma set_smap_put:
  assumes "smap_inv m"
  shows "set (smap_put k v m) = insert (k, v) {kv \<in> set m. fst kv \<noteq> k}"
proof -
  have "(k', w) \<in> set (smap_put k v m) \<longleftrightarrow> (k' = k \<and> w = v) \<or> (k' \<noteq> k \<and> (k', w) \<in> set m)" for k' w
    using assms smap_get_put [OF assms, of k' k v]
    by (auto simp flip: smap_get_iff split: if_splits)
  then show ?thesis by auto
qed

lemma smap_put_fresh_length [simp]:
  "k \<notin> fst ` set m \<Longrightarrow> length (smap_put k v m) = Suc (length m)"
  by (induction m) auto

lemma smap_put_old_keys:
  "smap_inv m \<Longrightarrow> k \<in> fst ` set m \<Longrightarrow> map fst (smap_put k v m) = map fst m"
  by (induction m) (force simp: smap_inv_Cons)+

lemma smap_put_same:
  "smap_inv m \<Longrightarrow> (k, v) \<in> set m \<Longrightarrow> smap_put k v m = m"
  by (induction m) (force simp: smap_inv_Cons)+

lemma smap_put_old_map:
  "smap_inv m \<Longrightarrow> k \<in> fst ` set m \<Longrightarrow>
   smap_put k v m = map (\<lambda>(k', w). (k', if k' = k then v else w)) m"
proof (induction m)
  case Nil
  then show ?case by simp
next
  case (Cons kv m)
  obtain k' w where kv: "kv = (k', w)" by (cases kv)
  have inv: "\<forall>k'' \<in> fst ` set m. k' < k''" "smap_inv m"
    using Cons.prems(1) by (simp_all add: kv smap_inv_Cons)
  show ?case
  proof (cases "k = k'")
    case True
    then have "map (\<lambda>(k', w). (k', if k' = k then v else w)) m = m"
      using inv(1) by (intro map_idI) auto
    then show ?thesis using True by (simp add: kv)
  next
    case False
    then have "k \<in> fst ` set m" using Cons.prems(2) by (simp add: kv)
    then show ?thesis using Cons.IH inv False by (auto simp: kv)
  qed
qed

lemma smap_put_put_same [simp]: "smap_inv m \<Longrightarrow> smap_put k v (smap_put k w m) = smap_put k v m"
proof (induction m)
  case (Cons kv m)
  then show ?case by (cases kv) (auto simp: smap_inv_Cons)
qed simp

section \<open>First match and erasure\<close>

lemma smap_find_if_None: "smap_find_if P m = None \<longleftrightarrow> (\<forall>kv \<in> set m. \<not> P kv)"
  by (auto simp: smap_find_if_def find_None_not_ex)

lemma smap_find_if_Some: "smap_find_if P m = Some kv \<Longrightarrow> kv \<in> set m \<and> P kv"
  by (simp add: smap_find_if_def find_Some_mem)

lemma smap_find_if_not_None: "smap_find_if P m \<noteq> None \<longleftrightarrow> (\<exists>kv \<in> set m. P kv)"
  by (simp add: smap_find_if_None)

lemma smap_find_if_unique:
  assumes "kv \<in> set m" "P kv" "\<And>kv'. kv' \<in> set m \<Longrightarrow> P kv' \<Longrightarrow> kv' = kv"
  shows "smap_find_if P m = Some kv"
proof (cases "smap_find_if P m")
  case None
  then show ?thesis using assms(1,2) by (auto simp: smap_find_if_None)
next
  case (Some kv')
  then have "kv' \<in> set m" "P kv'" by (auto dest: smap_find_if_Some)
  then show ?thesis using assms(3) Some by blast
qed

lemma set_smap_erase_if: "set (smap_erase_if P m) = {kv \<in> set m. \<not> P kv}"
  by (auto simp: smap_erase_if_def)

lemma smap_erase_if_idem: "smap_erase_if P (smap_erase_if P m) = smap_erase_if P m"
  by (simp add: smap_erase_if_def)

lemma smap_erase_if_commute:
  "smap_erase_if P (smap_erase_if Q m) = smap_erase_if Q (smap_erase_if P m)"
  by (auto simp: smap_erase_if_def intro: filter_cong)

lemma smap_count_if_nonneg: "0 \<le> smap_count_if P m"
  by (simp add: smap_count_if_def)

lemma smap_count_if_erase:
  "smap_count_if P m = 0 \<longleftrightarrow> (\<forall>kv \<in> set m. \<not> P kv)"
  by (auto simp: smap_count_if_def filter_empty_conv)

end
