(* ===== verification/EntityStore.thy ===== *)
theory EntityStore
  imports StdMap
begin

text \<open>
  What the in-memory stores (\<open>db/src/memorydb\<close>) have in common.  Every entity table is a
  \<open>std::map<std::string, Entity>\<close> from a random object id to the entity, and the entity
  repeats its id in the field \<open>oid\<close>, which the getters write on their way out.  This theory has
  the two code patterns the stores repeat (\<open>smap_fetch\<close>, \<open>smap_replace\<close>), the invariant
  "sorted, and every row is tagged with its key", and the interface \<open>entity_table\<close> under which
  the services use a table: create, get by id, delete all.  Each store interprets it.
\<close>

section \<open>The two patterns\<close>

text \<open>
  The getters: \<open>auto it = find_if(\<dots>); if (it != end) { it->second.oid = it->first; return
  it->second; } return {};\<close>  The node is written in place.
\<close>

definition smap_fetch ::
  "(string \<times> 'e \<Rightarrow> bool) \<Rightarrow> (string \<Rightarrow> 'e \<Rightarrow> 'e) \<Rightarrow> 'e \<Rightarrow> (string, 'e) smap \<Rightarrow> 'e \<times> (string, 'e) smap" where
  "smap_fetch P set_oid dflt m =
     (case smap_find_if P m of
        None \<Rightarrow> (dflt, m)
      | Some (k, e) \<Rightarrow> (set_oid k e, smap_put k (set_oid k e) m))"

text \<open>
  The updates: \<open>auto it = find_if(\<dots>); m[it->first] = entity; return m[it->first];\<close> with no test
  for the end iterator, so without a match the behaviour is undefined.
\<close>

definition smap_replace ::
  "(string \<times> 'e \<Rightarrow> bool) \<Rightarrow> 'e \<Rightarrow> (string, 'e) smap \<Rightarrow> ('e, (string, 'e) smap) outcome" where
  "smap_replace P e m =
     (case smap_find_if P m of
        None \<Rightarrow> (Inl UndefinedBehaviour, m)
      | Some (k, _) \<Rightarrow> (Inr e, smap_put k e m))"

section \<open>Tagged rows\<close>

definition rows_tagged :: "('e \<Rightarrow> string) \<Rightarrow> (string, 'e) smap \<Rightarrow> bool" where
  "rows_tagged oid_of m \<longleftrightarrow> smap_inv m \<and> list_all (\<lambda>(k, e). oid_of e = k) m"

lemma rows_tagged_Nil [simp]: "rows_tagged oid_of []"
  by (simp add: rows_tagged_def)

lemma rows_tagged_inv: "rows_tagged oid_of m \<Longrightarrow> smap_inv m"
  by (simp add: rows_tagged_def)

lemma rows_taggedD: "rows_tagged oid_of m \<Longrightarrow> (k, e) \<in> set m \<Longrightarrow> oid_of e = k"
  by (auto simp: rows_tagged_def list_all_iff)

lemma rows_tagged_put [inv_intros]:
  "rows_tagged oid_of m \<Longrightarrow> oid_of e = k \<Longrightarrow> rows_tagged oid_of (smap_put k e m)"
  by (auto simp: rows_tagged_def list_all_iff set_smap_put)

lemma rows_tagged_erase_if [inv_intros]:
  "rows_tagged oid_of m \<Longrightarrow> rows_tagged oid_of (smap_erase_if P m)"
  by (auto simp: rows_tagged_def list_all_iff set_smap_erase_if)

lemma rows_tagged_map [inv_intros]:
  assumes "rows_tagged oid_of m" "\<And>k e. oid_of (f k e) = oid_of e"
  shows "rows_tagged oid_of (map (\<lambda>(k, e). (k, f k e)) m)"
  using assms by (force simp: rows_tagged_def list_all_iff)

lemma rows_tagged_get: "rows_tagged oid_of m \<Longrightarrow> smap_get k m = Some e \<Longrightarrow> oid_of e = k"
  using rows_taggedD [of oid_of m k e] by (simp add: smap_get_iff rows_tagged_inv)

lemma rows_tagged_same_oid:
  "rows_tagged oid_of m \<Longrightarrow> (k, e) \<in> set m \<Longrightarrow> (k', e') \<in> set m \<Longrightarrow> oid_of e = oid_of e' \<Longrightarrow>
   k = k' \<and> e = e'"
  using rows_taggedD [of oid_of m k e] rows_taggedD [of oid_of m k' e']
    eq_key_imp_eq_value [OF smap_inv_distinct [OF rows_tagged_inv], of oid_of m k e e'] by auto

section \<open>Fetching and replacing\<close>

lemma smap_fetch_None: "smap_find_if P m = None \<Longrightarrow> smap_fetch P set_oid d m = (d, m)"
  by (simp add: smap_fetch_def)

lemma smap_fetch_tagged:
  assumes "rows_tagged oid_of m" "\<And>e. set_oid (oid_of e) e = e"
  shows "smap_fetch P set_oid d m =
           (case smap_find_if P m of None \<Rightarrow> d | Some (k, e) \<Rightarrow> e, m)"
proof (cases "smap_find_if P m")
  case None
  then show ?thesis by (simp add: smap_fetch_def)
next
  case (Some ke)
  obtain k e where ke: "ke = (k, e)" by (cases ke)
  with Some have mem: "(k, e) \<in> set m" by (auto dest: smap_find_if_Some)
  then have "set_oid k e = e" using assms(2) [of e] rows_taggedD [OF assms(1) mem] by simp
  with Some ke mem show ?thesis
    by (simp add: smap_fetch_def smap_put_same rows_tagged_inv [OF assms(1)])
qed

lemma snd_smap_fetch_tagged:
  "rows_tagged oid_of m \<Longrightarrow> (\<And>e. set_oid (oid_of e) e = e) \<Longrightarrow> snd (smap_fetch P set_oid d m) = m"
  by (simp add: smap_fetch_tagged)

lemma smap_find_if_key:
  "smap_inv m \<Longrightarrow> smap_find_if (\<lambda>(k, e). k = oid) m = map_option (Pair oid) (smap_get oid m)"
proof (cases "smap_get oid m")
  case None
  then have "oid \<notin> fst ` set m" by (simp add: smap_get_None_iff)
  then have "smap_find_if (\<lambda>(k, e). k = oid) m = None" by (force simp: smap_find_if_None)
  with None show ?thesis by simp
next
  case (Some e)
  assume inv: "smap_inv m"
  then have "(oid, e) \<in> set m" using Some by (simp add: smap_get_iff)
  then have "smap_find_if (\<lambda>(k, e). k = oid) m = Some (oid, e)"
    by (rule smap_find_if_unique)
       (use inv Some in \<open>auto simp flip: smap_get_iff\<close>)
  with Some show ?thesis by simp
qed

lemma smap_replace_tagged:
  assumes "rows_tagged oid_of m" "(oid_of e, e') \<in> set m" "P (oid_of e, e')"
    "\<And>k' e''. (k', e'') \<in> set m \<Longrightarrow> P (k', e'') \<Longrightarrow> k' = oid_of e"
  shows "smap_replace P e m = (Inr e, smap_put (oid_of e) e m)"
proof -
  have "smap_find_if P m = Some (oid_of e, e')"
    using assms(2,3)
  proof (rule smap_find_if_unique)
    fix kv assume kv: "kv \<in> set m" "P kv"
    obtain k f where kf: "kv = (k, f)" by (cases kv)
    with kv assms(4) have "k = oid_of e" by blast
    with kv kf assms(2) show "kv = (oid_of e, e')"
      using eq_key_imp_eq_value [OF smap_inv_distinct [OF rows_tagged_inv [OF assms(1)]]] by blast
  qed
  then show ?thesis by (simp add: smap_replace_def)
qed

lemma smap_replace_inv:
  "smap_inv m \<Longrightarrow> smap_inv (snd (smap_replace P e m))"
  by (auto simp: smap_replace_def split: option.splits)

section \<open>The interface of a table\<close>

locale entity_table =
  fixes inv :: "'db \<Rightarrow> bool"
    and rows :: "'db \<Rightarrow> (string, 'e) smap"
    and oid_of :: "'e \<Rightarrow> string"
    and set_oid :: "string \<Rightarrow> 'e \<Rightarrow> 'e"
    and create :: "int \<Rightarrow> string \<Rightarrow> 'e \<Rightarrow> 'db \<Rightarrow> 'e \<times> 'db"
    and get :: "int \<Rightarrow> string \<Rightarrow> 'db \<Rightarrow> 'e \<times> 'db"
    and blank :: "int \<Rightarrow> 'e"
    and clear :: "'db \<Rightarrow> 'db"
  assumes inv_rows: "inv db \<Longrightarrow> rows_tagged oid_of (rows db)"
    and create_result: "inv db \<Longrightarrow> fst (create now oid e db) = set_oid oid e"
    and create_rows: "inv db \<Longrightarrow> rows (snd (create now oid e db)) = smap_put oid (set_oid oid e) (rows db)"
    and create_inv: "inv db \<Longrightarrow> inv (snd (create now oid e db))"
    and get_hit: "inv db \<Longrightarrow> smap_get oid (rows db) = Some e \<Longrightarrow> get now oid db = (e, db)"
    and get_miss: "inv db \<Longrightarrow> smap_get oid (rows db) = None \<Longrightarrow> get now oid db = (blank now, db)"
    and clear_rows: "rows (clear db) = []"
    and clear_inv: "inv db \<Longrightarrow> inv (clear db)"
begin

lemma inv_smap: "inv db \<Longrightarrow> smap_inv (rows db)"
  by (rule rows_tagged_inv [OF inv_rows])

lemma get_pure: "inv db \<Longrightarrow> snd (get now oid db) = db"
  by (cases "smap_get oid (rows db)") (simp_all add: get_hit get_miss)

lemma get_after_create:
  "inv db \<Longrightarrow> get now oid (snd (create now' oid e db)) = (set_oid oid e, snd (create now' oid e db))"
  by (rule get_hit) (simp_all add: create_inv create_rows inv_smap)

lemma get_other_after_create:
  "inv db \<Longrightarrow> oid' \<noteq> oid \<Longrightarrow> fst (get now oid' (snd (create now' oid e db))) = fst (get now oid' db)"
proof -
  assume inv: "inv db" and ne: "oid' \<noteq> oid"
  have eq: "smap_get oid' (rows (snd (create now' oid e db))) = smap_get oid' (rows db)"
    using inv ne by (simp add: create_rows inv_smap)
  show ?thesis
  proof (cases "smap_get oid' (rows db)")
    case None
    then show ?thesis using inv eq by (simp add: get_miss create_inv)
  next
    case (Some e')
    then show ?thesis using inv eq by (simp add: get_hit create_inv)
  qed
qed

lemma create_fresh_count:
  "inv db \<Longrightarrow> smap_get oid (rows db) = None \<Longrightarrow>
   length (rows (snd (create now oid e db))) = Suc (length (rows db))"
  by (simp add: create_rows smap_get_None_iff)

lemma create_fresh_keeps_rows:
  "inv db \<Longrightarrow> smap_get oid (rows db) = None \<Longrightarrow> row \<in> set (rows db) \<Longrightarrow>
   row \<in> set (rows (snd (create now oid e db)))"
  by (auto simp: create_rows set_smap_put inv_smap smap_get_None_iff)

lemma get_after_clear: "inv db \<Longrightarrow> get now oid (clear db) = (blank now, clear db)"
  by (rule get_miss) (simp_all add: clear_inv clear_rows)

text \<open>A run of creations: every entity is found again under its id.\<close>

primrec create_all :: "int \<Rightarrow> (string \<times> 'e) list \<Rightarrow> 'db \<Rightarrow> 'db" where
  "create_all now [] db = db"
| "create_all now (x # xs) db = create_all now xs (snd (create now (fst x) (snd x) db))"

lemma create_all_inv: "inv db \<Longrightarrow> inv (create_all now xs db)"
  by (induction xs arbitrary: db) (simp_all add: create_inv)

lemma create_all_other:
  "inv db \<Longrightarrow> oid \<notin> fst ` set xs \<Longrightarrow>
   smap_get oid (rows (create_all now xs db)) = smap_get oid (rows db)"
  by (induction xs arbitrary: db) (auto simp: create_inv create_rows inv_smap)

lemma create_all_found:
  "inv db \<Longrightarrow> distinct (map fst xs) \<Longrightarrow> (oid, e) \<in> set xs \<Longrightarrow>
   fst (get now' oid (create_all now xs db)) = set_oid oid e"
proof (induction xs arbitrary: db)
  case Nil
  then show ?case by simp
next
  case (Cons x xs)
  let ?db = "snd (create now (fst x) (snd x) db)"
  have inv: "inv ?db" using Cons.prems(1) by (rule create_inv)
  show ?case
  proof (cases "(oid, e) \<in> set xs")
    case True
    with Cons.IH [OF inv] Cons.prems(2) show ?thesis by simp
  next
    case False
    with Cons.prems have x: "x = (oid, e)" and notin: "oid \<notin> fst ` set xs" by (auto simp: image_iff)
    have "smap_get oid (rows (create_all now xs ?db)) = Some (set_oid oid e)"
      using create_all_other [OF inv notin] Cons.prems(1) x
      by (simp add: create_rows inv_smap)
    then show ?thesis using get_hit [OF create_all_inv [OF inv]] x by simp
  qed
qed

end

end
