(* ===== verification/StdString.thy ===== *)
theory StdString
  imports Prelude
begin

text \<open>
  The parts of the C++ standard library (and of Poco's ASCII helpers) that the program uses on
  strings and numbers: searching, prefixes and suffixes, case folding, \<open>std::to_string\<close>,
  \<open>std::stoi\<close>, \<open>std::getline\<close> on a delimiter.  A C++ \<open>int\<close> has 32 bits and a \<open>long\<close> 64.
\<close>

section \<open>Searching\<close>

definition starts_with :: "string \<Rightarrow> string \<Rightarrow> bool" where
  "starts_with s p \<longleftrightarrow> take (length p) s = p"

definition ends_with :: "string \<Rightarrow> string \<Rightarrow> bool" where
  "ends_with s p \<longleftrightarrow> length p \<le> length s \<and> drop (length s - length p) s = p"

text \<open>\<open>s.find(p)\<close>: the first position at which \<open>p\<close> occurs, \<open>None\<close> for \<open>npos\<close>.\<close>

fun find_sub :: "string \<Rightarrow> string \<Rightarrow> nat option" where
  "find_sub [] p = (if p = [] then Some 0 else None)"
| "find_sub (c # s) p = (if starts_with (c # s) p then Some 0 else map_option Suc (find_sub s p))"

definition to_lower_char :: "char \<Rightarrow> char" where
  "to_lower_char c = (let n = of_char c :: nat in if 65 \<le> n \<and> n \<le> 90 then char_of (n + 32) else c)"

definition to_upper_char :: "char \<Rightarrow> char" where
  "to_upper_char c = (let n = of_char c :: nat in if 97 \<le> n \<and> n \<le> 122 then char_of (n - 32) else c)"

definition to_lower :: "string \<Rightarrow> string" where
  "to_lower s = map to_lower_char s"

definition to_upper :: "string \<Rightarrow> string" where
  "to_upper s = map to_upper_char s"

text \<open>\<open>std::isdigit\<close> and \<open>std::isspace\<close> in the C locale.\<close>

definition is_digit :: "char \<Rightarrow> bool" where
  "is_digit c \<longleftrightarrow> 48 \<le> (of_char c :: nat) \<and> (of_char c :: nat) \<le> 57"

definition is_space :: "char \<Rightarrow> bool" where
  "is_space c \<longleftrightarrow> (of_char c :: nat) = 32 \<or> (9 \<le> (of_char c :: nat) \<and> (of_char c :: nat) \<le> 13)"

text \<open>
  \<open>while (getline(stream, token, delimiter)) tokens.push_back(token)\<close>: every delimiter ends a
  token, the rest after the last one is a token only when it is not empty.
\<close>

fun getline_tokens :: "string \<Rightarrow> string \<Rightarrow> char \<Rightarrow> string list" where
  "getline_tokens acc [] d = (if acc = [] then [] else [rev acc])"
| "getline_tokens acc (c # s) d =
     (if c = d then rev acc # getline_tokens [] s d else getline_tokens (c # acc) s d)"

lemma starts_with_append [simp]: "starts_with (p @ s) p"
  by (simp add: starts_with_def)

lemma starts_with_Nil [simp]: "starts_with s []"
  by (simp add: starts_with_def)

lemma starts_with_iff: "starts_with s p \<longleftrightarrow> (\<exists>r. s = p @ r)"
  by (metis append_take_drop_id starts_with_def starts_with_append)

lemma ends_with_iff: "ends_with s p \<longleftrightarrow> (\<exists>r. s = r @ p)"
proof
  assume "ends_with s p"
  then have "s = take (length s - length p) s @ p"
    by (metis append_take_drop_id ends_with_def)
  then show "\<exists>r. s = r @ p" ..
qed (auto simp: ends_with_def)

lemma find_sub_Some:
  "find_sub s p = Some i \<Longrightarrow> i + length p \<le> length s \<and> take (length p) (drop i s) = p"
proof (induction s arbitrary: i)
  case (Cons c s)
  show ?case
  proof (cases "starts_with (c # s) p")
    case True
    then obtain r where "c # s = p @ r" by (auto simp: starts_with_iff)
    then have "length p \<le> length (c # s)" by (metis length_append le_add1)
    with Cons.prems True show ?thesis by (simp add: starts_with_def)
  next
    case False
    with Cons.prems obtain j where "find_sub s p = Some j" "i = Suc j" by auto
    with Cons.IH show ?thesis by auto
  qed
qed (auto split: if_splits)

lemma find_sub_None: "find_sub s p = None \<longleftrightarrow> \<not> (\<exists>a b. s = a @ p @ b)"
proof (induction s)
  case Nil
  then show ?case by auto
next
  case (Cons c s)
  have "(\<exists>a b. c # s = a @ p @ b) \<longleftrightarrow> starts_with (c # s) p \<or> (\<exists>a b. s = a @ p @ b)"
    by (metis (no_types, opaque_lifting) append_Cons append_Nil list.exhaust list.inject starts_with_iff)
  with Cons show ?case by auto
qed

section \<open>Numbers in strings\<close>

definition digit_char :: "nat \<Rightarrow> char" where
  "digit_char d = char_of (48 + d)"

definition char_digit :: "char \<Rightarrow> nat" where
  "char_digit c = of_char c - 48"

fun show_nat :: "nat \<Rightarrow> string" where
  "show_nat n = (if n < 10 then [digit_char n] else show_nat (n div 10) @ [digit_char (n mod 10)])"

declare show_nat.simps [simp del]

text \<open>\<open>std::to_string\<close> of an integer.\<close>

definition to_string :: "int \<Rightarrow> string" where
  "to_string i = (if i < 0 then CHR ''-'' # show_nat (nat (- i)) else show_nat (nat i))"

definition int_min :: int where "int_min = - (2 ^ 31)"
definition int_max :: int where "int_max = 2 ^ 31 - 1"

fun read_digits :: "nat \<Rightarrow> string \<Rightarrow> nat" where
  "read_digits acc [] = acc"
| "read_digits acc (c # s) = (if is_digit c then read_digits (10 * acc + char_digit c) s else acc)"

definition long_min :: int where "long_min = - (2 ^ 63)"
definition long_max :: int where "long_max = 2 ^ 63 - 1"

text \<open>
  \<open>std::stoi(s)\<close> and \<open>std::stol(s)\<close>: leading white space, an optional sign, the longest run of
  digits; no digit is \<open>std::invalid_argument\<close>, a value outside the type is
  \<open>std::out_of_range\<close>, what follows the digits is ignored.
\<close>

definition parse_number :: "int \<Rightarrow> int \<Rightarrow> string \<Rightarrow> int result" where
  "parse_number lo hi s =
     (let s1 = dropWhile is_space s;
          neg = (s1 \<noteq> [] \<and> hd s1 = CHR ''-'');
          s2 = (if s1 \<noteq> [] \<and> (hd s1 = CHR ''-'' \<or> hd s1 = CHR ''+'') then tl s1 else s1)
      in if s2 = [] \<or> \<not> is_digit (hd s2) then Inl InvalidArgument
         else let v = (if neg then - int (read_digits 0 s2) else int (read_digits 0 s2))
              in if v < lo \<or> hi < v then Inl OutOfRange else Inr v)"

definition stoi :: "string \<Rightarrow> int result" where "stoi = parse_number int_min int_max"
definition stol :: "string \<Rightarrow> int result" where "stol = parse_number long_min long_max"

lemma of_char_digit: "d < 10 \<Longrightarrow> (of_char (digit_char d) :: nat) = 48 + d"
  by (simp add: digit_char_def)

lemma digit_char_props [simp]:
  "d < 10 \<Longrightarrow> is_digit (digit_char d)"
  "d < 10 \<Longrightarrow> char_digit (digit_char d) = d"
  "d < 10 \<Longrightarrow> \<not> is_space (digit_char d)"
  by (simp_all add: is_digit_def char_digit_def is_space_def of_char_digit)

lemma digit_char_not_sign [simp]:
  "d < 10 \<Longrightarrow> digit_char d \<noteq> CHR ''-''" "d < 10 \<Longrightarrow> digit_char d \<noteq> CHR ''+''"
  using of_char_digit [of d] by auto

lemma show_nat_digits: "c \<in> set (show_nat n) \<Longrightarrow> \<exists>d < 10. c = digit_char d"
proof (induction n rule: show_nat.induct)
  case (1 n)
  show ?case
  proof (cases "n < 10")
    case True
    with "1.prems" show ?thesis by (subst (asm) show_nat.simps) auto
  next
    case False
    with "1.prems" consider "c \<in> set (show_nat (n div 10))" | "c = digit_char (n mod 10)"
      by (subst (asm) show_nat.simps) auto
    then show ?thesis
    proof cases
      case 1
      with False "1.IH" show ?thesis by blast
    next
      case 2
      then show ?thesis by (metis mod_less_divisor zero_less_numeral)
    qed
  qed
qed

lemma show_nat_not_Nil [simp]: "show_nat n \<noteq> []"
  by (subst show_nat.simps) simp

lemma hd_show_nat: "\<exists>d < 10. hd (show_nat n) = digit_char d"
  by (rule show_nat_digits [of _ n]) simp

lemma read_digits_snoc:
  "\<forall>c \<in> set s. is_digit c \<Longrightarrow> is_digit c \<Longrightarrow>
   read_digits acc (s @ [c]) = 10 * read_digits acc s + char_digit c"
  by (induction s arbitrary: acc) auto

lemma read_digits_show_nat: "read_digits 0 (show_nat n) = n"
proof (induction n rule: show_nat.induct)
  case (1 n)
  show ?case
  proof (cases "n < 10")
    case True
    then show ?thesis by (subst show_nat.simps) simp
  next
    case False
    have "\<forall>c \<in> set (show_nat (n div 10)). is_digit c" using show_nat_digits by fastforce
    then have "read_digits 0 (show_nat (n div 10) @ [digit_char (n mod 10)]) = 10 * (n div 10) + n mod 10"
      using "1.IH" [OF False] by (simp add: read_digits_snoc)
    with False show ?thesis by (subst show_nat.simps) simp
  qed
qed

text \<open>Reading back what \<open>std::to_string\<close> wrote gives the number, over the whole range of the type.\<close>

lemma parse_number_to_string: "lo \<le> i \<Longrightarrow> i \<le> hi \<Longrightarrow> parse_number lo hi (to_string i) = Inr i"
proof -
  assume range: "lo \<le> i" "i \<le> hi"
  obtain d where d: "d < 10" "hd (show_nat (nat \<bar>i\<bar>)) = digit_char d" using hd_show_nat by blast
  obtain c cs where cs: "show_nat (nat \<bar>i\<bar>) = c # cs" by (cases "show_nat (nat \<bar>i\<bar>)") auto
  have c: "c = digit_char d" using d cs by simp
  have rd: "read_digits 0 (c # cs) = nat \<bar>i\<bar>" using read_digits_show_nat [of "nat \<bar>i\<bar>"] cs by simp
  show ?thesis
  proof (cases "i < 0")
    case True
    have sp: "\<not> is_space (CHR ''-'')" by (simp add: is_space_def)
    from True have "to_string i = CHR ''-'' # c # cs" using cs by (simp add: to_string_def)
    then show ?thesis using range True rd c d(1) sp by (simp add: parse_number_def Let_def)
  next
    case False
    then have "to_string i = c # cs" using cs by (simp add: to_string_def)
    then show ?thesis using range False rd c d(1) by (simp add: parse_number_def Let_def)
  qed
qed

lemma stoi_to_string: "int_min \<le> i \<Longrightarrow> i \<le> int_max \<Longrightarrow> stoi (to_string i) = Inr i"
  by (simp add: stoi_def parse_number_to_string)

lemma stol_to_string: "long_min \<le> i \<Longrightarrow> i \<le> long_max \<Longrightarrow> stol (to_string i) = Inr i"
  by (simp add: stol_def parse_number_to_string)

lemma to_string_inject: "long_min \<le> i \<Longrightarrow> i \<le> long_max \<Longrightarrow> long_min \<le> j \<Longrightarrow> j \<le> long_max \<Longrightarrow>
    to_string i = to_string j \<Longrightarrow> i = j"
  by (metis stol_to_string sum.inject(2))

text \<open>Numerals are evaluated digit by digit.\<close>

lemma digit_chars:
  "digit_char 0 = CHR ''0''" "digit_char (Suc 0) = CHR ''1''" "digit_char 1 = CHR ''1''" "digit_char 2 = CHR ''2''"
  "digit_char 3 = CHR ''3''" "digit_char 4 = CHR ''4''" "digit_char 5 = CHR ''5''" "digit_char 6 = CHR ''6''"
  "digit_char 7 = CHR ''7''" "digit_char 8 = CHR ''8''" "digit_char 9 = CHR ''9''"
  by (simp_all add: digit_char_def char_of_def bit_Suc_0_iff)

lemmas to_string_eval = to_string_def show_nat.simps digit_chars

section \<open>Tokens\<close>

lemma getline_tokens_no_delim:
  "d \<notin> set s \<Longrightarrow> getline_tokens acc s d = (if acc = [] \<and> s = [] then [] else [rev acc @ s])"
  by (induction s arbitrary: acc) auto

lemma getline_tokens_append_delim:
  "d \<notin> set s \<Longrightarrow> getline_tokens acc (s @ d # t) d = (rev acc @ s) # getline_tokens [] t d"
  by (induction s arbitrary: acc) auto

lemma getline_tokens_no_delim_inside:
  "d \<notin> set acc \<Longrightarrow> t \<in> set (getline_tokens acc s d) \<Longrightarrow> d \<notin> set t"
  by (induction acc s d rule: getline_tokens.induct) (auto split: if_splits)

end
