(* ===== verification/CoreUtils.thy ===== *)
theory CoreUtils
  imports StdString
begin

text \<open>
  \<open>core/src/utils/StringUtils.cpp\<close> and the naming functions of \<open>core/src/utils/AwsUtils.cpp\<close>
  and \<open>core/include/awsmock/core/AwsUtils.h\<close>: splitting and joining, sub-strings, and the
  construction of the resource names (ARN) and queue URLs by which the SQS, SNS and S3 modules
  refer to each other.
\<close>

section \<open>StringUtils\<close>

definition StringUtils_IsNumeric :: "string \<Rightarrow> bool" where
  "StringUtils_IsNumeric value \<longleftrightarrow> value \<noteq> [] \<and> List.find (\<lambda>c. \<not> is_digit c) value = None"

definition StringUtils_Split :: "string \<Rightarrow> char \<Rightarrow> string list" where
  "StringUtils_Split s delimiter = getline_tokens [] s delimiter"

text \<open>
  The loop of \<open>Join\<close> compares its \<open>int\<close> index with the unsigned \<open>vec.size()\<close>, so a negative
  start index runs no iteration.  The separator appended is the literal \<open>"/"\<close>; the parameter
  \<open>delimiter\<close> is not used.
\<close>

fun join_loop :: "string list \<Rightarrow> string" where
  "join_loop [] = []"
| "join_loop [x] = x"
| "join_loop (x # y # xs) = x @ ''/'' @ join_loop (y # xs)"

definition StringUtils_Join :: "string list \<Rightarrow> char \<Rightarrow> int \<Rightarrow> string" where
  "StringUtils_Join vec delimiter startIndex =
     (if startIndex < 0 then [] else join_loop (drop (nat startIndex) vec))"

definition StringUtils_StripWhiteSpaces :: "string \<Rightarrow> string" where
  "StringUtils_StripWhiteSpaces str = filter (\<lambda>c. \<not> is_space c) str"

definition StringUtils_StripLineEndings :: "string \<Rightarrow> string" where
  "StringUtils_StripLineEndings str =
     filter (\<lambda>c. \<not> ((of_char c :: nat) = 10 \<or> (of_char c :: nat) = 13)) str"

text \<open>\<open>s1.substr(n)\<close> throws \<open>std::out_of_range\<close> when \<open>n\<close> is beyond the end.\<close>

definition StringUtils_StripBeginning :: "string \<Rightarrow> string \<Rightarrow> string result" where
  "StringUtils_StripBeginning s1 s2 =
     (if length s1 < length s2 then Inl OutOfRange else Inr (drop (length s2) s1))"

definition StringUtils_Equals :: "string \<Rightarrow> string \<Rightarrow> bool" where
  "StringUtils_Equals s1 s2 = (if s1 = [] \<or> s2 = [] then False else s1 = s2)"

definition StringUtils_EqualsIgnoreCase :: "string \<Rightarrow> string \<Rightarrow> bool" where
  "StringUtils_EqualsIgnoreCase s1 s2 \<longleftrightarrow> to_lower s1 = to_lower s2"

definition StringUtils_Contains :: "string \<Rightarrow> string \<Rightarrow> bool" where
  "StringUtils_Contains s1 s2 \<longleftrightarrow> find_sub s1 s2 \<noteq> None"

definition StringUtils_ContainsIgnoreCase :: "string \<Rightarrow> string \<Rightarrow> bool" where
  "StringUtils_ContainsIgnoreCase s1 s2 \<longleftrightarrow> find_sub (to_lower s1) (to_lower s2) \<noteq> None"

definition StringUtils_StartsWith :: "string \<Rightarrow> string \<Rightarrow> bool" where
  "StringUtils_StartsWith s1 s2 = starts_with s1 s2"

definition StringUtils_StartsWithIgnoringCase :: "string \<Rightarrow> string \<Rightarrow> bool" where
  "StringUtils_StartsWithIgnoringCase s1 s2 = starts_with (to_lower s1) (to_lower s2)"

definition StringUtils_EndsWith :: "string \<Rightarrow> string \<Rightarrow> bool" where
  "StringUtils_EndsWith s1 s2 = ends_with s1 s2"

definition StringUtils_SubString :: "string \<Rightarrow> int \<Rightarrow> int \<Rightarrow> string" where
  "StringUtils_SubString str beginIndex endIndex =
     (let size = int (length str)
      in if beginIndex < 0 \<or> size - 1 < beginIndex then ''-1''
         else if endIndex < 0 \<or> size - 1 < endIndex then ''-1''
         else if endIndex < beginIndex then ''-1''
         else [str ! i. i \<leftarrow> [0..<length str], beginIndex \<le> int i \<and> int i \<le> endIndex])"

definition StringUtils_SubStringUntil :: "string \<Rightarrow> string \<Rightarrow> string" where
  "StringUtils_SubStringUntil str delimiter =
     (case find_sub str delimiter of None \<Rightarrow> str | Some i \<Rightarrow> take i str)"

text \<open>\<open>string.substr(find + 1)\<close>: one character is skipped, however long the delimiter is.\<close>

definition StringUtils_SubStringAfter :: "string \<Rightarrow> string \<Rightarrow> string" where
  "StringUtils_SubStringAfter str delimiter =
     (case find_sub str delimiter of None \<Rightarrow> [] | Some i \<Rightarrow> drop (i + 1) str)"

definition StringUtils_ToString :: "bool \<Rightarrow> string" where
  "StringUtils_ToString value = (if value then ''true'' else ''false'')"

definition hex_char :: "nat \<Rightarrow> char" where
  "hex_char d = (if d < 10 then char_of (48 + d) else char_of (87 + d))"

definition hex_byte :: "char \<Rightarrow> string" where
  "hex_byte c = (let n = of_char c :: nat in [hex_char (n div 16), hex_char (n mod 16)])"

text \<open>Two lower-case hexadecimal digits per byte, as \<open>setw(2) << setfill('0') << hex\<close> prints.\<close>

definition StringUtils_ToHexString :: "string \<Rightarrow> string" where
  "StringUtils_ToHexString input = concat (map hex_byte input)"

definition Crypto_HexEncode :: "string \<Rightarrow> string" where
  "Crypto_HexEncode hash = concat (map hex_byte hash)"

text \<open>
  \<open>ToSnakeCase\<close> reads \<open>in[0]\<close>; of an empty \<open>std::string\<close> that is the terminating NUL, which is
  appended to the result.
\<close>

definition is_upper_char :: "char \<Rightarrow> bool" where
  "is_upper_char c \<longleftrightarrow> 65 \<le> (of_char c :: nat) \<and> (of_char c :: nat) \<le> 90"

definition StringUtils_ToSnakeCase :: "string \<Rightarrow> string" where
  "StringUtils_ToSnakeCase inp =
     (case inp of
        [] \<Rightarrow> [char_of (0 :: nat)]
      | c # cs \<Rightarrow> to_lower_char c #
          concat (map (\<lambda>ch. if is_upper_char ch then [CHR ''-'', to_lower_char ch] else [ch]) cs))"

section \<open>AwsUtils\<close>

text \<open>
  The configuration values the naming functions read.  The constructor of
  \<open>core/config/Configuration.cpp\<close> defines every one of these keys (from the environment or with
  its default), so \<open>getString\<close> always finds them; \<open>host_name\<close> is
  \<open>boost::asio::ip::host_name()\<close>.
\<close>

record config =
  cfg_region :: string          \<comment> \<open>\<open>awsmock.region\<close>\<close>
  cfg_accountId :: string       \<comment> \<open>\<open>awsmock.account.userPoolId\<close>\<close>
  cfg_gateway_port :: string    \<comment> \<open>\<open>awsmock.service.gateway.http.port\<close>\<close>
  cfg_sqs_hostname :: string    \<comment> \<open>\<open>awsmock.service.sqs.hostname\<close>\<close>
  cfg_user :: string            \<comment> \<open>\<open>awsmock.user\<close>\<close>
  host_name :: string
  cfg_dataDir :: string         \<comment> \<open>\<open>awsmock.data.dir\<close>\<close>
  cfg_transferBucket :: string  \<comment> \<open>\<open>awsmock.service.transfer.bucket\<close>\<close>

definition CreateArn :: "string \<Rightarrow> string \<Rightarrow> string \<Rightarrow> string \<Rightarrow> string" where
  "CreateArn service region accountId resourceId =
     ''arn:aws:'' @ service @ '':'' @ region @ '':'' @ accountId @ '':'' @ resourceId"

definition AwsUtils_CreateS3Arn :: "string \<Rightarrow> string \<Rightarrow> string \<Rightarrow> string \<Rightarrow> string" where
  "AwsUtils_CreateS3Arn region accountId bucket key = CreateArn ''s3'' region accountId (bucket @ ''/'' @ key)"

definition AwsUtils_CreateLambdaArn :: "string \<Rightarrow> string \<Rightarrow> string \<Rightarrow> string" where
  "AwsUtils_CreateLambdaArn region accountId func = CreateArn ''lambda'' region accountId (''function:'' @ func)"

definition AwsUtils_CreateSNSTopicArn :: "string \<Rightarrow> string \<Rightarrow> string \<Rightarrow> string" where
  "AwsUtils_CreateSNSTopicArn region accountId topicName = CreateArn ''sns'' region accountId topicName"

text \<open>The last argument is the random UUID that the function draws.\<close>

definition AwsUtils_CreateSNSSubscriptionArn :: "string \<Rightarrow> string \<Rightarrow> string \<Rightarrow> string \<Rightarrow> string" where
  "AwsUtils_CreateSNSSubscriptionArn region accountId topicName uuid =
     CreateArn ''sns'' region accountId (topicName @ '':'' @ uuid)"

definition CreateSQSQueueUrl :: "config \<Rightarrow> string \<Rightarrow> string" where
  "CreateSQSQueueUrl cfg queueName =
     ''http://sqs.'' @ cfg_region cfg @ ''.'' @ host_name cfg @ '':'' @ cfg_gateway_port cfg @ ''/'' @
     cfg_accountId cfg @ ''/'' @ queueName"

definition CreateSQSQueueArn :: "config \<Rightarrow> string \<Rightarrow> string" where
  "CreateSQSQueueArn cfg queueName = CreateArn ''sqs'' (cfg_region cfg) (cfg_accountId cfg) queueName"

definition AwsUtils_ConvertSQSQueueArnToUrl :: "config \<Rightarrow> string \<Rightarrow> string" where
  "AwsUtils_ConvertSQSQueueArnToUrl cfg queueArn =
     (let parts = StringUtils_Split queueArn (CHR '':'')
      in if length parts < 6 then []
         else ''http://sqs.'' @ cfg_region cfg @ ''.'' @ cfg_sqs_hostname cfg @ '':'' @
              cfg_gateway_port cfg @ ''/'' @ (parts ! 4) @ ''/'' @ (parts ! 5))"

definition IsSQSUrl :: "string \<Rightarrow> bool" where
  "IsSQSUrl queue = StringUtils_StartsWith queue ''http''"

definition IsSQSArn :: "string \<Rightarrow> bool" where
  "IsSQSArn queue = StringUtils_ContainsIgnoreCase queue ''arn''"

definition SanitizeSQSUrl :: "config \<Rightarrow> string \<Rightarrow> string" where
  "SanitizeSQSUrl cfg queue =
     (if IsSQSUrl queue then queue
      else if IsSQSArn queue then AwsUtils_ConvertSQSQueueArnToUrl cfg queue
      else CreateSQSQueueUrl cfg queue)"

section \<open>Splitting and joining\<close>

lemma getline_tokens_acc:
  "acc \<noteq> [] \<Longrightarrow> getline_tokens acc s d \<noteq> []"
  by (induction acc s d rule: getline_tokens.induct) auto

lemma join_loop_Cons: "ts \<noteq> [] \<Longrightarrow> join_loop (x # ts) = x @ ''/'' @ join_loop ts"
  by (cases ts) auto

lemma join_getline:
  "\<not> ends_with (rev acc @ s) ''/'' \<Longrightarrow> join_loop (getline_tokens acc s (CHR ''/'')) = rev acc @ s"
proof (induction acc s "CHR ''/''" rule: getline_tokens.induct)
  case (1 acc)
  then show ?case by simp
next
  case (2 acc c s)
  show ?case
  proof (cases "c = CHR ''/''")
    case False
    with 2 show ?thesis by simp
  next
    case True
    have ne: "s \<noteq> []" using 2(3) True by (auto simp: ends_with_iff)
    have "\<not> ends_with s ''/''" using 2(3) by (auto simp: ends_with_iff)
    then have IH: "join_loop (getline_tokens [] s (CHR ''/'')) = s" using 2(1) [OF True] by simp
    moreover have "getline_tokens [] s (CHR ''/'') \<noteq> []" using ne IH by (cases s) auto
    ultimately show ?thesis using True by (simp add: join_loop_Cons)
  qed
qed

text \<open>Joining the tokens of a path gives the path back, unless it ends in the delimiter.\<close>

lemma Join_Split: "\<not> ends_with s ''/'' \<Longrightarrow> StringUtils_Join (StringUtils_Split s (CHR ''/'')) d 0 = s"
  using join_getline [of "[]" s] by (simp add: StringUtils_Join_def StringUtils_Split_def)

lemma Split_no_delimiter: "t \<in> set (StringUtils_Split s d) \<Longrightarrow> d \<notin> set t"
  unfolding StringUtils_Split_def by (rule getline_tokens_no_delim_inside) auto

lemma Split_append_delim:
  "d \<notin> set s \<Longrightarrow> StringUtils_Split (s @ d # t) d = s # StringUtils_Split t d"
  using getline_tokens_append_delim [of d s "[]" t] by (simp add: StringUtils_Split_def)

lemma Split_single: "d \<notin> set s \<Longrightarrow> s \<noteq> [] \<Longrightarrow> StringUtils_Split s d = [s]"
  using getline_tokens_no_delim [of d s "[]"] by (simp add: StringUtils_Split_def)

lemma length_Split_le: "length (StringUtils_Split s d) \<le> Suc (count_list s d)"
proof -
  have "length (getline_tokens acc s d) \<le> Suc (count_list s d)" for acc
    by (induction acc s d rule: getline_tokens.induct) auto
  then show ?thesis by (simp add: StringUtils_Split_def)
qed

section \<open>Names of queues\<close>

lemma Split_Arn:
  assumes "CHR '':'' \<notin> set service" "CHR '':'' \<notin> set region" "CHR '':'' \<notin> set accountId"
    "CHR '':'' \<notin> set resource" "resource \<noteq> []"
  shows "StringUtils_Split (CreateArn service region accountId resource) (CHR '':'') =
           [''arn'', ''aws'', service, region, accountId, resource]"
proof -
  have "CreateArn service region accountId resource =
          ''arn'' @ CHR '':'' # ''aws'' @ CHR '':'' # service @ CHR '':'' # region @ CHR '':'' #
          accountId @ CHR '':'' # resource"
    by (simp add: CreateArn_def)
  then show ?thesis using assms by (simp only:) (simp add: Split_append_delim Split_single
    Split_append_delim [of _ "''arn''", simplified] Split_append_delim [of _ "''aws''", simplified])
qed

definition plain_name :: "string \<Rightarrow> bool" where
  "plain_name s \<longleftrightarrow> CHR '':'' \<notin> set s"

lemma ConvertSQSQueueArnToUrl_Create:
  assumes "plain_name (cfg_region cfg)" "plain_name (cfg_accountId cfg)" "plain_name name" "name \<noteq> []"
  shows "AwsUtils_ConvertSQSQueueArnToUrl cfg (CreateSQSQueueArn cfg name) =
           ''http://sqs.'' @ cfg_region cfg @ ''.'' @ cfg_sqs_hostname cfg @ '':'' @
           cfg_gateway_port cfg @ ''/'' @ cfg_accountId cfg @ ''/'' @ name"
  using assms Split_Arn [of "''sqs''" "cfg_region cfg" "cfg_accountId cfg" name]
  by (simp add: AwsUtils_ConvertSQSQueueArnToUrl_def CreateSQSQueueArn_def plain_name_def)

text \<open>
  A queue's URL and the URL computed from its ARN agree exactly when the configured SQS host name
  is the host name of the machine.
\<close>

lemma ArnToUrl_agrees_iff:
  assumes "plain_name (cfg_region cfg)" "plain_name (cfg_accountId cfg)" "plain_name name" "name \<noteq> []"
  shows "AwsUtils_ConvertSQSQueueArnToUrl cfg (CreateSQSQueueArn cfg name) = CreateSQSQueueUrl cfg name
           \<longleftrightarrow> cfg_sqs_hostname cfg = host_name cfg"
  unfolding ConvertSQSQueueArnToUrl_Create [OF assms] CreateSQSQueueUrl_def by auto

lemma ConvertSQSQueueArnToUrl_short:
  "count_list arn (CHR '':'') < 5 \<Longrightarrow> AwsUtils_ConvertSQSQueueArnToUrl cfg arn = []"
  using length_Split_le [of arn "CHR '':''"] by (simp add: AwsUtils_ConvertSQSQueueArnToUrl_def Let_def)

lemma SanitizeSQSUrl_url: "starts_with q ''http'' \<Longrightarrow> SanitizeSQSUrl cfg q = q"
  by (simp add: SanitizeSQSUrl_def IsSQSUrl_def StringUtils_StartsWith_def)

lemma CreateSQSQueueUrl_http: "starts_with (CreateSQSQueueUrl cfg name) ''http''"
  by (simp add: CreateSQSQueueUrl_def starts_with_def)

lemma ConvertSQSQueueArnToUrl_http:
  "AwsUtils_ConvertSQSQueueArnToUrl cfg arn \<noteq> [] \<Longrightarrow>
   starts_with (AwsUtils_ConvertSQSQueueArnToUrl cfg arn) ''http''"
  by (simp add: AwsUtils_ConvertSQSQueueArnToUrl_def Let_def starts_with_def split: if_splits)

lemma SanitizeSQSUrl_idem:
  "SanitizeSQSUrl cfg q \<noteq> [] \<Longrightarrow> SanitizeSQSUrl cfg (SanitizeSQSUrl cfg q) = SanitizeSQSUrl cfg q"
proof -
  assume ne: "SanitizeSQSUrl cfg q \<noteq> []"
  then have "starts_with (SanitizeSQSUrl cfg q) ''http''"
    using CreateSQSQueueUrl_http [of cfg q] ConvertSQSQueueArnToUrl_http [of cfg q]
    by (auto simp: SanitizeSQSUrl_def IsSQSUrl_def StringUtils_StartsWith_def split: if_splits)
  then show ?thesis by (rule SanitizeSQSUrl_url)
qed

lemma SanitizeSQSUrl_plain_arn:
  "\<not> starts_with q ''http'' \<Longrightarrow> IsSQSArn q \<Longrightarrow> plain_name q \<Longrightarrow> SanitizeSQSUrl cfg q = []"
proof -
  assume "\<not> starts_with q ''http''" "IsSQSArn q" "plain_name q"
  moreover from \<open>plain_name q\<close> have "count_list q (CHR '':'') = 0"
    by (simp add: plain_name_def)
  ultimately show ?thesis
    by (simp add: SanitizeSQSUrl_def IsSQSUrl_def StringUtils_StartsWith_def
        ConvertSQSQueueArnToUrl_short)
qed

section \<open>Hexadecimal encoding\<close>

lemma length_HexEncode: "length (Crypto_HexEncode h) = 2 * length h"
  by (induction h) (auto simp: Crypto_HexEncode_def hex_byte_def Let_def)

lemma hex_char_inj: "a < 16 \<Longrightarrow> b < 16 \<Longrightarrow> hex_char a = hex_char b \<Longrightarrow> a = b"
proof -
  assume ab: "a < 16" "b < 16" "hex_char a = hex_char b"
  have "(of_char (hex_char d) :: nat) = (if d < 10 then 48 + d else 87 + d)" if "d < 16" for d
    using that by (simp add: hex_char_def)
  with ab have "(if a < 10 then 48 + a else 87 + a) = (if b < 10 then 48 + b else 87 + b)" by metis
  then show ?thesis by (auto split: if_splits)
qed

lemma hex_byte_inj: "hex_byte a = hex_byte b \<Longrightarrow> a = b"
proof -
  assume eq: "hex_byte a = hex_byte b"
  have lt: "(of_char c :: nat) div 16 < 16" "(of_char c :: nat) mod 16 < 16" for c :: char
    using nat_of_char_less_256 [of c] by (simp_all add: div_less_iff_less_mult)
  have "(of_char a :: nat) div 16 = of_char b div 16" "(of_char a :: nat) mod 16 = of_char b mod 16"
    using eq hex_char_inj lt by (auto simp: hex_byte_def Let_def)
  then have "(of_char a :: nat) = of_char b" by (metis div_mod_decomp)
  then show ?thesis by simp
qed

lemma HexEncode_inj: "Crypto_HexEncode a = Crypto_HexEncode b \<Longrightarrow> a = b"
proof (induction a arbitrary: b)
  case Nil
  then show ?case by (cases b) (auto simp: Crypto_HexEncode_def hex_byte_def Let_def)
next
  case (Cons x a)
  then obtain y b' where b: "b = y # b'"
    by (cases b) (auto simp: Crypto_HexEncode_def hex_byte_def Let_def)
  have "length (hex_byte x) = length (hex_byte y)" by (simp add: hex_byte_def Let_def)
  with Cons.prems b have "hex_byte x = hex_byte y" "Crypto_HexEncode a = Crypto_HexEncode b'"
    by (simp_all add: Crypto_HexEncode_def)
  with Cons.IH b show ?case by (auto dest: hex_byte_inj)
qed

end
