(* ===== verification/SQSEntities.thy ===== *)
theory SQSEntities
  imports EntityStore CoreUtils
begin

text \<open>
  The SQS entities of \<open>db/include/awsmock/entity/sqs\<close>: queues with their attributes and redrive
  policy, messages with their delivery state.  Instants of \<open>std::chrono::system_clock\<close> are
  integers in nanoseconds, instants of \<open>Poco::DateTime\<close> integers in microseconds.  A C++
  \<open>int\<close> or \<open>long\<close> field is an \<open>int\<close>; no operation computes with one beyond adding 1 per
  delivery (\<open>retries\<close>).
\<close>

definition seconds :: "int \<Rightarrow> int" where
  "seconds n = n * 1000000000"

definition poco_time :: "int \<Rightarrow> int" where
  "poco_time chrono = chrono div 1000"

section \<open>Queues\<close>

record RedrivePolicy =
  rp_deadLetterTargetArn :: string
  rp_maxReceiveCount :: int

definition RedrivePolicy_init :: RedrivePolicy where
  "RedrivePolicy_init = \<lparr>rp_deadLetterTargetArn = [], rp_maxReceiveCount = 0\<rparr>"

record QueueAttribute =
  qa_delaySeconds :: int
  qa_maxMessageSize :: int
  qa_messageRetentionPeriod :: int
  qa_receiveMessageWaitTime :: int
  qa_visibilityTimeout :: int
  qa_policy :: string
  qa_redrivePolicy :: RedrivePolicy
  qa_redriveAllowPolicy :: string
  qa_approximateNumberOfMessages :: int
  qa_approximateNumberOfMessagesDelayed :: int
  qa_approximateNumberOfMessagesNotVisible :: int
  qa_queueArn :: string

definition QueueAttribute_init :: QueueAttribute where
  "QueueAttribute_init =
     \<lparr>qa_delaySeconds = 0, qa_maxMessageSize = 262144, qa_messageRetentionPeriod = 345600,
      qa_receiveMessageWaitTime = 20, qa_visibilityTimeout = 30, qa_policy = [],
      qa_redrivePolicy = RedrivePolicy_init, qa_redriveAllowPolicy = [],
      qa_approximateNumberOfMessages = 0, qa_approximateNumberOfMessagesDelayed = 0,
      qa_approximateNumberOfMessagesNotVisible = 0, qa_queueArn = []\<rparr>"

record Queue =
  q_oid :: string
  q_region :: string
  q_name :: string
  q_owner :: string
  q_queueUrl :: string
  q_queueArn :: string
  q_attributes :: QueueAttribute
  q_tags :: "(string, string) smap"
  q_created :: int     \<comment> \<open>microseconds\<close>
  q_modified :: int    \<comment> \<open>microseconds\<close>

text \<open>\<open>Entity::SQS::Queue{}\<close>: every member has its default initialiser, the two dates the clock.\<close>

definition Queue_init :: "int \<Rightarrow> Queue" where
  "Queue_init now =
     \<lparr>q_oid = [], q_region = [], q_name = [], q_owner = [], q_queueUrl = [], q_queueArn = [],
      q_attributes = QueueAttribute_init, q_tags = [], q_created = poco_time now,
      q_modified = poco_time now\<rparr>"

section \<open>Messages\<close>

datatype MessageStatus = INITIAL | DELAYED | INVISIBLE | UNKNOWN

fun MessageStatusToString :: "MessageStatus \<Rightarrow> string" where
  "MessageStatusToString INITIAL = ''INITIAL''"
| "MessageStatusToString DELAYED = ''DELAYED''"
| "MessageStatusToString INVISIBLE = ''INVISIBLE''"
| "MessageStatusToString UNKNOWN = []"   \<comment> \<open>\<open>operator[]\<close> of the name map makes an empty name\<close>

definition MessageStatusFromString :: "string \<Rightarrow> MessageStatus" where
  "MessageStatusFromString s =
     (if s = ''INITIAL'' then INITIAL
      else if s = ''DELAYED'' then DELAYED
      else if s = ''INVISIBLE'' then INVISIBLE
      else UNKNOWN)"

datatype MessageAttributeType = STRING | NUMBER | BINARY

fun MessageAttributeTypeToString :: "MessageAttributeType \<Rightarrow> string" where
  "MessageAttributeTypeToString STRING = ''String''"
| "MessageAttributeTypeToString NUMBER = ''Number''"
| "MessageAttributeTypeToString BINARY = ''Binary''"

definition MessageAttributeTypeFromString :: "string \<Rightarrow> MessageAttributeType" where
  "MessageAttributeTypeFromString s =
     (if s = ''String'' then STRING
      else if s = ''Number'' then NUMBER
      else if s = ''Binary'' then BINARY
      else STRING)"

record MessageAttribute =
  ma_attributeName :: string
  ma_attributeValue :: string
  ma_attributeType :: MessageAttributeType
  ma_systemAttribute :: bool

record Message =
  m_oid :: string
  m_region :: string
  m_queueUrl :: string
  m_queueName :: string
  m_body :: string
  m_status :: MessageStatus
  m_reset :: int          \<comment> \<open>nanoseconds\<close>
  m_retries :: int
  m_messageId :: string
  m_receiptHandle :: string
  m_md5Body :: string
  m_md5UserAttr :: string
  m_md5SystemAttr :: string
  m_attributes :: "(string, string) smap"
  m_messageAttributes :: "MessageAttribute list"
  m_created :: int        \<comment> \<open>nanoseconds\<close>
  m_modified :: int       \<comment> \<open>nanoseconds\<close>

text \<open>\<open>Entity::SQS::Message{}\<close>; a default-constructed \<open>time_point\<close> is the epoch.\<close>

definition Message_init :: "int \<Rightarrow> Message" where
  "Message_init now =
     \<lparr>m_oid = [], m_region = [], m_queueUrl = [], m_queueName = [], m_body = [],
      m_status = INITIAL, m_reset = 0, m_retries = 0, m_messageId = [], m_receiptHandle = [],
      m_md5Body = [], m_md5UserAttr = [], m_md5SystemAttr = [], m_attributes = [],
      m_messageAttributes = [], m_created = now, m_modified = now\<rparr>"

definition Message_HasAttribute :: "string \<Rightarrow> Message \<Rightarrow> bool" where
  "Message_HasAttribute key m \<longleftrightarrow> smap_find_if (\<lambda>(k, v). k = key) (m_attributes m) \<noteq> None"

definition Message_GetIntAttribute :: "string \<Rightarrow> Message \<Rightarrow> int result" where
  "Message_GetIntAttribute key m =
     (if Message_HasAttribute key m
      then (case smap_find_if (\<lambda>(k, v). k = key) (m_attributes m) of
              Some (k, v) \<Rightarrow> stoi v
            | None \<Rightarrow> Inl UndefinedBehaviour)
      else Inr (- 1))"

section \<open>Enumerations and their names\<close>

lemma MessageStatus_roundtrip [simp]: "MessageStatusFromString (MessageStatusToString s) = s"
  by (cases s) (simp_all add: MessageStatusFromString_def)

lemma MessageAttributeType_roundtrip [simp]:
  "MessageAttributeTypeFromString (MessageAttributeTypeToString t) = t"
  by (cases t) (simp_all add: MessageAttributeTypeFromString_def)

lemma Message_HasAttribute_iff: "Message_HasAttribute key m \<longleftrightarrow> key \<in> fst ` set (m_attributes m)"
  unfolding Message_HasAttribute_def smap_find_if_not_None by force

text \<open>\<open>GetIntAttribute\<close> never reaches the end iterator, and reads back a number that was stored.\<close>

lemma Message_GetIntAttribute_stored:
  assumes "smap_inv (m_attributes m)" "smap_get key (m_attributes m) = Some (to_string i)"
    "int_min \<le> i" "i \<le> int_max"
  shows "Message_GetIntAttribute key m = Inr i"
  using assms
  by (simp add: Message_GetIntAttribute_def Message_HasAttribute_def smap_find_if_key stoi_to_string)

end
