(* ===== verification/SQSMemoryDb.thy ===== *)
theory SQSMemoryDb
  imports SQSEntities
begin

text \<open>
  \<open>db/src/memorydb/SQSMemoryDb.cpp\<close>: the in-memory store of queues and messages, one definition
  per method, and the methods of \<open>db/src/repository/SQSDatabase.cpp\<close> that do more than call
  it.  The mutexes serialise the methods, so each method is one step on the state.  What a method
  draws from outside is an argument: the random object id of a new entity, the clock, the random
  receipt handles.  Inside a loop over the messages a draw may differ from one iteration to the
  next, so it is a function of the key of the message visited.
\<close>

record sqs_db =
  sqs_queues :: "(string, Queue) smap"
  sqs_messages :: "(string, Message) smap"

section \<open>Queues\<close>

definition SQSMemoryDb_QueueExists :: "string \<Rightarrow> string \<Rightarrow> sqs_db \<Rightarrow> bool" where
  "SQSMemoryDb_QueueExists region name db \<longleftrightarrow>
     smap_find_if (\<lambda>(k, q). q_region q = region \<and> q_name q = name) (sqs_queues db) \<noteq> None"

definition SQSMemoryDb_QueueUrlExists :: "string \<Rightarrow> string \<Rightarrow> sqs_db \<Rightarrow> bool" where
  "SQSMemoryDb_QueueUrlExists region queueUrl db \<longleftrightarrow>
     smap_find_if (\<lambda>(k, q). q_region q = region \<and> q_queueUrl q = queueUrl) (sqs_queues db) \<noteq> None"

definition SQSMemoryDb_QueueArnExists :: "string \<Rightarrow> sqs_db \<Rightarrow> bool" where
  "SQSMemoryDb_QueueArnExists queueArn db \<longleftrightarrow>
     smap_find_if (\<lambda>(k, q). q_queueArn q = queueArn) (sqs_queues db) \<noteq> None"

definition queue_fetch :: "(string \<times> Queue \<Rightarrow> bool) \<Rightarrow> int \<Rightarrow> sqs_db \<Rightarrow> Queue \<times> sqs_db" where
  "queue_fetch P now db =
     (case smap_fetch P (\<lambda>oid q. q\<lparr>q_oid := oid\<rparr>) (Queue_init now) (sqs_queues db) of
        (q, qs) \<Rightarrow> (q, db\<lparr>sqs_queues := qs\<rparr>))"

definition SQSMemoryDb_GetQueueById :: "int \<Rightarrow> string \<Rightarrow> sqs_db \<Rightarrow> Queue \<times> sqs_db" where
  "SQSMemoryDb_GetQueueById now oid = queue_fetch (\<lambda>(k, q). k = oid) now"

definition SQSMemoryDb_GetQueueByArn :: "int \<Rightarrow> string \<Rightarrow> sqs_db \<Rightarrow> Queue \<times> sqs_db" where
  "SQSMemoryDb_GetQueueByArn now queueArn = queue_fetch (\<lambda>(k, q). q_queueArn q = queueArn) now"

definition SQSMemoryDb_GetQueueByUrl :: "int \<Rightarrow> string \<Rightarrow> sqs_db \<Rightarrow> Queue \<times> sqs_db" where
  "SQSMemoryDb_GetQueueByUrl now queueUrl = queue_fetch (\<lambda>(k, q). q_queueUrl q = queueUrl) now"

definition SQSMemoryDb_GetQueueByName :: "int \<Rightarrow> string \<Rightarrow> string \<Rightarrow> sqs_db \<Rightarrow> Queue \<times> sqs_db" where
  "SQSMemoryDb_GetQueueByName now region name =
     queue_fetch (\<lambda>(k, q). q_region q = region \<and> q_name q = name) now"

definition SQSMemoryDb_CreateQueue :: "int \<Rightarrow> string \<Rightarrow> Queue \<Rightarrow> sqs_db \<Rightarrow> Queue \<times> sqs_db" where
  "SQSMemoryDb_CreateQueue now oid queue db =
     SQSMemoryDb_GetQueueById now oid (db\<lparr>sqs_queues := smap_put oid queue (sqs_queues db)\<rparr>)"

text \<open>The region is a parameter of \<open>ListQueues\<close> that its body does not read.\<close>

definition SQSMemoryDb_ListQueues :: "string \<Rightarrow> sqs_db \<Rightarrow> Queue list" where
  "SQSMemoryDb_ListQueues region db = smap_values (sqs_queues db)"

definition SQSMemoryDb_PurgeQueue :: "string \<Rightarrow> string \<Rightarrow> sqs_db \<Rightarrow> sqs_db" where
  "SQSMemoryDb_PurgeQueue region queueUrl db =
     db\<lparr>sqs_messages := smap_erase_if (\<lambda>(k, m). m_region m = region \<and> m_queueUrl m = queueUrl)
          (sqs_messages db)\<rparr>"

definition SQSMemoryDb_UpdateQueue :: "Queue \<Rightarrow> sqs_db \<Rightarrow> (Queue, sqs_db) outcome" where
  "SQSMemoryDb_UpdateQueue queue db =
     (case smap_replace (\<lambda>(k, q). q_region q = q_region queue \<and> q_name q = q_name queue) queue
             (sqs_queues db) of
        (r, qs) \<Rightarrow> (r, db\<lparr>sqs_queues := qs\<rparr>))"

definition SQSMemoryDb_CountQueues :: "string \<Rightarrow> sqs_db \<Rightarrow> int" where
  "SQSMemoryDb_CountQueues region db =
     (if region = [] then int (length (sqs_queues db))
      else smap_count_if (\<lambda>(k, q). q_region q = region) (sqs_queues db))"

definition SQSMemoryDb_DeleteQueue :: "string \<Rightarrow> string \<Rightarrow> sqs_db \<Rightarrow> sqs_db" where
  "SQSMemoryDb_DeleteQueue region queueUrl db =
     db\<lparr>sqs_queues := smap_erase_if (\<lambda>(k, q). q_region q = region \<and> q_queueUrl q = queueUrl)
          (sqs_queues db)\<rparr>"

definition SQSMemoryDb_DeleteAllQueues :: "sqs_db \<Rightarrow> sqs_db" where
  "SQSMemoryDb_DeleteAllQueues db = db\<lparr>sqs_queues := []\<rparr>"

section \<open>Messages\<close>

definition message_fetch :: "(string \<times> Message \<Rightarrow> bool) \<Rightarrow> int \<Rightarrow> sqs_db \<Rightarrow> Message \<times> sqs_db" where
  "message_fetch P now db =
     (case smap_fetch P (\<lambda>oid m. m\<lparr>m_oid := oid\<rparr>) (Message_init now) (sqs_messages db) of
        (m, ms) \<Rightarrow> (m, db\<lparr>sqs_messages := ms\<rparr>))"

definition SQSMemoryDb_GetMessageById :: "int \<Rightarrow> string \<Rightarrow> sqs_db \<Rightarrow> Message \<times> sqs_db" where
  "SQSMemoryDb_GetMessageById now oid = message_fetch (\<lambda>(k, m). k = oid) now"

definition SQSMemoryDb_GetMessageByReceiptHandle :: "int \<Rightarrow> string \<Rightarrow> sqs_db \<Rightarrow> Message \<times> sqs_db" where
  "SQSMemoryDb_GetMessageByReceiptHandle now receiptHandle =
     message_fetch (\<lambda>(k, m). m_receiptHandle m = receiptHandle) now"

definition SQSMemoryDb_CreateMessage :: "int \<Rightarrow> string \<Rightarrow> Message \<Rightarrow> sqs_db \<Rightarrow> Message \<times> sqs_db" where
  "SQSMemoryDb_CreateMessage now oid message db =
     SQSMemoryDb_GetMessageById now oid (db\<lparr>sqs_messages := smap_put oid message (sqs_messages db)\<rparr>)"

definition SQSMemoryDb_MessageExists :: "string \<Rightarrow> sqs_db \<Rightarrow> bool" where
  "SQSMemoryDb_MessageExists receiptHandle db \<longleftrightarrow>
     smap_find_if (\<lambda>(k, m). m_receiptHandle m = receiptHandle) (sqs_messages db) \<noteq> None"

definition SQSMemoryDb_UpdateMessage :: "Message \<Rightarrow> sqs_db \<Rightarrow> (Message, sqs_db) outcome" where
  "SQSMemoryDb_UpdateMessage message db =
     (case smap_replace (\<lambda>(k, m). m_oid m = m_oid message) message (sqs_messages db) of
        (r, ms) \<Rightarrow> (r, db\<lparr>sqs_messages := ms\<rparr>))"

definition SQSMemoryDb_ListMessages :: "string \<Rightarrow> sqs_db \<Rightarrow> Message list" where
  "SQSMemoryDb_ListMessages region db =
     (if region = [] then smap_values (sqs_messages db)
      else [m. (k, m) \<leftarrow> sqs_messages db, m_region m = region])"

text \<open>
  \<open>messageList.size() >= maxMessages\<close> compares a \<open>size_t\<close> with an \<open>int\<close>, which is converted to
  the unsigned type: a negative limit is a very large one.
\<close>

definition size_ge_int :: "nat \<Rightarrow> int \<Rightarrow> bool" where
  "size_ge_int n limit \<longleftrightarrow> int n \<ge> (if limit < 0 then limit + 2 ^ 64 else limit)"

definition message_received :: "string \<Rightarrow> Message \<Rightarrow> Message" where
  "message_received handle m = m\<lparr>m_retries := m_retries m + 1, m_receiptHandle := handle\<rparr>"

definition message_hidden :: "int \<Rightarrow> Message \<Rightarrow> Message" where
  "message_hidden reset m = m\<lparr>m_status := INVISIBLE, m_reset := reset\<rparr>"

text \<open>
  The loop of \<open>ReceiveMessages\<close>: \<open>ms\<close> are the nodes still to visit, \<open>acc\<close> is
  \<open>messageList\<close>; the result is the nodes after the loop and the list.  \<open>_messages[message.first] =
  message.second\<close> writes the node the iteration stands on.
\<close>

fun receive_loop ::
  "string \<Rightarrow> string \<Rightarrow> int \<Rightarrow> int \<Rightarrow> (string \<Rightarrow> string) \<Rightarrow> (string, Message) smap \<Rightarrow> Message list \<Rightarrow>
   (string, Message) smap \<times> Message list" where
  "receive_loop region queueUrl reset maxMessages handle [] acc = ([], acc)"
| "receive_loop region queueUrl reset maxMessages handle ((k, m) # ms) acc =
     (if m_region m = region \<and> m_queueUrl m = queueUrl \<and> m_status m = INITIAL
      then let m1 = message_received (handle k) m;
               acc1 = acc @ [m1];
               m2 = message_hidden reset m1
           in if size_ge_int (length acc1) maxMessages then ((k, m2) # ms, acc1)
              else (case receive_loop region queueUrl reset maxMessages handle ms acc1 of
                      (ms', acc') \<Rightarrow> ((k, m2) # ms', acc'))
      else (case receive_loop region queueUrl reset maxMessages handle ms acc of
              (ms', acc') \<Rightarrow> ((k, m) # ms', acc')))"

definition SQSMemoryDb_ReceiveMessages ::
  "int \<Rightarrow> (string \<Rightarrow> string) \<Rightarrow> string \<Rightarrow> string \<Rightarrow> int \<Rightarrow> int \<Rightarrow> Message list \<Rightarrow> sqs_db \<Rightarrow>
   Message list \<times> sqs_db" where
  "SQSMemoryDb_ReceiveMessages now handle region queueUrl visibility maxMessages messageList db =
     (case receive_loop region queueUrl (now + seconds visibility) maxMessages handle
             (sqs_messages db) messageList of
        (ms, acc) \<Rightarrow> (acc, db\<lparr>sqs_messages := ms\<rparr>))"

definition message_reset :: "string \<Rightarrow> int \<Rightarrow> Message \<Rightarrow> Message" where
  "message_reset queueUrl now m =
     (if m_queueUrl m = queueUrl \<and> m_status m = INVISIBLE \<and> m_reset m < now
      then m\<lparr>m_status := INITIAL, m_receiptHandle := []\<rparr> else m)"

definition SQSMemoryDb_ResetMessages :: "(string \<Rightarrow> int) \<Rightarrow> string \<Rightarrow> int \<Rightarrow> sqs_db \<Rightarrow> sqs_db" where
  "SQSMemoryDb_ResetMessages now queueUrl visibility db =
     db\<lparr>sqs_messages := map (\<lambda>(k, m). (k, message_reset queueUrl (now k) m)) (sqs_messages db)\<rparr>"

definition message_redrive :: "string \<Rightarrow> string \<Rightarrow> int \<Rightarrow> Message \<Rightarrow> Message" where
  "message_redrive queueUrl dlqQueueUrl maxReceiveCount m =
     (if m_queueUrl m = queueUrl \<and> m_status m = INITIAL \<and> maxReceiveCount < m_retries m
      then m\<lparr>m_retries := 0, m_queueUrl := dlqQueueUrl\<rparr> else m)"

definition SQSMemoryDb_RedriveMessages ::
  "config \<Rightarrow> string \<Rightarrow> RedrivePolicy \<Rightarrow> sqs_db \<Rightarrow> sqs_db" where
  "SQSMemoryDb_RedriveMessages cfg queueUrl redrivePolicy db =
     (let dlqQueueUrl = AwsUtils_ConvertSQSQueueArnToUrl cfg (rp_deadLetterTargetArn redrivePolicy)
      in db\<lparr>sqs_messages :=
              map (\<lambda>(k, m). (k, message_redrive queueUrl dlqQueueUrl (rp_maxReceiveCount redrivePolicy) m))
                  (sqs_messages db)\<rparr>)"

definition message_undelay :: "string \<Rightarrow> int \<Rightarrow> Message \<Rightarrow> Message" where
  "message_undelay queueUrl now m =
     (if m_queueUrl m = queueUrl \<and> m_status m = DELAYED \<and> m_reset m < now
      then m\<lparr>m_status := INITIAL\<rparr> else m)"

definition SQSMemoryDb_ResetDelayedMessages :: "(string \<Rightarrow> int) \<Rightarrow> string \<Rightarrow> int \<Rightarrow> sqs_db \<Rightarrow> sqs_db" where
  "SQSMemoryDb_ResetDelayedMessages now queueUrl delay db =
     db\<lparr>sqs_messages := map (\<lambda>(k, m). (k, message_undelay queueUrl (now k) m)) (sqs_messages db)\<rparr>"

text \<open>
  \<open>MessageRetention\<close> calls \<open>DeleteMessage(message.second)\<close> inside the range-for over
  \<open>_messages\<close>.  The call erases every message with that receipt handle, the current one among
  them, so the loop then increments an invalidated iterator: the first message that satisfies the
  condition is where the behaviour stops being defined.  The instant computed from
  \<open>retentionPeriod\<close> is not used.
\<close>

fun retention_loop :: "(string \<Rightarrow> int) \<Rightarrow> string \<Rightarrow> (string, Message) smap \<Rightarrow> unit result" where
  "retention_loop now queueUrl [] = Inr ()"
| "retention_loop now queueUrl ((k, m) # ms) =
     (if m_queueUrl m = queueUrl \<and> m_status m = DELAYED \<and> m_reset m < now k
      then Inl UndefinedBehaviour else retention_loop now queueUrl ms)"

definition SQSMemoryDb_MessageRetention ::
  "(string \<Rightarrow> int) \<Rightarrow> string \<Rightarrow> int \<Rightarrow> sqs_db \<Rightarrow> (unit, sqs_db) outcome" where
  "SQSMemoryDb_MessageRetention now queueUrl retentionPeriod db =
     (retention_loop now queueUrl (sqs_messages db), db)"

definition SQSMemoryDb_CountMessages :: "string \<Rightarrow> string \<Rightarrow> sqs_db \<Rightarrow> int" where
  "SQSMemoryDb_CountMessages region queueUrl db =
     (if region = [] \<and> queueUrl = [] then int (length (sqs_messages db))
      else if region \<noteq> [] \<and> queueUrl \<noteq> []
      then smap_count_if (\<lambda>(k, m). m_region m = region \<and> m_queueUrl m = queueUrl) (sqs_messages db)
      else if region = [] \<and> queueUrl \<noteq> []
      then smap_count_if (\<lambda>(k, m). m_queueUrl m = queueUrl) (sqs_messages db)
      else smap_count_if (\<lambda>(k, m). m_region m = region) (sqs_messages db))"

definition SQSMemoryDb_CountMessagesByStatus ::
  "string \<Rightarrow> string \<Rightarrow> MessageStatus \<Rightarrow> sqs_db \<Rightarrow> int" where
  "SQSMemoryDb_CountMessagesByStatus region queueUrl status db =
     smap_count_if (\<lambda>(k, m). m_region m = region \<and> m_queueUrl m = queueUrl \<and> m_status m = status)
       (sqs_messages db)"

definition SQSMemoryDb_DeleteMessages :: "string \<Rightarrow> sqs_db \<Rightarrow> sqs_db" where
  "SQSMemoryDb_DeleteMessages queueUrl db =
     db\<lparr>sqs_messages := smap_erase_if (\<lambda>(k, m). m_queueUrl m = queueUrl) (sqs_messages db)\<rparr>"

text \<open>Both overloads of \<open>DeleteMessage\<close> erase by receipt handle.\<close>

definition SQSMemoryDb_DeleteMessage :: "string \<Rightarrow> sqs_db \<Rightarrow> sqs_db" where
  "SQSMemoryDb_DeleteMessage receiptHandle db =
     db\<lparr>sqs_messages := smap_erase_if (\<lambda>(k, m). m_receiptHandle m = receiptHandle) (sqs_messages db)\<rparr>"

definition SQSMemoryDb_DeleteAllMessages :: "sqs_db \<Rightarrow> sqs_db" where
  "SQSMemoryDb_DeleteAllMessages db = db\<lparr>sqs_messages := []\<rparr>"

section \<open>The repository layer\<close>

text \<open>
  \<open>SQSDatabase\<close> with the persistence layer switched off.  \<open>GetQueueByUrl\<close> drops its region
  argument on the way to the store.  \<open>ReceiveMessages\<close> first puts expired messages back.
\<close>

definition SQSDatabase_GetQueueByUrl :: "int \<Rightarrow> string \<Rightarrow> string \<Rightarrow> sqs_db \<Rightarrow> Queue \<times> sqs_db" where
  "SQSDatabase_GetQueueByUrl now region queueUrl = SQSMemoryDb_GetQueueByUrl now queueUrl"

definition SQSDatabase_CreateOrUpdateQueue ::
  "int \<Rightarrow> string \<Rightarrow> Queue \<Rightarrow> sqs_db \<Rightarrow> (Queue, sqs_db) outcome" where
  "SQSDatabase_CreateOrUpdateQueue now oid queue db =
     (if SQSMemoryDb_QueueUrlExists (q_region queue) (q_queueUrl queue) db
      then SQSMemoryDb_UpdateQueue queue db
      else (case SQSMemoryDb_CreateQueue now oid queue db of (q, db') \<Rightarrow> (Inr q, db')))"

definition SQSDatabase_CreateOrUpdateMessage ::
  "int \<Rightarrow> string \<Rightarrow> Message \<Rightarrow> sqs_db \<Rightarrow> (Message, sqs_db) outcome" where
  "SQSDatabase_CreateOrUpdateMessage now oid message db =
     (if SQSMemoryDb_MessageExists (m_receiptHandle message) db
      then SQSMemoryDb_UpdateMessage message db
      else (case SQSMemoryDb_CreateMessage now oid message db of (m, db') \<Rightarrow> (Inr m, db')))"

definition SQSDatabase_ReceiveMessages ::
  "(string \<Rightarrow> int) \<Rightarrow> int \<Rightarrow> (string \<Rightarrow> string) \<Rightarrow> string \<Rightarrow> string \<Rightarrow> int \<Rightarrow> int \<Rightarrow> Message list \<Rightarrow> sqs_db \<Rightarrow>
   Message list \<times> sqs_db" where
  "SQSDatabase_ReceiveMessages reset_now now handle region queueUrl visibility maxMessages messageList db =
     SQSMemoryDb_ReceiveMessages now handle region queueUrl visibility maxMessages messageList
       (SQSMemoryDb_ResetMessages reset_now queueUrl visibility db)"

end
