(* ===== verification/SQSMemoryDbFacts.thy ===== *)
theory SQSMemoryDbFacts
  imports SQSMemoryDb
begin

text \<open>
  The lemmas of the SQS store: its invariant and the preservation by every method, the two
  interpretations of \<open>entity_table\<close> (queues, messages), and the functional description of
  \<open>ReceiveMessages\<close> as "the first so many receivable nodes" on which the delivery properties rest.
\<close>

section \<open>The invariant\<close>

definition sqs_inv :: "sqs_db \<Rightarrow> bool" where
  "sqs_inv db \<longleftrightarrow> rows_tagged q_oid (sqs_queues db) \<and> rows_tagged m_oid (sqs_messages db)"

lemma sqs_invD:
  assumes "sqs_inv db"
  shows "rows_tagged q_oid (sqs_queues db)" "rows_tagged m_oid (sqs_messages db)"
    "smap_inv (sqs_queues db)" "smap_inv (sqs_messages db)"
  using assms rows_tagged_inv [of q_oid "sqs_queues db"] rows_tagged_inv [of m_oid "sqs_messages db"]
  by (simp_all add: sqs_inv_def)

lemma sqs_inv_empty: "sqs_inv \<lparr>sqs_queues = [], sqs_messages = []\<rparr>"
  by (simp add: sqs_inv_def)

lemma sqs_inv_messages_map [inv_intros]:
  "sqs_inv db \<Longrightarrow> (\<And>k m. m_oid (f k m) = m_oid m) \<Longrightarrow>
   sqs_inv (db\<lparr>sqs_messages := map (\<lambda>(k, m). (k, f k m)) (sqs_messages db)\<rparr>)"
  by (simp add: sqs_inv_def rows_tagged_map)

lemma sqs_inv_messages_erase [inv_intros]:
  "sqs_inv db \<Longrightarrow> sqs_inv (db\<lparr>sqs_messages := smap_erase_if P (sqs_messages db)\<rparr>)"
  by (simp add: sqs_inv_def rows_tagged_erase_if)

lemma sqs_inv_queues_erase [inv_intros]:
  "sqs_inv db \<Longrightarrow> sqs_inv (db\<lparr>sqs_queues := smap_erase_if P (sqs_queues db)\<rparr>)"
  by (simp add: sqs_inv_def rows_tagged_erase_if)

section \<open>Getters do not change a tagged store\<close>

lemma queue_fetch_inv:
  "sqs_inv db \<Longrightarrow> queue_fetch P now db =
     (case smap_find_if P (sqs_queues db) of None \<Rightarrow> Queue_init now | Some (k, q) \<Rightarrow> q, db)"
  by (simp add: queue_fetch_def smap_fetch_tagged [where oid_of = q_oid] sqs_invD)

lemma message_fetch_inv:
  "sqs_inv db \<Longrightarrow> message_fetch P now db =
     (case smap_find_if P (sqs_messages db) of None \<Rightarrow> Message_init now | Some (k, m) \<Rightarrow> m, db)"
  by (simp add: message_fetch_def smap_fetch_tagged [where oid_of = m_oid] sqs_invD)

lemmas sqs_getter_defs =
  SQSMemoryDb_GetQueueById_def SQSMemoryDb_GetQueueByArn_def SQSMemoryDb_GetQueueByUrl_def
  SQSMemoryDb_GetQueueByName_def SQSDatabase_GetQueueByUrl_def SQSMemoryDb_GetMessageById_def
  SQSMemoryDb_GetMessageByReceiptHandle_def

lemma sqs_getters_pure [simp]:
  assumes "sqs_inv db"
  shows "snd (SQSMemoryDb_GetQueueById now oid db) = db"
    "snd (SQSMemoryDb_GetQueueByArn now arn db) = db"
    "snd (SQSMemoryDb_GetQueueByUrl now url db) = db"
    "snd (SQSDatabase_GetQueueByUrl now region url db) = db"
    "snd (SQSMemoryDb_GetQueueByName now region name db) = db"
    "snd (SQSMemoryDb_GetMessageById now oid db) = db"
    "snd (SQSMemoryDb_GetMessageByReceiptHandle now rh db) = db"
  using assms by (simp_all add: sqs_getter_defs queue_fetch_inv message_fetch_inv)

lemma GetQueueByUrl_split:
  assumes "sqs_inv db"
  obtains q where "SQSDatabase_GetQueueByUrl now region url db = (q, db)"
  using sqs_getters_pure(4) [OF assms, of now region url] that
  by (cases "SQSDatabase_GetQueueByUrl now region url db") auto

text \<open>Where an entry with the URL exists the getter finds one, in whatever region it is.\<close>

lemma GetQueueByUrl_found:
  assumes "sqs_inv db" "(k, q) \<in> set (sqs_queues db)"
  obtains k' q' where "(k', q') \<in> set (sqs_queues db)" "q_queueUrl q' = q_queueUrl q"
    "SQSDatabase_GetQueueByUrl now region (q_queueUrl q) db = (q', db)"
proof -
  let ?P = "\<lambda>(k', q'). q_queueUrl q' = q_queueUrl q"
  have "smap_find_if ?P (sqs_queues db) \<noteq> None" 
    unfolding smap_find_if_not_None using assms(2) by force
  then obtain k' q' where f: "smap_find_if ?P (sqs_queues db) = Some (k', q')" by force
  then have "(k', q') \<in> set (sqs_queues db)" "q_queueUrl q' = q_queueUrl q"
    using smap_find_if_Some [OF f] by auto
  then show ?thesis using that f assms(1) by (simp add: sqs_getter_defs queue_fetch_inv)
qed

lemma QueueUrlExists_iff:
  "SQSMemoryDb_QueueUrlExists region url db \<longleftrightarrow>
     (\<exists>k q. (k, q) \<in> set (sqs_queues db) \<and> q_region q = region \<and> q_queueUrl q = url)"
  unfolding SQSMemoryDb_QueueUrlExists_def smap_find_if_not_None by force

lemma QueueExists_iff:
  "SQSMemoryDb_QueueExists region name db \<longleftrightarrow>
     (\<exists>k q. (k, q) \<in> set (sqs_queues db) \<and> q_region q = region \<and> q_name q = name)"
  unfolding SQSMemoryDb_QueueExists_def smap_find_if_not_None by force

lemma MessageExists_iff:
  "SQSMemoryDb_MessageExists rh db \<longleftrightarrow>
     (\<exists>k m. (k, m) \<in> set (sqs_messages db) \<and> m_receiptHandle m = rh)"
  unfolding SQSMemoryDb_MessageExists_def smap_find_if_not_None by force

section \<open>Creation\<close>

lemma CreateQueue_eq:
  "sqs_inv db \<Longrightarrow> SQSMemoryDb_CreateQueue now oid q db =
     (q\<lparr>q_oid := oid\<rparr>, db\<lparr>sqs_queues := smap_put oid (q\<lparr>q_oid := oid\<rparr>) (sqs_queues db)\<rparr>)"
  by (simp add: SQSMemoryDb_CreateQueue_def SQSMemoryDb_GetQueueById_def queue_fetch_def
      smap_fetch_def smap_find_if_key sqs_invD)

lemma CreateMessage_eq:
  "sqs_inv db \<Longrightarrow> SQSMemoryDb_CreateMessage now oid m db =
     (m\<lparr>m_oid := oid\<rparr>, db\<lparr>sqs_messages := smap_put oid (m\<lparr>m_oid := oid\<rparr>) (sqs_messages db)\<rparr>)"
  by (simp add: SQSMemoryDb_CreateMessage_def SQSMemoryDb_GetMessageById_def message_fetch_def
      smap_fetch_def smap_find_if_key sqs_invD)

lemma sqs_inv_put_queue [inv_intros]:
  "sqs_inv db \<Longrightarrow> q_oid q = oid \<Longrightarrow> sqs_inv (db\<lparr>sqs_queues := smap_put oid q (sqs_queues db)\<rparr>)"
  by (simp add: sqs_inv_def rows_tagged_put)

lemma sqs_inv_put_message [inv_intros]:
  "sqs_inv db \<Longrightarrow> m_oid m = oid \<Longrightarrow> sqs_inv (db\<lparr>sqs_messages := smap_put oid m (sqs_messages db)\<rparr>)"
  by (simp add: sqs_inv_def rows_tagged_put)

interpretation queue_table: entity_table sqs_inv sqs_queues q_oid "\<lambda>oid q. q\<lparr>q_oid := oid\<rparr>"
  SQSMemoryDb_CreateQueue SQSMemoryDb_GetQueueById Queue_init SQSMemoryDb_DeleteAllQueues
proof unfold_locales
  fix db now oid and e :: Queue
  assume inv: "sqs_inv db"
  show "rows_tagged q_oid (sqs_queues db)" using inv by (rule sqs_invD)
  show "fst (SQSMemoryDb_CreateQueue now oid e db) = e\<lparr>q_oid := oid\<rparr>"
    "sqs_queues (snd (SQSMemoryDb_CreateQueue now oid e db)) = smap_put oid (e\<lparr>q_oid := oid\<rparr>) (sqs_queues db)"
    "sqs_inv (snd (SQSMemoryDb_CreateQueue now oid e db))"
    using inv by (simp_all add: CreateQueue_eq sqs_inv_put_queue)
  show "smap_get oid (sqs_queues db) = Some e \<Longrightarrow> SQSMemoryDb_GetQueueById now oid db = (e, db)"
    "smap_get oid (sqs_queues db) = None \<Longrightarrow> SQSMemoryDb_GetQueueById now oid db = (Queue_init now, db)"
    using inv by (simp_all add: SQSMemoryDb_GetQueueById_def queue_fetch_inv smap_find_if_key sqs_invD)
  show "sqs_inv (SQSMemoryDb_DeleteAllQueues db)"
    using inv by (simp add: SQSMemoryDb_DeleteAllQueues_def sqs_inv_def)
qed (simp add: SQSMemoryDb_DeleteAllQueues_def)

interpretation message_table: entity_table sqs_inv sqs_messages m_oid "\<lambda>oid m. m\<lparr>m_oid := oid\<rparr>"
  SQSMemoryDb_CreateMessage SQSMemoryDb_GetMessageById Message_init SQSMemoryDb_DeleteAllMessages
proof unfold_locales
  fix db now oid and e :: Message
  assume inv: "sqs_inv db"
  show "rows_tagged m_oid (sqs_messages db)" using inv by (rule sqs_invD)
  show "fst (SQSMemoryDb_CreateMessage now oid e db) = e\<lparr>m_oid := oid\<rparr>"
    "sqs_messages (snd (SQSMemoryDb_CreateMessage now oid e db)) = smap_put oid (e\<lparr>m_oid := oid\<rparr>) (sqs_messages db)"
    "sqs_inv (snd (SQSMemoryDb_CreateMessage now oid e db))"
    using inv by (simp_all add: CreateMessage_eq sqs_inv_put_message)
  show "smap_get oid (sqs_messages db) = Some e \<Longrightarrow> SQSMemoryDb_GetMessageById now oid db = (e, db)"
    "smap_get oid (sqs_messages db) = None \<Longrightarrow> SQSMemoryDb_GetMessageById now oid db = (Message_init now, db)"
    using inv by (simp_all add: SQSMemoryDb_GetMessageById_def message_fetch_inv smap_find_if_key sqs_invD)
  show "sqs_inv (SQSMemoryDb_DeleteAllMessages db)"
    using inv by (simp add: SQSMemoryDb_DeleteAllMessages_def sqs_inv_def)
qed (simp add: SQSMemoryDb_DeleteAllMessages_def)

section \<open>Updates\<close>

text \<open>
  \<open>UpdateQueue\<close> looks its row up by region and name.  That is the row the queue came from when
  those two determine the row.
\<close>

definition queue_names_unique :: "sqs_db \<Rightarrow> bool" where
  "queue_names_unique db \<longleftrightarrow>
     (\<forall>(k, q) \<in> set (sqs_queues db). \<forall>(k', q') \<in> set (sqs_queues db).
        q_region q = q_region q' \<and> q_name q = q_name q' \<longrightarrow> k = k')"

lemma queue_names_uniqueD:
  "queue_names_unique db \<Longrightarrow> (k, q) \<in> set (sqs_queues db) \<Longrightarrow> (k', q') \<in> set (sqs_queues db) \<Longrightarrow>
   q_region q = q_region q' \<Longrightarrow> q_name q = q_name q' \<Longrightarrow> k = k'"
  by (fastforce simp: queue_names_unique_def)

lemma UpdateQueue_eq:
  assumes "sqs_inv db" "queue_names_unique db" "(k, q) \<in> set (sqs_queues db)"
    "q_oid q' = q_oid q" "q_region q' = q_region q" "q_name q' = q_name q"
  shows "SQSMemoryDb_UpdateQueue q' db = (Inr q', db\<lparr>sqs_queues := smap_put k q' (sqs_queues db)\<rparr>)"
proof -
  have k: "k = q_oid q'" using rows_taggedD [OF sqs_invD(1) [OF assms(1)] assms(3)] assms(4) by simp
  have "smap_replace (\<lambda>(k, r). q_region r = q_region q' \<and> q_name r = q_name q') q' (sqs_queues db)
          = (Inr q', smap_put (q_oid q') q' (sqs_queues db))"
  proof (rule smap_replace_tagged [where oid_of = q_oid and e' = q])
    fix k' e'' assume "(k', e'') \<in> set (sqs_queues db)"
      "case (k', e'') of (k, r) \<Rightarrow> q_region r = q_region q' \<and> q_name r = q_name q'"
    then show "k' = q_oid q'" using queue_names_uniqueD [OF assms(2) _ assms(3)] assms(5,6) k by auto
  qed (use assms k in \<open>auto simp: sqs_invD\<close>)
  then show ?thesis by (simp add: SQSMemoryDb_UpdateQueue_def k)
qed

lemma UpdateMessage_eq:
  assumes "sqs_inv db" "(k, m) \<in> set (sqs_messages db)" "m_oid m' = m_oid m"
  shows "SQSMemoryDb_UpdateMessage m' db = (Inr m', db\<lparr>sqs_messages := smap_put k m' (sqs_messages db)\<rparr>)"
proof -
  have k: "k = m_oid m'" using rows_taggedD [OF sqs_invD(2) [OF assms(1)] assms(2)] assms(3) by simp
  have "smap_replace (\<lambda>(k, r). m_oid r = m_oid m') m' (sqs_messages db)
          = (Inr m', smap_put (m_oid m') m' (sqs_messages db))"
    by (rule smap_replace_tagged [where oid_of = m_oid and e' = m])
       (use assms k in \<open>auto simp: sqs_invD dest: rows_taggedD [OF sqs_invD(2)]\<close>)
  then show ?thesis by (simp add: SQSMemoryDb_UpdateMessage_def k)
qed

lemma UpdateQueue_missing:
  "\<not> SQSMemoryDb_QueueExists (q_region q) (q_name q) db \<Longrightarrow>
   SQSMemoryDb_UpdateQueue q db = (Inl UndefinedBehaviour, db)"
  by (auto simp: SQSMemoryDb_UpdateQueue_def SQSMemoryDb_QueueExists_def smap_replace_def
      split: option.splits)

section \<open>Receiving\<close>

definition receivable :: "string \<Rightarrow> string \<Rightarrow> string \<times> Message \<Rightarrow> bool" where
  "receivable region queueUrl = (\<lambda>(k, m). m_region m = region \<and> m_queueUrl m = queueUrl \<and> m_status m = INITIAL)"

text \<open>
  How many messages one call takes: the limit less what the list already holds, but at least one,
  because the limit is tested after the push; a negative limit is read as unsigned.
\<close>

definition receive_quota :: "int \<Rightarrow> nat \<Rightarrow> nat" where
  "receive_quota maxMessages held =
     max 1 (nat (if maxMessages < 0 then maxMessages + 2 ^ 64 else maxMessages) - held)"

fun update_first :: "nat \<Rightarrow> ('a \<Rightarrow> bool) \<Rightarrow> ('a \<Rightarrow> 'a) \<Rightarrow> 'a list \<Rightarrow> 'a list" where
  "update_first n P f [] = []"
| "update_first n P f (x # xs) =
     (if n = 0 then x # xs
      else if P x then f x # update_first (n - 1) P f xs
      else x # update_first n P f xs)"

definition deliver :: "(string \<Rightarrow> string) \<Rightarrow> string \<times> Message \<Rightarrow> Message" where
  "deliver handle = (\<lambda>(k, m). message_received (handle k) m)"

definition hide :: "int \<Rightarrow> (string \<Rightarrow> string) \<Rightarrow> string \<times> Message \<Rightarrow> string \<times> Message" where
  "hide reset handle = (\<lambda>(k, m). (k, message_hidden reset (message_received (handle k) m)))"

lemma size_ge_quota:
  "size_ge_int (Suc n) maxMessages \<longleftrightarrow> receive_quota maxMessages n = 1"
  by (auto simp: size_ge_int_def receive_quota_def max_def)

lemma receive_quota_Suc:
  "receive_quota maxMessages n \<noteq> 1 \<Longrightarrow> receive_quota maxMessages (Suc n) = receive_quota maxMessages n - 1"
  by (auto simp: receive_quota_def max_def split: if_splits)

lemma receive_quota_pos [simp]: "0 < receive_quota maxMessages n"
  by (simp add: receive_quota_def)

lemma receive_quota_limit: "1 \<le> maxMessages \<Longrightarrow> receive_quota maxMessages 0 = nat maxMessages"
  by (simp add: receive_quota_def max_def)

lemma update_first_0 [simp]: "update_first 0 P f xs = xs"
  by (cases xs) auto

lemma receive_loop_eq:
  "receive_loop region queueUrl reset maxMessages handle ms acc =
     (update_first (receive_quota maxMessages (length acc)) (receivable region queueUrl) (hide reset handle) ms,
      acc @ map (deliver handle)
              (take (receive_quota maxMessages (length acc)) (filter (receivable region queueUrl) ms)))"
proof (induction ms arbitrary: acc)
  case Nil
  then show ?case by simp
next
  case (Cons km ms)
  obtain k m where km: "km = (k, m)" by (cases km)
  let ?n = "receive_quota maxMessages (length acc)"
  obtain n' where n': "?n = Suc n'" using receive_quota_pos [of maxMessages "length acc"]
    by (cases ?n) auto
  have r: "receivable region queueUrl (k, m) \<longleftrightarrow>
             m_region m = region \<and> m_queueUrl m = queueUrl \<and> m_status m = INITIAL"
    by (simp add: receivable_def)
  show ?case
  proof (cases "receivable region queueUrl (k, m)")
    case False
    with r have "\<not> (m_region m = region \<and> m_queueUrl m = queueUrl \<and> m_status m = INITIAL)" by blast
    then show ?thesis using Cons.IH [of acc] n' False by (auto simp: km)
  next
    case True
    note rec = True
    with r have cond: "m_region m = region" "m_queueUrl m = queueUrl" "m_status m = INITIAL" by auto
    show ?thesis
    proof (cases "?n = 1")
      case True
      then show ?thesis using rec cond
        by (simp add: km size_ge_quota Let_def hide_def deliver_def)
    next
      case False
      then have q: "receive_quota maxMessages (Suc (length acc)) = n'" using receive_quota_Suc n' by simp
      show ?thesis using rec cond False Cons.IH [of "acc @ [message_received (handle k) m]"] q n'
        by (simp add: km size_ge_quota Let_def hide_def deliver_def)
    qed
  qed
qed

lemma map_fst_update_first: "(\<And>x. fst (f x) = fst x) \<Longrightarrow> map fst (update_first n P f xs) = map fst xs"
  by (induction n P f xs rule: update_first.induct) auto

lemma fst_hide [simp]: "fst (hide reset handle km) = fst km"
  by (simp add: hide_def case_prod_beta)

text \<open>What one call leaves: a node is hidden when it is among the first so many receivable ones.\<close>

lemma update_first_cases:
  "y \<in> set (update_first n P f xs) \<Longrightarrow> (\<exists>x \<in> set (take n (filter P xs)). y = f x) \<or> y \<in> set xs"
  by (induction n P f xs rule: update_first.induct) (force split: if_splits simp: take_Cons' )+

lemma update_first_hidden:
  "x \<in> set (take n (filter P xs)) \<Longrightarrow> f x \<in> set (update_first n P f xs)"
  by (induction n P f xs rule: update_first.induct) (auto split: if_splits simp: take_Cons')

lemma update_first_remaining:
  "(\<And>x. \<not> P (f x)) \<Longrightarrow> filter P (update_first n P f xs) = drop n (filter P xs)"
  by (induction n P f xs rule: update_first.induct) (auto simp: drop_Cons' )

lemma not_receivable_hide [simp]: "\<not> receivable region queueUrl (hide reset handle km)"
  by (simp add: receivable_def hide_def message_hidden_def case_prod_beta)

lemma m_oid_deliver [simp]: "m_oid (deliver handle (k, m)) = m_oid m"
  by (simp add: deliver_def message_received_def)

lemma ReceiveMessages_eq:
  "SQSMemoryDb_ReceiveMessages now handle region queueUrl visibility maxMessages acc db =
     (acc @ map (deliver handle)
        (take (receive_quota maxMessages (length acc)) (filter (receivable region queueUrl) (sqs_messages db))),
      db\<lparr>sqs_messages :=
           update_first (receive_quota maxMessages (length acc)) (receivable region queueUrl)
             (hide (now + seconds visibility) handle) (sqs_messages db)\<rparr>)"
  by (simp add: SQSMemoryDb_ReceiveMessages_def receive_loop_eq)

lemma m_oid_snd_hide [simp]: "m_oid (snd (hide reset handle km)) = m_oid (snd km)"
  by (simp add: hide_def message_hidden_def message_received_def case_prod_beta)

lemma sqs_inv_ReceiveMessages [inv_intros]:
  assumes "sqs_inv db"
  shows "sqs_inv (snd (SQSMemoryDb_ReceiveMessages now handle region queueUrl visibility maxMessages acc db))"
proof -
  let ?ms = "update_first (receive_quota maxMessages (length acc)) (receivable region queueUrl)
               (hide (now + seconds visibility) handle) (sqs_messages db)"
  have "map fst ?ms = map fst (sqs_messages db)" by (rule map_fst_update_first) simp
  then have "smap_inv ?ms" using sqs_invD(4) [OF assms] by (simp add: smap_inv_def)
  moreover have "m_oid m = k" if "(k, m) \<in> set ?ms" for k m
    using update_first_cases [OF that]
  proof
    assume "\<exists>x \<in> set (take (receive_quota maxMessages (length acc))
              (filter (receivable region queueUrl) (sqs_messages db))).
              (k, m) = hide (now + seconds visibility) handle x"
    then obtain k' m' where x: "(k', m') \<in> set (sqs_messages db)"
      "(k, m) = hide (now + seconds visibility) handle (k', m')"
      by (auto dest!: in_set_takeD)
    then show "m_oid m = k"
      using rows_taggedD [OF sqs_invD(2) [OF assms], of k' m'] m_oid_snd_hide [of _ handle "(k', m')"]
        fst_hide [of _ handle "(k', m')"] by (metis fst_conv snd_conv)
  qed (rule rows_taggedD [OF sqs_invD(2) [OF assms]])
  ultimately show ?thesis
    using assms by (auto simp: ReceiveMessages_eq sqs_inv_def rows_tagged_def list_all_iff)
qed

section \<open>Preservation by the other methods\<close>

lemma m_oid_steps [simp]:
  "m_oid (message_reset url now m) = m_oid m"
  "m_oid (message_redrive url dlq n m) = m_oid m"
  "m_oid (message_undelay url now m) = m_oid m"
  by (simp_all add: message_reset_def message_redrive_def message_undelay_def)

lemma sqs_inv_ResetMessages [inv_intros]:
  "sqs_inv db \<Longrightarrow> sqs_inv (SQSMemoryDb_ResetMessages now url visibility db)"
  unfolding SQSMemoryDb_ResetMessages_def by (rule sqs_inv_messages_map) simp_all

lemma sqs_inv_RedriveMessages [inv_intros]:
  "sqs_inv db \<Longrightarrow> sqs_inv (SQSMemoryDb_RedriveMessages cfg url policy db)"
  unfolding SQSMemoryDb_RedriveMessages_def Let_def by (rule sqs_inv_messages_map) simp_all

lemma sqs_inv_ResetDelayedMessages [inv_intros]:
  "sqs_inv db \<Longrightarrow> sqs_inv (SQSMemoryDb_ResetDelayedMessages now url delay db)"
  unfolding SQSMemoryDb_ResetDelayedMessages_def by (rule sqs_inv_messages_map) simp_all

lemma sqs_inv_deletes [inv_intros]:
  assumes "sqs_inv db"
  shows "sqs_inv (SQSMemoryDb_PurgeQueue region url db)"
    "sqs_inv (SQSMemoryDb_DeleteQueue region url db)"
    "sqs_inv (SQSMemoryDb_DeleteMessages url db)"
    "sqs_inv (SQSMemoryDb_DeleteMessage rh db)"
  using assms
  by (simp_all add: SQSMemoryDb_PurgeQueue_def SQSMemoryDb_DeleteQueue_def
      SQSMemoryDb_DeleteMessages_def SQSMemoryDb_DeleteMessage_def
      sqs_inv_messages_erase sqs_inv_queues_erase)

lemma sqs_inv_DatabaseReceive [inv_intros]:
  "sqs_inv db \<Longrightarrow>
   sqs_inv (snd (SQSDatabase_ReceiveMessages rnow now handle region url visibility maxMessages acc db))"
  by (simp add: SQSDatabase_ReceiveMessages_def sqs_inv_ReceiveMessages sqs_inv_ResetMessages)

lemma MessageRetention_db [simp]: "snd (SQSMemoryDb_MessageRetention now url period db) = db"
  by (simp add: SQSMemoryDb_MessageRetention_def)

lemma retention_loop_iff:
  "retention_loop now url ms = Inr () \<longleftrightarrow>
   (\<forall>(k, m) \<in> set ms. \<not> (m_queueUrl m = url \<and> m_status m = DELAYED \<and> m_reset m < now k))"
  by (induction now url ms rule: retention_loop.induct) auto

end
