(* ===== verification/SQSDto.thy ===== *)
theory SQSDto
  imports SQSEntities
begin

text \<open>
  The data transfer objects of \<open>dto/include/awsmock/dto/sqs\<close> that the SQS service takes and
  returns, and the MD5 digests over message attributes (\<open>dto/src/sqs/model/MessageAttribute.cpp\<close>).
  The digest itself is OpenSSL's: a parameter from the bytes hashed to the bytes of the digest.
\<close>

section \<open>Message attributes and their digests\<close>

datatype MessageAttributeDataType = TYPE_STRING | TYPE_NUMBER | TYPE_BINARY

fun MessageAttributeDataTypeToString :: "MessageAttributeDataType \<Rightarrow> string" where
  "MessageAttributeDataTypeToString TYPE_STRING = ''String''"
| "MessageAttributeDataTypeToString TYPE_NUMBER = ''Number''"
| "MessageAttributeDataTypeToString TYPE_BINARY = ''Binary''"

text \<open>\<open>binaryValue\<close> is a raw pointer that no modelled operation follows; it is left out.\<close>

record DtoMessageAttribute =
  dma_name :: string
  dma_stringValue :: string
  dma_numberValue :: int
  dma_type :: MessageAttributeDataType
  dma_systemAttribute :: bool

text \<open>The low 32 bits of a length, most significant byte first.\<close>

definition GetIntAsByteArray :: "nat \<Rightarrow> string" where
  "GetIntAsByteArray n =
     [char_of (n div 16777216 mod 256), char_of (n div 65536 mod 256),
      char_of (n div 256 mod 256), char_of (n mod 256)]"

lemma GetIntAsByteArray_code [code]:
  "GetIntAsByteArray n =
     [char_of (n div 256 div 256 div 256 mod 256), char_of (n div 256 div 256 mod 256),
      char_of (n div 256 mod 256), char_of (n mod 256)]"
  by (simp add: GetIntAsByteArray_def flip: div_mult2_eq)

definition UpdateLengthAndBytes :: "string \<Rightarrow> string" where
  "UpdateLengthAndBytes str = GetIntAsByteArray (length str) @ str"

definition value_bytes :: "string \<Rightarrow> string" where
  "value_bytes v = (if v = [] then [] else char_of (1 :: nat) # UpdateLengthAndBytes v)"

definition attributes_bytes :: "(string, string) smap \<Rightarrow> string" where
  "attributes_bytes attributes =
     concat (map (\<lambda>(n, v). UpdateLengthAndBytes n @ value_bytes v) attributes)"

definition MessageAttribute_GetMd5Attributes ::
  "(string \<Rightarrow> string) \<Rightarrow> (string, string) smap \<Rightarrow> string" where
  "MessageAttribute_GetMd5Attributes md5 attributes = concat (map hex_byte (md5 (attributes_bytes attributes)))"

definition message_attributes_bytes :: "(string, DtoMessageAttribute) smap \<Rightarrow> string" where
  "message_attributes_bytes attributes =
     concat (map (\<lambda>(n, a). UpdateLengthAndBytes n @
                    UpdateLengthAndBytes (MessageAttributeDataTypeToString (dma_type a)) @
                    value_bytes (dma_stringValue a)) attributes)"

definition MessageAttribute_GetMd5MessageAttributes ::
  "(string \<Rightarrow> string) \<Rightarrow> (string, DtoMessageAttribute) smap \<Rightarrow> string" where
  "MessageAttribute_GetMd5MessageAttributes md5 attributes =
     Crypto_HexEncode (md5 (message_attributes_bytes attributes))"

definition Crypto_GetMd5FromString :: "(string \<Rightarrow> string) \<Rightarrow> string \<Rightarrow> string" where
  "Crypto_GetMd5FromString md5 content = Crypto_HexEncode (md5 content)"

section \<open>Requests and responses\<close>

record DtoQueueAttribute =
  dqa_attributeName :: string
  dqa_attributeValue :: string

record CreateQueueRequest =
  cqr_region :: string
  cqr_queueName :: string
  cqr_queueUrl :: string
  cqr_owner :: string
  cqr_attributes :: "DtoQueueAttribute list"
  cqr_tags :: "(string, string) smap"
  cqr_requestId :: string

record CreateQueueResponse =
  cqs_region :: string
  cqs_name :: string
  cqs_owner :: string
  cqs_queueUrl :: string
  cqs_queueArn :: string

record PurgeQueueRequest =
  pqr_region :: string
  pqr_queueUrl :: string

record GetQueueUrlRequest =
  gur_region :: string
  gur_queueName :: string

record GetQueueAttributesRequest =
  gar_region :: string
  gar_queueUrl :: string
  gar_attributeNames :: "string list"

record SetQueueAttributesRequest =
  sar_region :: string
  sar_queueUrl :: string
  sar_attributes :: "(string, string) smap"
  sar_requestId :: string

record SetQueueAttributesResponse =
  sas_resource :: string
  sas_requestId :: string

record ChangeMessageVisibilityRequest =
  cmv_region :: string
  cmv_queueUrl :: string
  cmv_receiptHandle :: string
  cmv_visibilityTimeout :: int
  cmv_requestId :: string

record TagQueueRequest =
  tqr_region :: string
  tqr_queueUrl :: string
  tqr_tags :: "(string, string) smap"

record DeleteQueueRequest =
  dqr_region :: string
  dqr_queueUrl :: string
  dqr_requestId :: string

record DeleteQueueResponse =
  dqs_region :: string
  dqs_queueUrl :: string
  dqs_requestId :: string

record SendMessageRequest =
  smr_region :: string
  smr_queueUrl :: string
  smr_queueArn :: string
  smr_queueName :: string
  smr_body :: string
  smr_attributes :: "(string, string) smap"
  smr_messageAttributes :: "(string, DtoMessageAttribute) smap"
  smr_messageId :: string
  smr_senderId :: string
  smr_md5sum :: string
  smr_requestId :: string

text \<open>The members of the response that \<open>SendMessage\<close> initialises.\<close>

record SendMessageResponse =
  sms_queueUrl :: string
  sms_messageId :: string
  sms_receiptHandle :: string
  sms_md5Body :: string
  sms_md5UserAttr :: string
  sms_md5SystemAttr :: string
  sms_requestId :: string

record ReceiveMessageRequest =
  rmr_region :: string
  rmr_queueUrl :: string
  rmr_maxMessages :: int
  rmr_waitTimeSeconds :: int
  rmr_requestId :: string

record ReceiveMessageResponse =
  rms_messageList :: "Message list"
  rms_requestId :: string

record DeleteMessageRequest =
  dmr_region :: string
  dmr_queueUrl :: string
  dmr_receiptHandle :: string

record DeleteMessageBatchEntry =
  dbe_id :: string
  dbe_receiptHandle :: string

record DeleteMessageBatchRequest =
  dbr_region :: string
  dbr_queueUrl :: string
  dbr_deleteMessageBatchEntries :: "DeleteMessageBatchEntry list"

section \<open>The bytes hashed determine the attributes\<close>

text \<open>
  Every name and value is preceded by its length, and a value by a marker byte 1, which cannot be
  the first byte of a length below \<open>2^24\<close>.
\<close>

lemma length_GetIntAsByteArray [simp]: "length (GetIntAsByteArray n) = 4"
  by (simp add: GetIntAsByteArray_def)

lemma GetIntAsByteArray_inj:
  assumes "m < 2 ^ 32" "n < 2 ^ 32" "GetIntAsByteArray m = GetIntAsByteArray n"
  shows "m = n"
proof -
  have eq: "m div 16777216 mod 256 = n div 16777216 mod 256" "m div 65536 mod 256 = n div 65536 mod 256"
    "m div 256 mod 256 = n div 256 mod 256" "m mod 256 = n mod 256"
    using assms(3) by (simp_all add: GetIntAsByteArray_def)
  have split: "k = ((k div 16777216 mod 256 * 256 + k div 65536 mod 256) * 256
                 + k div 256 mod 256) * 256 + k mod 256" if k: "k < 2 ^ 32" for k :: nat
  proof -
    have "k div 16777216 mod 256 = k div 256 div 256 div 256"
      using k by (simp add: less_mult_imp_div_less flip: div_mult2_eq)
    moreover have "k div 65536 = k div 256 div 256" by (simp flip: div_mult2_eq)
    ultimately show ?thesis by (simp only: div_mult_mod_eq)
  qed
  show ?thesis by (subst split [OF assms(1)], subst split [OF assms(2)]) (simp only: eq)
qed

definition small :: "string \<Rightarrow> bool" where
  "small s \<longleftrightarrow> length s < 2 ^ 24"

lemma hd_length_bytes: "small s \<Longrightarrow> UpdateLengthAndBytes s @ t = char_of (0 :: nat) # tl (UpdateLengthAndBytes s @ t)"
  by (simp add: UpdateLengthAndBytes_def GetIntAsByteArray_def small_def)

lemma UpdateLengthAndBytes_cancel:
  assumes "small a" "small b" "UpdateLengthAndBytes a @ s = UpdateLengthAndBytes b @ t"
  shows "a = b \<and> s = t"
proof -
  have "GetIntAsByteArray (length a) = GetIntAsByteArray (length b)" "a @ s = b @ t"
    using assms(3) by (simp_all add: UpdateLengthAndBytes_def)
  moreover from this(1) have "length a = length b"
    using assms(1,2) GetIntAsByteArray_inj [of "length a" "length b"] by (simp add: small_def)
  ultimately show ?thesis by simp
qed

text \<open>What may follow a value: nothing, or the next entry, which begins with a length.\<close>

definition follows :: "string \<Rightarrow> bool" where
  "follows s \<longleftrightarrow> s = [] \<or> hd s = char_of (0 :: nat)"

lemma value_bytes_cancel:
  assumes "small v" "small w" "follows s" "follows t" "value_bytes v @ s = value_bytes w @ t"
  shows "v = w \<and> s = t"
proof -
  have one: "hd (value_bytes u @ r) = char_of (1 :: nat)" "value_bytes u @ r \<noteq> []" if "u \<noteq> []" for u r
    using that by (simp_all add: value_bytes_def)
  have none: "value_bytes u @ r = r" if "u = []" for u r using that by (simp add: value_bytes_def)
  have "char_of (0 :: nat) \<noteq> char_of (1 :: nat)" by (metis char_of_quasi_inj mod_less one_less_numeral_iff semiring_norm(76) zero_less_numeral zero_neq_one)
  then have zero: "\<not> (follows r \<and> r \<noteq> [] \<and> hd r = char_of (1 :: nat))" for r
    by (metis follows_def)
  have iff: "v = [] \<longleftrightarrow> w = []"
  proof (cases "v = []"; cases "w = []")
    assume "v = []" "w \<noteq> []"
    with assms(5) none have "s = value_bytes w @ t" by simp
    with \<open>w \<noteq> []\<close> one [of w t] zero [of s] assms(3) show ?thesis by simp
  next
    assume "v \<noteq> []" "w = []"
    with assms(5) none have "t = value_bytes v @ s" by simp
    with \<open>v \<noteq> []\<close> one [of v s] zero [of t] assms(4) show ?thesis by simp
  qed simp_all
  show ?thesis
  proof (cases "v = []")
    case True
    with iff assms(5) none show ?thesis by simp
  next
    case False
    with iff assms(5) have "UpdateLengthAndBytes v @ s = UpdateLengthAndBytes w @ t"
      by (simp add: value_bytes_def)
    with assms(1,2) show ?thesis by (rule UpdateLengthAndBytes_cancel)
  qed
qed

lemma follows_entry: "small n \<Longrightarrow> follows (UpdateLengthAndBytes n @ t)"
  unfolding follows_def by (subst hd_length_bytes) simp_all

definition attributes_small :: "(string, string) smap \<Rightarrow> bool" where
  "attributes_small attributes \<longleftrightarrow> list_all (\<lambda>(n, v). small n \<and> small v) attributes"

lemma follows_attributes_bytes: "attributes_small as \<Longrightarrow> follows (attributes_bytes as)"
proof (cases as)
  case (Cons nv bs)
  assume "attributes_small as"
  with Cons show ?thesis
    by (cases nv) (simp add: attributes_small_def attributes_bytes_def follows_entry)
qed (simp add: follows_def attributes_bytes_def)

lemma attributes_bytes_inj:
  "attributes_small as \<Longrightarrow> attributes_small bs \<Longrightarrow> attributes_bytes as = attributes_bytes bs \<Longrightarrow> as = bs"
proof (induction as arbitrary: bs)
  case Nil
  then show ?case
    by (cases bs) (auto simp: attributes_bytes_def UpdateLengthAndBytes_def GetIntAsByteArray_def)
next
  case (Cons nv as)
  obtain n v where nv: "nv = (n, v)" by (cases nv)
  obtain m w bs' where bs: "bs = (m, w) # bs'"
    using Cons.prems(3) nv
    by (cases bs) (auto simp: attributes_bytes_def UpdateLengthAndBytes_def GetIntAsByteArray_def)
  have sm: "small n" "small m" "small v" "small w" "attributes_small as" "attributes_small bs'"
    using Cons.prems(1,2) nv bs by (simp_all add: attributes_small_def)
  have eq: "UpdateLengthAndBytes n @ (value_bytes v @ attributes_bytes as) =
            UpdateLengthAndBytes m @ (value_bytes w @ attributes_bytes bs')"
    using Cons.prems(3) nv bs by (simp add: attributes_bytes_def)
  then have "n = m" and "value_bytes v @ attributes_bytes as = value_bytes w @ attributes_bytes bs'"
    using UpdateLengthAndBytes_cancel [OF sm(1,2)] by blast+
  moreover from this(2) have "v = w \<and> attributes_bytes as = attributes_bytes bs'"
    using value_bytes_cancel [OF sm(3,4)] follows_attributes_bytes sm(5,6) by blast
  ultimately show ?case using Cons.IH sm(5,6) nv bs by blast
qed

end
