(* ===== verification/Externals.thy ===== *)
theory Externals
  imports SQSEntities
begin

text \<open>
  The libraries the services call and whose code is not part of the repository, as one record of
  functions that the operations take: OpenSSL's MD5 (from the bytes hashed to the bytes of the
  digest), Poco's JSON parser and printer, its HTTP date format and its URL decoder.  A parsed
  document is a value of \<open>json\<close>; what Poco does when a value has another type than the caller
  asked for is again the library's: \<open>ext_json_object\<close> is \<open>extract<Object::Ptr>\<close>,
  \<open>ext_json_int\<close> is \<open>convert<int>\<close> (applied to the empty value where the key is missing),
  \<open>ext_json_text\<close> is \<open>convert<std::string>\<close>, \<open>ext_json_string\<close> is \<open>extract<std::string>\<close>,
  \<open>ext_json_long\<close> and \<open>ext_json_bool\<close> are \<open>convert<long>\<close> and \<open>convert<bool>\<close>, and
  \<open>ext_json_array\<close> and \<open>ext_json_child\<close> are \<open>getArray\<close> and \<open>getObject\<close> on the value of a
  key, with \<open>None\<close> for the null pointer.  \<open>ext_url_decode\<close> is \<open>Poco::URI::decode(s, r, true)\<close>.
\<close>

datatype json =
    JNull
  | JBool bool
  | JInt int
  | JNumber string
  | JString string
  | JArray "json list"
  | JObject "(string \<times> json) list"

record externals =
  ext_md5 :: "string \<Rightarrow> string"
  ext_json_parse :: "string \<Rightarrow> json result"
  ext_json_object :: "json \<Rightarrow> (string \<times> json) list result"
  ext_json_int :: "json option \<Rightarrow> int result"
  ext_json_stringify :: "json \<Rightarrow> string"
  ext_http_format :: "int \<Rightarrow> string"
  ext_json_text :: "json \<Rightarrow> string result"
  ext_json_string :: "json \<Rightarrow> string result"
  ext_json_long :: "json \<Rightarrow> int result"
  ext_json_bool :: "json \<Rightarrow> bool result"
  ext_json_array :: "json option \<Rightarrow> json list option"
  ext_json_child :: "json option \<Rightarrow> (string \<times> json) list option"
  ext_url_decode :: "string \<Rightarrow> string result"

text \<open>What the code relies on: printing and parsing a document gives it back, and a number reads as itself.\<close>

definition json_faithful :: "externals \<Rightarrow> json \<Rightarrow> bool" where
  "json_faithful ext j \<longleftrightarrow>
     ext_json_parse ext (ext_json_stringify ext j) = Inr j \<and> ext_json_stringify ext j \<noteq> [] \<and>
     (\<forall>kvs. ext_json_object ext (JObject kvs) = Inr kvs) \<and>
     (\<forall>n. ext_json_int ext (Some (JInt n)) = Inr n)"

text \<open>A \<open>Poco::JSON::Object\<close> filled by \<open>set\<close>: its keys are kept in order.\<close>

definition json_object :: "(string \<times> json) list \<Rightarrow> json" where
  "json_object entries = JObject (foldl (\<lambda>m (k, v). smap_put k v m) [] entries)"

section \<open>The redrive policy as a JSON document\<close>

text \<open>\<open>catch (Poco::Exception &exc) { throw Core::JsonException(exc.message()); }\<close>\<close>

fun rethrow_json :: "exn \<Rightarrow> exn" where
  "rethrow_json (ServiceException m) = JsonException m"
| "rethrow_json (NotFoundException m) = JsonException m"
| "rethrow_json (DatabaseException m) = JsonException m"
| "rethrow_json (JsonException m) = JsonException m"
| "rethrow_json (PocoException m) = JsonException m"
| "rethrow_json InvalidArgument = InvalidArgument"
| "rethrow_json OutOfRange = OutOfRange"
| "rethrow_json StdException = StdException"
| "rethrow_json UndefinedBehaviour = UndefinedBehaviour"

text \<open>
  The parser and the conversion to an object run before the \<open>try\<close>.  A policy without a string
  \<open>deadLetterTargetArn\<close> leaves the object as it was.
\<close>

definition RedrivePolicy_FromJson :: "externals \<Rightarrow> string \<Rightarrow> RedrivePolicy \<Rightarrow> RedrivePolicy result" where
  "RedrivePolicy_FromJson ext body p =
     (if body = [] then Inr p
      else rbind (ext_json_parse ext body) (\<lambda>v.
           rbind (ext_json_object ext v) (\<lambda>kvs.
           case map_of kvs ''deadLetterTargetArn'' of
             Some (JString arn) \<Rightarrow>
               (case ext_json_int ext (map_of kvs ''maxReceiveCount'') of
                  Inl e \<Rightarrow> Inl (rethrow_json e)
                | Inr n \<Rightarrow> Inr (p\<lparr>rp_deadLetterTargetArn := arn, rp_maxReceiveCount := n\<rparr>))
           | _ \<Rightarrow> Inr p)))"

definition policy_json :: "RedrivePolicy \<Rightarrow> json" where
  "policy_json p =
     JObject [(''deadLetterTargetArn'', JString (rp_deadLetterTargetArn p)),
              (''maxReceiveCount'', JInt (rp_maxReceiveCount p))]"

definition RedrivePolicy_ToJson :: "externals \<Rightarrow> RedrivePolicy \<Rightarrow> string" where
  "RedrivePolicy_ToJson ext p =
     (if rp_deadLetterTargetArn p = [] then []
      else ext_json_stringify ext (policy_json p))"

lemma RedrivePolicy_json_roundtrip:
  assumes "json_faithful ext (policy_json p)" "rp_deadLetterTargetArn p \<noteq> []"
  shows "RedrivePolicy_FromJson ext (RedrivePolicy_ToJson ext p) p0 = Inr p"
  using assms by (simp add: RedrivePolicy_FromJson_def RedrivePolicy_ToJson_def json_faithful_def policy_json_def)

lemma RedrivePolicy_empty_roundtrip:
  "rp_deadLetterTargetArn p = [] \<Longrightarrow> RedrivePolicy_FromJson ext (RedrivePolicy_ToJson ext p) p0 = Inr p0"
  by (simp add: RedrivePolicy_FromJson_def RedrivePolicy_ToJson_def)

end
