(* ===== verification/SQSService.thy ===== *)
theory SQSService
  imports SQSMemoryDbFacts SQSDto Externals
begin

text \<open>
  \<open>service/src/sqs/SQSService.cpp\<close>: one definition per method, on the state of the store.
  Logging and the metric timers are left out.  Clock readings and random ids are arguments: \<open>now\<close>
  alone is the clock read for a default-constructed entity, the other draws come in a record per
  operation.  A method that only looks at the store still returns it, because the getters write the
  object id into the row they find.
\<close>

section \<open>Queues\<close>

text \<open>\<open>catch (Core::DatabaseException &exc)\<close>: the other exceptions pass.\<close>

fun rethrow_database :: "exn \<Rightarrow> exn" where
  "rethrow_database (DatabaseException m) = ServiceException m"
| "rethrow_database e = e"

definition read_int :: "string \<Rightarrow> (int \<Rightarrow> QueueAttribute) \<Rightarrow> QueueAttribute result" where
  "read_int v set_it = rbind (stoi v) (\<lambda>n. Inr (set_it n))"

definition create_attribute :: "externals \<Rightarrow> DtoQueueAttribute \<Rightarrow> QueueAttribute \<Rightarrow> QueueAttribute result" where
  "create_attribute ext a qa =
     (let v = dqa_attributeValue a in
      if dqa_attributeName a = ''DelaySeconds'' then read_int v (\<lambda>n. qa\<lparr>qa_delaySeconds := n\<rparr>)
      else if dqa_attributeName a = ''MaxMessageSize'' then read_int v (\<lambda>n. qa\<lparr>qa_maxMessageSize := n\<rparr>)
      else if dqa_attributeName a = ''MessageRetentionPeriod'' then read_int v (\<lambda>n. qa\<lparr>qa_messageRetentionPeriod := n\<rparr>)
      else if dqa_attributeName a = ''VisibilityTimeout'' then read_int v (\<lambda>n. qa\<lparr>qa_visibilityTimeout := n\<rparr>)
      else if dqa_attributeName a = ''Policy'' then Inr (qa\<lparr>qa_policy := v\<rparr>)
      else if dqa_attributeName a = ''RedrivePolicy''
      then rbind (RedrivePolicy_FromJson ext v (qa_redrivePolicy qa)) (\<lambda>p. Inr (qa\<lparr>qa_redrivePolicy := p\<rparr>))
      else if dqa_attributeName a = ''RedriveAllowPolicy'' then Inr (qa\<lparr>qa_redriveAllowPolicy := v\<rparr>)
      else if dqa_attributeName a = ''ReceiveMessageWaitTime'' then read_int v (\<lambda>n. qa\<lparr>qa_receiveMessageWaitTime := n\<rparr>)
      else if dqa_attributeName a = ''QueueArn'' then Inr (qa\<lparr>qa_queueArn := v\<rparr>)
      else Inr qa)"

definition new_queue :: "config \<Rightarrow> int \<Rightarrow> CreateQueueRequest \<Rightarrow> QueueAttribute \<Rightarrow> Queue" where
  "new_queue cfg now request attributes =
     (Queue_init now)\<lparr>q_region := cqr_region request, q_name := cqr_queueName request,
       q_owner := cqr_owner request, q_queueUrl := CreateSQSQueueUrl cfg (cqr_queueName request),
       q_queueArn := CreateSQSQueueArn cfg (cqr_queueName request),
       q_attributes := attributes\<lparr>qa_queueArn := CreateSQSQueueArn cfg (cqr_queueName request)\<rparr>,
       q_tags := cqr_tags request\<rparr>"

definition SQSService_CreateQueue ::
  "config \<Rightarrow> externals \<Rightarrow> int \<Rightarrow> string \<Rightarrow> CreateQueueRequest \<Rightarrow> sqs_db \<Rightarrow> (CreateQueueResponse, sqs_db) outcome" where
  "SQSService_CreateQueue cfg ext now oid request db =
     (if SQSMemoryDb_QueueExists (cqr_region request) (cqr_queueName request) db
      then (Inl (ServiceException (''Queue exists already, region: '' @ cqr_region request @
                                   '' queueUrl: '' @ cqr_queueUrl request)), db)
      else (case foldr_result (create_attribute ext) (cqr_attributes request) QueueAttribute_init of
              Inl e \<Rightarrow> (Inl (rethrow_database e), db)
            | Inr attributes \<Rightarrow>
                (case SQSMemoryDb_CreateQueue now oid (new_queue cfg now request attributes) db of
                   (queue, db') \<Rightarrow>
                     (Inr \<lparr>cqs_region = q_region queue, cqs_name = q_name queue, cqs_owner = q_owner queue,
                           cqs_queueUrl = q_queueUrl queue, cqs_queueArn = q_queueArn queue\<rparr>, db'))))"

definition SQSService_ListQueues :: "string \<Rightarrow> sqs_db \<Rightarrow> Queue list" where
  "SQSService_ListQueues region db = SQSMemoryDb_ListQueues region db"

definition no_such_queue :: "string \<Rightarrow> string \<Rightarrow> exn" where
  "no_such_queue region queueUrl =
     ServiceException (''Queue does not exist, region: '' @ region @ '' queueUrl: '' @ queueUrl)"

definition SQSService_PurgeQueue :: "PurgeQueueRequest \<Rightarrow> sqs_db \<Rightarrow> (unit, sqs_db) outcome" where
  "SQSService_PurgeQueue request db =
     (if \<not> SQSMemoryDb_QueueUrlExists (pqr_region request) (pqr_queueUrl request) db
      then (Inl (no_such_queue (pqr_region request) (pqr_queueUrl request)), db)
      else (Inr (), SQSMemoryDb_PurgeQueue (pqr_region request) (pqr_queueUrl request) db))"

definition SQSService_GetQueueUrl ::
  "config \<Rightarrow> int \<Rightarrow> GetQueueUrlRequest \<Rightarrow> sqs_db \<Rightarrow> (string, sqs_db) outcome" where
  "SQSService_GetQueueUrl cfg now request db =
     (let queueUrl = SanitizeSQSUrl cfg (gur_queueName request) in
      if \<not> SQSMemoryDb_QueueUrlExists (gur_region request) queueUrl db
      then (Inl (ServiceException (''Queue does not exist, region: '' @ gur_region request @
                                   '' queueName: '' @ gur_queueName request)), db)
      else (case SQSDatabase_GetQueueByUrl now (gur_region request) queueUrl db of
              (queue, db') \<Rightarrow> (Inr (q_queueUrl queue), db')))"

section \<open>Queue attributes\<close>

definition SQSService_CheckAttribute :: "string list \<Rightarrow> string \<Rightarrow> bool" where
  "SQSService_CheckAttribute attributes value \<longleftrightarrow>
     List.find (\<lambda>attribute. StringUtils_EqualsIgnoreCase attribute value) attributes \<noteq> None"

text \<open>\<open>Poco::DateTime::timestamp().epochTime()\<close>: whole seconds of an instant in microseconds.\<close>

definition epochTime :: "int \<Rightarrow> int" where
  "epochTime t = tdiv t 1000000"

definition all_attributes :: "Queue \<Rightarrow> (string \<times> string) list" where
  "all_attributes queue =
     (let a = q_attributes queue in
      [(''ApproximateNumberOfMessages'', to_string (qa_approximateNumberOfMessages a)),
       (''ApproximateNumberOfMessagesDelayed'', to_string (qa_approximateNumberOfMessagesDelayed a)),
       (''ApproximateNumberOfMessagesNotVisible'', to_string (qa_approximateNumberOfMessagesNotVisible a)),
       (''CreatedTimestamp'', to_string (epochTime (q_created queue))),
       (''DelaySeconds'', to_string (qa_delaySeconds a)),
       (''LastModifiedTimestamp'', to_string (epochTime (q_modified queue))),
       (''MaximumMessageSize'', to_string (qa_maxMessageSize a)),
       (''MessageRetentionPeriod'', to_string (qa_messageRetentionPeriod a)),
       (''Policy'', qa_policy a),
       (''QueueArn'', q_queueArn queue),
       (''ReceiveMessageWaitTimeSeconds'', to_string (qa_receiveMessageWaitTime a)),
       (''VisibilityTimeout'', to_string (qa_visibilityTimeout a))])"

definition named_attributes :: "externals \<Rightarrow> string list \<Rightarrow> Queue \<Rightarrow> (string \<times> string) list" where
  "named_attributes ext names queue =
     (let a = q_attributes queue;
          entry = (\<lambda>name value. if SQSService_CheckAttribute names name then [(name, value)] else [])
      in entry ''Policy'' (qa_policy a)
         @ entry ''VisibilityTimeout'' (to_string (qa_visibilityTimeout a))
         @ entry ''MaximumMessageSize'' (to_string (qa_maxMessageSize a))
         @ entry ''MessageRetentionPeriod'' (to_string (qa_messageRetentionPeriod a))
         @ entry ''ApproximateNumberOfMessages'' (to_string (qa_approximateNumberOfMessages a))
         @ entry ''ApproximateNumberOfMessagesNotVisible'' (to_string (qa_approximateNumberOfMessagesNotVisible a))
         @ entry ''CreatedTimestamp'' (ext_http_format ext (q_created queue))
         @ entry ''LastModifiedTimestamp'' (ext_http_format ext (q_modified queue))
         @ entry ''ApproximateNumberOfMessagesNotVisible'' (to_string (qa_approximateNumberOfMessagesDelayed a))
         @ entry ''DelaySeconds'' (to_string (qa_delaySeconds a))
         @ entry ''ReceiveMessageWaitTimeSeconds'' (to_string (qa_receiveMessageWaitTime a))
         @ entry ''RedrivePolicy'' (RedrivePolicy_ToJson ext (qa_redrivePolicy a)))"

definition SQSService_GetQueueAttributes ::
  "externals \<Rightarrow> int \<Rightarrow> GetQueueAttributesRequest \<Rightarrow> sqs_db \<Rightarrow> ((string \<times> string) list, sqs_db) outcome" where
  "SQSService_GetQueueAttributes ext now request db =
     (if \<not> SQSMemoryDb_QueueUrlExists (gar_region request) (gar_queueUrl request) db
      then (Inl (no_such_queue (gar_region request) (gar_queueUrl request)), db)
      else (case SQSDatabase_GetQueueByUrl now (gar_region request) (gar_queueUrl request) db of
              (queue, db') \<Rightarrow>
                (Inr (if SQSService_CheckAttribute (gar_attributeNames request) ''all''
                      then all_attributes queue
                      else named_attributes ext (gar_attributeNames request) queue), db')))"

text \<open>\<open>request.attributes[name]\<close>: \<open>operator[]\<close> gives the empty string for a missing key.\<close>

definition map_at :: "string \<Rightarrow> (string, string) smap \<Rightarrow> string" where
  "map_at name m = (case smap_get name m of Some v \<Rightarrow> v | None \<Rightarrow> [])"

definition set_if :: "string \<Rightarrow> (string, string) smap \<Rightarrow> (string \<Rightarrow> QueueAttribute \<Rightarrow> QueueAttribute result) \<Rightarrow>
  QueueAttribute \<Rightarrow> QueueAttribute result" where
  "set_if name attributes f qa = (if map_at name attributes \<noteq> [] then f (map_at name attributes) qa else Inr qa)"

definition set_attributes ::
  "externals \<Rightarrow> (string, string) smap \<Rightarrow> string \<Rightarrow> QueueAttribute \<Rightarrow> QueueAttribute result" where
  "set_attributes ext attributes queueArn qa0 =
     rbind (set_if ''Policy'' attributes (\<lambda>v qa. Inr (qa\<lparr>qa_policy := v\<rparr>)) qa0) (\<lambda>qa1.
     rbind (set_if ''RedrivePolicy'' attributes
              (\<lambda>v qa. rbind (RedrivePolicy_FromJson ext v (qa_redrivePolicy qa)) (\<lambda>p. Inr (qa\<lparr>qa_redrivePolicy := p\<rparr>))) qa1) (\<lambda>qa2.
     rbind (set_if ''RedriveAllowPolicy'' attributes (\<lambda>v qa. Inr (qa\<lparr>qa_redriveAllowPolicy := v\<rparr>)) qa2) (\<lambda>qa3.
     rbind (set_if ''MessageRetentionPeriod'' attributes (\<lambda>v qa. read_int v (\<lambda>n. qa\<lparr>qa_messageRetentionPeriod := n\<rparr>)) qa3) (\<lambda>qa4.
     rbind (set_if ''VisibilityTimeout'' attributes (\<lambda>v qa. read_int v (\<lambda>n. qa\<lparr>qa_visibilityTimeout := n\<rparr>)) qa4) (\<lambda>qa5.
     Inr (if map_at ''QueueArn'' attributes \<noteq> [] then qa5\<lparr>qa_queueArn := map_at ''QueueArn'' attributes\<rparr>
          else qa5\<lparr>qa_queueArn := queueArn\<rparr>))))))"

definition SQSService_SetQueueAttributes ::
  "externals \<Rightarrow> int \<Rightarrow> SetQueueAttributesRequest \<Rightarrow> sqs_db \<Rightarrow> (SetQueueAttributesResponse, sqs_db) outcome" where
  "SQSService_SetQueueAttributes ext now request db =
     (if \<not> SQSMemoryDb_QueueUrlExists (sar_region request) (sar_queueUrl request) db
      then (Inl (no_such_queue (sar_region request) (sar_queueUrl request)), db)
      else catch_poco
        (case SQSDatabase_GetQueueByUrl now (sar_region request) (sar_queueUrl request) db of
           (queue, db') \<Rightarrow>
             (case set_attributes ext (sar_attributes request) (q_queueArn queue) (q_attributes queue) of
                Inl e \<Rightarrow> (Inl e, db')
              | Inr attributes \<Rightarrow>
                  andthen (SQSMemoryDb_UpdateQueue (queue\<lparr>q_attributes := attributes\<rparr>) db')
                    (\<lambda>_ db''. (Inr \<lparr>sas_resource = ''sqs'', sas_requestId = sar_requestId request\<rparr>, db'')))))"

definition SQSService_TagQueue :: "int \<Rightarrow> TagQueueRequest \<Rightarrow> sqs_db \<Rightarrow> (unit, sqs_db) outcome" where
  "SQSService_TagQueue now request db =
     catch_poco
       (if \<not> SQSMemoryDb_QueueUrlExists (tqr_region request) (tqr_queueUrl request) db
        then (Inl (ServiceException ''SQS queue topic does not exists''), db)
        else (case SQSDatabase_GetQueueByUrl now (tqr_region request) (tqr_queueUrl request) db of
                (queue, db') \<Rightarrow>
                  andthen (SQSMemoryDb_UpdateQueue
                             (queue\<lparr>q_tags := fold (\<lambda>(k, v) tags. smap_put k v tags) (tqr_tags request) (q_tags queue)\<rparr>) db')
                    (\<lambda>_ db''. (Inr (), db''))))"

definition SQSService_DeleteQueue :: "DeleteQueueRequest \<Rightarrow> sqs_db \<Rightarrow> (DeleteQueueResponse, sqs_db) outcome" where
  "SQSService_DeleteQueue request db =
     (if \<not> SQSMemoryDb_QueueUrlExists (dqr_region request) (dqr_queueUrl request) db
      then (Inl (no_such_queue (dqr_region request) (dqr_queueUrl request)), db)
      else (Inr \<lparr>dqs_region = dqr_region request, dqs_queueUrl = dqr_queueUrl request,
                  dqs_requestId = dqr_requestId request\<rparr>,
            SQSMemoryDb_DeleteQueue (dqr_region request) (dqr_queueUrl request)
              (SQSMemoryDb_DeleteMessages (dqr_queueUrl request) db)))"

section \<open>Messages\<close>

record send_draws =
  sd_sent :: int            \<comment> \<open>the two readings of \<open>std::time\<close>, seconds\<close>
  sd_first :: int
  sd_now :: int             \<comment> \<open>\<open>system_clock::now()\<close> for the reset time\<close>
  sd_init :: int            \<comment> \<open>the clock of the default member initialisers\<close>
  sd_messageId :: string
  sd_receiptHandle :: string
  sd_oid :: string

definition system_attributes :: "send_draws \<Rightarrow> Queue \<Rightarrow> SendMessageRequest \<Rightarrow> (string, string) smap" where
  "system_attributes d queue request =
     smap_put ''SenderId'' (smr_senderId request)
       (smap_put ''VisibilityTimeout'' (to_string (qa_visibilityTimeout (q_attributes queue)))
         (smap_put ''ApproximateReceivedCount'' (to_string 0)
           (smap_put ''ApproximateFirstReceivedTimestamp'' (to_string (sd_first d))
             (smap_put ''SentTimestamp'' (to_string (sd_sent d)) (smr_attributes request)))))"

definition user_attributes :: "(string, DtoMessageAttribute) smap \<Rightarrow> MessageAttribute list" where
  "user_attributes attributes =
     map (\<lambda>(name, a). \<lparr>ma_attributeName = name, ma_attributeValue = dma_stringValue a,
                       ma_attributeType = MessageAttributeTypeFromString (MessageAttributeDataTypeToString (dma_type a)),
                       ma_systemAttribute = False\<rparr>) attributes"

definition send_reset :: "int \<Rightarrow> Queue \<Rightarrow> int" where
  "send_reset now queue =
     now + seconds (if 0 < qa_delaySeconds (q_attributes queue) then qa_delaySeconds (q_attributes queue)
                    else qa_visibilityTimeout (q_attributes queue))"

definition new_message :: "externals \<Rightarrow> send_draws \<Rightarrow> Queue \<Rightarrow> SendMessageRequest \<Rightarrow> Message" where
  "new_message ext d queue request =
     (Message_init (sd_init d))\<lparr>m_region := smr_region request, m_queueUrl := q_queueUrl queue,
       m_queueName := q_name queue, m_body := smr_body request, m_status := INITIAL,
       m_reset := send_reset (sd_now d) queue, m_messageId := sd_messageId d,
       m_receiptHandle := sd_receiptHandle d,
       m_md5Body := Crypto_GetMd5FromString (ext_md5 ext) (smr_body request),
       m_md5UserAttr := MessageAttribute_GetMd5MessageAttributes (ext_md5 ext) (smr_messageAttributes request),
       m_md5SystemAttr := MessageAttribute_GetMd5Attributes (ext_md5 ext) (smr_attributes request),
       m_attributes := system_attributes d queue request,
       m_messageAttributes := user_attributes (smr_messageAttributes request)\<rparr>"

definition SQSService_SendMessage ::
  "externals \<Rightarrow> send_draws \<Rightarrow> SendMessageRequest \<Rightarrow> sqs_db \<Rightarrow> (SendMessageResponse, sqs_db) outcome" where
  "SQSService_SendMessage ext d request db =
     (if smr_queueUrl request \<noteq> [] \<and> \<not> SQSMemoryDb_QueueUrlExists (smr_region request) (smr_queueUrl request) db
      then (Inl (no_such_queue (smr_region request) (smr_queueUrl request)), db)
      else (case SQSDatabase_GetQueueByUrl (sd_init d) (smr_region request) (smr_queueUrl request) db of
              (queue, db') \<Rightarrow>
                (case SQSMemoryDb_CreateMessage (sd_init d) (sd_oid d) (new_message ext d queue request) db' of
                   (message, db'') \<Rightarrow>
                     (Inr \<lparr>sms_queueUrl = m_queueUrl message, sms_messageId = m_messageId message,
                           sms_receiptHandle = m_receiptHandle message,
                           sms_md5Body = Crypto_GetMd5FromString (ext_md5 ext) (smr_body request),
                           sms_md5UserAttr = MessageAttribute_GetMd5MessageAttributes (ext_md5 ext) (smr_messageAttributes request),
                           sms_md5SystemAttr = MessageAttribute_GetMd5Attributes (ext_md5 ext) (smr_attributes request),
                           sms_requestId = smr_requestId request\<rparr>, db''))))"

definition visibility_attribute :: "int \<Rightarrow> MessageAttribute" where
  "visibility_attribute timeout =
     \<lparr>ma_attributeName = ''VisibilityTimeout'', ma_attributeValue = to_string timeout,
      ma_attributeType = NUMBER, ma_systemAttribute = False\<rparr>"

definition SQSService_SetVisibilityTimeout ::
  "int \<Rightarrow> int \<Rightarrow> ChangeMessageVisibilityRequest \<Rightarrow> sqs_db \<Rightarrow> (unit, sqs_db) outcome" where
  "SQSService_SetVisibilityTimeout init now request db =
     (if \<not> SQSMemoryDb_MessageExists (cmv_receiptHandle request) db
      then (Inl (ServiceException (''Message does not exist, receiptHandle: '' @ cmv_receiptHandle request)), db)
      else catch_poco
        (case SQSMemoryDb_GetMessageByReceiptHandle init (cmv_receiptHandle request) db of
           (message, db') \<Rightarrow>
             andthen (SQSMemoryDb_UpdateMessage
                        (message\<lparr>m_messageAttributes := m_messageAttributes message
                                     @ [visibility_attribute (cmv_visibilityTimeout request)],
                                 m_reset := now + seconds (cmv_visibilityTimeout request)\<rparr>) db')
               (\<lambda>_ db''. (Inr (), db''))))"

definition SQSService_DeleteMessage :: "DeleteMessageRequest \<Rightarrow> sqs_db \<Rightarrow> (unit, sqs_db) outcome" where
  "SQSService_DeleteMessage request db =
     catch_poco
       (if \<not> SQSMemoryDb_MessageExists (dmr_receiptHandle request) db
        then (Inl (ServiceException (''Message does not exist, receiptHandle: '' @ dmr_receiptHandle request)), db)
        else (Inr (), SQSMemoryDb_DeleteMessage (dmr_receiptHandle request) db))"

text \<open>The first entry whose handle is unknown ends the batch, without an error.\<close>

fun delete_batch :: "DeleteMessageBatchEntry list \<Rightarrow> sqs_db \<Rightarrow> sqs_db" where
  "delete_batch [] db = db"
| "delete_batch (entry # entries) db =
     (if \<not> SQSMemoryDb_MessageExists (dbe_receiptHandle entry) db then db
      else delete_batch entries (SQSMemoryDb_DeleteMessage (dbe_receiptHandle entry) db))"

definition SQSService_DeleteMessageBatch :: "DeleteMessageBatchRequest \<Rightarrow> sqs_db \<Rightarrow> (unit, sqs_db) outcome" where
  "SQSService_DeleteMessageBatch request db = (Inr (), delete_batch (dbr_deleteMessageBatchEntries request) db)"

section \<open>Long polling\<close>

text \<open>
  What one turn of the polling loop draws: the clocks of the reset pass and of the receive, the
  handles, the clock read for \<open>elapsed\<close>, and what other threads do to the store during the 500 ms
  of sleep.  \<open>poll i\<close> is turn \<open>i\<close>.
\<close>

record poll =
  pl_reset_now :: "string \<Rightarrow> int"
  pl_now :: int
  pl_handle :: "string \<Rightarrow> string"
  pl_clock :: int
  pl_others :: "sqs_db \<Rightarrow> sqs_db"

definition elapsed_seconds :: "int \<Rightarrow> int" where
  "elapsed_seconds d = tdiv d 1000000000"

text \<open>The loop with fuel: \<open>None\<close> is a loop still running when the fuel is spent.\<close>

fun receive_poll ::
  "nat \<Rightarrow> (nat \<Rightarrow> poll) \<Rightarrow> nat \<Rightarrow> Queue \<Rightarrow> ReceiveMessageRequest \<Rightarrow> int \<Rightarrow> int \<Rightarrow> sqs_db \<Rightarrow>
   (Message list \<times> sqs_db) option" where
  "receive_poll 0 polls i queue request begin_time elapsed db = None"
| "receive_poll (Suc fuel) polls i queue request begin_time elapsed db =
     (if \<not> elapsed < rmr_waitTimeSeconds request then Some ([], db)
      else (case SQSDatabase_ReceiveMessages (pl_reset_now (polls i)) (pl_now (polls i)) (pl_handle (polls i))
                   (q_region queue) (q_queueUrl queue) (qa_visibilityTimeout (q_attributes queue))
                   (rmr_maxMessages request) [] db of
              (messageList, db') \<Rightarrow>
                if messageList \<noteq> [] then Some (messageList, db')
                else receive_poll fuel polls (Suc i) queue request begin_time
                       (elapsed_seconds (pl_clock (polls i) - begin_time)) (pl_others (polls i) db')))"

definition SQSService_ReceiveMessages ::
  "nat \<Rightarrow> (nat \<Rightarrow> poll) \<Rightarrow> int \<Rightarrow> int \<Rightarrow> ReceiveMessageRequest \<Rightarrow> sqs_db \<Rightarrow>
   (ReceiveMessageResponse, sqs_db) outcome option" where
  "SQSService_ReceiveMessages fuel polls init begin_time request db =
     (if rmr_queueUrl request \<noteq> [] \<and> \<not> SQSMemoryDb_QueueUrlExists (rmr_region request) (rmr_queueUrl request) db
      then Some (Inl (no_such_queue (rmr_region request) (rmr_queueUrl request)), db)
      else (case SQSDatabase_GetQueueByUrl init (rmr_region request) (rmr_queueUrl request) db of
              (queue, db') \<Rightarrow>
                map_option (\<lambda>(messageList, db'').
                    (Inr (if messageList \<noteq> []
                          then \<lparr>rms_messageList = messageList, rms_requestId = rmr_requestId request\<rparr>
                          else \<lparr>rms_messageList = [], rms_requestId = []\<rparr>), db''))
                  (receive_poll fuel polls 0 queue request begin_time 0 db')))"

section \<open>The worker\<close>

text \<open>
  \<open>service/src/sqs/SQSWorker.cpp\<close>.  \<open>ResetMessages\<close> works on the copies of the queues that
  \<open>ListQueues\<close> returned.  Each call of the store is one step; between the maintenance of one
  queue and the next, and before the final \<open>UpdateQueue\<close>, other threads may change the store:
  \<open>wd_others\<close>.  The draws are functions of the position in the list of queues.
\<close>

record worker_draws =
  wd_retention_now :: "string \<Rightarrow> int"
  wd_reset_now :: "string \<Rightarrow> int"
  wd_delay_now :: "string \<Rightarrow> int"
  wd_others :: "sqs_db \<Rightarrow> sqs_db"

definition worker_counters :: "Queue \<Rightarrow> sqs_db \<Rightarrow> Queue" where
  "worker_counters queue db =
     queue\<lparr>q_attributes := (q_attributes queue)\<lparr>
       qa_approximateNumberOfMessages := SQSMemoryDb_CountMessages (q_region queue) (q_queueUrl queue) db,
       qa_approximateNumberOfMessagesDelayed := SQSMemoryDb_CountMessagesByStatus (q_region queue) (q_queueUrl queue) DELAYED db,
       qa_approximateNumberOfMessagesNotVisible := SQSMemoryDb_CountMessagesByStatus (q_region queue) (q_queueUrl queue) INVISIBLE db\<rparr>\<rparr>"

definition worker_queue :: "config \<Rightarrow> worker_draws \<Rightarrow> Queue \<Rightarrow> sqs_db \<Rightarrow> (Queue, sqs_db) outcome" where
  "worker_queue cfg d queue db =
     andthen (if 0 < qa_messageRetentionPeriod (q_attributes queue)
              then SQSMemoryDb_MessageRetention (wd_retention_now d) (q_queueUrl queue)
                     (qa_messageRetentionPeriod (q_attributes queue)) db
              else (Inr (), db)) (\<lambda>_ db1.
     let db2 = SQSMemoryDb_ResetMessages (wd_reset_now d) (q_queueUrl queue) (qa_visibilityTimeout (q_attributes queue)) db1;
         queue1 = worker_counters queue db2;
         db3 = (if rp_deadLetterTargetArn (qa_redrivePolicy (q_attributes queue)) \<noteq> []
                then SQSMemoryDb_RedriveMessages cfg (q_queueUrl queue) (qa_redrivePolicy (q_attributes queue)) db2
                else db2);
         db4 = (if 0 < qa_delaySeconds (q_attributes queue)
                then SQSMemoryDb_ResetDelayedMessages (wd_delay_now d) (q_queueUrl queue) (qa_delaySeconds (q_attributes queue)) db3
                else db3)
     in SQSMemoryDb_UpdateQueue queue1 (wd_others d db4))"

fun worker_loop :: "config \<Rightarrow> (nat \<Rightarrow> worker_draws) \<Rightarrow> nat \<Rightarrow> Queue list \<Rightarrow> sqs_db \<Rightarrow> (unit, sqs_db) outcome" where
  "worker_loop cfg draws i [] db = (Inr (), db)"
| "worker_loop cfg draws i (queue # queues) db =
     andthen (worker_queue cfg (draws i) queue db) (\<lambda>_ db'. worker_loop cfg draws (Suc i) queues db')"

definition SQSWorker_ResetMessages :: "config \<Rightarrow> (nat \<Rightarrow> worker_draws) \<Rightarrow> sqs_db \<Rightarrow> (unit, sqs_db) outcome" where
  "SQSWorker_ResetMessages cfg draws db = worker_loop cfg draws 0 (SQSMemoryDb_ListQueues [] db) db"

end
