(* ===== verification/SQSInvariant.thy ===== *)
theory SQSInvariant
  imports SQSService
begin

text \<open>
  The SQS service as a transition system.  \<open>sqs_wf\<close> is the well-formedness of the store: object
  ids, unique queue names per region, queue URLs and ARNs derived from the names, and the two
  delivery states a message can really be in.  \<open>sqs_step\<close> has one rule per operation that changes
  the store; a long poll is a sequence of its store calls.  Reachable stores are well-formed.
\<close>

section \<open>Well-formed stores\<close>

definition message_ok :: "Message \<Rightarrow> bool" where
  "message_ok m \<longleftrightarrow> (m_status m = INITIAL \<and> 0 \<le> m_retries m) \<or> (m_status m = INVISIBLE \<and> 1 \<le> m_retries m)"

definition queue_ok :: "config \<Rightarrow> Queue \<Rightarrow> bool" where
  "queue_ok cfg q \<longleftrightarrow> q_queueUrl q = CreateSQSQueueUrl cfg (q_name q) \<and> q_queueArn q = CreateSQSQueueArn cfg (q_name q)"

definition sqs_wf :: "config \<Rightarrow> sqs_db \<Rightarrow> bool" where
  "sqs_wf cfg db \<longleftrightarrow> sqs_inv db \<and> queue_names_unique db \<and>
     list_all (\<lambda>(k, q). queue_ok cfg q) (sqs_queues db) \<and> list_all (\<lambda>(k, m). message_ok m) (sqs_messages db)"

lemma sqs_wfD:
  assumes "sqs_wf cfg db"
  shows "sqs_inv db" "queue_names_unique db"
    "\<And>k q. (k, q) \<in> set (sqs_queues db) \<Longrightarrow> queue_ok cfg q"
    "\<And>k m. (k, m) \<in> set (sqs_messages db) \<Longrightarrow> message_ok m"
  using assms by (auto simp: sqs_wf_def list_all_iff)

lemma sqs_wf_messagesI:
  "sqs_wf cfg db \<Longrightarrow> sqs_inv (db\<lparr>sqs_messages := ms\<rparr>) \<Longrightarrow> (\<And>k m. (k, m) \<in> set ms \<Longrightarrow> message_ok m) \<Longrightarrow>
   sqs_wf cfg (db\<lparr>sqs_messages := ms\<rparr>)"
  by (auto simp: sqs_wf_def list_all_iff queue_names_unique_def)

lemma sqs_wf_queuesI:
  "sqs_wf cfg db \<Longrightarrow> sqs_inv (db\<lparr>sqs_queues := qs\<rparr>) \<Longrightarrow> queue_names_unique (db\<lparr>sqs_queues := qs\<rparr>) \<Longrightarrow>
   (\<And>k q. (k, q) \<in> set qs \<Longrightarrow> queue_ok cfg q) \<Longrightarrow> sqs_wf cfg (db\<lparr>sqs_queues := qs\<rparr>)"
  by (auto simp: sqs_wf_def list_all_iff)

lemma sqs_wf_empty: "sqs_wf cfg \<lparr>sqs_queues = [], sqs_messages = []\<rparr>"
  by (simp add: sqs_wf_def sqs_inv_empty queue_names_unique_def)

subsection \<open>Message changes\<close>

lemma sqs_wf_messages_map:
  assumes "sqs_wf cfg db" "\<And>k m. m_oid (f k m) = m_oid m" "\<And>k m. message_ok m \<Longrightarrow> message_ok (f k m)"
  shows "sqs_wf cfg (db\<lparr>sqs_messages := map (\<lambda>(k, m). (k, f k m)) (sqs_messages db)\<rparr>)"
  using assms by (intro sqs_wf_messagesI sqs_inv_messages_map) (auto dest: sqs_wfD)

lemma sqs_wf_messages_erase:
  "sqs_wf cfg db \<Longrightarrow> sqs_wf cfg (db\<lparr>sqs_messages := smap_erase_if P (sqs_messages db)\<rparr>)"
  by (intro sqs_wf_messagesI sqs_inv_messages_erase) (auto dest: sqs_wfD simp: set_smap_erase_if)

lemma sqs_wf_put_message:
  "sqs_wf cfg db \<Longrightarrow> m_oid m = oid \<Longrightarrow> message_ok m \<Longrightarrow>
   sqs_wf cfg (db\<lparr>sqs_messages := smap_put oid m (sqs_messages db)\<rparr>)"
  by (intro sqs_wf_messagesI sqs_inv_put_message) (auto dest: sqs_wfD simp: set_smap_put sqs_invD sqs_wfD)

lemma message_ok_steps [simp]:
  "message_ok m \<Longrightarrow> message_ok (message_reset url now m)"
  "message_ok m \<Longrightarrow> message_ok (message_redrive url dlq n m)"
  "message_ok m \<Longrightarrow> message_ok (message_undelay url now m)"
  by (auto simp: message_ok_def message_reset_def message_redrive_def message_undelay_def)

lemma message_ok_hide: "message_ok m \<Longrightarrow> message_ok (snd (hide reset handle (k, m)))"
  by (auto simp: message_ok_def hide_def message_hidden_def message_received_def)

lemma sqs_wf_ResetMessages:
  "sqs_wf cfg db \<Longrightarrow> sqs_wf cfg (SQSMemoryDb_ResetMessages now url visibility db)"
  unfolding SQSMemoryDb_ResetMessages_def by (rule sqs_wf_messages_map) simp_all

lemma sqs_wf_RedriveMessages:
  "sqs_wf cfg db \<Longrightarrow> sqs_wf cfg (SQSMemoryDb_RedriveMessages cfg' url policy db)"
  unfolding SQSMemoryDb_RedriveMessages_def Let_def by (rule sqs_wf_messages_map) simp_all

lemma sqs_wf_ResetDelayedMessages:
  "sqs_wf cfg db \<Longrightarrow> sqs_wf cfg (SQSMemoryDb_ResetDelayedMessages now url delay db)"
  unfolding SQSMemoryDb_ResetDelayedMessages_def by (rule sqs_wf_messages_map) simp_all

lemma sqs_wf_ReceiveMessages:
  assumes "sqs_wf cfg db"
  shows "sqs_wf cfg (snd (SQSMemoryDb_ReceiveMessages now handle region queueUrl visibility maxMessages acc db))"
proof -
  let ?ms = "update_first (receive_quota maxMessages (length acc)) (receivable region queueUrl)
               (hide (now + seconds visibility) handle) (sqs_messages db)"
  have eq: "snd (SQSMemoryDb_ReceiveMessages now handle region queueUrl visibility maxMessages acc db)
              = db\<lparr>sqs_messages := ?ms\<rparr>" by (simp add: ReceiveMessages_eq)
  have "sqs_inv (db\<lparr>sqs_messages := ?ms\<rparr>)"
    unfolding eq [symmetric] by (rule sqs_inv_ReceiveMessages) (rule sqs_wfD [OF assms])
  moreover have "message_ok m" if "(k, m) \<in> set ?ms" for k m
    using update_first_cases [OF that] message_ok_hide sqs_wfD(4) [OF assms]
    by (auto dest!: in_set_takeD) (metis snd_conv)
  ultimately show ?thesis unfolding eq using assms by (intro sqs_wf_messagesI) auto
qed

lemma sqs_wf_DatabaseReceive:
  "sqs_wf cfg db \<Longrightarrow>
   sqs_wf cfg (snd (SQSDatabase_ReceiveMessages rnow now handle region url visibility maxMessages acc db))"
  by (simp add: SQSDatabase_ReceiveMessages_def sqs_wf_ReceiveMessages sqs_wf_ResetMessages)

lemma sqs_wf_message_deletes:
  assumes "sqs_wf cfg db"
  shows "sqs_wf cfg (SQSMemoryDb_PurgeQueue region url db)"
    "sqs_wf cfg (SQSMemoryDb_DeleteMessages url db)"
    "sqs_wf cfg (SQSMemoryDb_DeleteMessage rh db)"
  using assms
  by (simp_all add: SQSMemoryDb_PurgeQueue_def SQSMemoryDb_DeleteMessages_def SQSMemoryDb_DeleteMessage_def
      sqs_wf_messages_erase)

subsection \<open>Queue changes\<close>

lemma names_unique_erase:
  "queue_names_unique db \<Longrightarrow> queue_names_unique (db\<lparr>sqs_queues := smap_erase_if P (sqs_queues db)\<rparr>)"
  by (auto simp: queue_names_unique_def set_smap_erase_if)

lemma sqs_wf_DeleteQueue: "sqs_wf cfg db \<Longrightarrow> sqs_wf cfg (SQSMemoryDb_DeleteQueue region url db)"
  unfolding SQSMemoryDb_DeleteQueue_def
  by (rule sqs_wf_queuesI)
    (auto simp: sqs_wfD sqs_inv_queues_erase names_unique_erase set_smap_erase_if)

lemma sqs_wf_put_queue:
  assumes wf: "sqs_wf cfg db" and ok: "q_oid q = oid" "queue_ok cfg q"
    and own: "\<And>k q'. (k, q') \<in> set (sqs_queues db) \<Longrightarrow> q_region q' = q_region q \<Longrightarrow> q_name q' = q_name q \<Longrightarrow> k = oid"
  shows "sqs_wf cfg (db\<lparr>sqs_queues := smap_put oid q (sqs_queues db)\<rparr>)"
proof (rule sqs_wf_queuesI [OF wf])
  note rows = set_smap_put [OF sqs_invD(3) [OF sqs_wfD(1) [OF wf]]]
  show "sqs_inv (db\<lparr>sqs_queues := smap_put oid q (sqs_queues db)\<rparr>)"
    using sqs_wfD(1) [OF wf] ok(1) by (rule sqs_inv_put_queue)
  show "queue_names_unique (db\<lparr>sqs_queues := smap_put oid q (sqs_queues db)\<rparr>)"
    using own queue_names_uniqueD [OF sqs_wfD(2) [OF wf]]
    by (auto simp: queue_names_unique_def rows)
  show "\<And>k q'. (k, q') \<in> set (smap_put oid q (sqs_queues db)) \<Longrightarrow> queue_ok cfg q'"
    using ok(2) sqs_wfD(3) [OF wf] by (auto simp: rows)
qed

lemma sqs_wf_replace_queue:
  assumes wf: "sqs_wf cfg db" and row: "(k, q) \<in> set (sqs_queues db)"
    and same: "q_oid q' = q_oid q" "q_region q' = q_region q" "q_name q' = q_name q"
      "q_queueUrl q' = q_queueUrl q" "q_queueArn q' = q_queueArn q"
  shows "sqs_wf cfg (db\<lparr>sqs_queues := smap_put k q' (sqs_queues db)\<rparr>)"
proof (rule sqs_wf_put_queue [OF wf])
  show "q_oid q' = k" using rows_taggedD [OF sqs_invD(1) [OF sqs_wfD(1) [OF wf]] row] same(1) by simp
  show "queue_ok cfg q'" using sqs_wfD(3) [OF wf row] same by (simp add: queue_ok_def)
  show "k' = k" if "(k', r) \<in> set (sqs_queues db)" "q_region r = q_region q'" "q_name r = q_name q'" for k' r
    using queue_names_uniqueD [OF sqs_wfD(2) [OF wf] that(1) row] that(2,3) same by simp
qed

section \<open>The service operations\<close>

lemma sqs_wf_CreateQueue:
  assumes wf: "sqs_wf cfg db" and fresh: "oid \<notin> fst ` set (sqs_queues db)"
  shows "sqs_wf cfg (snd (SQSService_CreateQueue cfg ext now oid request db))"
proof (cases "SQSMemoryDb_QueueExists (cqr_region request) (cqr_queueName request) db")
  case False
  then have "\<not> (q_region q = cqr_region request \<and> q_name q = cqr_queueName request)"
    if "(k, q) \<in> set (sqs_queues db)" for k q
    using that QueueExists_iff by blast
  then have "sqs_wf cfg (db\<lparr>sqs_queues := smap_put oid
      ((new_queue cfg now request attributes)\<lparr>q_oid := oid\<rparr>) (sqs_queues db)\<rparr>)" for attributes
    by (intro sqs_wf_put_queue [OF wf]) (auto simp: new_queue_def queue_ok_def)
  then show ?thesis
    using wf sqs_wfD(1) [OF wf]
    by (simp add: SQSService_CreateQueue_def False CreateQueue_eq split: sum.split)
qed (simp add: SQSService_CreateQueue_def wf)

text \<open>The getter by URL yields a row of the store when a row with the URL exists.\<close>

lemma GetQueueByUrl_row:
  assumes "sqs_inv db" "SQSMemoryDb_QueueUrlExists region url db"
  obtains k q where "(k, q) \<in> set (sqs_queues db)" "q_queueUrl q = url"
    "SQSDatabase_GetQueueByUrl now region' url db = (q, db)"
  using assms(2) GetQueueByUrl_found [OF assms(1)] unfolding QueueUrlExists_iff by metis

lemma sqs_wf_GetQueueUrl: "sqs_wf cfg db \<Longrightarrow> snd (SQSService_GetQueueUrl cfg now request db) = db"
  using GetQueueByUrl_split [OF sqs_wfD(1)]
  by (auto simp: SQSService_GetQueueUrl_def Let_def case_prod_beta sqs_wfD)

lemma sqs_wf_GetQueueAttributes:
  "sqs_wf cfg db \<Longrightarrow> snd (SQSService_GetQueueAttributes ext now request db) = db"
  by (auto simp: SQSService_GetQueueAttributes_def case_prod_beta sqs_wfD)

text \<open>
  Both updates of a queue act on the row found by the URL; the row is there when \<open>UpdateQueue\<close>
  looks for it.
\<close>

lemma SetQueueAttributes_eq:
  assumes wf: "sqs_wf cfg db" and ex: "SQSMemoryDb_QueueUrlExists (sar_region request) (sar_queueUrl request) db"
  obtains k q where "(k, q) \<in> set (sqs_queues db)" "q_queueUrl q = sar_queueUrl request"
    "SQSDatabase_GetQueueByUrl now (sar_region request) (sar_queueUrl request) db = (q, db)"
    "SQSService_SetQueueAttributes ext now request db =
       (case set_attributes ext (sar_attributes request) (q_queueArn q) (q_attributes q) of
          Inl e \<Rightarrow> (Inl (rethrow_service e), db)
        | Inr a \<Rightarrow> (Inr \<lparr>sas_resource = ''sqs'', sas_requestId = sar_requestId request\<rparr>,
                    db\<lparr>sqs_queues := smap_put k (q\<lparr>q_attributes := a\<rparr>) (sqs_queues db)\<rparr>))"
proof -
  obtain k q where row: "(k, q) \<in> set (sqs_queues db)" "q_queueUrl q = sar_queueUrl request"
    and get: "SQSDatabase_GetQueueByUrl now (sar_region request) (sar_queueUrl request) db = (q, db)"
    using GetQueueByUrl_row [OF sqs_wfD(1) [OF wf] ex] by metis
  have upd: "SQSMemoryDb_UpdateQueue (q\<lparr>q_attributes := a\<rparr>) db
               = (Inr (q\<lparr>q_attributes := a\<rparr>), db\<lparr>sqs_queues := smap_put k (q\<lparr>q_attributes := a\<rparr>) (sqs_queues db)\<rparr>)" for a
    by (rule UpdateQueue_eq [OF sqs_wfD(1,2) [OF wf] row(1)]) simp_all
  show ?thesis
    by (rule that [OF row get])
      (simp add: SQSService_SetQueueAttributes_def ex get upd split: sum.split)
qed

lemma sqs_wf_SetQueueAttributes:
  assumes wf: "sqs_wf cfg db"
  shows "sqs_wf cfg (snd (SQSService_SetQueueAttributes ext now request db))"
proof (cases "SQSMemoryDb_QueueUrlExists (sar_region request) (sar_queueUrl request) db")
  case True
  obtain k q where row: "(k, q) \<in> set (sqs_queues db)"
    and eq: "SQSService_SetQueueAttributes ext now request db =
       (case set_attributes ext (sar_attributes request) (q_queueArn q) (q_attributes q) of
          Inl e \<Rightarrow> (Inl (rethrow_service e), db)
        | Inr a \<Rightarrow> (Inr \<lparr>sas_resource = ''sqs'', sas_requestId = sar_requestId request\<rparr>,
                    db\<lparr>sqs_queues := smap_put k (q\<lparr>q_attributes := a\<rparr>) (sqs_queues db)\<rparr>))"
    by (rule SetQueueAttributes_eq [OF wf True])
  have "sqs_wf cfg (db\<lparr>sqs_queues := smap_put k (q\<lparr>q_attributes := a\<rparr>) (sqs_queues db)\<rparr>)" for a
    by (rule sqs_wf_replace_queue [OF wf row]) simp_all
  then show ?thesis using wf by (simp add: eq split: sum.split)
qed (simp add: SQSService_SetQueueAttributes_def wf)

definition put_tags :: "(string, string) smap \<Rightarrow> (string, string) smap \<Rightarrow> (string, string) smap" where
  "put_tags new tags = fold (\<lambda>(k, v) tags. smap_put k v tags) new tags"

lemma TagQueue_eq:
  assumes wf: "sqs_wf cfg db" and ex: "SQSMemoryDb_QueueUrlExists (tqr_region request) (tqr_queueUrl request) db"
  obtains k q where "(k, q) \<in> set (sqs_queues db)" "q_queueUrl q = tqr_queueUrl request"
    "SQSService_TagQueue now request db =
       (Inr (), db\<lparr>sqs_queues := smap_put k (q\<lparr>q_tags := put_tags (tqr_tags request) (q_tags q)\<rparr>) (sqs_queues db)\<rparr>)"
proof -
  obtain k q where row: "(k, q) \<in> set (sqs_queues db)" "q_queueUrl q = tqr_queueUrl request"
    and get: "SQSDatabase_GetQueueByUrl now (tqr_region request) (tqr_queueUrl request) db = (q, db)"
    using GetQueueByUrl_row [OF sqs_wfD(1) [OF wf] ex] by metis
  have upd: "SQSMemoryDb_UpdateQueue (q\<lparr>q_tags := a\<rparr>) db
               = (Inr (q\<lparr>q_tags := a\<rparr>), db\<lparr>sqs_queues := smap_put k (q\<lparr>q_tags := a\<rparr>) (sqs_queues db)\<rparr>)" for a
    by (rule UpdateQueue_eq [OF sqs_wfD(1,2) [OF wf] row(1)]) simp_all
  show ?thesis
    by (rule that [OF row]) (simp add: SQSService_TagQueue_def ex get upd put_tags_def)
qed

lemma sqs_wf_TagQueue:
  assumes wf: "sqs_wf cfg db"
  shows "sqs_wf cfg (snd (SQSService_TagQueue now request db))"
proof (cases "SQSMemoryDb_QueueUrlExists (tqr_region request) (tqr_queueUrl request) db")
  case True
  obtain k q where row: "(k, q) \<in> set (sqs_queues db)"
    and eq: "SQSService_TagQueue now request db =
       (Inr (), db\<lparr>sqs_queues := smap_put k (q\<lparr>q_tags := put_tags (tqr_tags request) (q_tags q)\<rparr>) (sqs_queues db)\<rparr>)"
    by (rule TagQueue_eq [OF wf True])
  have "sqs_wf cfg (db\<lparr>sqs_queues := smap_put k (q\<lparr>q_tags := a\<rparr>) (sqs_queues db)\<rparr>)" for a
    by (rule sqs_wf_replace_queue [OF wf row]) simp_all
  then show ?thesis by (simp add: eq)
qed (simp add: SQSService_TagQueue_def wf)

lemma sqs_wf_SendMessage:
  assumes wf: "sqs_wf cfg db"
  shows "sqs_wf cfg (snd (SQSService_SendMessage ext d request db))"
proof -
  obtain q where get: "SQSDatabase_GetQueueByUrl (sd_init d) (smr_region request) (smr_queueUrl request) db = (q, db)"
    using GetQueueByUrl_split [OF sqs_wfD(1) [OF wf]] by metis
  have "sqs_wf cfg (db\<lparr>sqs_messages := smap_put (sd_oid d)
          ((new_message ext d q request)\<lparr>m_oid := sd_oid d\<rparr>) (sqs_messages db)\<rparr>)"
    by (rule sqs_wf_put_message [OF wf]) (simp_all add: new_message_def message_ok_def Message_init_def)
  then show ?thesis using wf sqs_wfD(1) [OF wf]
    by (simp add: SQSService_SendMessage_def get CreateMessage_eq)
qed

lemma GetMessage_row:
  assumes "sqs_inv db" "SQSMemoryDb_MessageExists rh db"
  obtains k m where "(k, m) \<in> set (sqs_messages db)" "m_receiptHandle m = rh"
    "SQSMemoryDb_GetMessageByReceiptHandle init rh db = (m, db)"
proof -
  let ?P = "\<lambda>(k, m). m_receiptHandle m = rh"
  have "smap_find_if ?P (sqs_messages db) \<noteq> None" using assms(2) by (simp add: SQSMemoryDb_MessageExists_def)
  then obtain k m where f: "smap_find_if ?P (sqs_messages db) = Some (k, m)" by force
  have "(k, m) \<in> set (sqs_messages db)" "m_receiptHandle m = rh" using smap_find_if_Some [OF f] by auto
  then show ?thesis using that [of k m] f assms(1)
    by (simp add: SQSMemoryDb_GetMessageByReceiptHandle_def message_fetch_inv)
qed

lemma SetVisibilityTimeout_eq:
  assumes inv: "sqs_inv db" and ex: "SQSMemoryDb_MessageExists (cmv_receiptHandle request) db"
  obtains k m where "(k, m) \<in> set (sqs_messages db)" "m_receiptHandle m = cmv_receiptHandle request"
    "SQSService_SetVisibilityTimeout init now request db =
       (Inr (), db\<lparr>sqs_messages := smap_put k
          (m\<lparr>m_messageAttributes := m_messageAttributes m @ [visibility_attribute (cmv_visibilityTimeout request)],
             m_reset := now + seconds (cmv_visibilityTimeout request)\<rparr>) (sqs_messages db)\<rparr>)"
proof -
  obtain k m where row: "(k, m) \<in> set (sqs_messages db)" "m_receiptHandle m = cmv_receiptHandle request"
    and get: "SQSMemoryDb_GetMessageByReceiptHandle init (cmv_receiptHandle request) db = (m, db)"
    using GetMessage_row [OF inv ex] by metis
  show ?thesis by (rule that [OF row])
    (simp add: SQSService_SetVisibilityTimeout_def ex get UpdateMessage_eq [OF inv row(1)])
qed

lemma sqs_wf_SetVisibilityTimeout:
  assumes wf: "sqs_wf cfg db"
  shows "sqs_wf cfg (snd (SQSService_SetVisibilityTimeout init now request db))"
proof (cases "SQSMemoryDb_MessageExists (cmv_receiptHandle request) db")
  case True
  obtain k m where row: "(k, m) \<in> set (sqs_messages db)"
    and eq: "SQSService_SetVisibilityTimeout init now request db =
       (Inr (), db\<lparr>sqs_messages := smap_put k
          (m\<lparr>m_messageAttributes := m_messageAttributes m @ [visibility_attribute (cmv_visibilityTimeout request)],
             m_reset := now + seconds (cmv_visibilityTimeout request)\<rparr>) (sqs_messages db)\<rparr>)"
    using SetVisibilityTimeout_eq [OF sqs_wfD(1) [OF wf] True] by metis
  show ?thesis unfolding eq
    using rows_taggedD [OF sqs_invD(2) [OF sqs_wfD(1) [OF wf]] row] sqs_wfD(4) [OF wf row]
    by (auto intro!: sqs_wf_put_message [OF wf] simp: message_ok_def)
qed (simp add: SQSService_SetVisibilityTimeout_def wf)

lemma sqs_wf_delete_batch: "sqs_wf cfg db \<Longrightarrow> sqs_wf cfg (delete_batch entries db)"
  by (induction entries db rule: delete_batch.induct) (auto simp: sqs_wf_message_deletes)

lemma sqs_wf_deletes:
  assumes "sqs_wf cfg db"
  shows "sqs_wf cfg (snd (SQSService_DeleteMessage dm db))"
    "sqs_wf cfg (snd (SQSService_DeleteMessageBatch dmb db))"
    "sqs_wf cfg (snd (SQSService_PurgeQueue pq db))"
    "sqs_wf cfg (snd (SQSService_DeleteQueue dq db))"
  using assms
  by (simp_all add: SQSService_DeleteMessage_def SQSService_DeleteMessageBatch_def SQSService_PurgeQueue_def
      SQSService_DeleteQueue_def sqs_wf_message_deletes sqs_wf_DeleteQueue sqs_wf_delete_batch)

end
