(* ===== verification/MessageSink.thy ===== *)
theory MessageSink
  imports SQSInvariant
begin

text \<open>
  The interface under which other services use SQS: something that takes a message and either
  stores exactly one row or throws and stores nothing.  The client's lemmas are about a run of
  sends, as \<open>SNSService::CheckSubscriptions\<close> and the S3 notifications make them.
\<close>

locale message_sink =
  fixes inv :: "'db \<Rightarrow> bool"
    and rows :: "'db \<Rightarrow> (string, 'm) smap"
    and send :: "'d \<Rightarrow> 'req \<Rightarrow> 'db \<Rightarrow> ('r, 'db) outcome"
    and key :: "'d \<Rightarrow> string"
    and image :: "'d \<Rightarrow> 'req \<Rightarrow> 'db \<Rightarrow> 'm"
    and accepts :: "'req \<Rightarrow> 'db \<Rightarrow> bool"
  assumes inv_rows: "inv db \<Longrightarrow> smap_inv (rows db)"
    and send_inv: "inv db \<Longrightarrow> inv (snd (send d req db))"
    and send_accepted: "inv db \<Longrightarrow> accepts req db \<Longrightarrow> \<exists>r. fst (send d req db) = Inr r"
    and send_refused: "inv db \<Longrightarrow> \<not> accepts req db \<Longrightarrow> \<exists>text. send d req db = (Inl (ServiceException text), db)"
    and send_rows: "inv db \<Longrightarrow> accepts req db \<Longrightarrow> rows (snd (send d req db)) = smap_put (key d) (image d req db) (rows db)"
    and image_stable: "inv db \<Longrightarrow> image d req (snd (send d' req' db)) = image d req db"
    and accepts_stable: "inv db \<Longrightarrow> accepts req (snd (send d' req' db)) = accepts req db"
begin

primrec send_all :: "('d \<times> 'req) list \<Rightarrow> 'db \<Rightarrow> (unit, 'db) outcome" where
  "send_all [] db = (Inr (), db)"
| "send_all (x # xs) db = andthen (send (fst x) (snd x) db) (\<lambda>_ db'. send_all xs db')"

definition fresh_keys :: "('d \<times> 'req) list \<Rightarrow> 'db \<Rightarrow> bool" where
  "fresh_keys xs db \<longleftrightarrow> distinct (map (key \<circ> fst) xs) \<and> (\<forall>x \<in> set xs. key (fst x) \<notin> fst ` set (rows db))"

lemma send_all_inv: "inv db \<Longrightarrow> inv (snd (send_all xs db))"
proof (induction xs arbitrary: db)
  case (Cons x xs)
  show ?case unfolding send_all.simps
    by (rule andthen_invariant [where P = inv]) (use Cons send_inv in simp_all)
qed simp

lemma fresh_keys_step:
  assumes "inv db" "fresh_keys (x # xs) db" "accepts (snd x) db"
  shows "fresh_keys xs (snd (send (fst x) (snd x) db))"
proof -
  have "key (fst y) \<noteq> key (fst x)" if "y \<in> set xs" for y
  proof
    assume "key (fst y) = key (fst x)"
    then have "(key \<circ> fst) x \<in> set (map (key \<circ> fst) xs)" using that by (metis comp_apply imageI list.set_map)
    then show False using assms(2) by (simp add: fresh_keys_def)
  qed
  then show ?thesis using assms by (simp add: fresh_keys_def send_rows set_smap_put_keys)
qed

text \<open>A run over accepted requests stores one row per request and keeps the rows that were there.\<close>

lemma send_all_accepted:
  assumes "inv db" "fresh_keys xs db" "\<forall>x \<in> set xs. accepts (snd x) db"
  shows "fst (send_all xs db) = Inr () \<and>
    (\<forall>x \<in> set xs. (key (fst x), image (fst x) (snd x) db) \<in> set (rows (snd (send_all xs db)))) \<and>
    set (rows db) \<subseteq> set (rows (snd (send_all xs db)))"
  using assms
proof (induction xs arbitrary: db)
  case Nil
  then show ?case by simp
next
  case (Cons x xs)
  let ?db = "snd (send (fst x) (snd x) db)"
  have acc: "accepts (snd x) db" using Cons.prems(3) by simp
  obtain r where r: "send (fst x) (snd x) db = (Inr r, ?db)"
    using send_accepted [OF Cons.prems(1) acc] by (metis prod.collapse)
  have IH: "fst (send_all xs ?db) = Inr () \<and>
    (\<forall>y \<in> set xs. (key (fst y), image (fst y) (snd y) ?db) \<in> set (rows (snd (send_all xs ?db)))) \<and>
    set (rows ?db) \<subseteq> set (rows (snd (send_all xs ?db)))"
    using Cons.prems acc
    by (intro Cons.IH send_inv fresh_keys_step) (simp_all add: accepts_stable)
  have rows: "set (rows ?db) = insert (key (fst x), image (fst x) (snd x) db) {kv \<in> set (rows db). fst kv \<noteq> key (fst x)}"
    by (simp add: send_rows [OF Cons.prems(1) acc] set_smap_put inv_rows Cons.prems(1))
  have "key (fst x) \<notin> fst ` set (rows db)" using Cons.prems(2) by (simp add: fresh_keys_def)
  then have "set (rows db) \<subseteq> set (rows ?db)" by (force simp: rows)
  moreover have "send_all (x # xs) db = send_all xs ?db" by (simp add: r [THEN arg_cong, of "\<lambda>p. andthen p _", simplified])
  ultimately show ?case using IH rows image_stable [OF Cons.prems(1)] by auto
qed

text \<open>The first refused request ends the run; what was sent before it stays.\<close>

lemma send_all_refused:
  assumes "inv db" "fresh_keys (xs @ y # ys) db" "\<forall>x \<in> set xs. accepts (snd x) db" "\<not> accepts (snd y) db"
  shows "(\<exists>text. fst (send_all (xs @ y # ys) db) = Inl (ServiceException text)) \<and>
    snd (send_all (xs @ y # ys) db) = snd (send_all xs db)"
  using assms
proof (induction xs arbitrary: db)
  case Nil
  then obtain msg where "send (fst y) (snd y) db = (Inl (ServiceException msg), db)" using send_refused [of db "snd y" "fst y"] by auto
  then show ?case by simp
next
  case (Cons x xs)
  let ?db = "snd (send (fst x) (snd x) db)"
  have acc: "accepts (snd x) db" using Cons.prems(3) by simp
  obtain r where r: "send (fst x) (snd x) db = (Inr r, ?db)"
    using send_accepted [OF Cons.prems(1) acc] by (metis prod.collapse)
  have "fresh_keys (xs @ y # ys) ?db" by (rule fresh_keys_step) (use Cons.prems acc in simp_all)
  then have IH: "(\<exists>text. fst (send_all (xs @ y # ys) ?db) = Inl (ServiceException text)) \<and>
    snd (send_all (xs @ y # ys) ?db) = snd (send_all xs ?db)"
    using Cons.prems by (intro Cons.IH send_inv) (simp_all add: accepts_stable)
  have "send_all (x # zs) db = send_all zs ?db" for zs by (simp add: r [THEN arg_cong, of "\<lambda>p. andthen p _", simplified])
  then show ?case using IH by simp
qed

end

section \<open>SQS as a message sink\<close>

definition sqs_accepts :: "SendMessageRequest \<Rightarrow> sqs_db \<Rightarrow> bool" where
  "sqs_accepts request db \<longleftrightarrow> smr_queueUrl request = [] \<or> SQSMemoryDb_QueueUrlExists (smr_region request) (smr_queueUrl request) db"

definition sqs_image :: "externals \<Rightarrow> send_draws \<Rightarrow> SendMessageRequest \<Rightarrow> sqs_db \<Rightarrow> Message" where
  "sqs_image ext d request db =
     (new_message ext d (fst (SQSDatabase_GetQueueByUrl (sd_init d) (smr_region request) (smr_queueUrl request) db)) request)
       \<lparr>m_oid := sd_oid d\<rparr>"

lemma SendMessage_accepted:
  assumes "sqs_inv db" "sqs_accepts request db"
  shows "\<exists>resp. SQSService_SendMessage ext d request db =
    (Inr resp, db\<lparr>sqs_messages := smap_put (sd_oid d) (sqs_image ext d request db) (sqs_messages db)\<rparr>)"
  using assms(2) sqs_getters_pure(4) [OF assms(1), of "sd_init d" "smr_region request" "smr_queueUrl request"]
  by (auto simp: SQSService_SendMessage_def sqs_accepts_def sqs_image_def case_prod_beta CreateMessage_eq assms(1))

lemma SendMessage_refused:
  "\<not> sqs_accepts request db \<Longrightarrow>
   SQSService_SendMessage ext d request db = (Inl (no_such_queue (smr_region request) (smr_queueUrl request)), db)"
  by (simp add: SQSService_SendMessage_def sqs_accepts_def)

lemma SendMessage_snd:
  assumes "sqs_inv db"
  shows "snd (SQSService_SendMessage ext d request db) =
    (if sqs_accepts request db
     then db\<lparr>sqs_messages := smap_put (sd_oid d) (sqs_image ext d request db) (sqs_messages db)\<rparr> else db)"
  using SendMessage_accepted [OF assms, of request ext d] SendMessage_refused [of request db ext d] by auto

lemma sqs_inv_SendMessage [inv_intros]:
  assumes "sqs_inv db"
  shows "sqs_inv (snd (SQSService_SendMessage ext d request db))"
  using assms by (simp add: SendMessage_snd sqs_image_def sqs_inv_put_message)

lemma sqs_queues_SendMessage:
  "sqs_inv db \<Longrightarrow> sqs_queues (snd (SQSService_SendMessage ext d request db)) = sqs_queues db"
  by (simp add: SendMessage_snd)

lemma queue_lookup_cong:
  assumes "sqs_inv db" "sqs_inv db'" "sqs_queues db' = sqs_queues db"
  shows "fst (SQSDatabase_GetQueueByUrl now region url db') = fst (SQSDatabase_GetQueueByUrl now region url db)"
    "fst (SQSMemoryDb_GetQueueByArn now arn db') = fst (SQSMemoryDb_GetQueueByArn now arn db)"
    "SQSMemoryDb_QueueUrlExists region url db' = SQSMemoryDb_QueueUrlExists region url db"
  using assms by (simp_all add: sqs_getter_defs queue_fetch_inv SQSMemoryDb_QueueUrlExists_def)

interpretation sqs_sink: message_sink sqs_inv sqs_messages "SQSService_SendMessage ext" sd_oid "sqs_image ext" sqs_accepts
  for ext
proof unfold_locales
  fix db d d' req req'
  assume inv: "sqs_inv db"
  show "smap_inv (sqs_messages db)" using inv by (rule sqs_invD)
  note inv' = sqs_inv_SendMessage [OF inv, of ext d' req']
  show "sqs_inv (snd (SQSService_SendMessage ext d req db))" by (rule sqs_inv_SendMessage [OF inv])
  show "sqs_accepts req db \<Longrightarrow> \<exists>r. fst (SQSService_SendMessage ext d req db) = Inr r"
    using SendMessage_accepted [OF inv, of req ext d] by force
  show "\<not> sqs_accepts req db \<Longrightarrow> \<exists>text. SQSService_SendMessage ext d req db = (Inl (ServiceException text), db)"
    by (simp add: SendMessage_refused no_such_queue_def)
  show "sqs_accepts req db \<Longrightarrow> sqs_messages (snd (SQSService_SendMessage ext d req db)) =
      smap_put (sd_oid d) (sqs_image ext d req db) (sqs_messages db)"
    by (simp add: SendMessage_snd inv)
  note same = queue_lookup_cong [OF inv inv' sqs_queues_SendMessage [OF inv]]
  show "sqs_image ext d req (snd (SQSService_SendMessage ext d' req' db)) = sqs_image ext d req db"
    by (simp add: sqs_image_def same)
  show "sqs_accepts req (snd (SQSService_SendMessage ext d' req' db)) = sqs_accepts req db"
    by (simp add: sqs_accepts_def same)
qed

end
