(* ===== verification/SQSWorkerFacts.thy ===== *)
theory SQSWorkerFacts
  imports MessageSink
begin

text \<open>
  The maintenance run of \<open>SQSWorker\<close>, the step relation of the whole SQS component and the
  invariant of its reachable states.
\<close>

section \<open>One maintenance run\<close>

text \<open>The store the maintenance of a queue leaves before it writes the queue back.\<close>

definition maintained :: "config \<Rightarrow> worker_draws \<Rightarrow> Queue \<Rightarrow> sqs_db \<Rightarrow> sqs_db" where
  "maintained cfg d q db =
     (let db2 = SQSMemoryDb_ResetMessages (wd_reset_now d) (q_queueUrl q) (qa_visibilityTimeout (q_attributes q)) db;
          db3 = (if rp_deadLetterTargetArn (qa_redrivePolicy (q_attributes q)) \<noteq> []
                 then SQSMemoryDb_RedriveMessages cfg (q_queueUrl q) (qa_redrivePolicy (q_attributes q)) db2 else db2)
      in (if 0 < qa_delaySeconds (q_attributes q)
          then SQSMemoryDb_ResetDelayedMessages (wd_delay_now d) (q_queueUrl q) (qa_delaySeconds (q_attributes q)) db3 else db3))"

definition counted :: "worker_draws \<Rightarrow> Queue \<Rightarrow> sqs_db \<Rightarrow> Queue" where
  "counted d q db = worker_counters q
     (SQSMemoryDb_ResetMessages (wd_reset_now d) (q_queueUrl q) (qa_visibilityTimeout (q_attributes q)) db)"

lemma message_steps_queues [simp]:
  "sqs_queues (SQSMemoryDb_ResetMessages now url visibility db) = sqs_queues db"
  "sqs_queues (SQSMemoryDb_RedriveMessages cfg url policy db) = sqs_queues db"
  "sqs_queues (SQSMemoryDb_ResetDelayedMessages now' url delay db) = sqs_queues db"
  by (simp_all add: SQSMemoryDb_ResetMessages_def SQSMemoryDb_RedriveMessages_def
      SQSMemoryDb_ResetDelayedMessages_def Let_def)

lemma message_steps_keys [simp]:
  "map fst (sqs_messages (SQSMemoryDb_ResetMessages now url visibility db)) = map fst (sqs_messages db)"
  "map fst (sqs_messages (SQSMemoryDb_RedriveMessages cfg url policy db)) = map fst (sqs_messages db)"
  "map fst (sqs_messages (SQSMemoryDb_ResetDelayedMessages now' url delay db)) = map fst (sqs_messages db)"
  by (simp_all add: SQSMemoryDb_ResetMessages_def SQSMemoryDb_RedriveMessages_def
      SQSMemoryDb_ResetDelayedMessages_def Let_def comp_def case_prod_beta)

lemma maintained_queues [simp]: "sqs_queues (maintained cfg d q db) = sqs_queues db"
  by (simp add: maintained_def Let_def)

lemma maintained_keys [simp]: "map fst (sqs_messages (maintained cfg d q db)) = map fst (sqs_messages db)"
  by (simp add: maintained_def Let_def)

lemma maintained_wf: "sqs_wf cfg db \<Longrightarrow> sqs_wf cfg (maintained cfg d q db)"
  by (simp add: maintained_def Let_def sqs_wf_ResetMessages sqs_wf_RedriveMessages sqs_wf_ResetDelayedMessages)

lemma counted_same [simp]:
  "q_oid (counted d q db) = q_oid q" "q_region (counted d q db) = q_region q" "q_name (counted d q db) = q_name q"
  "q_queueUrl (counted d q db) = q_queueUrl q" "q_queueArn (counted d q db) = q_queueArn q"
  by (simp_all add: counted_def worker_counters_def)

text \<open>No message of a well-formed store is delayed, so the retention pass finds nothing to delete.\<close>

lemma MessageRetention_idle:
  assumes "sqs_wf cfg db"
  shows "SQSMemoryDb_MessageRetention now url period db = (Inr (), db)"
proof -
  have "m_status m \<noteq> DELAYED" if "(k, m) \<in> set (sqs_messages db)" for k m
    using sqs_wfD(4) [OF assms that] by (auto simp: message_ok_def)
  then have "retention_loop now url (sqs_messages db) = Inr ()" by (auto simp: retention_loop_iff)
  then show ?thesis by (simp add: SQSMemoryDb_MessageRetention_def)
qed

lemma worker_queue_step:
  assumes "sqs_wf cfg db"
  shows "worker_queue cfg d q db = SQSMemoryDb_UpdateQueue (counted d q db) (wd_others d (maintained cfg d q db))"
  by (simp add: worker_queue_def MessageRetention_idle [OF assms] maintained_def counted_def Let_def)

lemma worker_queue_eq:
  assumes wf: "sqs_wf cfg db" and row: "(k, q) \<in> set (sqs_queues db)" and alone: "\<And>s. wd_others d s = s"
  shows "worker_queue cfg d q db =
    (Inr (counted d q db), (maintained cfg d q db)\<lparr>sqs_queues := smap_put k (counted d q db) (sqs_queues db)\<rparr>)"
  using UpdateQueue_eq [OF sqs_wfD(1,2) [OF maintained_wf [OF wf]], where k = k and q = q and q' = "counted d q db"] row
  by (simp add: worker_queue_step [OF wf] alone)

lemma worker_queue_wf:
  assumes wf: "sqs_wf cfg db" and row: "(k, q) \<in> set (sqs_queues db)" and alone: "\<And>s. wd_others d s = s"
  shows "sqs_wf cfg (snd (worker_queue cfg d q db))"
  using sqs_wf_replace_queue [OF maintained_wf [OF wf], where k = k and q = q and q' = "counted d q db"] row
  by (simp add: worker_queue_eq [OF assms])

lemma worker_loop_alone:
  assumes "sqs_wf cfg db" "set kqs \<subseteq> set (sqs_queues db)" "distinct (map fst kqs)"
    "\<And>i s. wd_others (draws i) s = s"
  shows "fst (worker_loop cfg draws i (map snd kqs) db) = Inr () \<and>
    sqs_wf cfg (snd (worker_loop cfg draws i (map snd kqs) db)) \<and>
    map fst (sqs_messages (snd (worker_loop cfg draws i (map snd kqs) db))) = map fst (sqs_messages db)"
  using assms
proof (induction kqs arbitrary: i db)
  case Nil
  then show ?case by simp
next
  case (Cons kq kqs)
  obtain k q where kq: "kq = (k, q)" by (cases kq)
  with Cons.prems have row: "(k, q) \<in> set (sqs_queues db)" by simp
  let ?r = "worker_queue cfg (draws i) q db"
  note eq = worker_queue_eq [OF Cons.prems(1) row, of "draws i", OF Cons.prems(4)]
  have wf: "sqs_wf cfg (snd ?r)" by (rule worker_queue_wf [OF Cons.prems(1) row Cons.prems(4)])
  have "set kqs \<subseteq> set (sqs_queues (snd ?r))"
    using Cons.prems(2,3) kq set_smap_put [OF sqs_invD(3) [OF sqs_wfD(1) [OF Cons.prems(1)]]]
    by (auto simp: eq image_iff subset_iff)
  then show ?case
    using Cons.IH [OF wf _ _ Cons.prems(4), of "Suc i"] Cons.prems(3) kq by (simp add: eq)
qed

lemma worker_run_alone:
  assumes "sqs_wf cfg db" "\<And>i s. wd_others (draws i) s = s"
  shows "fst (SQSWorker_ResetMessages cfg draws db) = Inr ()"
    "sqs_wf cfg (snd (SQSWorker_ResetMessages cfg draws db))"
    "map fst (sqs_messages (snd (SQSWorker_ResetMessages cfg draws db))) = map fst (sqs_messages db)"
  using worker_loop_alone [of cfg db "sqs_queues db" draws 0] assms
    smap_inv_distinct [OF sqs_invD(3) [OF sqs_wfD(1) [OF assms(1)]]]
  by (simp_all add: SQSWorker_ResetMessages_def SQSMemoryDb_ListQueues_def smap_values_def)

section \<open>The transition system\<close>

text \<open>
  One rule per operation that changes the store.  An object id drawn for a new row is not in use:
  ids are random UUIDs.  A call of \<open>SQSService::ReceiveMessages\<close> is a sequence of \<open>receive\<close>
  steps, interleaved with others while it sleeps.
\<close>

inductive sqs_step :: "config \<Rightarrow> externals \<Rightarrow> sqs_db \<Rightarrow> sqs_db \<Rightarrow> bool" for cfg ext where
  create_queue: "oid \<notin> fst ` set (sqs_queues db) \<Longrightarrow>
    sqs_step cfg ext db (snd (SQSService_CreateQueue cfg ext now oid cq db))"
| get_url: "sqs_step cfg ext db (snd (SQSService_GetQueueUrl cfg now gu db))"
| get_attributes: "sqs_step cfg ext db (snd (SQSService_GetQueueAttributes ext now ga db))"
| set_attributes: "sqs_step cfg ext db (snd (SQSService_SetQueueAttributes ext now sa db))"
| tag: "sqs_step cfg ext db (snd (SQSService_TagQueue now tq db))"
| purge: "sqs_step cfg ext db (snd (SQSService_PurgeQueue pq db))"
| delete_queue: "sqs_step cfg ext db (snd (SQSService_DeleteQueue dq db))"
| send: "sd_oid d \<notin> fst ` set (sqs_messages db) \<Longrightarrow> sqs_step cfg ext db (snd (SQSService_SendMessage ext d sm db))"
| receive: "sqs_step cfg ext db
    (snd (SQSDatabase_ReceiveMessages rnow now handle region url visibility maxMessages [] db))"
| set_visibility: "sqs_step cfg ext db (snd (SQSService_SetVisibilityTimeout init now cv db))"
| delete: "sqs_step cfg ext db (snd (SQSService_DeleteMessage dm db))"
| delete_batch: "sqs_step cfg ext db (snd (SQSService_DeleteMessageBatch dmb db))"
| work: "(\<And>i s. wd_others (draws i) s = s) \<Longrightarrow> sqs_step cfg ext db (snd (SQSWorker_ResetMessages cfg draws db))"

inductive_cases sqs_stepE: "sqs_step cfg ext db db'"

inductive sqs_reachable :: "config \<Rightarrow> externals \<Rightarrow> sqs_db \<Rightarrow> bool" for cfg ext where
  start: "sqs_reachable cfg ext \<lparr>sqs_queues = [], sqs_messages = []\<rparr>"
| step: "sqs_reachable cfg ext db \<Longrightarrow> sqs_step cfg ext db db' \<Longrightarrow> sqs_reachable cfg ext db'"

lemma sqs_step_wf: "sqs_step cfg ext db db' \<Longrightarrow> sqs_wf cfg db \<Longrightarrow> sqs_wf cfg db'"
  by (induction rule: sqs_step.induct)
    (simp_all add: sqs_wf_CreateQueue sqs_wf_GetQueueUrl sqs_wf_GetQueueAttributes sqs_wf_SetQueueAttributes
      sqs_wf_TagQueue sqs_wf_deletes sqs_wf_SendMessage sqs_wf_DatabaseReceive sqs_wf_SetVisibilityTimeout
      worker_run_alone)

lemma sqs_reachable_sqs_wf: "sqs_reachable cfg ext db \<Longrightarrow> sqs_wf cfg db"
  by (induction rule: sqs_reachable.induct) (auto intro: sqs_wf_empty sqs_step_wf)

end
