(* ===== verification/SQSDelivery.thy ===== *)
theory SQSDelivery
  imports SQSWorkerFacts
begin

text \<open>
  Delivery: the rows before and after a receive, an abstract queue (visible ids, ids in flight with
  their deadlines) that the store refines, and the polling loop.
\<close>

section \<open>Rows after a receive\<close>

lemma update_first_map:
  "distinct xs \<Longrightarrow> update_first n P f xs = map (\<lambda>x. if x \<in> set (take n (filter P xs)) then f x else x) xs"
proof (induction n P f xs rule: update_first.induct)
  case (2 n P f x xs)
  then show ?case
    by (auto simp: take_Cons' dest: in_set_takeD intro!: map_cong)
qed simp

lemma smap_inv_distinct_rows: "smap_inv m \<Longrightarrow> distinct m"
  using smap_inv_distinct distinct_map by blast

lemma message_row_unique:
  "sqs_inv db \<Longrightarrow> (k, m) \<in> set (sqs_messages db) \<Longrightarrow> (k, m') \<in> set (sqs_messages db) \<Longrightarrow> m = m'"
  using eq_key_imp_eq_value [OF smap_inv_distinct [OF sqs_invD(4)]] by metis

lemma message_oid_key: "sqs_inv db \<Longrightarrow> (k, m) \<in> set (sqs_messages db) \<Longrightarrow> m_oid m = k"
  by (rule rows_taggedD [OF sqs_invD(2)])

text \<open>The nodes one call delivers, in the order of their keys.\<close>

definition taken :: "string \<Rightarrow> string \<Rightarrow> int \<Rightarrow> sqs_db \<Rightarrow> (string \<times> Message) list" where
  "taken region queueUrl maxMessages db =
     take (receive_quota maxMessages 0) (filter (receivable region queueUrl) (sqs_messages db))"

lemma taken_row:
  "(k, m) \<in> set (taken region queueUrl maxMessages db) \<Longrightarrow>
   (k, m) \<in> set (sqs_messages db) \<and> m_region m = region \<and> m_queueUrl m = queueUrl \<and> m_status m = INITIAL"
  by (auto simp: taken_def receivable_def dest!: in_set_takeD)

lemma taken_all:
  "1 \<le> maxMessages \<Longrightarrow> int (length (sqs_messages db)) \<le> maxMessages \<Longrightarrow>
   taken region queueUrl maxMessages db = filter (receivable region queueUrl) (sqs_messages db)"
proof -
  assume q: "1 \<le> maxMessages" "int (length (sqs_messages db)) \<le> maxMessages"
  have "length (filter (receivable region queueUrl) (sqs_messages db)) \<le> length (sqs_messages db)" by simp
  with q have "length (filter (receivable region queueUrl) (sqs_messages db)) \<le> nat maxMessages" by linarith
  then show ?thesis by (simp add: taken_def receive_quota_limit [OF q(1)])
qed

lemma receive_result:
  "SQSMemoryDb_ReceiveMessages now handle region queueUrl visibility maxMessages [] db =
     (map (deliver handle) (taken region queueUrl maxMessages db),
      db\<lparr>sqs_messages := update_first (receive_quota maxMessages 0) (receivable region queueUrl)
           (hide (now + seconds visibility) handle) (sqs_messages db)\<rparr>)"
  by (simp add: ReceiveMessages_eq taken_def)

lemma receive_rows:
  "sqs_inv db \<Longrightarrow>
   sqs_messages (snd (SQSMemoryDb_ReceiveMessages now handle region queueUrl visibility maxMessages [] db)) =
     map (\<lambda>km. if km \<in> set (taken region queueUrl maxMessages db) then hide (now + seconds visibility) handle km else km)
       (sqs_messages db)"
  by (simp add: receive_result taken_def update_first_map smap_inv_distinct_rows sqs_invD)

lemma reset_row:
  "(k, m) \<in> set (sqs_messages (SQSMemoryDb_ResetMessages now url visibility db)) \<longleftrightarrow>
     (\<exists>m0. (k, m0) \<in> set (sqs_messages db) \<and> m = message_reset url (now k) m0)"
  by (force simp: SQSMemoryDb_ResetMessages_def image_iff)

lemma sqs_inv_Reset: "sqs_inv db \<Longrightarrow> sqs_inv (SQSMemoryDb_ResetMessages now url visibility db)"
  by (rule sqs_inv_ResetMessages)

lemma deliver_fields [simp]:
  "m_retries (deliver handle (k, m)) = m_retries m + 1"
  "m_receiptHandle (deliver handle (k, m)) = handle k"
  "m_body (deliver handle (k, m)) = m_body m"
  "m_messageId (deliver handle (k, m)) = m_messageId m"
  "m_region (deliver handle (k, m)) = m_region m"
  "m_queueUrl (deliver handle (k, m)) = m_queueUrl m"
  "m_reset (deliver handle (k, m)) = m_reset m"
  by (simp_all add: deliver_def message_received_def)

lemma message_reset_fields [simp]:
  "m_body (message_reset url now m) = m_body m"
  "m_retries (message_reset url now m) = m_retries m"
  "m_region (message_reset url now m) = m_region m"
  "m_queueUrl (message_reset url now m) = m_queueUrl m"
  "m_messageId (message_reset url now m) = m_messageId m"
  "m_reset (message_reset url now m) = m_reset m"
  by (simp_all add: message_reset_def)

text \<open>A delivered row is in the store afterwards, invisible until the deadline.\<close>

lemma delivered_row:
  assumes inv: "sqs_inv db" and m: "m \<in> set (fst (SQSDatabase_ReceiveMessages rnow now handle region url vis mx [] db))"
  obtains k m0 where
    "(k, m0) \<in> set (taken region url mx (SQSMemoryDb_ResetMessages rnow url vis db))" "m = deliver handle (k, m0)"
    "m_oid m = k"
    "(k, message_hidden (now + seconds vis) m) \<in>
       set (sqs_messages (snd (SQSDatabase_ReceiveMessages rnow now handle region url vis mx [] db)))"
proof -
  let ?db = "SQSMemoryDb_ResetMessages rnow url vis db"
  have inv': "sqs_inv ?db" using inv by (rule sqs_inv_ResetMessages)
  from m obtain k m0 where t: "(k, m0) \<in> set (taken region url mx ?db)" and d: "m = deliver handle (k, m0)"
    by (auto simp: SQSDatabase_ReceiveMessages_def receive_result)
  have row: "(k, m0) \<in> set (sqs_messages ?db)" using taken_row [OF t] by simp
  have "hide (now + seconds vis) handle (k, m0) \<in> set (sqs_messages
          (snd (SQSMemoryDb_ReceiveMessages now handle region url vis mx [] ?db)))"
    unfolding receive_rows [OF inv'] using t row by force
  moreover have "hide (now + seconds vis) handle (k, m0) = (k, message_hidden (now + seconds vis) m)"
    by (simp add: hide_def d deliver_def)
  ultimately show ?thesis
    using that [OF t d] message_oid_key [OF inv' row] by (simp add: SQSDatabase_ReceiveMessages_def d)
qed

section \<open>The abstract queue\<close>

text \<open>
  What a queue promises: the ids that can be received, and the ids in flight with the instant at
  which each one becomes visible again.  The store of a region and URL implements it.
\<close>

record aqueue =
  aq_visible :: "string set"
  aq_inflight :: "string \<rightharpoonup> int"

definition aq_receive :: "nat \<Rightarrow> int \<Rightarrow> aqueue \<Rightarrow> string list \<times> aqueue" where
  "aq_receive n deadline a =
     (let ids = take n (sorted_list_of_set (aq_visible a))
      in (ids, \<lparr>aq_visible = aq_visible a - set ids,
                aq_inflight = (\<lambda>k. if k \<in> set ids then Some deadline else aq_inflight a k)\<rparr>))"

definition aq_expire :: "(string \<Rightarrow> int) \<Rightarrow> aqueue \<Rightarrow> aqueue" where
  "aq_expire now a =
     (let due = {k. \<exists>t. aq_inflight a k = Some t \<and> t < now k}
      in \<lparr>aq_visible = aq_visible a \<union> due,
          aq_inflight = (\<lambda>k. if k \<in> due then None else aq_inflight a k)\<rparr>)"

definition aq_send :: "string \<Rightarrow> aqueue \<Rightarrow> aqueue" where
  "aq_send k a = a\<lparr>aq_visible := insert k (aq_visible a)\<rparr>"

definition in_flight :: "string \<Rightarrow> string \<Rightarrow> Message \<Rightarrow> bool" where
  "in_flight region url m \<longleftrightarrow> m_region m = region \<and> m_queueUrl m = url \<and> m_status m = INVISIBLE"

definition abs_queue :: "string \<Rightarrow> string \<Rightarrow> sqs_db \<Rightarrow> aqueue" where
  "abs_queue region url db =
     \<lparr>aq_visible = {k. \<exists>m. smap_get k (sqs_messages db) = Some m \<and> receivable region url (k, m)},
      aq_inflight = (\<lambda>k. case smap_get k (sqs_messages db) of
         Some m \<Rightarrow> if in_flight region url m then Some (m_reset m) else None
       | None \<Rightarrow> None)\<rparr>"

lemma aqueue_eqI: "aq_visible a = aq_visible b \<Longrightarrow> (\<And>k. aq_inflight a k = aq_inflight b k) \<Longrightarrow> a = (b::aqueue)"
  by (cases a; cases b) auto

lemma smap_get_map: "smap_get k (map (\<lambda>(k, v). (k, f k v)) m) = map_option (f k) (smap_get k m)"
  by (induction m) (auto simp: smap_get_def)

lemma get_ResetMessages:
  "smap_get k (sqs_messages (SQSMemoryDb_ResetMessages now url visibility db)) =
     map_option (message_reset url (now k)) (smap_get k (sqs_messages db))"
  by (simp add: SQSMemoryDb_ResetMessages_def smap_get_map)

lemma abs_ResetMessages:
  "abs_queue region url (SQSMemoryDb_ResetMessages now url visibility db) = aq_expire now (abs_queue region url db)"
proof -
  have due: "(\<exists>t. aq_inflight (abs_queue region url db) k = Some t \<and> t < now k) \<longleftrightarrow>
      (\<exists>m. smap_get k (sqs_messages db) = Some m \<and> in_flight region url m \<and> m_reset m < now k)" for k
    by (auto simp: abs_queue_def split: option.splits)
  show ?thesis
  proof (rule aqueue_eqI)
    have "k \<in> aq_visible (abs_queue region url (SQSMemoryDb_ResetMessages now url visibility db)) \<longleftrightarrow>
          k \<in> aq_visible (aq_expire now (abs_queue region url db))" for k
      unfolding aq_expire_def Let_def due
      by (cases "smap_get k (sqs_messages db)")
        (auto simp: abs_queue_def get_ResetMessages receivable_def in_flight_def message_reset_def)
    then show "aq_visible (abs_queue region url (SQSMemoryDb_ResetMessages now url visibility db)) =
          aq_visible (aq_expire now (abs_queue region url db))" by blast
    show "aq_inflight (abs_queue region url (SQSMemoryDb_ResetMessages now url visibility db)) k =
          aq_inflight (aq_expire now (abs_queue region url db)) k" for k
      unfolding aq_expire_def Let_def due
      by (cases "smap_get k (sqs_messages db)")
        (auto simp: abs_queue_def get_ResetMessages in_flight_def message_reset_def)
  qed
qed

lemma sorted_visible:
  assumes inv: "sqs_inv db"
  shows "sorted_list_of_set (aq_visible (abs_queue region url db)) =
           map fst (filter (receivable region url) (sqs_messages db))"
proof -
  let ?xs = "map fst (filter (receivable region url) (sqs_messages db))"
  have "sorted_wrt (<) ?xs"
    using sorted_wrt_map_fst_filter sqs_invD(4) [OF inv] unfolding smap_inv_def by blast
  moreover have "set ?xs = aq_visible (abs_queue region url db)"
    by (force simp: abs_queue_def smap_get_iff [OF sqs_invD(4) [OF inv]])
  ultimately show ?thesis
    using sorted_list_of_set.idem_if_sorted_distinct [of ?xs] by (simp add: strict_sorted_iff)
qed

lemma abs_Receive:
  assumes inv: "sqs_inv db"
  shows "(map m_oid (fst (SQSMemoryDb_ReceiveMessages now handle region url visibility maxMessages [] db)),
          abs_queue region url (snd (SQSMemoryDb_ReceiveMessages now handle region url visibility maxMessages [] db))) =
         aq_receive (receive_quota maxMessages 0) (now + seconds visibility) (abs_queue region url db)"
proof -
  let ?T = "taken region url maxMessages db" and ?r = "SQSMemoryDb_ReceiveMessages now handle region url visibility maxMessages [] db"
  let ?n = "receive_quota maxMessages 0"
  have ids: "take ?n (sorted_list_of_set (aq_visible (abs_queue region url db))) = map fst ?T"
    unfolding sorted_visible [OF inv] by (simp add: taken_def take_map)
  have oids: "map m_oid (fst ?r) = map fst ?T"
  proof -
    have "m_oid (deliver handle x) = fst x" if "x \<in> set ?T" for x
      using that taken_row [of "fst x" "snd x"] message_oid_key [OF inv, of "fst x" "snd x"]
        m_oid_deliver [of handle "fst x" "snd x"] by simp
    then show ?thesis by (simp add: receive_result)
  qed
  have get: "smap_get k (sqs_messages (snd ?r)) =
      map_option (\<lambda>m. if k \<in> fst ` set ?T then message_hidden (now + seconds visibility) (message_received (handle k) m) else m)
        (smap_get k (sqs_messages db))" for k
  proof -
    let ?f = "\<lambda>k m. if k \<in> fst ` set ?T then message_hidden (now + seconds visibility) (message_received (handle k) m) else m"
    have "(if x \<in> set ?T then hide (now + seconds visibility) handle x else x) = (case x of (k, m) \<Rightarrow> (k, ?f k m))"
      if "x \<in> set (sqs_messages db)" for x
    proof -
      obtain k m where x: "x = (k, m)" by (cases x)
      have "k \<in> fst ` set ?T \<longleftrightarrow> (k, m) \<in> set ?T"
      proof
        assume "k \<in> fst ` set ?T"
        then obtain m' where t: "(k, m') \<in> set ?T" by auto
        have "m' = m" using message_row_unique [OF inv, of k m' m] taken_row [OF t] that x by blast
        with t show "(k, m) \<in> set ?T" by simp
      qed (rule image_eqI [of _ _ "(k, m)"], simp)
      then show ?thesis unfolding x by (simp only: hide_def prod.case if_distrib [of "Pair k"])
    qed
    then have "sqs_messages (snd ?r) = map (\<lambda>(k, m). (k, ?f k m)) (sqs_messages db)"
      unfolding receive_rows [OF inv] by (intro map_cong refl)
    then show ?thesis by (simp only: smap_get_map)
  qed
  have taken_get: "k \<in> fst ` set ?T \<Longrightarrow> \<exists>m. smap_get k (sqs_messages db) = Some m \<and> receivable region url (k, m)" for k
    using taken_row [of k _ region url maxMessages db] smap_get_iff [OF sqs_invD(4) [OF inv]]
    by (force simp: receivable_def)
  have visible: "aq_visible (abs_queue region url (snd ?r)) = aq_visible (abs_queue region url db) - fst ` set ?T"
    by (auto simp: abs_queue_def get receivable_def message_hidden_def split: if_splits)
  have flight: "aq_inflight (abs_queue region url (snd ?r)) k =
      (if k \<in> fst ` set ?T then Some (now + seconds visibility) else aq_inflight (abs_queue region url db) k)" for k
    using taken_get [of k]
    by (cases "smap_get k (sqs_messages db)")
      (auto simp: abs_queue_def get in_flight_def message_hidden_def message_received_def receivable_def)
  have "abs_queue region url (snd ?r) =
      \<lparr>aq_visible = aq_visible (abs_queue region url db) - fst ` set ?T,
       aq_inflight = (\<lambda>k. if k \<in> fst ` set ?T then Some (now + seconds visibility)
                         else aq_inflight (abs_queue region url db) k)\<rparr>"
    by (rule aqueue_eqI) (simp_all add: visible flight)
  then show ?thesis by (simp only: aq_receive_def Let_def ids oids set_map)
qed

section \<open>Polling\<close>

definition poll_clock_advances :: "int \<Rightarrow> (nat \<Rightarrow> poll) \<Rightarrow> bool" where
  "poll_clock_advances begin_time polls \<longleftrightarrow>
     begin_time \<le> pl_clock (polls 0) \<and> (\<forall>i. pl_clock (polls i) + 500000000 \<le> pl_clock (polls (Suc i)))"

lemma poll_clock_lower:
  assumes "poll_clock_advances begin_time polls"
  shows "500000000 * int i \<le> pl_clock (polls i) - begin_time"
proof (induction i)
  case 0
  then show ?case using assms by (simp add: poll_clock_advances_def)
next
  case (Suc i)
  then show ?case using assms unfolding poll_clock_advances_def
    by (smt (verit) int_Suc distrib_left mult.right_neutral)
qed

lemma poll_elapsed_lower:
  assumes "poll_clock_advances begin_time polls"
  shows "int (i div 2) \<le> elapsed_seconds (pl_clock (polls i) - begin_time)"
proof -
  have lo: "500000000 * int i \<le> pl_clock (polls i) - begin_time" by (rule poll_clock_lower [OF assms])
  have "int (i div 2) = (500000000 * int i) div 1000000000" by (simp add: zdiv_int)
  also have "\<dots> \<le> (pl_clock (polls i) - begin_time) div 1000000000" using lo by (simp add: zdiv_mono1)
  finally show ?thesis using lo by (simp add: elapsed_seconds_def tdiv_nonneg)
qed

lemma receive_poll_returns:
  assumes "poll_clock_advances begin_time polls"
    "2 * nat (rmr_waitTimeSeconds request) + 2 \<le> i + fuel"
    "0 < i \<Longrightarrow> int ((i - 1) div 2) \<le> elapsed" "0 < fuel"
  shows "receive_poll fuel polls i queue request begin_time elapsed db \<noteq> None"
  using assms(2-4)
proof (induction fuel arbitrary: i elapsed db)
  case (Suc fuel)
  show ?case
  proof (cases "elapsed < rmr_waitTimeSeconds request")
    case True
    have "0 < fuel"
    proof (rule ccontr)
      assume "\<not> 0 < fuel"
      with Suc.prems have "int ((i - 1) div 2) \<le> elapsed" "2 * nat (rmr_waitTimeSeconds request) \<le> i - 1" by auto
      with True show False by linarith
    qed
    moreover have "int ((Suc i - 1) div 2) \<le> elapsed_seconds (pl_clock (polls i) - begin_time)"
      using poll_elapsed_lower [OF assms(1), of i] by simp
    ultimately show ?thesis
      using Suc.IH [of "Suc i" "elapsed_seconds (pl_clock (polls i) - begin_time)"] Suc.prems(1) True
      by (auto split: prod.split)
  qed simp
qed simp

end
