(* ===== verification/SQSExamples.thy ===== *)
theory SQSExamples
  imports SQSDelivery
begin

text \<open>
  A small concrete installation: one queue, one message sent to it.  The store is reached by the
  service's own operations; the properties are applied to it.
\<close>

definition demo_cfg :: config where
  "demo_cfg = \<lparr>cfg_region = ''eu'', cfg_accountId = ''0'', cfg_gateway_port = ''80'',
     cfg_sqs_hostname = ''h'', cfg_user = ''u'', host_name = ''h'', cfg_dataDir = ''/d'', cfg_transferBucket = ''transfer-server''\<rparr>"

definition demo_ext :: externals where
  "demo_ext = \<lparr>ext_md5 = (\<lambda>s. s),
     ext_json_parse = (\<lambda>s. if s = ''P'' then Inr (policy_json \<lparr>rp_deadLetterTargetArn = ''d'', rp_maxReceiveCount = 3\<rparr>)
                          else Inl (PocoException ''syntax error'')),
     ext_json_object = (\<lambda>j. case j of JObject kvs \<Rightarrow> Inr kvs | _ \<Rightarrow> Inl (PocoException ''bad cast'')),
     ext_json_int = (\<lambda>j. case j of Some (JInt n) \<Rightarrow> Inr n | _ \<Rightarrow> Inl (PocoException ''empty'')),
     ext_json_stringify = (\<lambda>j. ''P''), ext_http_format = to_string,
     ext_json_text = (\<lambda>j. case j of JString s \<Rightarrow> Inr s | _ \<Rightarrow> Inl (PocoException ''bad cast'')),
     ext_json_string = (\<lambda>j. case j of JString s \<Rightarrow> Inr s | _ \<Rightarrow> Inl (PocoException ''bad cast'')),
     ext_json_long = (\<lambda>j. case j of JInt n \<Rightarrow> Inr n | _ \<Rightarrow> Inl (PocoException ''bad cast'')),
     ext_json_bool = (\<lambda>j. case j of JBool b \<Rightarrow> Inr b | _ \<Rightarrow> Inl (PocoException ''bad cast'')),
     ext_json_array = (\<lambda>v. case v of Some (JArray js) \<Rightarrow> Some js | _ \<Rightarrow> None),
     ext_json_child = (\<lambda>v. case v of Some (JObject kvs) \<Rightarrow> Some kvs | _ \<Rightarrow> None),
     ext_url_decode = (\<lambda>s. Inr s)\<rparr>"

definition demo_create :: CreateQueueRequest where
  "demo_create = \<lparr>cqr_region = ''eu'', cqr_queueName = ''a'', cqr_queueUrl = [], cqr_owner = [],
     cqr_attributes = [\<lparr>dqa_attributeName = ''DelaySeconds'', dqa_attributeValue = ''5''\<rparr>],
     cqr_tags = [], cqr_requestId = []\<rparr>"

definition demo_url :: string where
  "demo_url = CreateSQSQueueUrl demo_cfg ''a''"

definition demo_send :: SendMessageRequest where
  "demo_send = \<lparr>smr_region = ''eu'', smr_queueUrl = demo_url, smr_queueArn = [], smr_queueName = [],
     smr_body = ''hi'', smr_attributes = [], smr_messageAttributes = [], smr_messageId = [],
     smr_senderId = [], smr_md5sum = [], smr_requestId = []\<rparr>"

definition demo_draws :: send_draws where
  "demo_draws = \<lparr>sd_sent = 1, sd_first = 1, sd_now = 0, sd_init = 0, sd_messageId = ''i1'',
     sd_receiptHandle = ''r1'', sd_oid = ''m1''\<rparr>"

definition demo_empty :: sqs_db where
  "demo_empty = \<lparr>sqs_queues = [], sqs_messages = []\<rparr>"

definition demo_queue :: sqs_db where
  "demo_queue = snd (SQSService_CreateQueue demo_cfg demo_ext 0 ''q1'' demo_create demo_empty)"

definition demo_sent :: sqs_db where
  "demo_sent = snd (SQSService_SendMessage demo_ext demo_draws demo_send demo_queue)"

text \<open>The store after one receive with the default visibility timeout.\<close>

definition demo_received :: sqs_db where
  "demo_received = snd (SQSDatabase_ReceiveMessages (\<lambda>k. 0) 0 (\<lambda>k. ''h1'') ''eu'' demo_url 30 10 [] demo_sent)"

lemmas demo_defs = demo_cfg_def demo_ext_def demo_create_def demo_url_def demo_send_def demo_draws_def
  demo_empty_def demo_queue_def demo_sent_def demo_received_def

lemma demo_reachable:
  "sqs_reachable demo_cfg demo_ext demo_queue"
  "sqs_reachable demo_cfg demo_ext demo_sent"
  "sqs_reachable demo_cfg demo_ext demo_received"
proof -
  have "sqs_reachable demo_cfg demo_ext demo_empty" unfolding demo_empty_def by (rule sqs_reachable.start)
  then show q: "sqs_reachable demo_cfg demo_ext demo_queue"
    unfolding demo_queue_def by (rule sqs_reachable.step, intro sqs_step.create_queue) (simp add: demo_empty_def)
  have "sd_oid demo_draws \<notin> fst ` set (sqs_messages demo_queue)" by code_simp
  with q show s: "sqs_reachable demo_cfg demo_ext demo_sent"
    unfolding demo_sent_def by (intro sqs_reachable.step [OF q] sqs_step.send)
  show "sqs_reachable demo_cfg demo_ext demo_received"
    unfolding demo_received_def by (rule sqs_reachable.step [OF s sqs_step.receive])
qed

lemmas demo_wf = demo_reachable [THEN sqs_reachable_sqs_wf]
lemmas demo_inv = demo_wf [THEN sqs_wfD(1)]

text \<open>The three stores, evaluated.\<close>

definition demo_queue_row :: Queue where
  "demo_queue_row =
     \<lparr>q_oid = ''q1'', q_region = ''eu'', q_name = ''a'', q_owner = [], q_queueUrl = ''http://sqs.eu.h:80/0/a'',
      q_queueArn = ''arn:aws:sqs:eu:0:a'',
      q_attributes = QueueAttribute_init\<lparr>qa_delaySeconds := 5, qa_queueArn := ''arn:aws:sqs:eu:0:a''\<rparr>,
      q_tags = [], q_created = 0, q_modified = 0\<rparr>"

definition demo_message_row :: Message where
  "demo_message_row =
     \<lparr>m_oid = ''m1'', m_region = ''eu'', m_queueUrl = ''http://sqs.eu.h:80/0/a'', m_queueName = ''a'',
      m_body = ''hi'', m_status = INITIAL, m_reset = 5000000000, m_retries = 0, m_messageId = ''i1'',
      m_receiptHandle = ''r1'', m_md5Body = ''6869'', m_md5UserAttr = [], m_md5SystemAttr = [],
      m_attributes = [(''ApproximateFirstReceivedTimestamp'', ''1''), (''ApproximateReceivedCount'', ''0''),
        (''SenderId'', []), (''SentTimestamp'', ''1''), (''VisibilityTimeout'', ''30'')],
      m_messageAttributes = [], m_created = 0, m_modified = 0\<rparr>"

lemma demo_url_eq: "demo_url = ''http://sqs.eu.h:80/0/a''"
  by code_simp

lemma demo_queue_eq: "demo_queue = \<lparr>sqs_queues = [(''q1'', demo_queue_row)], sqs_messages = []\<rparr>"
  by code_simp

lemma demo_sent_eq:
  "demo_sent = \<lparr>sqs_queues = [(''q1'', demo_queue_row)], sqs_messages = [(''m1'', demo_message_row)]\<rparr>"
  unfolding demo_sent_def demo_queue_eq by code_simp

lemma demo_received_eq:
  "demo_received = \<lparr>sqs_queues = [(''q1'', demo_queue_row)],
     sqs_messages = [(''m1'', message_hidden (seconds 30) (message_received ''h1'' demo_message_row))]\<rparr>"
  unfolding demo_received_def demo_sent_eq demo_url_eq by code_simp

lemmas demo_eqs = demo_url_eq demo_queue_eq demo_sent_eq demo_received_eq

end
