(* ===== verification/SQSProperties.thy ===== *)
theory SQSProperties
  imports SQSExamples
begin

text \<open>The properties of the SQS component, each followed by its application to the demo installation.\<close>

section \<open>States\<close>



section \<open>Receiving\<close>

text \<open>C2: receiving refines the abstract queue: messages in flight whose deadline has passed become
  visible, then the first visible ids in order, up to the limit, are delivered and put in flight
  with the deadline \<open>now + visibility\<close>; nothing else changes.\<close>

theorem receive_refines:
  assumes "sqs_inv db"
  shows "(map m_oid (fst (SQSDatabase_ReceiveMessages rnow now handle region url visibility maxMessages [] db)),
          abs_queue region url (snd (SQSDatabase_ReceiveMessages rnow now handle region url visibility maxMessages [] db))) =
         aq_receive (receive_quota maxMessages 0) (now + seconds visibility) (aq_expire rnow (abs_queue region url db))"
  using abs_Receive [OF sqs_inv_ResetMessages [OF assms]]
  by (simp add: SQSDatabase_ReceiveMessages_def abs_ResetMessages)

theorem receive_refines_witness:
  "fst (aq_receive (receive_quota 10 0) (0 + seconds 30) (aq_expire (\<lambda>k. 0) (abs_queue ''eu'' demo_url demo_sent))) =
     map m_oid (fst (SQSDatabase_ReceiveMessages (\<lambda>k. 0) 0 (\<lambda>k. ''h1'') ''eu'' demo_url 30 10 [] demo_sent))"
  using receive_refines [OF demo_inv(2), of "\<lambda>k. 0" 0 "\<lambda>k. ''h1''" "''eu''" demo_url 30 10]
  by (metis fst_conv)

text \<open>C3: no message is delivered twice while its visibility timeout runs: a second receive, of any
  queue, whose clocks have not passed the deadline of the first, returns none of its messages.\<close>

theorem no_double_delivery:
  assumes inv: "sqs_inv db"
    and first: "SQSDatabase_ReceiveMessages rnow now handle region url vis mx [] db = (first, db1)"
    and early: "\<forall>k. rnow2 k \<le> now + seconds vis"
    and second: "SQSDatabase_ReceiveMessages rnow2 now2 handle2 region2 url2 vis2 mx2 [] db1 = (second, db2)"
  shows "set (map m_oid first) \<inter> set (map m_oid second) = {}"
proof -
  have F: "first = fst (SQSDatabase_ReceiveMessages rnow now handle region url vis mx [] db)"
      "db1 = snd (SQSDatabase_ReceiveMessages rnow now handle region url vis mx [] db)"
      "second = fst (SQSDatabase_ReceiveMessages rnow2 now2 handle2 region2 url2 vis2 mx2 [] db1)"
    using first second by simp_all
  have inv1: "sqs_inv db1" unfolding F by (rule sqs_inv_DatabaseReceive [OF inv])
  have "m_oid m \<noteq> m_oid m'" if m: "m \<in> set first" and m': "m' \<in> set second" for m m'
  proof
    assume same: "m_oid m = m_oid m'"
    obtain k where k: "m_oid m = k" and row: "(k, message_hidden (now + seconds vis) m) \<in> set (sqs_messages db1)"
      unfolding F by (rule delivered_row [OF inv m [unfolded F]])
    obtain k' m1 where t: "(k', m1) \<in> set (taken region2 url2 mx2 (SQSMemoryDb_ResetMessages rnow2 url2 vis2 db1))"
      and k': "m_oid m' = k'"
      by (rule delivered_row [OF inv1 m' [unfolded F(3)]])
    obtain m2 where m2: "(k', m2) \<in> set (sqs_messages db1)" "m1 = message_reset url2 (rnow2 k') m2"
      and "m_status m1 = INITIAL"
      using taken_row [OF t] unfolding reset_row by blast
    have "m2 = message_hidden (now + seconds vis) m"
      by (rule message_row_unique [OF inv1 m2(1)]) (use row same k k' in simp)
    then have "m_status m1 = INVISIBLE"
      using m2(2) spec [OF early, of k'] by (simp add: message_hidden_def message_reset_def)
    with \<open>m_status m1 = INITIAL\<close> show False by simp
  qed
  then show ?thesis by auto
qed

theorem no_double_delivery_witness:
  "set (map m_oid (fst (SQSDatabase_ReceiveMessages (\<lambda>k. 0) 0 (\<lambda>k. ''h1'') ''eu'' demo_url 30 10 [] demo_sent))) \<inter>
   set (map m_oid (fst (SQSDatabase_ReceiveMessages (\<lambda>k. 7) 8 (\<lambda>k. ''h2'') ''eu'' demo_url 30 10 [] demo_received))) = {}"
  by (rule no_double_delivery [OF demo_inv(2) _ _ prod.collapse [symmetric],
        of "\<lambda>k. 0" 0 "\<lambda>k. ''h1''" "''eu''" demo_url 30 10 _ demo_received])
    (simp_all add: demo_received_def seconds_def)

text \<open>C5: a delivered message that nobody deletes is delivered again: a receive on the same queue
  after the deadline, with room for all messages, returns the same message with its delivery count
  one higher.\<close>

theorem redelivery:
  assumes inv: "sqs_inv db"
    and first: "SQSDatabase_ReceiveMessages rnow now handle region url vis mx [] db = (first, db1)"
    and m: "m \<in> set first"
    and late: "\<forall>k. now + seconds vis < rnow2 k"
    and room: "1 \<le> mx2" "int (length (sqs_messages db)) \<le> mx2"
  shows "\<exists>m' \<in> set (fst (SQSDatabase_ReceiveMessages rnow2 now2 handle2 region url vis2 mx2 [] db1)).
           m_oid m' = m_oid m \<and> m_retries m' = m_retries m + 1 \<and> m_body m' = m_body m"
proof -
  have F: "first = fst (SQSDatabase_ReceiveMessages rnow now handle region url vis mx [] db)"
      "db1 = snd (SQSDatabase_ReceiveMessages rnow now handle region url vis mx [] db)"
    using first by simp_all
  obtain k m0 where t: "(k, m0) \<in> set (taken region url mx (SQSMemoryDb_ResetMessages rnow url vis db))"
    and d: "m = deliver handle (k, m0)" and k: "m_oid m = k"
    and row: "(k, message_hidden (now + seconds vis) m) \<in> set (sqs_messages db1)"
    unfolding F by (rule delivered_row [OF inv m [unfolded F]])
  let ?h = "message_hidden (now + seconds vis) m" and ?db2 = "SQSMemoryDb_ResetMessages rnow2 url vis2 db1"
  have at: "m_region m = region" "m_queueUrl m = url" using taken_row [OF t] by (simp_all add: d)
  then have reset: "message_reset url (rnow2 k) ?h = ?h\<lparr>m_status := INITIAL, m_receiptHandle := []\<rparr>"
    using late by (simp add: message_reset_def message_hidden_def)
  have in2: "(k, message_reset url (rnow2 k) ?h) \<in> set (sqs_messages ?db2)"
    using row by (auto simp: reset_row)
  have "map fst (sqs_messages db1) = map fst (sqs_messages db)"
    unfolding F by (simp add: SQSDatabase_ReceiveMessages_def receive_result map_fst_update_first)
  then have "length (sqs_messages ?db2) = length (sqs_messages db)"
    by (metis length_map message_steps_keys(1))
  then have all: "taken region url mx2 ?db2 = filter (receivable region url) (sqs_messages ?db2)"
    using room by (intro taken_all) simp_all
  have "(k, message_reset url (rnow2 k) ?h) \<in> set (taken region url mx2 ?db2)"
    unfolding all using in2 at unfolding reset by (simp add: receivable_def message_hidden_def)
  then have "deliver handle2 (k, message_reset url (rnow2 k) ?h) \<in>
      set (fst (SQSDatabase_ReceiveMessages rnow2 now2 handle2 region url vis2 mx2 [] db1))"
    by (simp add: SQSDatabase_ReceiveMessages_def receive_result)
  moreover have "m_oid (message_reset url (rnow2 k) ?h) = k" using k by (simp add: message_hidden_def)
  ultimately show ?thesis using k
    by (intro bexI [of _ "deliver handle2 (k, message_reset url (rnow2 k) ?h)"])
      (simp_all add: message_hidden_def)
qed

theorem redelivery_witness:
  "\<exists>m' \<in> set (fst (SQSDatabase_ReceiveMessages (\<lambda>k. seconds 31) 0 (\<lambda>k. ''h2'') ''eu'' demo_url 30 10 [] demo_received)).
     m_oid m' = ''m1'' \<and> m_retries m' = 2 \<and> m_body m' = ''hi''"
proof -
  let ?r = "SQSDatabase_ReceiveMessages (\<lambda>k. 0) 0 (\<lambda>k. ''h1'') ''eu'' demo_url 30 10 [] demo_sent"
  have r: "?r = (fst ?r, demo_received)" by (simp add: demo_received_def)
  have one: "fst ?r \<noteq> []" "m_oid (hd (fst ?r)) = ''m1''" "m_retries (hd (fst ?r)) = 1"
    "m_body (hd (fst ?r)) = ''hi''" "length (sqs_messages demo_sent) = 1"
    unfolding demo_eqs by code_simp+
  have "\<exists>m' \<in> set (fst (SQSDatabase_ReceiveMessages (\<lambda>k. seconds 31) 0 (\<lambda>k. ''h2'') ''eu'' demo_url 30 10 [] demo_received)).
     m_oid m' = m_oid (hd (fst ?r)) \<and> m_retries m' = m_retries (hd (fst ?r)) + 1 \<and> m_body m' = m_body (hd (fst ?r))"
    by (rule redelivery [OF demo_inv(2) r hd_in_set [OF one(1)]]) (simp_all add: seconds_def one(5))
  then show ?thesis by (simp only: one one_add_one)
qed

section \<open>The service operations\<close>

text \<open>What \<open>SendMessage\<close> does when the queue is found.\<close>

lemma SendMessage_eq:
  assumes inv: "sqs_inv db" and url: "smr_queueUrl request = [] \<or> SQSMemoryDb_QueueUrlExists (smr_region request) (smr_queueUrl request) db"
    and get: "SQSDatabase_GetQueueByUrl (sd_init d) (smr_region request) (smr_queueUrl request) db = (q, db)"
  shows "snd (SQSService_SendMessage ext d request db) =
      db\<lparr>sqs_messages := smap_put (sd_oid d) ((new_message ext d q request)\<lparr>m_oid := sd_oid d\<rparr>) (sqs_messages db)\<rparr>"
    "\<exists>resp. fst (SQSService_SendMessage ext d request db) = Inr resp \<and> sms_messageId resp = sd_messageId d \<and>
      sms_receiptHandle resp = sd_receiptHandle d \<and> sms_queueUrl resp = q_queueUrl q"
  using url by (auto simp: SQSService_SendMessage_def get CreateMessage_eq [OF inv] new_message_def)

lemma new_message_fields [simp]:
  "m_region (new_message ext d q request) = smr_region request" "m_queueUrl (new_message ext d q request) = q_queueUrl q"
  "m_body (new_message ext d q request) = smr_body request" "m_status (new_message ext d q request) = INITIAL"
  "m_messageId (new_message ext d q request) = sd_messageId d" "m_retries (new_message ext d q request) = 0"
  "m_reset (new_message ext d q request) = send_reset (sd_now d) q"
  by (simp_all add: new_message_def Message_init_def)

text \<open>The queue a request names is alone with its URL: then the getter by URL finds it in its region.\<close>

definition sole_queue :: "string \<Rightarrow> string \<Rightarrow> sqs_db \<Rightarrow> bool" where
  "sole_queue region url db \<longleftrightarrow> SQSMemoryDb_QueueUrlExists region url db \<and>
     list_all (\<lambda>(k, q). q_queueUrl q = url \<longrightarrow> q_region q = region) (sqs_queues db)"

lemma sole_queue_get:
  assumes "sqs_inv db" "sole_queue region url db"
  obtains k q where "(k, q) \<in> set (sqs_queues db)" "q_queueUrl q = url" "q_region q = region"
    "\<forall>now. SQSDatabase_GetQueueByUrl now region url db = (q, db)"
proof -
  let ?P = "\<lambda>(k, q). q_queueUrl q = url"
  have "smap_find_if ?P (sqs_queues db) \<noteq> None"
    using assms(2) unfolding smap_find_if_not_None sole_queue_def QueueUrlExists_iff by force
  then obtain k q where f: "smap_find_if ?P (sqs_queues db) = Some (k, q)" by force
  have row: "(k, q) \<in> set (sqs_queues db)" "q_queueUrl q = url" using smap_find_if_Some [OF f] by auto
  moreover have "q_region q = region" using assms(2) row by (auto simp: sole_queue_def list_all_iff)
  ultimately show ?thesis using that f assms(1) by (simp add: sqs_getter_defs queue_fetch_inv)
qed

lemma fresh_put_messages:
  "sqs_inv db \<Longrightarrow> k \<notin> fst ` set (sqs_messages db) \<Longrightarrow>
   (k, m) \<in> set (smap_put k m (sqs_messages db)) \<and> length (smap_put k m (sqs_messages db)) = Suc (length (sqs_messages db))"
  by (simp add: set_smap_put sqs_invD)

lemma receive_poll_first:
  assumes "0 < rmr_waitTimeSeconds request"
    "SQSDatabase_ReceiveMessages (pl_reset_now (polls 0)) (pl_now (polls 0)) (pl_handle (polls 0)) (q_region q) (q_queueUrl q)
       (qa_visibilityTimeout (q_attributes q)) (rmr_maxMessages request) [] db = (ms, db')" "ms \<noteq> []"
  shows "receive_poll (Suc fuel) polls 0 q request begin_time 0 db = Some (ms, db')"
  using assms by simp


definition demo_receive :: ReceiveMessageRequest where
  "demo_receive = \<lparr>rmr_region = ''eu'', rmr_queueUrl = demo_url, rmr_maxMessages = 10, rmr_waitTimeSeconds = 1, rmr_requestId = []\<rparr>"

definition demo_polls :: "nat \<Rightarrow> poll" where
  "demo_polls i = \<lparr>pl_reset_now = (\<lambda>k. 0), pl_now = 0, pl_handle = (\<lambda>k. ''h1''), pl_clock = 500000000 * int i, pl_others = (\<lambda>db. db)\<rparr>"

lemma demo_no_messages: "sqs_messages demo_queue = []"
  by (simp add: demo_queue_eq)

lemma demo_sole: "sole_queue ''eu'' demo_url demo_queue"
  unfolding demo_eqs by code_simp


section \<open>Long polling\<close>

text \<open>C11: a long poll returns: if every turn of the loop takes at least the half second it sleeps, twice
  the waiting time and two more turns suffice, whatever other threads do to the store meanwhile.\<close>

theorem polling_returns:
  assumes "poll_clock_advances begin_time polls" "2 * nat (rmr_waitTimeSeconds request) + 2 \<le> fuel"
  shows "\<exists>r. SQSService_ReceiveMessages fuel polls init begin_time request db = Some r"
proof -
  have "receive_poll fuel polls 0 q request begin_time 0 db' \<noteq> None" for q db'
    by (rule receive_poll_returns [OF assms(1)]) (use assms(2) in simp_all)
  then show ?thesis
    by (simp add: SQSService_ReceiveMessages_def split: prod.split) (metis option.exhaust)
qed

theorem polling_returns_witness:
  "\<exists>r. SQSService_ReceiveMessages 4 demo_polls 0 0 demo_receive demo_queue = Some r"
  by (rule polling_returns) (auto simp: poll_clock_advances_def demo_polls_def demo_receive_def)

text \<open>a receive whose waiting time is not positive never looks at the queue: it returns an empty
  response and leaves the store as it is, however many messages are waiting.\<close>

theorem short_poll_receives_nothing:
  assumes "sqs_inv db" "SQSMemoryDb_QueueUrlExists (rmr_region request) (rmr_queueUrl request) db"
    "rmr_waitTimeSeconds request \<le> 0"
  shows "SQSService_ReceiveMessages (Suc fuel) polls init begin_time request db =
           Some (Inr \<lparr>rms_messageList = [], rms_requestId = []\<rparr>, db)"
  using assms(2,3) sqs_getters_pure(4) [OF assms(1), of init "rmr_region request" "rmr_queueUrl request"]
  by (simp add: SQSService_ReceiveMessages_def case_prod_beta)

theorem short_poll_receives_nothing_witness:
  "SQSService_ReceiveMessages 1 demo_polls 0 0 (demo_receive\<lparr>rmr_waitTimeSeconds := 0\<rparr>) demo_sent =
     Some (Inr \<lparr>rms_messageList = [], rms_requestId = []\<rparr>, demo_sent) \<and>
   filter (receivable ''eu'' demo_url) (sqs_messages demo_sent) \<noteq> []"
proof -
  have "SQSMemoryDb_QueueUrlExists ''eu'' demo_url demo_sent" unfolding demo_eqs by code_simp
  moreover have "filter (receivable ''eu'' demo_url) (sqs_messages demo_sent) \<noteq> []" unfolding demo_eqs by code_simp
  ultimately show ?thesis
    using short_poll_receives_nothing [OF demo_inv(2), of "demo_receive\<lparr>rmr_waitTimeSeconds := 0\<rparr>" 0 demo_polls 0 0]
    by (simp add: demo_receive_def del: One_nat_def) (simp add: demo_receive_def)
qed

text \<open>the delay of a queue does not delay: a message sent to a queue with \<open>delaySeconds > 0\<close> is
  handed out by a receive at any moment, also before the instant the service computed as the end of
  the delay and stored in the message.\<close>

theorem delay_has_no_effect:
  assumes inv: "sqs_inv db" and queue: "sole_queue (smr_region request) (smr_queueUrl request) db"
    and fresh: "sd_oid d \<notin> fst ` set (sqs_messages db)" and room: "int (length (sqs_messages db)) < mx"
    and delay: "0 < qa_delaySeconds (q_attributes (fst (SQSDatabase_GetQueueByUrl 0 (smr_region request) (smr_queueUrl request) db)))"
    and early: "now \<le> sd_now d"
  shows "\<exists>m \<in> set (fst (SQSDatabase_ReceiveMessages (\<lambda>k. now) now handle (smr_region request) (smr_queueUrl request) vis mx []
            (snd (SQSService_SendMessage ext d request db)))).
           m_messageId m = sd_messageId d \<and> now < m_reset m"
proof -
  obtain k q where row: "(k, q) \<in> set (sqs_queues db)" "q_queueUrl q = smr_queueUrl request" "q_region q = smr_region request"
    and get_all: "\<forall>now. SQSDatabase_GetQueueByUrl now (smr_region request) (smr_queueUrl request) db = (q, db)"
    by (rule sole_queue_get [OF inv queue])
  have ex: "SQSMemoryDb_QueueUrlExists (smr_region request) (smr_queueUrl request) db" using queue by (simp add: sole_queue_def)
  let ?m = "(new_message ext d q request)\<lparr>m_oid := sd_oid d\<rparr>" and ?db1 = "snd (SQSService_SendMessage ext d request db)"
  note send = SendMessage_eq [OF inv disjI2 [OF ex] spec [OF get_all], of ext]
  let ?db2 = "SQSMemoryDb_ResetMessages (\<lambda>k. now) (smr_queueUrl request) vis ?db1"
  note put = fresh_put_messages [OF inv fresh, of ?m]
  have "(sd_oid d, message_reset (smr_queueUrl request) now ?m) \<in> set (sqs_messages ?db2)"
    unfolding reset_row send(1) using put by auto
  then have "(sd_oid d, ?m) \<in> set (sqs_messages ?db2)" by (simp add: message_reset_def)
  moreover have "length (sqs_messages ?db2) = Suc (length (sqs_messages db))"
    using put by (simp add: SQSMemoryDb_ResetMessages_def send(1))
  then have "taken (smr_region request) (smr_queueUrl request) mx ?db2 =
      filter (receivable (smr_region request) (smr_queueUrl request)) (sqs_messages ?db2)"
    using room by (intro taken_all) simp_all
  ultimately have "deliver handle (sd_oid d, ?m) \<in> set (fst (SQSDatabase_ReceiveMessages (\<lambda>k. now) now handle
      (smr_region request) (smr_queueUrl request) vis mx [] ?db1))"
    using row by (simp add: SQSDatabase_ReceiveMessages_def receive_result receivable_def)
  moreover have "now < send_reset (sd_now d) q"
    using delay early get_all by (simp add: send_reset_def seconds_def)
  ultimately show ?thesis by (intro bexI [of _ "deliver handle (sd_oid d, ?m)"]) simp_all
qed

theorem delay_has_no_effect_witness:
  "\<exists>m \<in> set (fst (SQSDatabase_ReceiveMessages (\<lambda>k. 0) 0 (\<lambda>k. ''h1'') (smr_region demo_send) (smr_queueUrl demo_send) 30 10 []
        (snd (SQSService_SendMessage demo_ext demo_draws demo_send demo_queue)))).
     m_messageId m = sd_messageId demo_draws \<and> 0 < m_reset m"
proof -
  have "0 < qa_delaySeconds (q_attributes (fst (SQSDatabase_GetQueueByUrl 0 (smr_region demo_send) (smr_queueUrl demo_send) demo_queue)))"
    unfolding demo_eqs demo_send_def by code_simp
  then show ?thesis
    by (intro delay_has_no_effect [OF demo_inv(1)])
      (simp_all add: demo_send_def demo_sole demo_no_messages demo_draws_def)
qed

end
