(* ===== verification/SQSProperties2.thy ===== *)
theory SQSProperties2
  imports SQSProperties
begin

text \<open>Properties of deletion, of the maintenance worker, of dead letter queues and of queue attributes.\<close>

section \<open>Deleting messages\<close>

lemma DeleteMessage_cases:
  "SQSService_DeleteMessage request db =
     (if \<exists>k m. (k, m) \<in> set (sqs_messages db) \<and> m_receiptHandle m = dmr_receiptHandle request
      then (Inr (), SQSMemoryDb_DeleteMessage (dmr_receiptHandle request) db)
      else (Inl (ServiceException (''Message does not exist, receiptHandle: '' @ dmr_receiptHandle request)), db))"
  by (simp add: SQSService_DeleteMessage_def MessageExists_iff)

text \<open>a receipt handle dies with the visibility timeout: once a message has been put back, deleting
  with the handle of its delivery fails with a \<open>ServiceException\<close> and leaves the store as it is,
  provided no other message has that handle.\<close>

theorem expired_handle_cannot_delete:
  assumes inv: "sqs_inv db" and row: "(k, m) \<in> set (sqs_messages db)" and nonempty: "m_receiptHandle m \<noteq> []"
    and own: "\<forall>(k', m') \<in> set (sqs_messages db). m_receiptHandle m' = m_receiptHandle m \<longrightarrow> k' = k"
    and due: "m_status m = INVISIBLE" "m_reset m < now k"
    and req: "dmr_receiptHandle request = m_receiptHandle m"
  shows "\<exists>text. SQSService_DeleteMessage request (SQSMemoryDb_ResetMessages now (m_queueUrl m) visibility db) =
           (Inl (ServiceException text), SQSMemoryDb_ResetMessages now (m_queueUrl m) visibility db)"
proof -
  have "m_receiptHandle m1 \<noteq> m_receiptHandle m"
    if m1: "(k1, m1) \<in> set (sqs_messages (SQSMemoryDb_ResetMessages now (m_queueUrl m) visibility db))" for k1 m1
  proof
    assume same: "m_receiptHandle m1 = m_receiptHandle m"
    obtain m0 where m0: "(k1, m0) \<in> set (sqs_messages db)" "m1 = message_reset (m_queueUrl m) (now k1) m0"
      using m1 unfolding reset_row by blast
    then have "m_receiptHandle m0 = m_receiptHandle m"
      using same nonempty by (auto simp: message_reset_def split: if_splits)
    then have "k1 = k" using own m0(1) by auto
    then have "m0 = m" using message_row_unique [OF inv] m0(1) row by metis
    then show False using m0(2) due same nonempty \<open>k1 = k\<close> by (simp add: message_reset_def)
  qed
  then show ?thesis unfolding DeleteMessage_cases req by auto
qed

theorem expired_handle_cannot_delete_witness:
  "\<exists>text. SQSService_DeleteMessage \<lparr>dmr_region = ''eu'', dmr_queueUrl = demo_url, dmr_receiptHandle = ''h1''\<rparr>
       (SQSMemoryDb_ResetMessages (\<lambda>k. seconds 31) demo_url 30 demo_received) =
     (Inl (ServiceException text), SQSMemoryDb_ResetMessages (\<lambda>k. seconds 31) demo_url 30 demo_received)"
proof -
  let ?m = "message_hidden (seconds 30) (message_received ''h1'' demo_message_row)"
  have "(''m1'', ?m) \<in> set (sqs_messages demo_received)" "m_queueUrl ?m = demo_url"
    by (simp_all add: demo_eqs message_hidden_def message_received_def demo_message_row_def)
  then show ?thesis
    using expired_handle_cannot_delete [OF demo_inv(3), of "''m1''" ?m "\<lambda>k. seconds 31"
        "\<lparr>dmr_region = ''eu'', dmr_queueUrl = demo_url, dmr_receiptHandle = ''h1''\<rparr>" 30]
    by (simp add: demo_received_eq message_hidden_def message_received_def seconds_def)
qed

text \<open>putting a message back clears its receipt handle to the empty string, and a delete looks for
  the handle only: a delete request with an empty handle, for whatever queue, succeeds and removes
  the message from the queue it had just returned to.\<close>

theorem empty_handle_deletes_returned:
  assumes inv: "sqs_inv db" and row: "(k, m) \<in> set (sqs_messages db)"
    and due: "m_status m = INVISIBLE" "m_reset m < now k" and req: "dmr_receiptHandle request = []"
  shows "fst (SQSService_DeleteMessage request (SQSMemoryDb_ResetMessages now (m_queueUrl m) visibility db)) = Inr () \<and>
    k \<notin> fst ` set (sqs_messages (snd (SQSService_DeleteMessage request (SQSMemoryDb_ResetMessages now (m_queueUrl m) visibility db))))"
proof -
  let ?db = "SQSMemoryDb_ResetMessages now (m_queueUrl m) visibility db"
  have returned: "(k, m\<lparr>m_status := INITIAL, m_receiptHandle := []\<rparr>) \<in> set (sqs_messages ?db)"
    unfolding reset_row using row due by (auto intro!: exI [of _ m] simp: message_reset_def)
  then have ex: "\<exists>k' m'. (k', m') \<in> set (sqs_messages ?db) \<and> m_receiptHandle m' = []"
    by (intro exI conjI, assumption) simp
  have gone: "k \<notin> fst ` set (sqs_messages (SQSMemoryDb_DeleteMessage [] ?db))"
  proof
    assume "k \<in> fst ` set (sqs_messages (SQSMemoryDb_DeleteMessage [] ?db))"
    then obtain m' where "(k, m') \<in> set (sqs_messages ?db)" "m_receiptHandle m' \<noteq> []"
      by (auto simp: SQSMemoryDb_DeleteMessage_def set_smap_erase_if)
    with message_row_unique [OF sqs_inv_ResetMessages [OF inv], OF returned, of m'] show False by auto
  qed
  show ?thesis unfolding DeleteMessage_cases req using ex gone by simp
qed

theorem empty_handle_deletes_returned_witness:
  "fst (SQSService_DeleteMessage \<lparr>dmr_region = ''us'', dmr_queueUrl = ''other'', dmr_receiptHandle = []\<rparr>
     (SQSMemoryDb_ResetMessages (\<lambda>k. seconds 31) demo_url 30 demo_received)) = Inr ()"
proof -
  let ?m = "message_hidden (seconds 30) (message_received ''h1'' demo_message_row)"
  have "(''m1'', ?m) \<in> set (sqs_messages demo_received)" "m_queueUrl ?m = demo_url"
    by (simp_all add: demo_eqs message_hidden_def message_received_def demo_message_row_def)
  then show ?thesis
    using empty_handle_deletes_returned [OF demo_inv(3), of "''m1''" ?m "\<lambda>k. seconds 31"
        "\<lparr>dmr_region = ''us'', dmr_queueUrl = ''other'', dmr_receiptHandle = []\<rparr>" 30]
    by (simp add: message_hidden_def message_received_def seconds_def)
qed

subsection \<open>Batches\<close>

lemma MessageExists_Delete:
  "h \<noteq> h' \<Longrightarrow> SQSMemoryDb_MessageExists h (SQSMemoryDb_DeleteMessage h' db) = SQSMemoryDb_MessageExists h db"
  by (auto simp: MessageExists_iff SQSMemoryDb_DeleteMessage_def set_smap_erase_if)

lemma delete_batch_messages:
  "distinct (map dbe_receiptHandle entries) \<Longrightarrow>
   sqs_messages (delete_batch entries db) =
     filter (\<lambda>(k, m). m_receiptHandle m \<notin> set (takeWhile (\<lambda>h. SQSMemoryDb_MessageExists h db) (map dbe_receiptHandle entries)))
       (sqs_messages db)"
proof (induction entries arbitrary: db)
  case (Cons e es)
  let ?db = "SQSMemoryDb_DeleteMessage (dbe_receiptHandle e) db"
  have "takeWhile (\<lambda>h. SQSMemoryDb_MessageExists h ?db) (map dbe_receiptHandle es) =
        takeWhile (\<lambda>h. SQSMemoryDb_MessageExists h db) (map dbe_receiptHandle es)"
    using Cons.prems by (intro takeWhile_cong refl MessageExists_Delete) (auto simp: image_iff)
  then show ?case using Cons
    by (auto simp: SQSMemoryDb_DeleteMessage_def smap_erase_if_def case_prod_beta intro!: filter_cong)
qed simp

text \<open>\<open>DeleteMessageBatch\<close> reports success always, and deletes exactly the messages of the entries
  before the first one whose handle is unknown; that entry and all after it are skipped.\<close>

theorem delete_batch_prefix:
  assumes "distinct (map dbe_receiptHandle (dbr_deleteMessageBatchEntries request))"
  shows "fst (SQSService_DeleteMessageBatch request db) = Inr () \<and>
    sqs_messages (snd (SQSService_DeleteMessageBatch request db)) =
      filter (\<lambda>(k, m). m_receiptHandle m \<notin> set (takeWhile (\<lambda>h. SQSMemoryDb_MessageExists h db)
          (map dbe_receiptHandle (dbr_deleteMessageBatchEntries request)))) (sqs_messages db)"
  using delete_batch_messages [OF assms] by (simp add: SQSService_DeleteMessageBatch_def)

definition demo_batch :: DeleteMessageBatchRequest where
  "demo_batch = \<lparr>dbr_region = [], dbr_queueUrl = demo_url, dbr_deleteMessageBatchEntries =
     [\<lparr>dbe_id = ''1'', dbe_receiptHandle = ''zz''\<rparr>, \<lparr>dbe_id = ''2'', dbe_receiptHandle = ''r1''\<rparr>]\<rparr>"

theorem delete_batch_prefix_witness:
  "fst (SQSService_DeleteMessageBatch demo_batch demo_sent) = Inr () \<and>
   sqs_messages (snd (SQSService_DeleteMessageBatch demo_batch demo_sent)) = sqs_messages demo_sent"
proof -
  have no: "\<not> SQSMemoryDb_MessageExists ''zz'' demo_sent" unfolding demo_eqs by code_simp
  show ?thesis using delete_batch_prefix [of demo_batch demo_sent] no by (simp add: demo_batch_def)
qed

section \<open>The maintenance worker\<close>

text \<open>C16: on a reachable store, undisturbed, the maintenance run ends without error and deletes nothing:
  every message is still stored afterwards, however long the queue's retention period has been over.\<close>

theorem worker_deletes_nothing:
  assumes "sqs_reachable cfg ext db" "\<forall>i s. wd_others (draws i) s = s"
  shows "fst (SQSWorker_ResetMessages cfg draws db) = Inr () \<and>
    map fst (sqs_messages (snd (SQSWorker_ResetMessages cfg draws db))) = map fst (sqs_messages db)"
  using worker_run_alone [OF sqs_reachable_sqs_wf [OF assms(1)]] assms(2) by blast

definition demo_worker :: worker_draws where
  "demo_worker = \<lparr>wd_retention_now = (\<lambda>k. seconds 9999999), wd_reset_now = (\<lambda>k. seconds 9999999),
     wd_delay_now = (\<lambda>k. 0), wd_others = (\<lambda>db. db)\<rparr>"

theorem worker_deletes_nothing_witness:
  "fst (SQSWorker_ResetMessages demo_cfg (\<lambda>i. demo_worker) demo_received) = Inr () \<and>
   map fst (sqs_messages (snd (SQSWorker_ResetMessages demo_cfg (\<lambda>i. demo_worker) demo_received))) = map fst (sqs_messages demo_received)"
  by (rule worker_deletes_nothing [OF demo_reachable(3)]) (simp add: demo_worker_def)

text \<open>the worker is not safe against a concurrent \<open>DeleteQueue\<close>: if the queue disappears between the
  worker's maintenance and its \<open>UpdateQueue\<close>, the update dereferences the end iterator.\<close>

theorem worker_delete_race:
  assumes wf: "sqs_wf cfg db" and row: "(k, q) \<in> set (sqs_queues db)"
    and race: "\<forall>s. wd_others d s = snd (SQSService_DeleteQueue \<lparr>dqr_region = q_region q, dqr_queueUrl = q_queueUrl q, dqr_requestId = []\<rparr> s)"
  shows "fst (worker_queue cfg d q db) = Inl UndefinedBehaviour"
proof -
  let ?db = "maintained cfg d q db" and ?c = "counted d q db"
  have "SQSMemoryDb_QueueUrlExists (q_region q) (q_queueUrl q) ?db"
    using row by (auto simp: QueueUrlExists_iff)
  then have after: "sqs_queues (wd_others d ?db) = smap_erase_if (\<lambda>(k, r). r \<in> {r. q_region r = q_region q \<and> q_queueUrl r = q_queueUrl q}) (sqs_queues db)"
    by (simp add: race [rule_format] SQSService_DeleteQueue_def SQSMemoryDb_DeleteQueue_def SQSMemoryDb_DeleteMessages_def)
  have "\<not> SQSMemoryDb_QueueExists (q_region ?c) (q_name ?c) (wd_others d ?db)"
  proof
    assume "SQSMemoryDb_QueueExists (q_region ?c) (q_name ?c) (wd_others d ?db)"
    then obtain k' r where r: "(k', r) \<in> set (sqs_queues db)" "q_region r = q_region q" "q_name r = q_name q"
        "q_queueUrl r \<noteq> q_queueUrl q"
      by (auto simp: QueueExists_iff after set_smap_erase_if)
    with sqs_wfD(3) [OF wf r(1)] sqs_wfD(3) [OF wf row] show False by (simp add: queue_ok_def)
  qed
  then show ?thesis by (simp add: worker_queue_step [OF wf] UpdateQueue_missing)
qed

theorem worker_delete_race_witness:
  "fst (worker_queue demo_cfg (demo_worker\<lparr>wd_others := \<lambda>s. snd (SQSService_DeleteQueue
      \<lparr>dqr_region = q_region demo_queue_row, dqr_queueUrl = q_queueUrl demo_queue_row, dqr_requestId = []\<rparr> s)\<rparr>)
    demo_queue_row demo_received) = Inl UndefinedBehaviour"
  by (rule worker_delete_race [OF demo_wf(3), of "''q1''"]) (simp_all add: demo_received_eq)

text \<open>the counters the worker publishes are consistent: on a well-formed store the number of messages
  of a queue is the number of receivable ones plus the number in flight, and none is counted as
  delayed.\<close>

theorem worker_counters_consistent:
  assumes wf: "sqs_wf cfg db" and named: "q_region q \<noteq> []" "q_queueUrl q \<noteq> []"
  shows "qa_approximateNumberOfMessages (q_attributes (worker_counters q db)) =
      int (length (filter (receivable (q_region q) (q_queueUrl q)) (sqs_messages db))) +
      qa_approximateNumberOfMessagesNotVisible (q_attributes (worker_counters q db)) \<and>
    qa_approximateNumberOfMessagesDelayed (q_attributes (worker_counters q db)) = 0"
proof -
  have count: "length (filter (\<lambda>(k, m). m_region m = r \<and> m_queueUrl m = u) ms) =
      length (filter (receivable r u) ms) + length (filter (\<lambda>(k, m). m_region m = r \<and> m_queueUrl m = u \<and> m_status m = INVISIBLE) ms)
      \<and> filter (\<lambda>(k, m). m_region m = r \<and> m_queueUrl m = u \<and> m_status m = DELAYED) ms = []"
    if "\<forall>(k, m) \<in> set ms. message_ok m" for r u and ms :: "(string \<times> Message) list"
    using that by (induction ms) (auto simp: receivable_def message_ok_def)
  have "\<forall>(k, m) \<in> set (sqs_messages db). message_ok m" using sqs_wfD(4) [OF wf] by blast
  from count [OF this, of "q_region q" "q_queueUrl q"] show ?thesis
    using named by (simp add: worker_counters_def SQSMemoryDb_CountMessages_def
        SQSMemoryDb_CountMessagesByStatus_def smap_count_if_def)
qed

theorem worker_counters_consistent_witness:
  "qa_approximateNumberOfMessages (q_attributes (worker_counters demo_queue_row demo_received)) =
      int (length (filter (receivable (q_region demo_queue_row) (q_queueUrl demo_queue_row)) (sqs_messages demo_received))) +
      qa_approximateNumberOfMessagesNotVisible (q_attributes (worker_counters demo_queue_row demo_received)) \<and>
   qa_approximateNumberOfMessagesDelayed (q_attributes (worker_counters demo_queue_row demo_received)) = 0"
  by (rule worker_counters_consistent [OF demo_wf(3)]) (simp_all add: demo_queue_row_def)

section \<open>Dead letter queues\<close>

lemma host_prefix_inj:
  assumes "plain_name a" "plain_name b" "a @ CHR '':'' # s = b @ CHR '':'' # t"
  shows "a = b"
proof -
  have "takeWhile (\<lambda>c. c \<noteq> CHR '':'') (h @ CHR '':'' # r) = h" if "plain_name h" for h r
    using that by (induction h) (auto simp: plain_name_def)
  with assms show ?thesis by metis
qed

lemma dlq_url_no_queue:
  assumes "plain_name (cfg_region cfg)" "plain_name (cfg_accountId cfg)" "plain_name dlq" "dlq \<noteq> []"
    "plain_name (cfg_sqs_hostname cfg)" "plain_name (host_name cfg)" "cfg_sqs_hostname cfg \<noteq> host_name cfg"
  shows "AwsUtils_ConvertSQSQueueArnToUrl cfg (CreateSQSQueueArn cfg dlq) \<noteq> CreateSQSQueueUrl cfg name"
  using host_prefix_inj [OF assms(5,6)] assms(7)
  unfolding ConvertSQSQueueArnToUrl_Create [OF assms(1-4)] CreateSQSQueueUrl_def by auto

text \<open>C15: with the SQS host name equal to the machine's, redrive delivers: a message that was received
  more often than the policy allows and is back in its queue moves to the dead letter queue's URL,
  receivable there, with its delivery count reset.\<close>

theorem redrive_moves_to_dlq:
  assumes names: "plain_name (cfg_region cfg)" "plain_name (cfg_accountId cfg)" "plain_name dlq" "dlq \<noteq> []"
    and host: "cfg_sqs_hostname cfg = host_name cfg"
    and row: "(k, m) \<in> set (sqs_messages db)" "m_status m = INITIAL" "rp_maxReceiveCount policy < m_retries m"
    and target: "rp_deadLetterTargetArn policy = CreateSQSQueueArn cfg dlq"
  shows "\<exists>m'. (k, m') \<in> set (filter (receivable (m_region m) (CreateSQSQueueUrl cfg dlq))
              (sqs_messages (SQSMemoryDb_RedriveMessages cfg (m_queueUrl m) policy db))) \<and>
            m_retries m' = 0 \<and> m_body m' = m_body m"
proof -
  have url: "AwsUtils_ConvertSQSQueueArnToUrl cfg (CreateSQSQueueArn cfg dlq) = CreateSQSQueueUrl cfg dlq"
    using ArnToUrl_agrees_iff [OF names] host by simp
  have moved: "message_redrive (m_queueUrl m) (CreateSQSQueueUrl cfg dlq) (rp_maxReceiveCount policy) m =
      m\<lparr>m_retries := 0, m_queueUrl := CreateSQSQueueUrl cfg dlq\<rparr>"
    using row(2,3) by (simp add: message_redrive_def)
  have "(k, message_redrive (m_queueUrl m) (CreateSQSQueueUrl cfg dlq) (rp_maxReceiveCount policy) m) \<in>
      set (sqs_messages (SQSMemoryDb_RedriveMessages cfg (m_queueUrl m) policy db))"
    using row(1) by (force simp: SQSMemoryDb_RedriveMessages_def Let_def target url)
  then show ?thesis unfolding moved using row(2)
    by (intro exI [of _ "m\<lparr>m_retries := 0, m_queueUrl := CreateSQSQueueUrl cfg dlq\<rparr>"]) (simp add: receivable_def)
qed

definition demo_policy :: RedrivePolicy where
  "demo_policy = \<lparr>rp_deadLetterTargetArn = CreateSQSQueueArn demo_cfg ''d'', rp_maxReceiveCount = - 1\<rparr>"

lemma demo_sent_row: "(''m1'', demo_message_row) \<in> set (sqs_messages demo_sent)"
  "m_status demo_message_row = INITIAL" "m_retries demo_message_row = 0" "m_region demo_message_row = ''eu''"
  by (simp_all add: demo_sent_eq demo_message_row_def)

theorem redrive_moves_to_dlq_witness:
  "\<exists>m'. (''m1'', m') \<in> set (filter (receivable (m_region demo_message_row) (CreateSQSQueueUrl demo_cfg ''d''))
      (sqs_messages (SQSMemoryDb_RedriveMessages demo_cfg (m_queueUrl demo_message_row) demo_policy demo_sent))) \<and>
    m_retries m' = 0 \<and> m_body m' = m_body demo_message_row"
  by (rule redrive_moves_to_dlq [OF _ _ _ _ _ demo_sent_row(1,2)])
    (simp_all add: demo_policy_def demo_sent_row plain_name_def demo_cfg_def)

text \<open>with the SQS host name configured to anything else, redrive loses the message: it is moved to a
  URL that no queue of the store has.\<close>

theorem redrive_loses_messages:
  assumes wf: "sqs_wf cfg db"
    and names: "plain_name (cfg_region cfg)" "plain_name (cfg_accountId cfg)" "plain_name dlq" "dlq \<noteq> []"
    and host: "plain_name (cfg_sqs_hostname cfg)" "plain_name (host_name cfg)" "cfg_sqs_hostname cfg \<noteq> host_name cfg"
    and row: "(k, m) \<in> set (sqs_messages db)" "m_status m = INITIAL" "rp_maxReceiveCount policy < m_retries m"
    and target: "rp_deadLetterTargetArn policy = CreateSQSQueueArn cfg dlq"
  shows "\<exists>m'. (k, m') \<in> set (sqs_messages (SQSMemoryDb_RedriveMessages cfg (m_queueUrl m) policy db)) \<and>
           (\<forall>(k', q) \<in> set (sqs_queues db). q_queueUrl q \<noteq> m_queueUrl m')"
proof -
  let ?url = "AwsUtils_ConvertSQSQueueArnToUrl cfg (CreateSQSQueueArn cfg dlq)"
  have moved: "message_redrive (m_queueUrl m) ?url (rp_maxReceiveCount policy) m = m\<lparr>m_retries := 0, m_queueUrl := ?url\<rparr>"
    using row(2,3) by (simp add: message_redrive_def)
  have "(k, message_redrive (m_queueUrl m) ?url (rp_maxReceiveCount policy) m) \<in>
      set (sqs_messages (SQSMemoryDb_RedriveMessages cfg (m_queueUrl m) policy db))"
    using row(1) by (force simp: SQSMemoryDb_RedriveMessages_def Let_def target)
  moreover have "q_queueUrl q \<noteq> ?url" if "(k', q) \<in> set (sqs_queues db)" for k' q
    using sqs_wfD(3) [OF wf that] dlq_url_no_queue [OF names host, of "q_name q"] by (simp add: queue_ok_def)
  ultimately show ?thesis unfolding moved by (intro exI [of _ "m\<lparr>m_retries := 0, m_queueUrl := ?url\<rparr>"]) auto
qed

text \<open>The same installation with the default host name: only the configuration differs.\<close>

definition demo_cfg_default :: config where
  "demo_cfg_default = demo_cfg\<lparr>cfg_sqs_hostname := ''localstack''\<rparr>"

lemma demo_wf_default: "sqs_wf demo_cfg_default demo_sent"
proof -
  have "queue_ok demo_cfg_default = queue_ok demo_cfg"
    by (rule ext) (simp add: queue_ok_def CreateSQSQueueUrl_def CreateSQSQueueArn_def demo_cfg_default_def)
  then show ?thesis using demo_wf(2) by (simp add: sqs_wf_def)
qed

theorem redrive_loses_messages_witness:
  "\<exists>m'. (''m1'', m') \<in> set (sqs_messages (SQSMemoryDb_RedriveMessages demo_cfg_default (m_queueUrl demo_message_row) demo_policy demo_sent)) \<and>
     (\<forall>(k', q) \<in> set (sqs_queues demo_sent). q_queueUrl q \<noteq> m_queueUrl m')"
  by (rule redrive_loses_messages [OF demo_wf_default _ _ _ _ _ _ _ demo_sent_row(1,2), of "''d''"])
    (simp_all add: demo_policy_def demo_sent_row plain_name_def demo_cfg_default_def demo_cfg_def CreateSQSQueueArn_def)

section \<open>Queues and their attributes\<close>



lemma CheckAttribute_single:
  "SQSService_CheckAttribute [a] b \<longleftrightarrow> StringUtils_EqualsIgnoreCase a b"
  by (simp add: SQSService_CheckAttribute_def)

lemma named_visibility:
  "\<not> SQSService_CheckAttribute [''VisibilityTimeout''] ''all''"
  "named_attributes ext [''VisibilityTimeout''] q =
     [(''VisibilityTimeout'', to_string (qa_visibilityTimeout (q_attributes q)))]"
proof -
  have checks: "SQSService_CheckAttribute [''VisibilityTimeout''] ''VisibilityTimeout''"
    "list_all (\<lambda>n. \<not> SQSService_CheckAttribute [''VisibilityTimeout''] n)
       [''all'', ''Policy'', ''MaximumMessageSize'', ''MessageRetentionPeriod'', ''ApproximateNumberOfMessages'',
        ''ApproximateNumberOfMessagesNotVisible'', ''CreatedTimestamp'', ''LastModifiedTimestamp'', ''DelaySeconds'',
        ''ReceiveMessageWaitTimeSeconds'', ''RedrivePolicy'']"
    by code_simp+
  then show "\<not> SQSService_CheckAttribute [''VisibilityTimeout''] ''all''" by simp
  from checks show "named_attributes ext [''VisibilityTimeout''] q =
     [(''VisibilityTimeout'', to_string (qa_visibilityTimeout (q_attributes q)))]"
    by (simp add: named_attributes_def)
qed

lemma set_visibility:
  assumes "smap_inv attributes" "smap_get ''VisibilityTimeout'' attributes = Some (to_string n)" "int_min \<le> n" "n \<le> int_max"
    "set_attributes ext attributes queueArn qa0 = Inr qa"
  shows "qa_visibilityTimeout qa = n"
proof -
  obtain qa4 qa5 where v: "set_if ''VisibilityTimeout'' attributes (\<lambda>v qa. read_int v (\<lambda>n. qa\<lparr>qa_visibilityTimeout := n\<rparr>)) qa4 = Inr qa5"
    and last: "qa_visibilityTimeout qa = qa_visibilityTimeout qa5"
    using assms(5) unfolding set_attributes_def rbind_Inr_iff by (auto split: if_splits)
  have at: "map_at ''VisibilityTimeout'' attributes = to_string n" using assms(2) by (simp add: map_at_def)
  have num: "stoi (to_string n) = Inr n" by (rule stoi_to_string [OF assms(3,4)])
  then have "to_string n \<noteq> []" by (auto simp: stoi_def parse_number_def)
  then show ?thesis using v last by (auto simp: set_if_def at read_int_def num)
qed

lemma sole_queueD:
  "sole_queue region url db \<Longrightarrow> (k, q) \<in> set (sqs_queues db) \<Longrightarrow> q_queueUrl q = url \<Longrightarrow> q_region q = region"
  by (auto simp: sole_queue_def list_all_iff)

text \<open>a visibility timeout that is set is the one that is read: after \<open>SetQueueAttributes\<close> with
  \<open>VisibilityTimeout\<close> = the decimal text of \<open>n\<close>, asking \<open>GetQueueAttributes\<close> for it returns exactly
  that text.\<close>

theorem set_then_get_visibility:
  assumes wf: "sqs_wf cfg db" and queue: "sole_queue (sar_region request) (sar_queueUrl request) db"
    and attrs: "smap_inv (sar_attributes request)" "smap_get ''VisibilityTimeout'' (sar_attributes request) = Some (to_string n)"
      "int_min \<le> n" "n \<le> int_max"
    and ok: "SQSService_SetQueueAttributes ext now request db = (Inr resp, db')"
  shows "fst (SQSService_GetQueueAttributes ext now' \<lparr>gar_region = sar_region request, gar_queueUrl = sar_queueUrl request,
            gar_attributeNames = [''VisibilityTimeout'']\<rparr> db') = Inr [(''VisibilityTimeout'', to_string n)]"
proof -
  have ex: "SQSMemoryDb_QueueUrlExists (sar_region request) (sar_queueUrl request) db" using queue by (simp add: sole_queue_def)
  obtain k q where row: "(k, q) \<in> set (sqs_queues db)" "q_queueUrl q = sar_queueUrl request"
    and get: "SQSDatabase_GetQueueByUrl now (sar_region request) (sar_queueUrl request) db = (q, db)"
    and eq: "SQSService_SetQueueAttributes ext now request db =
       (case set_attributes ext (sar_attributes request) (q_queueArn q) (q_attributes q) of
          Inl e \<Rightarrow> (Inl (rethrow_service e), db)
        | Inr a \<Rightarrow> (Inr \<lparr>sas_resource = ''sqs'', sas_requestId = sar_requestId request\<rparr>,
                    db\<lparr>sqs_queues := smap_put k (q\<lparr>q_attributes := a\<rparr>) (sqs_queues db)\<rparr>))"
    by (rule SetQueueAttributes_eq [OF wf ex])
  obtain a where a: "set_attributes ext (sar_attributes request) (q_queueArn q) (q_attributes q) = Inr a"
    and db': "db' = db\<lparr>sqs_queues := smap_put k (q\<lparr>q_attributes := a\<rparr>) (sqs_queues db)\<rparr>"
    using ok unfolding eq by (auto split: sum.splits)
  have vis: "qa_visibilityTimeout a = n" by (rule set_visibility [OF attrs a])
  have wf': "sqs_wf cfg db'" unfolding db' by (rule sqs_wf_replace_queue [OF wf row(1)]) simp_all
  have rows: "set (sqs_queues db') = insert (k, q\<lparr>q_attributes := a\<rparr>) {kv \<in> set (sqs_queues db). fst kv \<noteq> k}"
    by (simp add: db' set_smap_put sqs_invD [OF sqs_wfD(1) [OF wf]])
  have only: "q' = q\<lparr>q_attributes := a\<rparr>" if r: "(k', q') \<in> set (sqs_queues db')" "q_queueUrl q' = sar_queueUrl request" for k' q'
  proof (cases "k' = k")
    case True
    then show ?thesis using r rows by auto
  next
    case False
    then have r0: "(k', q') \<in> set (sqs_queues db)" using r rows by auto
    have "q_region q' = q_region q" "q_queueUrl q' = q_queueUrl q"
      using sole_queueD [OF queue r0 r(2)] sole_queueD [OF queue row] r(2) row(2) by simp_all
    moreover from this have "q_name q' = q_name q"
      using sqs_wfD(3) [OF wf r0] sqs_wfD(3) [OF wf row(1)] by (simp add: queue_ok_def CreateSQSQueueUrl_def)
    ultimately have "k' = k" using queue_names_uniqueD [OF sqs_wfD(2) [OF wf] r0 row(1)] by simp
    with False show ?thesis by simp
  qed
  have reg: "q_region q = sar_region request" by (rule sole_queueD [OF queue row])
  have mem: "(k, q\<lparr>q_attributes := a\<rparr>) \<in> set (sqs_queues db')" by (simp add: rows)
  have get': "SQSDatabase_GetQueueByUrl now' (sar_region request) (sar_queueUrl request) db' = (q\<lparr>q_attributes := a\<rparr>, db')"
    using GetQueueByUrl_found [OF sqs_wfD(1) [OF wf'] mem, of now' "sar_region request"] only row(2) by simp metis
  have "SQSMemoryDb_QueueUrlExists (sar_region request) (sar_queueUrl request) db'"
    using mem row(2) reg unfolding QueueUrlExists_iff by force
  then show ?thesis
    by (simp add: SQSService_GetQueueAttributes_def get' named_visibility vis)
qed

definition demo_set :: SetQueueAttributesRequest where
  "demo_set = \<lparr>sar_region = ''eu'', sar_queueUrl = demo_url, sar_attributes = [(''VisibilityTimeout'', to_string 45)], sar_requestId = []\<rparr>"

theorem set_then_get_visibility_witness:
  "fst (SQSService_GetQueueAttributes demo_ext 0 \<lparr>gar_region = sar_region demo_set, gar_queueUrl = sar_queueUrl demo_set,
      gar_attributeNames = [''VisibilityTimeout'']\<rparr> (snd (SQSService_SetQueueAttributes demo_ext 0 demo_set demo_queue)))
     = Inr [(''VisibilityTimeout'', to_string 45)]"
proof -
  have "\<exists>resp. fst (SQSService_SetQueueAttributes demo_ext 0 demo_set demo_queue) = Inr resp"
    unfolding demo_eqs demo_set_def by (rule exI [of _ "\<lparr>sas_resource = ''sqs'', sas_requestId = []\<rparr>"]) code_simp
  then obtain resp where "SQSService_SetQueueAttributes demo_ext 0 demo_set demo_queue =
      (Inr resp, snd (SQSService_SetQueueAttributes demo_ext 0 demo_set demo_queue))"
    by (metis prod.collapse)
  then show ?thesis
    by (intro set_then_get_visibility [OF demo_wf(1)])
      (simp_all add: demo_set_def demo_sole smap_inv_def smap_get_def int_min_def int_max_def)
qed

text \<open>deleting a queue removes it from its region, and with it every message under its URL; the
  other queues stay. URLs are made from the name and the configured region, so the messages of a
  queue of the same name in another region go too.\<close>

theorem delete_queue_effect:
  assumes ex: "SQSMemoryDb_QueueUrlExists (dqr_region request) (dqr_queueUrl request) db"
  shows "\<exists>resp db'. SQSService_DeleteQueue request db = (Inr resp, db') \<and>
    \<not> SQSMemoryDb_QueueUrlExists (dqr_region request) (dqr_queueUrl request) db' \<and>
    (\<forall>(k, q) \<in> set (sqs_queues db). q_region q \<noteq> dqr_region request \<or> q_queueUrl q \<noteq> dqr_queueUrl request
        \<longrightarrow> (k, q) \<in> set (sqs_queues db')) \<and>
    (\<forall>region. filter (receivable region (dqr_queueUrl request)) (sqs_messages db') = [])"
proof -
  let ?db = "SQSMemoryDb_DeleteQueue (dqr_region request) (dqr_queueUrl request) (SQSMemoryDb_DeleteMessages (dqr_queueUrl request) db)"
  have queues: "set (sqs_queues ?db) = {(k, q) \<in> set (sqs_queues db). \<not> (q_region q = dqr_region request \<and> q_queueUrl q = dqr_queueUrl request)}"
    by (auto simp: SQSMemoryDb_DeleteQueue_def SQSMemoryDb_DeleteMessages_def set_smap_erase_if)
  have "set (sqs_messages ?db) = {(k, m) \<in> set (sqs_messages db). m_queueUrl m \<noteq> dqr_queueUrl request}"
    by (auto simp: SQSMemoryDb_DeleteQueue_def SQSMemoryDb_DeleteMessages_def set_smap_erase_if)
  then have "filter (receivable region (dqr_queueUrl request)) (sqs_messages ?db) = []" for region
    by (auto simp: filter_empty_conv receivable_def)
  moreover have "\<not> SQSMemoryDb_QueueUrlExists (dqr_region request) (dqr_queueUrl request) ?db"
    unfolding QueueUrlExists_iff by (auto simp: queues)
  moreover have "SQSService_DeleteQueue request db = (Inr \<lparr>dqs_region = dqr_region request,
      dqs_queueUrl = dqr_queueUrl request, dqs_requestId = dqr_requestId request\<rparr>, ?db)"
    using ex by (simp add: SQSService_DeleteQueue_def)
  moreover have "\<forall>(k, q) \<in> set (sqs_queues db). q_region q \<noteq> dqr_region request \<or> q_queueUrl q \<noteq> dqr_queueUrl request
        \<longrightarrow> (k, q) \<in> set (sqs_queues ?db)" by (auto simp: queues)
  ultimately show ?thesis by blast
qed

theorem delete_queue_effect_witness:
  "\<exists>resp db'. SQSService_DeleteQueue \<lparr>dqr_region = ''eu'', dqr_queueUrl = demo_url, dqr_requestId = []\<rparr> demo_sent = (Inr resp, db') \<and>
    (\<forall>region. filter (receivable region demo_url) (sqs_messages db') = [])"
proof -
  have "SQSMemoryDb_QueueUrlExists ''eu'' demo_url demo_sent" unfolding demo_eqs by code_simp
  then show ?thesis
    using delete_queue_effect [of "\<lparr>dqr_region = ''eu'', dqr_queueUrl = demo_url, dqr_requestId = []\<rparr>" demo_sent] by auto
qed

section \<open>Digests of attributes\<close>

text \<open>the bytes hashed for the system attributes of a message determine the attributes: two maps (with
  names and values shorter than 16 MB) that give the same input to MD5 are the same map.\<close>

theorem attribute_digest_input_injective:
  assumes "attributes_small as" "attributes_small bs" "attributes_bytes as = attributes_bytes bs"
  shows "as = bs"
  using assms by (rule attributes_bytes_inj)

theorem attribute_digest_input_injective_witness:
  "attributes_bytes [(''a'', ''bc'')] \<noteq> attributes_bytes [(''a'', []), (''bc'', [])]"
proof
  assume "attributes_bytes [(''a'', ''bc'')] = attributes_bytes [(''a'', []), (''bc'', [])]"
  then have "[(''a'', ''bc'')] = [(''a'', []), (''bc'', [])]"
    by (intro attribute_digest_input_injective) (simp_all add: attributes_small_def small_def)
  then show False by simp
qed

end
