(* ===== verification/HttpUtils.thy ===== *)
theory HttpUtils
  imports Externals
begin

text \<open>
  \<open>core/src/utils/HttpUtils.cpp\<close>, \<open>core/src/utils/JsonUtils.cpp\<close> and
  \<open>dto/src/common/UserAgent.cpp\<close>: what the handlers read from an HTTP request.  A request is
  the method, the target, the header fields in the order received and the body; Boost.Beast finds
  a field by its name regardless of case.  The parameters of a form body and of a target are
  parsed by the same functions.
\<close>

section \<open>Requests and responses\<close>

datatype http_verb = HttpGet | HttpPut | HttpPost | HttpDelete | HttpHead | HttpOther

record http_request =
  rq_method :: http_verb
  rq_target :: string
  rq_fields :: "(string \<times> string) list"
  rq_body :: string

text \<open>
  A response: the status, the header fields the handler adds, and the body as what was rendered
  (the XML and JSON texts are Poco's).
\<close>

record 'b http_response =
  rs_status :: int
  rs_headers :: "(string, string) smap"
  rs_body :: 'b

text \<open>\<open>v[i]\<close> of a \<open>std::vector\<close>, which is not checked.\<close>

definition vec_at :: "'a list \<Rightarrow> nat \<Rightarrow> 'a result" where
  "vec_at xs i = (if i < length xs then Inr (xs ! i) else Inl UndefinedBehaviour)"

lemma vec_at_simps [simp]:
  "vec_at (x # xs) 0 = Inr x" "vec_at (x # xs) (Suc i) = vec_at xs i" "vec_at [] i = Inl UndefinedBehaviour"
  by (simp_all add: vec_at_def)

section \<open>URL decoding\<close>

definition plus_to_space :: "string \<Rightarrow> string" where
  "plus_to_space s = map (\<lambda>c. if c = CHR ''+'' then CHR '' '' else c) s"

text \<open>Poco's decoder has replaced the plus signs already; the ones left are those that were encoded.\<close>

definition StringUtils_UrlDecode :: "externals \<Rightarrow> string \<Rightarrow> string result" where
  "StringUtils_UrlDecode ext inp = rbind (ext_url_decode ext inp) (\<lambda>decoded. Inr (plus_to_space decoded))"

definition HttpUtils_IsUrlEncoded :: "externals \<Rightarrow> string \<Rightarrow> bool result" where
  "HttpUtils_IsUrlEncoded ext value =
     rbind (StringUtils_UrlDecode ext value) (\<lambda>decoded. Inr (\<not> StringUtils_Equals decoded value))"

section \<open>Paths\<close>

definition HttpUtils_GetBasePath :: "string \<Rightarrow> string" where
  "HttpUtils_GetBasePath uri =
     (let basePath = StringUtils_SubStringUntil uri ''?'' in
      case basePath of [] \<Rightarrow> [] | c # cs \<Rightarrow> (if c = CHR ''/'' then cs else basePath))"

definition HttpUtils_GetPathParameters :: "string \<Rightarrow> string list" where
  "HttpUtils_GetPathParameters uri = StringUtils_Split (HttpUtils_GetBasePath uri) (CHR ''/'')"

definition HttpUtils_GetPathParameter :: "externals \<Rightarrow> string \<Rightarrow> nat \<Rightarrow> string result" where
  "HttpUtils_GetPathParameter ext uri index =
     (let parameters = StringUtils_Split (HttpUtils_GetBasePath uri) (CHR ''/'') in
      if length parameters \<le> index then Inr []
      else rbind (HttpUtils_IsUrlEncoded ext (parameters ! index)) (\<lambda>encoded.
           if encoded then StringUtils_UrlDecode ext (parameters ! index) else Inr (parameters ! index)))"

definition HttpUtils_GetPathParametersFromIndex :: "externals \<Rightarrow> string \<Rightarrow> int \<Rightarrow> string result" where
  "HttpUtils_GetPathParametersFromIndex ext uri index =
     StringUtils_UrlDecode ext
       (StringUtils_Join (StringUtils_Split (HttpUtils_GetBasePath uri) (CHR ''/'')) (CHR ''/'') index)"

text \<open>The comparison \<open>index < pathVector.size()\<close> is unsigned: a negative index is a large one.\<close>

definition HttpUtils_HasPathParameters :: "string \<Rightarrow> int \<Rightarrow> bool" where
  "HttpUtils_HasPathParameters uri index \<longleftrightarrow>
     0 \<le> index \<and> index < int (length (HttpUtils_GetPathParameters uri))"

section \<open>Query parameters\<close>

definition HttpUtils_GetQueryString :: "string \<Rightarrow> string" where
  "HttpUtils_GetQueryString uri =
     (if StringUtils_Contains uri ''?'' then StringUtils_SubStringAfter uri ''?'' else uri)"

definition query_parameters :: "string \<Rightarrow> string list" where
  "query_parameters uri = StringUtils_Split (HttpUtils_GetQueryString uri) (CHR ''&'')"

definition HttpUtils_CountQueryParameters :: "string \<Rightarrow> int" where
  "HttpUtils_CountQueryParameters uri = int (length (query_parameters uri))"

definition HttpUtils_CountQueryParametersByPrefix :: "string \<Rightarrow> string \<Rightarrow> int" where
  "HttpUtils_CountQueryParametersByPrefix uri prefix =
     int (length (filter (\<lambda>it. starts_with it prefix) (query_parameters uri)))"

text \<open>An empty parameter has no first token.\<close>

definition HttpUtils_GetQueryParameterName :: "string \<Rightarrow> string result" where
  "HttpUtils_GetQueryParameterName parameter = vec_at (StringUtils_Split parameter (CHR ''='')) 0"

definition HttpUtils_GetQueryParameterValue :: "externals \<Rightarrow> string \<Rightarrow> string result" where
  "HttpUtils_GetQueryParameterValue ext parameter =
     (let parts = StringUtils_Split parameter (CHR ''='') in
      if 1 < length parts
      then rbind (HttpUtils_IsUrlEncoded ext (parts ! 1)) (\<lambda>encoded.
           if encoded then StringUtils_UrlDecode ext (parts ! 1) else Inr (parts ! 1))
      else Inr [])"

fun query_loop :: "(string \<Rightarrow> 'a result) \<Rightarrow> string \<Rightarrow> 'a \<Rightarrow> string list \<Rightarrow> 'a result" where
  "query_loop found name missing [] = Inr missing"
| "query_loop found name missing (it # its) =
     rbind (HttpUtils_GetQueryParameterName it) (\<lambda>n.
     if n = name then found it else query_loop found name missing its)"

definition HttpUtils_HasQueryParameter :: "string \<Rightarrow> string \<Rightarrow> bool result" where
  "HttpUtils_HasQueryParameter uri name =
     query_loop (\<lambda>it. Inr True) name False (query_parameters uri)"

definition HttpUtils_GetQueryParameterValueByName :: "externals \<Rightarrow> string \<Rightarrow> string \<Rightarrow> string result" where
  "HttpUtils_GetQueryParameterValueByName ext uri name =
     query_loop (HttpUtils_GetQueryParameterValue ext) name [] (query_parameters uri)"

text \<open>Both bounds are exclusive: a value equal to one of them is replaced by the default.\<close>

definition HttpUtils_GetIntParameter ::
  "externals \<Rightarrow> string \<Rightarrow> string \<Rightarrow> int \<Rightarrow> int \<Rightarrow> int \<Rightarrow> int result" where
  "HttpUtils_GetIntParameter ext body name lo hi def =
     rbind (HttpUtils_GetQueryParameterValueByName ext body name) (\<lambda>parameterValue.
     if parameterValue = [] then Inr def
     else rbind (stoi parameterValue) (\<lambda>value. Inr (if value > lo \<and> value < hi then value else def)))"

section \<open>Header fields\<close>

definition field_find :: "string \<Rightarrow> http_request \<Rightarrow> string option" where
  "field_find name request =
     map_option snd (List.find (\<lambda>(n, v). StringUtils_EqualsIgnoreCase n name) (rq_fields request))"

text \<open>\<open>request[name]\<close>: the empty view for a field that is not there.\<close>

definition field_value :: "string \<Rightarrow> http_request \<Rightarrow> string" where
  "field_value name request = (case field_find name request of None \<Rightarrow> [] | Some v \<Rightarrow> v)"

definition HttpUtils_HasHeader :: "http_request \<Rightarrow> string \<Rightarrow> bool" where
  "HttpUtils_HasHeader request name \<longleftrightarrow> field_find name request \<noteq> None"

definition HttpUtils_GetHeaderValue :: "http_request \<Rightarrow> string \<Rightarrow> string \<Rightarrow> string" where
  "HttpUtils_GetHeaderValue request name defaultValue =
     (if field_find name request = None \<and> defaultValue \<noteq> [] then defaultValue
      else field_value name request)"

definition HttpUtils_GetHeaders :: "http_request \<Rightarrow> (string, string) smap" where
  "HttpUtils_GetHeaders request = foldl (\<lambda>m (n, v). smap_put n v m) [] (rq_fields request)"

definition HttpUtils_GetContentType :: "http_request \<Rightarrow> string" where
  "HttpUtils_GetContentType request =
     (if StringUtils_ContainsIgnoreCase (field_value ''Content-Type'' request) ''json'' then ''json'' else ''xml'')"

definition HttpUtils_GetContentLength :: "http_request \<Rightarrow> int result" where
  "HttpUtils_GetContentLength request =
     (case field_find ''Content-Length'' request of None \<Rightarrow> Inr 0 | Some v \<Rightarrow> stol v)"

section \<open>JSON values\<close>

text \<open>The getters leave the attribute alone when the object has no such key.\<close>

definition JsonUtils_GetJsonValueString ::
  "externals \<Rightarrow> string \<Rightarrow> (string \<times> json) list \<Rightarrow> string \<Rightarrow> string result" where
  "JsonUtils_GetJsonValueString ext name jsonObject attribute =
     (case map_of jsonObject name of None \<Rightarrow> Inr attribute | Some v \<Rightarrow> ext_json_text ext v)"

definition JsonUtils_GetJsonValueInt ::
  "externals \<Rightarrow> string \<Rightarrow> (string \<times> json) list \<Rightarrow> int \<Rightarrow> int result" where
  "JsonUtils_GetJsonValueInt ext name jsonObject attribute =
     (case map_of jsonObject name of None \<Rightarrow> Inr attribute | Some v \<Rightarrow> ext_json_int ext (Some v))"

definition JsonUtils_GetJsonValueLong ::
  "externals \<Rightarrow> string \<Rightarrow> (string \<times> json) list \<Rightarrow> int \<Rightarrow> int result" where
  "JsonUtils_GetJsonValueLong ext name jsonObject attribute =
     (case map_of jsonObject name of None \<Rightarrow> Inr attribute | Some v \<Rightarrow> ext_json_long ext v)"

definition JsonUtils_GetJsonValueBool ::
  "externals \<Rightarrow> string \<Rightarrow> (string \<times> json) list \<Rightarrow> bool \<Rightarrow> bool result" where
  "JsonUtils_GetJsonValueBool ext name jsonObject attribute =
     (case map_of jsonObject name of None \<Rightarrow> Inr attribute | Some v \<Rightarrow> ext_json_bool ext v)"

text \<open>
  How the request objects read a document: the parser and the conversion to an object run outside
  the \<open>try\<close>, the fields inside, where every Poco exception becomes a service exception.
\<close>

definition from_json :: "externals \<Rightarrow> string \<Rightarrow> ((string \<times> json) list \<Rightarrow> 'a result) \<Rightarrow> 'a result" where
  "from_json ext jsonString read =
     rbind (ext_json_parse ext jsonString) (\<lambda>v.
     rbind (ext_json_object ext v) (\<lambda>rootObject.
     case read rootObject of Inl e \<Rightarrow> Inl (rethrow_service e) | Inr x \<Rightarrow> Inr x))"

section \<open>User agents\<close>

datatype UserAgentType = AWS_SDK_JAVA1 | AWS_SDK_JAVA2 | AWS_SDK_CPP | AWS_CLI | AWS_SDK_UNKNOWN

text \<open>The search walks the map of names in the order of the enumerators.\<close>

definition UserAgentTypeNames :: "(UserAgentType \<times> string) list" where
  "UserAgentTypeNames =
     [(AWS_SDK_JAVA1, ''aws-sdk-java/1''), (AWS_SDK_JAVA2, ''aws-sdk-java/2''), (AWS_SDK_CPP, ''aws-sdk-cpp/2''),
      (AWS_CLI, ''aws-cli/2''), (AWS_SDK_UNKNOWN, [])]"

definition UserAgentTypeFromString :: "string \<Rightarrow> UserAgentType" where
  "UserAgentTypeFromString userAgentType =
     (case List.find (\<lambda>(t, n). StringUtils_StartsWith userAgentType n) UserAgentTypeNames of
        None \<Rightarrow> AWS_SDK_UNKNOWN | Some (t, n) \<Rightarrow> t)"

record UserAgent =
  ua_clientApplication :: string
  ua_clientLanguage :: string
  ua_clientOs :: string
  ua_clientExecutableType :: string
  ua_clientPrompt :: bool
  ua_clientModule :: string
  ua_clientCommand :: string
  ua_contentType :: string
  ua_type :: UserAgentType

definition UserAgent_init :: UserAgent where
  "UserAgent_init =
     \<lparr>ua_clientApplication = [], ua_clientLanguage = [], ua_clientOs = [], ua_clientExecutableType = [],
      ua_clientPrompt = False, ua_clientModule = [], ua_clientCommand = [],
      ua_contentType = ''application/xml'', ua_type = AWS_SDK_CPP\<rparr>"

definition cli_agent :: "string list \<Rightarrow> UserAgent \<Rightarrow> UserAgent result" where
  "cli_agent parts ua =
     rbind (vec_at parts 4) (\<lambda>prompt.
     rbind (vec_at parts 11) (\<lambda>part11.
     rbind (vec_at (StringUtils_Split part11 (CHR ''#'')) 1) (\<lambda>tmp1.
     rbind (vec_at (StringUtils_Split tmp1 (CHR ''.'')) 0) (\<lambda>module.
     rbind (vec_at (StringUtils_Split tmp1 (CHR ''.'')) 1) (\<lambda>command.
     Inr (ua\<lparr>ua_clientApplication := parts ! 0, ua_clientLanguage := parts ! 1, ua_clientOs := parts ! 2,
             ua_clientExecutableType := parts ! 3, ua_clientPrompt := prompt = ''ON'',
             ua_clientModule := module, ua_clientCommand := command\<rparr>))))))"

definition UserAgent_FromRequest :: "http_request \<Rightarrow> UserAgent result" where
  "UserAgent_FromRequest request =
     (if \<not> HttpUtils_HasHeader request ''User-Agent''
      then Inr (UserAgent_init\<lparr>ua_type := AWS_SDK_CPP, ua_contentType := ''xml''\<rparr>)
      else let parts = StringUtils_Split (field_value ''User-Agent'' request) (CHR '' '') in
           if length parts < 4 then Inl (ServiceException ''Could not extract user agent DTO'')
           else let ua = UserAgent_init\<lparr>ua_type := UserAgentTypeFromString (parts ! 0)\<rparr> in
                rbind (if ua_type ua = AWS_CLI then cli_agent parts ua else Inr ua) (\<lambda>ua.
                Inr (if HttpUtils_HasHeader request ''Content-Type''
                     then ua\<lparr>ua_contentType :=
                            (if StringUtils_Contains (field_value ''Content-Type'' request) ''json'' then ''json'' else ''xml'')\<rparr>
                     else ua)))"

end
