(* ===== verification/ClientCommand.thy ===== *)
theory ClientCommand
  imports HttpUtils
begin

text \<open>
  \<open>dto/src/common/*ClientCommand.cpp\<close> and the S3 names of \<open>core/src/utils/AwsUtils.cpp\<close>: how
  a request is turned into a command.  The command line tool names its command at the end of the
  \<open>User-Agent\<close>; of the other clients the command is read from the \<open>Action\<close> parameter, the
  \<open>X-Amz-Target\<close> field or, for S3, the method, the path and the query.  Where the code leaves a
  member uninitialised, the value found in that memory is the argument \<open>stale\<close>.
\<close>

section \<open>The common part\<close>

record BaseClientCommand =
  bc_url :: string
  bc_method :: http_verb
  bc_headers :: "(string, string) smap"
  bc_payload :: string
  bc_contentType :: string
  bc_contentLength :: int
  bc_region :: string
  bc_user :: string
  bc_requestId :: string

definition base_command :: "string \<Rightarrow> string \<Rightarrow> string \<Rightarrow> http_request \<Rightarrow> BaseClientCommand result" where
  "base_command rid region user request =
     rbind (HttpUtils_GetContentLength request) (\<lambda>len.
     Inr \<lparr>bc_url = rq_target request, bc_method = rq_method request, bc_headers = [],
          bc_payload = rq_body request, bc_contentType = HttpUtils_GetContentType request,
          bc_contentLength = len, bc_region = region, bc_user = user,
          bc_requestId = HttpUtils_GetHeaderValue request ''RequestId'' rid\<rparr>)"

text \<open>The walk over a map of names that compares them regardless of case.\<close>

definition command_from_string :: "('c \<times> string) list \<Rightarrow> 'c \<Rightarrow> string \<Rightarrow> 'c" where
  "command_from_string names unknown commandType =
     (case List.find (\<lambda>(c, n). StringUtils_EqualsIgnoreCase commandType n) names of
        None \<Rightarrow> unknown | Some (c, n) \<Rightarrow> c)"

text \<open>The second word of the \<open>X-Amz-Target\<close> field.\<close>

definition target_command :: "http_request \<Rightarrow> string result" where
  "target_command request = vec_at (StringUtils_Split (field_value ''X-Amz-Target'' request) (CHR ''.'')) 1"

text \<open>\<open>GetCommandFromHeader\<close> of the SQS and the SNS command, which are the same code.\<close>

definition command_from_header :: "externals \<Rightarrow> string \<Rightarrow> http_request \<Rightarrow> string result" where
  "command_from_header ext payload request =
     (let cType = field_value ''Content-Type'' request in
      rbind (if StringUtils_ContainsIgnoreCase cType ''application/x-www-form-urlencoded''
             then HttpUtils_GetQueryParameterValueByName ext payload ''Action''
             else if StringUtils_ContainsIgnoreCase cType ''application/x-amz-json-1.0''
             then target_command request
             else Inr [])
        (\<lambda>cmd. Inr (StringUtils_ToSnakeCase cmd)))"

section \<open>SQS\<close>

datatype SqsCommandType =
    CREATE_QUEUE | PURGE_QUEUE | GET_QUEUE_ATTRIBUTES | SET_QUEUE_ATTRIBUTES | GET_QUEUE_URL | TAG_QUEUE
  | LIST_QUEUES | DELETE_QUEUE | SEND_MESSAGE | RECEIVE_MESSAGE | CHANGE_MESSAGE_VISIBILITY
  | DELETE_MESSAGE | DELETE_MESSAGE_BATCH | SQS_UNKNOWN

definition SqsCommandTypeNames :: "(SqsCommandType \<times> string) list" where
  "SqsCommandTypeNames =
     [(CREATE_QUEUE, ''create-queue''), (PURGE_QUEUE, ''purge-queue''),
      (GET_QUEUE_ATTRIBUTES, ''get-queue-attributes''), (SET_QUEUE_ATTRIBUTES, ''set-queue-attributes''),
      (GET_QUEUE_URL, ''get-queue-url''), (TAG_QUEUE, ''tag-queue''), (LIST_QUEUES, ''list-queues''),
      (DELETE_QUEUE, ''delete-queue''), (SEND_MESSAGE, ''send-message''), (RECEIVE_MESSAGE, ''receive-message''),
      (CHANGE_MESSAGE_VISIBILITY, ''change-message-visibility''), (DELETE_MESSAGE, ''delete-message''),
      (DELETE_MESSAGE_BATCH, ''delete-message-batch'')]"

record SQSClientCommand = BaseClientCommand +
  sqc_command :: SqsCommandType

definition SQSClientCommand_FromRequest ::
  "externals \<Rightarrow> string \<Rightarrow> http_request \<Rightarrow> string \<Rightarrow> string \<Rightarrow> SQSClientCommand result" where
  "SQSClientCommand_FromRequest ext rid request region user =
     rbind (UserAgent_FromRequest request) (\<lambda>userAgent.
     rbind (base_command rid region user request) (\<lambda>bc.
     rbind (if ua_clientCommand userAgent = [] then command_from_header ext (bc_payload bc) request
            else Inr (ua_clientCommand userAgent)) (\<lambda>cmd.
     Inr (BaseClientCommand.extend (bc\<lparr>bc_headers := HttpUtils_GetHeaders request\<rparr>)
            (SQSClientCommand.fields (command_from_string SqsCommandTypeNames SQS_UNKNOWN cmd))))))"

section \<open>SNS\<close>

datatype SNSCommandType =
    CREATE_TOPIC | LIST_TOPICS | GET_TOPIC_ATTRIBUTES | PUBLISH | SUBSCRIBE | UNSUBSCRIBE
  | LIST_SUBSCRIPTIONS_BY_TOPIC | TAG_RESOURCE | DELETE_TOPIC | SNS_UNKNOWN

definition SNSCommandTypeNames :: "(SNSCommandType \<times> string) list" where
  "SNSCommandTypeNames =
     [(CREATE_TOPIC, ''create-topic''), (LIST_TOPICS, ''list-topics''),
      (GET_TOPIC_ATTRIBUTES, ''get-topic-attributes''), (PUBLISH, ''publish''), (SUBSCRIBE, ''subscribe''),
      (UNSUBSCRIBE, ''unsubscribe''), (LIST_SUBSCRIPTIONS_BY_TOPIC, ''list-subscriptions-by-topic''),
      (TAG_RESOURCE, ''tag-resource''), (DELETE_TOPIC, ''delete-topic'')]"

record SNSClientCommand = BaseClientCommand +
  snc_command :: SNSCommandType

definition SNSClientCommand_FromRequest ::
  "externals \<Rightarrow> string \<Rightarrow> http_request \<Rightarrow> string \<Rightarrow> string \<Rightarrow> SNSClientCommand result" where
  "SNSClientCommand_FromRequest ext rid request region user =
     rbind (UserAgent_FromRequest request) (\<lambda>userAgent.
     rbind (base_command rid region user request) (\<lambda>bc.
     rbind (if ua_clientCommand userAgent = [] then command_from_header ext (bc_payload bc) request
            else Inr (ua_clientCommand userAgent)) (\<lambda>cmd.
     Inr (BaseClientCommand.extend bc
            (SNSClientCommand.fields (command_from_string SNSCommandTypeNames SNS_UNKNOWN cmd))))))"

section \<open>KMS\<close>

datatype KMSCommandType =
  CREATE_KEY | SCHEDULE_KEY_DELETION | DESCRIBE_KEY | LIST_KEYS | ENCRYPT | DECRYPT | KMS_UNKNOWN

definition KMSCommandTypeNames :: "(KMSCommandType \<times> string) list" where
  "KMSCommandTypeNames =
     [(CREATE_KEY, ''create-key''), (SCHEDULE_KEY_DELETION, ''schedule-key-deletion''),
      (DESCRIBE_KEY, ''describe-key''), (LIST_KEYS, ''list-keys''), (ENCRYPT, ''encrypt''), (DECRYPT, ''decrypt'')]"

record KMSClientCommand = BaseClientCommand +
  kmc_command :: KMSCommandType

definition KMSClientCommand_FromRequest ::
  "string \<Rightarrow> http_request \<Rightarrow> string \<Rightarrow> string \<Rightarrow> KMSClientCommand result" where
  "KMSClientCommand_FromRequest rid request region user =
     rbind (UserAgent_FromRequest request) (\<lambda>userAgent.
     rbind (base_command rid region user request) (\<lambda>bc.
     rbind (if ua_clientCommand userAgent = []
            then rbind (target_command request) (\<lambda>cmd. Inr (StringUtils_ToSnakeCase cmd))
            else Inr (ua_clientCommand userAgent)) (\<lambda>cmd.
     Inr (BaseClientCommand.extend bc
            (KMSClientCommand.fields (command_from_string KMSCommandTypeNames KMS_UNKNOWN cmd))))))"

section \<open>Secrets manager\<close>

datatype SecretsManagerCommandType =
    CREATE_SECRET | DELETE_SECRET | DESCRIBE_SECRET | GET_SECRET_VALUE | UPDATE_SECRET | ROTATE_SECRET
  | LIST_SECRETS | SECRETS_UNKNOWN

record SecretsManagerClientCommand = BaseClientCommand +
  smc_command :: SecretsManagerCommandType

definition secrets_action :: "string \<Rightarrow> SecretsManagerCommandType" where
  "secrets_action action =
     (if StringUtils_ContainsIgnoreCase action ''CreateSecret'' then CREATE_SECRET
      else if StringUtils_ContainsIgnoreCase action ''DeleteSecret'' then DELETE_SECRET
      else if StringUtils_ContainsIgnoreCase action ''DescribeSecret'' then DESCRIBE_SECRET
      else if StringUtils_ContainsIgnoreCase action ''GetSecretValue'' then GET_SECRET_VALUE
      else if StringUtils_ContainsIgnoreCase action ''UpdateSecret'' then UPDATE_SECRET
      else if StringUtils_ContainsIgnoreCase action ''RotateSecret'' then ROTATE_SECRET
      else if StringUtils_ContainsIgnoreCase action ''ListSecrets'' then LIST_SECRETS
      else CREATE_SECRET)"

text \<open>
  \<open>this->method = method\<close> assigns the member to itself: the method of the request is not looked
  at, and the member was never initialised.  \<open>stale\<close> is what that memory holds.  The member
  \<open>command{}\<close> starts as the first enumerator.
\<close>

definition SecretsManagerClientCommand_FromRequest ::
  "http_verb \<Rightarrow> string \<Rightarrow> http_request \<Rightarrow> string \<Rightarrow> string \<Rightarrow> SecretsManagerClientCommand result" where
  "SecretsManagerClientCommand_FromRequest stale rid request region user =
     rbind (UserAgent_FromRequest request) (\<lambda>userAgent.
     rbind (base_command rid region user request) (\<lambda>bc.
     let action = HttpUtils_GetHeaderValue request ''X-Amz-Target'' [] in
     Inr (BaseClientCommand.extend (bc\<lparr>bc_method := stale\<rparr>)
            (SecretsManagerClientCommand.fields
              (if stale = HttpPost then secrets_action action else CREATE_SECRET)))))"

section \<open>S3\<close>

definition AwsUtils_IsS3HostStyle :: "http_request \<Rightarrow> bool" where
  "AwsUtils_IsS3HostStyle request =
     (case field_find ''Host'' request of None \<Rightarrow> False | Some host \<Rightarrow> StringUtils_Contains host ''.s3.'')"

definition AwsUtils_GetS3HostStyleBucket :: "http_request \<Rightarrow> string" where
  "AwsUtils_GetS3HostStyleBucket request =
     (case field_find ''Host'' request of None \<Rightarrow> [] | Some host \<Rightarrow> StringUtils_SubStringUntil host ''.'')"

definition AwsUtils_GetS3PathStyleBucket :: "externals \<Rightarrow> http_request \<Rightarrow> string result" where
  "AwsUtils_GetS3PathStyleBucket ext request = HttpUtils_GetPathParameter ext (rq_target request) 0"

definition AwsUtils_GetS3HostStyleObjectKey :: "externals \<Rightarrow> http_request \<Rightarrow> string result" where
  "AwsUtils_GetS3HostStyleObjectKey ext request = HttpUtils_GetPathParametersFromIndex ext (rq_target request) 0"

definition AwsUtils_GetS3PathStyleObjectKey :: "externals \<Rightarrow> http_request \<Rightarrow> string result" where
  "AwsUtils_GetS3PathStyleObjectKey ext request = HttpUtils_GetPathParametersFromIndex ext (rq_target request) 1"

definition AwsUtils_GetS3BucketName :: "externals \<Rightarrow> http_request \<Rightarrow> string result" where
  "AwsUtils_GetS3BucketName ext request =
     (if AwsUtils_IsS3HostStyle request then Inr (AwsUtils_GetS3HostStyleBucket request)
      else AwsUtils_GetS3PathStyleBucket ext request)"

definition AwsUtils_GetS3ObjectKey :: "externals \<Rightarrow> http_request \<Rightarrow> string result" where
  "AwsUtils_GetS3ObjectKey ext request =
     (if AwsUtils_IsS3HostStyle request then AwsUtils_GetS3HostStyleObjectKey ext request
      else AwsUtils_GetS3PathStyleObjectKey ext request)"

datatype S3CommandType =
    CREATE_BUCKET | LIST_BUCKETS | DELETE_BUCKET | LIST_OBJECTS | PUT_OBJECT | GET_OBJECT | COPY_OBJECT
  | MOVE_OBJECT | DELETE_OBJECT | DELETE_OBJECTS | CREATE_MULTIPART_UPLOAD | UPLOAD_PART | UPLOAD_PART_COPY
  | COMPLETE_MULTIPART_UPLOAD | ABORT_MULTIPART_UPLOAD | LIST_OBJECT_VERSIONS | BUCKET_NOTIFICATION
  | PUT_BUCKET_NOTIFICATION_CONFIGURATION | PUT_BUCKET_ENCRYPTION | S3_UNKNOWN

record S3ClientCommand = BaseClientCommand +
  s3c_command :: S3CommandType
  s3c_bucket :: string
  s3c_key :: string
  s3c_prefix :: string
  s3c_versionRequest :: bool
  s3c_notificationRequest :: bool
  s3c_multipartRequest :: bool
  s3c_uploads :: bool
  s3c_uploadPartCopy :: bool
  s3c_partNumber :: bool
  s3c_copyRequest :: bool
  s3c_encryptionRequest :: bool
  s3c_uploadId :: string

definition S3ClientCommand_GetCommandFromUserAgent ::
  "http_verb \<Rightarrow> UserAgent \<Rightarrow> S3ClientCommand \<Rightarrow> S3CommandType" where
  "S3ClientCommand_GetCommandFromUserAgent httpMethod userAgent c =
     (let cmd = ua_clientCommand userAgent; api = (ua_clientModule userAgent = ''s3api'') in
      if cmd = ''mb'' then CREATE_BUCKET
      else if cmd = ''ls''
      then (if s3c_bucket c = [] \<and> s3c_key c = [] then LIST_BUCKETS
            else if s3c_bucket c \<noteq> [] then LIST_OBJECTS else s3c_command c)
      else if cmd = ''cp''
      then (if httpMethod = HttpPut then (if s3c_multipartRequest c then UPLOAD_PART else PUT_OBJECT)
            else if httpMethod = HttpGet then GET_OBJECT
            else if httpMethod = HttpPost
            then (if s3c_multipartRequest c \<and> s3c_uploadId c = [] then CREATE_MULTIPART_UPLOAD
                  else COMPLETE_MULTIPART_UPLOAD)
            else s3c_command c)
      else if cmd = ''mv'' then MOVE_OBJECT
      else if cmd = ''rb'' then DELETE_BUCKET
      else if cmd = ''rm'' then DELETE_OBJECT
      else if api \<and> cmd = ''create-multipart-upload'' then CREATE_MULTIPART_UPLOAD
      else if api \<and> cmd = ''upload-part'' then UPLOAD_PART
      else if api \<and> cmd = ''complete-multipart-upload'' then COMPLETE_MULTIPART_UPLOAD
      else if api \<and> cmd = ''put-bucket-notification-configuration'' then PUT_BUCKET_NOTIFICATION_CONFIGURATION
      else if api \<and> cmd = ''put-bucket-encryption'' then PUT_BUCKET_ENCRYPTION
      else if api \<and> cmd = ''list-object-versions'' then LIST_OBJECT_VERSIONS
      else s3c_command c)"

text \<open>The command of a client without a command of its own, with the prefix it sets.\<close>

definition s3_method_command :: "externals \<Rightarrow> http_request \<Rightarrow> S3ClientCommand \<Rightarrow> (S3CommandType \<times> string) result" where
  "s3_method_command ext request c =
     (let bucket = s3c_bucket c \<noteq> []; key = s3c_key c \<noteq> []; same = Inr (s3c_command c, s3c_prefix c);
          is = (\<lambda>t. Inr (t, s3c_prefix c)) in
      case rq_method request of
        HttpGet \<Rightarrow>
          (if \<not> bucket \<and> \<not> key then is LIST_BUCKETS
           else if bucket \<and> \<not> key
           then rbind (HttpUtils_HasQueryParameter (rq_target request) ''versions'') (\<lambda>versions.
                if versions
                then rbind (HttpUtils_GetQueryParameterValueByName ext (rq_target request) ''prefix'') (\<lambda>prefix.
                     Inr (LIST_OBJECT_VERSIONS, prefix))
                else is LIST_OBJECTS)
           else is GET_OBJECT)
      | HttpPut \<Rightarrow>
          (if s3c_multipartRequest c then is (if s3c_uploadPartCopy c then UPLOAD_PART_COPY else UPLOAD_PART)
           else if s3c_encryptionRequest c then is PUT_BUCKET_ENCRYPTION
           else if s3c_notificationRequest c then is BUCKET_NOTIFICATION
           else if bucket \<and> \<not> key then is CREATE_BUCKET
           else if bucket \<and> key then is PUT_OBJECT
           else same)
      | HttpPost \<Rightarrow>
          (if bucket \<and> key
           then (if s3c_uploads c then is CREATE_MULTIPART_UPLOAD
                 else if s3c_multipartRequest c then is COMPLETE_MULTIPART_UPLOAD else same)
           else if bucket then is DELETE_OBJECTS
           else same)
      | HttpDelete \<Rightarrow>
          (if s3c_multipartRequest c then is ABORT_MULTIPART_UPLOAD
           else if bucket \<and> \<not> key then is DELETE_BUCKET
           else if bucket \<and> key then is DELETE_OBJECT
           else same)
      | HttpHead \<Rightarrow> same
      | HttpOther \<Rightarrow> same)"

text \<open>The members read from the target and the fields, before the command is chosen.\<close>

definition s3_members ::
  "externals \<Rightarrow> S3CommandType \<Rightarrow> BaseClientCommand \<Rightarrow> http_request \<Rightarrow> S3ClientCommand result" where
  "s3_members ext stale bc request =
     (let target = rq_target request in
      rbind (AwsUtils_GetS3BucketName ext request) (\<lambda>bucket.
      rbind (AwsUtils_GetS3ObjectKey ext request) (\<lambda>key.
      rbind (HttpUtils_HasQueryParameter target ''uploads'') (\<lambda>uploads.
      rbind (HttpUtils_GetQueryParameterValueByName ext target ''uploadId'') (\<lambda>uploadId.
      rbind (HttpUtils_HasQueryParameter target ''partNumber'') (\<lambda>partNumber.
      rbind (HttpUtils_HasQueryParameter target ''notification'') (\<lambda>notification.
      rbind (HttpUtils_HasQueryParameter target ''versioning'') (\<lambda>versioning.
      rbind (HttpUtils_HasQueryParameter target ''encryption'') (\<lambda>encryption.
      Inr (BaseClientCommand.extend bc (S3ClientCommand.fields stale bucket key []
             versioning notification (uploads \<or> uploadId \<noteq> [] \<or> partNumber) uploads
             (HttpUtils_HasHeader request ''x-amz-copy-source'' \<and> HttpUtils_HasHeader request ''x-amz-copy-source-range'')
             partNumber (HttpUtils_HasHeader request ''x-amz-copy-source'') encryption uploadId)))))))))))"

definition S3ClientCommand_FromRequest ::
  "externals \<Rightarrow> S3CommandType \<Rightarrow> string \<Rightarrow> http_request \<Rightarrow> string \<Rightarrow> string \<Rightarrow> S3ClientCommand result" where
  "S3ClientCommand_FromRequest ext stale rid request region user =
     rbind (UserAgent_FromRequest request) (\<lambda>userAgent.
     rbind (base_command rid region user request) (\<lambda>bc.
     rbind (s3_members ext stale (bc\<lparr>bc_payload := []\<rparr>) request) (\<lambda>c.
     if ua_clientCommand userAgent \<noteq> []
     then Inr (c\<lparr>s3c_command := S3ClientCommand_GetCommandFromUserAgent (rq_method request) userAgent c\<rparr>)
     else rbind (s3_method_command ext request c) (\<lambda>(command, prefix).
          Inr (c\<lparr>s3c_command := command, s3c_prefix := prefix\<rparr>)))))"

end
