(* ===== verification/SQSRequests.thy ===== *)
theory SQSRequests
  imports SQSService ClientCommand
begin

text \<open>
  \<open>dto/src/sqs/*Request.cpp\<close>: how the SQS requests are read from a JSON document, and the form
  parameters of \<open>service/src/sqs/SQSHandler.cpp\<close>.  A request object starts with the defaults of
  its members; \<open>rid\<close> is the identifier drawn for a default request id.  Following a null pointer
  of Poco throws a \<open>NullPointerException\<close>, whose message is empty.
\<close>

definition null_pointer :: exn where
  "null_pointer = PocoException []"

definition deref :: "'a option \<Rightarrow> 'a result" where
  "deref p = (case p of None \<Rightarrow> Inl null_pointer | Some x \<Rightarrow> Inr x)"

section \<open>Reading JSON\<close>

definition CreateQueueRequest_FromJson :: "externals \<Rightarrow> string \<Rightarrow> CreateQueueRequest \<Rightarrow> CreateQueueRequest result" where
  "CreateQueueRequest_FromJson ext payload r =
     from_json ext payload (\<lambda>obj.
       rbind (JsonUtils_GetJsonValueString ext ''QueueName'' obj (cqr_queueName r)) (\<lambda>name.
       Inr (r\<lparr>cqr_queueName := name\<rparr>)))"

definition PurgeQueueRequest_FromJson :: "externals \<Rightarrow> string \<Rightarrow> PurgeQueueRequest \<Rightarrow> PurgeQueueRequest result" where
  "PurgeQueueRequest_FromJson ext payload r =
     from_json ext payload (\<lambda>obj.
       rbind (JsonUtils_GetJsonValueString ext ''QueueUrl'' obj (pqr_queueUrl r)) (\<lambda>url.
       Inr (r\<lparr>pqr_queueUrl := url\<rparr>)))"

fun attribute_names_loop :: "externals \<Rightarrow> json list \<Rightarrow> string list \<Rightarrow> string list result" where
  "attribute_names_loop ext [] names = Inr names"
| "attribute_names_loop ext (it # its) names =
     (if it = JNull then attribute_names_loop ext its names
      else rbind (ext_json_string ext it) (\<lambda>s. attribute_names_loop ext its (names @ [s])))"

definition GetQueueAttributesRequest_FromJson ::
  "externals \<Rightarrow> string \<Rightarrow> GetQueueAttributesRequest \<Rightarrow> GetQueueAttributesRequest result" where
  "GetQueueAttributesRequest_FromJson ext payload r =
     from_json ext payload (\<lambda>obj.
       rbind (JsonUtils_GetJsonValueString ext ''QueueUrl'' obj (gar_queueUrl r)) (\<lambda>url.
       rbind (case ext_json_array ext (map_of obj ''AttributeNames'') of
                None \<Rightarrow> Inr (gar_attributeNames r)
              | Some items \<Rightarrow> attribute_names_loop ext items (gar_attributeNames r)) (\<lambda>names.
       Inr (r\<lparr>gar_queueUrl := url, gar_attributeNames := names\<rparr>))))"

text \<open>\<open>for (key : object->getNames()) m[key] = object->get(key).convert<std::string>()\<close>\<close>

fun string_map_loop :: "externals \<Rightarrow> (string \<times> json) list \<Rightarrow> (string, string) smap \<Rightarrow> (string, string) smap result" where
  "string_map_loop ext [] m = Inr m"
| "string_map_loop ext ((key, v) # kvs) m =
     rbind (ext_json_text ext v) (\<lambda>s. string_map_loop ext kvs (smap_put key s m))"

definition SetQueueAttributesRequest_FromJson ::
  "externals \<Rightarrow> string \<Rightarrow> SetQueueAttributesRequest \<Rightarrow> SetQueueAttributesRequest result" where
  "SetQueueAttributesRequest_FromJson ext payload r =
     from_json ext payload (\<lambda>obj.
       rbind (JsonUtils_GetJsonValueString ext ''QueueUrl'' obj (sar_queueUrl r)) (\<lambda>url.
       rbind (if map_of obj ''Attributes'' \<noteq> None
              then rbind (deref (ext_json_child ext (map_of obj ''Attributes''))) (\<lambda>kvs.
                   string_map_loop ext kvs (sar_attributes r))
              else Inr (sar_attributes r)) (\<lambda>attributes.
       Inr (r\<lparr>sar_queueUrl := url, sar_attributes := attributes\<rparr>))))"

definition GetQueueUrlRequest_FromJson :: "externals \<Rightarrow> string \<Rightarrow> GetQueueUrlRequest \<Rightarrow> GetQueueUrlRequest result" where
  "GetQueueUrlRequest_FromJson ext payload r =
     from_json ext payload (\<lambda>obj.
       rbind (JsonUtils_GetJsonValueString ext ''QueueName'' obj (gur_queueName r)) (\<lambda>name.
       Inr (r\<lparr>gur_queueName := name\<rparr>)))"

definition TagQueueRequest_FromJson :: "externals \<Rightarrow> string \<Rightarrow> TagQueueRequest \<Rightarrow> TagQueueRequest result" where
  "TagQueueRequest_FromJson ext payload r =
     from_json ext payload (\<lambda>obj.
       rbind (JsonUtils_GetJsonValueString ext ''QueueUrl'' obj (tqr_queueUrl r)) (\<lambda>url.
       rbind (deref (ext_json_child ext (map_of obj ''Tags''))) (\<lambda>kvs.
       rbind (string_map_loop ext kvs (tqr_tags r)) (\<lambda>tags.
       Inr (r\<lparr>tqr_queueUrl := url, tqr_tags := tags\<rparr>)))))"

definition DeleteQueueRequest_FromJson :: "externals \<Rightarrow> string \<Rightarrow> DeleteQueueRequest \<Rightarrow> DeleteQueueRequest result" where
  "DeleteQueueRequest_FromJson ext payload r =
     from_json ext payload (\<lambda>obj.
       rbind (JsonUtils_GetJsonValueString ext ''QueueUrl'' obj (dqr_queueUrl r)) (\<lambda>url.
       Inr (r\<lparr>dqr_queueUrl := url\<rparr>)))"

text \<open>
  The member \<open>type\<close> of an attribute has no initialiser: without a text and a positive number it
  stays what it was, \<open>stale\<close>.
\<close>

definition DtoMessageAttribute_init :: "MessageAttributeDataType \<Rightarrow> DtoMessageAttribute" where
  "DtoMessageAttribute_init stale =
     \<lparr>dma_name = [], dma_stringValue = [], dma_numberValue = -1, dma_type = stale, dma_systemAttribute = True\<rparr>"

definition MessageAttribute_FromJsonObject ::
  "externals \<Rightarrow> (string \<times> json) list \<Rightarrow> DtoMessageAttribute \<Rightarrow> DtoMessageAttribute result" where
  "MessageAttribute_FromJsonObject ext obj a =
     rbind (JsonUtils_GetJsonValueString ext ''Name'' obj (dma_name a)) (\<lambda>name.
     rbind (JsonUtils_GetJsonValueString ext ''StringValue'' obj (dma_stringValue a)) (\<lambda>value.
     rbind (JsonUtils_GetJsonValueLong ext ''NumberValue'' obj (dma_numberValue a)) (\<lambda>number.
     Inr (a\<lparr>dma_name := name, dma_stringValue := value, dma_numberValue := number,
            dma_type := (if 0 < number then TYPE_NUMBER else if value \<noteq> [] then TYPE_STRING else dma_type a)\<rparr>))))"

fun message_attributes_loop ::
  "externals \<Rightarrow> MessageAttributeDataType \<Rightarrow> (string \<times> json) list \<Rightarrow> (string, DtoMessageAttribute) smap \<Rightarrow>
   (string, DtoMessageAttribute) smap result" where
  "message_attributes_loop ext stale [] m = Inr m"
| "message_attributes_loop ext stale ((name, v) # kvs) m =
     rbind (deref (ext_json_child ext (Some v))) (\<lambda>obj.
     rbind (MessageAttribute_FromJsonObject ext obj (DtoMessageAttribute_init stale)) (\<lambda>a.
     message_attributes_loop ext stale kvs (smap_put name a m)))"

text \<open>The value of \<open>Region\<close> is read into the queue URL, before the queue URL is.\<close>

definition SendMessageRequest_FromJson ::
  "config \<Rightarrow> externals \<Rightarrow> MessageAttributeDataType \<Rightarrow> string \<Rightarrow> SendMessageRequest \<Rightarrow> SendMessageRequest result" where
  "SendMessageRequest_FromJson cfg ext stale payload r =
     from_json ext payload (\<lambda>obj.
       rbind (JsonUtils_GetJsonValueString ext ''Region'' obj (smr_queueUrl r)) (\<lambda>url0.
       rbind (JsonUtils_GetJsonValueString ext ''QueueUrl'' obj url0) (\<lambda>url.
       rbind (JsonUtils_GetJsonValueString ext ''MessageBody'' obj (smr_body r)) (\<lambda>body.
       rbind (case (if map_of obj ''MessageAttributes'' = None then None
                   else ext_json_child ext (map_of obj ''MessageAttributes'')) of
                None \<Rightarrow> Inr (smr_messageAttributes r)
              | Some kvs \<Rightarrow> message_attributes_loop ext stale kvs (smr_messageAttributes r)) (\<lambda>user.
       rbind (case (if map_of obj ''MessageSystemAttributes'' = None then None
                   else ext_json_child ext (map_of obj ''MessageSystemAttributes'')) of
                None \<Rightarrow> Inr (smr_attributes r)
              | Some kvs \<Rightarrow> string_map_loop ext kvs (smr_attributes r)) (\<lambda>system.
       Inr (r\<lparr>smr_queueUrl := SanitizeSQSUrl cfg url, smr_body := body, smr_messageAttributes := user,
              smr_attributes := system\<rparr>)))))))"

definition names_array :: "externals \<Rightarrow> string \<Rightarrow> (string \<times> json) list \<Rightarrow> unit result" where
  "names_array ext name obj =
     (if map_of obj name = None then Inr ()
      else rbind (deref (ext_json_array ext (map_of obj name))) (\<lambda>items.
           foldr_result (\<lambda>it _. rbind (ext_json_text ext it) (\<lambda>_. Inr ())) items ()))"

text \<open>
  The visibility timeout and the attribute names are read into members no operation looks at; only
  whether reading them throws is kept.
\<close>

definition ReceiveMessageRequest_FromJson ::
  "config \<Rightarrow> externals \<Rightarrow> string \<Rightarrow> ReceiveMessageRequest \<Rightarrow> ReceiveMessageRequest result" where
  "ReceiveMessageRequest_FromJson cfg ext payload r =
     from_json ext payload (\<lambda>obj.
       rbind (JsonUtils_GetJsonValueString ext ''QueueUrl'' obj (rmr_queueUrl r)) (\<lambda>url.
       rbind (JsonUtils_GetJsonValueInt ext ''MaxNumberOfMessages'' obj (rmr_maxMessages r)) (\<lambda>maxMessages.
       rbind (JsonUtils_GetJsonValueInt ext ''WaitTimeSeconds'' obj (rmr_waitTimeSeconds r)) (\<lambda>wait.
       rbind (JsonUtils_GetJsonValueInt ext ''VisibilityTimeout'' obj 15) (\<lambda>_.
       rbind (names_array ext ''AttributeNames'' obj) (\<lambda>_.
       rbind (names_array ext ''MessageAttributeNames'' obj) (\<lambda>_.
       Inr (r\<lparr>rmr_queueUrl := SanitizeSQSUrl cfg url, rmr_maxMessages := maxMessages,
              rmr_waitTimeSeconds := wait\<rparr>))))))))"

definition ChangeMessageVisibilityRequest_FromJson ::
  "externals \<Rightarrow> string \<Rightarrow> ChangeMessageVisibilityRequest \<Rightarrow> ChangeMessageVisibilityRequest result" where
  "ChangeMessageVisibilityRequest_FromJson ext payload r =
     from_json ext payload (\<lambda>obj.
       rbind (JsonUtils_GetJsonValueString ext ''QueueUrl'' obj (cmv_queueUrl r)) (\<lambda>url.
       rbind (JsonUtils_GetJsonValueString ext ''ReceiptHandle'' obj (cmv_receiptHandle r)) (\<lambda>handle.
       rbind (JsonUtils_GetJsonValueInt ext ''VisibilityTimeout'' obj (cmv_visibilityTimeout r)) (\<lambda>timeout.
       Inr (r\<lparr>cmv_queueUrl := url, cmv_receiptHandle := handle, cmv_visibilityTimeout := timeout\<rparr>)))))"

text \<open>The request id read last goes to a member the service does not look at.\<close>

definition DeleteMessageRequest_FromJson ::
  "externals \<Rightarrow> string \<Rightarrow> DeleteMessageRequest \<Rightarrow> DeleteMessageRequest result" where
  "DeleteMessageRequest_FromJson ext payload r =
     from_json ext payload (\<lambda>obj.
       rbind (JsonUtils_GetJsonValueString ext ''QueueUrl'' obj (dmr_queueUrl r)) (\<lambda>url.
       rbind (JsonUtils_GetJsonValueString ext ''ReceiptHandle'' obj (dmr_receiptHandle r)) (\<lambda>handle.
       rbind (JsonUtils_GetJsonValueString ext ''RequestId'' obj []) (\<lambda>_.
       Inr (r\<lparr>dmr_queueUrl := url, dmr_receiptHandle := handle\<rparr>)))))"

fun batch_entries_loop ::
  "externals \<Rightarrow> json list \<Rightarrow> DeleteMessageBatchEntry list \<Rightarrow> DeleteMessageBatchEntry list result" where
  "batch_entries_loop ext [] es = Inr es"
| "batch_entries_loop ext (it # its) es =
     rbind (deref (ext_json_child ext (Some it))) (\<lambda>obj.
     rbind (JsonUtils_GetJsonValueString ext ''Id'' obj []) (\<lambda>entry_id.
     rbind (JsonUtils_GetJsonValueString ext ''ReceiptHandle'' obj []) (\<lambda>handle.
     batch_entries_loop ext its (es @ [\<lparr>dbe_id = entry_id, dbe_receiptHandle = handle\<rparr>]))))"

definition DeleteMessageBatchRequest_FromJson ::
  "externals \<Rightarrow> string \<Rightarrow> DeleteMessageBatchRequest \<Rightarrow> DeleteMessageBatchRequest result" where
  "DeleteMessageBatchRequest_FromJson ext payload r =
     from_json ext payload (\<lambda>obj.
       rbind (JsonUtils_GetJsonValueString ext ''QueueUrl'' obj (dbr_queueUrl r)) (\<lambda>url.
       rbind (deref (ext_json_array ext (map_of obj ''Entries''))) (\<lambda>items.
       rbind (batch_entries_loop ext items (dbr_deleteMessageBatchEntries r)) (\<lambda>entries.
       Inr (r\<lparr>dbr_queueUrl := url, dbr_deleteMessageBatchEntries := entries\<rparr>)))))"

section \<open>Reading form parameters\<close>

text \<open>\<open>for (int i = 1; i <= count; i++)\<close> over the numbered parameters of a form.\<close>

fun numbered :: "(string \<Rightarrow> 'a \<Rightarrow> 'a result) \<Rightarrow> int list \<Rightarrow> 'a \<Rightarrow> 'a result" where
  "numbered f [] a = Inr a"
| "numbered f (i # is) a = rbind (f (to_string i) a) (numbered f is)"

definition SQSHandler_GetQueueAttributes :: "externals \<Rightarrow> string \<Rightarrow> DtoQueueAttribute list result" where
  "SQSHandler_GetQueueAttributes ext payload =
     numbered (\<lambda>i as.
         rbind (HttpUtils_GetQueryParameterValueByName ext payload (''UserAttribute.'' @ i @ ''.Name'')) (\<lambda>name.
         rbind (HttpUtils_GetQueryParameterValueByName ext payload (''UserAttribute.'' @ i @ ''.Value'')) (\<lambda>value.
         Inr (as @ [\<lparr>dqa_attributeName = name, dqa_attributeValue = value\<rparr>]))))
       [1 .. HttpUtils_CountQueryParametersByPrefix payload ''UserAttribute'' div 2] []"

definition SQSHandler_GetQueueTags :: "externals \<Rightarrow> string \<Rightarrow> (string, string) smap result" where
  "SQSHandler_GetQueueTags ext payload =
     numbered (\<lambda>i tags.
         rbind (HttpUtils_GetQueryParameterValueByName ext payload (''Tag.'' @ i @ ''.Key'')) (\<lambda>key.
         rbind (HttpUtils_GetQueryParameterValueByName ext payload (''Tag.'' @ i @ ''.Value'')) (\<lambda>value.
         Inr (if key \<noteq> [] \<and> value \<noteq> [] then smap_put key value tags else tags))))
       [1 .. HttpUtils_CountQueryParametersByPrefix payload ''Tag'' div 2] []"

definition SQSHandler_GetQueueAttributeNames :: "externals \<Rightarrow> string \<Rightarrow> string list result" where
  "SQSHandler_GetQueueAttributeNames ext payload =
     numbered (\<lambda>i names.
         rbind (HttpUtils_GetQueryParameterValueByName ext payload (''AttributeName.'' @ i)) (\<lambda>name.
         Inr (names @ [name])))
       [1 .. HttpUtils_CountQueryParametersByPrefix payload ''AttributeName''] []"

fun MessageAttributeDataTypeFromString :: "string \<Rightarrow> MessageAttributeDataType" where
  "MessageAttributeDataTypeFromString s =
     (if s = ''String'' then TYPE_STRING else if s = ''Number'' then TYPE_NUMBER
      else if s = ''Binary'' then TYPE_BINARY else TYPE_STRING)"

definition SQSHandler_GetMessageAttributes ::
  "externals \<Rightarrow> string \<Rightarrow> (string, DtoMessageAttribute) smap result" where
  "SQSHandler_GetMessageAttributes ext payload =
     numbered (\<lambda>i attributes.
         rbind (HttpUtils_GetQueryParameterValueByName ext payload (''MessageAttribute.'' @ i @ ''.Name'')) (\<lambda>name.
         rbind (HttpUtils_GetQueryParameterValueByName ext payload (''MessageAttribute.'' @ i @ ''.Value.DataType'')) (\<lambda>t.
         rbind (if t = ''String'' \<or> t = ''Number''
                then HttpUtils_GetQueryParameterValueByName ext payload (''MessageAttribute.'' @ i @ ''.Value.StringValue'')
                else Inr []) (\<lambda>value.
         Inr (smap_put name ((DtoMessageAttribute_init TYPE_STRING)\<lparr>dma_name := name, dma_stringValue := value,
                               dma_type := MessageAttributeDataTypeFromString t\<rparr>) attributes)))))
       [1 .. HttpUtils_CountQueryParametersByPrefix payload ''MessageAttribute'' div 3] []"

definition handler_set_attributes :: "externals \<Rightarrow> string \<Rightarrow> (string, string) smap result" where
  "handler_set_attributes ext payload =
     numbered (\<lambda>i m.
         rbind (HttpUtils_GetQueryParameterValueByName ext payload (''Attribute.'' @ i @ ''.Name'')) (\<lambda>name.
         rbind (HttpUtils_GetQueryParameterValueByName ext payload (''Attribute.'' @ i @ ''.Value'')) (\<lambda>value.
         Inr (smap_put name value m))))
       [1 .. HttpUtils_CountQueryParametersByPrefix payload ''Attribute'' div 2] []"

definition handler_batch_entries :: "externals \<Rightarrow> string \<Rightarrow> DeleteMessageBatchEntry list result" where
  "handler_batch_entries ext payload =
     numbered (\<lambda>i es.
         rbind (HttpUtils_GetQueryParameterValueByName ext payload (''DeleteMessageBatchRequestEntry.'' @ i @ ''.Id'')) (\<lambda>entry_id.
         rbind (HttpUtils_GetQueryParameterValueByName ext payload (''DeleteMessageBatchRequestEntry.'' @ i @ ''.ReceiptHandle'')) (\<lambda>handle.
         Inr (es @ [\<lparr>dbe_id = entry_id, dbe_receiptHandle = handle\<rparr>]))))
       [1 .. HttpUtils_CountQueryParametersByPrefix payload ''DeleteMessageBatchRequestEntry'' div 2] []"

end
