(* ===== verification/SQSHandler.thy ===== *)
theory SQSHandler
  imports SQSRequests
begin

text \<open>
  \<open>service/src/sqs/SQSHandler.cpp\<close> and the responses of \<open>service/src/common/AbstractHandler.cpp\<close>:
  the POST request is turned into a command, the request object is read from the JSON document or
  from the form parameters, the service is called, and its answer or its exception becomes an
  HTTP response.  The bodies are kept as the response object and the format it is printed in.
\<close>

section \<open>Responses\<close>

definition SendOkResponse :: "'b \<Rightarrow> (string, string) smap \<Rightarrow> 'b http_response" where
  "SendOkResponse body headers =
     \<lparr>rs_status = 200,
      rs_headers = fold (\<lambda>(n, v) m. smap_put n v m) headers
                     [(''Content-Type'', ''application/json''), (''Server'', ''awsmock'')],
      rs_body = body\<rparr>"

definition SendNoContentResponse :: "'b \<Rightarrow> (string, string) smap \<Rightarrow> 'b http_response" where
  "SendNoContentResponse none headers =
     \<lparr>rs_status = 204,
      rs_headers = fold (\<lambda>(n, v) m. smap_put n v m) headers
                     [(''Content-Type'', ''application/json''), (''Server'', ''awsmock'')],
      rs_body = none\<rparr>"

definition SendBadRequestError :: "'b \<Rightarrow> (string, string) smap \<Rightarrow> 'b http_response" where
  "SendBadRequestError body headers =
     \<lparr>rs_status = 400,
      rs_headers = fold (\<lambda>(n, v) m. smap_put n v m) headers
                     [(''Content-Type'', ''application/json''), (''Server'', ''awsmock'')],
      rs_body = body\<rparr>"

text \<open>The responses of \<open>HttpUtils\<close>; the version text of Boost in the field \<open>Server\<close> is left out.\<close>

definition html_response :: "int \<Rightarrow> 'b \<Rightarrow> 'b http_response" where
  "html_response status reason =
     \<lparr>rs_status = status, rs_headers = [(''Content-Type'', ''text/html'')], rs_body = reason\<rparr>"

definition HttpUtils_BadRequest :: "'b \<Rightarrow> 'b http_response" where
  "HttpUtils_BadRequest reason = html_response 400 reason"

definition HttpUtils_Unauthorized :: "'b \<Rightarrow> 'b http_response" where
  "HttpUtils_Unauthorized reason = html_response 401 reason"

definition HttpUtils_InternalServerError :: "'b \<Rightarrow> 'b http_response" where
  "HttpUtils_InternalServerError reason = html_response 500 reason"

definition HttpUtils_NotImplemented :: "'b \<Rightarrow> 'b http_response" where
  "HttpUtils_NotImplemented reason = html_response 501 reason"

text \<open>\<open>message()\<close> of the exceptions that derive from \<open>Poco::Exception\<close>.\<close>

fun poco_message :: "exn \<Rightarrow> string option" where
  "poco_message (ServiceException m) = Some m"
| "poco_message (NotFoundException m) = Some m"
| "poco_message (DatabaseException m) = Some m"
| "poco_message (JsonException m) = Some m"
| "poco_message (PocoException m) = Some m"
| "poco_message _ = None"

definition catch_internal ::
  "(string \<Rightarrow> 'b) \<Rightarrow> ('b http_response, 's) outcome \<Rightarrow> ('b http_response, 's) outcome" where
  "catch_internal body r =
     (case r of
        (Inl e, s) \<Rightarrow> (case poco_message e of
                         Some m \<Rightarrow> (Inr (HttpUtils_InternalServerError (body m)), s)
                       | None \<Rightarrow> (Inl e, s))
      | (Inr x, s) \<Rightarrow> (Inr x, s))"

section \<open>The SQS handler\<close>

datatype body_format = AsJson | AsXml

datatype sqs_body =
    SqsText string
  | CreateQueueBody body_format CreateQueueResponse
  | QueueAttributesBody body_format "(string \<times> string) list"
  | SetAttributesBody body_format SetQueueAttributesResponse
  | QueueUrlBody body_format string
  | ListQueuesBody body_format "Queue list"
  | DeleteQueueBody body_format DeleteQueueResponse
  | SendMessageBody body_format SendMessageResponse
  | ReceiveMessageBody body_format ReceiveMessageResponse

text \<open>What one request draws: random identifiers, clocks, the turns of a long poll and stale memory.\<close>

record sqs_draws =
  hd_requestId :: string
  hd_messageId :: string
  hd_now :: int
  hd_clock :: int
  hd_oid :: string
  hd_send :: send_draws
  hd_fuel :: nat
  hd_polls :: "nat \<Rightarrow> poll"
  hd_begin :: int
  hd_stale_type :: MessageAttributeDataType
  hd_stale_timeout :: int

type_synonym sqs_result = "(sqs_body http_response, sqs_db) outcome"

definition format_of :: "SQSClientCommand \<Rightarrow> body_format" where
  "format_of c = (if bc_contentType c = ''json'' then AsJson else AsXml)"

text \<open>A request that is read and passed on; reading changes nothing.\<close>

definition with_request :: "'r result \<Rightarrow> ('r \<Rightarrow> sqs_db \<Rightarrow> sqs_result) \<Rightarrow> sqs_db \<Rightarrow> sqs_result" where
  "with_request r k db = (case r of Inl e \<Rightarrow> (Inl e, db) | Inr request \<Rightarrow> k request db)"

definition sqs_ok :: "('a \<Rightarrow> sqs_body) \<Rightarrow> ('a, sqs_db) outcome \<Rightarrow> sqs_result" where
  "sqs_ok body r = andthen r (\<lambda>x db. (Inr (SendOkResponse (body x) []), db))"

definition form_value :: "externals \<Rightarrow> SQSClientCommand \<Rightarrow> string \<Rightarrow> string result" where
  "form_value ext c name = HttpUtils_GetQueryParameterValueByName ext (bc_payload c) name"

definition handle_create_queue ::
  "config \<Rightarrow> externals \<Rightarrow> sqs_draws \<Rightarrow> SQSClientCommand \<Rightarrow> sqs_db \<Rightarrow> sqs_result" where
  "handle_create_queue cfg ext d c db =
     (if format_of c = AsJson
      then with_request
        (CreateQueueRequest_FromJson ext (bc_payload c)
           \<lparr>cqr_region = [], cqr_queueName = [], cqr_queueUrl = [], cqr_owner = [], cqr_attributes = [],
            cqr_tags = [], cqr_requestId = []\<rparr>)
        (\<lambda>r db. sqs_ok (CreateQueueBody AsJson)
           (SQSService_CreateQueue cfg ext (hd_now d) (hd_oid d)
             (r\<lparr>cqr_queueUrl := CreateSQSQueueUrl cfg (cqr_queueName r), cqr_region := bc_region c,
                cqr_owner := bc_user c\<rparr>) db)) db
      else with_request
        (rbind (form_value ext c ''QueueName'') (\<lambda>name.
         rbind (SQSHandler_GetQueueAttributes ext (bc_payload c)) (\<lambda>attributes.
         rbind (SQSHandler_GetQueueTags ext (bc_payload c)) (\<lambda>tags.
         Inr \<lparr>cqr_region = bc_region c, cqr_queueName = name, cqr_queueUrl = CreateSQSQueueUrl cfg name,
              cqr_owner = bc_user c, cqr_attributes = attributes, cqr_tags = tags,
              cqr_requestId = hd_requestId d\<rparr>))))
        (\<lambda>r db. sqs_ok (CreateQueueBody AsXml) (SQSService_CreateQueue cfg ext (hd_now d) (hd_oid d) r db)) db)"

definition handle_purge_queue :: "externals \<Rightarrow> SQSClientCommand \<Rightarrow> sqs_db \<Rightarrow> sqs_result" where
  "handle_purge_queue ext c db =
     with_request
       (if format_of c = AsJson
        then rbind (PurgeQueueRequest_FromJson ext (bc_payload c) \<lparr>pqr_region = [], pqr_queueUrl = []\<rparr>) (\<lambda>r.
             Inr (r\<lparr>pqr_region := bc_region c\<rparr>))
        else rbind (form_value ext c ''QueueUrl'') (\<lambda>url.
             Inr \<lparr>pqr_region = bc_region c, pqr_queueUrl = url\<rparr>))
       (\<lambda>r db. sqs_ok (\<lambda>_. SqsText []) (SQSService_PurgeQueue r db)) db"

definition handle_get_queue_attributes ::
  "externals \<Rightarrow> sqs_draws \<Rightarrow> SQSClientCommand \<Rightarrow> sqs_db \<Rightarrow> sqs_result" where
  "handle_get_queue_attributes ext d c db =
     with_request
       (if format_of c = AsJson
        then rbind (GetQueueAttributesRequest_FromJson ext (bc_payload c)
                      \<lparr>gar_region = [], gar_queueUrl = [], gar_attributeNames = []\<rparr>) (\<lambda>r.
             Inr (r\<lparr>gar_region := bc_region c\<rparr>))
        else rbind (form_value ext c ''QueueUrl'') (\<lambda>url.
             rbind (SQSHandler_GetQueueAttributeNames ext (bc_payload c)) (\<lambda>names.
             Inr \<lparr>gar_region = bc_region c, gar_queueUrl = url, gar_attributeNames = names\<rparr>)))
       (\<lambda>r db. sqs_ok (QueueAttributesBody (format_of c)) (SQSService_GetQueueAttributes ext (hd_now d) r db)) db"

definition handle_set_queue_attributes ::
  "externals \<Rightarrow> sqs_draws \<Rightarrow> SQSClientCommand \<Rightarrow> sqs_db \<Rightarrow> sqs_result" where
  "handle_set_queue_attributes ext d c db =
     with_request
       (if format_of c = AsJson
        then rbind (SetQueueAttributesRequest_FromJson ext (bc_payload c)
                      \<lparr>sar_region = [], sar_queueUrl = [], sar_attributes = [], sar_requestId = hd_requestId d\<rparr>) (\<lambda>r.
             Inr (r\<lparr>sar_region := bc_region c\<rparr>))
        else rbind (form_value ext c ''QueueUrl'') (\<lambda>url.
             rbind (handler_set_attributes ext (bc_payload c)) (\<lambda>attributes.
             Inr \<lparr>sar_region = bc_region c, sar_queueUrl = url, sar_attributes = attributes,
                  sar_requestId = hd_requestId d\<rparr>)))
       (\<lambda>r db. sqs_ok (SetAttributesBody (format_of c)) (SQSService_SetQueueAttributes ext (hd_now d) r db)) db"

definition handle_get_queue_url ::
  "config \<Rightarrow> externals \<Rightarrow> sqs_draws \<Rightarrow> SQSClientCommand \<Rightarrow> sqs_db \<Rightarrow> sqs_result" where
  "handle_get_queue_url cfg ext d c db =
     with_request
       (if format_of c = AsJson
        then rbind (GetQueueUrlRequest_FromJson ext (bc_payload c) \<lparr>gur_region = [], gur_queueName = []\<rparr>) (\<lambda>r.
             Inr (r\<lparr>gur_region := bc_region c\<rparr>))
        else rbind (form_value ext c ''QueueName'') (\<lambda>name.
             Inr \<lparr>gur_region = bc_region c, gur_queueName = name\<rparr>))
       (\<lambda>r db. sqs_ok (QueueUrlBody (format_of c)) (SQSService_GetQueueUrl cfg (hd_now d) r db)) db"

text \<open>Of a form, the value of the tag is read from the parameter that holds its key.\<close>

definition handle_tag_queue :: "externals \<Rightarrow> sqs_draws \<Rightarrow> SQSClientCommand \<Rightarrow> sqs_db \<Rightarrow> sqs_result" where
  "handle_tag_queue ext d c db =
     with_request
       (if format_of c = AsJson
        then rbind (TagQueueRequest_FromJson ext (bc_payload c) \<lparr>tqr_region = [], tqr_queueUrl = [], tqr_tags = []\<rparr>) (\<lambda>r.
             Inr (r\<lparr>tqr_region := bc_region c\<rparr>))
        else rbind (form_value ext c ''QueueUrl'') (\<lambda>url.
             rbind (form_value ext c ''Tag.Key'') (\<lambda>tagKey.
             rbind (form_value ext c ''Tag.Key'') (\<lambda>tagValue.
             Inr \<lparr>tqr_region = bc_region c, tqr_queueUrl = url, tqr_tags = smap_put tagKey tagValue []\<rparr>))))
       (\<lambda>r db. sqs_ok (\<lambda>_. SqsText []) (SQSService_TagQueue (hd_now d) r db)) db"

definition handle_delete_queue :: "externals \<Rightarrow> sqs_draws \<Rightarrow> SQSClientCommand \<Rightarrow> sqs_db \<Rightarrow> sqs_result" where
  "handle_delete_queue ext d c db =
     (if format_of c = AsJson
      then with_request
        (rbind (DeleteQueueRequest_FromJson ext (bc_payload c) \<lparr>dqr_region = [], dqr_queueUrl = [], dqr_requestId = []\<rparr>) (\<lambda>r.
         Inr (r\<lparr>dqr_region := bc_region c\<rparr>)))
        (\<lambda>r db. sqs_ok (\<lambda>_. SqsText []) (SQSService_DeleteQueue r db)) db
      else with_request
        (rbind (form_value ext c ''QueueUrl'') (\<lambda>url.
         Inr \<lparr>dqr_region = bc_region c, dqr_queueUrl = url, dqr_requestId = hd_requestId d\<rparr>))
        (\<lambda>r db. sqs_ok (DeleteQueueBody AsXml) (SQSService_DeleteQueue r db)) db)"

definition SendMessageRequest_init :: SendMessageRequest where
  "SendMessageRequest_init =
     \<lparr>smr_region = [], smr_queueUrl = [], smr_queueArn = [], smr_queueName = [], smr_body = [], smr_attributes = [],
      smr_messageAttributes = [], smr_messageId = [], smr_senderId = [], smr_md5sum = [], smr_requestId = []\<rparr>"

text \<open>The form branch assigns a new request object; the sender set before is lost.\<close>

definition handle_send_message ::
  "config \<Rightarrow> externals \<Rightarrow> sqs_draws \<Rightarrow> SQSClientCommand \<Rightarrow> sqs_db \<Rightarrow> sqs_result" where
  "handle_send_message cfg ext d c db =
     with_request
       (if format_of c = AsJson
        then SendMessageRequest_FromJson cfg ext (hd_stale_type d) (bc_payload c)
               (SendMessageRequest_init\<lparr>smr_region := bc_region c, smr_messageId := hd_messageId d,
                  smr_senderId := bc_user c\<rparr>)
        else rbind (form_value ext c ''QueueUrl'') (\<lambda>url.
             rbind (form_value ext c ''MessageBody'') (\<lambda>body.
             rbind (SQSHandler_GetMessageAttributes ext (bc_payload c)) (\<lambda>attributes.
             Inr (SendMessageRequest_init\<lparr>smr_region := bc_region c, smr_queueUrl := url, smr_body := body,
                    smr_messageAttributes := attributes, smr_messageId := hd_messageId d\<rparr>)))))
       (\<lambda>r db. sqs_ok (SendMessageBody (format_of c)) (SQSService_SendMessage ext (hd_send d) r db)) db"

definition receive_request ::
  "config \<Rightarrow> externals \<Rightarrow> sqs_draws \<Rightarrow> SQSClientCommand \<Rightarrow> ReceiveMessageRequest result" where
  "receive_request cfg ext d c =
     (if format_of c = AsJson
      then rbind (ReceiveMessageRequest_FromJson cfg ext (bc_payload c)
                    \<lparr>rmr_region = [], rmr_queueUrl = [], rmr_maxMessages = 10, rmr_waitTimeSeconds = 1, rmr_requestId = []\<rparr>) (\<lambda>r.
           Inr (r\<lparr>rmr_region := bc_region c\<rparr>))
      else rbind (form_value ext c ''QueueUrl'') (\<lambda>url.
           rbind (HttpUtils_GetIntParameter ext (bc_payload c) ''MaxNumberOfMessages'' 1 10 3) (\<lambda>maxMessages.
           rbind (HttpUtils_GetIntParameter ext (bc_payload c) ''WaitTimeSeconds'' 1 900 5) (\<lambda>wait.
           rbind (HttpUtils_GetIntParameter ext (bc_payload c) ''VisibilityTimeout'' 1 900 30) (\<lambda>visibility.
           Inr \<lparr>rmr_region = bc_region c, rmr_queueUrl = url, rmr_maxMessages = maxMessages,
                rmr_waitTimeSeconds = wait, rmr_requestId = hd_requestId d\<rparr>)))))"

text \<open>\<open>None\<close>: the long poll is still running when the fuel is spent.\<close>

definition handle_receive_message ::
  "config \<Rightarrow> externals \<Rightarrow> sqs_draws \<Rightarrow> SQSClientCommand \<Rightarrow> sqs_db \<Rightarrow> sqs_result option" where
  "handle_receive_message cfg ext d c db =
     (case receive_request cfg ext d c of
        Inl e \<Rightarrow> Some (Inl e, db)
      | Inr r \<Rightarrow> map_option (sqs_ok (ReceiveMessageBody (format_of c)))
                   (SQSService_ReceiveMessages (hd_fuel d) (hd_polls d) (hd_now d) (hd_begin d) r db))"

definition handle_change_visibility ::
  "externals \<Rightarrow> sqs_draws \<Rightarrow> SQSClientCommand \<Rightarrow> sqs_db \<Rightarrow> sqs_result" where
  "handle_change_visibility ext d c db =
     with_request
       (if format_of c = AsJson
        then rbind (ChangeMessageVisibilityRequest_FromJson ext (bc_payload c)
                      \<lparr>cmv_region = [], cmv_queueUrl = [], cmv_receiptHandle = [],
                       cmv_visibilityTimeout = hd_stale_timeout d, cmv_requestId = hd_requestId d\<rparr>) (\<lambda>r.
             Inr (r\<lparr>cmv_region := bc_region c\<rparr>))
        else rbind (HttpUtils_GetIntParameter ext (bc_payload c) ''VisibilityTimeout'' 30 (12 * 3600) 60) (\<lambda>timeout.
             rbind (form_value ext c ''ReceiptHandle'') (\<lambda>handle.
             rbind (form_value ext c ''QueueUrl'') (\<lambda>url.
             Inr \<lparr>cmv_region = bc_region c, cmv_queueUrl = url, cmv_receiptHandle = handle,
                  cmv_visibilityTimeout = timeout, cmv_requestId = hd_requestId d\<rparr>))))
       (\<lambda>r db. sqs_ok (\<lambda>_. SqsText []) (SQSService_SetVisibilityTimeout (hd_now d) (hd_clock d) r db)) db"

definition handle_delete_message :: "externals \<Rightarrow> SQSClientCommand \<Rightarrow> sqs_db \<Rightarrow> sqs_result" where
  "handle_delete_message ext c db =
     with_request
       (if format_of c = AsJson
        then rbind (DeleteMessageRequest_FromJson ext (bc_payload c)
                      \<lparr>dmr_region = [], dmr_queueUrl = [], dmr_receiptHandle = []\<rparr>) (\<lambda>r.
             Inr (r\<lparr>dmr_region := bc_region c\<rparr>))
        else rbind (form_value ext c ''QueueUrl'') (\<lambda>url.
             rbind (form_value ext c ''ReceiptHandle'') (\<lambda>handle.
             Inr \<lparr>dmr_region = bc_region c, dmr_queueUrl = url, dmr_receiptHandle = handle\<rparr>)))
       (\<lambda>r db. sqs_ok (\<lambda>_. SqsText []) (SQSService_DeleteMessage r db)) db"

definition handle_delete_batch :: "externals \<Rightarrow> SQSClientCommand \<Rightarrow> sqs_db \<Rightarrow> sqs_result" where
  "handle_delete_batch ext c db =
     with_request
       (if format_of c = AsJson
        then rbind (DeleteMessageBatchRequest_FromJson ext (bc_payload c)
                      \<lparr>dbr_region = [], dbr_queueUrl = [], dbr_deleteMessageBatchEntries = []\<rparr>) (\<lambda>r.
             Inr (r\<lparr>dbr_region := bc_region c\<rparr>))
        else rbind (form_value ext c ''QueueUrl'') (\<lambda>url.
             rbind (handler_batch_entries ext (bc_payload c)) (\<lambda>entries.
             Inr \<lparr>dbr_region = [], dbr_queueUrl = url, dbr_deleteMessageBatchEntries = entries\<rparr>)))
       (\<lambda>r db. sqs_ok (\<lambda>_. SqsText []) (SQSService_DeleteMessageBatch r db)) db"

definition unknown_method :: "sqs_db \<Rightarrow> sqs_result" where
  "unknown_method db = (Inr (HttpUtils_BadRequest (SqsText ''Unknown method'')), db)"

definition sqs_dispatch ::
  "config \<Rightarrow> externals \<Rightarrow> sqs_draws \<Rightarrow> SQSClientCommand \<Rightarrow> sqs_db \<Rightarrow> sqs_result option" where
  "sqs_dispatch cfg ext d c db =
     (case sqc_command c of
        CREATE_QUEUE \<Rightarrow> Some (handle_create_queue cfg ext d c db)
      | PURGE_QUEUE \<Rightarrow> Some (handle_purge_queue ext c db)
      | GET_QUEUE_ATTRIBUTES \<Rightarrow> Some (handle_get_queue_attributes ext d c db)
      | SET_QUEUE_ATTRIBUTES \<Rightarrow> Some (handle_set_queue_attributes ext d c db)
      | GET_QUEUE_URL \<Rightarrow> Some (handle_get_queue_url cfg ext d c db)
      | TAG_QUEUE \<Rightarrow> Some (handle_tag_queue ext d c db)
      | LIST_QUEUES \<Rightarrow> Some (Inr (SendOkResponse (ListQueuesBody (format_of c) (SQSService_ListQueues (bc_region c) db)) []), db)
      | DELETE_QUEUE \<Rightarrow> Some (handle_delete_queue ext d c db)
      | SEND_MESSAGE \<Rightarrow> Some (handle_send_message cfg ext d c db)
      | RECEIVE_MESSAGE \<Rightarrow> handle_receive_message cfg ext d c db
      | CHANGE_MESSAGE_VISIBILITY \<Rightarrow> Some (handle_change_visibility ext d c db)
      | DELETE_MESSAGE \<Rightarrow> Some (handle_delete_message ext c db)
      | DELETE_MESSAGE_BATCH \<Rightarrow> Some (handle_delete_batch ext c db)
      | SQS_UNKNOWN \<Rightarrow> Some (unknown_method db))"

text \<open>The command is read before the \<open>try\<close>; the handler catches the exceptions of Poco only.\<close>

definition SQSHandler_HandlePostRequest ::
  "config \<Rightarrow> externals \<Rightarrow> sqs_draws \<Rightarrow> http_request \<Rightarrow> string \<Rightarrow> string \<Rightarrow> sqs_db \<Rightarrow> sqs_result option" where
  "SQSHandler_HandlePostRequest cfg ext d request region user db =
     (case SQSClientCommand_FromRequest ext (hd_requestId d) request region user of
        Inl e \<Rightarrow> Some (Inl e, db)
      | Inr c \<Rightarrow> map_option (catch_internal SqsText) (sqs_dispatch cfg ext d c db))"

end
