(* ===== verification/HttpFacts.thy ===== *)
theory HttpFacts
  imports SQSHandler
begin

text \<open>
  Facts on the parsing of forms and commands: a form written as name=value pairs joined by \<open>&\<close> is
  read back parameter by parameter, and every command is found under its name.
\<close>

section \<open>Forms\<close>

primrec form_body :: "(string \<times> string) list \<Rightarrow> string" where
  "form_body [] = []"
| "form_body (p # ps) = fst p @ ''='' @ snd p @ (if ps = [] then [] else ''&'' @ form_body ps)"

text \<open>A pair of a form as an encoder writes it: none of the separators occurs in its two texts.\<close>

definition form_pair :: "string \<times> string \<Rightarrow> bool" where
  "form_pair p \<longleftrightarrow> fst p \<noteq> [] \<and> snd p \<noteq> [] \<and>
     (\<forall>c \<in> {CHR ''&'', CHR ''='', CHR ''?''}. c \<notin> set (fst p) \<and> c \<notin> set (snd p))"

lemma Split_join:
  assumes "d \<notin> set x" "x \<noteq> []"
  shows "StringUtils_Split (x @ (if r = [] then [] else [d] @ r)) d = x # StringUtils_Split r d"
  using assms Split_append_delim [of d x r] Split_single [of d x]
  by (simp add: StringUtils_Split_def)

lemma Split_form:
  "list_all form_pair ps \<Longrightarrow>
   StringUtils_Split (form_body ps) (CHR ''&'') = map (\<lambda>p. fst p @ ''='' @ snd p) ps"
proof (induction ps)
  case Nil
  then show ?case by (simp add: StringUtils_Split_def)
next
  case (Cons p ps)
  let ?x = "fst p @ ''='' @ snd p"
  have p: "CHR ''&'' \<notin> set ?x" "?x \<noteq> []" using Cons.prems by (auto simp: form_pair_def)
  have eq: "form_body (p # ps) = ?x @ (if form_body ps = [] then [] else [CHR ''&''] @ form_body ps)"
    by (cases ps) auto
  show ?case unfolding eq Split_join [OF p] using Cons by simp
qed

lemma find_sub_char: "find_sub s [c] = None \<longleftrightarrow> c \<notin> set s"
  by (force simp: find_sub_None in_set_conv_decomp)

lemma form_no_question: "list_all form_pair ps \<Longrightarrow> CHR ''?'' \<notin> set (form_body ps)"
  by (induction ps) (auto simp: form_pair_def)

lemma query_parameters_form:
  "list_all form_pair ps \<Longrightarrow> query_parameters (form_body ps) = map (\<lambda>p. fst p @ ''='' @ snd p) ps"
  using form_no_question [of ps] find_sub_char [of "form_body ps" "CHR ''?''"]
  by (simp add: query_parameters_def HttpUtils_GetQueryString_def StringUtils_Contains_def Split_form)

lemma Split_pair:
  "form_pair p \<Longrightarrow> StringUtils_Split (fst p @ ''='' @ snd p) (CHR ''='') = [fst p, snd p]"
  using Split_append_delim [of "CHR ''=''" "fst p" "snd p"] Split_single [of "CHR ''=''" "snd p"]
  by (simp add: form_pair_def)

lemma parameter_name: "form_pair p \<Longrightarrow> HttpUtils_GetQueryParameterName (fst p @ ''='' @ snd p) = Inr (fst p)"
  unfolding HttpUtils_GetQueryParameterName_def Split_pair by simp

lemma decode_or_keep:
  "rbind (HttpUtils_IsUrlEncoded ext v) (\<lambda>b. if b then StringUtils_UrlDecode ext v else Inr v) =
   StringUtils_UrlDecode ext v"
  by (cases "StringUtils_UrlDecode ext v")
     (auto simp: HttpUtils_IsUrlEncoded_def StringUtils_Equals_def split: if_splits)

lemma parameter_value:
  "form_pair p \<Longrightarrow> HttpUtils_GetQueryParameterValue ext (fst p @ ''='' @ snd p) = StringUtils_UrlDecode ext (snd p)"
  unfolding HttpUtils_GetQueryParameterValue_def Split_pair by (simp add: Let_def decode_or_keep cong: if_cong)

lemma form_lookup:
  assumes "list_all form_pair ps"
  shows "HttpUtils_GetQueryParameterValueByName ext (form_body ps) name =
           (case map_of ps name of None \<Rightarrow> Inr [] | Some v \<Rightarrow> StringUtils_UrlDecode ext v)"
proof -
  have "query_loop (HttpUtils_GetQueryParameterValue ext) name [] (map (\<lambda>p. fst p @ ''='' @ snd p) ps) =
          (case map_of ps name of None \<Rightarrow> Inr [] | Some v \<Rightarrow> StringUtils_UrlDecode ext v)"
    using assms
  proof (induction ps)
    case (Cons p ps)
    then have p: "form_pair p" by simp
    show ?case
      using Cons parameter_name [OF p] parameter_value [OF p, of ext] by (cases "fst p = name") simp_all
  qed simp
  then show ?thesis
    by (simp add: HttpUtils_GetQueryParameterValueByName_def query_parameters_form [OF assms])
qed

lemma form_count:
  "list_all form_pair ps \<Longrightarrow>
   HttpUtils_CountQueryParametersByPrefix (form_body ps) prefix =
     int (length (filter (\<lambda>p. starts_with (fst p @ ''='' @ snd p) prefix) ps))"
  by (simp add: HttpUtils_CountQueryParametersByPrefix_def query_parameters_form filter_map comp_def)

text \<open>A number in the interior of the interval is kept, every other one becomes the default.\<close>

lemma form_int:
  assumes "list_all form_pair ps" "map_of ps name = Some v" "ext_url_decode ext v = Inr (to_string n)"
    "int_min \<le> n" "n \<le> int_max"
  shows "HttpUtils_GetIntParameter ext (form_body ps) name lo hi def =
           Inr (if lo < n \<and> n < hi then n else def)"
proof -
  have "CHR ''+'' \<notin> set (to_string n)"
  proof -
    have "c \<noteq> CHR ''+''" if "c \<in> set (show_nat k)" for c k
      using show_nat_digits [OF that] digit_char_not_sign by auto
    then show ?thesis by (auto simp: to_string_def split: if_splits)
  qed
  then have plus: "plus_to_space (to_string n) = to_string n"
    unfolding plus_to_space_def by (intro map_idI) auto
  have ne: "to_string n \<noteq> []" by (simp add: to_string_def)
  show ?thesis
    using assms(2-) stoi_to_string [of n] ne
    by (simp add: HttpUtils_GetIntParameter_def form_lookup [OF assms(1)] StringUtils_UrlDecode_def plus)
qed

section \<open>Command names\<close>

text \<open>Names are found whatever their case, and an API action under its snake-case form.\<close>

lemma sqs_command_of_name:
  "(c, n) \<in> set SqsCommandTypeNames \<Longrightarrow> command_from_string SqsCommandTypeNames SQS_UNKNOWN n = c"
proof -
  have "list_all (\<lambda>(c, n). command_from_string SqsCommandTypeNames SQS_UNKNOWN n = c) SqsCommandTypeNames"
    by code_simp
  then show "(c, n) \<in> set SqsCommandTypeNames \<Longrightarrow> ?thesis" by (auto simp: list_all_iff)
qed

lemma sqs_actions:
  "list_all (\<lambda>(a, c). command_from_string SqsCommandTypeNames SQS_UNKNOWN (StringUtils_ToSnakeCase a) = c)
     [(''CreateQueue'', CREATE_QUEUE), (''PurgeQueue'', PURGE_QUEUE), (''GetQueueAttributes'', GET_QUEUE_ATTRIBUTES),
      (''SetQueueAttributes'', SET_QUEUE_ATTRIBUTES), (''GetQueueUrl'', GET_QUEUE_URL), (''TagQueue'', TAG_QUEUE),
      (''ListQueues'', LIST_QUEUES), (''DeleteQueue'', DELETE_QUEUE), (''SendMessage'', SEND_MESSAGE),
      (''ReceiveMessage'', RECEIVE_MESSAGE), (''ChangeMessageVisibility'', CHANGE_MESSAGE_VISIBILITY),
      (''DeleteMessage'', DELETE_MESSAGE), (''DeleteMessageBatch'', DELETE_MESSAGE_BATCH)]"
  by code_simp

end
