(* ===== verification/SQSHandlerProperties.thy ===== *)
theory SQSHandlerProperties
  imports HttpFacts SQSProperties2
begin

text \<open>
  Properties of the way of an HTTP request through the SQS handler: what a form request of the query
  protocol becomes, and the type of the response.
\<close>

section \<open>Form requests\<close>

text \<open>A request of the query protocol from a client that names no user agent.\<close>

definition form_post :: "http_request \<Rightarrow> (string \<times> string) list \<Rightarrow> bool" where
  "form_post request ps \<longleftrightarrow>
     rq_body request = form_body ps \<and> list_all form_pair ps \<and>
     field_find ''User-Agent'' request = None \<and> field_find ''Content-Length'' request = None \<and>
     field_value ''Content-Type'' request = ''application/x-www-form-urlencoded''"

definition form_arg :: "externals \<Rightarrow> (string \<times> string) list \<Rightarrow> string \<Rightarrow> string \<Rightarrow> bool" where
  "form_arg ext ps name text \<longleftrightarrow> (\<exists>v. map_of ps name = Some v \<and> ext_url_decode ext v = Inr text)"

lemma form_argD:
  "list_all form_pair ps \<Longrightarrow> form_arg ext ps name text \<Longrightarrow>
   HttpUtils_GetQueryParameterValueByName ext (form_body ps) name = Inr (plus_to_space text)"
  by (auto simp: form_arg_def form_lookup StringUtils_UrlDecode_def)

lemma form_content: "StringUtils_ContainsIgnoreCase ''application/x-www-form-urlencoded'' ''json'' = False"
  "StringUtils_ContainsIgnoreCase ''application/x-www-form-urlencoded'' ''application/x-www-form-urlencoded'' = True"
  by code_simp+

lemma form_command:
  assumes "form_post request ps" "form_arg ext ps ''Action'' action" "CHR ''+'' \<notin> set action"
  shows "\<exists>c. SQSClientCommand_FromRequest ext rid request region user = Inr c \<and> format_of c = AsXml \<and>
           bc_payload c = form_body ps \<and> bc_region c = region \<and> bc_user c = user \<and>
           sqc_command c = command_from_string SqsCommandTypeNames SQS_UNKNOWN (StringUtils_ToSnakeCase action)"
proof -
  have "plus_to_space action = action" using assms(3) unfolding plus_to_space_def by (intro map_idI) auto
  then have "HttpUtils_GetQueryParameterValueByName ext (form_body ps) ''Action'' = Inr action"
    using form_argD [OF _ assms(2)] assms(1) by (simp add: form_post_def)
  then show ?thesis
    using assms(1)
    by (simp add: form_post_def SQSClientCommand_FromRequest_def UserAgent_FromRequest_def HttpUtils_HasHeader_def
        base_command_def HttpUtils_GetContentLength_def command_from_header_def form_content UserAgent_init_def
        HttpUtils_GetContentType_def format_of_def BaseClientCommand.defs SQSClientCommand.defs)
qed

lemma SendMessage_action:
  "command_from_string SqsCommandTypeNames SQS_UNKNOWN (StringUtils_ToSnakeCase ''SendMessage'') = SEND_MESSAGE"
  "command_from_string SqsCommandTypeNames SQS_UNKNOWN (StringUtils_ToSnakeCase ''ReceiveMessage'') = RECEIVE_MESSAGE"
  "command_from_string SqsCommandTypeNames SQS_UNKNOWN (StringUtils_ToSnakeCase ''TagQueue'') = TAG_QUEUE"
  using sqs_actions by simp_all

lemma no_message_attributes:
  assumes "list_all form_pair ps" "list_all (\<lambda>p. \<not> starts_with (fst p @ ''='' @ snd p) ''MessageAttribute'') ps"
  shows "SQSHandler_GetMessageAttributes ext (form_body ps) = Inr []"
  using assms(2) by (simp add: SQSHandler_GetMessageAttributes_def form_count [OF assms(1)] filter_empty_conv list_all_iff)

lemma plus_free: "CHR ''+'' \<notin> set s \<Longrightarrow> plus_to_space s = s"
  unfolding plus_to_space_def by (intro map_idI) auto

text \<open>a message sent with the query protocol is stored with every plus sign of its body replaced by
  a space, although the client encoded it, and with an empty sender, whoever the user is.\<close>

theorem form_message_loses_plus:
  assumes inv: "sqs_inv db" and queue: "sole_queue region url db" and plain: "CHR ''+'' \<notin> set url"
    and post: "form_post request ps" and action: "form_arg ext ps ''Action'' ''SendMessage''"
    and args: "form_arg ext ps ''QueueUrl'' url" "form_arg ext ps ''MessageBody'' body"
    and none: "list_all (\<lambda>p. \<not> starts_with (fst p @ ''='' @ snd p) ''MessageAttribute'') ps"
  shows "\<exists>resp db' m. SQSHandler_HandlePostRequest cfg ext d request region user db = Some (Inr resp, db') \<and>
           rs_status resp = 200 \<and> smap_get (sd_oid (hd_send d)) (sqs_messages db') = Some m \<and>
           m_body m = plus_to_space body \<and> smap_get ''SenderId'' (m_attributes m) = Some []"
proof -
  obtain c where c: "SQSClientCommand_FromRequest ext (hd_requestId d) request region user = Inr c" "format_of c = AsXml"
      "bc_payload c = form_body ps" "bc_region c = region" "sqc_command c = SEND_MESSAGE"
    using form_command [OF post action, of "hd_requestId d" region user] by (auto simp: SendMessage_action)
  have ps: "list_all form_pair ps" using post by (simp add: form_post_def)
  let ?r = "SendMessageRequest_init\<lparr>smr_region := region, smr_queueUrl := url, smr_body := plus_to_space body,
              smr_messageAttributes := [], smr_messageId := hd_messageId d\<rparr>"
  obtain q where get: "\<And>now. SQSDatabase_GetQueueByUrl now region url db = (q, db)"
    using sole_queue_get [OF inv queue] by metis
  have ex: "SQSMemoryDb_QueueUrlExists region url db" using queue by (simp add: sole_queue_def)
  have db': "snd (SQSService_SendMessage ext (hd_send d) ?r db) =
      db\<lparr>sqs_messages := smap_put (sd_oid (hd_send d)) ((new_message ext (hd_send d) q ?r)\<lparr>m_oid := sd_oid (hd_send d)\<rparr>) (sqs_messages db)\<rparr>"
    "\<exists>resp. fst (SQSService_SendMessage ext (hd_send d) ?r db) = Inr resp"
    using SendMessage_eq [OF inv, of ?r "hd_send d" q ext] ex get by auto
  then obtain resp db1 where send: "SQSService_SendMessage ext (hd_send d) ?r db = (Inr resp, db1)" "db1 = snd (SQSService_SendMessage ext (hd_send d) ?r db)"
    by (cases "SQSService_SendMessage ext (hd_send d) ?r db") auto
  have "handle_send_message cfg ext d c db = (Inr (SendOkResponse (SendMessageBody AsXml resp) []), db1)"
    by (simp add: handle_send_message_def c form_value_def form_argD [OF ps args(1)] form_argD [OF ps args(2)]
        no_message_attributes [OF ps none] plus_free [OF plain] with_request_def send(1) sqs_ok_def)
  then have "SQSHandler_HandlePostRequest cfg ext d request region user db = Some (Inr (SendOkResponse (SendMessageBody AsXml resp) []), db1)"
    by (simp add: SQSHandler_HandlePostRequest_def c sqs_dispatch_def catch_internal_def)
  moreover have "smap_get ''SenderId'' (m_attributes (new_message ext (hd_send d) q ?r)) = Some []"
    by (simp add: new_message_def system_attributes_def SendMessageRequest_init_def smap_get_def)
  ultimately show ?thesis
    using db'(1) sqs_invD [OF inv] by (simp add: send(2) SendOkResponse_def SendMessageRequest_init_def)
qed


text \<open>A decoder on the texts of the example: it decodes the percent sequence and keeps the rest.\<close>

definition form_ext :: externals where
  "form_ext = demo_ext\<lparr>ext_url_decode := (\<lambda>s. if s = ''1%2B1'' then Inr ''1+1'' else Inr s)\<rparr>"

definition demo_form :: "string \<Rightarrow> (string \<times> string) list \<Rightarrow> http_request" where
  "demo_form action ps =
     \<lparr>rq_method = HttpPost, rq_target = ''/'',
      rq_fields = [(''content-type'', ''application/x-www-form-urlencoded'')],
      rq_body = form_body ((''Action'', action) # (''QueueUrl'', demo_url) # ps)\<rparr>"

definition demo_sqs_draws :: sqs_draws where
  "demo_sqs_draws =
     \<lparr>hd_requestId = ''r'', hd_messageId = ''i'', hd_now = 0, hd_clock = 0, hd_oid = ''o'', hd_send = demo_draws,
      hd_fuel = 100, hd_polls = demo_polls, hd_begin = 0, hd_stale_type = TYPE_BINARY, hd_stale_timeout = 0\<rparr>"

lemma field_names:
  "StringUtils_EqualsIgnoreCase ''content-type'' ''User-Agent'' = False"
  "StringUtils_EqualsIgnoreCase ''content-type'' ''Content-Length'' = False"
  "StringUtils_EqualsIgnoreCase ''content-type'' ''Content-Type'' = True"
  by code_simp+

lemma demo_form_post:
  "list_all form_pair ((''Action'', action) # (''QueueUrl'', demo_url) # ps) \<Longrightarrow>
   form_post (demo_form action ps) ((''Action'', action) # (''QueueUrl'', demo_url) # ps)"
  by (simp add: form_post_def demo_form_def field_find_def field_value_def field_names)

theorem form_message_loses_plus_witness:
  "\<exists>resp db' m. SQSHandler_HandlePostRequest demo_cfg form_ext demo_sqs_draws
        (demo_form ''SendMessage'' [(''MessageBody'', ''1%2B1'')]) ''eu'' ''none'' demo_queue = Some (Inr resp, db') \<and>
     rs_status resp = 200 \<and> smap_get (sd_oid (hd_send demo_sqs_draws)) (sqs_messages db') = Some m \<and>
     m_body m = plus_to_space ''1+1'' \<and> smap_get ''SenderId'' (m_attributes m) = Some []"
proof (rule form_message_loses_plus [OF demo_inv(1) demo_sole, where
      ps = "(''Action'', ''SendMessage'') # (''QueueUrl'', demo_url) # [(''MessageBody'', ''1%2B1'')]"])
  show "CHR ''+'' \<notin> set demo_url" unfolding demo_url_eq by simp
  show "form_post (demo_form ''SendMessage'' [(''MessageBody'', ''1%2B1'')])
      ((''Action'', ''SendMessage'') # (''QueueUrl'', demo_url) # [(''MessageBody'', ''1%2B1'')])"
    by (rule demo_form_post) (simp add: form_pair_def demo_url_eq)
qed (simp_all add: form_arg_def form_ext_def demo_url_eq starts_with_def)


text \<open>C38: of a receive in the query protocol, the numbers of messages, of seconds to wait and of seconds
  of visibility are taken over only inside the exclusive bounds of the handler: asking for one message
  or for ten, the least and the greatest numbers SQS allows, is asking for three.\<close>

theorem form_receive_bounds:
  assumes ps: "list_all form_pair ps" and c: "bc_payload c = form_body ps" "format_of c = AsXml"
    and url: "form_arg ext ps ''QueueUrl'' url" "CHR ''+'' \<notin> set url"
    and n: "form_arg ext ps ''MaxNumberOfMessages'' (to_string n)" "int_min \<le> n" "n \<le> int_max"
    and w: "form_arg ext ps ''WaitTimeSeconds'' (to_string w)" "int_min \<le> w" "w \<le> int_max"
    and v: "form_arg ext ps ''VisibilityTimeout'' (to_string v)" "int_min \<le> v" "v \<le> int_max"
  shows "receive_request cfg ext d c =
           Inr \<lparr>rmr_region = bc_region c, rmr_queueUrl = url,
                rmr_maxMessages = (if n \<in> {2..9} then n else 3),
                rmr_waitTimeSeconds = (if w \<in> {2..899} then w else 5), rmr_requestId = hd_requestId d\<rparr>"
proof -
  have int: "HttpUtils_GetIntParameter ext (form_body ps) name lo hi def = Inr (if lo < k \<and> k < hi then k else def)"
    if "form_arg ext ps name (to_string k)" "int_min \<le> k" "k \<le> int_max" for name lo hi def k
    using that form_int [OF ps] by (auto simp: form_arg_def)
  show ?thesis
    using form_argD [OF ps url(1)] url(2)
    by (simp add: receive_request_def c form_value_def int [OF n] int [OF w] int [OF v] plus_free)
qed

theorem form_receive_bounds_witness:
  "receive_request demo_cfg form_ext demo_sqs_draws
     (BaseClientCommand.extend
        \<lparr>bc_url = [], bc_method = HttpPost, bc_headers = [],
         bc_payload = form_body [(''QueueUrl'', demo_url), (''MaxNumberOfMessages'', ''10''), (''WaitTimeSeconds'', ''20''),
           (''VisibilityTimeout'', ''30'')],
         bc_contentType = ''xml'', bc_contentLength = 0, bc_region = ''eu'', bc_user = [], bc_requestId = []\<rparr>
        (SQSClientCommand.fields RECEIVE_MESSAGE)) =
   Inr \<lparr>rmr_region = ''eu'', rmr_queueUrl = demo_url, rmr_maxMessages = 3, rmr_waitTimeSeconds = 20, rmr_requestId = ''r''\<rparr>"
  (is "receive_request demo_cfg form_ext demo_sqs_draws ?c = _")
proof -
  let ?ps = "[(''QueueUrl'', demo_url), (''MaxNumberOfMessages'', ''10''), (''WaitTimeSeconds'', ''20''), (''VisibilityTimeout'', ''30'')]"
  have "receive_request demo_cfg form_ext demo_sqs_draws ?c =
      Inr \<lparr>rmr_region = bc_region ?c, rmr_queueUrl = demo_url, rmr_maxMessages = (if (10::int) \<in> {2..9} then 10 else 3),
           rmr_waitTimeSeconds = (if (20::int) \<in> {2..899} then 20 else 5), rmr_requestId = hd_requestId demo_sqs_draws\<rparr>"
    by (rule form_receive_bounds [where ps = ?ps and v = 30])
       (simp_all add: form_pair_def demo_url_eq format_of_def form_arg_def form_ext_def to_string_eval int_min_def int_max_def
          BaseClientCommand.defs SQSClientCommand.defs)
  then show ?thesis by (simp add: demo_sqs_draws_def BaseClientCommand.defs SQSClientCommand.defs)
qed

text \<open>TagQueue in the query protocol gives the queue a tag whose value is its key, whatever value the
  request has.\<close>

lemma form_tag_value_is_key:
  assumes wf: "sqs_inv db" and queue: "sole_queue region url db" and plain: "CHR ''+'' \<notin> set url" "CHR ''+'' \<notin> set key"
    and post: "form_post request ps" and action: "form_arg ext ps ''Action'' ''TagQueue''"
    and args: "form_arg ext ps ''QueueUrl'' url" "form_arg ext ps ''Tag.Key'' key"
  shows "SQSHandler_HandlePostRequest cfg ext d request region user db =
           Some (case SQSService_TagQueue (hd_now d) \<lparr>tqr_region = region, tqr_queueUrl = url, tqr_tags = [(key, key)]\<rparr> db of
              (Inr _, db') \<Rightarrow> (Inr (SendOkResponse (SqsText []) []), db')
            | (Inl e, db') \<Rightarrow> catch_internal SqsText (Inl e, db'))"
proof -
  obtain c where c: "SQSClientCommand_FromRequest ext (hd_requestId d) request region user = Inr c" "format_of c = AsXml"
      "bc_payload c = form_body ps" "bc_region c = region" "sqc_command c = TAG_QUEUE"
    using form_command [OF post action, of "hd_requestId d" region user] by (auto simp: SendMessage_action)
  have ps: "list_all form_pair ps" using post by (simp add: form_post_def)
  show ?thesis
    by (simp add: SQSHandler_HandlePostRequest_def c sqs_dispatch_def handle_tag_queue_def form_value_def
        form_argD [OF ps args(1)] form_argD [OF ps args(2)] plus_free plain with_request_def sqs_ok_def andthen_def
        split: prod.split sum.split) (auto simp: catch_internal_def split: option.splits)
qed


section \<open>The type of a response\<close>

text \<open>
  Which body answers which command in which format.  The commands without an answer of their own,
  and DeleteQueue in JSON, are answered with an empty text.
\<close>

inductive sqs_answers :: "SqsCommandType \<Rightarrow> body_format \<Rightarrow> sqs_body \<Rightarrow> bool" where
  create: "sqs_answers CREATE_QUEUE f (CreateQueueBody f r)"
| purge: "sqs_answers PURGE_QUEUE f (SqsText [])"
| get_attributes: "sqs_answers GET_QUEUE_ATTRIBUTES f (QueueAttributesBody f as)"
| set_attributes: "sqs_answers SET_QUEUE_ATTRIBUTES f (SetAttributesBody f s)"
| get_url: "sqs_answers GET_QUEUE_URL f (QueueUrlBody f u)"
| tag: "sqs_answers TAG_QUEUE f (SqsText [])"
| list: "sqs_answers LIST_QUEUES f (ListQueuesBody f qs)"
| delete_json: "sqs_answers DELETE_QUEUE AsJson (SqsText [])"
| delete_xml: "sqs_answers DELETE_QUEUE AsXml (DeleteQueueBody AsXml dq)"
| send: "sqs_answers SEND_MESSAGE f (SendMessageBody f sm)"
| receive: "sqs_answers RECEIVE_MESSAGE f (ReceiveMessageBody f rm)"
| change_visibility: "sqs_answers CHANGE_MESSAGE_VISIBILITY f (SqsText [])"
| delete_message: "sqs_answers DELETE_MESSAGE f (SqsText [])"
| delete_batch: "sqs_answers DELETE_MESSAGE_BATCH f (SqsText [])"

lemmas sqs_answers_intros = sqs_answers.intros

inductive_simps sqs_answers_simps [simp]:
  "sqs_answers SQS_UNKNOWN f b" "sqs_answers DELETE_QUEUE f b" "sqs_answers LIST_QUEUES f b"

definition answers_ok :: "SQSClientCommand \<Rightarrow> sqs_body http_response \<Rightarrow> bool" where
  "answers_ok c resp \<longleftrightarrow>
     (rs_status resp = 200 \<and> sqs_answers (sqc_command c) (format_of c) (rs_body resp)) \<or>
     (rs_status resp \<in> {400, 500} \<and> (\<exists>m. rs_body resp = SqsText m))"

definition result_ok :: "SQSClientCommand \<Rightarrow> sqs_result \<Rightarrow> bool" where
  "result_ok c r \<longleftrightarrow> (case r of (Inl e, db) \<Rightarrow> True | (Inr resp, db) \<Rightarrow> answers_ok c resp)"

lemma result_ok_sqs_ok:
  "(\<And>x. sqs_answers (sqc_command c) (format_of c) (body x)) \<Longrightarrow> result_ok c (sqs_ok body r)"
  by (cases r rule: andthen_cases) (auto simp: sqs_ok_def result_ok_def answers_ok_def SendOkResponse_def)

lemma result_ok_with_request:
  "(\<And>x db. result_ok c (k x db)) \<Longrightarrow> result_ok c (with_request r k db)"
  by (cases r) (auto simp: with_request_def result_ok_def)

lemma result_ok_catch: "result_ok c r \<Longrightarrow> result_ok c (catch_internal SqsText r)"
  by (cases r rule: andthen_cases)
     (auto simp: catch_internal_def result_ok_def answers_ok_def HttpUtils_InternalServerError_def html_response_def
       split: option.splits)

lemmas handler_defs =
  handle_create_queue_def handle_purge_queue_def handle_get_queue_attributes_def handle_set_queue_attributes_def
  handle_get_queue_url_def handle_tag_queue_def handle_delete_queue_def handle_send_message_def
  handle_receive_message_def handle_change_visibility_def handle_delete_message_def handle_delete_batch_def

lemma unknown_ok: "result_ok c (unknown_method db)"
  by (simp add: result_ok_def unknown_method_def answers_ok_def HttpUtils_BadRequest_def html_response_def)

lemma format_of_not_json: "format_of c \<noteq> AsJson \<longleftrightarrow> format_of c = AsXml"
  by (cases "format_of c") simp_all

lemma dispatch_ok: "sqs_dispatch cfg ext d c db = Some r \<Longrightarrow> result_ok c r"
proof (cases "sqc_command c")
  case LIST_QUEUES
  moreover assume "sqs_dispatch cfg ext d c db = Some r"
  ultimately show ?thesis by (auto simp: sqs_dispatch_def result_ok_def answers_ok_def SendOkResponse_def)
next
  case RECEIVE_MESSAGE
  moreover assume "sqs_dispatch cfg ext d c db = Some r"
  ultimately have "(\<exists>e. r = (Inl e, db)) \<or> (\<exists>x. r = sqs_ok (ReceiveMessageBody (format_of c)) x)"
    by (auto simp: sqs_dispatch_def handle_receive_message_def split: sum.splits)
  then show ?thesis
    using RECEIVE_MESSAGE by (auto intro!: result_ok_sqs_ok sqs_answers_intros simp: result_ok_def [of c "(Inl e, db)" for e])
qed (auto simp: sqs_dispatch_def handler_defs unknown_ok sqs_answers_intros format_of_not_json
       intro!: result_ok_with_request result_ok_sqs_ok)

text \<open>C8: the type of the answers: whatever the request, if the SQS handler answers it, then either with
  status 200 and the body that belongs to the command of the request, in JSON exactly when the content
  type of the request names JSON, or with status 400 or 500 and a text.\<close>

theorem sqs_responses_typed:
  assumes "SQSHandler_HandlePostRequest cfg ext d request region user db = Some (Inr resp, db')"
  shows "\<exists>c. SQSClientCommand_FromRequest ext (hd_requestId d) request region user = Inr c \<and>
    ((rs_status resp = 200 \<and> sqs_answers (sqc_command c) (format_of c) (rs_body resp)) \<or>
     (rs_status resp \<in> {400, 500} \<and> (\<exists>m. rs_body resp = SqsText m))) \<and>
    (format_of c = AsJson \<longleftrightarrow> HttpUtils_GetContentType request = ''json'')"
proof (cases "SQSClientCommand_FromRequest ext (hd_requestId d) request region user")
  case (Inl e)
  then show ?thesis using assms by (simp add: SQSHandler_HandlePostRequest_def)
next
  case (Inr c)
  then obtain r where r: "sqs_dispatch cfg ext d c db = Some r" "catch_internal SqsText r = (Inr resp, db')"
    using assms by (auto simp: SQSHandler_HandlePostRequest_def)
  from dispatch_ok [OF r(1)] have "result_ok c (Inr resp, db')" using r(2) result_ok_catch by metis
  moreover have "bc_contentType c = HttpUtils_GetContentType request"
    using Inr by (auto simp: SQSClientCommand_FromRequest_def base_command_def rbind_Inr_iff
        BaseClientCommand.defs SQSClientCommand.defs)
  ultimately show ?thesis using Inr by (simp add: result_ok_def answers_ok_def format_of_def)
qed


theorem sqs_responses_typed_witness:
  "\<exists>c. SQSClientCommand_FromRequest form_ext (hd_requestId demo_sqs_draws)
           (demo_form ''ListQueues'' []) ''eu'' ''none'' = Inr c \<and>
     (((200::int) = 200 \<and> sqs_answers (sqc_command c) (format_of c) (ListQueuesBody AsXml [demo_queue_row])) \<or>
      ((200::int) \<in> {400, 500} \<and> (\<exists>m. ListQueuesBody AsXml [demo_queue_row] = SqsText m))) \<and>
     (format_of c = AsJson \<longleftrightarrow> HttpUtils_GetContentType (demo_form ''ListQueues'' []) = ''json'')"
proof -
  have post: "form_post (demo_form ''ListQueues'' []) ((''Action'', ''ListQueues'') # (''QueueUrl'', demo_url) # [])"
    by (rule demo_form_post) (simp add: form_pair_def demo_url_eq)
  have "command_from_string SqsCommandTypeNames SQS_UNKNOWN (StringUtils_ToSnakeCase ''ListQueues'') = LIST_QUEUES"
    using sqs_actions by simp
  then obtain c where c: "SQSClientCommand_FromRequest form_ext (hd_requestId demo_sqs_draws)
      (demo_form ''ListQueues'' []) ''eu'' ''none'' = Inr c" "format_of c = AsXml" "bc_region c = ''eu''" "sqc_command c = LIST_QUEUES"
    using form_command [OF post, of form_ext "''ListQueues''" "hd_requestId demo_sqs_draws" "''eu''" "''none''"]
    by (auto simp: form_arg_def form_ext_def)
  have list: "SQSService_ListQueues ''eu'' demo_queue = [demo_queue_row]" unfolding demo_queue_eq by code_simp
  have run: "SQSHandler_HandlePostRequest demo_cfg form_ext demo_sqs_draws (demo_form ''ListQueues'' []) ''eu'' ''none'' demo_queue =
      Some (Inr (SendOkResponse (ListQueuesBody AsXml [demo_queue_row]) []), demo_queue)"
    by (simp add: SQSHandler_HandlePostRequest_def c sqs_dispatch_def catch_internal_def list)
  from sqs_responses_typed [OF run] show ?thesis by (simp add: SendOkResponse_def)
qed

end
