(* ===== verification/SNSMemoryDb.thy ===== *)
theory SNSMemoryDb
  imports EntityStore CoreUtils SQSEntities
begin

text \<open>
  The SNS entities of \<open>db/include/awsmock/entity/sns\<close> and the in-memory store
  \<open>db/src/memorydb/SNSMemoryDb.cpp\<close>, one definition per method.  \<open>SNSDatabase\<close> with persistence
  switched off calls the store directly (its \<open>CountTopics\<close> drops the region).  Dates are
  \<open>Poco::DateTime\<close>, in microseconds.
\<close>

section \<open>Entities\<close>

record Subscription =
  sub_protocol :: string
  sub_endpoint :: string
  sub_subscriptionArn :: string

record TopicAttribute =
  ta_deliveryPolicy :: string
  ta_displayName :: string
  ta_fifoTopic :: bool
  ta_policy :: string
  ta_signatureVersion :: string
  ta_tracingConfig :: string
  ta_kmsMasterKeyId :: string
  ta_archivePolicy :: string
  ta_beginningArchiveTime :: int
  ta_contentBasedDeduplication :: bool

record Topic =
  t_oid :: string
  t_region :: string
  t_topicName :: string
  t_owner :: string
  t_topicUrl :: string
  t_topicArn :: string
  t_subscriptions :: "Subscription list"
  t_topicAttribute :: TopicAttribute
  t_tags :: "(string, string) smap"
  t_created :: int
  t_modified :: int

definition TopicAttribute_init :: "int \<Rightarrow> TopicAttribute" where
  "TopicAttribute_init now =
     \<lparr>ta_deliveryPolicy = [], ta_displayName = [], ta_fifoTopic = False, ta_policy = [], ta_signatureVersion = [],
      ta_tracingConfig = [], ta_kmsMasterKeyId = [], ta_archivePolicy = [],
      ta_beginningArchiveTime = poco_time now, ta_contentBasedDeduplication = False\<rparr>"

definition Topic_init :: "int \<Rightarrow> Topic" where
  "Topic_init now =
     \<lparr>t_oid = [], t_region = [], t_topicName = [], t_owner = [], t_topicUrl = [], t_topicArn = [],
      t_subscriptions = [], t_topicAttribute = TopicAttribute_init now, t_tags = [],
      t_created = poco_time now, t_modified = poco_time now\<rparr>"

definition Topic_HasSubscription :: "Subscription \<Rightarrow> Topic \<Rightarrow> bool" where
  "Topic_HasSubscription subscription topic \<longleftrightarrow>
     List.find (\<lambda>s. sub_protocol s = sub_protocol subscription \<and> sub_endpoint s = sub_endpoint subscription)
       (t_subscriptions topic) \<noteq> None"

datatype SNSMessageStatus = SNS_INITIAL | SEND | RESEND

fun SNSMessageStatusToString :: "SNSMessageStatus \<Rightarrow> string" where
  "SNSMessageStatusToString SNS_INITIAL = ''INITIAL''"
| "SNSMessageStatusToString SEND = ''SEND''"
| "SNSMessageStatusToString RESEND = ''RESEND''"

definition SNSMessageStatusFromString :: "string \<Rightarrow> SNSMessageStatus" where
  "SNSMessageStatusFromString s =
     (if s = ''INITIAL'' then SNS_INITIAL
      else if s = ''SEND'' then SEND
      else if s = ''RESEND'' then RESEND
      else SNS_INITIAL)"

record SNSMessageAttribute =
  sa_attributeName :: string
  sa_attributeValue :: string

record SNSMessage =
  n_oid :: string
  n_region :: string
  n_topicArn :: string
  n_targetArn :: string
  n_message :: string
  n_messageId :: string
  n_status :: SNSMessageStatus
  n_attributes :: "SNSMessageAttribute list"
  n_lastSend :: int
  n_created :: int
  n_modified :: int

definition SNSMessage_init :: "int \<Rightarrow> SNSMessage" where
  "SNSMessage_init now =
     \<lparr>n_oid = [], n_region = [], n_topicArn = [], n_targetArn = [], n_message = [], n_messageId = [],
      n_status = SNS_INITIAL, n_attributes = [], n_lastSend = poco_time now, n_created = poco_time now,
      n_modified = poco_time now\<rparr>"

section \<open>Topics\<close>

record sns_db =
  sns_topics :: "(string, Topic) smap"
  sns_messages :: "(string, SNSMessage) smap"

definition SNSMemoryDb_TopicExists :: "string \<Rightarrow> string \<Rightarrow> sns_db \<Rightarrow> bool" where
  "SNSMemoryDb_TopicExists region name db \<longleftrightarrow>
     smap_find_if (\<lambda>(k, t). t_region t = region \<and> t_topicName t = name) (sns_topics db) \<noteq> None"

text \<open>The overload of \<open>TopicExists\<close> that takes an ARN.\<close>

definition SNSMemoryDb_TopicArnExists :: "string \<Rightarrow> sns_db \<Rightarrow> bool" where
  "SNSMemoryDb_TopicArnExists arn db \<longleftrightarrow> smap_find_if (\<lambda>(k, t). t_topicArn t = arn) (sns_topics db) \<noteq> None"

definition topic_fetch :: "(string \<times> Topic \<Rightarrow> bool) \<Rightarrow> int \<Rightarrow> sns_db \<Rightarrow> Topic \<times> sns_db" where
  "topic_fetch P now db =
     (case smap_fetch P (\<lambda>oid t. t\<lparr>t_oid := oid\<rparr>) (Topic_init now) (sns_topics db) of
        (t, ts) \<Rightarrow> (t, db\<lparr>sns_topics := ts\<rparr>))"

definition SNSMemoryDb_GetTopicById :: "int \<Rightarrow> string \<Rightarrow> sns_db \<Rightarrow> Topic \<times> sns_db" where
  "SNSMemoryDb_GetTopicById now oid = topic_fetch (\<lambda>(k, t). k = oid) now"

definition SNSMemoryDb_GetTopicByArn :: "int \<Rightarrow> string \<Rightarrow> sns_db \<Rightarrow> Topic \<times> sns_db" where
  "SNSMemoryDb_GetTopicByArn now topicArn = topic_fetch (\<lambda>(k, t). t_topicArn t = topicArn) now"

text \<open>\<open>GetTopicByName\<close> compares the ARN of the row with the name.\<close>

definition SNSMemoryDb_GetTopicByName :: "int \<Rightarrow> string \<Rightarrow> string \<Rightarrow> sns_db \<Rightarrow> Topic \<times> sns_db" where
  "SNSMemoryDb_GetTopicByName now region topicName =
     topic_fetch (\<lambda>(k, t). t_region t = region \<and> t_topicArn t = topicName) now"

definition SNSMemoryDb_GetTopicsBySubscriptionArn :: "string \<Rightarrow> sns_db \<Rightarrow> Topic list" where
  "SNSMemoryDb_GetTopicsBySubscriptionArn subscriptionArn db =
     [t. (k, t) \<leftarrow> sns_topics db, t_subscriptions t \<noteq> [],
         List.find (\<lambda>s. sub_subscriptionArn s = subscriptionArn) (t_subscriptions t) \<noteq> None]"

definition SNSMemoryDb_CreateTopic :: "int \<Rightarrow> string \<Rightarrow> Topic \<Rightarrow> sns_db \<Rightarrow> Topic \<times> sns_db" where
  "SNSMemoryDb_CreateTopic now oid topic db =
     SNSMemoryDb_GetTopicById now oid (db\<lparr>sns_topics := smap_put oid topic (sns_topics db)\<rparr>)"

definition SNSMemoryDb_UpdateTopic :: "Topic \<Rightarrow> sns_db \<Rightarrow> (Topic, sns_db) outcome" where
  "SNSMemoryDb_UpdateTopic topic db =
     (case smap_replace (\<lambda>(k, t). t_region t = t_region topic \<and> t_topicName t = t_topicName topic) topic
             (sns_topics db) of
        (r, ts) \<Rightarrow> (r, db\<lparr>sns_topics := ts\<rparr>))"

definition SNSMemoryDb_ListTopics :: "string \<Rightarrow> sns_db \<Rightarrow> Topic list" where
  "SNSMemoryDb_ListTopics region db =
     (if region = [] then smap_values (sns_topics db) else [t. (k, t) \<leftarrow> sns_topics db, t_region t = region])"

definition SNSMemoryDb_CountTopics :: "string \<Rightarrow> sns_db \<Rightarrow> int" where
  "SNSMemoryDb_CountTopics region db =
     (if region = [] then int (length (sns_topics db)) else smap_count_if (\<lambda>(k, t). t_region t = region) (sns_topics db))"

definition SNSMemoryDb_DeleteTopic :: "string \<Rightarrow> string \<Rightarrow> sns_db \<Rightarrow> sns_db" where
  "SNSMemoryDb_DeleteTopic region arn db =
     db\<lparr>sns_topics := smap_erase_if (\<lambda>(k, t). t_region t = region \<and> t_topicArn t = arn) (sns_topics db)\<rparr>"

definition SNSMemoryDb_DeleteAllTopics :: "sns_db \<Rightarrow> sns_db" where
  "SNSMemoryDb_DeleteAllTopics db = db\<lparr>sns_topics := []\<rparr>"

section \<open>Messages\<close>

definition SNSMemoryDb_MessageExists :: "string \<Rightarrow> sns_db \<Rightarrow> bool" where
  "SNSMemoryDb_MessageExists oid db \<longleftrightarrow> smap_find_if (\<lambda>(k, m). k = oid) (sns_messages db) \<noteq> None"

definition SNSMemoryDb_GetMessageById :: "int \<Rightarrow> string \<Rightarrow> sns_db \<Rightarrow> SNSMessage \<times> sns_db" where
  "SNSMemoryDb_GetMessageById now oid db =
     (case smap_fetch (\<lambda>(k, m). k = oid) (\<lambda>oid m. m\<lparr>n_oid := oid\<rparr>) (SNSMessage_init now) (sns_messages db) of
        (m, ms) \<Rightarrow> (m, db\<lparr>sns_messages := ms\<rparr>))"

definition SNSMemoryDb_CreateMessage :: "int \<Rightarrow> string \<Rightarrow> SNSMessage \<Rightarrow> sns_db \<Rightarrow> SNSMessage \<times> sns_db" where
  "SNSMemoryDb_CreateMessage now oid message db =
     SNSMemoryDb_GetMessageById now oid (db\<lparr>sns_messages := smap_put oid message (sns_messages db)\<rparr>)"

text \<open>The four branches of the count, the last of which counts what no filter matched.\<close>

definition SNSMemoryDb_CountMessages :: "string \<Rightarrow> string \<Rightarrow> sns_db \<Rightarrow> int" where
  "SNSMemoryDb_CountMessages region topicArn db =
     fold (\<lambda>(k, m) count.
         if region \<noteq> [] \<and> n_region m = region \<and> topicArn \<noteq> [] \<and> n_topicArn m = topicArn then count + 1
         else if region \<noteq> [] \<and> n_region m = region then count + 1
         else if topicArn \<noteq> [] \<and> n_topicArn m = topicArn then count + 1
         else count + 1) (sns_messages db) 0"

definition SNSMemoryDb_CountMessagesByStatus :: "string \<Rightarrow> string \<Rightarrow> SNSMessageStatus \<Rightarrow> sns_db \<Rightarrow> int" where
  "SNSMemoryDb_CountMessagesByStatus region topicArn status db =
     smap_count_if (\<lambda>(k, m). region \<noteq> [] \<and> n_region m = region \<and> topicArn \<noteq> [] \<and> n_topicArn m = topicArn
                              \<and> n_status m = status) (sns_messages db)"

definition SNSMemoryDb_ListMessages :: "string \<Rightarrow> sns_db \<Rightarrow> SNSMessage list" where
  "SNSMemoryDb_ListMessages region db =
     (if region = [] then smap_values (sns_messages db) else [m. (k, m) \<leftarrow> sns_messages db, n_region m = region])"

definition SNSMemoryDb_UpdateMessage :: "SNSMessage \<Rightarrow> sns_db \<Rightarrow> (SNSMessage, sns_db) outcome" where
  "SNSMemoryDb_UpdateMessage message db =
     (case smap_replace (\<lambda>(k, m). n_oid m = n_oid message) message (sns_messages db) of
        (r, ms) \<Rightarrow> (r, db\<lparr>sns_messages := ms\<rparr>))"

definition SNSMemoryDb_DeleteMessage :: "string \<Rightarrow> sns_db \<Rightarrow> sns_db" where
  "SNSMemoryDb_DeleteMessage messageId db =
     db\<lparr>sns_messages := smap_erase_if (\<lambda>(k, m). n_messageId m = messageId) (sns_messages db)\<rparr>"

definition SNSMemoryDb_DeleteMessages :: "string \<Rightarrow> string \<Rightarrow> string list \<Rightarrow> sns_db \<Rightarrow> sns_db" where
  "SNSMemoryDb_DeleteMessages region topicArn messageIds db =
     db\<lparr>sns_messages := fold (\<lambda>messageId. smap_erase_if
          (\<lambda>(k, m). n_region m = region \<and> n_topicArn m = topicArn \<and> n_messageId m = messageId))
        messageIds (sns_messages db)\<rparr>"

text \<open>
  \<open>DeleteOldMessages\<close> runs \<open>std::erase_if\<close> over the whole map inside a range-for over the same map.
  The first turn erases every old message.  If the node of that turn is one of them, the loop goes
  on from an invalidated iterator; otherwise the later turns find nothing to erase.
\<close>

definition old_message :: "int \<Rightarrow> SNSMessage \<Rightarrow> bool" where
  "old_message reset m \<longleftrightarrow> n_created m < tdiv reset 1000"

definition SNSMemoryDb_DeleteOldMessages :: "int \<Rightarrow> int \<Rightarrow> sns_db \<Rightarrow> (unit, sns_db) outcome" where
  "SNSMemoryDb_DeleteOldMessages now timeout db =
     (let reset = now - seconds timeout;
          db' = db\<lparr>sns_messages := smap_erase_if (\<lambda>(k, m). old_message reset m) (sns_messages db)\<rparr>
      in case sns_messages db of
           [] \<Rightarrow> (Inr (), db)
         | (k, m) # ms \<Rightarrow> (if old_message reset m then Inl UndefinedBehaviour else Inr (), db'))"

definition SNSMemoryDb_DeleteAllMessages :: "sns_db \<Rightarrow> sns_db" where
  "SNSMemoryDb_DeleteAllMessages db = db\<lparr>sns_messages := []\<rparr>"

definition SNSDatabase_CountTopics :: "string \<Rightarrow> sns_db \<Rightarrow> int" where
  "SNSDatabase_CountTopics region db = SNSMemoryDb_CountTopics [] db"

end
