(* ===== verification/SNSService.thy ===== *)
theory SNSService
  imports SNSMemoryDb SQSService
begin

text \<open>
  \<open>service/src/sns/SNSService.cpp\<close> and \<open>service/src/sns/SNSWorker.cpp\<close>: one definition per method.
  \<open>Publish\<close> reaches into SQS: the state of those methods is the pair of both stores
  (\<open>messaging\<close>).  \<open>SNSService\<close> holds an \<open>SQSService\<close> and calls its \<open>SendMessage\<close> directly.
\<close>

record messaging =
  mg_sns :: sns_db
  mg_sqs :: sqs_db

section \<open>Requests and responses\<close>

record CreateTopicRequest =
  ctr_region :: string
  ctr_topicName :: string
  ctr_owner :: string

record CreateTopicResponse =
  cts_region :: string
  cts_name :: string
  cts_owner :: string
  cts_topicArn :: string

record PublishRequest =
  pbr_region :: string
  pbr_topicArn :: string
  pbr_targetArn :: string
  pbr_message :: string

record SubscribeRequest =
  sbr_region :: string
  sbr_topicArn :: string
  sbr_protocol :: string
  sbr_endpoint :: string
  sbr_owner :: string

record DtoSubscription =
  dsub_topicArn :: string
  dsub_protocol :: string
  dsub_subscriptionArn :: string
  dsub_endpoint :: string

record GetTopicAttributesResponse =
  gts_region :: string
  gts_topicName :: string
  gts_topicArn :: string
  gts_owner :: string

record SqsNotificationRequest =
  sqn_type :: string
  sqn_messageId :: string
  sqn_topicArn :: string
  sqn_message :: string
  sqn_timestamp :: int
  sqn_signature :: string
  sqn_signatureVersion :: string
  sqn_signingCertURL :: string
  sqn_unsubscribeURL :: string

definition SqsNotificationRequest_ToJson :: "externals \<Rightarrow> SqsNotificationRequest \<Rightarrow> string" where
  "SqsNotificationRequest_ToJson ext r =
     ext_json_stringify ext (json_object
       [(''Type'', JString (sqn_type r)), (''MessageId'', JString (sqn_messageId r)),
        (''TopicArn'', JString (sqn_topicArn r)), (''Message'', JString (sqn_message r)),
        (''Timestamp'', JInt (sqn_timestamp r)), (''SignatureVersion'', JString (sqn_signatureVersion r)),
        (''Signature'', JString (sqn_signature r)), (''SignatureCertURL'', JString (sqn_signingCertURL r)),
        (''UnsubscribeURL'', JString (sqn_unsubscribeURL r))])"

section \<open>Topics\<close>

definition topic_response :: "Topic \<Rightarrow> CreateTopicResponse" where
  "topic_response topic =
     \<lparr>cts_region = t_region topic, cts_name = t_topicName topic, cts_owner = t_owner topic, cts_topicArn = t_topicArn topic\<rparr>"

definition SNSService_CreateTopic ::
  "config \<Rightarrow> int \<Rightarrow> string \<Rightarrow> CreateTopicRequest \<Rightarrow> sns_db \<Rightarrow> (CreateTopicResponse, sns_db) outcome" where
  "SNSService_CreateTopic cfg now oid request db =
     (if SNSMemoryDb_TopicExists (ctr_region request) (ctr_topicName request) db
      then (case SNSMemoryDb_GetTopicByName now (ctr_region request) (ctr_topicName request) db of
              (topic, db') \<Rightarrow> (Inr (topic_response topic), db'))
      else (case SNSMemoryDb_CreateTopic now oid
                   ((Topic_init now)\<lparr>t_region := ctr_region request, t_topicName := ctr_topicName request,
                      t_owner := ctr_owner request,
                      t_topicArn := AwsUtils_CreateSNSTopicArn (ctr_region request) (cfg_accountId cfg) (ctr_topicName request)\<rparr>) db of
              (topic, db') \<Rightarrow> (Inr (topic_response topic), db')))"

definition SNSService_ListTopics :: "string \<Rightarrow> sns_db \<Rightarrow> Topic list" where
  "SNSService_ListTopics region db = SNSMemoryDb_ListTopics region db"

definition SNSService_DeleteTopic :: "string \<Rightarrow> string \<Rightarrow> sns_db \<Rightarrow> (unit, sns_db) outcome" where
  "SNSService_DeleteTopic region topicArn db =
     catch_poco
       (if \<not> SNSMemoryDb_TopicArnExists topicArn db
        then (Inl (NotFoundException ''Topic does not exist''), db)
        else (Inr (), SNSMemoryDb_DeleteTopic region topicArn db))"

definition no_such_topic :: exn where
  "no_such_topic = ServiceException ''SNS topic does not exists''"

definition SNSService_Subscribe ::
  "config \<Rightarrow> int \<Rightarrow> string \<Rightarrow> SubscribeRequest \<Rightarrow> sns_db \<Rightarrow> (string, sns_db) outcome" where
  "SNSService_Subscribe cfg now uuid request db =
     catch_poco
       (if sbr_topicArn request = [] then (Inl (ServiceException ''Topic ARN missing''), db)
        else if \<not> SNSMemoryDb_TopicArnExists (sbr_topicArn request) db then (Inl no_such_topic, db)
        else (case SNSMemoryDb_GetTopicByArn now (sbr_topicArn request) db of
                (topic, db') \<Rightarrow>
                  let subscriptionArn = AwsUtils_CreateSNSSubscriptionArn (sbr_region request) (cfg_accountId cfg) (t_topicName topic) uuid;
                      subscription = \<lparr>sub_protocol = sbr_protocol request, sub_endpoint = sbr_endpoint request, sub_subscriptionArn = []\<rparr>
                  in if \<not> Topic_HasSubscription subscription topic
                     then andthen (SNSMemoryDb_UpdateTopic
                                     (topic\<lparr>t_subscriptions := t_subscriptions topic
                                              @ [subscription\<lparr>sub_subscriptionArn := subscriptionArn\<rparr>]\<rparr>) db')
                            (\<lambda>_ db''. (Inr subscriptionArn, db''))
                     else (Inr subscriptionArn, db')))"

fun unsubscribe_loop :: "string \<Rightarrow> Topic list \<Rightarrow> sns_db \<Rightarrow> (unit, sns_db) outcome" where
  "unsubscribe_loop subscriptionArn [] db = (Inr (), db)"
| "unsubscribe_loop subscriptionArn (topic # topics) db =
     andthen (SNSMemoryDb_UpdateTopic
                (topic\<lparr>t_subscriptions := filter (\<lambda>s. sub_subscriptionArn s \<noteq> subscriptionArn) (t_subscriptions topic)\<rparr>) db)
       (\<lambda>_ db'. unsubscribe_loop subscriptionArn topics db')"

text \<open>The request is its \<open>subscriptionArn\<close>; so is the response.\<close>

definition SNSService_Unsubscribe :: "string \<Rightarrow> sns_db \<Rightarrow> (string, sns_db) outcome" where
  "SNSService_Unsubscribe subscriptionArn db =
     catch_poco
       (if subscriptionArn = [] then (Inl (ServiceException ''Subscription ARN missing''), db)
        else andthen (unsubscribe_loop subscriptionArn (SNSMemoryDb_GetTopicsBySubscriptionArn subscriptionArn db) db)
               (\<lambda>_ db'. (Inr subscriptionArn, db')))"

definition SNSService_ListSubscriptionsByTopic ::
  "int \<Rightarrow> string \<Rightarrow> sns_db \<Rightarrow> (DtoSubscription list, sns_db) outcome" where
  "SNSService_ListSubscriptionsByTopic now topicArn db =
     catch_poco
       (if \<not> SNSMemoryDb_TopicArnExists topicArn db then (Inl no_such_topic, db)
        else (case SNSMemoryDb_GetTopicByArn now topicArn db of
                (topic, db') \<Rightarrow>
                  (Inr (map (\<lambda>s. \<lparr>dsub_topicArn = topicArn, dsub_protocol = sub_protocol s,
                                   dsub_subscriptionArn = sub_subscriptionArn s, dsub_endpoint = sub_endpoint s\<rparr>)
                          (t_subscriptions topic)), db')))"

definition SNSService_GetTopicAttributes ::
  "int \<Rightarrow> string \<Rightarrow> sns_db \<Rightarrow> (GetTopicAttributesResponse, sns_db) outcome" where
  "SNSService_GetTopicAttributes now topicArn db =
     catch_poco
       (if \<not> SNSMemoryDb_TopicArnExists topicArn db then (Inl no_such_topic, db)
        else (case SNSMemoryDb_GetTopicByArn now topicArn db of
                (topic, db') \<Rightarrow>
                  (Inr \<lparr>gts_region = t_region topic, gts_topicName = [], gts_topicArn = t_topicArn topic,
                        gts_owner = t_owner topic\<rparr>, db')))"

text \<open>\<open>TagResource\<close> replaces the tags.\<close>

definition SNSService_TagResource :: "int \<Rightarrow> string \<Rightarrow> (string, string) smap \<Rightarrow> sns_db \<Rightarrow> (unit, sns_db) outcome" where
  "SNSService_TagResource now resourceArn tags db =
     catch_poco
       (if \<not> SNSMemoryDb_TopicArnExists resourceArn db then (Inl no_such_topic, db)
        else (case SNSMemoryDb_GetTopicByArn now resourceArn db of
                (topic, db') \<Rightarrow>
                  andthen (SNSMemoryDb_UpdateTopic (topic\<lparr>t_tags := tags\<rparr>) db') (\<lambda>_ db''. (Inr (), db''))))"

section \<open>Publishing\<close>

text \<open>What one notification draws: its two message ids, the request id, the clock, and the draws of \<open>SendMessage\<close>.\<close>

record notify_draws =
  nd_init :: int
  nd_notificationId :: string
  nd_messageId :: string
  nd_requestId :: string
  nd_clock :: int           \<comment> \<open>\<open>Poco::Timestamp().epochMicroseconds()\<close>\<close>
  nd_send :: send_draws

definition notification :: "notify_draws \<Rightarrow> PublishRequest \<Rightarrow> SqsNotificationRequest" where
  "notification d request =
     \<lparr>sqn_type = ''Notification'', sqn_messageId = nd_notificationId d, sqn_topicArn = pbr_topicArn request,
      sqn_message = pbr_message request, sqn_timestamp = tdiv (nd_clock d) 1000, sqn_signature = [],
      sqn_signatureVersion = ''1'', sqn_signingCertURL = [], sqn_unsubscribeURL = []\<rparr>"

definition notification_send :: "externals \<Rightarrow> notify_draws \<Rightarrow> Queue \<Rightarrow> PublishRequest \<Rightarrow> SendMessageRequest" where
  "notification_send ext d sqsQueue request =
     \<lparr>smr_region = pbr_region request, smr_queueUrl = q_queueUrl sqsQueue, smr_queueArn = q_queueArn sqsQueue,
      smr_queueName = [], smr_body = SqsNotificationRequest_ToJson ext (notification d request),
      smr_attributes = [], smr_messageAttributes = [], smr_messageId = nd_messageId d, smr_senderId = [],
      smr_md5sum = [], smr_requestId = nd_requestId d\<rparr>"

definition SNSService_SendSQSMessage ::
  "externals \<Rightarrow> notify_draws \<Rightarrow> Subscription \<Rightarrow> PublishRequest \<Rightarrow> sqs_db \<Rightarrow> (unit, sqs_db) outcome" where
  "SNSService_SendSQSMessage ext d subscription request db =
     (case SQSMemoryDb_GetQueueByArn (nd_init d) (sub_endpoint subscription) db of
        (sqsQueue, db') \<Rightarrow>
          andthen (SQSService_SendMessage ext (nd_send d) (notification_send ext d sqsQueue request) db')
            (\<lambda>_ db''. (Inr (), db'')))"

text \<open>The loop over the subscriptions; \<open>draws i\<close> is for the \<open>i\<close>-th subscription of the topic.\<close>

fun check_loop ::
  "externals \<Rightarrow> (nat \<Rightarrow> notify_draws) \<Rightarrow> nat \<Rightarrow> Subscription list \<Rightarrow> PublishRequest \<Rightarrow> sqs_db \<Rightarrow> (unit, sqs_db) outcome" where
  "check_loop ext draws i [] request db = (Inr (), db)"
| "check_loop ext draws i (s # ss) request db =
     (if to_lower (sub_protocol s) = ''sqs''
      then andthen (SNSService_SendSQSMessage ext (draws i) s request db) (\<lambda>_ db'. check_loop ext draws (Suc i) ss request db')
      else check_loop ext draws (Suc i) ss request db)"

definition SNSService_CheckSubscriptions ::
  "externals \<Rightarrow> int \<Rightarrow> (nat \<Rightarrow> notify_draws) \<Rightarrow> PublishRequest \<Rightarrow> messaging \<Rightarrow> (unit, messaging) outcome" where
  "SNSService_CheckSubscriptions ext now draws request st =
     (case SNSMemoryDb_GetTopicByArn now (pbr_topicArn request) (mg_sns st) of
        (topic, sns') \<Rightarrow>
          (case check_loop ext draws 0 (t_subscriptions topic) request (mg_sqs st) of
             (r, sqs') \<Rightarrow> (r, \<lparr>mg_sns = sns', mg_sqs = sqs'\<rparr>)))"

record publish_draws =
  pd_init :: int
  pd_messageId :: string
  pd_oid :: string
  pd_notify :: "nat \<Rightarrow> notify_draws"

definition published :: "publish_draws \<Rightarrow> PublishRequest \<Rightarrow> SNSMessage" where
  "published d request =
     (SNSMessage_init (pd_init d))\<lparr>n_region := pbr_region request, n_topicArn := pbr_topicArn request,
       n_targetArn := pbr_targetArn request, n_message := pbr_message request, n_messageId := pd_messageId d\<rparr>"

definition SNSService_Publish ::
  "externals \<Rightarrow> publish_draws \<Rightarrow> PublishRequest \<Rightarrow> messaging \<Rightarrow> (string, messaging) outcome" where
  "SNSService_Publish ext d request st =
     (if pbr_topicArn request = [] then (Inl (ServiceException ''Either topicARN or targetArn must exist''), st)
      else if \<not> SNSMemoryDb_TopicArnExists (pbr_topicArn request) (mg_sns st) then (Inl no_such_topic, st)
      else catch_poco
        (case SNSMemoryDb_CreateMessage (pd_init d) (pd_oid d) (published d request) (mg_sns st) of
           (message, sns') \<Rightarrow>
             andthen (SNSService_CheckSubscriptions ext (pd_init d) (pd_notify d) request (st\<lparr>mg_sns := sns'\<rparr>))
               (\<lambda>_ st'. (Inr (n_messageId message), st'))))"

section \<open>The worker\<close>

text \<open>\<open>Initialize\<close> multiplies the configured number of days by \<open>60 * 24\<close>.\<close>

definition SNSWorker_Initialize :: "int \<Rightarrow> int" where
  "SNSWorker_Initialize configured = configured * (60 * 24)"

definition SNSWorker_DeleteOldMessages :: "int \<Rightarrow> int \<Rightarrow> sns_db \<Rightarrow> (unit, sns_db) outcome" where
  "SNSWorker_DeleteOldMessages now messageTimeout db = SNSMemoryDb_DeleteOldMessages now messageTimeout db"

end
