(* ===== verification/SNSFacts.thy ===== *)
theory SNSFacts
  imports SNSService MessageSink
begin

text \<open>
  The lemmas of the SNS component: the invariant of its store with the interpretations of
  \<open>entity_table\<close>, well-formed topics, and the interface \<open>message_sink\<close> under which \<open>Publish\<close>
  uses SQS.
\<close>

section \<open>The invariant\<close>

definition sns_inv :: "sns_db \<Rightarrow> bool" where
  "sns_inv db \<longleftrightarrow> rows_tagged t_oid (sns_topics db) \<and> rows_tagged n_oid (sns_messages db)"

lemma sns_invD:
  assumes "sns_inv db"
  shows "rows_tagged t_oid (sns_topics db)" "rows_tagged n_oid (sns_messages db)"
    "smap_inv (sns_topics db)" "smap_inv (sns_messages db)"
  using assms rows_tagged_inv [of t_oid "sns_topics db"] rows_tagged_inv [of n_oid "sns_messages db"]
  by (simp_all add: sns_inv_def)

lemma topic_fetch_inv:
  "sns_inv db \<Longrightarrow> topic_fetch P now db =
     (case smap_find_if P (sns_topics db) of None \<Rightarrow> Topic_init now | Some (k, t) \<Rightarrow> t, db)"
  by (simp add: topic_fetch_def smap_fetch_tagged [where oid_of = t_oid] sns_invD)

lemmas topic_getter_defs = SNSMemoryDb_GetTopicById_def SNSMemoryDb_GetTopicByArn_def SNSMemoryDb_GetTopicByName_def

lemma CreateTopic_eq:
  "sns_inv db \<Longrightarrow> SNSMemoryDb_CreateTopic now oid t db =
     (t\<lparr>t_oid := oid\<rparr>, db\<lparr>sns_topics := smap_put oid (t\<lparr>t_oid := oid\<rparr>) (sns_topics db)\<rparr>)"
  by (simp add: SNSMemoryDb_CreateTopic_def SNSMemoryDb_GetTopicById_def topic_fetch_def
      smap_fetch_def smap_find_if_key sns_invD)

lemma CreateSNSMessage_eq:
  "sns_inv db \<Longrightarrow> SNSMemoryDb_CreateMessage now oid m db =
     (m\<lparr>n_oid := oid\<rparr>, db\<lparr>sns_messages := smap_put oid (m\<lparr>n_oid := oid\<rparr>) (sns_messages db)\<rparr>)"
  by (simp add: SNSMemoryDb_CreateMessage_def SNSMemoryDb_GetMessageById_def
      smap_fetch_def smap_find_if_key sns_invD)

lemma sns_inv_put_topic [inv_intros]:
  "sns_inv db \<Longrightarrow> t_oid t = oid \<Longrightarrow> sns_inv (db\<lparr>sns_topics := smap_put oid t (sns_topics db)\<rparr>)"
  by (simp add: sns_inv_def rows_tagged_put)

lemma sns_inv_put_message [inv_intros]:
  "sns_inv db \<Longrightarrow> n_oid m = oid \<Longrightarrow> sns_inv (db\<lparr>sns_messages := smap_put oid m (sns_messages db)\<rparr>)"
  by (simp add: sns_inv_def rows_tagged_put)

interpretation topic_table: entity_table sns_inv sns_topics t_oid "\<lambda>oid t. t\<lparr>t_oid := oid\<rparr>"
  SNSMemoryDb_CreateTopic SNSMemoryDb_GetTopicById Topic_init SNSMemoryDb_DeleteAllTopics
proof unfold_locales
  fix db now oid and e :: Topic
  assume inv: "sns_inv db"
  show "rows_tagged t_oid (sns_topics db)" using inv by (rule sns_invD)
  show "fst (SNSMemoryDb_CreateTopic now oid e db) = e\<lparr>t_oid := oid\<rparr>"
    "sns_topics (snd (SNSMemoryDb_CreateTopic now oid e db)) = smap_put oid (e\<lparr>t_oid := oid\<rparr>) (sns_topics db)"
    "sns_inv (snd (SNSMemoryDb_CreateTopic now oid e db))"
    using inv by (simp_all add: CreateTopic_eq sns_inv_put_topic)
  show "smap_get oid (sns_topics db) = Some e \<Longrightarrow> SNSMemoryDb_GetTopicById now oid db = (e, db)"
    "smap_get oid (sns_topics db) = None \<Longrightarrow> SNSMemoryDb_GetTopicById now oid db = (Topic_init now, db)"
    using inv by (simp_all add: SNSMemoryDb_GetTopicById_def topic_fetch_inv smap_find_if_key sns_invD)
  show "sns_inv (SNSMemoryDb_DeleteAllTopics db)"
    using inv by (simp add: SNSMemoryDb_DeleteAllTopics_def sns_inv_def)
qed (simp add: SNSMemoryDb_DeleteAllTopics_def)

interpretation sns_message_table: entity_table sns_inv sns_messages n_oid "\<lambda>oid m. m\<lparr>n_oid := oid\<rparr>"
  SNSMemoryDb_CreateMessage SNSMemoryDb_GetMessageById SNSMessage_init SNSMemoryDb_DeleteAllMessages
proof unfold_locales
  fix db now oid and e :: SNSMessage
  assume inv: "sns_inv db"
  show "rows_tagged n_oid (sns_messages db)" using inv by (rule sns_invD)
  show "fst (SNSMemoryDb_CreateMessage now oid e db) = e\<lparr>n_oid := oid\<rparr>"
    "sns_messages (snd (SNSMemoryDb_CreateMessage now oid e db)) = smap_put oid (e\<lparr>n_oid := oid\<rparr>) (sns_messages db)"
    "sns_inv (snd (SNSMemoryDb_CreateMessage now oid e db))"
    using inv by (simp_all add: CreateSNSMessage_eq sns_inv_put_message)
  show "smap_get oid (sns_messages db) = Some e \<Longrightarrow> SNSMemoryDb_GetMessageById now oid db = (e, db)"
    "smap_get oid (sns_messages db) = None \<Longrightarrow> SNSMemoryDb_GetMessageById now oid db = (SNSMessage_init now, db)"
    using inv by (simp_all add: SNSMemoryDb_GetMessageById_def smap_fetch_tagged [where oid_of = n_oid] smap_find_if_key sns_invD)
  show "sns_inv (SNSMemoryDb_DeleteAllMessages db)"
    using inv by (simp add: SNSMemoryDb_DeleteAllMessages_def sns_inv_def)
qed (simp add: SNSMemoryDb_DeleteAllMessages_def)

section \<open>Topics by ARN\<close>

text \<open>\<open>UpdateTopic\<close> looks the row up by region and name; \<open>GetTopicByArn\<close> by ARN.\<close>

definition topics_wf :: "sns_db \<Rightarrow> bool" where
  "topics_wf db \<longleftrightarrow> sns_inv db \<and>
     (\<forall>(k, t) \<in> set (sns_topics db). \<forall>(k', t') \<in> set (sns_topics db).
        (t_region t = t_region t' \<and> t_topicName t = t_topicName t') \<or> t_topicArn t = t_topicArn t' \<longrightarrow> k = k')"

lemma topics_wfD:
  assumes "topics_wf db"
  shows "sns_inv db"
    "\<And>k t k' t'. (k, t) \<in> set (sns_topics db) \<Longrightarrow> (k', t') \<in> set (sns_topics db) \<Longrightarrow> t_topicArn t = t_topicArn t' \<Longrightarrow> k = k'"
    "\<And>k t k' t'. (k, t) \<in> set (sns_topics db) \<Longrightarrow> (k', t') \<in> set (sns_topics db) \<Longrightarrow>
       t_region t = t_region t' \<Longrightarrow> t_topicName t = t_topicName t' \<Longrightarrow> k = k'"
  using assms by (fastforce simp: topics_wf_def)+

lemma topic_row_unique:
  "sns_inv db \<Longrightarrow> (k, t) \<in> set (sns_topics db) \<Longrightarrow> (k, t') \<in> set (sns_topics db) \<Longrightarrow> t = t'"
  using eq_key_imp_eq_value [OF smap_inv_distinct [OF sns_invD(3)]] by metis

lemma TopicArnExists_iff:
  "SNSMemoryDb_TopicArnExists arn db \<longleftrightarrow> (\<exists>k t. (k, t) \<in> set (sns_topics db) \<and> t_topicArn t = arn)"
  unfolding SNSMemoryDb_TopicArnExists_def smap_find_if_not_None by force

lemma GetTopicByArn_row:
  assumes wf: "topics_wf db" and row: "(k, t) \<in> set (sns_topics db)"
  shows "SNSMemoryDb_GetTopicByArn now (t_topicArn t) db = (t, db)"
proof -
  have "smap_find_if (\<lambda>(k, t'). t_topicArn t' = t_topicArn t) (sns_topics db) = Some (k, t)"
  proof (rule smap_find_if_unique)
    fix kt assume kt: "kt \<in> set (sns_topics db)" "case kt of (k, t') \<Rightarrow> t_topicArn t' = t_topicArn t"
    obtain k' t' where p: "kt = (k', t')" by (cases kt)
    then have "k' = k" using topics_wfD(2) [OF wf _ row, of k' t'] kt by simp
    then show "kt = (k, t)" using topic_row_unique [OF topics_wfD(1) [OF wf] row] kt(1) p by blast
  qed (use row in simp_all)
  then show ?thesis by (simp add: SNSMemoryDb_GetTopicByArn_def topic_fetch_inv [OF topics_wfD(1) [OF wf]])
qed

lemma UpdateTopic_eq:
  assumes wf: "topics_wf db" and row: "(k, t) \<in> set (sns_topics db)"
    and same: "t_oid t' = t_oid t" "t_region t' = t_region t" "t_topicName t' = t_topicName t"
  shows "SNSMemoryDb_UpdateTopic t' db = (Inr t', db\<lparr>sns_topics := smap_put k t' (sns_topics db)\<rparr>)"
proof -
  have k: "k = t_oid t'" using rows_taggedD [OF sns_invD(1) [OF topics_wfD(1) [OF wf]] row] same(1) by simp
  have "smap_replace (\<lambda>(k, r). t_region r = t_region t' \<and> t_topicName r = t_topicName t') t' (sns_topics db)
          = (Inr t', smap_put (t_oid t') t' (sns_topics db))"
  proof (rule smap_replace_tagged [where oid_of = t_oid and e' = t])
    fix k' e'' assume "(k', e'') \<in> set (sns_topics db)"
      "case (k', e'') of (k, r) \<Rightarrow> t_region r = t_region t' \<and> t_topicName r = t_topicName t'"
    then show "k' = t_oid t'" using topics_wfD(3) [OF wf _ row] same k by auto
  qed (use row same k in \<open>auto simp: sns_invD topics_wfD [OF wf]\<close>)
  then show ?thesis by (simp add: SNSMemoryDb_UpdateTopic_def k)
qed

lemma topics_wf_replace:
  assumes wf: "topics_wf db" and row: "(k, t) \<in> set (sns_topics db)"
    and same: "t_oid t' = t_oid t" "t_region t' = t_region t" "t_topicName t' = t_topicName t" "t_topicArn t' = t_topicArn t"
  shows "topics_wf (db\<lparr>sns_topics := smap_put k t' (sns_topics db)\<rparr>)"
proof -
  have k: "t_oid t' = k" using rows_taggedD [OF sns_invD(1) [OF topics_wfD(1) [OF wf]] row] same(1) by simp
  have inv: "sns_inv (db\<lparr>sns_topics := smap_put k t' (sns_topics db)\<rparr>)"
    by (rule sns_inv_put_topic [OF topics_wfD(1) [OF wf] k])
  show ?thesis
    using inv topics_wfD(2,3) [OF wf] topics_wfD(2,3) [OF wf _ row] same
    unfolding topics_wf_def by (auto simp: set_smap_put sns_invD topics_wfD(1) [OF wf])
qed

section \<open>Publishing as a run of sends\<close>

text \<open>The notification of one subscription is itself a message sink, over SQS.\<close>

definition sns_accepts :: "Subscription \<times> PublishRequest \<Rightarrow> sqs_db \<Rightarrow> bool" where
  "sns_accepts = (\<lambda>(s, request) db.
     let q = fst (SQSMemoryDb_GetQueueByArn 0 (sub_endpoint s) db)
     in q_queueUrl q = [] \<or> SQSMemoryDb_QueueUrlExists (pbr_region request) (q_queueUrl q) db)"

definition sns_send ::
  "externals \<Rightarrow> notify_draws \<Rightarrow> Subscription \<times> PublishRequest \<Rightarrow> sqs_db \<Rightarrow> (unit, sqs_db) outcome" where
  "sns_send ext d = (\<lambda>(s, request). SNSService_SendSQSMessage ext d s request)"

definition sns_image :: "externals \<Rightarrow> notify_draws \<Rightarrow> Subscription \<times> PublishRequest \<Rightarrow> sqs_db \<Rightarrow> Message" where
  "sns_image ext d = (\<lambda>(s, request) db.
     sqs_image ext (nd_send d)
       (notification_send ext d (fst (SQSMemoryDb_GetQueueByArn (nd_init d) (sub_endpoint s) db)) request) db)"

lemma GetQueueByArn_url:
  "sqs_inv db \<Longrightarrow> q_queueUrl (fst (SQSMemoryDb_GetQueueByArn now arn db)) = q_queueUrl (fst (SQSMemoryDb_GetQueueByArn now' arn db))"
  by (simp add: sqs_getter_defs queue_fetch_inv Queue_init_def split: option.split)

lemma notification_accepts:
  "sqs_inv db \<Longrightarrow>
   sqs_accepts (notification_send ext d (fst (SQSMemoryDb_GetQueueByArn now (sub_endpoint s) db)) request) db
     = sns_accepts (s, request) db"
  using GetQueueByArn_url [of db now "sub_endpoint s" 0]
  by (simp add: sqs_accepts_def sns_accepts_def notification_send_def Let_def)

lemma SendSQSMessage_eq:
  "sqs_inv db \<Longrightarrow> SNSService_SendSQSMessage ext d s request db =
     andthen (SQSService_SendMessage ext (nd_send d)
       (notification_send ext d (fst (SQSMemoryDb_GetQueueByArn (nd_init d) (sub_endpoint s) db)) request) db)
       (\<lambda>_ db'. (Inr (), db'))"
  by (simp add: SNSService_SendSQSMessage_def case_prod_beta)

lemma sns_send_snd:
  assumes "sqs_inv db"
  shows "snd (sns_send ext d sr db) = snd (SQSService_SendMessage ext (nd_send d)
    (notification_send ext d (fst (SQSMemoryDb_GetQueueByArn (nd_init d) (sub_endpoint (fst sr)) db)) (snd sr)) db)"
  by (simp add: sns_send_def case_prod_beta SendSQSMessage_eq [OF assms] andthen_def split: sum.split)

interpretation sns_sink: message_sink sqs_inv sqs_messages "sns_send ext" "sd_oid \<circ> nd_send" "sns_image ext" sns_accepts
  for ext
proof unfold_locales
  fix db d d' and req req' :: "Subscription \<times> PublishRequest"
  assume inv: "sqs_inv db"
  show "smap_inv (sqs_messages db)" using inv by (rule sqs_invD)
  show inv1: "sqs_inv (snd (sns_send ext d req db))" for d req
    unfolding sns_send_snd [OF inv] by (rule sqs_inv_SendMessage [OF inv])
  obtain s request where req: "req = (s, request)" by (cases req)
  let ?send = "notification_send ext d (fst (SQSMemoryDb_GetQueueByArn (nd_init d) (sub_endpoint s) db)) request"
  show "sns_accepts req db \<Longrightarrow> \<exists>r. fst (sns_send ext d req db) = Inr r"
    using SendMessage_accepted [OF inv, of ?send ext "nd_send d"]
    by (auto simp: req sns_send_def SendSQSMessage_eq [OF inv] notification_accepts [OF inv])
  show "\<not> sns_accepts req db \<Longrightarrow> \<exists>text. sns_send ext d req db = (Inl (ServiceException text), db)"
    using SendMessage_refused [of ?send db ext "nd_send d"]
    by (simp add: req sns_send_def SendSQSMessage_eq [OF inv] notification_accepts [OF inv] no_such_queue_def)
  show "sns_accepts req db \<Longrightarrow> sqs_messages (snd (sns_send ext d req db)) =
      smap_put ((sd_oid \<circ> nd_send) d) (sns_image ext d req db) (sqs_messages db)"
    by (simp add: sns_send_snd [OF inv] req SendMessage_snd [OF inv] notification_accepts [OF inv] sns_image_def)
  have queues: "sqs_queues (snd (sns_send ext d' req' db)) = sqs_queues db"
    by (simp add: sns_send_snd [OF inv] sqs_queues_SendMessage [OF inv])
  note same = queue_lookup_cong [OF inv inv1 queues]
  show "sns_image ext d req (snd (sns_send ext d' req' db)) = sns_image ext d req db"
    by (simp add: sns_image_def req same sqs_image_def)
  show "sns_accepts req (snd (sns_send ext d' req' db)) = sns_accepts req db"
    by (simp add: sns_accepts_def req same)
qed

text \<open>The subscriptions a publish notifies, each with its draws.\<close>

fun notified :: "(nat \<Rightarrow> notify_draws) \<Rightarrow> nat \<Rightarrow> Subscription list \<Rightarrow> PublishRequest \<Rightarrow>
  (notify_draws \<times> Subscription \<times> PublishRequest) list" where
  "notified draws i [] request = []"
| "notified draws i (s # ss) request =
     (if to_lower (sub_protocol s) = ''sqs'' then [(draws i, s, request)] else []) @ notified draws (Suc i) ss request"

lemma check_loop_run:
  "check_loop ext draws i ss request db = message_sink.send_all (sns_send ext) (notified draws i ss request) db"
proof (induction ext draws i ss request db rule: check_loop.induct)
  case (2 ext draws i s ss request db)
  have "SNSService_SendSQSMessage ext (draws i) s request db = sns_send ext (draws i) (s, request) db"
    by (simp add: sns_send_def)
  moreover have "check_loop ext draws (Suc i) ss request = message_sink.send_all (sns_send ext) (notified draws (Suc i) ss request)"
    if "to_lower (sub_protocol s) = ''sqs''"
    by (rule HOL.ext) (rule 2(1) [OF that])
  ultimately show ?case using 2(2) by (simp add: sns_sink.send_all.simps)
qed (simp add: sns_sink.send_all.simps)

lemma notified_mem:
  "x \<in> set (notified draws i ss request) \<longleftrightarrow>
     (\<exists>j < length ss. to_lower (sub_protocol (ss ! j)) = ''sqs'' \<and> x = (draws (i + j), ss ! j, request))"
proof (induction ss arbitrary: i)
  case (Cons s ss)
  show ?case
    unfolding notified.simps set_append Un_iff Cons.IH
    by (auto simp: Ex_less_Suc2)
qed simp

lemma notified_keys:
  "map (f \<circ> fst) (notified draws i ss request) =
     map (\<lambda>j. f (draws (i + j))) (filter (\<lambda>j. to_lower (sub_protocol (ss ! j)) = ''sqs'') [0..<length ss])"
proof (induction ss arbitrary: i)
  case (Cons s ss)
  have "[0..<length (s # ss)] = 0 # map Suc [0..<length ss]"
    by (simp add: map_Suc_upt upt_conv_Cons del: upt_Suc)
  then show ?case using Cons.IH [of "Suc i"] by (simp add: filter_map comp_def del: upt_Suc)
qed simp

end
