(* ===== verification/SNSProperties.thy ===== *)
theory SNSProperties
  imports SNSFacts SQSExamples
begin

text \<open>The properties of the SNS component, applied to a topic with one subscription to the demo queue.\<close>

section \<open>A demo installation\<close>

definition demo_subscription :: Subscription where
  "demo_subscription = \<lparr>sub_protocol = ''SQS'', sub_endpoint = ''arn:aws:sqs:eu:0:a'', sub_subscriptionArn = ''s1''\<rparr>"

definition demo_topic :: Topic where
  "demo_topic = (Topic_init 0)\<lparr>t_oid := ''t1'', t_region := ''eu'', t_topicName := ''t'', t_topicArn := ''arn:t'',
     t_subscriptions := [demo_subscription]\<rparr>"

definition demo_sns :: sns_db where
  "demo_sns = \<lparr>sns_topics = [(''t1'', demo_topic)], sns_messages = []\<rparr>"

definition demo_notify :: "nat \<Rightarrow> notify_draws" where
  "demo_notify i = \<lparr>nd_init = 0, nd_notificationId = ''n'', nd_messageId = ''i'', nd_requestId = ''r'',
     nd_clock = 0, nd_send = demo_draws\<rparr>"

definition demo_publish_draws :: publish_draws where
  "demo_publish_draws = \<lparr>pd_init = 0, pd_messageId = ''p1'', pd_oid = ''o1'', pd_notify = demo_notify\<rparr>"

definition demo_publish :: PublishRequest where
  "demo_publish = \<lparr>pbr_region = ''eu'', pbr_topicArn = ''arn:t'', pbr_targetArn = [], pbr_message = ''hello''\<rparr>"

lemma demo_topics_wf: "topics_wf demo_sns"
  by (simp add: topics_wf_def sns_inv_def demo_sns_def rows_tagged_def smap_inv_def demo_topic_def)

lemma demo_topic_row: "(''t1'', demo_topic) \<in> set (sns_topics demo_sns)" "t_topicArn demo_topic = ''arn:t''"
  "t_subscriptions demo_topic = [demo_subscription]"
  by (simp_all add: demo_sns_def demo_topic_def)

lemma demo_no_rows: "sqs_messages demo_queue = []"
  by (simp add: demo_queue_eq)

section \<open>Publishing\<close>

lemma published_id: "n_messageId (published d request) = pd_messageId d"
  by (simp add: published_def)

lemma Publish_eq:
  assumes wf: "topics_wf (mg_sns st)" and row: "(k, t) \<in> set (sns_topics (mg_sns st))"
    and req: "pbr_topicArn request = t_topicArn t" "t_topicArn t \<noteq> []"
  shows "SNSService_Publish ext d request st =
    (case check_loop ext (pd_notify d) 0 (t_subscriptions t) request (mg_sqs st) of
       (r, sqs') \<Rightarrow> catch_poco (andthen (r, \<lparr>mg_sns = (mg_sns st)\<lparr>sns_messages :=
             smap_put (pd_oid d) ((published d request)\<lparr>n_oid := pd_oid d\<rparr>) (sns_messages (mg_sns st))\<rparr>, mg_sqs = sqs'\<rparr>)
          (\<lambda>_ st'. (Inr (pd_messageId d), st'))))"
proof -
  let ?sns = "(mg_sns st)\<lparr>sns_messages := smap_put (pd_oid d) ((published d request)\<lparr>n_oid := pd_oid d\<rparr>) (sns_messages (mg_sns st))\<rparr>"
  note inv = topics_wfD(1) [OF wf]
  have "topics_wf ?sns"
    using wf sns_inv_put_message [OF inv, of "(published d request)\<lparr>n_oid := pd_oid d\<rparr>" "pd_oid d"] by (simp add: topics_wf_def)
  then have get: "SNSMemoryDb_GetTopicByArn (pd_init d) (t_topicArn t) ?sns = (t, ?sns)"
    by (rule GetTopicByArn_row) (use row in simp)
  have "SNSMemoryDb_TopicArnExists (t_topicArn t) (mg_sns st)" using row unfolding TopicArnExists_iff by blast
  then show ?thesis
    by (simp add: SNSService_Publish_def req CreateSNSMessage_eq [OF inv] SNSService_CheckSubscriptions_def get
        case_prod_beta published_id)
qed

definition endpoint_in :: "string \<Rightarrow> string \<Rightarrow> sqs_db \<Rightarrow> bool" where
  "endpoint_in region arn db \<longleftrightarrow> (\<exists>(k, q) \<in> set (sqs_queues db). q_queueArn q = arn) \<and>
     (\<forall>(k, q) \<in> set (sqs_queues db). q_queueArn q = arn \<longrightarrow> q_region q = region)"

lemma endpoint_in_queue:
  assumes inv: "sqs_inv db" and ep: "endpoint_in region arn db"
  obtains k q where "(k, q) \<in> set (sqs_queues db)" "q_queueArn q = arn" "q_region q = region"
    "\<forall>now. fst (SQSMemoryDb_GetQueueByArn now arn db) = q"
proof -
  have "smap_find_if (\<lambda>(k, q). q_queueArn q = arn) (sqs_queues db) \<noteq> None"
    using ep unfolding endpoint_in_def smap_find_if_not_None by fast
  then obtain k q where f: "smap_find_if (\<lambda>(k, q). q_queueArn q = arn) (sqs_queues db) = Some (k, q)" by force
  have row: "(k, q) \<in> set (sqs_queues db)" "q_queueArn q = arn" using smap_find_if_Some [OF f] by auto
  moreover have "q_region q = region" using ep row unfolding endpoint_in_def by fast
  ultimately show ?thesis using that f by (simp add: SQSMemoryDb_GetQueueByArn_def queue_fetch_inv [OF inv])
qed

lemma endpoint_accepts:
  assumes inv: "sqs_inv db" and ep: "endpoint_in (pbr_region request) (sub_endpoint s) db"
  shows "sns_accepts (s, request) db"
proof -
  obtain k q where row: "(k, q) \<in> set (sqs_queues db)" "q_region q = pbr_region request"
    and get: "\<forall>now. fst (SQSMemoryDb_GetQueueByArn now (sub_endpoint s) db) = q"
    by (rule endpoint_in_queue [OF inv ep])
  then have "SQSMemoryDb_QueueUrlExists (pbr_region request) (q_queueUrl q) db" unfolding QueueUrlExists_iff by blast
  then show ?thesis using get by (simp add: sns_accepts_def)
qed

lemma sns_image_fields:
  assumes "sqs_inv db"
  shows "m_body (sns_image ext d (s, request) db) = SqsNotificationRequest_ToJson ext (notification d request)"
    "m_region (sns_image ext d (s, request) db) = pbr_region request"
    "m_status (sns_image ext d (s, request) db) = INITIAL"
  by (simp_all add: sns_image_def sqs_image_def new_message_def notification_send_def)

lemma fresh_notified:
  fixes db :: sqs_db
  assumes "inj_on (\<lambda>j. sd_oid (nd_send (draws j))) {..<length ss}"
    "\<forall>j < length ss. sd_oid (nd_send (draws j)) \<notin> fst ` set (sqs_messages db)"
  shows "message_sink.fresh_keys sqs_messages (sd_oid \<circ> nd_send) (notified draws 0 ss request) db"
proof -
  have "distinct (map (\<lambda>j. sd_oid (nd_send (draws j))) (filter (\<lambda>j. to_lower (sub_protocol (ss ! j)) = ''sqs'') [0..<length ss]))"
    unfolding distinct_map by (auto intro: inj_on_subset [OF assms(1)])
  moreover have "map ((sd_oid \<circ> nd_send) \<circ> fst) (notified draws 0 ss request) =
      map (\<lambda>j. sd_oid (nd_send (draws j))) (filter (\<lambda>j. to_lower (sub_protocol (ss ! j)) = ''sqs'') [0..<length ss])"
    using notified_keys [of "sd_oid \<circ> nd_send" draws 0 ss request] by (simp add: comp_def)
  ultimately show ?thesis using assms(2)
    unfolding sns_sink.fresh_keys_def by (force simp: notified_mem)
qed


definition demo_messaging :: messaging where
  "demo_messaging = \<lparr>mg_sns = demo_sns, mg_sqs = demo_queue\<rparr>"


text \<open>a subscription to a queue that does not exist is not an error: \<open>Publish\<close> succeeds and leaves in SQS
  a message that belongs to no queue: its queue URL is empty.\<close>

theorem publish_orphans_message:
  assumes wf: "topics_wf (mg_sns st)" and sqs: "sqs_inv (mg_sqs st)"
    and row: "(k, t) \<in> set (sns_topics (mg_sns st))" and req: "pbr_topicArn request = t_topicArn t" "t_topicArn t \<noteq> []"
    and one: "t_subscriptions t = [s]" "to_lower (sub_protocol s) = ''sqs''"
    and missing: "\<forall>(k, q) \<in> set (sqs_queues (mg_sqs st)). q_queueArn q \<noteq> sub_endpoint s \<and> q_queueUrl q \<noteq> []"
  shows "fst (SNSService_Publish ext d request st) = Inr (pd_messageId d) \<and>
    (\<exists>m. (sd_oid (nd_send (pd_notify d 0)), m) \<in> set (sqs_messages (mg_sqs (snd (SNSService_Publish ext d request st)))) \<and>
         m_queueUrl m = [])"
proof -
  let ?d = "pd_notify d 0" and ?db = "mg_sqs st"
  have "smap_find_if (\<lambda>(k, q). q_queueArn q = sub_endpoint s) (sqs_queues ?db) = None"
    using missing unfolding smap_find_if_None by fast
  then have get: "SQSMemoryDb_GetQueueByArn now (sub_endpoint s) ?db = (Queue_init now, ?db)" for now
    by (simp add: SQSMemoryDb_GetQueueByArn_def queue_fetch_inv [OF sqs])
  let ?send = "notification_send ext ?d (Queue_init (nd_init ?d)) request"
  have url: "smr_queueUrl ?send = []" by (simp add: notification_send_def Queue_init_def)
  have "smap_find_if (\<lambda>(k, q). q_queueUrl q = []) (sqs_queues ?db) = None"
    using missing unfolding smap_find_if_None by fast
  then have none: "SQSDatabase_GetQueueByUrl now region [] ?db = (Queue_init now, ?db)" for now region
    by (simp add: sqs_getter_defs queue_fetch_inv [OF sqs])
  obtain resp where send: "SQSService_SendMessage ext (nd_send ?d) ?send ?db =
      (Inr resp, ?db\<lparr>sqs_messages := smap_put (sd_oid (nd_send ?d)) (sqs_image ext (nd_send ?d) ?send ?db) (sqs_messages ?db)\<rparr>)"
    using SendMessage_accepted [OF sqs, of ?send ext "nd_send ?d"] url by (auto simp: sqs_accepts_def)
  have blank: "q_queueUrl (Queue_init now) = []" for now by (simp add: Queue_init_def)
  have "m_queueUrl (sqs_image ext (nd_send ?d) ?send ?db) = []"
    by (simp add: sqs_image_def url none new_message_def blank)
  moreover have "check_loop ext (pd_notify d) 0 [s] request ?db = (Inr (),
      ?db\<lparr>sqs_messages := smap_put (sd_oid (nd_send ?d)) (sqs_image ext (nd_send ?d) ?send ?db) (sqs_messages ?db)\<rparr>)"
    using one(2) by (simp add: SNSService_SendSQSMessage_def get send)
  ultimately show ?thesis unfolding Publish_eq [OF wf row req] one(1)
    by (auto simp: set_smap_put sqs_invD [OF sqs])
qed

theorem publish_orphans_message_witness:
  "fst (SNSService_Publish demo_ext demo_publish_draws demo_publish \<lparr>mg_sns = demo_sns, mg_sqs = demo_empty\<rparr>) = Inr ''p1'' \<and>
   (\<exists>m. (''m1'', m) \<in> set (sqs_messages (mg_sqs (snd (SNSService_Publish demo_ext demo_publish_draws demo_publish
       \<lparr>mg_sns = demo_sns, mg_sqs = demo_empty\<rparr>)))) \<and> m_queueUrl m = [])"
proof -
  note inv = sqs_inv_empty [folded demo_empty_def]
  have no_rows: "sqs_queues demo_empty = []" by (simp add: demo_empty_def)
  have proto: "to_lower (sub_protocol demo_subscription) = ''sqs''" by code_simp
  have ids: "pd_messageId demo_publish_draws = ''p1''" "sd_oid (nd_send (pd_notify demo_publish_draws 0)) = ''m1''"
    by (simp_all add: demo_publish_draws_def demo_notify_def demo_draws_def)
  have "fst (SNSService_Publish demo_ext demo_publish_draws demo_publish \<lparr>mg_sns = demo_sns, mg_sqs = demo_empty\<rparr>) = Inr (pd_messageId demo_publish_draws) \<and>
   (\<exists>m. (sd_oid (nd_send (pd_notify demo_publish_draws 0)), m) \<in> set (sqs_messages (mg_sqs (snd (SNSService_Publish demo_ext demo_publish_draws demo_publish
       \<lparr>mg_sns = demo_sns, mg_sqs = demo_empty\<rparr>)))) \<and> m_queueUrl m = [])"
    by (rule publish_orphans_message [where k = "''t1''" and t = demo_topic and s = demo_subscription])
      (simp_all add: demo_topics_wf inv demo_topic_row proto demo_publish_def no_rows)
  then show ?thesis by (simp only: ids)
qed

text \<open>C13: a failing subscription stops the fan-out half way: when the queue of one subscription exists only in
  another region, \<open>Publish\<close> throws a \<open>ServiceException\<close>; the topic message is stored all the same, and
  exactly the notifications of the subscriptions before it are sent.\<close>

theorem publish_stops_half_way:
  assumes wf: "topics_wf (mg_sns st)" and sqs: "sqs_inv (mg_sqs st)"
    and row: "(k, t) \<in> set (sns_topics (mg_sns st))" and req: "pbr_topicArn request = t_topicArn t" "t_topicArn t \<noteq> []"
    and subs: "t_subscriptions t = before @ s # rest" "to_lower (sub_protocol s) = ''sqs''"
    and good: "\<forall>s' \<in> set before. to_lower (sub_protocol s') = ''sqs'' \<longrightarrow> endpoint_in (pbr_region request) (sub_endpoint s') (mg_sqs st)"
    and bad: "\<not> sns_accepts (s, request) (mg_sqs st)"
    and fresh: "inj_on (\<lambda>j. sd_oid (nd_send (pd_notify d j))) {..<length (t_subscriptions t)}"
      "\<forall>j < length (t_subscriptions t). sd_oid (nd_send (pd_notify d j)) \<notin> fst ` set (sqs_messages (mg_sqs st))"
  shows "(\<exists>text. fst (SNSService_Publish ext d request st) = Inl (ServiceException text)) \<and>
    SNSMemoryDb_MessageExists (pd_oid d) (mg_sns (snd (SNSService_Publish ext d request st))) \<and>
    mg_sqs (snd (SNSService_Publish ext d request st)) = snd (check_loop ext (pd_notify d) 0 before request (mg_sqs st))"
proof -
  let ?db = "mg_sqs st" and ?y = "(pd_notify d (length before), s, request)"
  let ?xs = "notified (pd_notify d) 0 before request" and ?ys = "notified (pd_notify d) (Suc (length before)) rest request"
  have app: "notified draws i (as @ bs) request = notified draws i as request @ notified draws (i + length as) bs request" for draws i as bs
    by (induction as arbitrary: i) simp_all
  have all: "notified (pd_notify d) 0 (t_subscriptions t) request = ?xs @ ?y # ?ys"
    unfolding subs(1) app using subs(2) by simp
  have accepts: "\<forall>x \<in> set ?xs. sns_accepts (snd x) ?db"
    using good endpoint_accepts [OF sqs] by (auto simp: notified_mem)
  have stop: "(\<exists>text. fst (message_sink.send_all (sns_send ext) (?xs @ ?y # ?ys) ?db) = Inl (ServiceException text)) \<and>
      snd (message_sink.send_all (sns_send ext) (?xs @ ?y # ?ys) ?db) = snd (message_sink.send_all (sns_send ext) ?xs ?db)"
    by (rule sns_sink.send_all_refused [OF sqs _ accepts])
      (use fresh_notified [OF fresh, of request] bad all in simp_all)
  then obtain text' where r: "message_sink.send_all (sns_send ext) (?xs @ ?y # ?ys) ?db =
      (Inl (ServiceException text'), snd (message_sink.send_all (sns_send ext) ?xs ?db))"
    by (metis prod.collapse)
  show ?thesis unfolding Publish_eq [OF wf row req] check_loop_run all r
    by (simp add: SNSMemoryDb_MessageExists_def smap_find_if_key sns_invD [OF topics_wfD(1) [OF wf]])
qed

text \<open>The queue of the demo, seen from a request in another region.\<close>

theorem publish_stops_half_way_witness:
  "(\<exists>text. fst (SNSService_Publish demo_ext demo_publish_draws (demo_publish\<lparr>pbr_region := ''us''\<rparr>) demo_messaging) = Inl (ServiceException text)) \<and>
   SNSMemoryDb_MessageExists ''o1'' (mg_sns (snd (SNSService_Publish demo_ext demo_publish_draws (demo_publish\<lparr>pbr_region := ''us''\<rparr>) demo_messaging)))"
proof -
  let ?req = "demo_publish\<lparr>pbr_region := ''us''\<rparr>"
  have proto: "to_lower (sub_protocol demo_subscription) = ''sqs''" by code_simp
  have bad: "\<not> sns_accepts (demo_subscription, ?req) (mg_sqs demo_messaging)"
    unfolding demo_messaging_def demo_eqs by code_simp
  have "(\<exists>text. fst (SNSService_Publish demo_ext demo_publish_draws ?req demo_messaging) = Inl (ServiceException text)) \<and>
    SNSMemoryDb_MessageExists (pd_oid demo_publish_draws) (mg_sns (snd (SNSService_Publish demo_ext demo_publish_draws ?req demo_messaging))) \<and>
    mg_sqs (snd (SNSService_Publish demo_ext demo_publish_draws ?req demo_messaging)) =
      snd (check_loop demo_ext (pd_notify demo_publish_draws) 0 [] ?req (mg_sqs demo_messaging))"
    by (rule publish_stops_half_way [where k = "''t1''" and t = demo_topic and s = demo_subscription and rest = "[]"])
      (use bad in \<open>simp_all add: demo_topics_wf demo_inv demo_topic_row proto demo_publish_def demo_messaging_def
         demo_no_rows lessThan_Suc\<close>)
  then show ?thesis by (simp add: demo_publish_draws_def)
qed

section \<open>Subscriptions\<close>

lemma Subscribe_eq:
  assumes wf: "topics_wf db" and row: "(k, t) \<in> set (sns_topics db)" and req: "sbr_topicArn request = t_topicArn t" "t_topicArn t \<noteq> []"
  shows "SNSService_Subscribe cfg now uuid request db =
    (let arn = AwsUtils_CreateSNSSubscriptionArn (sbr_region request) (cfg_accountId cfg) (t_topicName t) uuid;
         s = \<lparr>sub_protocol = sbr_protocol request, sub_endpoint = sbr_endpoint request, sub_subscriptionArn = arn\<rparr>
     in (Inr arn, if Topic_HasSubscription s t then db
         else db\<lparr>sns_topics := smap_put k (t\<lparr>t_subscriptions := t_subscriptions t @ [s]\<rparr>) (sns_topics db)\<rparr>))"
proof -
  have ex: "SNSMemoryDb_TopicArnExists (t_topicArn t) db" using row unfolding TopicArnExists_iff by blast
  have upd: "SNSMemoryDb_UpdateTopic (t\<lparr>t_subscriptions := ss\<rparr>) db =
      (Inr (t\<lparr>t_subscriptions := ss\<rparr>), db\<lparr>sns_topics := smap_put k (t\<lparr>t_subscriptions := ss\<rparr>) (sns_topics db)\<rparr>)" for ss
    by (rule UpdateTopic_eq [OF wf row]) simp_all
  show ?thesis
    by (simp add: SNSService_Subscribe_def req ex GetTopicByArn_row [OF wf row] upd Topic_HasSubscription_def Let_def)
qed

text \<open>subscribing twice does not duplicate: a second \<open>Subscribe\<close> with the same protocol and endpoint
  leaves the store as the first one made it; but it answers with a new subscription ARN, which no
  subscription of the topic has.\<close>

theorem subscribe_twice:
  assumes wf: "topics_wf db" and row: "(k, t) \<in> set (sns_topics db)" and req: "sbr_topicArn request = t_topicArn t" "t_topicArn t \<noteq> []"
    and new: "\<forall>s \<in> set (t_subscriptions t). sub_protocol s = sbr_protocol request \<longrightarrow> sub_endpoint s \<noteq> sbr_endpoint request"
    and other: "uuid2 \<noteq> uuid1"
    and unused: "\<forall>s \<in> set (t_subscriptions t). sub_subscriptionArn s \<noteq>
        AwsUtils_CreateSNSSubscriptionArn (sbr_region request) (cfg_accountId cfg) (t_topicName t) uuid2"
  shows "\<exists>db1 t1 arn2. snd (SNSService_Subscribe cfg now1 uuid1 request db) = db1 \<and> smap_get k (sns_topics db1) = Some t1 \<and>
    length (t_subscriptions t1) = Suc (length (t_subscriptions t)) \<and>
    SNSService_Subscribe cfg now2 uuid2 request db1 = (Inr arn2, db1) \<and>
    (\<forall>s \<in> set (t_subscriptions t1). sub_subscriptionArn s \<noteq> arn2)"
proof -
  let ?arn = "\<lambda>uuid. AwsUtils_CreateSNSSubscriptionArn (sbr_region request) (cfg_accountId cfg) (t_topicName t) uuid"
  let ?s = "\<lambda>uuid. \<lparr>sub_protocol = sbr_protocol request, sub_endpoint = sbr_endpoint request, sub_subscriptionArn = ?arn uuid\<rparr>"
  let ?t = "t\<lparr>t_subscriptions := t_subscriptions t @ [?s uuid1]\<rparr>"
  let ?db = "db\<lparr>sns_topics := smap_put k ?t (sns_topics db)\<rparr>"
  have "\<not> Topic_HasSubscription (?s uuid1) t" using new by (auto simp: Topic_HasSubscription_def find_None_not_ex)
  then have first: "snd (SNSService_Subscribe cfg now1 uuid1 request db) = ?db"
    by (simp add: Subscribe_eq [OF wf row req] Let_def)
  have wf': "topics_wf ?db" by (rule topics_wf_replace [OF wf row]) simp_all
  have row': "(k, ?t) \<in> set (sns_topics ?db)" by (simp add: set_smap_put sns_invD [OF topics_wfD(1) [OF wf]])
  have "Topic_HasSubscription (?s uuid2) ?t" unfolding Topic_HasSubscription_def find_None_not_ex by auto
  then have second: "SNSService_Subscribe cfg now2 uuid2 request ?db = (Inr (?arn uuid2), ?db)"
    using Subscribe_eq [OF wf' row', of request] req by (simp add: Let_def)
  have "?arn uuid1 \<noteq> ?arn uuid2" using other by (simp add: AwsUtils_CreateSNSSubscriptionArn_def CreateArn_def)
  then have "\<forall>s \<in> set (t_subscriptions ?t). sub_subscriptionArn s \<noteq> ?arn uuid2" using unused by auto
  moreover have "smap_get k (sns_topics ?db) = Some ?t" by (simp add: sns_invD [OF topics_wfD(1) [OF wf]])
  ultimately show ?thesis using first second by (intro exI [of _ ?db] exI [of _ ?t] exI [of _ "?arn uuid2"]) simp
qed

definition demo_subscribe :: SubscribeRequest where
  "demo_subscribe = \<lparr>sbr_region = ''eu'', sbr_topicArn = ''arn:t'', sbr_protocol = ''sqs'', sbr_endpoint = ''e'', sbr_owner = []\<rparr>"

lemma demo_subscribe_new:
  "\<forall>s \<in> set (t_subscriptions demo_topic). sub_protocol s = sbr_protocol demo_subscribe \<longrightarrow> sub_endpoint s \<noteq> sbr_endpoint demo_subscribe"
  "\<forall>s \<in> set (t_subscriptions demo_topic). sub_subscriptionArn s \<noteq>
      AwsUtils_CreateSNSSubscriptionArn (sbr_region demo_subscribe) (cfg_accountId demo_cfg) (t_topicName demo_topic) uuid"
  by (simp_all add: demo_topic_def demo_subscription_def demo_subscribe_def AwsUtils_CreateSNSSubscriptionArn_def CreateArn_def)

theorem subscribe_twice_witness:
  "\<exists>db1 t1 arn2. snd (SNSService_Subscribe demo_cfg 0 ''u1'' demo_subscribe demo_sns) = db1 \<and> smap_get ''t1'' (sns_topics db1) = Some t1 \<and>
    length (t_subscriptions t1) = Suc (length (t_subscriptions demo_topic)) \<and>
    SNSService_Subscribe demo_cfg 0 ''u2'' demo_subscribe db1 = (Inr arn2, db1) \<and>
    (\<forall>s \<in> set (t_subscriptions t1). sub_subscriptionArn s \<noteq> arn2)"
  by (rule subscribe_twice [OF demo_topics_wf demo_topic_row(1)])
    (use demo_subscribe_new in \<open>simp_all add: demo_subscribe_def demo_topic_row\<close>)

lemma GetTopicsBySubscriptionArn_filter:
  "SNSMemoryDb_GetTopicsBySubscriptionArn arn db = map snd (filter (\<lambda>(k, t). t_subscriptions t \<noteq> [] \<and>
     List.find (\<lambda>s. sub_subscriptionArn s = arn) (t_subscriptions t) \<noteq> None) (sns_topics db))"
proof -
  have "concat (map (\<lambda>(k, t). if t_subscriptions t \<noteq> [] then if Q t then [t] else [] else []) rows) =
      map snd (filter (\<lambda>(k, t). t_subscriptions t \<noteq> [] \<and> Q t) rows)" for rows :: "(string \<times> Topic) list" and Q
    by (induction rows) (auto split: if_splits)
  then show ?thesis unfolding SNSMemoryDb_GetTopicsBySubscriptionArn_def .
qed

text \<open>C14: \<open>Unsubscribe\<close> undoes \<open>Subscribe\<close>: removing the ARN a successful new subscription was given leaves
  exactly the subscriptions the topic had before, when no other topic uses that ARN.\<close>

theorem unsubscribe_undoes_subscribe:
  assumes wf: "topics_wf db" and row: "(k, t) \<in> set (sns_topics db)" and req: "sbr_topicArn request = t_topicArn t" "t_topicArn t \<noteq> []"
    and new: "\<forall>s \<in> set (t_subscriptions t). sub_protocol s = sbr_protocol request \<longrightarrow> sub_endpoint s \<noteq> sbr_endpoint request"
    and unused: "\<forall>(k', t') \<in> set (sns_topics db). \<forall>s \<in> set (t_subscriptions t'). sub_subscriptionArn s \<noteq>
        AwsUtils_CreateSNSSubscriptionArn (sbr_region request) (cfg_accountId cfg) (t_topicName t) uuid"
  shows "\<exists>arn db1. SNSService_Subscribe cfg now uuid request db = (Inr arn, db1) \<and> SNSService_Unsubscribe arn db1 = (Inr arn, db)"
proof -
  let ?arn = "AwsUtils_CreateSNSSubscriptionArn (sbr_region request) (cfg_accountId cfg) (t_topicName t) uuid"
  let ?s = "\<lparr>sub_protocol = sbr_protocol request, sub_endpoint = sbr_endpoint request, sub_subscriptionArn = ?arn\<rparr>"
  let ?t = "t\<lparr>t_subscriptions := t_subscriptions t @ [?s]\<rparr>"
  let ?db = "db\<lparr>sns_topics := smap_put k ?t (sns_topics db)\<rparr>"
  note inv = sns_invD(3) [OF topics_wfD(1) [OF wf]]
  have "\<not> Topic_HasSubscription ?s t" using new by (auto simp: Topic_HasSubscription_def find_None_not_ex)
  then have first: "SNSService_Subscribe cfg now uuid request db = (Inr ?arn, ?db)"
    by (simp add: Subscribe_eq [OF wf row req] Let_def)
  have wf': "topics_wf ?db" by (rule topics_wf_replace [OF wf row]) simp_all
  have row': "(k, ?t) \<in> set (sns_topics ?db)" by (simp add: set_smap_put inv)
  define P where "P = (\<lambda>t' :: Topic. t_subscriptions t' \<noteq> [] \<and> List.find (\<lambda>s. sub_subscriptionArn s = ?arn) (t_subscriptions t') \<noteq> None)"
  have has: "P t' \<longleftrightarrow> (\<exists>s \<in> set (t_subscriptions t'). sub_subscriptionArn s = ?arn)" for t'
    unfolding P_def find_None_not_ex by auto
  have "filter (P \<circ> snd) (sns_topics ?db) = [(k, ?t)]"
  proof (rule filter_eq_singleton)
    show "distinct (sns_topics ?db)"
      using smap_inv_distinct [OF smap_inv_put [OF inv]] by (simp add: distinct_map)
    show "(k, ?t) \<in> set (sns_topics ?db)" by (rule row')
    show "(P \<circ> snd) (k, ?t)" by (simp add: has)
    have "\<not> P t'" if "(k', t') \<in> set (sns_topics db)" for k' t'
      using unused that by (auto simp: has)
    then show "y = (k, ?t)" if "y \<in> set (sns_topics ?db)" "(P \<circ> snd) y" for y
      using that by (cases y) (auto simp: set_smap_put inv)
  qed
  moreover have "SNSMemoryDb_GetTopicsBySubscriptionArn ?arn ?db = map snd (filter (P \<circ> snd) (sns_topics ?db))"
    by (simp add: GetTopicsBySubscriptionArn_filter P_def comp_def case_prod_unfold)
  ultimately have topics: "SNSMemoryDb_GetTopicsBySubscriptionArn ?arn ?db = [?t]" by simp
  have "filter (\<lambda>s. sub_subscriptionArn s \<noteq> ?arn) (t_subscriptions ?t) = t_subscriptions t"
    using unused row by (auto simp: filter_id_conv)
  moreover have "SNSMemoryDb_UpdateTopic t ?db = (Inr t, ?db\<lparr>sns_topics := smap_put k t (sns_topics ?db)\<rparr>)"
    by (rule UpdateTopic_eq [OF wf' row']) simp_all
  moreover have "smap_put k t (smap_put k ?t (sns_topics db)) = sns_topics db"
    using smap_put_same [OF inv row] by (simp add: inv)
  moreover have "?arn \<noteq> []" by (simp add: AwsUtils_CreateSNSSubscriptionArn_def CreateArn_def)
  ultimately have "SNSService_Unsubscribe ?arn ?db = (Inr ?arn, db)"
    by (simp add: SNSService_Unsubscribe_def topics)
  with first show ?thesis by blast
qed

theorem unsubscribe_undoes_subscribe_witness:
  "\<exists>arn db1. SNSService_Subscribe demo_cfg 0 ''u1'' demo_subscribe demo_sns = (Inr arn, db1) \<and>
     SNSService_Unsubscribe arn db1 = (Inr arn, demo_sns)"
  by (rule unsubscribe_undoes_subscribe [OF demo_topics_wf demo_topic_row(1)])
    (use demo_subscribe_new in \<open>simp_all add: demo_subscribe_def demo_topic_row demo_sns_def\<close>)

end
