(* ===== verification/S3MemoryDb.thy ===== *)
theory S3MemoryDb
  imports EntityStore SQSEntities
begin

text \<open>
  The S3 entities of \<open>db/include/awsmock/entity/s3\<close> and the in-memory store
  \<open>db/src/memorydb/S3MemoryDb.cpp\<close>, with the methods of \<open>db/src/repository/S3Database.cpp\<close> that
  combine its operations.  Instants are integers in nanoseconds.
\<close>

section \<open>Buckets\<close>

record FilterRule =
  fr_name :: string
  fr_value :: string

text \<open>Queue, topic and lambda notifications have the same shape; \<open>no_arn\<close> is the ARN of the target.\<close>

record Notification =
  no_id :: string
  no_events :: "string list"
  no_arn :: string
  no_filterRules :: "FilterRule list"

record BucketNotification =
  bn_event :: string
  bn_notificationId :: string
  bn_queueArn :: string
  bn_lambdaArn :: string

record BucketEncryption =
  be_sseAlgorithm :: string
  be_kmsKeyId :: string

datatype BucketVersionStatus = ENABLED | SUSPENDED | DISABLED

fun BucketVersionStatusToString :: "BucketVersionStatus \<Rightarrow> string" where
  "BucketVersionStatusToString ENABLED = ''enabled''"
| "BucketVersionStatusToString SUSPENDED = ''suspended''"
| "BucketVersionStatusToString DISABLED = ''disabled''"

definition BucketVersionStatusFromString :: "string \<Rightarrow> BucketVersionStatus" where
  "BucketVersionStatusFromString s =
     (if s = ''enabled'' then ENABLED
      else if s = ''suspended'' then SUSPENDED
      else if s = ''disabled'' then DISABLED
      else DISABLED)"

record Bucket =
  b_oid :: string
  b_region :: string
  b_name :: string
  b_owner :: string
  b_notifications :: "BucketNotification list"
  b_queueNotifications :: "Notification list"
  b_topicNotifications :: "Notification list"
  b_lambdaNotifications :: "Notification list"
  b_versionStatus :: BucketVersionStatus
  b_bucketEncryption :: BucketEncryption
  b_created :: int
  b_modified :: int

definition Bucket_init :: "int \<Rightarrow> Bucket" where
  "Bucket_init now =
     \<lparr>b_oid = [], b_region = [], b_name = [], b_owner = [], b_notifications = [], b_queueNotifications = [],
      b_topicNotifications = [], b_lambdaNotifications = [], b_versionStatus = DISABLED,
      b_bucketEncryption = \<lparr>be_sseAlgorithm = [], be_kmsKeyId = []\<rparr>, b_created = now, b_modified = now\<rparr>"

definition Notification_CheckFilter :: "string \<Rightarrow> Notification \<Rightarrow> bool" where
  "Notification_CheckFilter key n \<longleftrightarrow>
     no_filterRules n = [] \<or>
     list_ex (\<lambda>rule. (fr_name rule = ''prefix'' \<and> starts_with key (fr_value rule)) \<or>
                     (fr_name rule = ''suffix'' \<and> ends_with key (fr_value rule))) (no_filterRules n)"

definition Bucket_HasNotification :: "string \<Rightarrow> Bucket \<Rightarrow> bool" where
  "Bucket_HasNotification eventName bucket \<longleftrightarrow> list_ex (\<lambda>n. bn_event n = eventName) (b_notifications bucket)"

definition has_notification_id :: "string \<Rightarrow> Notification list \<Rightarrow> bool" where
  "has_notification_id nid ns \<longleftrightarrow> list_ex (\<lambda>n. no_id n = nid) ns"

definition Bucket_HasQueueNotificationId :: "string \<Rightarrow> Bucket \<Rightarrow> bool" where
  "Bucket_HasQueueNotificationId nid bucket = has_notification_id nid (b_queueNotifications bucket)"

definition Bucket_HasTopicNotificationId :: "string \<Rightarrow> Bucket \<Rightarrow> bool" where
  "Bucket_HasTopicNotificationId nid bucket = has_notification_id nid (b_topicNotifications bucket)"

definition Bucket_HasLambdaNotificationId :: "string \<Rightarrow> Bucket \<Rightarrow> bool" where
  "Bucket_HasLambdaNotificationId nid bucket = has_notification_id nid (b_lambdaNotifications bucket)"

text \<open>
  \<open>HasQueueNotification(event)\<close> and \<open>GetQueueNotification(event)\<close> search the same list for the same
  thing; the getter dereferences the result without a test and is only called behind the test.
  Together they are a search that may fail.
\<close>

definition find_notification :: "string \<Rightarrow> Notification list \<Rightarrow> Notification option" where
  "find_notification eventName ns = List.find (\<lambda>n. eventName \<in> set (no_events n)) ns"

definition Bucket_GetQueueNotification :: "string \<Rightarrow> Bucket \<Rightarrow> Notification option" where
  "Bucket_GetQueueNotification eventName bucket = find_notification eventName (b_queueNotifications bucket)"

definition Bucket_GetTopicNotification :: "string \<Rightarrow> Bucket \<Rightarrow> Notification option" where
  "Bucket_GetTopicNotification eventName bucket = find_notification eventName (b_topicNotifications bucket)"

definition Bucket_GetLambdaNotification :: "string \<Rightarrow> Bucket \<Rightarrow> Notification option" where
  "Bucket_GetLambdaNotification eventName bucket = find_notification eventName (b_lambdaNotifications bucket)"

definition Bucket_HasEncryption :: "Bucket \<Rightarrow> bool" where
  "Bucket_HasEncryption bucket \<longleftrightarrow>
     be_kmsKeyId (b_bucketEncryption bucket) \<noteq> [] \<and> be_sseAlgorithm (b_bucketEncryption bucket) \<noteq> []"

definition Bucket_IsVersioned :: "Bucket \<Rightarrow> bool" where
  "Bucket_IsVersioned bucket \<longleftrightarrow> b_versionStatus bucket = ENABLED"

section \<open>Objects\<close>

record Object =
  o_oid :: string
  o_region :: string
  o_bucket :: string
  o_key :: string
  o_owner :: string
  o_size :: int
  o_md5sum :: string
  o_sha1sum :: string
  o_sha256sum :: string
  o_contentType :: string
  o_metadata :: "(string, string) smap"
  o_internalName :: string
  o_versionId :: string
  o_created :: int
  o_modified :: int

definition Object_init :: "int \<Rightarrow> Object" where
  "Object_init now =
     \<lparr>o_oid = [], o_region = [], o_bucket = [], o_key = [], o_owner = [], o_size = 0, o_md5sum = [], o_sha1sum = [],
      o_sha256sum = [], o_contentType = [], o_metadata = [], o_internalName = [], o_versionId = [],
      o_created = now, o_modified = now\<rparr>"

record s3_db =
  s3_buckets :: "(string, Bucket) smap"
  s3_objects :: "(string, Object) smap"

section \<open>Operations on buckets\<close>

definition S3MemoryDb_BucketExists :: "string \<Rightarrow> string \<Rightarrow> s3_db \<Rightarrow> bool" where
  "S3MemoryDb_BucketExists region name db \<longleftrightarrow>
     smap_find_if (\<lambda>(k, b). b_region b = region \<and> b_name b = name) (s3_buckets db) \<noteq> None"

definition bucket_fetch :: "(string \<times> Bucket \<Rightarrow> bool) \<Rightarrow> int \<Rightarrow> s3_db \<Rightarrow> Bucket \<times> s3_db" where
  "bucket_fetch P now db =
     (case smap_fetch P (\<lambda>oid b. b\<lparr>b_oid := oid\<rparr>) (Bucket_init now) (s3_buckets db) of
        (b, bs) \<Rightarrow> (b, db\<lparr>s3_buckets := bs\<rparr>))"

definition S3MemoryDb_GetBucketById :: "int \<Rightarrow> string \<Rightarrow> s3_db \<Rightarrow> Bucket \<times> s3_db" where
  "S3MemoryDb_GetBucketById now oid = bucket_fetch (\<lambda>(k, b). k = oid) now"

definition S3MemoryDb_GetBucketByRegionName :: "int \<Rightarrow> string \<Rightarrow> string \<Rightarrow> s3_db \<Rightarrow> Bucket \<times> s3_db" where
  "S3MemoryDb_GetBucketByRegionName now region name =
     bucket_fetch (\<lambda>(k, b). b_region b = region \<and> b_name b = name) now"

definition S3MemoryDb_CreateBucket :: "int \<Rightarrow> string \<Rightarrow> Bucket \<Rightarrow> s3_db \<Rightarrow> Bucket \<times> s3_db" where
  "S3MemoryDb_CreateBucket now oid bucket db =
     S3MemoryDb_GetBucketById now oid (db\<lparr>s3_buckets := smap_put oid bucket (s3_buckets db)\<rparr>)"

definition S3MemoryDb_ListBuckets :: "s3_db \<Rightarrow> Bucket list" where
  "S3MemoryDb_ListBuckets db = smap_values (s3_buckets db)"

definition S3MemoryDb_HasObjects :: "Bucket \<Rightarrow> s3_db \<Rightarrow> bool" where
  "S3MemoryDb_HasObjects bucket db \<longleftrightarrow>
     0 < smap_count_if (\<lambda>(k, ob). o_region ob = b_region bucket \<and> o_bucket ob = b_name bucket) (s3_objects db)"

text \<open>
  The loop of \<open>GetBucketObjectList\<close> stops at the first object that is not of the bucket.
  \<open>objectList.size() < maxKeys\<close> compares unsigned: a negative limit is huge.
\<close>

fun bucket_object_loop :: "string \<Rightarrow> string \<Rightarrow> int \<Rightarrow> (string, Object) smap \<Rightarrow> Object list \<Rightarrow> Object list" where
  "bucket_object_loop region bucket maxKeys [] acc = acc"
| "bucket_object_loop region bucket maxKeys ((k, ob) # obs) acc =
     (if o_region ob = region \<and> o_bucket ob = bucket \<and>
         int (length acc) < (if maxKeys < 0 then maxKeys + 2 ^ 64 else maxKeys)
      then bucket_object_loop region bucket maxKeys obs (acc @ [ob])
      else acc)"

definition S3MemoryDb_GetBucketObjectList :: "string \<Rightarrow> string \<Rightarrow> int \<Rightarrow> s3_db \<Rightarrow> Object list" where
  "S3MemoryDb_GetBucketObjectList region bucket maxKeys db = bucket_object_loop region bucket maxKeys (s3_objects db) []"

definition S3MemoryDb_BucketCount :: "s3_db \<Rightarrow> int" where
  "S3MemoryDb_BucketCount db = int (length (s3_buckets db))"

text \<open>\<open>ListBucket\<close> does not look at the region.\<close>

definition S3MemoryDb_ListBucket :: "string \<Rightarrow> string \<Rightarrow> s3_db \<Rightarrow> Object list" where
  "S3MemoryDb_ListBucket bucket prefix db =
     (if prefix = [] then filter (\<lambda>ob. o_bucket ob = bucket) (smap_values (s3_objects db))
      else filter (\<lambda>ob. o_bucket ob = bucket \<and> StringUtils_StartsWith (o_key ob) prefix) (smap_values (s3_objects db)))"

definition S3MemoryDb_UpdateBucket :: "Bucket \<Rightarrow> s3_db \<Rightarrow> (Bucket, s3_db) outcome" where
  "S3MemoryDb_UpdateBucket bucket db =
     (case smap_replace (\<lambda>(k, b). b_region b = b_region bucket \<and> b_name b = b_name bucket) bucket (s3_buckets db) of
        (r, bs) \<Rightarrow> (r, db\<lparr>s3_buckets := bs\<rparr>))"

definition S3MemoryDb_DeleteBucket :: "Bucket \<Rightarrow> s3_db \<Rightarrow> s3_db" where
  "S3MemoryDb_DeleteBucket bucket db =
     db\<lparr>s3_buckets := smap_erase_if (\<lambda>(k, b). b_region b = b_region bucket \<and> b_name b = b_name bucket) (s3_buckets db)\<rparr>"

definition S3MemoryDb_DeleteAllBuckets :: "s3_db \<Rightarrow> s3_db" where
  "S3MemoryDb_DeleteAllBuckets db = db\<lparr>s3_buckets := []\<rparr>"

section \<open>Operations on objects\<close>

definition S3MemoryDb_ObjectExists :: "Object \<Rightarrow> s3_db \<Rightarrow> bool" where
  "S3MemoryDb_ObjectExists ob db \<longleftrightarrow>
     smap_find_if (\<lambda>(k, v). o_region v = o_region ob \<and> o_bucket v = o_bucket ob \<and> o_key v = o_key ob) (s3_objects db) \<noteq> None"

definition S3MemoryDb_ObjectFileExists :: "string \<Rightarrow> s3_db \<Rightarrow> bool" where
  "S3MemoryDb_ObjectFileExists filename db \<longleftrightarrow> smap_find_if (\<lambda>(k, v). o_internalName v = filename) (s3_objects db) \<noteq> None"

definition object_fetch :: "(string \<times> Object \<Rightarrow> bool) \<Rightarrow> int \<Rightarrow> s3_db \<Rightarrow> Object \<times> s3_db" where
  "object_fetch P now db =
     (case smap_fetch P (\<lambda>oid ob. ob\<lparr>o_oid := oid\<rparr>) (Object_init now) (s3_objects db) of
        (ob, obs) \<Rightarrow> (ob, db\<lparr>s3_objects := obs\<rparr>))"

definition S3MemoryDb_GetObjectById :: "int \<Rightarrow> string \<Rightarrow> s3_db \<Rightarrow> Object \<times> s3_db" where
  "S3MemoryDb_GetObjectById now oid = object_fetch (\<lambda>(k, v). k = oid) now"

definition S3MemoryDb_CreateObject :: "int \<Rightarrow> string \<Rightarrow> Object \<Rightarrow> s3_db \<Rightarrow> Object \<times> s3_db" where
  "S3MemoryDb_CreateObject now oid ob db =
     S3MemoryDb_GetObjectById now oid (db\<lparr>s3_objects := smap_put oid ob (s3_objects db)\<rparr>)"

text \<open>\<open>UpdateObject\<close> and the deletions look for bucket and key only.\<close>

definition S3MemoryDb_UpdateObject :: "Object \<Rightarrow> s3_db \<Rightarrow> (Object, s3_db) outcome" where
  "S3MemoryDb_UpdateObject ob db =
     (case smap_replace (\<lambda>(k, v). o_bucket v = o_bucket ob \<and> o_key v = o_key ob) ob (s3_objects db) of
        (r, obs) \<Rightarrow> (r, db\<lparr>s3_objects := obs\<rparr>))"

definition S3MemoryDb_GetObject :: "int \<Rightarrow> string \<Rightarrow> string \<Rightarrow> string \<Rightarrow> s3_db \<Rightarrow> Object \<times> s3_db" where
  "S3MemoryDb_GetObject now region bucket key =
     object_fetch (\<lambda>(k, v). o_region v = region \<and> o_bucket v = bucket \<and> o_key v = key) now"

definition S3MemoryDb_GetObjectMd5 :: "int \<Rightarrow> string \<Rightarrow> string \<Rightarrow> string \<Rightarrow> string \<Rightarrow> s3_db \<Rightarrow> Object \<times> s3_db" where
  "S3MemoryDb_GetObjectMd5 now region bucket key md5sum =
     object_fetch (\<lambda>(k, v). o_region v = region \<and> o_bucket v = bucket \<and> o_key v = key \<and> o_md5sum v = md5sum) now"

definition S3MemoryDb_ObjectCount :: "string \<Rightarrow> string \<Rightarrow> s3_db \<Rightarrow> int" where
  "S3MemoryDb_ObjectCount region bucket db =
     (if region = [] \<and> bucket = [] then int (length (s3_objects db))
      else smap_count_if (\<lambda>(k, v).
             (region \<noteq> [] \<and> o_region v = region \<and> bucket \<noteq> [] \<and> o_bucket v = bucket) \<or>
             (region \<noteq> [] \<and> o_region v = region) \<or> (bucket \<noteq> [] \<and> o_bucket v = bucket)) (s3_objects db))"

definition S3MemoryDb_ListObjects :: "string \<Rightarrow> s3_db \<Rightarrow> Object list" where
  "S3MemoryDb_ListObjects prefix db =
     (if prefix = [] then smap_values (s3_objects db)
      else filter (\<lambda>ob. StringUtils_StartsWith (o_key ob) prefix) (smap_values (s3_objects db)))"

definition S3MemoryDb_DeleteObject :: "Object \<Rightarrow> s3_db \<Rightarrow> s3_db" where
  "S3MemoryDb_DeleteObject ob db =
     db\<lparr>s3_objects := smap_erase_if (\<lambda>(k, v). o_bucket v = o_bucket ob \<and> o_key v = o_key ob) (s3_objects db)\<rparr>"

definition S3MemoryDb_DeleteObjects :: "string \<Rightarrow> string list \<Rightarrow> s3_db \<Rightarrow> s3_db" where
  "S3MemoryDb_DeleteObjects bucket keys db =
     db\<lparr>s3_objects := fold (\<lambda>key. smap_erase_if (\<lambda>(k, v). o_bucket v = bucket \<and> o_key v = key)) keys (s3_objects db)\<rparr>"

definition S3MemoryDb_DeleteAllObjects :: "s3_db \<Rightarrow> s3_db" where
  "S3MemoryDb_DeleteAllObjects db = db\<lparr>s3_objects := []\<rparr>"

section \<open>Operations of the database class\<close>

definition S3Database_CreateOrUpdateBucket :: "int \<Rightarrow> string \<Rightarrow> Bucket \<Rightarrow> s3_db \<Rightarrow> (Bucket, s3_db) outcome" where
  "S3Database_CreateOrUpdateBucket now oid bucket db =
     (if S3MemoryDb_BucketExists (b_region bucket) (b_name bucket) db then S3MemoryDb_UpdateBucket bucket db
      else (case S3MemoryDb_CreateBucket now oid bucket db of (b, db') \<Rightarrow> (Inr b, db')))"

definition S3Database_CreateOrUpdateObject :: "int \<Rightarrow> string \<Rightarrow> Object \<Rightarrow> s3_db \<Rightarrow> (Object, s3_db) outcome" where
  "S3Database_CreateOrUpdateObject now oid ob db =
     (if S3MemoryDb_ObjectExists ob db then S3MemoryDb_UpdateObject ob db
      else (case S3MemoryDb_CreateObject now oid ob db of (ob', db') \<Rightarrow> (Inr ob', db')))"

text \<open>The event types a wildcard stands for.\<close>

definition allowed_events :: "string \<Rightarrow> string list" where
  "allowed_events event =
     (if StringUtils_StartsWith event ''s3:ObjectCreated:''
      then [''s3:ObjectCreated:Put'', ''s3:ObjectCreated:Post'', ''s3:ObjectCreated:Copy'',
            ''s3:ObjectCreated:CompleteMultipartUpload'']
      else if StringUtils_StartsWith event ''s3:ObjectRemoved:''
      then [''s3:ObjectRemoved:Delete'', ''s3:ObjectRemoved:DeleteMarkerCreated'']
      else [])"

definition S3Database_CreateBucketNotification ::
  "int \<Rightarrow> Bucket \<Rightarrow> BucketNotification \<Rightarrow> s3_db \<Rightarrow> (Bucket, s3_db) outcome" where
  "S3Database_CreateBucketNotification now bucket bucketNotification db =
     (case S3MemoryDb_GetBucketByRegionName now (b_region bucket) (b_name bucket) db of
        (internBucket, db') \<Rightarrow>
          S3MemoryDb_UpdateBucket
            (internBucket\<lparr>b_notifications :=
               (if StringUtils_Contains (bn_event bucketNotification) ''*''
                then map (\<lambda>event. bucketNotification\<lparr>bn_event := event\<rparr>) (allowed_events (bn_event bucketNotification))
                else [bucketNotification])\<rparr>) db')"

definition S3Database_DeleteBucketNotifications ::
  "int \<Rightarrow> Bucket \<Rightarrow> BucketNotification \<Rightarrow> s3_db \<Rightarrow> (Bucket, s3_db) outcome" where
  "S3Database_DeleteBucketNotifications now bucket bucketNotification db =
     (case S3MemoryDb_GetBucketByRegionName now (b_region bucket) (b_name bucket) db of
        (internBucket, db') \<Rightarrow>
          S3MemoryDb_UpdateBucket
            (internBucket\<lparr>b_notifications :=
               (if StringUtils_Contains (bn_event bucketNotification) ''*''
                then filter (\<lambda>n. bn_event n \<notin> set (allowed_events (bn_event bucketNotification))) (b_notifications internBucket)
                else filter (\<lambda>n. bn_event n \<noteq> bn_event bucketNotification) (b_notifications internBucket))\<rparr>) db')"

end
