(* ===== verification/FileStore.thy ===== *)
theory FileStore
  imports CoreUtils
begin

text \<open>
  The file system as the services use it.  The operating system, \<open>Poco::File\<close> and
  \<open>Poco::DirectoryIterator\<close> are not part of the repository: they are a record of functions over a
  state \<open>'fs\<close>.  On top of it, the helpers of \<open>core/src/utils/FileUtils.cpp\<close>, \<open>DirUtils.cpp\<close>,
  \<open>NumberUtils.cpp\<close> and the file digests of \<open>CryptoUtils.cpp\<close>.
\<close>

record 'fs file_system =
  fs_exists :: "string \<Rightarrow> 'fs \<Rightarrow> bool"
  fs_read :: "string \<Rightarrow> 'fs \<Rightarrow> string"              \<comment> \<open>what an input stream on the path delivers; nothing if it does not open\<close>
  fs_write :: "string \<Rightarrow> string \<Rightarrow> 'fs \<Rightarrow> 'fs"      \<comment> \<open>an output stream that truncates; no effect if it does not open\<close>
  fs_remove :: "bool \<Rightarrow> string \<Rightarrow> 'fs \<Rightarrow> (unit, 'fs) outcome"
  fs_copy :: "string \<Rightarrow> string \<Rightarrow> 'fs \<Rightarrow> (unit, 'fs) outcome"
  fs_rename :: "string \<Rightarrow> string \<Rightarrow> 'fs \<Rightarrow> (unit, 'fs) outcome"
  fs_mkdir :: "string \<Rightarrow> 'fs \<Rightarrow> (unit, 'fs) outcome"
  fs_list :: "string \<Rightarrow> 'fs \<Rightarrow> string list result"  \<comment> \<open>names in a directory\<close>

section \<open>The laws the code relies on\<close>

text \<open>
  A stream opened on a path whose directory is there (\<open>ready\<close>) writes what it is given; an existing
  file can be renamed to such a path; a path keeps its contents when another one is written or a
  directory is made.
\<close>

definition fs_keeps :: "'fs file_system \<Rightarrow> (string \<Rightarrow> 'fs \<Rightarrow> bool) \<Rightarrow> string set \<Rightarrow> 'fs \<Rightarrow> 'fs \<Rightarrow> bool" where
  "fs_keeps fso ready changed fs fs' \<longleftrightarrow>
     (\<forall>p. p \<notin> changed \<longrightarrow> fs_read fso p fs' = fs_read fso p fs \<and> (fs_exists fso p fs \<longrightarrow> fs_exists fso p fs')) \<and>
     (\<forall>p. ready p fs \<longrightarrow> ready p fs')"

definition fs_lawful :: "'fs file_system \<Rightarrow> (string \<Rightarrow> 'fs \<Rightarrow> bool) \<Rightarrow> bool" where
  "fs_lawful fso ready \<longleftrightarrow>
     (\<forall>p c fs. ready p fs \<longrightarrow> fs_read fso p (fs_write fso p c fs) = c \<and> fs_exists fso p (fs_write fso p c fs)) \<and>
     (\<forall>p c fs. fs_keeps fso ready {p} fs (fs_write fso p c fs)) \<and>
     (\<forall>d fs. \<exists>fs'. fs_mkdir fso d fs = (Inr (), fs') \<and> fs_keeps fso ready {} fs fs') \<and>
     (\<forall>p q fs. fs_exists fso p fs \<longrightarrow> ready q fs \<longrightarrow>
        (\<exists>fs'. fs_rename fso p q fs = (Inr (), fs') \<and> fs_read fso q fs' = fs_read fso p fs \<and> fs_exists fso q fs' \<and>
               fs_keeps fso ready {p, q} fs fs'))"

lemma fs_keeps_refl [simp]: "fs_keeps fso ready S fs fs"
  by (simp add: fs_keeps_def)

lemma fs_keeps_trans:
  "fs_keeps fso ready S fs fs' \<Longrightarrow> fs_keeps fso ready T fs' fs'' \<Longrightarrow> fs_keeps fso ready (S \<union> T) fs fs''"
  by (simp add: fs_keeps_def)

lemma fs_keepsD:
  assumes "fs_keeps fso ready S fs fs'"
  shows "p \<notin> S \<Longrightarrow> fs_read fso p fs' = fs_read fso p fs"
    "p \<notin> S \<Longrightarrow> fs_exists fso p fs \<Longrightarrow> fs_exists fso p fs'"
    "ready p fs \<Longrightarrow> ready p fs'"
  using assms by (simp_all add: fs_keeps_def)

lemma fs_lawfulD:
  assumes "fs_lawful fso ready"
  shows "ready p fs \<Longrightarrow> fs_read fso p (fs_write fso p c fs) = c"
    "ready p fs \<Longrightarrow> fs_exists fso p (fs_write fso p c fs)"
    "fs_keeps fso ready {p} fs (fs_write fso p c fs)"
    "\<exists>fs'. fs_mkdir fso d fs = (Inr (), fs') \<and> fs_keeps fso ready {} fs fs'"
    "fs_exists fso p fs \<Longrightarrow> ready q fs \<Longrightarrow>
        (\<exists>fs'. fs_rename fso p q fs = (Inr (), fs') \<and> fs_read fso q fs' = fs_read fso p fs \<and> fs_exists fso q fs' \<and>
               fs_keeps fso ready {p, q} fs fs')"
  using assms unfolding fs_lawful_def by blast+

section \<open>Paths\<close>

text \<open>\<open>dir + Poco::Path::separator() + name\<close>.\<close>

definition path_in :: "string \<Rightarrow> string \<Rightarrow> string" where
  "path_in dir name = dir @ ''/'' @ name"

lemma path_in_inject [simp]: "path_in dir a = path_in dir b \<longleftrightarrow> a = b"
  by (simp add: path_in_def)

section \<open>\<open>FileUtils\<close>\<close>

definition FileUtils_FileSize :: "'fs file_system \<Rightarrow> string \<Rightarrow> 'fs \<Rightarrow> int" where
  "FileUtils_FileSize fso fileName fs = (if fs_exists fso fileName fs then int (length (fs_read fso fileName fs)) else - 1)"

definition FileUtils_DeleteFile :: "'fs file_system \<Rightarrow> string \<Rightarrow> 'fs \<Rightarrow> (unit, 'fs) outcome" where
  "FileUtils_DeleteFile fso fileName fs =
     (if fileName = [] then (Inr (), fs)
      else if fs_exists fso fileName fs then fs_remove fso False fileName fs
      else (Inr (), fs))"

text \<open>
  The output is opened without \<open>O_TRUNC\<close>: bytes are written from the start and what an existing
  file had beyond them stays.  For an input that does not open, \<open>sendfile\<close> returns \<open>-1\<close>, which is
  added to the count.
\<close>

definition overlay :: "string \<Rightarrow> string \<Rightarrow> string" where
  "overlay new old = new @ drop (length new) old"

definition FileUtils_AppendBinaryFiles :: "'fs file_system \<Rightarrow> string \<Rightarrow> string \<Rightarrow> string list \<Rightarrow> 'fs \<Rightarrow> int \<times> 'fs" where
  "FileUtils_AppendBinaryFiles fso outFile inDir files fs =
     (let contents = map (\<lambda>f. fs_read fso (inDir @ ''/'' @ f) fs) files
      in (sum_list (map (\<lambda>f. if fs_exists fso (inDir @ ''/'' @ f) fs
                           then int (length (fs_read fso (inDir @ ''/'' @ f) fs)) else - 1) files),
          fs_write fso outFile (overlay (concat contents) (fs_read fso outFile fs)) fs))"

section \<open>\<open>DirUtils\<close>\<close>

definition DirUtils_DirectoryExists :: "'fs file_system \<Rightarrow> string \<Rightarrow> 'fs \<Rightarrow> bool" where
  "DirUtils_DirectoryExists fso dirName fs = fs_exists fso dirName fs"

definition DirUtils_EnsureDirectory :: "'fs file_system \<Rightarrow> string \<Rightarrow> 'fs \<Rightarrow> (unit, 'fs) outcome" where
  "DirUtils_EnsureDirectory fso dirName fs =
     (if \<not> DirUtils_DirectoryExists fso dirName fs then fs_mkdir fso dirName fs else (Inr (), fs))"

definition DirUtils_DeleteDirectory :: "'fs file_system \<Rightarrow> bool \<Rightarrow> string \<Rightarrow> 'fs \<Rightarrow> (unit, 'fs) outcome" where
  "DirUtils_DeleteDirectory fso recursive dirName fs =
     (if DirUtils_DirectoryExists fso dirName fs then fs_remove fso recursive dirName fs else (Inr (), fs))"

text \<open>\<open>std::filesystem::path::parent_path\<close>: what is before the last component, without trailing slashes.\<close>

definition FileUtils_GetParentPath :: "string \<Rightarrow> string" where
  "FileUtils_GetParentPath fileName =
     (let r = dropWhile (\<lambda>c. c \<noteq> CHR ''/'') (rev fileName);
          r' = dropWhile (\<lambda>c. c = CHR ''/'') r
      in if r \<noteq> [] \<and> r' = [] then ''/'' else rev r')"

text \<open>\<open>MoveTo\<close> and \<open>CopyTo\<close> make the target's directory; \<open>MoveTo\<close> logs and swallows a failure.\<close>

definition FileUtils_MoveTo :: "'fs file_system \<Rightarrow> string \<Rightarrow> string \<Rightarrow> 'fs \<Rightarrow> 'fs" where
  "FileUtils_MoveTo fso source target fs =
     (let parent = FileUtils_GetParentPath target
      in snd (andthen (if \<not> fs_exists fso parent fs then fs_mkdir fso parent fs else (Inr (), fs))
                (\<lambda>_ fs'. fs_rename fso source target fs')))"

definition FileUtils_CopyTo :: "'fs file_system \<Rightarrow> string \<Rightarrow> string \<Rightarrow> 'fs \<Rightarrow> (unit, 'fs) outcome" where
  "FileUtils_CopyTo fso source target fs =
     andthen (DirUtils_EnsureDirectory fso (FileUtils_GetParentPath target) fs) (\<lambda>_ fs'. fs_copy fso source target fs')"

text \<open>
  \<open>SubstringCompare('-')\<close> compares the numbers behind the first dash.  A name without one makes it
  read past the end of a vector, a name without a number there makes \<open>std::stol\<close> throw; with
  fewer than two names \<open>std::sort\<close> compares nothing.  The order of names with the same number is
  not specified by \<open>std::sort\<close>; the model keeps the order of the directory.
\<close>

definition part_number :: "string \<Rightarrow> int result" where
  "part_number name =
     (let parts = StringUtils_Split name (CHR ''-'')
      in if length parts < 2 then Inl UndefinedBehaviour else stol (parts ! 1))"

definition part_key :: "string \<Rightarrow> int" where
  "part_key name = (case part_number name of Inl e \<Rightarrow> 0 | Inr n \<Rightarrow> n)"

fun first_error :: "'a result list \<Rightarrow> exn option" where
  "first_error [] = None"
| "first_error (Inl e # rs) = Some e"
| "first_error (Inr x # rs) = first_error rs"

definition DirUtils_ListFilesByPrefix :: "'fs file_system \<Rightarrow> string \<Rightarrow> string \<Rightarrow> 'fs \<Rightarrow> string list result" where
  "DirUtils_ListFilesByPrefix fso dirName prefix fs =
     rbind (fs_list fso dirName fs) (\<lambda>names.
       let fileNames = filter (\<lambda>n. StringUtils_StartsWith n prefix) names
       in case (if length fileNames < 2 then None else first_error (map part_number fileNames)) of
            Some e \<Rightarrow> Inl e
          | None \<Rightarrow> Inr (sort_key part_key fileNames))"

section \<open>Digests of files\<close>

text \<open>
  \<open>GetMd5FromFile\<close> reads the file in blocks into one digest: the digest of the contents, and of
  nothing for a file that does not open.
\<close>

definition Crypto_GetMd5FromFile :: "(string \<Rightarrow> string) \<Rightarrow> 'fs file_system \<Rightarrow> string \<Rightarrow> 'fs \<Rightarrow> string" where
  "Crypto_GetMd5FromFile md5 fso fileName fs = Crypto_HexEncode (md5 (fs_read fso fileName fs))"

definition Crypto_GetSha1FromFile :: "(string \<Rightarrow> string) \<Rightarrow> 'fs file_system \<Rightarrow> string \<Rightarrow> 'fs \<Rightarrow> string" where
  "Crypto_GetSha1FromFile sha1 fso fileName fs = Crypto_HexEncode (sha1 (fs_read fso fileName fs))"

definition Crypto_GetSha256FromFile :: "(string \<Rightarrow> string) \<Rightarrow> 'fs file_system \<Rightarrow> string \<Rightarrow> 'fs \<Rightarrow> string" where
  "Crypto_GetSha256FromFile sha256 fso fileName fs = Crypto_HexEncode (sha256 (fs_read fso fileName fs))"

text \<open>
  The file ciphers: the output is a new file beside the input (\<open>.aes256\<close>, \<open>.plain\<close>); encryption
  moves it over the input.  The cipher itself with its key derivation is OpenSSL's, a function of
  the key text and the contents.
\<close>

definition Crypto_Aes256EncryptFile ::
  "(string \<Rightarrow> string \<Rightarrow> string) \<Rightarrow> 'fs file_system \<Rightarrow> string \<Rightarrow> string \<Rightarrow> 'fs \<Rightarrow> 'fs" where
  "Crypto_Aes256EncryptFile encrypt fso filename key fs =
     FileUtils_MoveTo fso (filename @ ''.aes256'') filename
       (fs_write fso (filename @ ''.aes256'') (encrypt key (fs_read fso filename fs)) fs)"

definition Crypto_Aes256DecryptFile ::
  "(string \<Rightarrow> string \<Rightarrow> string) \<Rightarrow> 'fs file_system \<Rightarrow> string \<Rightarrow> string \<Rightarrow> 'fs \<Rightarrow> string \<times> 'fs" where
  "Crypto_Aes256DecryptFile decrypt fso filename key fs =
     (filename @ ''.plain'', fs_write fso (filename @ ''.plain'') (decrypt key (fs_read fso filename fs)) fs)"

section \<open>Numbers\<close>

text \<open>
  \<open>HexToInt\<close>: \<open>std::stoul(hex, nullptr, 16)\<close> converted to \<open>int\<close>.  White space, a sign and \<open>0x\<close>
  are accepted before the digits.
\<close>

definition hex_value :: "char \<Rightarrow> nat option" where
  "hex_value c =
     (let n = of_char c :: nat
      in if 48 \<le> n \<and> n \<le> 57 then Some (n - 48)
         else if 97 \<le> n \<and> n \<le> 102 then Some (n - 87)
         else if 65 \<le> n \<and> n \<le> 70 then Some (n - 55)
         else None)"

fun read_hex :: "nat \<Rightarrow> string \<Rightarrow> nat" where
  "read_hex acc [] = acc"
| "read_hex acc (c # s) = (case hex_value c of Some v \<Rightarrow> read_hex (16 * acc + v) s | None \<Rightarrow> acc)"

definition is_hex :: "char \<Rightarrow> bool" where
  "is_hex c \<longleftrightarrow> hex_value c \<noteq> None"

definition to_int32 :: "int \<Rightarrow> int" where
  "to_int32 v = (v + 2 ^ 31) mod 2 ^ 32 - 2 ^ 31"

definition NumberUtils_HexToInt :: "string \<Rightarrow> int result" where
  "NumberUtils_HexToInt hex =
     (let s1 = dropWhile is_space hex;
          neg = (s1 \<noteq> [] \<and> hd s1 = CHR ''-'');
          s2 = (if s1 \<noteq> [] \<and> (hd s1 = CHR ''-'' \<or> hd s1 = CHR ''+'') then tl s1 else s1);
          s3 = (if 2 < length s2 \<and> s2 ! 0 = CHR ''0'' \<and> (s2 ! 1 = CHR ''x'' \<or> s2 ! 1 = CHR ''X'') \<and> is_hex (s2 ! 2)
                then drop 2 s2 else s2)
      in if s3 = [] \<or> \<not> is_hex (hd s3) then Inl InvalidArgument
         else let v = int (read_hex 0 s3)
              in if 2 ^ 64 \<le> v then Inl OutOfRange
                 else Inr (to_int32 (if neg then - v else v)))"

lemma to_int32_range: "- (2 ^ 31) \<le> to_int32 v \<and> to_int32 v < 2 ^ 31"
proof -
  have "0 \<le> (v + 2 ^ 31) mod 2 ^ 32" "(v + 2 ^ 31) mod 2 ^ 32 < 2 ^ 32" by simp_all
  then show ?thesis unfolding to_int32_def by simp
qed

section \<open>What the helpers do on a lawful file system\<close>

lemma EnsureDirectory_lawful:
  assumes "fs_lawful fso ready"
  obtains fs' where "DirUtils_EnsureDirectory fso d fs = (Inr (), fs')" "fs_keeps fso ready {} fs fs'"
proof (cases "DirUtils_DirectoryExists fso d fs")
  case True
  then show ?thesis using that [of fs] by (simp add: DirUtils_EnsureDirectory_def)
next
  case False
  then show ?thesis using that fs_lawfulD(4) [OF assms, of d fs] by (auto simp: DirUtils_EnsureDirectory_def)
qed

lemma MoveTo_lawful:
  assumes law: "fs_lawful fso ready" and "fs_exists fso p fs" "ready q fs"
  shows "fs_read fso q (FileUtils_MoveTo fso p q fs) = fs_read fso p fs \<and> fs_keeps fso ready {p, q} fs (FileUtils_MoveTo fso p q fs)"
proof -
  obtain fs1 where mk: "(if \<not> fs_exists fso (FileUtils_GetParentPath q) fs then fs_mkdir fso (FileUtils_GetParentPath q) fs else (Inr (), fs)) = (Inr (), fs1)"
    and k1: "fs_keeps fso ready {} fs fs1"
    using fs_lawfulD(4) [OF law, of "FileUtils_GetParentPath q" fs] by (metis fs_keeps_refl)
  have "fs_exists fso p fs1" "ready q fs1" "fs_read fso p fs1 = fs_read fso p fs"
    using fs_keepsD [OF k1] assms(2,3) by simp_all
  then obtain fs2 where "fs_rename fso p q fs1 = (Inr (), fs2)" "fs_read fso q fs2 = fs_read fso p fs"
    "fs_keeps fso ready {p, q} fs1 fs2"
    using fs_lawfulD(5) [OF law, of p fs1 q] by auto
  moreover have "fs_keeps fso ready {p, q} fs fs2" using fs_keeps_trans [OF k1 calculation(3)] by simp
  ultimately show ?thesis by (simp add: FileUtils_MoveTo_def mk)
qed

lemma Aes256EncryptFile_lawful:
  assumes law: "fs_lawful fso ready" and "ready p fs" "ready (p @ ''.aes256'') fs"
  shows "fs_read fso p (Crypto_Aes256EncryptFile enc fso p key fs) = enc key (fs_read fso p fs) \<and>
    fs_keeps fso ready {p, p @ ''.aes256''} fs (Crypto_Aes256EncryptFile enc fso p key fs)"
proof -
  let ?q = "p @ ''.aes256''"
  let ?fs = "fs_write fso ?q (enc key (fs_read fso p fs)) fs"
  have k: "fs_keeps fso ready {?q} fs ?fs" by (rule fs_lawfulD(3) [OF law])
  have m: "fs_read fso p (FileUtils_MoveTo fso ?q p ?fs) = fs_read fso ?q ?fs \<and> fs_keeps fso ready {?q, p} ?fs (FileUtils_MoveTo fso ?q p ?fs)"
    by (rule MoveTo_lawful [OF law]) (use assms fs_lawfulD(2) [OF law] fs_keepsD(3) [OF k] in simp_all)
  moreover have "fs_keeps fso ready {p, ?q} fs (FileUtils_MoveTo fso ?q p ?fs)"
    using fs_keeps_trans [OF k conjunct2 [OF m]] by (simp add: insert_commute)
  ultimately show ?thesis using fs_lawfulD(1) [OF law, of ?q fs] assms(3) by (simp add: Crypto_Aes256EncryptFile_def)
qed

end
