(* ===== verification/KMSMemoryDb.thy ===== *)
theory KMSMemoryDb
  imports EntityStore SQSEntities
begin

text \<open>
  \<open>db/src/memorydb/KMSMemoryDb.cpp\<close>: the keys of the key management service, with the entity of
  \<open>db/include/awsmock/entity/kms/Key.h\<close>.
\<close>

record Key =
  k_oid :: string
  k_region :: string
  k_keyId :: string
  k_keyUsage :: string
  k_keySpec :: string
  k_keyState :: string
  k_arn :: string
  k_description :: string
  k_aes256Key :: string
  k_aes256Iv :: string
  k_rsaPrivateKey :: string
  k_rsaPublicKey :: string
  k_hmac224Key :: string
  k_hmac256Key :: string
  k_hmac384Key :: string
  k_hmac512Key :: string
  k_tags :: "(string, string) smap"
  k_pendingWindowInDays :: int
  k_scheduledDeletion :: int
  k_created :: int
  k_modified :: int

record kms_db =
  kms_keys :: "(string, Key) smap"

definition Key_init :: "int \<Rightarrow> Key" where
  "Key_init now =
     \<lparr>k_oid = [], k_region = [], k_keyId = [], k_keyUsage = [], k_keySpec = [], k_keyState = [], k_arn = [],
      k_description = [], k_aes256Key = [], k_aes256Iv = [], k_rsaPrivateKey = [], k_rsaPublicKey = [],
      k_hmac224Key = [], k_hmac256Key = [], k_hmac384Key = [], k_hmac512Key = [], k_tags = [],
      k_pendingWindowInDays = 0, k_scheduledDeletion = now, k_created = now, k_modified = now\<rparr>"

section \<open>Operations\<close>

definition key_fetch :: "(string \<times> Key \<Rightarrow> bool) \<Rightarrow> int \<Rightarrow> kms_db \<Rightarrow> Key \<times> kms_db" where
  "key_fetch P now db =
     (case smap_fetch P (\<lambda>oid k. k\<lparr>k_oid := oid\<rparr>) (Key_init now) (kms_keys db) of
        (k, ks) \<Rightarrow> (k, db\<lparr>kms_keys := ks\<rparr>))"

definition KMSMemoryDb_KeyExists :: "string \<Rightarrow> kms_db \<Rightarrow> bool" where
  "KMSMemoryDb_KeyExists keyId db \<longleftrightarrow> smap_find_if (\<lambda>(oid, k). k_keyId k = keyId) (kms_keys db) \<noteq> None"

definition KMSMemoryDb_GetKeyById :: "int \<Rightarrow> string \<Rightarrow> kms_db \<Rightarrow> Key \<times> kms_db" where
  "KMSMemoryDb_GetKeyById now oid = key_fetch (\<lambda>(oid', k). oid' = oid) now"

definition KMSMemoryDb_GetKeyByKeyId :: "int \<Rightarrow> string \<Rightarrow> kms_db \<Rightarrow> Key \<times> kms_db" where
  "KMSMemoryDb_GetKeyByKeyId now keyId = key_fetch (\<lambda>(oid, k). k_keyId k = keyId) now"

definition KMSMemoryDb_ListKeys :: "string \<Rightarrow> kms_db \<Rightarrow> Key list" where
  "KMSMemoryDb_ListKeys region db =
     (if region = [] then smap_values (kms_keys db)
      else filter (\<lambda>k. k_region k = region) (smap_values (kms_keys db)))"

definition KMSMemoryDb_CountKeys :: "kms_db \<Rightarrow> int" where
  "KMSMemoryDb_CountKeys db = int (length (kms_keys db))"

definition KMSMemoryDb_CreateKey :: "int \<Rightarrow> string \<Rightarrow> Key \<Rightarrow> kms_db \<Rightarrow> Key \<times> kms_db" where
  "KMSMemoryDb_CreateKey now oid key db =
     KMSMemoryDb_GetKeyById now oid (db\<lparr>kms_keys := smap_put oid key (kms_keys db)\<rparr>)"

text \<open>Of the update operations of the stores, \<open>UpdateKey\<close> is the one that tests for the end iterator.\<close>

definition KMSMemoryDb_UpdateKey :: "Key \<Rightarrow> kms_db \<Rightarrow> Key \<times> kms_db" where
  "KMSMemoryDb_UpdateKey key db =
     (case smap_find_if (\<lambda>(oid, k). k_keyId k = k_keyId key) (kms_keys db) of
        None \<Rightarrow> (key, db)
      | Some (oid, _) \<Rightarrow> (key, db\<lparr>kms_keys := smap_put oid key (kms_keys db)\<rparr>))"

definition KMSMemoryDb_DeleteKey :: "Key \<Rightarrow> kms_db \<Rightarrow> kms_db" where
  "KMSMemoryDb_DeleteKey key db =
     db\<lparr>kms_keys := smap_erase_if (\<lambda>(oid, k). k_keyId k = k_keyId key) (kms_keys db)\<rparr>"

definition KMSMemoryDb_DeleteAllKeys :: "kms_db \<Rightarrow> kms_db" where
  "KMSMemoryDb_DeleteAllKeys db = db\<lparr>kms_keys := []\<rparr>"

section \<open>The table of keys\<close>

definition kms_inv :: "kms_db \<Rightarrow> bool" where
  "kms_inv db \<longleftrightarrow> rows_tagged k_oid (kms_keys db)"

lemma kms_invD: "kms_inv db \<Longrightarrow> rows_tagged k_oid (kms_keys db)" "kms_inv db \<Longrightarrow> smap_inv (kms_keys db)"
  by (simp_all add: kms_inv_def rows_tagged_inv)

lemma key_fetch_inv:
  "kms_inv db \<Longrightarrow> key_fetch P now db =
     (case smap_find_if P (kms_keys db) of None \<Rightarrow> Key_init now | Some (oid, k) \<Rightarrow> k, db)"
  by (simp add: key_fetch_def smap_fetch_tagged [where oid_of = k_oid] kms_invD)

lemma CreateKey_eq:
  "kms_inv db \<Longrightarrow> KMSMemoryDb_CreateKey now oid k db =
     (k\<lparr>k_oid := oid\<rparr>, db\<lparr>kms_keys := smap_put oid (k\<lparr>k_oid := oid\<rparr>) (kms_keys db)\<rparr>)"
  by (simp add: KMSMemoryDb_CreateKey_def KMSMemoryDb_GetKeyById_def key_fetch_def smap_fetch_def
      smap_find_if_key kms_invD)

interpretation key_table: entity_table kms_inv kms_keys k_oid "\<lambda>oid k. k\<lparr>k_oid := oid\<rparr>"
  KMSMemoryDb_CreateKey KMSMemoryDb_GetKeyById Key_init KMSMemoryDb_DeleteAllKeys
proof unfold_locales
  fix db now oid and e :: Key
  assume inv: "kms_inv db"
  show "rows_tagged k_oid (kms_keys db)" using inv by (rule kms_invD)
  show "fst (KMSMemoryDb_CreateKey now oid e db) = e\<lparr>k_oid := oid\<rparr>"
    "kms_keys (snd (KMSMemoryDb_CreateKey now oid e db)) = smap_put oid (e\<lparr>k_oid := oid\<rparr>) (kms_keys db)"
    "kms_inv (snd (KMSMemoryDb_CreateKey now oid e db))"
    using inv by (simp_all add: CreateKey_eq kms_inv_def rows_tagged_put)
  show "smap_get oid (kms_keys db) = Some e \<Longrightarrow> KMSMemoryDb_GetKeyById now oid db = (e, db)"
    "smap_get oid (kms_keys db) = None \<Longrightarrow> KMSMemoryDb_GetKeyById now oid db = (Key_init now, db)"
    using inv by (simp_all add: KMSMemoryDb_GetKeyById_def key_fetch_inv smap_find_if_key kms_invD)
  show "kms_inv (KMSMemoryDb_DeleteAllKeys db)"
    using inv by (simp add: KMSMemoryDb_DeleteAllKeys_def kms_inv_def)
qed (simp add: KMSMemoryDb_DeleteAllKeys_def)

end
