(* ===== verification/S3Service.thy ===== *)
theory S3Service
  imports S3MemoryDb FileStore KMSMemoryDb SNSService
begin

text \<open>
  \<open>service/src/s3/S3Service.cpp\<close>, \<open>S3HashCreator.cpp\<close> and \<open>S3Worker.cpp\<close>: one definition per
  method.  The service works on its own store, on the SQS and SNS stores (through their services),
  on the keys of KMS and on files.  Checksum jobs it starts in detached threads are collected in
  \<open>ss_jobs\<close>; running one is \<open>S3HashCreator_run\<close>, at any later moment.
\<close>

section \<open>Surroundings and state\<close>

text \<open>
  \<open>w_content_md5\<close> is \<open>HexEncode(Base64Decode(s))\<close>, both Poco's; \<open>w_encrypt\<close> and \<open>w_decrypt\<close> are
  OpenSSL's cipher with its key derivation, from the key text; \<open>w_invoke_lambda\<close> is
  \<open>LambdaService::InvokeLambdaFunction\<close> (function, payload, region, user), which talks to a
  container; \<open>w_object_version\<close> is the MongoDB query of \<open>S3Database::GetObjectVersion\<close>, which has
  no in-memory branch.
\<close>

record 'fs s3_world =
  w_cfg :: config
  w_ext :: externals
  w_fso :: "'fs file_system"
  w_encrypt :: "string \<Rightarrow> string \<Rightarrow> string"
  w_decrypt :: "string \<Rightarrow> string \<Rightarrow> string"
  w_sha1 :: "string \<Rightarrow> string"
  w_sha256 :: "string \<Rightarrow> string"
  w_content_md5 :: "string \<Rightarrow> string"
  w_invoke_lambda :: "string \<Rightarrow> string \<Rightarrow> string \<Rightarrow> string \<Rightarrow> unit result"
  w_object_version :: "string \<Rightarrow> string \<Rightarrow> string \<Rightarrow> string \<Rightarrow> Object result"

record 'fs s3_state =
  ss_db :: s3_db
  ss_msg :: messaging
  ss_kms :: kms_db
  ss_fs :: 'fs
  ss_jobs :: "(string \<times> Object) list"

text \<open>What one call draws: clocks and generated identifiers.\<close>

record event_draws =
  ed_etag :: string
  ed_time :: string

record check_draws =
  cd_init :: int
  cd_queue :: event_draws
  cd_topic :: event_draws
  cd_lambda :: event_draws
  cd_send :: send_draws
  cd_publish :: publish_draws

record s3_draws =
  x_now :: int
  x_oid :: string
  x_file :: string
  x_version :: string
  x_date :: string
  x_check :: check_draws

text \<open>Operations of one part of the state, lifted to the whole.\<close>

definition on_db :: "(s3_db \<Rightarrow> 'a \<times> s3_db) \<Rightarrow> 'fs s3_state \<Rightarrow> 'a \<times> 'fs s3_state" where
  "on_db f st = (case f (ss_db st) of (x, db) \<Rightarrow> (x, st\<lparr>ss_db := db\<rparr>))"

definition on_fs :: "('fs \<Rightarrow> 'a \<times> 'fs) \<Rightarrow> 'fs s3_state \<Rightarrow> 'a \<times> 'fs s3_state" where
  "on_fs f st = (case f (ss_fs st) of (x, fs) \<Rightarrow> (x, st\<lparr>ss_fs := fs\<rparr>))"

definition on_msg :: "(messaging \<Rightarrow> 'a \<times> messaging) \<Rightarrow> 'fs s3_state \<Rightarrow> 'a \<times> 'fs s3_state" where
  "on_msg f st = (case f (ss_msg st) of (x, m) \<Rightarrow> (x, st\<lparr>ss_msg := m\<rparr>))"

definition s3_dir :: "config \<Rightarrow> string" where
  "s3_dir cfg = path_in (cfg_dataDir cfg) ''s3''"

section \<open>Event notifications\<close>

text \<open>\<open>dto/include/awsmock/dto/s3/model/EventNotification.h\<close>.\<close>

record EvBucket =
  eb_name :: string
  eb_principalId :: string
  eb_arn :: string

record EvObject =
  eo_key :: string
  eo_size :: int
  eo_etag :: string
  eo_versionId :: string
  eo_sequencer :: string

record EvS3 =
  es_s3SchemaVersion :: string
  es_configurationId :: string
  es_bucket :: EvBucket
  es_object :: EvObject

record EvRecord =
  er_eventVersion :: string
  er_eventSource :: string
  er_region :: string
  er_eventTime :: string
  er_eventName :: string
  er_principalId :: string
  er_s3 :: EvS3

definition EvBucket_ToJsonObject :: "EvBucket \<Rightarrow> json" where
  "EvBucket_ToJsonObject b = json_object
     [(''name'', JString (eb_name b)),
      (''ownerIdentity'', json_object [(''principalId'', JString (eb_principalId b))]),
      (''arn'', JString (eb_arn b))]"

definition EvObject_ToJsonObject :: "EvObject \<Rightarrow> json" where
  "EvObject_ToJsonObject ob = json_object
     [(''key'', JString (eo_key ob)), (''size'', JInt (eo_size ob)), (''etag'', JString (eo_etag ob)),
      (''versionId'', JString (eo_versionId ob)), (''sequencer'', JString (eo_sequencer ob))]"

definition EvS3_ToJsonObject :: "EvS3 \<Rightarrow> json" where
  "EvS3_ToJsonObject s = json_object
     [(''s3SchemaVersion'', JString (es_s3SchemaVersion s)), (''configurationId'', JString (es_configurationId s)),
      (''bucket'', EvBucket_ToJsonObject (es_bucket s)), (''object'', EvObject_ToJsonObject (es_object s))]"

definition EvRecord_ToJsonObject :: "EvRecord \<Rightarrow> json" where
  "EvRecord_ToJsonObject r = json_object
     [(''eventVersion'', JString (er_eventVersion r)), (''eventSource'', JString (er_eventSource r)),
      (''awsRegion'', JString (er_region r)), (''eventTime'', JString (er_eventTime r)),
      (''eventName'', JString (er_eventName r)),
      (''userIdentity'', json_object [(''principalId'', JString (er_principalId r))]),
      (''s3'', EvS3_ToJsonObject (er_s3 r))]"

definition EventNotification_ToJson :: "externals \<Rightarrow> EvRecord list \<Rightarrow> string" where
  "EventNotification_ToJson ext records =
     ext_json_stringify ext (json_object [(''Records'', JArray (map EvRecord_ToJsonObject records))])"

text \<open>The record \<open>CheckNotifications\<close> builds for a notification.\<close>

definition event_record :: "event_draws \<Rightarrow> string \<Rightarrow> Bucket \<Rightarrow> string \<Rightarrow> int \<Rightarrow> string \<Rightarrow> Notification \<Rightarrow> EvRecord" where
  "event_record d region bucketEntity key sz event n =
     \<lparr>er_eventVersion = ''2.2'', er_eventSource = ''aws:s3'', er_region = region, er_eventTime = ed_time d,
      er_eventName = event, er_principalId = [],
      er_s3 = \<lparr>es_s3SchemaVersion = ''1.0'', es_configurationId = no_id n,
               es_bucket = \<lparr>eb_name = b_name bucketEntity, eb_principalId = [], eb_arn = []\<rparr>,
               es_object = \<lparr>eo_key = key, eo_size = sz, eo_etag = ed_etag d, eo_versionId = [], eo_sequencer = []\<rparr>\<rparr>\<rparr>"

definition s3_queue_request :: "config \<Rightarrow> externals \<Rightarrow> EvRecord list \<Rightarrow> Notification \<Rightarrow> SendMessageRequest" where
  "s3_queue_request cfg ext eventNotification n =
     \<lparr>smr_region = cfg_region cfg, smr_queueUrl = AwsUtils_ConvertSQSQueueArnToUrl cfg (no_arn n),
      smr_queueArn = no_arn n, smr_queueName = [], smr_body = EventNotification_ToJson ext eventNotification,
      smr_attributes = [], smr_messageAttributes = [], smr_messageId = [], smr_senderId = [],
      smr_md5sum = [], smr_requestId = []\<rparr>"

definition S3Service_SendQueueNotificationRequest ::
  "config \<Rightarrow> externals \<Rightarrow> send_draws \<Rightarrow> EvRecord list \<Rightarrow> Notification \<Rightarrow> messaging \<Rightarrow> (unit, messaging) outcome" where
  "S3Service_SendQueueNotificationRequest cfg ext d eventNotification n msg =
     (case SQSService_SendMessage ext d (s3_queue_request cfg ext eventNotification n) (mg_sqs msg) of
        (r, sqs) \<Rightarrow> (case r of Inl e \<Rightarrow> Inl e | Inr _ \<Rightarrow> Inr (), msg\<lparr>mg_sqs := sqs\<rparr>))"

text \<open>The request sets \<open>targetArn\<close>, not \<open>topicArn\<close>.\<close>

definition S3Service_SendTopicNotificationRequest ::
  "config \<Rightarrow> externals \<Rightarrow> publish_draws \<Rightarrow> EvRecord list \<Rightarrow> Notification \<Rightarrow> messaging \<Rightarrow> (unit, messaging) outcome" where
  "S3Service_SendTopicNotificationRequest cfg ext d eventNotification n msg =
     andthen (SNSService_Publish ext d
                \<lparr>pbr_region = cfg_region cfg, pbr_topicArn = [], pbr_targetArn = no_arn n,
                 pbr_message = EventNotification_ToJson ext eventNotification\<rparr> msg)
       (\<lambda>_ msg'. (Inr (), msg'))"

text \<open>\<open>parts[6]\<close> is read without a test of the length.\<close>

definition S3Service_SendLambdaInvocationRequest ::
  "config \<Rightarrow> externals \<Rightarrow> (string \<Rightarrow> string \<Rightarrow> string \<Rightarrow> string \<Rightarrow> unit result) \<Rightarrow> EvRecord list \<Rightarrow> Notification \<Rightarrow> unit result" where
  "S3Service_SendLambdaInvocationRequest cfg ext invoke eventNotification n =
     (let parts = StringUtils_Split (no_arn n) (CHR '':'')
      in if length parts \<le> 6 then Inl UndefinedBehaviour
         else invoke (parts ! 6) (EventNotification_ToJson ext eventNotification) (cfg_region cfg) (cfg_user cfg))"

text \<open>Each of the three blocks of \<open>CheckNotifications\<close>: the first notification for the event, if its filter lets the key pass.\<close>

definition notify_first ::
  "Notification option \<Rightarrow> string \<Rightarrow> (Notification \<Rightarrow> 's \<Rightarrow> (unit, 's) outcome) \<Rightarrow> 's \<Rightarrow> (unit, 's) outcome" where
  "notify_first found key send s =
     (case found of
        None \<Rightarrow> (Inr (), s)
      | Some n \<Rightarrow> if Notification_CheckFilter key n then send n s else (Inr (), s))"

definition S3Service_CheckNotifications ::
  "'fs s3_world \<Rightarrow> check_draws \<Rightarrow> string \<Rightarrow> string \<Rightarrow> string \<Rightarrow> int \<Rightarrow> string \<Rightarrow> 'fs s3_state \<Rightarrow> (unit, 'fs s3_state) outcome" where
  "S3Service_CheckNotifications w d region bucket key sz event st =
     (case on_db (S3MemoryDb_GetBucketByRegionName (cd_init d) region bucket) st of
        (b, st1) \<Rightarrow>
          andthen (notify_first (Bucket_GetQueueNotification event b) key
            (\<lambda>n. on_msg (S3Service_SendQueueNotificationRequest (w_cfg w) (w_ext w) (cd_send d)
                          [event_record (cd_queue d) region b key sz event n] n)) st1) (\<lambda>_ st2.
          andthen (notify_first (Bucket_GetTopicNotification event b) key
            (\<lambda>n. on_msg (S3Service_SendTopicNotificationRequest (w_cfg w) (w_ext w) (cd_publish d)
                          [event_record (cd_topic d) region b key sz event n] n)) st2) (\<lambda>_ st3.
          notify_first (Bucket_GetLambdaNotification event b) key
            (\<lambda>n st4. (S3Service_SendLambdaInvocationRequest (w_cfg w) (w_ext w) (w_invoke_lambda w)
                          [event_record (cd_lambda d) region b key sz event n] n, st4)) st3)))"

section \<open>Buckets\<close>

text \<open>Guards: \<open>if (!_database.BucketExists(\<dots>)) throw Core::NotFoundException(\<dots>)\<close>.\<close>

definition need_bucket :: "string \<Rightarrow> string \<Rightarrow> string \<Rightarrow> 'fs s3_state \<Rightarrow> ('fs s3_state \<Rightarrow> ('a, 'fs s3_state) outcome) \<Rightarrow> ('a, 'fs s3_state) outcome" where
  "need_bucket region name message st k =
     (if S3MemoryDb_BucketExists region name (ss_db st) then k st else (Inl (NotFoundException message), st))"

lemma need_bucket_cases:
  "S3MemoryDb_BucketExists region name (ss_db st) \<Longrightarrow> need_bucket region name msg st k = k st"
  "\<not> S3MemoryDb_BucketExists region name (ss_db st) \<Longrightarrow> need_bucket region name msg st k = (Inl (NotFoundException msg), st)"
  by (simp_all add: need_bucket_def)

record CreateBucketRequest =
  cbr_region :: string
  cbr_name :: string
  cbr_owner :: string

record CreateBucketResponse =
  cbs_location :: string
  cbs_arn :: string

definition S3Service_CreateBucket ::
  "'fs s3_world \<Rightarrow> s3_draws \<Rightarrow> CreateBucketRequest \<Rightarrow> 'fs s3_state \<Rightarrow> (CreateBucketResponse, 'fs s3_state) outcome" where
  "S3Service_CreateBucket w d request st =
     (let arn = CreateArn ''s3'' (cbr_region request) (cfg_accountId (w_cfg w)) (cbr_name request)
      in if S3MemoryDb_BucketExists (cbr_region request) (cbr_name request) (ss_db st)
         then (case on_db (S3MemoryDb_GetBucketByRegionName (x_now d) (cbr_region request) (cbr_name request)) st of
                 (bucket, st') \<Rightarrow> (Inr \<lparr>cbs_location = b_region bucket, cbs_arn = arn\<rparr>, st'))
         else (case on_db (S3MemoryDb_CreateBucket (x_now d) (x_oid d)
                       ((Bucket_init (x_now d))\<lparr>b_region := cbr_region request, b_name := cbr_name request,
                          b_owner := cbr_owner request\<rparr>)) st of
                 (_, st') \<Rightarrow> (Inr \<lparr>cbs_location = cbr_region request, cbs_arn = arn\<rparr>, st')))"

record GetMetadataResponse =
  gmr_region :: string
  gmr_bucket :: string
  gmr_key :: string
  gmr_md5Sum :: string
  gmr_contentType :: string
  gmr_size :: int
  gmr_metadata :: "(string, string) smap"
  gmr_created :: int
  gmr_modified :: int

text \<open>The requests of both metadata calls are region, bucket and key; the bucket call ignores the key.\<close>

definition S3Service_GetBucketMetadata ::
  "s3_draws \<Rightarrow> string \<Rightarrow> string \<Rightarrow> 'fs s3_state \<Rightarrow> (GetMetadataResponse, 'fs s3_state) outcome" where
  "S3Service_GetBucketMetadata d region bucket st =
     need_bucket region bucket ''Bucket does not exist'' st (\<lambda>st.
       case on_db (S3MemoryDb_GetBucketByRegionName (x_now d) region bucket) st of
         (b, st') \<Rightarrow> (Inr \<lparr>gmr_region = b_region b, gmr_bucket = b_name b, gmr_key = [], gmr_md5Sum = [],
                           gmr_contentType = [], gmr_size = 0, gmr_metadata = [], gmr_created = b_created b,
                           gmr_modified = b_modified b\<rparr>, st'))"

definition wanted :: "string \<Rightarrow> string \<Rightarrow> string \<Rightarrow> Object" where
  "wanted region bucket key = (Object_init 0)\<lparr>o_region := region, o_bucket := bucket, o_key := key\<rparr>"

text \<open>An empty key skips the existence test of the object.\<close>

definition need_object :: "string \<Rightarrow> string \<Rightarrow> string \<Rightarrow> string \<Rightarrow> 'fs s3_state \<Rightarrow> ('fs s3_state \<Rightarrow> ('a, 'fs s3_state) outcome) \<Rightarrow> ('a, 'fs s3_state) outcome" where
  "need_object region bucket key message st k =
     (if S3MemoryDb_ObjectExists (wanted region bucket key) (ss_db st) then k st else (Inl (NotFoundException message), st))"

definition S3Service_GetObjectMetadata ::
  "s3_draws \<Rightarrow> string \<Rightarrow> string \<Rightarrow> string \<Rightarrow> 'fs s3_state \<Rightarrow> (GetMetadataResponse, 'fs s3_state) outcome" where
  "S3Service_GetObjectMetadata d region bucket key st =
     need_bucket region bucket ''Bucket does not exist'' st (\<lambda>st.
       let get = (\<lambda>st. case on_db (S3MemoryDb_GetObject (x_now d) region bucket key) st of
             (ob, st') \<Rightarrow> (Inr \<lparr>gmr_region = [], gmr_bucket = o_bucket ob, gmr_key = o_key ob, gmr_md5Sum = o_md5sum ob,
                                gmr_contentType = o_contentType ob, gmr_size = o_size ob, gmr_metadata = o_metadata ob,
                                gmr_created = o_created ob, gmr_modified = o_modified ob\<rparr>, st'))
       in if key \<noteq> [] then need_object region bucket key ''Object does not exist'' st get else get st)"

definition S3Service_ListAllBuckets :: "'fs s3_state \<Rightarrow> Bucket list" where
  "S3Service_ListAllBuckets st = S3MemoryDb_ListBuckets (ss_db st)"

record Content =
  co_key :: string
  co_etag :: string
  co_size :: int
  co_owner :: string
  co_lastModified :: int

definition ListBucketResponse_contents :: "Object list \<Rightarrow> Content list" where
  "ListBucketResponse_contents objectList =
     map (\<lambda>ob. \<lparr>co_key = o_key ob, co_etag = o_md5sum ob, co_size = o_size ob, co_owner = o_owner ob,
                co_lastModified = o_modified ob\<rparr>) objectList"

definition S3Service_ListBucket :: "string \<Rightarrow> string \<Rightarrow> 'fs s3_state \<Rightarrow> Content list" where
  "S3Service_ListBucket name prefix st = ListBucketResponse_contents (S3MemoryDb_ListBucket name prefix (ss_db st))"

text \<open>\<open>PutBucketVersioning\<close> has no \<open>try\<close>.\<close>

definition S3Service_PutBucketVersioning ::
  "s3_draws \<Rightarrow> string \<Rightarrow> string \<Rightarrow> string \<Rightarrow> 'fs s3_state \<Rightarrow> (unit, 'fs s3_state) outcome" where
  "S3Service_PutBucketVersioning d region bucket status st =
     need_bucket region bucket ''Bucket does not exist'' st (\<lambda>st.
       case on_db (S3MemoryDb_GetBucketByRegionName (x_now d) region bucket) st of
         (b, st') \<Rightarrow> andthen (on_db (S3MemoryDb_UpdateBucket (b\<lparr>b_versionStatus := BucketVersionStatusFromString (to_lower status)\<rparr>)) st')
                       (\<lambda>_ st''. (Inr (), st'')))"

definition S3Service_PutBucketEncryption ::
  "s3_draws \<Rightarrow> string \<Rightarrow> string \<Rightarrow> BucketEncryption \<Rightarrow> 'fs s3_state \<Rightarrow> (unit, 'fs s3_state) outcome" where
  "S3Service_PutBucketEncryption d region bucket encryption st =
     need_bucket region bucket ''Bucket does not exist'' st (\<lambda>st. catch_poco (
       case on_db (S3MemoryDb_GetBucketByRegionName (x_now d) region bucket) st of
         (b, st') \<Rightarrow> andthen (on_db (S3MemoryDb_UpdateBucket (b\<lparr>b_bucketEncryption := encryption\<rparr>)) st')
                       (\<lambda>_ st''. (Inr (), st''))))"

text \<open>The directory of the bucket goes before the bucket itself.\<close>

definition S3Service_DeleteBucketDirectory :: "'fs s3_world \<Rightarrow> string \<Rightarrow> 'fs s3_state \<Rightarrow> (unit, 'fs s3_state) outcome" where
  "S3Service_DeleteBucketDirectory w name st =
     andthen (on_fs (DirUtils_EnsureDirectory (w_fso w) (s3_dir (w_cfg w))) st) (\<lambda>_.
       on_fs (DirUtils_DeleteDirectory (w_fso w) True (path_in (s3_dir (w_cfg w)) name)))"

definition S3Service_DeleteBucket :: "'fs s3_world \<Rightarrow> string \<Rightarrow> string \<Rightarrow> 'fs s3_state \<Rightarrow> (unit, 'fs s3_state) outcome" where
  "S3Service_DeleteBucket w region bucket st =
     (let b = (Bucket_init 0)\<lparr>b_region := region, b_name := bucket\<rparr>
      in need_bucket region bucket ''Bucket does not exist'' st (\<lambda>st.
           if S3MemoryDb_HasObjects b (ss_db st) then (Inl (NotFoundException ''Bucket is not empty''), st)
           else catch_poco (andthen (S3Service_DeleteBucketDirectory w bucket st)
                  (\<lambda>_ st'. (Inr (), st'\<lparr>ss_db := S3MemoryDb_DeleteBucket b (ss_db st')\<rparr>)))))"

section \<open>Notification configurations\<close>

record PutBucketNotificationRequest =
  pbn_region :: string
  pbn_bucket :: string
  pbn_lambdaArn :: string
  pbn_queueArn :: string
  pbn_notificationId :: string
  pbn_event :: string

definition S3Service_CreateQueueConfiguration ::
  "int \<Rightarrow> Bucket \<Rightarrow> PutBucketNotificationRequest \<Rightarrow> s3_db \<Rightarrow> (Bucket, s3_db) outcome" where
  "S3Service_CreateQueueConfiguration now bucket request =
     S3Database_CreateBucketNotification now bucket
       \<lparr>bn_event = pbn_event request, bn_notificationId = pbn_notificationId request,
        bn_queueArn = pbn_queueArn request, bn_lambdaArn = []\<rparr>"

definition S3Service_CreateLambdaConfiguration ::
  "int \<Rightarrow> Bucket \<Rightarrow> PutBucketNotificationRequest \<Rightarrow> s3_db \<Rightarrow> (Bucket, s3_db) outcome" where
  "S3Service_CreateLambdaConfiguration now bucket request =
     S3Database_CreateBucketNotification now bucket
       \<lparr>bn_event = pbn_event request, bn_notificationId = pbn_notificationId request,
        bn_queueArn = [], bn_lambdaArn = pbn_lambdaArn request\<rparr>"

definition S3Service_PutBucketNotification ::
  "s3_draws \<Rightarrow> PutBucketNotificationRequest \<Rightarrow> 'fs s3_state \<Rightarrow> (unit, 'fs s3_state) outcome" where
  "S3Service_PutBucketNotification d request st =
     need_bucket (pbn_region request) (pbn_bucket request) (''Bucket does not exist, name: '' @ pbn_bucket request) st (\<lambda>st.
       case on_db (S3MemoryDb_GetBucketByRegionName (x_now d) (pbn_region request) (pbn_bucket request)) st of
         (bucket, st') \<Rightarrow>
           if Bucket_HasNotification (pbn_event request) bucket
           then (Inl (NotFoundException ''Bucket notification exists already''), st')
           else catch_poco
             (if pbn_lambdaArn request \<noteq> []
              then andthen (on_db (S3Service_CreateLambdaConfiguration (x_now d) bucket request) st') (\<lambda>_ st''. (Inr (), st''))
              else if pbn_queueArn request \<noteq> []
              then andthen (on_db (S3Service_CreateQueueConfiguration (x_now d) bucket request) st') (\<lambda>_ st''. (Inr (), st''))
              else (Inr (), st')))"

text \<open>
  The configurations of a request, for queues, topics and functions alike: \<open>nc_events\<close> are the
  strings \<open>EventTypeToString\<close> gives, \<open>nc_filterRules\<close> the rules with \<open>NameTypeToString\<close> applied.
\<close>

datatype NotificationEventType =
    REDUCED_REDUNDANCY_LOST_OBJECT | OBJECT_CREATED | OBJECT_REMOVED | OBJECT_RESTORED | REPLICATION | OBJECT_RESTORE
  | OBJECT_LIFECYCLE_TRANSITION | INTELLIGENT_TIERING | OBJECT_ACL | LIFECYCLE_EXPIRATION | OBJECT_TAGGING

fun EventTypeToString :: "NotificationEventType \<Rightarrow> string" where
  "EventTypeToString REDUCED_REDUNDANCY_LOST_OBJECT = ''ReducedRedundancyLostObject ''"
| "EventTypeToString OBJECT_CREATED = ''ObjectCreated''"
| "EventTypeToString OBJECT_REMOVED = ''ObjectRemoved''"
| "EventTypeToString OBJECT_RESTORED = ''ObjectRestore''"
| "EventTypeToString REPLICATION = ''Replication''"
| "EventTypeToString OBJECT_RESTORE = ''ObjectRestore''"
| "EventTypeToString OBJECT_LIFECYCLE_TRANSITION = ''LifecycleTransition ''"
| "EventTypeToString INTELLIGENT_TIERING = ''IntelligentTiering ''"
| "EventTypeToString OBJECT_ACL = ''ObjectAcl''"
| "EventTypeToString LIFECYCLE_EXPIRATION = ''LifecycleExpiration''"
| "EventTypeToString OBJECT_TAGGING = ''ObjectTagging''"

definition event_types :: "NotificationEventType list" where
  "event_types =
     [REDUCED_REDUNDANCY_LOST_OBJECT, OBJECT_CREATED, OBJECT_REMOVED, OBJECT_RESTORED, REPLICATION, OBJECT_RESTORE,
      OBJECT_LIFECYCLE_TRANSITION, INTELLIGENT_TIERING, OBJECT_ACL, LIFECYCLE_EXPIRATION, OBJECT_TAGGING]"

text \<open>The names are searched in the order of the enumeration; an unknown name is \<open>OBJECT_CREATED\<close>.\<close>

definition EventTypeFromString :: "string \<Rightarrow> NotificationEventType" where
  "EventTypeFromString s =
     (case List.find (\<lambda>t. EventTypeToString t = s) event_types of Some t \<Rightarrow> t | None \<Rightarrow> OBJECT_CREATED)"

datatype NameType = PrefixRule | SuffixRule

fun NameTypeToString :: "NameType \<Rightarrow> string" where
  "NameTypeToString PrefixRule = ''prefix''"
| "NameTypeToString SuffixRule = ''suffix''"

definition NameTypeFromString :: "string \<Rightarrow> NameType" where
  "NameTypeFromString s = (if s = ''prefix'' then PrefixRule else if s = ''suffix'' then SuffixRule else PrefixRule)"

record NotificationConfiguration =
  nc_id :: string
  nc_arn :: string
  nc_filterRules :: "(NameType \<times> string) list"
  nc_events :: "NotificationEventType list"

definition configured_notification :: "string \<Rightarrow> NotificationConfiguration \<Rightarrow> Notification" where
  "configured_notification uuid c =
     \<lparr>no_id = (if nc_id c = [] then uuid else nc_id c), no_events = map EventTypeToString (nc_events c), no_arn = nc_arn c,
      no_filterRules = map (\<lambda>(name, value). \<lparr>fr_name = NameTypeToString name, fr_value = value\<rparr>) (nc_filterRules c)\<rparr>"

text \<open>A configuration whose id the bucket has already ends the loop (\<open>break\<close>), it is not skipped.\<close>

fun configuration_loop ::
  "(nat \<Rightarrow> string) \<Rightarrow> nat \<Rightarrow> NotificationConfiguration list \<Rightarrow> Notification list \<Rightarrow> Notification list" where
  "configuration_loop uuids i [] ns = ns"
| "configuration_loop uuids i (c # cs) ns =
     (if nc_id c \<noteq> [] \<and> has_notification_id (nc_id c) ns then ns
      else configuration_loop uuids (Suc i) cs (ns @ [configured_notification (uuids i) c]))"

definition S3Service_GetQueueNotificationConfigurations ::
  "(nat \<Rightarrow> string) \<Rightarrow> NotificationConfiguration list \<Rightarrow> Bucket \<Rightarrow> Bucket" where
  "S3Service_GetQueueNotificationConfigurations uuids cs bucket =
     bucket\<lparr>b_queueNotifications := configuration_loop uuids 0 cs (b_queueNotifications bucket)\<rparr>"

definition S3Service_GetTopicNotificationConfigurations ::
  "(nat \<Rightarrow> string) \<Rightarrow> NotificationConfiguration list \<Rightarrow> Bucket \<Rightarrow> Bucket" where
  "S3Service_GetTopicNotificationConfigurations uuids cs bucket =
     bucket\<lparr>b_topicNotifications := configuration_loop uuids 0 cs (b_topicNotifications bucket)\<rparr>"

definition S3Service_GetLambdaNotificationConfigurations ::
  "(nat \<Rightarrow> string) \<Rightarrow> NotificationConfiguration list \<Rightarrow> Bucket \<Rightarrow> Bucket" where
  "S3Service_GetLambdaNotificationConfigurations uuids cs bucket =
     bucket\<lparr>b_lambdaNotifications := configuration_loop uuids 0 cs (b_lambdaNotifications bucket)\<rparr>"

record PutBucketNotificationConfigurationRequest =
  pbc_region :: string
  pbc_bucket :: string
  pbc_topicConfigurations :: "NotificationConfiguration list"
  pbc_queueConfigurations :: "NotificationConfiguration list"
  pbc_lambdaConfigurations :: "NotificationConfiguration list"

text \<open>The response repeats the queue configurations of the request.\<close>

definition S3Service_PutBucketNotificationConfiguration ::
  "s3_draws \<Rightarrow> (nat \<Rightarrow> string) \<Rightarrow> (nat \<Rightarrow> string) \<Rightarrow> (nat \<Rightarrow> string) \<Rightarrow> PutBucketNotificationConfigurationRequest \<Rightarrow>
   'fs s3_state \<Rightarrow> (NotificationConfiguration list, 'fs s3_state) outcome" where
  "S3Service_PutBucketNotificationConfiguration d uq ut ul request st =
     need_bucket (pbc_region request) (pbc_bucket request) ''Bucket does not exist'' st (\<lambda>st. catch_poco (
       case on_db (S3MemoryDb_GetBucketByRegionName (x_now d) (pbc_region request) (pbc_bucket request)) st of
         (bucket, st') \<Rightarrow>
           let b1 = S3Service_GetQueueNotificationConfigurations uq (pbc_queueConfigurations request) bucket;
               b2 = S3Service_GetTopicNotificationConfigurations ut (pbc_topicConfigurations request) b1;
               b3 = S3Service_GetLambdaNotificationConfigurations ul (pbc_lambdaConfigurations request) b2
           in andthen (on_db (S3MemoryDb_UpdateBucket b3) st') (\<lambda>_ st''. (Inr (pbc_queueConfigurations request), st''))))"

section \<open>Storing objects\<close>

definition S3Service_CheckEncryption :: "'fs s3_world \<Rightarrow> int \<Rightarrow> Bucket \<Rightarrow> Object \<Rightarrow> 'fs s3_state \<Rightarrow> (unit, 'fs s3_state) outcome" where
  "S3Service_CheckEncryption w now bucket ob st =
     andthen (on_fs (DirUtils_EnsureDirectory (w_fso w) (s3_dir (w_cfg w))) st) (\<lambda>_ st1.
       if Bucket_HasEncryption bucket
       then (case KMSMemoryDb_GetKeyByKeyId now (be_kmsKeyId (b_bucketEncryption bucket)) (ss_kms st1) of
               (kmsKey, kms) \<Rightarrow>
                 (Inr (), st1\<lparr>ss_kms := kms,
                     ss_fs := Crypto_Aes256EncryptFile (w_encrypt w) (w_fso w) (path_in (s3_dir (w_cfg w)) (o_internalName ob))
                                (k_aes256Key kmsKey) (ss_fs st1)\<rparr>))
       else (Inr (), st1))"

text \<open>The result is the \<open>outFile\<close> parameter as the call leaves it.\<close>

definition S3Service_CheckDecryption ::
  "'fs s3_world \<Rightarrow> int \<Rightarrow> Bucket \<Rightarrow> Object \<Rightarrow> string \<Rightarrow> 'fs s3_state \<Rightarrow> (string, 'fs s3_state) outcome" where
  "S3Service_CheckDecryption w now bucket ob outFile st =
     andthen (on_fs (DirUtils_EnsureDirectory (w_fso w) (s3_dir (w_cfg w))) st) (\<lambda>_ st1.
       if Bucket_HasEncryption bucket
       then (case KMSMemoryDb_GetKeyByKeyId now (be_kmsKeyId (b_bucketEncryption bucket)) (ss_kms st1) of
               (kmsKey, kms) \<Rightarrow>
                 (case Crypto_Aes256DecryptFile (w_decrypt w) (w_fso w) (path_in (s3_dir (w_cfg w)) (o_internalName ob))
                         (k_aes256Key kmsKey) (ss_fs st1) of
                    (out, fs) \<Rightarrow> (Inr out, st1\<lparr>ss_kms := kms, ss_fs := fs\<rparr>)))
       else (Inr outFile, st1))"

record PutObjectRequest =
  por_region :: string
  por_bucket :: string
  por_key :: string
  por_owner :: string
  por_md5Sum :: string
  por_contentType :: string
  por_checksumAlgorithm :: string
  por_metadata :: "(string, string) smap"

record PutObjectResponse =
  pos_bucket :: string
  pos_key :: string
  pos_etag :: string
  pos_md5Sum :: string
  pos_contentLength :: int
  pos_checksumSha1 :: string
  pos_checksumSha256 :: string
  pos_metadata :: "(string, string) smap"
  pos_versionId :: string

definition put_response :: "PutObjectRequest \<Rightarrow> int \<Rightarrow> string \<Rightarrow> Object \<Rightarrow> PutObjectResponse" where
  "put_response request sz versionId ob =
     \<lparr>pos_bucket = por_bucket request, pos_key = por_key request, pos_etag = o_md5sum ob, pos_md5Sum = o_md5sum ob,
      pos_contentLength = sz, pos_checksumSha1 = o_sha1sum ob, pos_checksumSha256 = o_sha256sum ob,
      pos_metadata = por_metadata request, pos_versionId = versionId\<rparr>"

definition put_entity :: "s3_draws \<Rightarrow> PutObjectRequest \<Rightarrow> int \<Rightarrow> Object" where
  "put_entity d request sz =
     (Object_init (x_now d))\<lparr>o_region := por_region request, o_bucket := por_bucket request, o_key := por_key request,
        o_owner := por_owner request, o_size := sz, o_contentType := por_contentType request,
        o_metadata := por_metadata request, o_internalName := x_file d\<rparr>"

definition start_hash_job :: "string \<Rightarrow> Object \<Rightarrow> 'fs s3_state \<Rightarrow> 'fs s3_state" where
  "start_hash_job algorithm ob st = (if algorithm \<noteq> [] then st\<lparr>ss_jobs := ss_jobs st @ [(algorithm, ob)]\<rparr> else st)"

text \<open>
  With chunked encoding the first line is the size of the chunk in hexadecimal; the buffer of that
  many characters is then written one past its end (\<open>buffer[size] = '\0'\<close>).
\<close>

definition first_line :: "string \<Rightarrow> string" where
  "first_line body = takeWhile (\<lambda>c. (of_char c :: nat) \<noteq> 10) body"

definition read_chunk :: "string \<Rightarrow> 'a result" where
  "read_chunk body = rbind (NumberUtils_HexToInt (StringUtils_StripLineEndings (first_line body))) (\<lambda>_. Inl UndefinedBehaviour)"

definition S3Service_SaveUnversionedObject ::
  "'fs s3_world \<Rightarrow> s3_draws \<Rightarrow> PutObjectRequest \<Rightarrow> Bucket \<Rightarrow> string \<Rightarrow> bool \<Rightarrow> 'fs s3_state \<Rightarrow> (PutObjectResponse, 'fs s3_state) outcome" where
  "S3Service_SaveUnversionedObject w d request bucket body chunkEncoding st =
     andthen (on_fs (DirUtils_EnsureDirectory (w_fso w) (s3_dir (w_cfg w))) st) (\<lambda>_ st1.
       if chunkEncoding then (read_chunk body, st1)
       else let filePath = path_in (s3_dir (w_cfg w)) (x_file d);
                st2 = st1\<lparr>ss_fs := fs_write (w_fso w) filePath body (ss_fs st1)\<rparr>;
                sz = FileUtils_FileSize (w_fso w) filePath (ss_fs st2);
                ob = (put_entity d request sz)\<lparr>o_md5sum := Crypto_GetMd5FromFile (ext_md5 (w_ext w)) (w_fso w) filePath (ss_fs st2)\<rparr>
            in andthen (on_db (S3Database_CreateOrUpdateObject (x_now d) (x_oid d) ob)
                          (start_hash_job (por_checksumAlgorithm request) ob st2)) (\<lambda>ob' st3.
               andthen (S3Service_CheckEncryption w (x_now d) bucket ob' st3) (\<lambda>_ st4.
               andthen (S3Service_CheckNotifications w (x_check d) (por_region request) (por_bucket request) (por_key request)
                          (o_size ob') ''ObjectCreated'' st4) (\<lambda>_ st5.
               (Inr (put_response request sz [] ob'), st5)))))"

text \<open>
  With versioning an object of the same key and MD5 (as the client announced it) is kept and the new
  file deleted; the digests of the answer are computed from the file path afterwards, in any case.
\<close>

definition final_digests :: "'fs s3_world \<Rightarrow> string \<Rightarrow> string \<Rightarrow> Object \<Rightarrow> 'fs \<Rightarrow> Object" where
  "final_digests w algorithm filePath ob fs =
     (let ob1 = ob\<lparr>o_md5sum := Crypto_GetMd5FromFile (ext_md5 (w_ext w)) (w_fso w) filePath fs\<rparr>;
          ob2 = (if algorithm = ''SHA1'' then ob1\<lparr>o_sha1sum := Crypto_GetSha1FromFile (w_sha1 w) (w_fso w) filePath fs\<rparr> else ob1)
      in if algorithm = ''SHA256'' then ob2\<lparr>o_sha256sum := Crypto_GetSha256FromFile (w_sha256 w) (w_fso w) filePath fs\<rparr> else ob2)"

definition S3Service_SaveVersionedObject ::
  "'fs s3_world \<Rightarrow> s3_draws \<Rightarrow> PutObjectRequest \<Rightarrow> Bucket \<Rightarrow> string \<Rightarrow> 'fs s3_state \<Rightarrow> (PutObjectResponse, 'fs s3_state) outcome" where
  "S3Service_SaveVersionedObject w d request bucket body st =
     andthen (on_fs (DirUtils_EnsureDirectory (w_fso w) (s3_dir (w_cfg w))) st) (\<lambda>_ st1.
       let filePath = path_in (s3_dir (w_cfg w)) (x_file d);
           st2 = st1\<lparr>ss_fs := fs_write (w_fso w) filePath body (ss_fs st1)\<rparr>;
           sz = FileUtils_FileSize (w_fso w) filePath (ss_fs st2);
           finish = (\<lambda>ob st'. let ob' = final_digests w (por_checksumAlgorithm request) filePath ob (ss_fs st')
                              in (Inr (put_response request sz (o_versionId ob') ob'), st'))
       in case on_db (S3MemoryDb_GetObjectMd5 (x_now d) (por_region request) (por_bucket request) (por_key request)
                        (w_content_md5 w (por_md5Sum request))) st2 of
            (existing, st3) \<Rightarrow>
              if o_oid existing = []
              then let ob = (put_entity d request sz)
                              \<lparr>o_versionId := x_version d,
                               o_md5sum := Crypto_GetMd5FromFile (ext_md5 (w_ext w)) (w_fso w) filePath (ss_fs st3)\<rparr>
                   in case on_db (S3MemoryDb_CreateObject (x_now d) (x_oid d) ob) st3 of
                        (ob', st4) \<Rightarrow>
                          andthen (S3Service_CheckEncryption w (x_now d) bucket ob'
                                     (start_hash_job (por_checksumAlgorithm request) ob' st4)) (\<lambda>_ st5.
                          andthen (S3Service_CheckNotifications w (x_check d) (por_region request) (por_bucket request)
                                     (por_key request) (o_size ob') ''ObjectCreated'' st5) (\<lambda>_ st6.
                          finish ob' st6))
              else andthen (on_fs (FileUtils_DeleteFile (w_fso w) filePath) st3) (\<lambda>_ st4. finish (Object_init (x_now d)) st4))"

definition S3Service_PutObject ::
  "'fs s3_world \<Rightarrow> s3_draws \<Rightarrow> PutObjectRequest \<Rightarrow> string \<Rightarrow> bool \<Rightarrow> 'fs s3_state \<Rightarrow> (PutObjectResponse, 'fs s3_state) outcome" where
  "S3Service_PutObject w d request body chunkEncoding st =
     need_bucket (por_region request) (por_bucket request) ''Bucket does not exist'' st (\<lambda>st. catch_poco (
       case on_db (S3MemoryDb_GetBucketByRegionName (x_now d) (por_region request) (por_bucket request)) st of
         (bucket, st') \<Rightarrow>
           if Bucket_IsVersioned bucket then S3Service_SaveVersionedObject w d request bucket body st'
           else S3Service_SaveUnversionedObject w d request bucket body chunkEncoding st'))"

section \<open>Reading objects\<close>

record GetObjectRequest =
  gor_region :: string
  gor_bucket :: string
  gor_key :: string
  gor_versionId :: string

record GetObjectResponse =
  gos_bucket :: string
  gos_key :: string
  gos_size :: int
  gos_filename :: string
  gos_contentType :: string
  gos_metadata :: "(string, string) smap"
  gos_md5sum :: string
  gos_modified :: int

text \<open>The file name is made with \<open>dataDir + "/s3/"\<close>.\<close>

definition object_to_return ::
  "'fs s3_world \<Rightarrow> s3_draws \<Rightarrow> GetObjectRequest \<Rightarrow> Bucket \<Rightarrow> 'fs s3_state \<Rightarrow> (Object, 'fs s3_state) outcome" where
  "object_to_return w d request bucketEntity st =
     (if Bucket_IsVersioned bucketEntity \<and> gor_versionId request \<noteq> []
      then (case w_object_version w (gor_region request) (gor_bucket request) (gor_key request) (gor_versionId request) of
              Inl e \<Rightarrow> (Inl e, st)
            | Inr ob \<Rightarrow> if o_oid ob = [] then (Inl (ServiceException ''Object does not exist''), st) else (Inr ob, st))
      else (case on_db (S3MemoryDb_GetObject (x_now d) (gor_region request) (gor_bucket request) (gor_key request)) st of
              (ob, st') \<Rightarrow> (Inr ob, st')))"

definition S3Service_GetObject ::
  "'fs s3_world \<Rightarrow> s3_draws \<Rightarrow> GetObjectRequest \<Rightarrow> 'fs s3_state \<Rightarrow> (GetObjectResponse, 'fs s3_state) outcome" where
  "S3Service_GetObject w d request st =
     need_bucket (gor_region request) (gor_bucket request) ''Bucket does not exist'' st (\<lambda>st.
       let get = (\<lambda>st. catch_poco (
             case on_db (S3MemoryDb_GetBucketByRegionName (x_now d) (gor_region request) (gor_bucket request)) st of
               (bucketEntity, st1) \<Rightarrow>
                 andthen (object_to_return w d request bucketEntity st1) (\<lambda>ob st2.
                 andthen (S3Service_CheckDecryption w (x_now d) bucketEntity ob (path_in (s3_dir (w_cfg w)) (o_internalName ob)) st2)
                   (\<lambda>filename st3.
                     (Inr \<lparr>gos_bucket = o_bucket ob, gos_key = o_key ob, gos_size = o_size ob, gos_filename = filename,
                           gos_contentType = o_contentType ob, gos_metadata = o_metadata ob, gos_md5sum = o_md5sum ob,
                           gos_modified = o_modified ob\<rparr>, st3)))))
       in if gor_key request \<noteq> []
          then need_object (gor_region request) (gor_bucket request) (gor_key request) ''Object does not exist'' st get
          else get st)"

definition S3Service_ListObjectVersions ::
  "s3_draws \<Rightarrow> string \<Rightarrow> string \<Rightarrow> int \<Rightarrow> 'fs s3_state \<Rightarrow> (Object list, 'fs s3_state) outcome" where
  "S3Service_ListObjectVersions d region bucket pageSize st =
     need_bucket region bucket ''Bucket does not exist'' st (\<lambda>st.
       case on_db (S3MemoryDb_GetBucketByRegionName (x_now d) region bucket) st of
         (b, st') \<Rightarrow>
           if \<not> Bucket_IsVersioned b then (Inl (NotFoundException ''Bucket is not versioned''), st')
           else (Inr (S3MemoryDb_GetBucketObjectList region bucket pageSize (ss_db st')), st'))"

section \<open>Copying and moving\<close>

record CopyObjectRequest =
  cor_region :: string
  cor_user :: string
  cor_sourceBucket :: string
  cor_sourceKey :: string
  cor_targetBucket :: string
  cor_targetKey :: string
  cor_metadata :: "(string, string) smap"

record CopyObjectResponse =
  cos_eTag :: string
  cos_lastModified :: string

text \<open>
  The part of both methods inside \<open>try\<close>.  It creates the target row with \<open>CreateObject\<close>, also when
  the key exists in the target bucket.  \<open>missing\<close> is the exception for a missing target bucket,
  the one difference between the two methods; it does not survive the \<open>catch\<close>.
\<close>

definition copy_entity :: "s3_draws \<Rightarrow> CopyObjectRequest \<Rightarrow> Object \<Rightarrow> Object" where
  "copy_entity d request src =
     (Object_init (x_now d))\<lparr>o_region := cor_region request, o_bucket := cor_targetBucket request, o_key := cor_targetKey request,
        o_owner := o_owner src, o_size := o_size src, o_md5sum := o_md5sum src, o_sha1sum := o_sha1sum src,
        o_sha256sum := o_sha256sum src, o_contentType := o_contentType src, o_metadata := cor_metadata request,
        o_internalName := x_file d\<rparr>"

definition copy_body ::
  "'fs s3_world \<Rightarrow> s3_draws \<Rightarrow> exn \<Rightarrow> CopyObjectRequest \<Rightarrow> 'fs s3_state \<Rightarrow> (CopyObjectResponse, 'fs s3_state) outcome" where
  "copy_body w d missing request st =
     (if \<not> S3MemoryDb_BucketExists (cor_region request) (cor_targetBucket request) (ss_db st) then (Inl missing, st)
      else case on_db (S3MemoryDb_GetBucketByRegionName (x_now d) (cor_region request) (cor_targetBucket request)) st of
        (targetBucket, st1) \<Rightarrow> case on_db (S3MemoryDb_GetObject (x_now d) (cor_region request) (cor_sourceBucket request) (cor_sourceKey request)) st1 of
        (src, st2) \<Rightarrow>
          andthen (on_fs (FileUtils_CopyTo (w_fso w) (path_in (s3_dir (w_cfg w)) (o_internalName src))
                            (path_in (s3_dir (w_cfg w)) (x_file d))) st2) (\<lambda>_ st3.
          let target = (if Bucket_IsVersioned targetBucket then (copy_entity d request src)\<lparr>o_versionId := x_version d\<rparr>
                        else copy_entity d request src)
          in case on_db (S3MemoryDb_CreateObject (x_now d) (x_oid d) target) st3 of
               (ob, st4) \<Rightarrow>
                 andthen (S3Service_CheckNotifications w (x_check d) (o_region ob) (o_bucket ob) (o_key ob) (o_size ob) ''ObjectCreated'' st4)
                   (\<lambda>_ st5. (Inr \<lparr>cos_eTag = o_md5sum ob, cos_lastModified = x_date d\<rparr>, st5))))"

definition copy_or_move ::
  "exn \<Rightarrow> 'fs s3_world \<Rightarrow> s3_draws \<Rightarrow> CopyObjectRequest \<Rightarrow> 'fs s3_state \<Rightarrow> (CopyObjectResponse, 'fs s3_state) outcome" where
  "copy_or_move missing w d request st =
     andthen (on_fs (DirUtils_EnsureDirectory (w_fso w) (s3_dir (w_cfg w))) st) (\<lambda>_ st.
       need_bucket (cor_region request) (cor_sourceBucket request) ''Source bucket does not exist'' st (\<lambda>st.
       need_object (cor_region request) (cor_sourceBucket request) (cor_sourceKey request) ''Source object does not exist'' st (\<lambda>st.
       catch_poco (copy_body w d missing request st))))"

definition S3Service_CopyObject ::
  "'fs s3_world \<Rightarrow> s3_draws \<Rightarrow> CopyObjectRequest \<Rightarrow> 'fs s3_state \<Rightarrow> (CopyObjectResponse, 'fs s3_state) outcome" where
  "S3Service_CopyObject = copy_or_move (NotFoundException ''Target bucket does not exist'')"

definition S3Service_MoveObject ::
  "'fs s3_world \<Rightarrow> s3_draws \<Rightarrow> CopyObjectRequest \<Rightarrow> 'fs s3_state \<Rightarrow> (CopyObjectResponse, 'fs s3_state) outcome" where
  "S3Service_MoveObject = copy_or_move (ServiceException ''Target bucket does not exist'')"

section \<open>Deleting objects\<close>

definition S3Service_DeleteObjectFile ::
  "'fs s3_world \<Rightarrow> string \<Rightarrow> string \<Rightarrow> string \<Rightarrow> 'fs s3_state \<Rightarrow> (unit, 'fs s3_state) outcome" where
  "S3Service_DeleteObjectFile w bucket key internalName st =
     (let transferDir = path_in (cfg_dataDir (w_cfg w)) ''transfer''
      in andthen (on_fs (DirUtils_EnsureDirectory (w_fso w) (s3_dir (w_cfg w))) st) (\<lambda>_ st1.
         andthen (on_fs (DirUtils_EnsureDirectory (w_fso w) transferDir) st1) (\<lambda>_ st2.
         andthen (on_fs (FileUtils_DeleteFile (w_fso w) (path_in (s3_dir (w_cfg w)) internalName)) st2) (\<lambda>_ st3.
         if bucket = cfg_transferBucket (w_cfg w)
         then on_fs (FileUtils_DeleteFile (w_fso w) (path_in transferDir key)) st3
         else (Inr (), st3)))))"

text \<open>Deleting an object that does not exist is no error.\<close>

definition S3Service_DeleteObject ::
  "'fs s3_world \<Rightarrow> s3_draws \<Rightarrow> string \<Rightarrow> string \<Rightarrow> string \<Rightarrow> 'fs s3_state \<Rightarrow> (unit, 'fs s3_state) outcome" where
  "S3Service_DeleteObject w d region bucket key st =
     need_bucket region bucket (''Bucket does not exist, bucket: '' @ bucket) st (\<lambda>st.
       if S3MemoryDb_ObjectExists (wanted region bucket key) (ss_db st)
       then catch_poco (
         case on_db (S3MemoryDb_GetObject (x_now d) region bucket key) st of
           (ob, st1) \<Rightarrow>
             andthen (S3Service_DeleteObjectFile w (o_bucket ob) (o_key ob) (o_internalName ob)
                        (st1\<lparr>ss_db := S3MemoryDb_DeleteObject ob (ss_db st1)\<rparr>)) (\<lambda>_ st2.
             S3Service_CheckNotifications w (x_check d) region bucket key 0 ''ObjectRemoved'' st2))
       else (Inr (), st))"

fun delete_objects_loop ::
  "'fs s3_world \<Rightarrow> (nat \<Rightarrow> s3_draws) \<Rightarrow> nat \<Rightarrow> string \<Rightarrow> string \<Rightarrow> string list \<Rightarrow> 'fs s3_state \<Rightarrow> (unit, 'fs s3_state) outcome" where
  "delete_objects_loop w d i region bucket [] st = (Inr (), st)"
| "delete_objects_loop w d i region bucket (key # keys) st =
     (case on_db (S3MemoryDb_GetObject (x_now (d i)) region bucket key) st of
        (ob, st1) \<Rightarrow>
          andthen (S3Service_DeleteObjectFile w (o_bucket ob) (o_key ob) (o_internalName ob) st1) (\<lambda>_ st2.
          andthen (S3Service_CheckNotifications w (x_check (d i)) region bucket key 0 ''ObjectRemoved'' st2) (\<lambda>_ st3.
          delete_objects_loop w d (Suc i) region bucket keys st3)))"

definition S3Service_DeleteObjects ::
  "'fs s3_world \<Rightarrow> (nat \<Rightarrow> s3_draws) \<Rightarrow> string \<Rightarrow> string \<Rightarrow> string list \<Rightarrow> 'fs s3_state \<Rightarrow> (unit, 'fs s3_state) outcome" where
  "S3Service_DeleteObjects w d region bucket keys st =
     need_bucket region bucket ''Bucket does not exist'' st (\<lambda>st. catch_poco (
       andthen (delete_objects_loop w d 0 region bucket keys st) (\<lambda>_ st1.
         (Inr (), st1\<lparr>ss_db := S3MemoryDb_DeleteObjects bucket keys (ss_db st1)\<rparr>))))"

section \<open>Multipart uploads\<close>

definition S3Service_GetMultipartUploadDirectory ::
  "'fs s3_world \<Rightarrow> string \<Rightarrow> 'fs s3_state \<Rightarrow> (string, 'fs s3_state) outcome" where
  "S3Service_GetMultipartUploadDirectory w uploadId st =
     (let tempDir = path_in (cfg_dataDir (w_cfg w)) ''tmp''
      in andthen (on_fs (DirUtils_EnsureDirectory (w_fso w) tempDir) st) (\<lambda>_ st'. (Inr (path_in tempDir uploadId), st')))"

record CreateMultipartUploadRequest =
  cmr_region :: string
  cmr_bucket :: string
  cmr_key :: string
  cmr_user :: string
  cmr_metadata :: "(string, string) smap"

text \<open>The answer is the upload id drawn.\<close>

definition S3Service_CreateMultipartUpload ::
  "'fs s3_world \<Rightarrow> s3_draws \<Rightarrow> string \<Rightarrow> CreateMultipartUploadRequest \<Rightarrow> 'fs s3_state \<Rightarrow> (string, 'fs s3_state) outcome" where
  "S3Service_CreateMultipartUpload w d uploadId request st =
     need_bucket (cmr_region request) (cmr_bucket request)
       (''Bucket does not exist, region: '' @ cmr_region request @ '' bucket: '' @ cmr_bucket request) st (\<lambda>st.
       andthen (S3Service_GetMultipartUploadDirectory w uploadId st) (\<lambda>uploadDir st1.
       andthen (on_fs (DirUtils_EnsureDirectory (w_fso w) uploadDir) st1) (\<lambda>_ st2.
       andthen (on_db (S3Database_CreateOrUpdateObject (x_now d) (x_oid d)
                  ((Object_init (x_now d))\<lparr>o_region := cmr_region request, o_bucket := cmr_bucket request,
                     o_key := cmr_key request, o_owner := cmr_user request, o_metadata := cmr_metadata request\<rparr>)) st2)
         (\<lambda>_ st3. (Inr uploadId, st3)))))"

definition part_file :: "string \<Rightarrow> int \<Rightarrow> string" where
  "part_file uploadId part = uploadId @ ''-'' @ to_string part"

text \<open>
  \<open>std::istream_iterator<unsigned char>\<close> reads with \<open>operator>>\<close>, which skips white space: those
  bytes of the part never reach the file.
\<close>

definition extracted :: "string \<Rightarrow> string" where
  "extracted body = filter (\<lambda>c. \<not> is_space c) body"

definition S3Service_UploadPart ::
  "'fs s3_world \<Rightarrow> string \<Rightarrow> int \<Rightarrow> string \<Rightarrow> 'fs s3_state \<Rightarrow> (string, 'fs s3_state) outcome" where
  "S3Service_UploadPart w body part uploadId st =
     andthen (S3Service_GetMultipartUploadDirectory w uploadId st) (\<lambda>uploadDir st1.
       let fileName = path_in uploadDir (part_file uploadId part);
           st2 = st1\<lparr>ss_fs := fs_write (w_fso w) fileName (extracted body) (ss_fs st1)\<rparr>
       in (Inr (Crypto_GetMd5FromFile (ext_md5 (w_ext w)) (w_fso w) fileName (ss_fs st2)), st2))"

record UploadPartCopyRequest =
  upc_region :: string
  upc_uploadId :: string
  upc_partNumber :: int
  upc_sourceBucket :: string
  upc_sourceKey :: string
  upc_min :: int
  upc_max :: int

text \<open>\<open>sendfile\<close> refuses a negative offset or length; the target is opened without truncation.\<close>

definition file_range :: "int \<Rightarrow> int \<Rightarrow> string \<Rightarrow> string" where
  "file_range start len content = (if start < 0 \<or> len < 0 then [] else take (nat len) (drop (nat start) content))"

definition S3Service_UploadPartCopy ::
  "'fs s3_world \<Rightarrow> s3_draws \<Rightarrow> UploadPartCopyRequest \<Rightarrow> 'fs s3_state \<Rightarrow> (string, 'fs s3_state) outcome" where
  "S3Service_UploadPartCopy w d request st =
     (case on_db (S3MemoryDb_GetObject (x_now d) (upc_region request) (upc_sourceBucket request) (upc_sourceKey request)) st of
        (src, st1) \<Rightarrow>
          andthen (S3Service_GetMultipartUploadDirectory w (upc_uploadId request) st1) (\<lambda>uploadDir st2.
            let sourceFile = path_in (s3_dir (w_cfg w)) (o_internalName src);
                destFile = path_in uploadDir (part_file (upc_uploadId request) (upc_partNumber request));
                range = file_range (upc_min request) (upc_max request - upc_min request + 1) (fs_read (w_fso w) sourceFile (ss_fs st2));
                st3 = st2\<lparr>ss_fs := fs_write (w_fso w) destFile (overlay range (fs_read (w_fso w) destFile (ss_fs st2))) (ss_fs st2)\<rparr>
            in (Inr (Crypto_GetMd5FromFile (ext_md5 (w_ext w)) (w_fso w) destFile (ss_fs st3)), st3)))"

record CompleteMultipartUploadRequest =
  cpr_region :: string
  cpr_bucket :: string
  cpr_key :: string
  cpr_user :: string
  cpr_uploadId :: string
  cpr_checksumAlgorithm :: string

text \<open>The answer is the MD5 sum; location, bucket and key repeat the request.\<close>

definition S3Service_CompleteMultipartUpload ::
  "'fs s3_world \<Rightarrow> s3_draws \<Rightarrow> CompleteMultipartUploadRequest \<Rightarrow> 'fs s3_state \<Rightarrow> (string, 'fs s3_state) outcome" where
  "S3Service_CompleteMultipartUpload w d request st =
     andthen (on_fs (DirUtils_EnsureDirectory (w_fso w) (s3_dir (w_cfg w))) st) (\<lambda>_ st1.
     andthen (S3Service_GetMultipartUploadDirectory w (cpr_uploadId request) st1) (\<lambda>uploadDir st2.
     case DirUtils_ListFilesByPrefix (w_fso w) uploadDir (cpr_uploadId request) (ss_fs st2) of
       Inl e \<Rightarrow> (Inl e, st2)
     | Inr files \<Rightarrow>
         let outFile = path_in (s3_dir (w_cfg w)) (x_file d)
         in case FileUtils_AppendBinaryFiles (w_fso w) outFile uploadDir files (ss_fs st2) of
              (fileSize, fs3) \<Rightarrow>
                let st3 = st2\<lparr>ss_fs := fs3\<rparr>;
                    md5sum = Crypto_GetMd5FromFile (ext_md5 (w_ext w)) (w_fso w) outFile fs3
                in case on_db (S3MemoryDb_GetObject (x_now d) (cpr_region request) (cpr_bucket request) (cpr_key request)) st3 of
                     (ob, st4) \<Rightarrow>
                       andthen (on_db (S3MemoryDb_UpdateObject
                                  (ob\<lparr>o_size := fileSize, o_md5sum := md5sum, o_internalName := x_file d\<rparr>)) st4) (\<lambda>ob' st5.
                       andthen (on_fs (DirUtils_DeleteDirectory (w_fso w) True uploadDir)
                                  (start_hash_job (cpr_checksumAlgorithm request) ob' st5)) (\<lambda>_ st6.
                       andthen (S3Service_CheckNotifications w (x_check d) (cpr_region request) (cpr_bucket request) (cpr_key request)
                                  (o_size ob') ''ObjectCreated'' st6) (\<lambda>_ st7. (Inr md5sum, st7))))))"

section \<open>Checksum jobs and the worker\<close>

text \<open>
  \<open>S3HashCreator::operator()\<close> for one algorithm.  It reads \<open>dataDir/internalName\<close>, not the file in
  the \<open>s3\<close> directory, and writes the digest of the algorithm \<open>MD5\<close> into \<open>sha256sum\<close>.
\<close>

definition S3HashCreator_run :: "'fs s3_world \<Rightarrow> string \<Rightarrow> Object \<Rightarrow> 'fs s3_state \<Rightarrow> (unit, 'fs s3_state) outcome" where
  "S3HashCreator_run w algorithm ob st =
     (let filename = path_in (cfg_dataDir (w_cfg w)) (o_internalName ob);
          ob' = (if algorithm = ''SHA1'' then ob\<lparr>o_sha1sum := Crypto_GetSha1FromFile (w_sha1 w) (w_fso w) filename (ss_fs st)\<rparr>
                 else if algorithm = ''SHA256'' then ob\<lparr>o_sha256sum := Crypto_GetSha256FromFile (w_sha256 w) (w_fso w) filename (ss_fs st)\<rparr>
                 else if algorithm = ''MD5'' then ob\<lparr>o_sha256sum := Crypto_GetMd5FromFile (ext_md5 (w_ext w)) (w_fso w) filename (ss_fs st)\<rparr>
                 else ob)
      in andthen (on_db (S3MemoryDb_UpdateObject ob') st) (\<lambda>_ st'. (Inr (), st')))"

text \<open>
  \<open>S3Worker::SyncObjects\<close>: rows whose file is missing are deleted, then files no row names.
  \<open>GetBasename\<close> is Poco's (\<open>base\<close>); the listing of the directory is taken when its loop starts.
\<close>

definition sync_bucket :: "'fs s3_world \<Rightarrow> Bucket \<Rightarrow> 'fs s3_state \<Rightarrow> 'fs s3_state" where
  "sync_bucket w bucket st =
     fold (\<lambda>ob st'. if fs_exists (w_fso w) (path_in (s3_dir (w_cfg w)) (o_internalName ob)) (ss_fs st') then st'
                    else st'\<lparr>ss_db := S3MemoryDb_DeleteObject ob (ss_db st')\<rparr>)
       (S3MemoryDb_GetBucketObjectList (cfg_region (w_cfg w)) (b_name bucket) 1000 (ss_db st)) st"

fun sync_files :: "'fs s3_world \<Rightarrow> (string \<Rightarrow> string) \<Rightarrow> string list \<Rightarrow> 'fs s3_state \<Rightarrow> (unit, 'fs s3_state) outcome" where
  "sync_files w base [] st = (Inr (), st)"
| "sync_files w base (name # names) st =
     (if S3MemoryDb_ObjectFileExists (base name) (ss_db st) then sync_files w base names st
      else andthen (on_fs (FileUtils_DeleteFile (w_fso w) (path_in (s3_dir (w_cfg w)) name)) st) (\<lambda>_ st'. sync_files w base names st'))"

definition S3Worker_SyncObjects :: "'fs s3_world \<Rightarrow> (string \<Rightarrow> string) \<Rightarrow> 'fs s3_state \<Rightarrow> (unit, 'fs s3_state) outcome" where
  "S3Worker_SyncObjects w base st =
     (let buckets = S3MemoryDb_ListBuckets (ss_db st)
      in if buckets = [] then (Inr (), st)
         else let st1 = fold (sync_bucket w) buckets st
              in if fs_exists (w_fso w) (s3_dir (w_cfg w)) (ss_fs st1)
                 then (case fs_list (w_fso w) (s3_dir (w_cfg w)) (ss_fs st1) of
                         Inl e \<Rightarrow> (Inl e, st1)
                       | Inr names \<Rightarrow> sync_files w base names st1)
                 else (Inr (), st1))"

end
