(* ===== verification/S3Facts.thy ===== *)
theory S3Facts
  imports S3Service MessageSink
begin

text \<open>
  The lemmas of the S3 component: the invariant of its store with the interpretation of
  \<open>entity_table\<close> for buckets, what each operation leaves alone, and well-formed stores, in which
  every object lies in a bucket that exists.
\<close>

section \<open>The invariant\<close>

text \<open>
  Rows of buckets carry their key.  Rows of objects need not: \<open>CreateOrUpdateObject\<close> stores the
  entity of the caller, whose \<open>oid\<close> is empty, over the row it found.
\<close>

definition s3_inv :: "s3_db \<Rightarrow> bool" where
  "s3_inv db \<longleftrightarrow> rows_tagged b_oid (s3_buckets db) \<and> smap_inv (s3_objects db)"

lemma s3_invD:
  assumes "s3_inv db"
  shows "rows_tagged b_oid (s3_buckets db)" "smap_inv (s3_buckets db)" "smap_inv (s3_objects db)"
  using assms rows_tagged_inv [of b_oid "s3_buckets db"] by (simp_all add: s3_inv_def)

lemma bucket_fetch_inv:
  "s3_inv db \<Longrightarrow> bucket_fetch P now db =
     (case smap_find_if P (s3_buckets db) of None \<Rightarrow> Bucket_init now | Some (k, b) \<Rightarrow> b, db)"
  by (simp add: bucket_fetch_def smap_fetch_tagged [where oid_of = b_oid] s3_invD)

lemma CreateBucket_eq:
  "s3_inv db \<Longrightarrow> S3MemoryDb_CreateBucket now oid b db =
     (b\<lparr>b_oid := oid\<rparr>, db\<lparr>s3_buckets := smap_put oid (b\<lparr>b_oid := oid\<rparr>) (s3_buckets db)\<rparr>)"
  by (simp add: S3MemoryDb_CreateBucket_def S3MemoryDb_GetBucketById_def bucket_fetch_def
      smap_fetch_def smap_find_if_key s3_invD)

lemma CreateObject_eq:
  "s3_inv db \<Longrightarrow> S3MemoryDb_CreateObject now oid ob db =
     (ob\<lparr>o_oid := oid\<rparr>, db\<lparr>s3_objects := smap_put oid (ob\<lparr>o_oid := oid\<rparr>) (s3_objects db)\<rparr>)"
  by (simp add: S3MemoryDb_CreateObject_def S3MemoryDb_GetObjectById_def object_fetch_def
      smap_fetch_def smap_find_if_key s3_invD)

interpretation bucket_table: entity_table s3_inv s3_buckets b_oid "\<lambda>oid b. b\<lparr>b_oid := oid\<rparr>"
  S3MemoryDb_CreateBucket S3MemoryDb_GetBucketById Bucket_init S3MemoryDb_DeleteAllBuckets
proof unfold_locales
  fix db now oid and e :: Bucket
  assume inv: "s3_inv db"
  show "rows_tagged b_oid (s3_buckets db)" using inv by (rule s3_invD)
  show "fst (S3MemoryDb_CreateBucket now oid e db) = e\<lparr>b_oid := oid\<rparr>"
    "s3_buckets (snd (S3MemoryDb_CreateBucket now oid e db)) = smap_put oid (e\<lparr>b_oid := oid\<rparr>) (s3_buckets db)"
    "s3_inv (snd (S3MemoryDb_CreateBucket now oid e db))"
    using inv by (simp_all add: CreateBucket_eq s3_inv_def rows_tagged_put)
  show "smap_get oid (s3_buckets db) = Some e \<Longrightarrow> S3MemoryDb_GetBucketById now oid db = (e, db)"
    "smap_get oid (s3_buckets db) = None \<Longrightarrow> S3MemoryDb_GetBucketById now oid db = (Bucket_init now, db)"
    using inv by (simp_all add: S3MemoryDb_GetBucketById_def bucket_fetch_inv smap_find_if_key s3_invD)
  show "s3_inv (S3MemoryDb_DeleteAllBuckets db)"
    using inv by (simp add: S3MemoryDb_DeleteAllBuckets_def s3_inv_def)
qed (simp add: S3MemoryDb_DeleteAllBuckets_def)

text \<open>A getter of objects writes the key into the row it found and changes nothing else.\<close>

lemma object_fetch_cases:
  assumes "s3_inv db"
  obtains (Miss) "smap_find_if P (s3_objects db) = None" "object_fetch P now db = (Object_init now, db)"
  | (Hit) k ob where "smap_find_if P (s3_objects db) = Some (k, ob)" "(k, ob) \<in> set (s3_objects db)" "P (k, ob)"
      "object_fetch P now db = (ob\<lparr>o_oid := k\<rparr>, db\<lparr>s3_objects := smap_put k (ob\<lparr>o_oid := k\<rparr>) (s3_objects db)\<rparr>)"
proof (cases "smap_find_if P (s3_objects db)")
  case None
  then show ?thesis by (intro Miss) (simp_all add: object_fetch_def smap_fetch_def)
next
  case (Some kob)
  obtain k ob where "kob = (k, ob)" by (cases kob)
  with Some show ?thesis using smap_find_if_Some [OF Some]
    by (intro Hit [of k ob]) (simp_all add: object_fetch_def smap_fetch_def)
qed

lemma s3_inv_put_object [inv_intros]:
  "s3_inv db \<Longrightarrow> s3_inv (db\<lparr>s3_objects := smap_put k ob (s3_objects db)\<rparr>)"
  by (simp add: s3_inv_def)

lemmas object_getter_defs = S3MemoryDb_GetObject_def S3MemoryDb_GetObjectMd5_def S3MemoryDb_GetObjectById_def

lemma BucketExists_iff:
  "S3MemoryDb_BucketExists region name db \<longleftrightarrow> (\<exists>(k, b) \<in> set (s3_buckets db). b_region b = region \<and> b_name b = name)"
  unfolding S3MemoryDb_BucketExists_def smap_find_if_not_None by (simp add: case_prod_beta)

lemma GetBucketByRegionName_pure:
  "s3_inv db \<Longrightarrow> snd (S3MemoryDb_GetBucketByRegionName now region name db) = db"
  by (simp add: S3MemoryDb_GetBucketByRegionName_def bucket_fetch_inv)

lemma GetBucketByRegionName_hit:
  assumes "s3_inv db" "S3MemoryDb_BucketExists region name db"
  obtains k b where "(k, b) \<in> set (s3_buckets db)" "b_region b = region" "b_name b = name"
    "\<And>now. S3MemoryDb_GetBucketByRegionName now region name db = (b, db)"
proof -
  obtain k b where f: "smap_find_if (\<lambda>(k, b). b_region b = region \<and> b_name b = name) (s3_buckets db) = Some (k, b)"
    using assms(2) by (auto simp: S3MemoryDb_BucketExists_def)
  then show ?thesis using that [of k b] smap_find_if_Some [OF f]
    by (simp add: S3MemoryDb_GetBucketByRegionName_def bucket_fetch_inv [OF assms(1)])
qed

lemma s3_inv_UpdateBucket [inv_intros]:
  assumes "s3_inv db" "b_oid b = k" "smap_find_if (\<lambda>(k, b'). b_region b' = b_region b \<and> b_name b' = b_name b) (s3_buckets db) = Some (k, b0)"
  shows "S3MemoryDb_UpdateBucket b db = (Inr b, db\<lparr>s3_buckets := smap_put k b (s3_buckets db)\<rparr>)"
    "s3_inv (db\<lparr>s3_buckets := smap_put k b (s3_buckets db)\<rparr>)"
  using assms by (simp_all add: S3MemoryDb_UpdateBucket_def smap_replace_def s3_inv_def rows_tagged_put)

section \<open>What the operations leave alone\<close>

lemma on_fs_state [simp]:
  "ss_db (snd (on_fs f st)) = ss_db st" "ss_msg (snd (on_fs f st)) = ss_msg st"
  "ss_kms (snd (on_fs f st)) = ss_kms st" "ss_jobs (snd (on_fs f st)) = ss_jobs st"
  by (simp_all add: on_fs_def case_prod_beta)

lemma on_msg_state [simp]:
  "ss_db (snd (on_msg f st)) = ss_db st" "ss_fs (snd (on_msg f st)) = ss_fs st"
  "ss_kms (snd (on_msg f st)) = ss_kms st" "ss_jobs (snd (on_msg f st)) = ss_jobs st"
  by (simp_all add: on_msg_def case_prod_beta)

lemma on_db_pure: "snd (f (ss_db st)) = ss_db st \<Longrightarrow> on_db f st = (fst (f (ss_db st)), st)"
  by (simp add: on_db_def case_prod_beta)

lemma on_db_GetBucket:
  "s3_inv (ss_db st) \<Longrightarrow> on_db (S3MemoryDb_GetBucketByRegionName now region name) st =
     (fst (S3MemoryDb_GetBucketByRegionName now region name (ss_db st)), st)"
  by (rule on_db_pure) (rule GetBucketByRegionName_pure)

lemma snd_on_db [simp]: "snd (on_db f st) = st\<lparr>ss_db := snd (f (ss_db st))\<rparr>"
  by (simp add: on_db_def case_prod_beta)

lemma fst_on_db [simp]: "fst (on_db f st) = fst (f (ss_db st))"
  by (simp add: on_db_def case_prod_beta)

text \<open>\<open>CheckNotifications\<close> works on the messages only.\<close>

definition only_messages :: "'fs s3_state \<Rightarrow> 'fs s3_state \<Rightarrow> bool" where
  "only_messages st st' \<longleftrightarrow> (\<exists>m. st' = st\<lparr>ss_msg := m\<rparr>)"

lemma only_messages_refl [simp]: "only_messages st st"
  unfolding only_messages_def by (rule exI [of _ "ss_msg st"]) simp

lemma only_messages_on_msg: "only_messages st0 st \<Longrightarrow> only_messages st0 (snd (on_msg f st))"
  by (auto simp: only_messages_def on_msg_def case_prod_beta)

lemma only_messages_notify_first:
  assumes "only_messages st0 st" "\<And>n s. only_messages st0 s \<Longrightarrow> only_messages st0 (snd (send n s))"
  shows "only_messages st0 (snd (notify_first found key send st))"
  using assms by (simp add: notify_first_def split: option.split)

lemma CheckNotifications_only_messages:
  assumes "s3_inv (ss_db st)"
  shows "only_messages st (snd (S3Service_CheckNotifications w d region bucket key sz event st))"
  unfolding S3Service_CheckNotifications_def
    on_db_GetBucket [OF assms] prod.case
  by (intro andthen_invariant [where P = "only_messages st"] only_messages_notify_first only_messages_on_msg)
     simp_all

lemma CheckNotifications_state:
  assumes "s3_inv (ss_db st)"
  shows "ss_db (snd (S3Service_CheckNotifications w d region bucket key sz event st)) = ss_db st"
    "ss_fs (snd (S3Service_CheckNotifications w d region bucket key sz event st)) = ss_fs st"
    "ss_kms (snd (S3Service_CheckNotifications w d region bucket key sz event st)) = ss_kms st"
    "ss_jobs (snd (S3Service_CheckNotifications w d region bucket key sz event st)) = ss_jobs st"
  using CheckNotifications_only_messages [OF assms, of w d region bucket key sz event]
  by (auto simp: only_messages_def)

section \<open>Every object in a bucket\<close>

definition s3_wf :: "s3_db \<Rightarrow> bool" where
  "s3_wf db \<longleftrightarrow> s3_inv db \<and>
     (\<forall>(k, b) \<in> set (s3_buckets db). b_name b \<noteq> []) \<and>
     (\<forall>(k, b) \<in> set (s3_buckets db). \<forall>(k', b') \<in> set (s3_buckets db).
        b_region b = b_region b' \<and> b_name b = b_name b' \<longrightarrow> k = k') \<and>
     (\<forall>(k, ob) \<in> set (s3_objects db). S3MemoryDb_BucketExists (o_region ob) (o_bucket ob) db)"

lemma s3_wfD:
  assumes "s3_wf db"
  shows "s3_inv db" "(k, b) \<in> set (s3_buckets db) \<Longrightarrow> b_name b \<noteq> []"
    "(k, b) \<in> set (s3_buckets db) \<Longrightarrow> (k', b') \<in> set (s3_buckets db) \<Longrightarrow> b_region b = b_region b' \<Longrightarrow> b_name b = b_name b' \<Longrightarrow> k = k'"
    "(k, ob) \<in> set (s3_objects db) \<Longrightarrow> S3MemoryDb_BucketExists (o_region ob) (o_bucket ob) db"
  using assms by (fastforce simp: s3_wf_def)+

lemma s3_wfI:
  assumes "s3_inv db" "\<forall>(k, b) \<in> set (s3_buckets db). b_name b \<noteq> []"
    "\<forall>(k, b) \<in> set (s3_buckets db). \<forall>(k', b') \<in> set (s3_buckets db).
        b_region b = b_region b' \<and> b_name b = b_name b' \<longrightarrow> k = k'"
    "\<And>k ob. (k, ob) \<in> set (s3_objects db) \<Longrightarrow> S3MemoryDb_BucketExists (o_region ob) (o_bucket ob) db"
  shows "s3_wf db"
  using assms unfolding s3_wf_def by blast

lemma BucketExists_cong:
  "s3_buckets db' = s3_buckets db \<Longrightarrow> S3MemoryDb_BucketExists region name db' = S3MemoryDb_BucketExists region name db"
  by (simp add: S3MemoryDb_BucketExists_def)

lemma s3_wf_objects:
  assumes "s3_wf db" "smap_inv obs" "\<And>k ob. (k, ob) \<in> set obs \<Longrightarrow> S3MemoryDb_BucketExists (o_region ob) (o_bucket ob) db"
  shows "s3_wf (db\<lparr>s3_objects := obs\<rparr>)"
  using assms by (auto simp: s3_wf_def s3_inv_def BucketExists_cong [of "db\<lparr>s3_objects := obs\<rparr>" db])

lemma s3_wf_put_object [inv_intros]:
  assumes "s3_wf db" "S3MemoryDb_BucketExists (o_region ob) (o_bucket ob) db"
  shows "s3_wf (db\<lparr>s3_objects := smap_put k ob (s3_objects db)\<rparr>)"
  using assms s3_wfD(1,4) [OF assms(1)] by (intro s3_wf_objects) (auto simp: set_smap_put s3_invD)

lemma s3_wf_erase_objects [inv_intros]:
  assumes "s3_wf db"
  shows "s3_wf (db\<lparr>s3_objects := smap_erase_if P (s3_objects db)\<rparr>)"
  using assms s3_wfD(1,4) [OF assms] by (intro s3_wf_objects) (auto simp: set_smap_erase_if s3_invD)

text \<open>A state that is well-formed and has the buckets of an earlier one.\<close>

definition keeps_buckets :: "'fs s3_state \<Rightarrow> 'fs s3_state \<Rightarrow> bool" where
  "keeps_buckets st0 st \<longleftrightarrow> s3_wf (ss_db st) \<and> s3_buckets (ss_db st) = s3_buckets (ss_db st0)"

named_theorems keeps "operations that keep the buckets"

lemma keeps_bucketsD:
  assumes "keeps_buckets st0 st"
  shows "s3_wf (ss_db st)" "s3_inv (ss_db st)"
    "S3MemoryDb_BucketExists region name (ss_db st) = S3MemoryDb_BucketExists region name (ss_db st0)"
proof -
  have eq: "s3_wf (ss_db st)" "s3_buckets (ss_db st) = s3_buckets (ss_db st0)"
    using assms by (simp_all add: keeps_buckets_def)
  show "s3_wf (ss_db st)" "s3_inv (ss_db st)"
    "S3MemoryDb_BucketExists region name (ss_db st) = S3MemoryDb_BucketExists region name (ss_db st0)"
    by (rule eq(1), rule s3_wfD(1) [OF eq(1)], rule BucketExists_cong [OF eq(2)])
qed

lemma keeps_start: "s3_wf (ss_db st) \<Longrightarrow> keeps_buckets st st"
  by (simp add: keeps_buckets_def)

lemma keeps_same_db [keeps]: "keeps_buckets st0 st \<Longrightarrow> ss_db st' = ss_db st \<Longrightarrow> keeps_buckets st0 st'"
  by (simp add: keeps_buckets_def)

lemma keeps_andthen:
  "keeps_buckets st0 (snd r) \<Longrightarrow> (\<And>x s. r = (Inr x, s) \<Longrightarrow> keeps_buckets st0 s \<Longrightarrow> keeps_buckets st0 (snd (k x s))) \<Longrightarrow>
   keeps_buckets st0 (snd (andthen r k))"
  by (rule andthen_invariant [where P = "keeps_buckets st0"])

lemma keeps_on_fs [keeps]: "keeps_buckets st0 st \<Longrightarrow> keeps_buckets st0 (snd (on_fs f st))"
  by (simp add: keeps_buckets_def)

lemma keeps_start_hash_job [keeps]: "keeps_buckets st0 st \<Longrightarrow> keeps_buckets st0 (start_hash_job algorithm ob st)"
  by (simp add: keeps_buckets_def start_hash_job_def)

lemma keeps_CheckNotifications [keeps]:
  "keeps_buckets st0 st \<Longrightarrow> keeps_buckets st0 (snd (S3Service_CheckNotifications w d region bucket key sz event st))"
  using CheckNotifications_state(1) [of st w d region bucket key sz event] keeps_bucketsD(2) [of st0 st]
  by (simp add: keeps_buckets_def)

lemma keeps_GetBucket [keeps]:
  "keeps_buckets st0 st \<Longrightarrow> keeps_buckets st0 (snd (on_db (S3MemoryDb_GetBucketByRegionName now region name) st))"
  using GetBucketByRegionName_pure [of "ss_db st" now region name] keeps_bucketsD(2) [of st0 st]
  by (simp add: keeps_buckets_def)

lemma object_fetch_wf:
  assumes "s3_wf db"
  shows "s3_wf (snd (object_fetch P now db))" "s3_buckets (snd (object_fetch P now db)) = s3_buckets db"
    "fst (object_fetch P now db) = Object_init now \<or>
     S3MemoryDb_BucketExists (o_region (fst (object_fetch P now db))) (o_bucket (fst (object_fetch P now db))) db"
proof -
  have "s3_wf (snd (object_fetch P now db)) \<and> s3_buckets (snd (object_fetch P now db)) = s3_buckets db \<and>
    (fst (object_fetch P now db) = Object_init now \<or>
     S3MemoryDb_BucketExists (o_region (fst (object_fetch P now db))) (o_bucket (fst (object_fetch P now db))) db)"
  proof (cases rule: object_fetch_cases [OF s3_wfD(1) [OF assms], of P now])
    case 1
    then show ?thesis using assms by simp
  next
    case (2 k ob)
    then show ?thesis using s3_wfD(4) [OF assms 2(2)] s3_wf_put_object [OF assms, of "ob\<lparr>o_oid := k\<rparr>" k] by simp
  qed
  then show "s3_wf (snd (object_fetch P now db))" "s3_buckets (snd (object_fetch P now db)) = s3_buckets db"
    "fst (object_fetch P now db) = Object_init now \<or>
     S3MemoryDb_BucketExists (o_region (fst (object_fetch P now db))) (o_bucket (fst (object_fetch P now db))) db"
    by simp_all
qed

lemma keeps_GetObject [keeps]:
  "keeps_buckets st0 st \<Longrightarrow> keeps_buckets st0 (snd (on_db (S3MemoryDb_GetObject now region bucket key) st))"
  "keeps_buckets st0 st \<Longrightarrow> keeps_buckets st0 (snd (on_db (S3MemoryDb_GetObjectMd5 now region bucket key md5) st))"
  by (simp_all add: keeps_buckets_def object_getter_defs object_fetch_wf)

lemma keeps_CreateObject [keeps]:
  assumes "keeps_buckets st0 st" "S3MemoryDb_BucketExists (o_region ob) (o_bucket ob) (ss_db st0)"
  shows "keeps_buckets st0 (snd (on_db (S3MemoryDb_CreateObject now oid ob) st))"
  using assms keeps_bucketsD [OF assms(1)]
  by (simp add: keeps_buckets_def CreateObject_eq s3_wf_put_object)

lemma keeps_UpdateObject [keeps]:
  assumes "keeps_buckets st0 st"
    "S3MemoryDb_BucketExists (o_region ob) (o_bucket ob) (ss_db st0) \<or> o_bucket ob = []"
  shows "keeps_buckets st0 (snd (on_db (S3MemoryDb_UpdateObject ob) st))"
proof (cases "smap_find_if (\<lambda>(k, v). o_bucket v = o_bucket ob \<and> o_key v = o_key ob) (s3_objects (ss_db st))")
  case None
  then show ?thesis using assms(1) by (simp add: S3MemoryDb_UpdateObject_def smap_replace_def keeps_buckets_def)
next
  case (Some kv)
  obtain k v where kv: "kv = (k, v)" by (cases kv)
  with Some have row: "(k, v) \<in> set (s3_objects (ss_db st))" "o_bucket v = o_bucket ob"
    using smap_find_if_Some [OF Some] by auto
  note wf = keeps_bucketsD(1) [OF assms(1)]
  have "o_bucket v \<noteq> []" using s3_wfD(4) [OF wf row(1)] s3_wfD(2) [OF wf] by (auto simp: BucketExists_iff)
  then have "s3_wf ((ss_db st)\<lparr>s3_objects := smap_put k ob (s3_objects (ss_db st))\<rparr>)"
    using assms row(2) keeps_bucketsD(3) [OF assms(1)] by (intro s3_wf_put_object wf) auto
  then show ?thesis using assms(1) Some kv
    by (simp add: S3MemoryDb_UpdateObject_def smap_replace_def keeps_buckets_def)
qed

lemma keeps_CreateOrUpdateObject [keeps]:
  assumes "keeps_buckets st0 st" "S3MemoryDb_BucketExists (o_region ob) (o_bucket ob) (ss_db st0)"
  shows "keeps_buckets st0 (snd (on_db (S3Database_CreateOrUpdateObject now oid ob) st))"
  using keeps_CreateObject [OF assms, of now oid] keeps_UpdateObject [of st0 st ob] assms
  by (simp add: S3Database_CreateOrUpdateObject_def case_prod_beta)

section \<open>Storing an object and finding it again\<close>

lemma find_put_first:
  assumes "smap_inv m" "smap_find_if P m = Some (k, v)" "\<And>kv. Q kv \<Longrightarrow> P kv" "Q (k, v')"
  shows "smap_find_if Q (smap_put k v' m) = Some (k, v')"
  using assms(1,2)
proof (induction m)
  case (Cons kv m)
  obtain k0 v0 where kv: "kv = (k0, v0)" by (cases kv)
  show ?case
  proof (cases "P (k0, v0)")
    case True
    then show ?thesis using Cons.prems assms(4) by (simp add: kv smap_find_if_def)
  next
    case False
    then have find: "smap_find_if P m = Some (k, v)" and notQ: "\<not> Q (k0, v0)"
      using Cons.prems assms(3) by (auto simp: kv smap_find_if_def)
    have "k0 < k" using Cons.prems(1) smap_find_if_Some [OF find] by (auto simp: kv smap_inv_Cons)
    then show ?thesis using Cons.IH [OF _ find] Cons.prems(1) notQ by (simp add: kv smap_inv_Cons smap_find_if_def)
  qed
qed (simp add: smap_find_if_def)

text \<open>\<open>UpdateObject\<close> ignores the region, but its first match is before every match of the getter.\<close>

lemma CreateOrUpdateObject_finds:
  assumes inv: "s3_inv db"
  obtains k ob' where
    "S3Database_CreateOrUpdateObject now oid ob db = (Inr ob', db\<lparr>s3_objects := smap_put k ob' (s3_objects db)\<rparr>)"
    "ob' = ob \<or> ob' = ob\<lparr>o_oid := oid\<rparr>"
    "smap_find_if (\<lambda>(k, v). o_region v = o_region ob \<and> o_bucket v = o_bucket ob \<and> o_key v = o_key ob)
       (smap_put k ob' (s3_objects db)) = Some (k, ob')"
proof (cases "S3MemoryDb_ObjectExists ob db")
  case True
  then obtain kv where "kv \<in> set (s3_objects db)" "(\<lambda>(k, v). o_bucket v = o_bucket ob \<and> o_key v = o_key ob) kv"
    unfolding S3MemoryDb_ObjectExists_def smap_find_if_not_None by auto
  then have "smap_find_if (\<lambda>(k, v). o_bucket v = o_bucket ob \<and> o_key v = o_key ob) (s3_objects db) \<noteq> None"
    unfolding smap_find_if_not_None by blast
  then obtain k v where f: "smap_find_if (\<lambda>(k, v). o_bucket v = o_bucket ob \<and> o_key v = o_key ob) (s3_objects db) = Some (k, v)"
    by auto
  have "smap_find_if (\<lambda>(k, v). o_region v = o_region ob \<and> o_bucket v = o_bucket ob \<and> o_key v = o_key ob)
      (smap_put k ob (s3_objects db)) = Some (k, ob)"
    by (rule find_put_first [OF s3_invD(3) [OF inv] f]) auto
  then show ?thesis
    by (intro that [of ob k])
       (use True f in \<open>simp_all add: S3Database_CreateOrUpdateObject_def S3MemoryDb_UpdateObject_def smap_replace_def\<close>)
next
  case False
  then have none: "\<not> (o_region v = o_region ob \<and> o_bucket v = o_bucket ob \<and> o_key v = o_key ob)" if "(k, v) \<in> set (s3_objects db)" for k v
    using that unfolding S3MemoryDb_ObjectExists_def smap_find_if_not_None by auto
  have "smap_find_if (\<lambda>(k, v). o_region v = o_region ob \<and> o_bucket v = o_bucket ob \<and> o_key v = o_key ob)
      (smap_put oid (ob\<lparr>o_oid := oid\<rparr>) (s3_objects db)) = Some (oid, ob\<lparr>o_oid := oid\<rparr>)"
    by (rule smap_find_if_unique) (use none in \<open>auto simp: set_smap_put s3_invD [OF inv]\<close>)
  then show ?thesis
    by (intro that [of "ob\<lparr>o_oid := oid\<rparr>" oid])
       (use False in \<open>simp_all add: S3Database_CreateOrUpdateObject_def CreateObject_eq inv\<close>)
qed

lemma GetObject_found:
  assumes "smap_find_if (\<lambda>(k, v). o_region v = region \<and> o_bucket v = bucket \<and> o_key v = key) (s3_objects db) = Some (k, ob)"
  shows "S3MemoryDb_GetObject now region bucket key db =
    (ob\<lparr>o_oid := k\<rparr>, db\<lparr>s3_objects := smap_put k (ob\<lparr>o_oid := k\<rparr>) (s3_objects db)\<rparr>)"
    "S3MemoryDb_ObjectExists (wanted region bucket key) db"
  using assms by (simp_all add: S3MemoryDb_GetObject_def object_fetch_def smap_fetch_def S3MemoryDb_ObjectExists_def wanted_def)

section \<open>Files\<close>

text \<open>On a lawful file system \<open>EnsureDirectory\<close> succeeds and keeps what is there.\<close>

lemma on_fs_EnsureDirectory:
  assumes "fs_lawful fso ready"
  obtains fs' where "on_fs (DirUtils_EnsureDirectory fso d) st = (Inr (), st\<lparr>ss_fs := fs'\<rparr>)"
    "fs_keeps fso ready {} (ss_fs st) fs'"
proof -
  obtain fs' where "DirUtils_EnsureDirectory fso d (ss_fs st) = (Inr (), fs')" "fs_keeps fso ready {} (ss_fs st) fs'"
    by (rule EnsureDirectory_lawful [OF assms])
  then show ?thesis by (intro that [of fs']) (simp_all add: on_fs_def)
qed

text \<open>The key is read by its id: the text of the key does not depend on the draw for a missing key.\<close>

lemma GetKeyByKeyId_pure:
  assumes "kms_inv db"
  shows "snd (KMSMemoryDb_GetKeyByKeyId now keyId db) = db"
    "k_aes256Key (fst (KMSMemoryDb_GetKeyByKeyId now keyId db)) = k_aes256Key (fst (KMSMemoryDb_GetKeyByKeyId now' keyId db))"
  using assms by (simp_all add: KMSMemoryDb_GetKeyByKeyId_def key_fetch_inv Key_init_def split: option.split)

definition bucket_key :: "Bucket \<Rightarrow> kms_db \<Rightarrow> string" where
  "bucket_key b kms = k_aes256Key (fst (KMSMemoryDb_GetKeyByKeyId 0 (be_kmsKeyId (b_bucketEncryption b)) kms))"

text \<open>What a file of the bucket holds for given contents.\<close>

definition stored_form :: "'fs s3_world \<Rightarrow> Bucket \<Rightarrow> kms_db \<Rightarrow> string \<Rightarrow> string" where
  "stored_form w b kms content = (if Bucket_HasEncryption b then w_encrypt w (bucket_key b kms) content else content)"

lemma CheckEncryption_effect:
  assumes law: "fs_lawful (w_fso w) ready" and kms: "kms_inv (ss_kms st)"
    and p: "p = path_in (s3_dir (w_cfg w)) (o_internalName ob)"
    and ready: "ready p (ss_fs st)" "ready (p @ ''.aes256'') (ss_fs st)"
  obtains fs' where "S3Service_CheckEncryption w now b ob st = (Inr (), st\<lparr>ss_fs := fs'\<rparr>)"
    "fs_read (w_fso w) p fs' = stored_form w b (ss_kms st) (fs_read (w_fso w) p (ss_fs st))"
    "fs_keeps (w_fso w) ready {p, p @ ''.aes256''} (ss_fs st) fs'"
proof -
  obtain fs1 where e: "on_fs (DirUtils_EnsureDirectory (w_fso w) (s3_dir (w_cfg w))) st = (Inr (), st\<lparr>ss_fs := fs1\<rparr>)"
    and k1: "fs_keeps (w_fso w) ready {} (ss_fs st) fs1" by (rule on_fs_EnsureDirectory [OF law])
  have read1: "fs_read (w_fso w) p fs1 = fs_read (w_fso w) p (ss_fs st)" and ready1: "ready p fs1" "ready (p @ ''.aes256'') fs1"
    using fs_keepsD [OF k1] ready by simp_all
  show ?thesis
  proof (cases "Bucket_HasEncryption b")
    case True
    let ?fs = "Crypto_Aes256EncryptFile (w_encrypt w) (w_fso w) p (bucket_key b (ss_kms st)) fs1"
    have key: "k_aes256Key (fst (KMSMemoryDb_GetKeyByKeyId now (be_kmsKeyId (b_bucketEncryption b)) (ss_kms st))) = bucket_key b (ss_kms st)"
      unfolding bucket_key_def by (rule GetKeyByKeyId_pure(2) [OF kms])
    have "S3Service_CheckEncryption w now b ob st = (Inr (), st\<lparr>ss_fs := ?fs\<rparr>)"
      using True key by (simp add: S3Service_CheckEncryption_def e case_prod_beta GetKeyByKeyId_pure(1) [OF kms] flip: p)
    moreover have enc: "fs_read (w_fso w) p ?fs = w_encrypt w (bucket_key b (ss_kms st)) (fs_read (w_fso w) p fs1) \<and>
        fs_keeps (w_fso w) ready {p, p @ ''.aes256''} fs1 ?fs"
      using Aes256EncryptFile_lawful [where fso = "w_fso w" and ready = ready and p = p and fs = fs1
          and enc = "w_encrypt w" and key = "bucket_key b (ss_kms st)"] law ready1 by simp
    moreover have "fs_keeps (w_fso w) ready {p, p @ ''.aes256''} (ss_fs st) ?fs"
      using fs_keeps_trans [OF k1 conjunct2 [OF enc]] by simp
    ultimately show ?thesis using that [of ?fs] True read1 by (simp add: stored_form_def)
  next
    case False
    then show ?thesis using that [of fs1] e read1 k1
      by (simp add: S3Service_CheckEncryption_def stored_form_def fs_keeps_def)
  qed
qed

end
