(* ===== verification/S3Upload.thy ===== *)
theory S3Upload
  imports S3Facts
begin

text \<open>
  What an upload to a bucket without versioning leaves behind, up to the notifications, and what a
  download of the same key finds.
\<close>

section \<open>The upload before its notifications\<close>

definition upload_row :: "'fs s3_world \<Rightarrow> s3_draws \<Rightarrow> PutObjectRequest \<Rightarrow> string \<Rightarrow> Object" where
  "upload_row w d request body =
     (put_entity d request (int (length body)))\<lparr>o_md5sum := Crypto_HexEncode (ext_md5 (w_ext w) body)\<rparr>"

lemma upload_row_fields [simp]:
  "o_region (upload_row w d request body) = por_region request" "o_bucket (upload_row w d request body) = por_bucket request"
  "o_key (upload_row w d request body) = por_key request" "o_size (upload_row w d request body) = int (length body)"
  "o_internalName (upload_row w d request body) = x_file d" "o_contentType (upload_row w d request body) = por_contentType request"
  "o_metadata (upload_row w d request body) = por_metadata request"
  "o_md5sum (upload_row w d request body) = Crypto_HexEncode (ext_md5 (w_ext w) body)"
  by (simp_all add: upload_row_def put_entity_def)

text \<open>\<open>saved\<close>: the row \<open>ob\<close> is stored under \<open>k\<close> and is the one the getter finds, and the file holds the body.\<close>

definition saved ::
  "'fs s3_world \<Rightarrow> (string \<Rightarrow> 'fs \<Rightarrow> bool) \<Rightarrow> s3_draws \<Rightarrow> PutObjectRequest \<Rightarrow> Bucket \<Rightarrow> string \<Rightarrow> 'fs s3_state \<Rightarrow> string \<Rightarrow> Object \<Rightarrow> 'fs s3_state \<Rightarrow> bool" where
  "saved w ready d request b body st k ob st' \<longleftrightarrow>
     (\<exists>oid. ob = (upload_row w d request body)\<lparr>o_oid := oid\<rparr>) \<and>
     ss_db st' = (ss_db st)\<lparr>s3_objects := smap_put k ob (s3_objects (ss_db st))\<rparr> \<and>
     smap_find_if (\<lambda>(k, v). o_region v = por_region request \<and> o_bucket v = por_bucket request \<and> o_key v = por_key request)
       (s3_objects (ss_db st')) = Some (k, ob) \<and>
     fs_read (w_fso w) (path_in (s3_dir (w_cfg w)) (x_file d)) (ss_fs st') = stored_form w b (ss_kms st) body \<and>
     (\<forall>p. ready p (ss_fs st) \<longrightarrow> ready p (ss_fs st')) \<and>
     ss_kms st' = ss_kms st \<and> ss_msg st' = ss_msg st"

lemma SaveUnversionedObject_eq:
  assumes inv: "s3_inv (ss_db st)" and kms: "kms_inv (ss_kms st)" and law: "fs_lawful (w_fso w) ready"
    and ready: "ready (path_in (s3_dir (w_cfg w)) (x_file d)) (ss_fs st)"
      "ready (path_in (s3_dir (w_cfg w)) (x_file d) @ ''.aes256'') (ss_fs st)"
  obtains k ob st' where "saved w ready d request b body st k ob st'"
    "S3Service_SaveUnversionedObject w d request b body False st =
       andthen (S3Service_CheckNotifications w (x_check d) (por_region request) (por_bucket request) (por_key request)
                  (int (length body)) ''ObjectCreated'' st')
         (\<lambda>_ st5. (Inr (put_response request (int (length body)) [] ob), st5))"
proof -
  let ?p = "path_in (s3_dir (w_cfg w)) (x_file d)" and ?row = "upload_row w d request body"
  obtain fs1 where e: "on_fs (DirUtils_EnsureDirectory (w_fso w) (s3_dir (w_cfg w))) st = (Inr (), st\<lparr>ss_fs := fs1\<rparr>)"
    and k1: "fs_keeps (w_fso w) ready {} (ss_fs st) fs1" by (rule on_fs_EnsureDirectory [OF law])
  have ready1: "ready ?p fs1" "ready (?p @ ''.aes256'') fs1" using fs_keepsD(3) [OF k1] ready by simp_all
  let ?fs2 = "fs_write (w_fso w) ?p body fs1"
  have k2: "fs_keeps (w_fso w) ready {?p} fs1 ?fs2" by (rule fs_lawfulD(3) [OF law])
  have read2: "fs_read (w_fso w) ?p ?fs2 = body" and ex2: "fs_exists (w_fso w) ?p ?fs2"
    using fs_lawfulD(1,2) [OF law ready1(1)] by simp_all
  obtain k ob where cu: "S3Database_CreateOrUpdateObject (x_now d) (x_oid d) ?row (ss_db st) =
        (Inr ob, (ss_db st)\<lparr>s3_objects := smap_put k ob (s3_objects (ss_db st))\<rparr>)"
    and ob: "ob = ?row \<or> ob = ?row\<lparr>o_oid := x_oid d\<rparr>"
    and found: "smap_find_if (\<lambda>(k, v). o_region v = o_region ?row \<and> o_bucket v = o_bucket ?row \<and> o_key v = o_key ?row)
       (smap_put k ob (s3_objects (ss_db st))) = Some (k, ob)"
    by (rule CreateOrUpdateObject_finds [OF inv])
  let ?st3 = "(start_hash_job (por_checksumAlgorithm request) ?row (st\<lparr>ss_fs := ?fs2\<rparr>))
      \<lparr>ss_db := (ss_db st)\<lparr>s3_objects := smap_put k ob (s3_objects (ss_db st))\<rparr>\<rparr>"
  have job: "ss_kms ?st3 = ss_kms st" "ss_fs ?st3 = ?fs2" "ss_msg ?st3 = ss_msg st"
    "ss_db ?st3 = (ss_db st)\<lparr>s3_objects := smap_put k ob (s3_objects (ss_db st))\<rparr>"
    by (simp_all add: start_hash_job_def)
  have name: "o_internalName ob = x_file d" "o_size ob = int (length body)"
    using ob by auto
  have "\<exists>oid. ob = ?row\<lparr>o_oid := oid\<rparr>"
    using ob by (auto intro: exI [of _ "o_oid ?row"])
  note ob_row = this
  have ready2: "ready ?p (ss_fs ?st3)" "ready (?p @ ''.aes256'') (ss_fs ?st3)" using fs_keepsD(3) [OF k2] ready1 job by simp_all
  obtain fs4 where enc: "S3Service_CheckEncryption w (x_now d) b ob ?st3 = (Inr (), ?st3\<lparr>ss_fs := fs4\<rparr>)"
    and read4: "fs_read (w_fso w) ?p fs4 = stored_form w b (ss_kms ?st3) (fs_read (w_fso w) ?p (ss_fs ?st3))"
    and k4: "fs_keeps (w_fso w) ready {?p, ?p @ ''.aes256''} (ss_fs ?st3) fs4"
    by (rule CheckEncryption_effect [OF law, of ?st3 ?p ob "x_now d" b]) (use kms job name ready2 in simp_all)
  have "saved w ready d request b body st k ob (?st3\<lparr>ss_fs := fs4\<rparr>)"
    unfolding saved_def
    using ob_row found read4 job read2 fs_keepsD(3) [OF k1] fs_keepsD(3) [OF k2] fs_keepsD(3) [OF k4]
    by simp
  moreover have "S3Service_SaveUnversionedObject w d request b body False st =
       andthen (S3Service_CheckNotifications w (x_check d) (por_region request) (por_bucket request) (por_key request)
                  (int (length body)) ''ObjectCreated'' (?st3\<lparr>ss_fs := fs4\<rparr>))
         (\<lambda>_ st5. (Inr (put_response request (int (length body)) [] ob), st5))"
  proof -
    have "on_db (S3Database_CreateOrUpdateObject (x_now d) (x_oid d) ?row)
        (start_hash_job (por_checksumAlgorithm request) ?row (st\<lparr>ss_fs := ?fs2\<rparr>)) = (Inr ob, ?st3)"
      using cu by (simp add: on_db_def start_hash_job_def)
    moreover have "FileUtils_FileSize (w_fso w) ?p ?fs2 = int (length body)"
      by (simp add: FileUtils_FileSize_def ex2 read2)
    moreover have "(put_entity d request (int (length body)))\<lparr>o_md5sum := Crypto_GetMd5FromFile (ext_md5 (w_ext w)) (w_fso w) ?p ?fs2\<rparr> = ?row"
      by (simp add: upload_row_def Crypto_GetMd5FromFile_def read2)
    ultimately show ?thesis using enc
      by (simp add: S3Service_SaveUnversionedObject_def e Let_def name)
  qed
  ultimately show ?thesis by (rule that)
qed

lemma PutObject_eq:
  assumes inv: "s3_inv (ss_db st)" and kms: "kms_inv (ss_kms st)" and law: "fs_lawful (w_fso w) ready"
    and ready: "ready (path_in (s3_dir (w_cfg w)) (x_file d)) (ss_fs st)"
      "ready (path_in (s3_dir (w_cfg w)) (x_file d) @ ''.aes256'') (ss_fs st)"
    and ex: "S3MemoryDb_BucketExists (por_region request) (por_bucket request) (ss_db st)"
    and b: "b = fst (S3MemoryDb_GetBucketByRegionName 0 (por_region request) (por_bucket request) (ss_db st))"
      "\<not> Bucket_IsVersioned b"
  obtains k ob st' where "saved w ready d request b body st k ob st'"
    "S3Service_PutObject w d request body False st =
       catch_poco (andthen (S3Service_CheckNotifications w (x_check d) (por_region request) (por_bucket request) (por_key request)
                  (int (length body)) ''ObjectCreated'' st')
         (\<lambda>_ st5. (Inr (put_response request (int (length body)) [] ob), st5)))"
proof -
  obtain k0 b0 where "\<And>now. S3MemoryDb_GetBucketByRegionName now (por_region request) (por_bucket request) (ss_db st) = (b0, ss_db st)"
    by (rule GetBucketByRegionName_hit [OF inv ex]) blast
  then have get: "on_db (S3MemoryDb_GetBucketByRegionName (x_now d) (por_region request) (por_bucket request)) st = (b, st)"
    using b(1) by (simp add: on_db_def)
  show ?thesis
    by (rule SaveUnversionedObject_eq [OF inv kms law ready, of request b body])
       (rule that, assumption, simp add: S3Service_PutObject_def need_bucket_cases(1) [OF ex] get b(2))
qed

section \<open>The download\<close>

lemma CheckDecryption_effect:
  assumes law: "fs_lawful (w_fso w) ready" and kms: "kms_inv (ss_kms st)"
    and ready: "ready (path_in (s3_dir (w_cfg w)) (o_internalName ob) @ ''.plain'') (ss_fs st)"
    and read: "fs_read (w_fso w) (path_in (s3_dir (w_cfg w)) (o_internalName ob)) (ss_fs st) = stored_form w b (ss_kms st) body"
    and cipher: "\<And>k c. w_decrypt w k (w_encrypt w k c) = c"
  obtains f st' where
    "S3Service_CheckDecryption w now b ob (path_in (s3_dir (w_cfg w)) (o_internalName ob)) st = (Inr f, st')"
    "fs_read (w_fso w) f (ss_fs st') = body"
proof -
  let ?p = "path_in (s3_dir (w_cfg w)) (o_internalName ob)"
  obtain fs1 where e: "on_fs (DirUtils_EnsureDirectory (w_fso w) (s3_dir (w_cfg w))) st = (Inr (), st\<lparr>ss_fs := fs1\<rparr>)"
    and k1: "fs_keeps (w_fso w) ready {} (ss_fs st) fs1" by (rule on_fs_EnsureDirectory [OF law])
  have read1: "fs_read (w_fso w) ?p fs1 = stored_form w b (ss_kms st) body" using fs_keepsD(1) [OF k1, of ?p] read by simp
  have ready1: "ready (?p @ ''.plain'') fs1" using fs_keepsD(3) [OF k1] ready by simp
  show ?thesis
  proof (cases "Bucket_HasEncryption b")
    case True
    let ?fs2 = "fs_write (w_fso w) (?p @ ''.plain'') (w_decrypt w (bucket_key b (ss_kms st)) (fs_read (w_fso w) ?p fs1)) fs1"
    have key: "k_aes256Key (fst (KMSMemoryDb_GetKeyByKeyId now (be_kmsKeyId (b_bucketEncryption b)) (ss_kms st))) = bucket_key b (ss_kms st)"
      unfolding bucket_key_def by (rule GetKeyByKeyId_pure(2) [OF kms])
    have "S3Service_CheckDecryption w now b ob ?p st = (Inr (?p @ ''.plain''), st\<lparr>ss_kms := ss_kms st, ss_fs := ?fs2\<rparr>)"
      using True key by (simp add: S3Service_CheckDecryption_def e case_prod_beta GetKeyByKeyId_pure(1) [OF kms] Crypto_Aes256DecryptFile_def)
    moreover have "fs_read (w_fso w) (?p @ ''.plain'') ?fs2 = body"
      using True read1 fs_lawfulD(1) [OF law, of "?p @ ''.plain''" fs1] ready1 by (simp add: stored_form_def cipher)
    ultimately show ?thesis using that [of "?p @ ''.plain''" "st\<lparr>ss_kms := ss_kms st, ss_fs := ?fs2\<rparr>"] by simp
  next
    case False
    then show ?thesis using that [of ?p "st\<lparr>ss_fs := fs1\<rparr>"] e read1 by (simp add: S3Service_CheckDecryption_def stored_form_def)
  qed
qed

lemma GetObject_saved:
  assumes inv: "s3_inv (ss_db st)" and law: "fs_lawful (w_fso w) ready" and kms: "kms_inv (ss_kms st)"
    and ex: "S3MemoryDb_BucketExists (gor_region request) (gor_bucket request) (ss_db st)"
    and b: "b = fst (S3MemoryDb_GetBucketByRegionName 0 (gor_region request) (gor_bucket request) (ss_db st))" "\<not> Bucket_IsVersioned b"
    and find: "smap_find_if (\<lambda>(k, v). o_region v = gor_region request \<and> o_bucket v = gor_bucket request \<and> o_key v = gor_key request)
        (s3_objects (ss_db st)) = Some (k, ob)"
    and read: "fs_read (w_fso w) (path_in (s3_dir (w_cfg w)) (o_internalName ob)) (ss_fs st) = stored_form w b (ss_kms st) body"
    and ready: "ready (path_in (s3_dir (w_cfg w)) (o_internalName ob) @ ''.plain'') (ss_fs st)"
    and cipher: "\<And>k c. w_decrypt w k (w_encrypt w k c) = c"
  obtains f st' where
    "S3Service_GetObject w d request st =
       (Inr \<lparr>gos_bucket = o_bucket ob, gos_key = o_key ob, gos_size = o_size ob, gos_filename = f,
             gos_contentType = o_contentType ob, gos_metadata = o_metadata ob, gos_md5sum = o_md5sum ob,
             gos_modified = o_modified ob\<rparr>, st')"
    "fs_read (w_fso w) f (ss_fs st') = body"
proof -
  obtain k0 b0 where "\<And>now. S3MemoryDb_GetBucketByRegionName now (gor_region request) (gor_bucket request) (ss_db st) = (b0, ss_db st)"
    by (rule GetBucketByRegionName_hit [OF inv ex]) blast
  then have get: "on_db (S3MemoryDb_GetBucketByRegionName (x_now d) (gor_region request) (gor_bucket request)) st = (b, st)"
    using b(1) by (simp add: on_db_def)
  let ?ob = "ob\<lparr>o_oid := k\<rparr>"
  let ?st = "st\<lparr>ss_db := (ss_db st)\<lparr>s3_objects := smap_put k ?ob (s3_objects (ss_db st))\<rparr>\<rparr>"
  have obj: "object_to_return w d request b st = (Inr ?ob, ?st)"
    using b(2) by (simp add: object_to_return_def on_db_def GetObject_found(1) [OF find])
  obtain f st' where dec: "S3Service_CheckDecryption w (x_now d) b ?ob (path_in (s3_dir (w_cfg w)) (o_internalName ?ob)) ?st = (Inr f, st')"
      and body: "fs_read (w_fso w) f (ss_fs st') = body"
    by (rule CheckDecryption_effect [OF law, of ?st ?ob b body "x_now d"]) (use kms ready read cipher in simp_all)
  show ?thesis
    by (rule that [of f st', OF _ body])
       (use dec in \<open>simp add: S3Service_GetObject_def need_bucket_cases(1) [OF ex] get obj Let_def need_object_def
          GetObject_found(2) [OF find]\<close>)
qed

end
