(* ===== verification/S3Invariant.thy ===== *)
theory S3Invariant
  imports S3Facts
begin

text \<open>
  The states the S3 service and its worker can reach: every operation as a step, and the invariant
  that every object lies in a bucket.  Checksum jobs are not steps (\<open>S3HashCreator\<close> writes an entity
  it was given long before).
\<close>

section \<open>Structure of the operations\<close>

lemma keeps_case:
  "keeps_buckets st0 (snd p) \<Longrightarrow> (\<And>x s. p = (x, s) \<Longrightarrow> keeps_buckets st0 s \<Longrightarrow> keeps_buckets st0 (snd (k x s))) \<Longrightarrow>
   keeps_buckets st0 (snd (case p of (x, s) \<Rightarrow> k x s))"
  by (cases p) simp

lemma keeps_case_pair:
  "(\<And>x y. p = (x, y) \<Longrightarrow> keeps_buckets st0 (snd (k x y))) \<Longrightarrow> keeps_buckets st0 (snd (case p of (x, y) \<Rightarrow> k x y))"
  by (cases p) simp

lemma keeps_case_sum:
  "(\<And>e. r = Inl e \<Longrightarrow> keeps_buckets st0 (snd (f e))) \<Longrightarrow> (\<And>x. r = Inr x \<Longrightarrow> keeps_buckets st0 (snd (g x))) \<Longrightarrow>
   keeps_buckets st0 (snd (case r of Inl e \<Rightarrow> f e | Inr x \<Rightarrow> g x))"
  by (cases r) simp_all

lemma keeps_if:
  "(c \<Longrightarrow> keeps_buckets st0 (snd a)) \<Longrightarrow> (\<not> c \<Longrightarrow> keeps_buckets st0 (snd b)) \<Longrightarrow>
   keeps_buckets st0 (snd (if c then a else b))"
  by simp

lemma keeps_return: "keeps_buckets st0 st \<Longrightarrow> keeps_buckets st0 (snd (r, st))"
  by simp

lemma keeps_catch_poco: "keeps_buckets st0 (snd r) \<Longrightarrow> keeps_buckets st0 (snd (catch_poco r))"
  by simp

lemma keeps_need_bucket:
  "keeps_buckets st0 st \<Longrightarrow> (S3MemoryDb_BucketExists region name (ss_db st0) \<Longrightarrow> keeps_buckets st0 (snd (k st))) \<Longrightarrow>
   keeps_buckets st0 (snd (need_bucket region name m st k))"
  using keeps_bucketsD(3) [of st0 st region name] by (simp add: need_bucket_def)

lemma keeps_need_object:
  "keeps_buckets st0 st \<Longrightarrow> keeps_buckets st0 (snd (k st)) \<Longrightarrow> keeps_buckets st0 (snd (need_object region bucket key m st k))"
  by (simp add: need_object_def)

lemmas keeps_structure = keeps_andthen keeps_case keeps_if keeps_return keeps_catch_poco keeps_need_bucket keeps_need_object

lemmas keeps_operations = keeps_on_fs keeps_start_hash_job keeps_CheckNotifications keeps_GetBucket keeps_GetObject
  keeps_CreateObject keeps_UpdateObject keeps_CreateOrUpdateObject

text \<open>Writing a file, taking a key or a message: the store is the same.\<close>

lemma keeps_updates:
  "keeps_buckets st0 st \<Longrightarrow> keeps_buckets st0 (st\<lparr>ss_fs := fs\<rparr>)"
  "keeps_buckets st0 st \<Longrightarrow> keeps_buckets st0 (st\<lparr>ss_kms := kms\<rparr>)"
  "keeps_buckets st0 st \<Longrightarrow> keeps_buckets st0 (st\<lparr>ss_kms := kms, ss_fs := fs\<rparr>)"
  "keeps_buckets st0 st \<Longrightarrow> keeps_buckets st0 (st\<lparr>ss_msg := msg\<rparr>)"
  by (rule keeps_same_db; simp)+

section \<open>Objects\<close>

lemma keeps_CheckEncryption:
  "keeps_buckets st0 st \<Longrightarrow> keeps_buckets st0 (snd (S3Service_CheckEncryption w now bucket ob st))"
  unfolding S3Service_CheckEncryption_def
  by (intro keeps_andthen keeps_on_fs keeps_if keeps_return) (auto simp: case_prod_beta intro: keeps_updates)

lemma keeps_CheckDecryption:
  "keeps_buckets st0 st \<Longrightarrow> keeps_buckets st0 (snd (S3Service_CheckDecryption w now bucket ob out st))"
  unfolding S3Service_CheckDecryption_def
  by (intro keeps_andthen keeps_on_fs keeps_if keeps_return) (auto simp: case_prod_beta intro: keeps_updates)

lemma keeps_SaveUnversionedObject:
  assumes "keeps_buckets st0 st" "S3MemoryDb_BucketExists (por_region request) (por_bucket request) (ss_db st0)"
  shows "keeps_buckets st0 (snd (S3Service_SaveUnversionedObject w d request bucket body chunk st))"
  unfolding S3Service_SaveUnversionedObject_def Let_def
  by (intro keeps_andthen keeps_if keeps_return keeps_operations keeps_CheckEncryption keeps_updates assms(1))
     (simp_all add: put_entity_def assms)

lemma keeps_SaveVersionedObject:
  assumes "keeps_buckets st0 st" "S3MemoryDb_BucketExists (por_region request) (por_bucket request) (ss_db st0)"
  shows "keeps_buckets st0 (snd (S3Service_SaveVersionedObject w d request bucket body st))"
  unfolding S3Service_SaveVersionedObject_def Let_def
  by (intro keeps_andthen keeps_case keeps_if keeps_return keeps_operations keeps_CheckEncryption keeps_updates assms(1))
     (simp_all add: put_entity_def assms)

lemma keeps_PutObject:
  assumes "keeps_buckets st0 st"
  shows "keeps_buckets st0 (snd (S3Service_PutObject w d request body chunk st))"
  unfolding S3Service_PutObject_def
  by (intro keeps_structure keeps_operations keeps_SaveUnversionedObject keeps_SaveVersionedObject assms)

lemma keeps_GetObject_service:
  assumes "keeps_buckets st0 st"
  shows "keeps_buckets st0 (snd (S3Service_GetObject w d request st))"
  unfolding S3Service_GetObject_def object_to_return_def Let_def
  by (intro keeps_structure keeps_operations keeps_CheckDecryption assms)
     (auto split: sum.split)

lemma keeps_metadata:
  assumes "keeps_buckets st0 st"
  shows "keeps_buckets st0 (snd (S3Service_GetObjectMetadata d region bucket key st))"
    "keeps_buckets st0 (snd (S3Service_GetBucketMetadata d region bucket st))"
    "keeps_buckets st0 (snd (S3Service_ListObjectVersions d region bucket n st))"
proof -
  show "keeps_buckets st0 (snd (S3Service_GetObjectMetadata d region bucket key st))"
    unfolding S3Service_GetObjectMetadata_def Let_def by (intro keeps_structure keeps_operations assms)
  show "keeps_buckets st0 (snd (S3Service_GetBucketMetadata d region bucket st))"
    unfolding S3Service_GetBucketMetadata_def by (intro keeps_structure keeps_operations assms)
  show "keeps_buckets st0 (snd (S3Service_ListObjectVersions d region bucket n st))"
    unfolding S3Service_ListObjectVersions_def by (intro keeps_structure keeps_operations assms)
qed

lemma keeps_copy_or_move:
  assumes "keeps_buckets st0 st"
  shows "keeps_buckets st0 (snd (copy_or_move missing w d request st))"
  unfolding copy_or_move_def copy_body_def Let_def
  by (intro keeps_structure keeps_operations assms)
     (simp_all add: copy_entity_def keeps_bucketsD(3))

lemma keeps_DeleteObjectFile:
  assumes "keeps_buckets st0 st"
  shows "keeps_buckets st0 (snd (S3Service_DeleteObjectFile w bucket key name st))"
  unfolding S3Service_DeleteObjectFile_def Let_def
  by (intro keeps_structure keeps_operations assms)

lemma keeps_erase_objects:
  "keeps_buckets st0 st \<Longrightarrow> keeps_buckets st0 (st\<lparr>ss_db := S3MemoryDb_DeleteObject ob (ss_db st)\<rparr>)"
  "keeps_buckets st0 st \<Longrightarrow> keeps_buckets st0 (st\<lparr>ss_db := S3MemoryDb_DeleteObjects bucket keys (ss_db st)\<rparr>)"
proof -
  assume k: "keeps_buckets st0 st"
  show "keeps_buckets st0 (st\<lparr>ss_db := S3MemoryDb_DeleteObject ob (ss_db st)\<rparr>)"
    using k by (simp add: keeps_buckets_def S3MemoryDb_DeleteObject_def s3_wf_erase_objects)
  have "s3_wf (db\<lparr>s3_objects := fold (\<lambda>key. smap_erase_if (\<lambda>(k, v). o_bucket v = bucket \<and> o_key v = key)) keys (s3_objects db)\<rparr>)"
    if "s3_wf db" for db
    using that
  proof (induction keys arbitrary: db)
    case (Cons key keys)
    show ?case using Cons.IH [OF s3_wf_erase_objects [OF Cons.prems, of "\<lambda>(k, v). o_bucket v = bucket \<and> o_key v = key"]] by simp
  qed simp
  with k show "keeps_buckets st0 (st\<lparr>ss_db := S3MemoryDb_DeleteObjects bucket keys (ss_db st)\<rparr>)"
    by (simp add: keeps_buckets_def S3MemoryDb_DeleteObjects_def)
qed

lemma keeps_DeleteObject:
  assumes "keeps_buckets st0 st"
  shows "keeps_buckets st0 (snd (S3Service_DeleteObject w d region bucket key st))"
  unfolding S3Service_DeleteObject_def
  by (intro keeps_structure keeps_operations keeps_DeleteObjectFile keeps_erase_objects assms)

lemma keeps_delete_objects_loop:
  "keeps_buckets st0 st \<Longrightarrow> keeps_buckets st0 (snd (delete_objects_loop w d i region bucket keys st))"
proof (induction keys arbitrary: i st)
  case (Cons key keys)
  show ?case unfolding delete_objects_loop.simps
    by (intro keeps_structure keeps_operations keeps_DeleteObjectFile Cons.IH Cons.prems)
qed simp

lemma keeps_DeleteObjects:
  assumes "keeps_buckets st0 st"
  shows "keeps_buckets st0 (snd (S3Service_DeleteObjects w d region bucket keys st))"
  unfolding S3Service_DeleteObjects_def
  by (intro keeps_structure keeps_delete_objects_loop keeps_erase_objects assms)

section \<open>Multipart uploads and the worker\<close>

lemma keeps_UploadDirectory:
  "keeps_buckets st0 st \<Longrightarrow> keeps_buckets st0 (snd (S3Service_GetMultipartUploadDirectory w uploadId st))"
  unfolding S3Service_GetMultipartUploadDirectory_def Let_def by (intro keeps_structure keeps_operations)

lemma keeps_CreateMultipartUpload:
  assumes "keeps_buckets st0 st"
  shows "keeps_buckets st0 (snd (S3Service_CreateMultipartUpload w d uploadId request st))"
  unfolding S3Service_CreateMultipartUpload_def
  by (intro keeps_structure keeps_operations keeps_UploadDirectory assms) simp_all

lemma keeps_UploadPart:
  assumes "keeps_buckets st0 st"
  shows "keeps_buckets st0 (snd (S3Service_UploadPart w body part uploadId st))"
  unfolding S3Service_UploadPart_def Let_def
  by (intro keeps_structure keeps_UploadDirectory keeps_updates assms)

lemma keeps_UploadPartCopy:
  assumes "keeps_buckets st0 st"
  shows "keeps_buckets st0 (snd (S3Service_UploadPartCopy w d request st))"
  unfolding S3Service_UploadPartCopy_def Let_def
  by (intro keeps_structure keeps_operations keeps_UploadDirectory keeps_updates assms)

text \<open>The object a getter returns is blank or one of the store.\<close>

lemma GetObject_bucket:
  assumes "keeps_buckets st0 st" "on_db (S3MemoryDb_GetObject now region bucket key) st = (ob, st')"
  shows "S3MemoryDb_BucketExists (o_region ob) (o_bucket ob) (ss_db st0) \<or> o_bucket ob = []"
proof -
  have "ob = fst (object_fetch (\<lambda>(k, v). o_region v = region \<and> o_bucket v = bucket \<and> o_key v = key) now (ss_db st))"
    using arg_cong [OF assms(2), of fst] by (simp add: S3MemoryDb_GetObject_def)
  then show ?thesis
    using object_fetch_wf(3) [OF keeps_bucketsD(1) [OF assms(1)]] keeps_bucketsD(3) [OF assms(1)]
    by (metis (no_types, lifting) Object.select_convs(3) Object_init_def)
qed

lemma keeps_CompleteMultipartUpload:
  assumes "keeps_buckets st0 st"
  shows "keeps_buckets st0 (snd (S3Service_CompleteMultipartUpload w d request st))"
proof -
  have complete: "keeps_buckets st0 (snd (case on_db (S3MemoryDb_GetObject (x_now d) region bucket key) st3 of
      (ob, st4) \<Rightarrow> andthen (on_db (S3MemoryDb_UpdateObject (ob\<lparr>o_size := sz, o_md5sum := md5, o_internalName := name\<rparr>)) st4) k))"
    if "keeps_buckets st0 st3" and "\<And>x s. keeps_buckets st0 s \<Longrightarrow> keeps_buckets st0 (snd (k x s))"
    for region bucket key st3 sz md5 name k
    using GetObject_bucket [OF that(1)] by (intro keeps_case keeps_andthen keeps_operations that) auto
  show ?thesis
    unfolding S3Service_CompleteMultipartUpload_def Let_def
    by (rule keeps_andthen keeps_case_sum keeps_return keeps_case_pair complete keeps_on_fs keeps_CheckNotifications
        keeps_start_hash_job keeps_UploadDirectory keeps_updates(1) assms | assumption)+
qed

lemma keeps_sync_bucket:
  assumes "keeps_buckets st0 st"
  shows "keeps_buckets st0 (sync_bucket w bucket st)"
proof -
  have "keeps_buckets st0 (fold (\<lambda>ob st'. if fs_exists (w_fso w) (path_in (s3_dir (w_cfg w)) (o_internalName ob)) (ss_fs st') then st'
      else st'\<lparr>ss_db := S3MemoryDb_DeleteObject ob (ss_db st')\<rparr>) obs st)" for obs
    using assms by (induction obs arbitrary: st) (simp_all add: keeps_erase_objects)
  then show ?thesis by (simp add: sync_bucket_def)
qed

lemma keeps_sync_files:
  "keeps_buckets st0 st \<Longrightarrow> keeps_buckets st0 (snd (sync_files w base names st))"
proof (induction names arbitrary: st)
  case (Cons name names)
  show ?case unfolding sync_files.simps by (intro keeps_structure keeps_operations Cons)
qed simp

lemma keeps_SyncObjects:
  assumes "keeps_buckets st0 st"
  shows "keeps_buckets st0 (snd (S3Worker_SyncObjects w base st))"
proof -
  have "keeps_buckets st0 (fold (sync_bucket w) bs st)" for bs
    using assms by (induction bs arbitrary: st) (simp_all add: keeps_sync_bucket)
  then show ?thesis
    unfolding S3Worker_SyncObjects_def Let_def
    by (intro keeps_if keeps_return keeps_case_sum keeps_sync_files assms)
qed

section \<open>Buckets\<close>

text \<open>Writing back a bucket with its id, region and name.\<close>

lemma GetBucket_then_Update:
  assumes wf: "s3_wf db" and ex: "S3MemoryDb_BucketExists region name db"
  obtains k b where "(k, b) \<in> set (s3_buckets db)" "b_region b = region" "b_name b = name" "b_oid b = k"
    "\<And>now. S3MemoryDb_GetBucketByRegionName now region name db = (b, db)"
    "\<And>b'. b_oid b' = k \<Longrightarrow> b_region b' = region \<Longrightarrow> b_name b' = name \<Longrightarrow>
       S3MemoryDb_UpdateBucket b' db = (Inr b', db\<lparr>s3_buckets := smap_put k b' (s3_buckets db)\<rparr>) \<and>
       s3_wf (db\<lparr>s3_buckets := smap_put k b' (s3_buckets db)\<rparr>)"
proof -
  note inv = s3_wfD(1) [OF wf]
  obtain k b where row: "(k, b) \<in> set (s3_buckets db)" "b_region b = region" "b_name b = name"
    and get: "\<And>now. S3MemoryDb_GetBucketByRegionName now region name db = (b, db)"
    by (rule GetBucketByRegionName_hit [OF inv ex]) blast
  have tag: "b_oid b = k" using rows_taggedD [OF s3_invD(1) [OF inv] row(1)] .
  have "S3MemoryDb_UpdateBucket b' db = (Inr b', db\<lparr>s3_buckets := smap_put k b' (s3_buckets db)\<rparr>) \<and>
       s3_wf (db\<lparr>s3_buckets := smap_put k b' (s3_buckets db)\<rparr>)"
    if b': "b_oid b' = k" "b_region b' = region" "b_name b' = name" for b'
  proof
    have "smap_replace (\<lambda>(k, b). b_region b = b_region b' \<and> b_name b = b_name b') b' (s3_buckets db) =
        (Inr b', smap_put (b_oid b') b' (s3_buckets db))"
      by (rule smap_replace_tagged [where oid_of = b_oid and e' = b])
         (use row b' s3_wfD(3) [OF wf] s3_invD [OF inv] in auto)
    then show "S3MemoryDb_UpdateBucket b' db = (Inr b', db\<lparr>s3_buckets := smap_put k b' (s3_buckets db)\<rparr>)"
      by (simp add: S3MemoryDb_UpdateBucket_def b'(1))
    let ?db = "db\<lparr>s3_buckets := smap_put k b' (s3_buckets db)\<rparr>"
    have set: "set (s3_buckets ?db) = insert (k, b') {kv \<in> set (s3_buckets db). fst kv \<noteq> k}"
      by (simp add: set_smap_put s3_invD [OF inv])
    have "S3MemoryDb_BucketExists r n ?db" if ex': "S3MemoryDb_BucketExists r n db" for r n
    proof -
      obtain k0 b0 where b0: "(k0, b0) \<in> set (s3_buckets db)" "b_region b0 = r" "b_name b0 = n"
        using ex' unfolding BucketExists_iff by auto
      show ?thesis
      proof (cases "k0 = k")
        case True
        then have "b0 = b" using b0(1) row(1) eq_key_imp_eq_value [OF smap_inv_distinct [OF s3_invD(2) [OF inv]], of k b0 b] by simp
        then show ?thesis using b0 row b' unfolding BucketExists_iff set by auto
      next
        case False
        then have "(k0, b0) \<in> set (s3_buckets ?db)" using b0(1) unfolding set by simp
        then show ?thesis using b0(2,3) unfolding BucketExists_iff by blast
      qed
    qed
    moreover have "s3_inv ?db" using inv b'(1) by (simp add: s3_inv_def rows_tagged_put)
    moreover have "\<forall>(k', c) \<in> set (s3_buckets ?db). b_name c \<noteq> []"
      using s3_wfD(2) [OF wf] row b' unfolding set by auto
    moreover have "\<forall>(k1, c1) \<in> set (s3_buckets ?db). \<forall>(k2, c2) \<in> set (s3_buckets ?db).
        b_region c1 = b_region c2 \<and> b_name c1 = b_name c2 \<longrightarrow> k1 = k2"
      using s3_wfD(3) [OF wf] s3_wfD(3) [OF wf row(1)] row b' unfolding set by (auto; metis)
    ultimately show "s3_wf ?db" using s3_wfD(4) [OF wf] by (intro s3_wfI) simp_all
  qed
  then show ?thesis using that [of k b] row tag get by blast
qed

lemma need_bucket_wf:
  assumes "s3_wf (ss_db st)" "S3MemoryDb_BucketExists region name (ss_db st) \<Longrightarrow> s3_wf (ss_db (snd (k st)))"
  shows "s3_wf (ss_db (snd (need_bucket region name m st k)))"
  using assms by (simp add: need_bucket_def)

lemma s3_wf_PutBucketVersioning:
  assumes "s3_wf (ss_db st)"
  shows "s3_wf (ss_db (snd (S3Service_PutBucketVersioning d region bucket status st)))"
  unfolding S3Service_PutBucketVersioning_def
proof (rule need_bucket_wf [OF assms])
  assume "S3MemoryDb_BucketExists region bucket (ss_db st)"
  then show "s3_wf (ss_db (snd (case on_db (S3MemoryDb_GetBucketByRegionName (x_now d) region bucket) st of
      (b, st') \<Rightarrow> andthen (on_db (S3MemoryDb_UpdateBucket (b\<lparr>b_versionStatus := BucketVersionStatusFromString (to_lower status)\<rparr>)) st')
                    (\<lambda>_ st''. (Inr (), st'')))))"
    by (rule GetBucket_then_Update [OF assms]) (simp add: on_db_def)
qed

lemma s3_wf_PutBucketEncryption:
  assumes "s3_wf (ss_db st)"
  shows "s3_wf (ss_db (snd (S3Service_PutBucketEncryption d region bucket encryption st)))"
  unfolding S3Service_PutBucketEncryption_def
proof (rule need_bucket_wf [OF assms])
  assume "S3MemoryDb_BucketExists region bucket (ss_db st)"
  then show "s3_wf (ss_db (snd (catch_poco (case on_db (S3MemoryDb_GetBucketByRegionName (x_now d) region bucket) st of
      (b, st') \<Rightarrow> andthen (on_db (S3MemoryDb_UpdateBucket (b\<lparr>b_bucketEncryption := encryption\<rparr>)) st')
                    (\<lambda>_ st''. (Inr (), st''))))))"
    by (rule GetBucket_then_Update [OF assms]) (simp add: on_db_def)
qed

lemma s3_wf_PutBucketNotificationConfiguration:
  assumes "s3_wf (ss_db st)"
  shows "s3_wf (ss_db (snd (S3Service_PutBucketNotificationConfiguration d uq ut ul request st)))"
  unfolding S3Service_PutBucketNotificationConfiguration_def
proof (rule need_bucket_wf [OF assms])
  assume ex: "S3MemoryDb_BucketExists (pbc_region request) (pbc_bucket request) (ss_db st)"
  show "s3_wf (ss_db (snd (catch_poco (case on_db (S3MemoryDb_GetBucketByRegionName (x_now d) (pbc_region request) (pbc_bucket request)) st of
      (bucket, st') \<Rightarrow>
           let b1 = S3Service_GetQueueNotificationConfigurations uq (pbc_queueConfigurations request) bucket;
               b2 = S3Service_GetTopicNotificationConfigurations ut (pbc_topicConfigurations request) b1;
               b3 = S3Service_GetLambdaNotificationConfigurations ul (pbc_lambdaConfigurations request) b2
           in andthen (on_db (S3MemoryDb_UpdateBucket b3) st') (\<lambda>_ st''. (Inr (pbc_queueConfigurations request), st''))))))"
    by (rule GetBucket_then_Update [OF assms ex])
       (simp add: on_db_def Let_def S3Service_GetQueueNotificationConfigurations_def
         S3Service_GetTopicNotificationConfigurations_def S3Service_GetLambdaNotificationConfigurations_def)
qed

lemma CreateBucketNotification_wf:
  assumes "s3_wf db" "S3MemoryDb_BucketExists (b_region b) (b_name b) db"
  shows "s3_wf (snd (S3Database_CreateBucketNotification now b n db))"
  by (rule GetBucket_then_Update [OF assms]) (simp add: S3Database_CreateBucketNotification_def)

lemma s3_wf_PutBucketNotification:
  assumes "s3_wf (ss_db st)"
  shows "s3_wf (ss_db (snd (S3Service_PutBucketNotification d request st)))"
  unfolding S3Service_PutBucketNotification_def
proof (rule need_bucket_wf [OF assms])
  assume ex: "S3MemoryDb_BucketExists (pbn_region request) (pbn_bucket request) (ss_db st)"
  obtain k b where b: "b_region b = pbn_region request" "b_name b = pbn_bucket request"
    "\<And>now. S3MemoryDb_GetBucketByRegionName now (pbn_region request) (pbn_bucket request) (ss_db st) = (b, ss_db st)"
    by (rule GetBucket_then_Update [OF assms ex]) blast
  have "s3_wf (snd (S3Database_CreateBucketNotification now b n (ss_db st)))" for now n
    using CreateBucketNotification_wf [OF assms, of b now n] ex b(1,2) by simp
  then show "s3_wf (ss_db (snd (case on_db (S3MemoryDb_GetBucketByRegionName (x_now d) (pbn_region request) (pbn_bucket request)) st of
         (bucket, st') \<Rightarrow>
           if Bucket_HasNotification (pbn_event request) bucket
           then (Inl (NotFoundException ''Bucket notification exists already''), st')
           else catch_poco
             (if pbn_lambdaArn request \<noteq> []
              then andthen (on_db (S3Service_CreateLambdaConfiguration (x_now d) bucket request) st') (\<lambda>_ st''. (Inr (), st''))
              else if pbn_queueArn request \<noteq> []
              then andthen (on_db (S3Service_CreateQueueConfiguration (x_now d) bucket request) st') (\<lambda>_ st''. (Inr (), st''))
              else (Inr (), st')))))"
    using assms
    by (auto simp: on_db_def b(3) case_prod_beta andthen_def S3Service_CreateLambdaConfiguration_def
        S3Service_CreateQueueConfiguration_def split: sum.split)
qed

lemma s3_wf_CreateBucket:
  assumes wf: "s3_wf (ss_db st)" and fresh: "x_oid d \<notin> fst ` set (s3_buckets (ss_db st))" and name: "cbr_name request \<noteq> []"
  shows "s3_wf (ss_db (snd (S3Service_CreateBucket w d request st)))"
proof (cases "S3MemoryDb_BucketExists (cbr_region request) (cbr_name request) (ss_db st)")
  case True
  then show ?thesis using wf
    by (simp add: S3Service_CreateBucket_def Let_def case_prod_beta GetBucketByRegionName_pure s3_wfD(1))
next
  case False
  let ?b = "(Bucket_init (x_now d))\<lparr>b_region := cbr_region request, b_name := cbr_name request, b_owner := cbr_owner request, b_oid := x_oid d\<rparr>"
  let ?db = "(ss_db st)\<lparr>s3_buckets := smap_put (x_oid d) ?b (s3_buckets (ss_db st))\<rparr>"
  note inv = s3_wfD(1) [OF wf]
  have other: "fst kv \<noteq> x_oid d" if "kv \<in> set (s3_buckets (ss_db st))" for kv using fresh that by (metis image_eqI)
  have set: "set (s3_buckets ?db) = insert (x_oid d, ?b) (set (s3_buckets (ss_db st)))"
    using other by (auto simp: set_smap_put s3_invD [OF inv])
  have "S3MemoryDb_BucketExists r n ?db" if "S3MemoryDb_BucketExists r n (ss_db st)" for r n
    using that unfolding BucketExists_iff set by auto
  moreover have "s3_inv ?db" using inv by (simp add: s3_inv_def rows_tagged_put)
  moreover have "\<forall>(k', c) \<in> set (s3_buckets ?db). b_name c \<noteq> []"
    using s3_wfD(2) [OF wf] name unfolding set by auto
  moreover have "\<forall>(k1, c1) \<in> set (s3_buckets ?db). \<forall>(k2, c2) \<in> set (s3_buckets ?db).
        b_region c1 = b_region c2 \<and> b_name c1 = b_name c2 \<longrightarrow> k1 = k2"
    using s3_wfD(3) [OF wf] False unfolding set BucketExists_iff by auto
  ultimately have "s3_wf ?db" using s3_wfD(4) [OF wf] by (intro s3_wfI) simp_all
  then show ?thesis using False by (simp add: S3Service_CreateBucket_def Let_def case_prod_beta CreateBucket_eq inv)
qed

lemma s3_wf_erase_bucket:
  assumes wf: "s3_wf db" and empty: "\<not> S3MemoryDb_HasObjects b db"
  shows "s3_wf (S3MemoryDb_DeleteBucket b db)"
proof -
  have none: "\<not> (o_region ob = b_region b \<and> o_bucket ob = b_name b)" if "(k, ob) \<in> set (s3_objects db)" for k ob
    using empty that smap_count_if_nonneg [of "\<lambda>(k, ob). o_region ob = b_region b \<and> o_bucket ob = b_name b" "s3_objects db"]
    by (fastforce simp: S3MemoryDb_HasObjects_def not_less order.antisym smap_count_if_erase)
  have "S3MemoryDb_BucketExists (o_region ob) (o_bucket ob) (S3MemoryDb_DeleteBucket b db)"
    if "(k, ob) \<in> set (s3_objects db)" for k ob
    using s3_wfD(4) [OF wf that] none [OF that]
    by (fastforce simp: BucketExists_iff S3MemoryDb_DeleteBucket_def set_smap_erase_if)
  then show ?thesis using wf
    unfolding s3_wf_def s3_inv_def S3MemoryDb_DeleteBucket_def
    by (fastforce simp: rows_tagged_erase_if set_smap_erase_if)
qed

lemma s3_wf_DeleteBucket:
  assumes wf: "s3_wf (ss_db st)"
  shows "s3_wf (ss_db (snd (S3Service_DeleteBucket w region bucket st)))"
proof -
  let ?b = "(Bucket_init 0)\<lparr>b_region := region, b_name := bucket\<rparr>"
  have dir: "ss_db (snd (S3Service_DeleteBucketDirectory w bucket st)) = ss_db st"
    unfolding S3Service_DeleteBucketDirectory_def by (rule andthen_invariant [where P = "\<lambda>s. ss_db s = ss_db st"]) simp_all
  have "s3_wf (ss_db (snd (andthen (S3Service_DeleteBucketDirectory w bucket st)
      (\<lambda>_ st'. (Inr (), st'\<lparr>ss_db := S3MemoryDb_DeleteBucket ?b (ss_db st')\<rparr>)))))"
    if "\<not> S3MemoryDb_HasObjects ?b (ss_db st)"
    using wf s3_wf_erase_bucket [OF wf that] dir
    by (cases "S3Service_DeleteBucketDirectory w bucket st" rule: andthen_cases) simp_all
  then show ?thesis unfolding S3Service_DeleteBucket_def Let_def by (intro need_bucket_wf [OF wf]) (simp add: wf)
qed

section \<open>Reachable states\<close>

inductive s3_step :: "'fs s3_world \<Rightarrow> 'fs s3_state \<Rightarrow> 'fs s3_state \<Rightarrow> bool" for w :: "'fs s3_world" where
  others: "s3_step w st (st\<lparr>ss_msg := msg, ss_kms := kms, ss_fs := fs\<rparr>)"
| create_bucket: "x_oid d \<notin> fst ` set (s3_buckets (ss_db st)) \<Longrightarrow> cbr_name cb \<noteq> [] \<Longrightarrow>
    s3_step w st (snd (S3Service_CreateBucket w d cb st))"
| get_bucket_metadata: "s3_step w st (snd (S3Service_GetBucketMetadata d region bucket st))"
| get_object_metadata: "s3_step w st (snd (S3Service_GetObjectMetadata d region bucket key st))"
| put_versioning: "s3_step w st (snd (S3Service_PutBucketVersioning d region bucket status st))"
| put_encryption: "s3_step w st (snd (S3Service_PutBucketEncryption d region bucket enc st))"
| put_notification: "s3_step w st (snd (S3Service_PutBucketNotification d pn st))"
| put_configuration: "s3_step w st (snd (S3Service_PutBucketNotificationConfiguration d uq ut ul pc st))"
| delete_bucket: "s3_step w st (snd (S3Service_DeleteBucket w region bucket st))"
| put_object: "s3_step w st (snd (S3Service_PutObject w d po body chunk st))"
| get_object: "s3_step w st (snd (S3Service_GetObject w d go st))"
| list_versions: "s3_step w st (snd (S3Service_ListObjectVersions d region bucket n st))"
| copy_object: "s3_step w st (snd (S3Service_CopyObject w d co st))"
| move_object: "s3_step w st (snd (S3Service_MoveObject w d co st))"
| delete_object: "s3_step w st (snd (S3Service_DeleteObject w d region bucket key st))"
| delete_objects: "s3_step w st (snd (S3Service_DeleteObjects w ds region bucket keys st))"
| create_upload: "s3_step w st (snd (S3Service_CreateMultipartUpload w d uploadId cm st))"
| upload_part: "s3_step w st (snd (S3Service_UploadPart w body part uploadId st))"
| upload_part_copy: "s3_step w st (snd (S3Service_UploadPartCopy w d uc st))"
| complete_upload: "s3_step w st (snd (S3Service_CompleteMultipartUpload w d cp st))"
| sync: "s3_step w st (snd (S3Worker_SyncObjects w base st))"

inductive s3_reachable :: "'fs s3_world \<Rightarrow> 'fs s3_state \<Rightarrow> bool" for w :: "'fs s3_world" where
  start: "ss_db st = \<lparr>s3_buckets = [], s3_objects = []\<rparr> \<Longrightarrow> s3_reachable w st"
| step: "s3_reachable w st \<Longrightarrow> s3_step w st st' \<Longrightarrow> s3_reachable w st'"

lemma keeps_wf: "(\<And>st0. keeps_buckets st0 st \<Longrightarrow> keeps_buckets st0 st') \<Longrightarrow> s3_wf (ss_db st) \<Longrightarrow> s3_wf (ss_db st')"
  using keeps_start keeps_bucketsD(1) by blast

lemma s3_step_wf: "s3_step w st st' \<Longrightarrow> s3_wf (ss_db st) \<Longrightarrow> s3_wf (ss_db st')"
proof (induction rule: s3_step.induct)
  case others
  then show ?case by simp
next
  case create_bucket
  then show ?case by (intro s3_wf_CreateBucket)
next
  case put_versioning
  then show ?case by (rule s3_wf_PutBucketVersioning)
next
  case put_encryption
  then show ?case by (rule s3_wf_PutBucketEncryption)
next
  case put_notification
  then show ?case by (rule s3_wf_PutBucketNotification)
next
  case put_configuration
  then show ?case by (rule s3_wf_PutBucketNotificationConfiguration)
next
  case delete_bucket
  then show ?case by (rule s3_wf_DeleteBucket)
qed (erule keeps_wf [rotated], simp only: S3Service_CopyObject_def S3Service_MoveObject_def keeps_metadata keeps_PutObject
  keeps_GetObject_service keeps_copy_or_move keeps_DeleteObject keeps_DeleteObjects keeps_CreateMultipartUpload
  keeps_UploadPart keeps_UploadPartCopy keeps_CompleteMultipartUpload keeps_SyncObjects)+

lemma s3_reachable_s3_wf: "s3_reachable w st \<Longrightarrow> s3_wf (ss_db st)"
proof (induction rule: s3_reachable.induct)
  case start
  then show ?case by (simp add: s3_wf_def s3_inv_def)
next
  case step
  then show ?case by (blast intro: s3_step_wf)
qed

end
