(* ===== verification/S3Examples.thy ===== *)
theory S3Examples
  imports S3Invariant SQSExamples
begin

text \<open>
  A concrete file system on which the laws of \<open>fs_lawful\<close> hold (a list of paths with contents, where
  a directory is a path with a trailing slash), and a small S3 installation on it.
\<close>

section \<open>A file system\<close>

type_synonym demo_files = "(string \<times> string) list"

definition files_read :: "string \<Rightarrow> demo_files \<Rightarrow> string" where
  "files_read p fs = (case map_of fs p of Some c \<Rightarrow> c | None \<Rightarrow> [])"

definition files_exist :: "string \<Rightarrow> demo_files \<Rightarrow> bool" where
  "files_exist p fs \<longleftrightarrow> p \<in> set (map fst fs) \<or> p @ ''/'' \<in> set (map fst fs)"

definition files_remove :: "bool \<Rightarrow> string \<Rightarrow> demo_files \<Rightarrow> (unit, demo_files) outcome" where
  "files_remove recursive p fs =
     (if \<not> recursive \<and> p \<noteq> [] \<and> last p = CHR ''/'' then (Inl (PocoException ''Directory not empty''), fs)
      else if recursive then (Inr (), filter (\<lambda>(q, c). q \<noteq> p \<and> take (length p + 1) q \<noteq> p @ ''/'') fs)
      else (Inr (), filter (\<lambda>(q, c). q \<noteq> p) fs))"

definition demo_fso :: "demo_files file_system" where
  "demo_fso =
     \<lparr>fs_exists = files_exist, fs_read = files_read, fs_write = (\<lambda>p c fs. (p, c) # filter (\<lambda>(q, _). q \<noteq> p) fs),
      fs_remove = files_remove,
      fs_copy = (\<lambda>p q fs. (Inr (), (q, files_read p fs) # filter (\<lambda>(r, _). r \<noteq> q) fs)),
      fs_rename = (\<lambda>p q fs. (Inr (), (q, files_read p fs) # filter (\<lambda>(r, _). (r \<noteq> p \<or> (r \<noteq> [] \<and> last r = CHR ''/'')) \<and> r \<noteq> q) fs)),
      fs_mkdir = (\<lambda>p fs. (Inr (), if files_exist p fs then fs else fs @ [(p @ ''/'', [])])),
      fs_list = (\<lambda>p fs. Inr (map (\<lambda>(q, _). drop (length p + 1) q)
         (filter (\<lambda>(q, _). take (length p + 1) q = p @ ''/'' \<and> length p + 1 < length q) fs)))\<rparr>"

lemma map_of_filter_keys: "map_of (filter (\<lambda>(q, _). P q) fs) p = (if P p then map_of fs p else None)"
  by (induction fs) auto

lemma files_read_simps:
  "files_read p ((q, c) # fs) = (if p = q then c else files_read p fs)"
  "files_read p (filter (\<lambda>(q, _). P q) fs) = (if P p then files_read p fs else [])"
  "files_read p (fs @ [(d, [])]) = files_read p fs"
  by (simp_all add: files_read_def map_of_filter_keys map_add_def split: option.split)

lemma files_exist_iff: "files_exist p fs \<longleftrightarrow> (\<exists>q \<in> set fs. fst q = p \<or> fst q = p @ ''/'')"
  unfolding files_exist_def set_map image_iff by metis

lemma demo_fs_lawful: "fs_lawful demo_fso (\<lambda>p fs. True)"
  unfolding fs_lawful_def fs_keeps_def demo_fso_def
  by (auto simp: files_read_simps files_exist_iff)

section \<open>An installation\<close>

text \<open>The cipher of the example reverses: what matters is that decryption undoes it.\<close>

definition demo_world :: "demo_files s3_world" where
  "demo_world =
     \<lparr>w_cfg = demo_cfg, w_ext = demo_ext, w_fso = demo_fso, w_encrypt = (\<lambda>k c. rev c), w_decrypt = (\<lambda>k c. rev c),
      w_sha1 = id, w_sha256 = id, w_content_md5 = id, w_invoke_lambda = (\<lambda>f p r u. Inr ()),
      w_object_version = (\<lambda>r b k v. Inl (DatabaseException ''no database''))\<rparr>"

definition demo_event :: event_draws where
  "demo_event = \<lparr>ed_etag = ''e'', ed_time = ''t''\<rparr>"

definition demo_check :: check_draws where
  "demo_check = \<lparr>cd_init = 0, cd_queue = demo_event, cd_topic = demo_event, cd_lambda = demo_event, cd_send = demo_draws,
     cd_publish = \<lparr>pd_init = 0, pd_messageId = ''p1'', pd_oid = ''o1'',
        pd_notify = (\<lambda>i. \<lparr>nd_init = 0, nd_notificationId = ''n'', nd_messageId = ''i'', nd_requestId = ''r'',
                          nd_clock = 0, nd_send = demo_draws\<rparr>)\<rparr>\<rparr>"

definition demo_s3_draws :: "string \<Rightarrow> string \<Rightarrow> s3_draws" where
  "demo_s3_draws oid file = \<lparr>x_now = 0, x_oid = oid, x_file = file, x_version = ''v'', x_date = ''d'', x_check = demo_check\<rparr>"

definition demo_s3_start :: "demo_files s3_state" where
  "demo_s3_start = \<lparr>ss_db = \<lparr>s3_buckets = [], s3_objects = []\<rparr>,
     ss_msg = \<lparr>mg_sns = \<lparr>sns_topics = [], sns_messages = []\<rparr>, mg_sqs = demo_queue\<rparr>,
     ss_kms = \<lparr>kms_keys = []\<rparr>, ss_fs = [], ss_jobs = []\<rparr>"

definition demo_bucket_request :: CreateBucketRequest where
  "demo_bucket_request = \<lparr>cbr_region = ''eu'', cbr_name = ''b'', cbr_owner = ''me''\<rparr>"

definition demo_s3_bucket :: "demo_files s3_state" where
  "demo_s3_bucket = snd (S3Service_CreateBucket demo_world (demo_s3_draws ''b1'' []) demo_bucket_request demo_s3_start)"

definition demo_put :: PutObjectRequest where
  "demo_put = \<lparr>por_region = ''eu'', por_bucket = ''b'', por_key = ''k'', por_owner = ''me'', por_md5Sum = [],
     por_contentType = ''text'', por_checksumAlgorithm = ''SHA1'', por_metadata = []\<rparr>"

definition demo_s3_put :: "demo_files s3_state" where
  "demo_s3_put = snd (S3Service_PutObject demo_world (demo_s3_draws ''o1'' ''f1'') demo_put ''hello'' False demo_s3_bucket)"

lemma demo_s3_reachable: "s3_reachable demo_world demo_s3_bucket" "s3_reachable demo_world demo_s3_put"
proof -
  have start: "s3_reachable demo_world demo_s3_start"
    by (rule s3_reachable.start) (simp add: demo_s3_start_def)
  show bucket: "s3_reachable demo_world demo_s3_bucket"
    unfolding demo_s3_bucket_def
    by (rule s3_reachable.step [OF start], rule s3_step.create_bucket) (simp_all add: demo_s3_start_def demo_bucket_request_def)
  show "s3_reachable demo_world demo_s3_put"
    unfolding demo_s3_put_def by (rule s3_reachable.step [OF bucket s3_step.put_object])
qed

lemmas demo_s3_wf = demo_s3_reachable [THEN s3_reachable_s3_wf]

lemma demo_world_fields:
  "w_fso demo_world = demo_fso" "w_cfg demo_world = demo_cfg" "w_ext demo_world = demo_ext"
  "fs_read demo_fso = files_read" "fs_exists demo_fso = files_exist" "fs_remove demo_fso = files_remove"
  by (simp_all add: demo_world_def demo_fso_def)

lemma demo_world_lawful: "fs_lawful (w_fso demo_world) (\<lambda>p fs. True)"
  by (simp add: demo_world_fields demo_fs_lawful)

lemma demo_cipher: "\<forall>k c. w_decrypt demo_world k (w_encrypt demo_world k c) = c"
  by (simp add: demo_world_def)

lemma demo_kms: "kms_inv (ss_kms demo_s3_bucket)"
proof -
  have "kms_keys (ss_kms demo_s3_bucket) = []" by code_simp
  then show ?thesis by (simp add: kms_inv_def)
qed

lemma demo_s3_bucket_eq:
  "ss_db demo_s3_bucket = \<lparr>s3_buckets = [(''b1'', (Bucket_init 0)\<lparr>b_oid := ''b1'', b_region := ''eu'', b_name := ''b'', b_owner := ''me''\<rparr>)],
     s3_objects = []\<rparr>"
  by code_simp

lemma demo_s3_put_objects:
  "map (\<lambda>(k, ob). (k, o_region ob, o_bucket ob, o_key ob, o_internalName ob)) (s3_objects (ss_db demo_s3_put)) =
     [(''o1'', ''eu'', ''b'', ''k'', ''f1'')]"
  by code_simp

text \<open>The bucket with a notification for uploads: to the demo queue, and to a topic.\<close>

definition demo_configuration :: "string \<Rightarrow> NotificationConfiguration" where
  "demo_configuration arn = \<lparr>nc_id = ''n1'', nc_arn = arn, nc_filterRules = [(PrefixRule, ''k'')], nc_events = [OBJECT_CREATED]\<rparr>"

definition demo_configure ::
  "NotificationConfiguration list \<Rightarrow> NotificationConfiguration list \<Rightarrow> PutBucketNotificationConfigurationRequest" where
  "demo_configure topics queues = \<lparr>pbc_region = ''eu'', pbc_bucket = ''b'', pbc_topicConfigurations = topics,
     pbc_queueConfigurations = queues, pbc_lambdaConfigurations = []\<rparr>"

definition demo_s3_queue :: "demo_files s3_state" where
  "demo_s3_queue = snd (S3Service_PutBucketNotificationConfiguration (demo_s3_draws [] []) (\<lambda>i. []) (\<lambda>i. []) (\<lambda>i. [])
     (demo_configure [] [demo_configuration ''arn:aws:sqs:eu:0:a'']) demo_s3_bucket)"

definition demo_s3_topic :: "demo_files s3_state" where
  "demo_s3_topic = snd (S3Service_PutBucketNotificationConfiguration (demo_s3_draws [] []) (\<lambda>i. []) (\<lambda>i. []) (\<lambda>i. [])
     (demo_configure [demo_configuration ''arn:t''] []) demo_s3_bucket)"

lemma demo_s3_configured_wf: "s3_wf (ss_db demo_s3_queue)" "s3_wf (ss_db demo_s3_topic)"
  unfolding demo_s3_queue_def demo_s3_topic_def
  by (rule s3_wf_PutBucketNotificationConfiguration [OF demo_s3_wf(1)])+

definition demo_notification :: "string \<Rightarrow> Notification" where
  "demo_notification arn = \<lparr>no_id = ''n1'', no_events = [''ObjectCreated''], no_arn = arn,
     no_filterRules = [\<lparr>fr_name = ''prefix'', fr_value = ''k''\<rparr>]\<rparr>"

definition demo_bucket_row :: Bucket where
  "demo_bucket_row = (Bucket_init 0)\<lparr>b_oid := ''b1'', b_region := ''eu'', b_name := ''b'', b_owner := ''me''\<rparr>"

lemma demo_s3_queue_eq:
  "ss_db demo_s3_queue = \<lparr>s3_buckets = [(''b1'', demo_bucket_row\<lparr>b_queueNotifications := [demo_notification ''arn:aws:sqs:eu:0:a'']\<rparr>)], s3_objects = []\<rparr>"
  "mg_sqs (ss_msg demo_s3_queue) = demo_queue" "ss_kms demo_s3_queue = \<lparr>kms_keys = []\<rparr>"
  by code_simp+

lemma demo_s3_topic_eq:
  "ss_db demo_s3_topic = \<lparr>s3_buckets = [(''b1'', demo_bucket_row\<lparr>b_topicNotifications := [demo_notification ''arn:t'']\<rparr>)], s3_objects = []\<rparr>"
  "ss_kms demo_s3_topic = \<lparr>kms_keys = []\<rparr>"
  by code_simp+

end
