(* ===== verification/S3Properties.thy ===== *)
theory S3Properties
  imports S3Upload S3Examples
begin

text \<open>The properties of the S3 component, each followed by its application to the demo installation.\<close>

section \<open>States\<close>



section \<open>Uploads\<close>

lemma saved_store:
  assumes inv: "s3_inv (ss_db st)" and saved: "saved w ready d request b body st k ob st'"
  shows "s3_inv (ss_db st')" "s3_buckets (ss_db st') = s3_buckets (ss_db st)" "ss_msg st' = ss_msg st"
  using saved s3_inv_put_object [OF inv] by (auto simp: saved_def)

lemma saved_then_notified:
  assumes inv: "s3_inv (ss_db st)" and saved: "saved w ready d request b body st k ob st'"
    and check: "snd (S3Service_CheckNotifications w c region bucket key sz event st') = st1"
  shows "ss_db st1 = ss_db st'" "ss_fs st1 = ss_fs st'" "ss_kms st1 = ss_kms st" "s3_inv (ss_db st1)"
    "s3_buckets (ss_db st1) = s3_buckets (ss_db st)"
proof -
  note inv' = saved_store(1) [OF inv saved]
  note s = CheckNotifications_state [OF inv', of w c region bucket key sz event, unfolded check]
  show "ss_db st1 = ss_db st'" "ss_fs st1 = ss_fs st'" "ss_kms st1 = ss_kms st" "s3_inv (ss_db st1)"
    "s3_buckets (ss_db st1) = s3_buckets (ss_db st)"
    using s inv' saved by (simp_all add: saved_def)
qed

lemma saved_fields:
  assumes "saved w ready d request b body st k ob st'"
  shows "o_bucket ob = por_bucket request" "o_key ob = por_key request" "o_size ob = int (length body)"
    "o_internalName ob = x_file d" "o_contentType ob = por_contentType request" "o_metadata ob = por_metadata request"
    "o_md5sum ob = Crypto_HexEncode (ext_md5 (w_ext w) body)"
proof -
  obtain oid where "ob = (upload_row w d request body)\<lparr>o_oid := oid\<rparr>" using assms unfolding saved_def by blast
  then show "o_bucket ob = por_bucket request" "o_key ob = por_key request" "o_size ob = int (length body)"
    "o_internalName ob = x_file d" "o_contentType ob = por_contentType request" "o_metadata ob = por_metadata request"
    "o_md5sum ob = Crypto_HexEncode (ext_md5 (w_ext w) body)" by simp_all
qed

lemma saved_found:
  assumes "saved w ready d request b body st k ob st'"
  shows "smap_find_if (\<lambda>(k, v). o_region v = por_region request \<and> o_bucket v = por_bucket request \<and> o_key v = por_key request)
       (s3_objects (ss_db st')) = Some (k, ob)"
    "S3MemoryDb_ObjectExists (wanted (por_region request) (por_bucket request) (por_key request)) (ss_db st')"
proof -
  show find: "smap_find_if (\<lambda>(k, v). o_region v = por_region request \<and> o_bucket v = por_bucket request \<and> o_key v = por_key request)
       (s3_objects (ss_db st')) = Some (k, ob)"
    using assms unfolding saved_def by blast
  then show "S3MemoryDb_ObjectExists (wanted (por_region request) (por_bucket request) (por_key request)) (ss_db st')"
    by (rule GetObject_found(2))
qed

lemma GetBucket_same:
  assumes "s3_inv db" "s3_inv db'" "s3_buckets db' = s3_buckets db"
  shows "fst (S3MemoryDb_GetBucketByRegionName now region name db') = fst (S3MemoryDb_GetBucketByRegionName now region name db)"
  using assms by (simp add: S3MemoryDb_GetBucketByRegionName_def bucket_fetch_inv)



section \<open>Notifications\<close>

lemma sqs_image_queue:
  assumes "sqs_inv db" "SQSMemoryDb_QueueUrlExists (smr_region req) (smr_queueUrl req) db"
  shows "m_queueUrl (sqs_image ext d req db) = smr_queueUrl req"
    "m_body (sqs_image ext d req db) = smr_body req" "m_status (sqs_image ext d req db) = INITIAL"
proof -
  obtain q where "q_queueUrl q = smr_queueUrl req" "SQSDatabase_GetQueueByUrl (sd_init d) (smr_region req) (smr_queueUrl req) db = (q, db)"
    using GetQueueByUrl_row [OF assms, of "sd_init d" "smr_region req"] by metis
  then show "m_queueUrl (sqs_image ext d req db) = smr_queueUrl req" by (simp add: sqs_image_def new_message_def)
qed (simp_all add: sqs_image_def new_message_def)

lemma CheckNotifications_queue:
  assumes inv: "s3_inv (ss_db st)" and b: "b = fst (S3MemoryDb_GetBucketByRegionName 0 region bucket (ss_db st))"
    and ex: "S3MemoryDb_BucketExists region bucket (ss_db st)"
    and q: "Bucket_GetQueueNotification event b = Some n" "Notification_CheckFilter key n"
    and rest: "Bucket_GetTopicNotification event b = None" "Bucket_GetLambdaNotification event b = None"
    and sqs: "sqs_inv (mg_sqs (ss_msg st))"
    and queue: "SQSMemoryDb_QueueUrlExists (cfg_region (w_cfg w)) (AwsUtils_ConvertSQSQueueArnToUrl (w_cfg w) (no_arn n)) (mg_sqs (ss_msg st))"
  shows "S3Service_CheckNotifications w d region bucket key sz event st =
    (Inr (), st\<lparr>ss_msg := (ss_msg st)\<lparr>mg_sqs := (mg_sqs (ss_msg st))\<lparr>sqs_messages :=
       smap_put (sd_oid (cd_send d)) (sqs_image (w_ext w) (cd_send d)
            (s3_queue_request (w_cfg w) (w_ext w) [event_record (cd_queue d) region b key sz event n] n) (mg_sqs (ss_msg st)))
         (sqs_messages (mg_sqs (ss_msg st)))\<rparr>\<rparr>\<rparr>)"
proof -
  let ?req = "s3_queue_request (w_cfg w) (w_ext w) [event_record (cd_queue d) region b key sz event n] n"
  obtain k0 b0 where "\<And>now. S3MemoryDb_GetBucketByRegionName now region bucket (ss_db st) = (b0, ss_db st)"
    by (rule GetBucketByRegionName_hit [OF inv ex]) blast
  then have get: "S3MemoryDb_GetBucketByRegionName now region bucket (ss_db st) = (b, ss_db st)" for now using b by simp
  have acc: "sqs_accepts ?req (mg_sqs (ss_msg st))" using queue by (simp add: sqs_accepts_def s3_queue_request_def)
  obtain resp where "SQSService_SendMessage (w_ext w) (cd_send d) ?req (mg_sqs (ss_msg st)) =
      (Inr resp, (mg_sqs (ss_msg st))\<lparr>sqs_messages := smap_put (sd_oid (cd_send d)) (sqs_image (w_ext w) (cd_send d) ?req (mg_sqs (ss_msg st)))
         (sqs_messages (mg_sqs (ss_msg st)))\<rparr>)"
    using SendMessage_accepted [OF sqs acc] by blast
  then have "on_msg (S3Service_SendQueueNotificationRequest (w_cfg w) (w_ext w) (cd_send d) [event_record (cd_queue d) region b key sz event n] n) st =
     (Inr (), st\<lparr>ss_msg := (ss_msg st)\<lparr>mg_sqs := (mg_sqs (ss_msg st))\<lparr>sqs_messages :=
       smap_put (sd_oid (cd_send d)) (sqs_image (w_ext w) (cd_send d) ?req (mg_sqs (ss_msg st))) (sqs_messages (mg_sqs (ss_msg st)))\<rparr>\<rparr>\<rparr>)"
    by (simp add: on_msg_def S3Service_SendQueueNotificationRequest_def)
  then show ?thesis
    by (simp add: S3Service_CheckNotifications_def on_db_def get notify_first_def q rest)
qed



text \<open>a topic notification breaks uploads: the request to SNS carries the ARN in the wrong field, so when
  the bucket has a topic notification that lets the key pass (and no queue is to be notified),
  \<open>PutObject\<close> always ends with an exception, after the object was stored.\<close>

theorem topic_notification_breaks_upload:
  assumes wf: "s3_wf (ss_db st)" and kms: "kms_inv (ss_kms st)" and law: "fs_lawful (w_fso w) ready"
    and ready: "ready (path_in (s3_dir (w_cfg w)) (x_file d)) (ss_fs st)"
      "ready (path_in (s3_dir (w_cfg w)) (x_file d) @ ''.aes256'') (ss_fs st)"
    and ex: "S3MemoryDb_BucketExists (por_region request) (por_bucket request) (ss_db st)"
    and b: "b = fst (S3MemoryDb_GetBucketByRegionName 0 (por_region request) (por_bucket request) (ss_db st))" "\<not> Bucket_IsVersioned b"
    and noqueue: "Bucket_GetQueueNotification ''ObjectCreated'' b = None"
    and t: "Bucket_GetTopicNotification ''ObjectCreated'' b = Some n" "Notification_CheckFilter (por_key request) n"
  shows "fst (S3Service_PutObject w d request body False st) = Inl (ServiceException ''Either topicARN or targetArn must exist'') \<and>
    S3MemoryDb_ObjectExists (wanted (por_region request) (por_bucket request) (por_key request))
      (ss_db (snd (S3Service_PutObject w d request body False st))) \<and>
    mg_sns (ss_msg (snd (S3Service_PutObject w d request body False st))) = mg_sns (ss_msg st)"
proof -
  note inv = s3_wfD(1) [OF wf]
  obtain k ob st' where saved: "saved w ready d request b body st k ob st'"
    and eq: "S3Service_PutObject w d request body False st =
       catch_poco (andthen (S3Service_CheckNotifications w (x_check d) (por_region request) (por_bucket request) (por_key request)
                  (int (length body)) ''ObjectCreated'' st')
         (\<lambda>_ st5. (Inr (put_response request (int (length body)) [] ob), st5)))"
    by (rule PutObject_eq [OF inv kms law ready ex b, of body])
  note s' = saved_store [OF inv saved]
  have get: "on_db (S3MemoryDb_GetBucketByRegionName (cd_init (x_check d)) (por_region request) (por_bucket request)) st' = (b, st')"
  proof -
    obtain k0 b0 where g: "\<And>now. S3MemoryDb_GetBucketByRegionName now (por_region request) (por_bucket request) (ss_db st') = (b0, ss_db st')"
      by (rule GetBucketByRegionName_hit [OF s'(1), of "por_region request" "por_bucket request"])
         (use ex BucketExists_cong [OF s'(2)] in blast)+
    have "b0 = b" using g [of 0] b(1) GetBucket_same [OF inv s'(1,2), of 0 "por_region request" "por_bucket request"] by simp
    then show ?thesis by (simp add: on_db_def g)
  qed
  have "S3Service_CheckNotifications w (x_check d) (por_region request) (por_bucket request) (por_key request)
      (int (length body)) ''ObjectCreated'' st' = (Inl (ServiceException ''Either topicARN or targetArn must exist''), st')"
    by (simp add: S3Service_CheckNotifications_def get notify_first_def noqueue t on_msg_def
        S3Service_SendTopicNotificationRequest_def SNSService_Publish_def)
  then show ?thesis using saved_found(2) [OF saved] s'(3) by (simp add: eq)
qed

theorem topic_notification_breaks_upload_witness:
  "fst (S3Service_PutObject demo_world (demo_s3_draws ''o1'' ''f1'') demo_put ''hello'' False demo_s3_topic)
     = Inl (ServiceException ''Either topicARN or targetArn must exist'')"
proof -
  let ?b = "demo_bucket_row\<lparr>b_topicNotifications := [demo_notification ''arn:t'']\<rparr>"
  have ex: "S3MemoryDb_BucketExists (por_region demo_put) (por_bucket demo_put) (ss_db demo_s3_topic)" unfolding demo_s3_topic_eq by code_simp
  have b: "?b = fst (S3MemoryDb_GetBucketByRegionName 0 (por_region demo_put) (por_bucket demo_put) (ss_db demo_s3_topic))"
    unfolding demo_s3_topic_eq by code_simp
  have f: "\<not> Bucket_IsVersioned ?b" "Bucket_GetQueueNotification ''ObjectCreated'' ?b = None"
    "Bucket_GetTopicNotification ''ObjectCreated'' ?b = Some (demo_notification ''arn:t'')"
    "Notification_CheckFilter (por_key demo_put) (demo_notification ''arn:t'')"
    by code_simp+
  have kms: "kms_inv (ss_kms demo_s3_topic)" by (simp add: demo_s3_topic_eq kms_inv_def)
  show ?thesis
    using topic_notification_breaks_upload [OF demo_s3_configured_wf(2) kms demo_world_lawful TrueI TrueI ex b f,
        of "demo_s3_draws ''o1'' ''f1''" "''hello''"] by blast
qed

end
