(* ===== verification/S3Properties2.thy ===== *)
theory S3Properties2
  imports S3Properties
begin

text \<open>More properties of the S3 component: deletion, copying, listing, and what notifications ignore.\<close>

section \<open>Buckets\<close>

text \<open>C20: \<open>DeleteBucket\<close> refuses a bucket that holds an object and changes nothing; for an empty bucket whose
  directory can be removed it succeeds, the bucket is gone, and every other bucket and object stays.\<close>

theorem delete_bucket_only_empty:
  assumes wf: "s3_wf (ss_db st)" and law: "fs_lawful (w_fso w) ready"
    and ex: "S3MemoryDb_BucketExists region bucket (ss_db st)"
    and rm: "\<And>p fs. \<exists>fs'. fs_remove (w_fso w) True p fs = (Inr (), fs')"
  shows "(if \<exists>(k, ob) \<in> set (s3_objects (ss_db st)). o_region ob = region \<and> o_bucket ob = bucket
          then S3Service_DeleteBucket w region bucket st = (Inl (NotFoundException ''Bucket is not empty''), st)
          else fst (S3Service_DeleteBucket w region bucket st) = Inr () \<and>
               s3_objects (ss_db (snd (S3Service_DeleteBucket w region bucket st))) = s3_objects (ss_db st) \<and>
               (\<forall>r n. S3MemoryDb_BucketExists r n (ss_db (snd (S3Service_DeleteBucket w region bucket st))) \<longleftrightarrow>
                  (r, n) \<noteq> (region, bucket) \<and> S3MemoryDb_BucketExists r n (ss_db st)))"
proof -
  let ?b = "(Bucket_init 0)\<lparr>b_region := region, b_name := bucket\<rparr>"
  have objects: "S3MemoryDb_HasObjects ?b (ss_db st) \<longleftrightarrow> (\<exists>(k, ob) \<in> set (s3_objects (ss_db st)). o_region ob = region \<and> o_bucket ob = bucket)"
    using smap_count_if_nonneg [of "\<lambda>(k, ob). o_region ob = region \<and> o_bucket ob = bucket" "s3_objects (ss_db st)"]
      smap_count_if_erase [of "\<lambda>(k, ob). o_region ob = region \<and> o_bucket ob = bucket" "s3_objects (ss_db st)"]
    by (auto simp: S3MemoryDb_HasObjects_def order_less_le)
  show ?thesis
  proof (cases "S3MemoryDb_HasObjects ?b (ss_db st)")
    case True
    then show ?thesis using objects by (simp add: S3Service_DeleteBucket_def Let_def need_bucket_cases(1) [OF ex])
  next
    case False
    obtain fs1 where e: "on_fs (DirUtils_EnsureDirectory (w_fso w) (s3_dir (w_cfg w))) st = (Inr (), st\<lparr>ss_fs := fs1\<rparr>)"
      by (rule on_fs_EnsureDirectory [OF law])
    obtain fs2 where "DirUtils_DeleteDirectory (w_fso w) True (path_in (s3_dir (w_cfg w)) bucket) fs1 = (Inr (), fs2)"
      using rm [of "path_in (s3_dir (w_cfg w)) bucket" fs1]
      by (cases "DirUtils_DirectoryExists (w_fso w) (path_in (s3_dir (w_cfg w)) bucket) fs1") (auto simp: DirUtils_DeleteDirectory_def)
    then have "S3Service_DeleteBucketDirectory w bucket st = (Inr (), st\<lparr>ss_fs := fs2\<rparr>)"
      by (simp add: S3Service_DeleteBucketDirectory_def e) (simp add: on_fs_def)
    then have run: "S3Service_DeleteBucket w region bucket st =
        (Inr (), st\<lparr>ss_fs := fs2, ss_db := S3MemoryDb_DeleteBucket ?b (ss_db st)\<rparr>)"
      using False by (simp add: S3Service_DeleteBucket_def Let_def need_bucket_cases(1) [OF ex])
    have "S3MemoryDb_BucketExists r n (S3MemoryDb_DeleteBucket ?b (ss_db st)) \<longleftrightarrow>
        (r, n) \<noteq> (region, bucket) \<and> S3MemoryDb_BucketExists r n (ss_db st)" for r n
      unfolding BucketExists_iff S3MemoryDb_DeleteBucket_def by (auto simp: set_smap_erase_if)
    then show ?thesis using False objects unfolding run by (simp add: S3MemoryDb_DeleteBucket_def)
  qed
qed

theorem delete_bucket_only_empty_witness:
  "S3Service_DeleteBucket demo_world ''eu'' ''b'' demo_s3_put = (Inl (NotFoundException ''Bucket is not empty''), demo_s3_put)"
proof -
  have ex: "S3MemoryDb_BucketExists ''eu'' ''b'' (ss_db demo_s3_put)" by code_simp
  have rm: "\<exists>fs'. fs_remove (w_fso demo_world) True p fs = (Inr (), fs')" for p fs
    by (simp add: demo_world_fields files_remove_def)
  have "\<exists>(k, ob) \<in> set (s3_objects (ss_db demo_s3_put)). o_region ob = ''eu'' \<and> o_bucket ob = ''b''" by code_simp
  then show ?thesis using delete_bucket_only_empty [OF demo_s3_wf(2) demo_world_lawful ex rm] by simp
qed

section \<open>Moving\<close>

lemma andthen_InrE:
  assumes "andthen r k = (Inr y, s')"
  obtains x s where "r = (Inr x, s)" "k x s = (Inr y, s')"
  using assms by (cases r rule: andthen_cases) auto

lemma need_bucket_InrE:
  assumes "need_bucket region name m st k = (Inr y, s')"
  obtains "S3MemoryDb_BucketExists region name (ss_db st)" "k st = (Inr y, s')"
  using assms by (auto simp: need_bucket_def split: if_splits)

lemma need_object_InrE:
  assumes "need_object region bucket key m st k = (Inr y, s')"
  obtains "S3MemoryDb_ObjectExists (wanted region bucket key) (ss_db st)" "k st = (Inr y, s')"
  using assms by (auto simp: need_object_def split: if_splits)

lemma ObjectExists_iff:
  "S3MemoryDb_ObjectExists (wanted region bucket key) db \<longleftrightarrow>
     (\<exists>(k, v) \<in> set (s3_objects db). o_region v = region \<and> o_bucket v = bucket \<and> o_key v = key)"
  unfolding S3MemoryDb_ObjectExists_def smap_find_if_not_None by (simp add: case_prod_beta wanted_def)

text \<open>A copy that succeeds adds one row, at the id drawn, and rewrites the id of the source row.\<close>

lemma copy_success:
  assumes inv: "s3_inv (ss_db st)" and run: "copy_or_move missing w d request st = (Inr resp, st1)"
  obtains k src target where "(k, src) \<in> set (s3_objects (ss_db st))"
    "o_region src = cor_region request" "o_bucket src = cor_sourceBucket request" "o_key src = cor_sourceKey request"
    "o_region target = cor_region request" "o_bucket target = cor_targetBucket request" "o_key target = cor_targetKey request"
    "s3_objects (ss_db st1) = smap_put (x_oid d) (target\<lparr>o_oid := x_oid d\<rparr>) (smap_put k (src\<lparr>o_oid := k\<rparr>) (s3_objects (ss_db st)))"
proof -
  obtain st0 where e: "on_fs (DirUtils_EnsureDirectory (w_fso w) (s3_dir (w_cfg w))) st = (Inr (), st0)"
    and ex: "S3MemoryDb_ObjectExists (wanted (cor_region request) (cor_sourceBucket request) (cor_sourceKey request)) (ss_db st0)"
    and body: "copy_body w d missing request st0 = (Inr resp, st1)"
    using run unfolding copy_or_move_def
    by (auto elim!: andthen_InrE need_bucket_InrE need_object_InrE)
  have db0: "ss_db st0 = ss_db st" using arg_cong [OF e, of snd] on_fs_state(1) [of "DirUtils_EnsureDirectory (w_fso w) (s3_dir (w_cfg w))" st] by simp
  let ?P = "\<lambda>(k, v). o_region v = cor_region request \<and> o_bucket v = cor_sourceBucket request \<and> o_key v = cor_sourceKey request"
  obtain k src where f: "smap_find_if ?P (s3_objects (ss_db st)) = Some (k, src)"
    using ex unfolding db0 by (auto simp: S3MemoryDb_ObjectExists_def wanted_def)
  let ?db = "(ss_db st)\<lparr>s3_objects := smap_put k (src\<lparr>o_oid := k\<rparr>) (s3_objects (ss_db st))\<rparr>"
  have inv2: "s3_inv ?db" by (rule s3_inv_put_object [OF inv])
  let ?b = "fst (S3MemoryDb_GetBucketByRegionName (x_now d) (cor_region request) (cor_targetBucket request) (ss_db st0))"
  let ?src = "src\<lparr>o_oid := k\<rparr>"
  let ?target = "if Bucket_IsVersioned ?b then (copy_entity d request ?src)\<lparr>o_versionId := x_version d\<rparr> else copy_entity d request ?src"
  have get: "on_db (S3MemoryDb_GetObject (x_now d) (cor_region request) (cor_sourceBucket request) (cor_sourceKey request)) st0
      = (?src, st0\<lparr>ss_db := ?db\<rparr>)"
    by (simp add: on_db_def db0 GetObject_found(1) [OF f])
  obtain st3 where copy: "on_fs (FileUtils_CopyTo (w_fso w) (path_in (s3_dir (w_cfg w)) (o_internalName ?src))
        (path_in (s3_dir (w_cfg w)) (x_file d))) (st0\<lparr>ss_db := ?db\<rparr>) = (Inr (), st3)"
    and rest: "(case on_db (S3MemoryDb_CreateObject (x_now d) (x_oid d) ?target) st3 of
               (ob, st4) \<Rightarrow>
                 andthen (S3Service_CheckNotifications w (x_check d) (o_region ob) (o_bucket ob) (o_key ob) (o_size ob) ''ObjectCreated'' st4)
                   (\<lambda>_ st5. (Inr \<lparr>cos_eTag = o_md5sum ob, cos_lastModified = x_date d\<rparr>, st5))) = (Inr resp, st1)"
    using body inv
    by (auto simp: copy_body_def get on_db_GetBucket db0 Let_def split: if_splits elim!: andthen_InrE)
  have db3: "ss_db st3 = ?db" using arg_cong [OF copy, of snd] on_fs_state(1) by (metis s3_state.select_convs(1) s3_state.surjective s3_state.update_convs(1) snd_conv)
  let ?db4 = "?db\<lparr>s3_objects := smap_put (x_oid d) (?target\<lparr>o_oid := x_oid d\<rparr>) (s3_objects ?db)\<rparr>"
  have create: "on_db (S3MemoryDb_CreateObject (x_now d) (x_oid d) ?target) st3 = (?target\<lparr>o_oid := x_oid d\<rparr>, st3\<lparr>ss_db := ?db4\<rparr>)"
    by (simp add: on_db_def db3 CreateObject_eq inv2)
  have inv4: "s3_inv (ss_db (st3\<lparr>ss_db := ?db4\<rparr>))" 
    using s3_inv_put_object [OF inv2, of "x_oid d" "?target\<lparr>o_oid := x_oid d\<rparr>"] by simp
  let ?check = "S3Service_CheckNotifications w (x_check d) (o_region ?target) (o_bucket ?target) (o_key ?target) (o_size ?target)
      ''ObjectCreated'' (st3\<lparr>ss_db := ?db4\<rparr>)"
  have "snd ?check = st1"
    using rest unfolding create by (cases ?check rule: andthen_cases) simp_all
  then have "ss_db st1 = ?db4"
    using CheckNotifications_state(1) [OF inv4, of w "x_check d" "o_region ?target" "o_bucket ?target" "o_key ?target" "o_size ?target" "''ObjectCreated''"]
    by simp
  then have "s3_objects (ss_db st1) = smap_put (x_oid d) (?target\<lparr>o_oid := x_oid d\<rparr>) (smap_put k ?src (s3_objects (ss_db st)))"
    by simp
  moreover have "o_region ?target = cor_region request" "o_bucket ?target = cor_targetBucket request" "o_key ?target = cor_targetKey request"
    by (simp_all add: copy_entity_def)
  moreover have "(k, src) \<in> set (s3_objects (ss_db st))" "?P (k, src)" using smap_find_if_Some [OF f] by auto
  ultimately show ?thesis using that [of k src ?target] by simp
qed

text \<open>\<open>MoveObject\<close> does not move: after it succeeded the source object is still there, beside the target.\<close>

theorem move_keeps_source:
  assumes wf: "s3_wf (ss_db st)" and fresh: "x_oid d \<notin> fst ` set (s3_objects (ss_db st))"
    and move: "S3Service_MoveObject w d request st = (Inr resp, st1)"
  shows "S3MemoryDb_ObjectExists (wanted (cor_region request) (cor_sourceBucket request) (cor_sourceKey request)) (ss_db st1) \<and>
    S3MemoryDb_ObjectExists (wanted (cor_region request) (cor_targetBucket request) (cor_targetKey request)) (ss_db st1)"
proof -
  note inv = s3_wfD(1) [OF wf]
  obtain k src target where row: "(k, src) \<in> set (s3_objects (ss_db st))"
    "o_region src = cor_region request" "o_bucket src = cor_sourceBucket request" "o_key src = cor_sourceKey request"
    "o_region target = cor_region request" "o_bucket target = cor_targetBucket request" "o_key target = cor_targetKey request"
    and objs: "s3_objects (ss_db st1) = smap_put (x_oid d) (target\<lparr>o_oid := x_oid d\<rparr>) (smap_put k (src\<lparr>o_oid := k\<rparr>) (s3_objects (ss_db st)))"
    by (rule copy_success [OF inv move [unfolded S3Service_MoveObject_def]])
  have "k \<noteq> x_oid d" using row(1) fresh by (metis fst_conv image_eqI)
  then have mem: "(x_oid d, target\<lparr>o_oid := x_oid d\<rparr>) \<in> set (s3_objects (ss_db st1))" "(k, src\<lparr>o_oid := k\<rparr>) \<in> set (s3_objects (ss_db st1))"
    unfolding objs by (simp_all add: set_smap_put s3_invD [OF inv])
  show ?thesis
    unfolding ObjectExists_iff using row by (intro conjI bexI [OF _ mem(1)] bexI [OF _ mem(2)]) simp_all
qed

definition demo_move :: CopyObjectRequest where
  "demo_move = \<lparr>cor_region = ''eu'', cor_user = ''me'', cor_sourceBucket = ''b'', cor_sourceKey = ''k'',
     cor_targetBucket = ''b'', cor_targetKey = ''k2'', cor_metadata = []\<rparr>"

theorem move_keeps_source_witness:
  "S3MemoryDb_ObjectExists (wanted ''eu'' ''b'' ''k'')
     (ss_db (snd (S3Service_MoveObject demo_world (demo_s3_draws ''o2'' ''f2'') demo_move demo_s3_put)))"
proof -
  have fresh: "x_oid (demo_s3_draws ''o2'' ''f2'') \<notin> fst ` set (s3_objects (ss_db demo_s3_put))" by code_simp
  have "fst (S3Service_MoveObject demo_world (demo_s3_draws ''o2'' ''f2'') demo_move demo_s3_put)
     = Inr \<lparr>cos_eTag = ''68656c6c6f'', cos_lastModified = ''d''\<rparr>" by code_simp
  then have "S3Service_MoveObject demo_world (demo_s3_draws ''o2'' ''f2'') demo_move demo_s3_put
     = (Inr \<lparr>cos_eTag = ''68656c6c6f'', cos_lastModified = ''d''\<rparr>,
        snd (S3Service_MoveObject demo_world (demo_s3_draws ''o2'' ''f2'') demo_move demo_s3_put))"
    by (simp add: prod_eq_iff)
  from move_keeps_source [OF demo_s3_wf(2) fresh this] show ?thesis by (simp add: demo_move_def)
qed

section \<open>Listing\<close>

lemma bucket_object_loop_eq:
  "0 \<le> maxKeys \<Longrightarrow> bucket_object_loop region bucket maxKeys obs acc =
     acc @ take (nat maxKeys - length acc) (map snd (takeWhile (\<lambda>(k, ob). o_region ob = region \<and> o_bucket ob = bucket) obs))"
proof (induction region bucket maxKeys obs acc rule: bucket_object_loop.induct)
  case (2 region bucket maxKeys k ob obs acc)
  show ?case
  proof (cases "o_region ob = region \<and> o_bucket ob = bucket \<and> int (length acc) < maxKeys")
    case True
    then have "length acc < nat maxKeys" by (simp add: zless_nat_eq_int_zless)
    then have "nat maxKeys - length acc = Suc (nat maxKeys - length (acc @ [ob]))" by simp
    with True 2 show ?thesis by simp
  next
    case False
    then show ?thesis using 2(2) by (auto simp: not_less)
  qed
qed simp

text \<open>\<open>GetBucketObjectList\<close> (which the version listing and the worker use) lists the rows of the bucket
  only up to the first row, in the order of the ids, of another bucket: with a non-negative limit it
  is the first \<open>maxKeys\<close> of that prefix.\<close>

theorem bucket_object_list_prefix:
  assumes "0 \<le> maxKeys"
  shows "S3MemoryDb_GetBucketObjectList region bucket maxKeys db =
    take (nat maxKeys) (takeWhile (\<lambda>ob. o_region ob = region \<and> o_bucket ob = bucket) (smap_values (s3_objects db)))"
  using bucket_object_loop_eq [OF assms, of region bucket "s3_objects db" "[]"]
  by (simp add: S3MemoryDb_GetBucketObjectList_def smap_values_def takeWhile_map comp_def split_def)

theorem bucket_object_list_prefix_witness:
  "length (S3MemoryDb_GetBucketObjectList ''eu'' ''b'' 1000 (ss_db demo_s3_put)) = 1"
proof -
  have all: "takeWhile (\<lambda>ob. o_region ob = ''eu'' \<and> o_bucket ob = ''b'') (smap_values (s3_objects (ss_db demo_s3_put)))
    = smap_values (s3_objects (ss_db demo_s3_put))" by code_simp
  have "length (smap_values (s3_objects (ss_db demo_s3_put))) = 1" by code_simp
  then show ?thesis
    using bucket_object_list_prefix [of 1000 "''eu''" "''b''" "ss_db demo_s3_put"] unfolding all by simp
qed

section \<open>Checksum jobs\<close>

text \<open>a checksum job writes the entity it was started with over the first row of that bucket name and key
  in any region: when the only such row belongs to another region (the upload's own object was deleted
  meanwhile), the job succeeds and the object of the other region is gone.\<close>

theorem hash_job_overwrites_other_region:
  assumes inv: "s3_inv (ss_db st)" and row: "(k, v) \<in> set (s3_objects (ss_db st))"
    and same: "o_bucket v = o_bucket ob" "o_key v = o_key ob" and other: "o_region v \<noteq> o_region ob"
    and only: "\<forall>(k', v') \<in> set (s3_objects (ss_db st)). o_bucket v' = o_bucket ob \<and> o_key v' = o_key ob \<longrightarrow> k' = k"
  shows "fst (S3HashCreator_run w algorithm ob st) = Inr () \<and>
    S3MemoryDb_ObjectExists (wanted (o_region v) (o_bucket v) (o_key v)) (ss_db st) \<and>
    \<not> S3MemoryDb_ObjectExists (wanted (o_region v) (o_bucket v) (o_key v)) (ss_db (snd (S3HashCreator_run w algorithm ob st)))"
proof -
  define filename where "filename = path_in (cfg_dataDir (w_cfg w)) (o_internalName ob)"
  obtain ob' where ob': "o_region ob' = o_region ob" "o_bucket ob' = o_bucket ob" "o_key ob' = o_key ob"
    and run: "S3HashCreator_run w algorithm ob st = andthen (on_db (S3MemoryDb_UpdateObject ob') st) (\<lambda>_ st'. (Inr (), st'))"
    by (rule that [of "if algorithm = ''SHA1'' then ob\<lparr>o_sha1sum := Crypto_GetSha1FromFile (w_sha1 w) (w_fso w) filename (ss_fs st)\<rparr>
                 else if algorithm = ''SHA256'' then ob\<lparr>o_sha256sum := Crypto_GetSha256FromFile (w_sha256 w) (w_fso w) filename (ss_fs st)\<rparr>
                 else if algorithm = ''MD5'' then ob\<lparr>o_sha256sum := Crypto_GetMd5FromFile (ext_md5 (w_ext w)) (w_fso w) filename (ss_fs st)\<rparr>
                 else ob"]) (simp_all add: S3HashCreator_run_def Let_def filename_def)
  have unique: "v' = v" if "(k, v') \<in> set (s3_objects (ss_db st))" for v'
    using eq_key_imp_eq_value [OF smap_inv_distinct [OF s3_invD(3) [OF inv]]] that row by metis
  have "smap_find_if (\<lambda>(k, v). o_bucket v = o_bucket ob' \<and> o_key v = o_key ob') (s3_objects (ss_db st)) = Some (k, v)"
  proof (rule smap_find_if_unique)
    fix kv assume kv: "kv \<in> set (s3_objects (ss_db st))" "case kv of (k, v) \<Rightarrow> o_bucket v = o_bucket ob' \<and> o_key v = o_key ob'"
    obtain k1 v1 where p: "kv = (k1, v1)" by (cases kv)
    then have "k1 = k" using kv only ob' by fastforce
    then show "kv = (k, v)" using unique kv(1) p by simp
  qed (use row same ob' in simp_all)
  then have update: "S3MemoryDb_UpdateObject ob' (ss_db st) = (Inr ob', (ss_db st)\<lparr>s3_objects := smap_put k ob' (s3_objects (ss_db st))\<rparr>)"
    by (simp add: S3MemoryDb_UpdateObject_def smap_replace_def)
  have "S3MemoryDb_ObjectExists (wanted (o_region v) (o_bucket v) (o_key v)) (ss_db st)"
    unfolding ObjectExists_iff using row by (intro bexI [OF _ row]) simp
  moreover have "\<not> S3MemoryDb_ObjectExists (wanted (o_region v) (o_bucket v) (o_key v))
      ((ss_db st)\<lparr>s3_objects := smap_put k ob' (s3_objects (ss_db st))\<rparr>)"
    unfolding ObjectExists_iff using only same other ob' by (auto simp: set_smap_put s3_invD [OF inv])
  ultimately show ?thesis by (simp add: run on_db_def update)
qed

section \<open>The notification list\<close>

text \<open>Of the bucket, \<open>CheckNotifications\<close> uses the three lists of configurations and the name.\<close>

definition same_messages :: "(unit, 'fs s3_state) outcome \<Rightarrow> (unit, 'fs s3_state) outcome \<Rightarrow> bool" where
  "same_messages r r' \<longleftrightarrow> fst r' = fst r \<and> ss_msg (snd r') = ss_msg (snd r)"

lemma same_on_msg: "ss_msg s' = ss_msg s \<Longrightarrow> same_messages (on_msg f s) (on_msg f s')"
  by (simp add: same_messages_def on_msg_def case_prod_beta)

lemma same_notify_first:
  "ss_msg s' = ss_msg s \<Longrightarrow> (\<And>n. same_messages (send n s) (send n s')) \<Longrightarrow>
   same_messages (notify_first found key send s) (notify_first found key send s')"
  by (simp add: same_messages_def notify_first_def split: option.split)

lemma same_andthen:
  assumes "same_messages r r'" "\<And>x s s'. ss_msg s' = ss_msg s \<Longrightarrow> same_messages (k x s) (k x s')"
  shows "same_messages (andthen r k) (andthen r' k)"
proof -
  obtain v s s' where r: "r = (v, s)" "r' = (v, s')" "ss_msg s' = ss_msg s"
    using assms(1) by (cases r; cases r') (simp add: same_messages_def)
  show ?thesis using assms(2) [OF r(3)] by (cases v) (simp_all add: r same_messages_def)
qed

lemma CheckNotifications_cong:
  assumes inv: "s3_inv (ss_db st)" "s3_inv (ss_db st')" and msg: "ss_msg st' = ss_msg st"
    and ex: "S3MemoryDb_BucketExists region bucket (ss_db st)" "S3MemoryDb_BucketExists region bucket (ss_db st')"
    and same: "b_queueNotifications (fst (S3MemoryDb_GetBucketByRegionName 0 region bucket (ss_db st'))) =
                 b_queueNotifications (fst (S3MemoryDb_GetBucketByRegionName 0 region bucket (ss_db st)))"
      "b_topicNotifications (fst (S3MemoryDb_GetBucketByRegionName 0 region bucket (ss_db st'))) =
                 b_topicNotifications (fst (S3MemoryDb_GetBucketByRegionName 0 region bucket (ss_db st)))"
      "b_lambdaNotifications (fst (S3MemoryDb_GetBucketByRegionName 0 region bucket (ss_db st'))) =
                 b_lambdaNotifications (fst (S3MemoryDb_GetBucketByRegionName 0 region bucket (ss_db st)))"
  shows "fst (S3Service_CheckNotifications w d region bucket key sz event st') = fst (S3Service_CheckNotifications w d region bucket key sz event st) \<and>
    ss_msg (snd (S3Service_CheckNotifications w d region bucket key sz event st')) = ss_msg (snd (S3Service_CheckNotifications w d region bucket key sz event st))"
proof -
  obtain b b' where get: "\<And>now. S3MemoryDb_GetBucketByRegionName now region bucket (ss_db st) = (b, ss_db st)" "b_name b = bucket"
    and get': "\<And>now. S3MemoryDb_GetBucketByRegionName now region bucket (ss_db st') = (b', ss_db st')" "b_name b' = bucket"
    using GetBucketByRegionName_hit [OF inv(1) ex(1)] GetBucketByRegionName_hit [OF inv(2) ex(2)] by metis
  have rec: "event_record ed region b' key sz event n = event_record ed region b key sz event n" for ed n
    using get(2) get'(2) by (simp add: event_record_def)
  have lists: "Bucket_GetQueueNotification event b' = Bucket_GetQueueNotification event b"
    "Bucket_GetTopicNotification event b' = Bucket_GetTopicNotification event b"
    "Bucket_GetLambdaNotification event b' = Bucket_GetLambdaNotification event b"
    using same by (simp_all add: get get' Bucket_GetQueueNotification_def Bucket_GetTopicNotification_def Bucket_GetLambdaNotification_def)
  have "same_messages (S3Service_CheckNotifications w d region bucket key sz event st) (S3Service_CheckNotifications w d region bucket key sz event st')"
    unfolding S3Service_CheckNotifications_def on_db_GetBucket [OF inv(1)] on_db_GetBucket [OF inv(2)] get get' fst_conv prod.case lists rec
    by (rule same_andthen same_notify_first same_on_msg | simp add: msg same_messages_def)+
  then show ?thesis by (simp add: same_messages_def)
qed

lemma own_notifications [simp]: "\<exists>ns. c = c\<lparr>b_notifications := ns\<rparr>" for c :: Bucket
  by (rule exI [of _ "b_notifications c"]) simp

text \<open>A bucket whose list of bucket notifications is replaced is found as before, with the other lists.\<close>

lemma GetBucket_after_notifications:
  assumes inv: "s3_inv db" and row: "(k, b) \<in> set (s3_buckets db)" and ex: "S3MemoryDb_BucketExists region name db"
    and db': "db' = db\<lparr>s3_buckets := smap_put k (b\<lparr>b_notifications := ns\<rparr>) (s3_buckets db)\<rparr>" and inv': "s3_inv db'"
  shows "S3MemoryDb_BucketExists region name db'"
    "\<exists>c ns'. fst (S3MemoryDb_GetBucketByRegionName 0 region name db) = c \<and>
       fst (S3MemoryDb_GetBucketByRegionName 0 region name db') = c\<lparr>b_notifications := ns'\<rparr>"
proof -
  let ?P = "\<lambda>(k, c). b_region c = region \<and> b_name c = name" and ?b = "b\<lparr>b_notifications := ns\<rparr>"
  let ?f = "\<lambda>(k', c). (k', if k' = k then ?b else c)"
  obtain k1 c where f: "smap_find_if ?P (s3_buckets db) = Some (k1, c)"
    using ex by (auto simp: S3MemoryDb_BucketExists_def)
  then have mem: "(k1, c) \<in> set (s3_buckets db)" by (auto dest: smap_find_if_Some)
  have unique: "c = b" if "(k, c) \<in> set (s3_buckets db)" for c
    using eq_key_imp_eq_value [OF smap_inv_distinct [OF s3_invD(2) [OF inv]]] that row by metis
  have "s3_buckets db' = map ?f (s3_buckets db)"
    using smap_put_old_map [OF s3_invD(2) [OF inv], of k ?b] row by (force simp: db')
  moreover have "?P (?f x) = ?P x" if "x \<in> set (s3_buckets db)" for x
    using unique that by (cases x) auto
  ultimately have f': "smap_find_if ?P (s3_buckets db') = Some (?f (k1, c))"
    using find_map_pres [of "s3_buckets db" ?P ?f] f by (simp add: smap_find_if_def)
  then show "S3MemoryDb_BucketExists region name db'" by (simp add: S3MemoryDb_BucketExists_def)
  have "?f (k1, c) = (k1, c\<lparr>b_notifications := if k1 = k then ns else b_notifications c\<rparr>)" using unique mem by auto
  then show "\<exists>c ns'. fst (S3MemoryDb_GetBucketByRegionName 0 region name db) = c \<and>
       fst (S3MemoryDb_GetBucketByRegionName 0 region name db') = c\<lparr>b_notifications := ns'\<rparr>"
    using f f' by (auto simp: S3MemoryDb_GetBucketByRegionName_def bucket_fetch_inv inv inv')
qed

text \<open>C21: \<open>PutBucketNotification\<close> has no effect on events: what it stores in the bucket is never consulted, so
  after it succeeded every event is answered with exactly the messages it was answered with before.\<close>

theorem put_notification_no_effect:
  assumes wf: "s3_wf (ss_db st)"
    and put: "S3Service_PutBucketNotification d request st = (Inr (), st')"
    and ex: "S3MemoryDb_BucketExists region bucket (ss_db st)"
  shows "fst (S3Service_CheckNotifications w c region bucket key sz event st') = fst (S3Service_CheckNotifications w c region bucket key sz event st) \<and>
    ss_msg (snd (S3Service_CheckNotifications w c region bucket key sz event st')) = ss_msg (snd (S3Service_CheckNotifications w c region bucket key sz event st))"
proof -
  have wf': "s3_wf (ss_db st')" using s3_wf_PutBucketNotification [OF wf, of d request] by (simp add: put)
  have exr: "S3MemoryDb_BucketExists (pbn_region request) (pbn_bucket request) (ss_db st)"
    using put by (auto simp: S3Service_PutBucketNotification_def elim: need_bucket_InrE)
  obtain k b where row: "(k, b) \<in> set (s3_buckets (ss_db st))" "b_region b = pbn_region request" "b_name b = pbn_bucket request" "b_oid b = k"
    and get: "\<And>now. S3MemoryDb_GetBucketByRegionName now (pbn_region request) (pbn_bucket request) (ss_db st) = (b, ss_db st)"
    and update: "\<And>b'. b_oid b' = k \<Longrightarrow> b_region b' = pbn_region request \<Longrightarrow> b_name b' = pbn_bucket request \<Longrightarrow>
       S3MemoryDb_UpdateBucket b' (ss_db st) = (Inr b', (ss_db st)\<lparr>s3_buckets := smap_put k b' (s3_buckets (ss_db st))\<rparr>) \<and>
       s3_wf ((ss_db st)\<lparr>s3_buckets := smap_put k b' (s3_buckets (ss_db st))\<rparr>)"
    by (rule GetBucket_then_Update [OF wf exr]) blast
  have create: "\<exists>ns. S3Database_CreateBucketNotification now b n (ss_db st) =
      (Inr (b\<lparr>b_notifications := ns\<rparr>), (ss_db st)\<lparr>s3_buckets := smap_put k (b\<lparr>b_notifications := ns\<rparr>) (s3_buckets (ss_db st))\<rparr>)" for now n
    using row update by (auto simp: S3Database_CreateBucketNotification_def get)
  obtain ns1 where lambda: "S3Service_CreateLambdaConfiguration (x_now d) b request (ss_db st) =
      (Inr (b\<lparr>b_notifications := ns1\<rparr>), (ss_db st)\<lparr>s3_buckets := smap_put k (b\<lparr>b_notifications := ns1\<rparr>) (s3_buckets (ss_db st))\<rparr>)"
    using create unfolding S3Service_CreateLambdaConfiguration_def by blast
  obtain ns2 where queue: "S3Service_CreateQueueConfiguration (x_now d) b request (ss_db st) =
      (Inr (b\<lparr>b_notifications := ns2\<rparr>), (ss_db st)\<lparr>s3_buckets := smap_put k (b\<lparr>b_notifications := ns2\<rparr>) (s3_buckets (ss_db st))\<rparr>)"
    using create unfolding S3Service_CreateQueueConfiguration_def by blast
  have changed: "ss_msg st' = ss_msg st \<and> (ss_db st' = ss_db st \<or>
      (\<exists>ns. ss_db st' = (ss_db st)\<lparr>s3_buckets := smap_put k (b\<lparr>b_notifications := ns\<rparr>) (s3_buckets (ss_db st))\<rparr>))"
    using put by (simp add: S3Service_PutBucketNotification_def need_bucket_cases(1) [OF exr] on_db_def get lambda queue
        split: if_splits) auto
  have buckets: "S3MemoryDb_BucketExists region bucket (ss_db st') \<and>
    (\<exists>c ns. fst (S3MemoryDb_GetBucketByRegionName 0 region bucket (ss_db st)) = c \<and>
       fst (S3MemoryDb_GetBucketByRegionName 0 region bucket (ss_db st')) = c\<lparr>b_notifications := ns\<rparr>)"
  proof (cases "ss_db st' = ss_db st")
    case True
    then show ?thesis using ex by simp
  next
    case False
    then obtain ns where "ss_db st' = (ss_db st)\<lparr>s3_buckets := smap_put k (b\<lparr>b_notifications := ns\<rparr>) (s3_buckets (ss_db st))\<rparr>"
      using changed by blast
    then show ?thesis using GetBucket_after_notifications [OF s3_wfD(1) [OF wf] row(1) ex _ s3_wfD(1) [OF wf']] by blast
  qed
  show ?thesis
    by (rule CheckNotifications_cong [OF s3_wfD(1) [OF wf] s3_wfD(1) [OF wf'] _ ex]) (use changed buckets in auto)
qed

definition demo_put_notification :: PutBucketNotificationRequest where
  "demo_put_notification = \<lparr>pbn_region = ''eu'', pbn_bucket = ''b'', pbn_lambdaArn = [], pbn_queueArn = ''arn:aws:sqs:eu:0:a'',
     pbn_notificationId = ''n'', pbn_event = ''s3:ObjectCreated:*''\<rparr>"

theorem put_notification_no_effect_witness:
  "fst (S3Service_CheckNotifications demo_world demo_check ''eu'' ''b'' ''k'' 5 ''ObjectCreated''
      (snd (S3Service_PutBucketNotification (demo_s3_draws [] []) demo_put_notification demo_s3_bucket))) = Inr ()"
proof -
  have "fst (S3Service_PutBucketNotification (demo_s3_draws [] []) demo_put_notification demo_s3_bucket) = Inr ()" by code_simp
  then have put: "S3Service_PutBucketNotification (demo_s3_draws [] []) demo_put_notification demo_s3_bucket
      = (Inr (), snd (S3Service_PutBucketNotification (demo_s3_draws [] []) demo_put_notification demo_s3_bucket))"
    by (simp add: prod_eq_iff)
  have ex: "S3MemoryDb_BucketExists ''eu'' ''b'' (ss_db demo_s3_bucket)" by code_simp
  have "fst (S3Service_CheckNotifications demo_world demo_check ''eu'' ''b'' ''k'' 5 ''ObjectCreated'' demo_s3_bucket) = Inr ()" by code_simp
  then show ?thesis using put_notification_no_effect [OF demo_s3_wf(1) put ex] by metis
qed

definition demo_stale :: Object where
  "demo_stale = (Object_init 0)\<lparr>o_region := ''us'', o_bucket := ''b'', o_key := ''k'', o_internalName := ''f0''\<rparr>"

theorem hash_job_overwrites_other_region_witness:
  "\<not> S3MemoryDb_ObjectExists (wanted ''eu'' ''b'' ''k'') (ss_db (snd (S3HashCreator_run demo_world ''SHA1'' demo_stale demo_s3_put)))"
proof -
  let ?row = "hd (s3_objects (ss_db demo_s3_put))"
  have objs: "s3_objects (ss_db demo_s3_put) = [?row]" "o_region (snd ?row) = ''eu''" "o_bucket (snd ?row) = ''b''" "o_key (snd ?row) = ''k''"
    by code_simp+
  have "fst (S3HashCreator_run demo_world ''SHA1'' demo_stale demo_s3_put) = Inr () \<and>
      S3MemoryDb_ObjectExists (wanted (o_region (snd ?row)) (o_bucket (snd ?row)) (o_key (snd ?row))) (ss_db demo_s3_put) \<and>
      \<not> S3MemoryDb_ObjectExists (wanted (o_region (snd ?row)) (o_bucket (snd ?row)) (o_key (snd ?row)))
        (ss_db (snd (S3HashCreator_run demo_world ''SHA1'' demo_stale demo_s3_put)))"
  proof (rule hash_job_overwrites_other_region [of demo_s3_put "fst ?row" "snd ?row" demo_stale])
    show "s3_inv (ss_db demo_s3_put)" by (rule s3_wfD(1) [OF demo_s3_wf(2)])
    show "(fst ?row, snd ?row) \<in> set (s3_objects (ss_db demo_s3_put))" using objs(1) by (metis list.set_intros(1) prod.collapse)
    show "\<forall>(k', v') \<in> set (s3_objects (ss_db demo_s3_put)). o_bucket v' = o_bucket demo_stale \<and> o_key v' = o_key demo_stale \<longrightarrow> k' = fst ?row"
      by (subst objs(1)) auto
  qed (simp_all add: demo_stale_def objs(2-4))
  then show ?thesis by (simp add: objs(2-4))
qed

section \<open>Deleting several objects\<close>

text \<open>A directory that cannot be removed as a file, and that stays when files are removed.\<close>

definition busy_directory :: "'fs file_system \<Rightarrow> string \<Rightarrow> bool" where
  "busy_directory fso dir \<longleftrightarrow>
     (\<forall>fs. \<exists>e. fs_remove fso False dir fs = (Inl (PocoException e), fs)) \<and>
     (\<forall>p fs. fs_exists fso dir fs \<longrightarrow> fs_exists fso dir (snd (fs_remove fso False p fs)))"

definition same_objects :: "s3_db \<Rightarrow> s3_db \<Rightarrow> bool" where
  "same_objects db db' \<longleftrightarrow> s3_inv db' \<and>
     (\<forall>r b k. S3MemoryDb_ObjectExists (wanted r b k) db' = S3MemoryDb_ObjectExists (wanted r b k) db)"

lemma same_objects_trans: "same_objects db db' \<Longrightarrow> same_objects db' db'' \<Longrightarrow> same_objects db db''"
  by (simp add: same_objects_def)

lemma ex_put_same_pred:
  assumes "smap_inv m" "(k, v) \<in> set m" "P (k, v') = P (k, v)"
  shows "(\<exists>kv \<in> set (smap_put k v' m). P kv) = (\<exists>kv \<in> set m. P kv)"
proof -
  let ?f = "\<lambda>(k1, w). (k1, if k1 = k then v' else w)"
  have "P (?f kv) = P kv" if kv: "kv \<in> set m" for kv
  proof -
    obtain k1 v1 where p: "kv = (k1, v1)" by (cases kv)
    then have "k1 = k \<longrightarrow> v1 = v" using kv eq_key_imp_eq_value [OF smap_inv_distinct [OF assms(1)], of k v1 v] assms(2) by auto
    then show ?thesis using p assms(3) by auto
  qed
  moreover have "smap_put k v' m = map ?f m" using assms(2) by (intro smap_put_old_map [OF assms(1)]) force
  ultimately show ?thesis by simp
qed

lemma GetObject_same_objects:
  assumes "s3_inv db"
  shows "same_objects db (snd (S3MemoryDb_GetObject now region bucket key db))"
  unfolding S3MemoryDb_GetObject_def
proof (cases rule: object_fetch_cases [OF assms, of "\<lambda>(k, v). o_region v = region \<and> o_bucket v = bucket \<and> o_key v = key" now])
  case 1
  then show "same_objects db (snd (object_fetch (\<lambda>(k, v). o_region v = region \<and> o_bucket v = bucket \<and> o_key v = key) now db))"
    using assms by (simp add: same_objects_def)
next
  case (2 k ob)
  have "S3MemoryDb_ObjectExists (wanted r b k') (db\<lparr>s3_objects := smap_put k (ob\<lparr>o_oid := k\<rparr>) (s3_objects db)\<rparr>) =
      S3MemoryDb_ObjectExists (wanted r b k') db" for r b k'
    unfolding ObjectExists_iff s3_db.select_convs s3_db.update_convs
    by (simp, rule ex_put_same_pred [OF s3_invD(3) [OF assms] 2(2)]) simp
  then show "same_objects db (snd (object_fetch (\<lambda>(k, v). o_region v = region \<and> o_bucket v = bucket \<and> o_key v = key) now db))"
    using 2(4) s3_inv_put_object [OF assms] by (simp add: same_objects_def)
qed

lemma DeleteFile_keeps_directory:
  "busy_directory fso dir \<Longrightarrow> fs_exists fso dir fs \<Longrightarrow> fs_exists fso dir (snd (FileUtils_DeleteFile fso p fs))"
  by (simp add: busy_directory_def FileUtils_DeleteFile_def)

lemma EnsureDirectory_keeps_directory:
  assumes "fs_lawful fso ready" "fs_exists fso dir fs"
  shows "fs_exists fso dir (snd (DirUtils_EnsureDirectory fso d fs))"
proof -
  obtain fs' where "DirUtils_EnsureDirectory fso d fs = (Inr (), fs')" "fs_keeps fso ready {} fs fs'"
    by (rule EnsureDirectory_lawful [OF assms(1)])
  then show ?thesis using fs_keepsD(2) [of fso ready "{}" fs fs' dir] assms(2) by simp
qed

lemma DeleteObjectFile_effect:
  assumes law: "fs_lawful (w_fso w) ready" and busy: "busy_directory (w_fso w) (path_in (s3_dir (w_cfg w)) [])"
    and ex: "fs_exists (w_fso w) (path_in (s3_dir (w_cfg w)) []) (ss_fs st)"
  shows "ss_db (snd (S3Service_DeleteObjectFile w bucket key name st)) = ss_db st"
    "fs_exists (w_fso w) (path_in (s3_dir (w_cfg w)) []) (ss_fs (snd (S3Service_DeleteObjectFile w bucket key name st)))"
    "name = [] \<Longrightarrow> \<exists>e. fst (S3Service_DeleteObjectFile w bucket key name st) = Inl e"
proof -
  let ?dir = "path_in (s3_dir (w_cfg w)) []"
  let ?P = "\<lambda>s. ss_db s = ss_db st \<and> fs_exists (w_fso w) ?dir (ss_fs s)"
  have step: "?P (snd (on_fs f s))" if "?P s" "\<And>fs. fs_exists (w_fso w) ?dir fs \<Longrightarrow> fs_exists (w_fso w) ?dir (snd (f fs))" for f :: "'a \<Rightarrow> unit result \<times> 'a" and s
    using that by (simp add: on_fs_def case_prod_beta)
  note keep = DeleteFile_keeps_directory [OF busy] EnsureDirectory_keeps_directory [OF law]
  have "?P (snd (S3Service_DeleteObjectFile w bucket key name st))"
    unfolding S3Service_DeleteObjectFile_def Let_def
    by (intro andthen_invariant [where P = ?P]) (simp_all add: step keep ex)
  then show "ss_db (snd (S3Service_DeleteObjectFile w bucket key name st)) = ss_db st"
    "fs_exists (w_fso w) ?dir (ss_fs (snd (S3Service_DeleteObjectFile w bucket key name st)))" by simp_all
  assume name: "name = []"
  obtain fs1 where e1: "on_fs (DirUtils_EnsureDirectory (w_fso w) (s3_dir (w_cfg w))) st = (Inr (), st\<lparr>ss_fs := fs1\<rparr>)"
    and k1: "fs_keeps (w_fso w) ready {} (ss_fs st) fs1" by (rule on_fs_EnsureDirectory [OF law])
  obtain fs2 where e2: "on_fs (DirUtils_EnsureDirectory (w_fso w) (path_in (cfg_dataDir (w_cfg w)) ''transfer'')) (st\<lparr>ss_fs := fs1\<rparr>) = (Inr (), st\<lparr>ss_fs := fs2\<rparr>)"
    and k2: "fs_keeps (w_fso w) ready {} fs1 fs2" using on_fs_EnsureDirectory [OF law, of "path_in (cfg_dataDir (w_cfg w)) ''transfer''" "st\<lparr>ss_fs := fs1\<rparr>"] by auto
  have ex2: "fs_exists (w_fso w) ?dir fs2" using ex fs_keepsD(2) [OF k1, of ?dir] fs_keepsD(2) [OF k2, of ?dir] by simp
  obtain e where "fs_remove (w_fso w) False ?dir fs2 = (Inl (PocoException e), fs2)" using busy unfolding busy_directory_def by blast
  then have "on_fs (FileUtils_DeleteFile (w_fso w) ?dir) (st\<lparr>ss_fs := fs2\<rparr>) = (Inl (PocoException e), st\<lparr>ss_fs := fs2\<rparr>)"
    using ex2 by (simp add: on_fs_def FileUtils_DeleteFile_def path_in_def)
  then show "\<exists>e. fst (S3Service_DeleteObjectFile w bucket key name st) = Inl e"
    by (simp add: S3Service_DeleteObjectFile_def Let_def e1 e2 name)
qed

lemma delete_objects_loop_unknown:
  assumes law: "fs_lawful (w_fso w) ready" and busy: "busy_directory (w_fso w) (path_in (s3_dir (w_cfg w)) [])"
  shows "s3_inv (ss_db st) \<Longrightarrow> fs_exists (w_fso w) (path_in (s3_dir (w_cfg w)) []) (ss_fs st) \<Longrightarrow>
    \<exists>key \<in> set keys. \<not> S3MemoryDb_ObjectExists (wanted region bucket key) (ss_db st) \<Longrightarrow>
    (\<exists>e. fst (delete_objects_loop w d i region bucket keys st) = Inl e) \<and>
    same_objects (ss_db st) (ss_db (snd (delete_objects_loop w d i region bucket keys st)))"
proof (induction keys arbitrary: i st)
  case (Cons key keys)
  let ?get = "S3MemoryDb_GetObject (x_now (d i)) region bucket key"
  define ob where "ob = fst (?get (ss_db st))"
  define st1 where "st1 = st\<lparr>ss_db := snd (?get (ss_db st))\<rparr>"
  have get: "on_db ?get st = (ob, st1)" by (simp add: prod_eq_iff ob_def st1_def)
  have same1: "same_objects (ss_db st) (ss_db st1)" and fs1: "fs_exists (w_fso w) (path_in (s3_dir (w_cfg w)) []) (ss_fs st1)"
    using GetObject_same_objects [OF Cons.prems(1)] Cons.prems(2) by (simp_all add: st1_def)
  note fl = DeleteObjectFile_effect [OF law busy fs1]
  let ?file = "S3Service_DeleteObjectFile w (o_bucket ob) (o_key ob) (o_internalName ob) st1"
  have inv1: "s3_inv (ss_db st1)" using same1 by (simp add: same_objects_def)
  show ?case
  proof (cases ?file rule: andthen_cases)
    case (Throw e s)
    then have "ss_db s = ss_db st1" using fl(1) [of "o_bucket ob" "o_key ob" "o_internalName ob"] by simp
    then show ?thesis using same1 Throw by (simp add: get)
  next
    case (Return x s)
    have db2: "ss_db s = ss_db st1" and fs2: "fs_exists (w_fso w) (path_in (s3_dir (w_cfg w)) []) (ss_fs s)"
      using fl(1,2) [of "o_bucket ob" "o_key ob" "o_internalName ob"] Return by simp_all
    have known: "S3MemoryDb_ObjectExists (wanted region bucket key) (ss_db st)"
    proof (rule ccontr)
      assume "\<not> S3MemoryDb_ObjectExists (wanted region bucket key) (ss_db st)"
      then have "smap_find_if (\<lambda>(k, v). o_region v = region \<and> o_bucket v = bucket \<and> o_key v = key) (s3_objects (ss_db st)) = None"
        by (simp add: S3MemoryDb_ObjectExists_def wanted_def del: split_paired_All not_None_eq)
      then have "ob = Object_init (x_now (d i))"
        by (simp add: ob_def S3MemoryDb_GetObject_def object_fetch_def smap_fetch_def)
      then show False using fl(3) [of "o_internalName ob" "o_bucket ob" "o_key ob"] Return by (simp add: Object_init_def)
    qed
    define chk where "chk = S3Service_CheckNotifications w (x_check (d i)) region bucket key 0 ''ObjectRemoved'' s"
    have chk: "ss_db (snd chk) = ss_db st1" "ss_fs (snd chk) = ss_fs s"
      using CheckNotifications_state(1,2) [of s] inv1 by (simp_all add: chk_def db2)
    have loop: "delete_objects_loop w d i region bucket (key # keys) st =
        andthen chk (\<lambda>_ st3. delete_objects_loop w d (Suc i) region bucket keys st3)"
      using Return by (simp add: get chk_def)
    show ?thesis
    proof (cases chk rule: andthen_cases)
      case (Throw e s')
      then show ?thesis unfolding loop using chk same1 by simp
    next
      case (Return y s')
      have "(\<exists>e. fst (delete_objects_loop w d (Suc i) region bucket keys s') = Inl e) \<and>
          same_objects (ss_db s') (ss_db (snd (delete_objects_loop w d (Suc i) region bucket keys s')))"
      proof (rule Cons.IH)
        show "s3_inv (ss_db s')" "fs_exists (w_fso w) (path_in (s3_dir (w_cfg w)) []) (ss_fs s')"
          using chk Return inv1 fs2 by simp_all
        show "\<exists>key \<in> set keys. \<not> S3MemoryDb_ObjectExists (wanted region bucket key) (ss_db s')"
          using Cons.prems(3) known chk(1) Return same1 by (auto simp: same_objects_def)
      qed
      then show ?thesis unfolding loop using same_objects_trans [OF same1] chk(1) Return by simp
    qed
  qed
qed simp



end
