(* ===== verification/S3Multipart.thy ===== *)
theory S3Multipart
  imports S3Properties2
begin

text \<open>
  Multipart uploads: \<open>CompleteMultipartUpload\<close> puts the parts together in the order of their
  numbers, whatever order the directory lists them in.
\<close>

section \<open>Part files\<close>

lemma to_string_no_dash: "0 \<le> n \<Longrightarrow> CHR ''-'' \<notin> set (to_string n)"
  using show_nat_digits [of "CHR ''-''" "nat n"] digit_char_not_sign(1) by (metis linorder_not_less to_string_def)

lemma part_number_part_file:
  assumes "CHR ''-'' \<notin> set uploadId" "0 \<le> n" "n \<le> long_max"
  shows "part_number (part_file uploadId n) = Inr n"
proof -
  have "to_string n \<noteq> []" by (simp add: to_string_def)
  then have "StringUtils_Split (part_file uploadId n) (CHR ''-'') = [uploadId, to_string n]"
    using assms(1) to_string_no_dash [OF assms(2)]
    by (simp add: part_file_def Split_append_delim Split_single)
  moreover have "stol (to_string n) = Inr n" using assms by (intro stol_to_string) (simp_all add: long_min_def)
  ultimately show ?thesis by (simp add: part_number_def)
qed

lemma first_error_Inr: "first_error (map Inr xs) = None"
  by (induction xs) simp_all

lemma insort_key_map: "\<forall>x \<in> insert y (set xs). f (g x) = x \<Longrightarrow> insort_key f (g y) (map g xs) = map g (insort y xs)"
  by (induction xs) simp_all

lemma sort_key_map: "\<forall>x \<in> set xs. f (g x) = x \<Longrightarrow> sort_key f (map g xs) = map g (sort xs)"
  by (induction xs) (simp_all add: insort_key_map)

lemma ListFilesByPrefix_parts:
  assumes "CHR ''-'' \<notin> set uploadId" "\<forall>n \<in> set ns. 0 \<le> n \<and> n \<le> long_max"
    and "fs_list fso dir fs = Inr (map (part_file uploadId) ns)"
  shows "DirUtils_ListFilesByPrefix fso dir uploadId fs = Inr (map (part_file uploadId) (sort ns))"
proof -
  have number: "part_number (part_file uploadId n) = Inr n" if "n \<in> set ns" for n
    using assms(1,2) that by (simp add: part_number_part_file)
  then have key: "\<forall>n \<in> set ns. part_key (part_file uploadId n) = n" by (simp add: part_key_def)
  have "map (part_number \<circ> part_file uploadId) ns = map Inr ns" using number by simp
  note noerror = first_error_Inr [of ns, folded this]
  have "filter (\<lambda>n. StringUtils_StartsWith n uploadId) (map (part_file uploadId) ns) = map (part_file uploadId) ns"
    by (simp add: filter_map comp_def StringUtils_StartsWith_def part_file_def)
  then show ?thesis
    by (simp add: DirUtils_ListFilesByPrefix_def rbind_def assms(3) Let_def noerror sort_key_map [where g = "part_file uploadId", OF key])
qed

lemma AppendBinaryFiles_parts:
  assumes "fs_lawful fso ready" "ready out fs" "fs_read fso out fs = []"
    and "\<forall>f \<in> set files. fs_exists fso (dir @ ''/'' @ f) fs"
  shows "FileUtils_AppendBinaryFiles fso out dir files fs =
     (let content = concat (map (\<lambda>f. fs_read fso (dir @ ''/'' @ f) fs) files)
      in (int (length content), fs_write fso out content fs))"
    "fs_read fso out (fs_write fso out c fs) = c"
proof -
  have "sum_list (map (\<lambda>f. if fs_exists fso (dir @ ''/'' @ f) fs then int (length (fs_read fso (dir @ ''/'' @ f) fs)) else - 1) files)
      = int (length (concat (map (\<lambda>f. fs_read fso (dir @ ''/'' @ f) fs) files)))"
    using assms(4) by (induction files) auto
  then show "FileUtils_AppendBinaryFiles fso out dir files fs =
     (let content = concat (map (\<lambda>f. fs_read fso (dir @ ''/'' @ f) fs) files)
      in (int (length content), fs_write fso out content fs))"
    by (simp add: FileUtils_AppendBinaryFiles_def Let_def assms(3) overlay_def)
  show "fs_read fso out (fs_write fso out c fs) = c"
    by (rule fs_lawfulD(1) [where ready = ready]) (use assms in auto)
qed

section \<open>The row that is updated\<close>

text \<open>Reading the row of a key and writing it back changed: the row found for the key is the new one.\<close>

lemma GetObject_then_Update:
  assumes inv: "s3_inv db" and ex: "S3MemoryDb_ObjectExists (wanted region bucket key) db"
  obtains ob db1 where "S3MemoryDb_GetObject now region bucket key db = (ob, db1)"
    "o_region ob = region" "o_bucket ob = bucket" "o_key ob = key" "s3_inv db1"
    "\<And>ob'. o_region ob' = region \<Longrightarrow> o_bucket ob' = bucket \<Longrightarrow> o_key ob' = key \<Longrightarrow>
       \<exists>k db2. S3MemoryDb_UpdateObject ob' db1 = (Inr ob', db2) \<and> s3_inv db2 \<and>
         smap_find_if (\<lambda>(k, v). o_region v = region \<and> o_bucket v = bucket \<and> o_key v = key) (s3_objects db2) = Some (k, ob')"
proof -
  let ?Q = "\<lambda>(k, v). o_region v = region \<and> o_bucket v = bucket \<and> o_key v = key"
  obtain k v where find: "smap_find_if ?Q (s3_objects db) = Some (k, v)"
    using ex by (auto simp: S3MemoryDb_ObjectExists_def wanted_def)
  let ?ob = "v\<lparr>o_oid := k\<rparr>" and ?db1 = "db\<lparr>s3_objects := smap_put k (v\<lparr>o_oid := k\<rparr>) (s3_objects db)\<rparr>"
  have v: "o_region v = region" "o_bucket v = bucket" "o_key v = key" using smap_find_if_Some [OF find] by auto
  have inv1: "s3_inv ?db1" by (rule s3_inv_put_object [OF inv])
  have find1: "smap_find_if ?Q (s3_objects ?db1) = Some (k, ?ob)"
    using find_put_first [OF s3_invD(3) [OF inv] find, of ?Q ?ob] v by simp
  have update: "\<exists>k db2. S3MemoryDb_UpdateObject ob' ?db1 = (Inr ob', db2) \<and> s3_inv db2 \<and> smap_find_if ?Q (s3_objects db2) = Some (k, ob')"
    if ob': "o_region ob' = region" "o_bucket ob' = bucket" "o_key ob' = key" for ob'
  proof -
    have ex1: "S3MemoryDb_ObjectExists ob' ?db1" using find1 ob' by (simp add: S3MemoryDb_ObjectExists_def)
    obtain k' ob2 where eq: "S3Database_CreateOrUpdateObject 0 [] ob' ?db1 = (Inr ob2, ?db1\<lparr>s3_objects := smap_put k' ob2 (s3_objects ?db1)\<rparr>)"
      and found: "smap_find_if (\<lambda>(k, v). o_region v = o_region ob' \<and> o_bucket v = o_bucket ob' \<and> o_key v = o_key ob')
       (smap_put k' ob2 (s3_objects ?db1)) = Some (k', ob2)"
      by (rule CreateOrUpdateObject_finds [OF inv1, of 0 "[]" ob'])
    have upd: "S3MemoryDb_UpdateObject ob' ?db1 = (Inr ob2, ?db1\<lparr>s3_objects := smap_put k' ob2 (s3_objects ?db1)\<rparr>)"
      using eq ex1 by (simp add: S3Database_CreateOrUpdateObject_def)
    then have "ob2 = ob'" by (simp add: S3MemoryDb_UpdateObject_def smap_replace_def split: option.splits prod.splits)
    then show ?thesis using upd found s3_inv_put_object [OF inv1] ob' by auto
  qed
  show ?thesis
    by (rule that [of ?ob ?db1]) (use find v inv1 update in \<open>simp_all add: GetObject_found\<close>)
qed

section \<open>Completing an upload\<close>

text \<open>C23: \<open>CompleteMultipartUpload\<close> joins the parts in the order of their numbers, whatever order the
  directory lists the part files in: however the notifications that follow end, the row found for the
  key has the size and MD5 sum of the joined parts and names the new file, the file holds them, and a
  successful answer is that MD5 sum.\<close>

theorem complete_upload_in_order:
  assumes wf: "s3_wf (ss_db st)" and law: "fs_lawful (w_fso w) ready"
    and ex: "S3MemoryDb_ObjectExists (wanted (cpr_region request) (cpr_bucket request) (cpr_key request)) (ss_db st)"
    and tmp: "tmp = path_in (cfg_dataDir (w_cfg w)) ''tmp''" and dir: "dir = path_in tmp (cpr_uploadId request)"
    and dirs: "fs_exists (w_fso w) (s3_dir (w_cfg w)) (ss_fs st)" "fs_exists (w_fso w) tmp (ss_fs st)"
    and parts: "fs_list (w_fso w) dir (ss_fs st) = Inr (map (part_file (cpr_uploadId request)) ns)"
      "CHR ''-'' \<notin> set (cpr_uploadId request)"
      "\<forall>n \<in> set ns. 0 \<le> n \<and> n \<le> long_max \<and> fs_exists (w_fso w) (dir @ ''/'' @ part_file (cpr_uploadId request) n) (ss_fs st)"
    and out: "out = path_in (s3_dir (w_cfg w)) (x_file d)" "ready out (ss_fs st)" "fs_read (w_fso w) out (ss_fs st) = []"
    and rm: "\<And>fs. \<exists>fs'. fs_remove (w_fso w) True dir fs = (Inr (), fs') \<and> fs_read (w_fso w) out fs' = fs_read (w_fso w) out fs"
    and content: "content = concat (map (\<lambda>n. fs_read (w_fso w) (dir @ ''/'' @ part_file (cpr_uploadId request) n) (ss_fs st)) (sort ns))"
    and run: "S3Service_CompleteMultipartUpload w d request st = (r, st')"
  shows "(\<exists>k ob. smap_find_if (\<lambda>(k, v). o_region v = cpr_region request \<and> o_bucket v = cpr_bucket request \<and> o_key v = cpr_key request)
            (s3_objects (ss_db st')) = Some (k, ob) \<and>
          o_size ob = int (length content) \<and> o_md5sum ob = Crypto_HexEncode (ext_md5 (w_ext w) content) \<and> o_internalName ob = x_file d) \<and>
    fs_read (w_fso w) out (ss_fs st') = content \<and>
    (\<forall>m. r = Inr m \<longrightarrow> m = Crypto_HexEncode (ext_md5 (w_ext w) content))"
proof -
  let ?key = "\<lambda>(k, v). o_region v = cpr_region request \<and> o_bucket v = cpr_bucket request \<and> o_key v = cpr_key request"
  let ?id = "cpr_uploadId request" and ?md5 = "Crypto_HexEncode (ext_md5 (w_ext w) content)"
  let ?fs = "fs_write (w_fso w) out content (ss_fs st)"
  have upload: "S3Service_GetMultipartUploadDirectory w ?id st = (Inr dir, st)"
    using dirs(2) by (simp add: S3Service_GetMultipartUploadDirectory_def DirUtils_EnsureDirectory_def
        DirUtils_DirectoryExists_def on_fs_def tmp dir)
  have ensure: "on_fs (DirUtils_EnsureDirectory (w_fso w) (s3_dir (w_cfg w))) st = (Inr (), st)"
    using dirs(1) by (simp add: DirUtils_EnsureDirectory_def DirUtils_DirectoryExists_def on_fs_def)
  have files: "DirUtils_ListFilesByPrefix (w_fso w) dir ?id (ss_fs st) = Inr (map (part_file ?id) (sort ns))"
    using parts by (intro ListFilesByPrefix_parts) auto
  have append: "FileUtils_AppendBinaryFiles (w_fso w) out dir (map (part_file ?id) (sort ns)) (ss_fs st) = (int (length content), ?fs)"
    and read: "fs_read (w_fso w) out ?fs = content"
    using AppendBinaryFiles_parts [OF law out(2,3), of "map (part_file ?id) (sort ns)" dir] parts(3)
    by (simp_all add: content Let_def comp_def)
  obtain ob db1 where get: "S3MemoryDb_GetObject (x_now d) (cpr_region request) (cpr_bucket request) (cpr_key request) (ss_db st) = (ob, db1)"
    and ob: "o_region ob = cpr_region request" "o_bucket ob = cpr_bucket request" "o_key ob = cpr_key request"
    and update: "\<And>ob'. o_region ob' = cpr_region request \<Longrightarrow> o_bucket ob' = cpr_bucket request \<Longrightarrow> o_key ob' = cpr_key request \<Longrightarrow>
       \<exists>k db2. S3MemoryDb_UpdateObject ob' db1 = (Inr ob', db2) \<and> s3_inv db2 \<and> smap_find_if ?key (s3_objects db2) = Some (k, ob')"
    by (rule GetObject_then_Update [OF s3_wfD(1) [OF wf] ex, of "x_now d"]) blast
  let ?ob = "ob\<lparr>o_size := int (length content), o_md5sum := ?md5, o_internalName := x_file d\<rparr>"
  obtain k db2 where upd: "S3MemoryDb_UpdateObject ?ob db1 = (Inr ?ob, db2)" and inv2: "s3_inv db2"
    and found: "smap_find_if ?key (s3_objects db2) = Some (k, ?ob)"
    using update [of ?ob] ob by auto
  let ?st5 = "st\<lparr>ss_fs := ?fs, ss_db := db2\<rparr>"
  let ?st5' = "start_hash_job (cpr_checksumAlgorithm request) ?ob ?st5"
  have st5': "ss_db ?st5' = db2" "ss_fs ?st5' = ?fs" by (simp_all add: start_hash_job_def)
  obtain st6 where delete: "on_fs (DirUtils_DeleteDirectory (w_fso w) True dir) ?st5' = (Inr (), st6)"
    and st6: "ss_db st6 = db2" "fs_read (w_fso w) out (ss_fs st6) = content"
  proof -
    obtain fs' where fs': "fs_remove (w_fso w) True dir ?fs = (Inr (), fs')" "fs_read (w_fso w) out fs' = content"
      using rm [of ?fs] read by metis
    let ?fs6 = "if DirUtils_DirectoryExists (w_fso w) dir ?fs then fs' else ?fs"
    show thesis
      by (rule that [of "?st5'\<lparr>ss_fs := ?fs6\<rparr>"])
         (simp_all add: on_fs_def DirUtils_DeleteDirectory_def st5' fs' read)
  qed
  have "S3Service_CompleteMultipartUpload w d request st =
      andthen (S3Service_CheckNotifications w (x_check d) (cpr_region request) (cpr_bucket request) (cpr_key request)
                 (o_size ?ob) ''ObjectCreated'' st6) (\<lambda>_ st7. (Inr ?md5, st7))"
    by (simp add: S3Service_CompleteMultipartUpload_def ensure upload files append Let_def Crypto_GetMd5FromFile_def
        read on_db_def get upd delete flip: out(1))
  then have eq: "(r, st') = andthen (S3Service_CheckNotifications w (x_check d) (cpr_region request) (cpr_bucket request) (cpr_key request)
                 (o_size ?ob) ''ObjectCreated'' st6) (\<lambda>_ st7. (Inr ?md5, st7))" using run by simp
  have "s3_inv (ss_db st6)" using inv2 st6 by simp
  note check = CheckNotifications_state [OF this, of w "x_check d" "cpr_region request" "cpr_bucket request" "cpr_key request"
      "o_size ?ob" "''ObjectCreated''"]
  have "ss_db st' = db2 \<and> ss_fs st' = ss_fs st6 \<and> (\<forall>m. r = Inr m \<longrightarrow> m = ?md5)"
    using eq check st6(1)
    by (cases "S3Service_CheckNotifications w (x_check d) (cpr_region request) (cpr_bucket request) (cpr_key request)
                 (o_size ?ob) ''ObjectCreated'' st6" rule: andthen_cases) auto
  then show ?thesis using found st6(2) by auto
qed


text \<open>An upload whose parts arrive in order, and are listed the other way round.\<close>

definition demo_create_upload :: CreateMultipartUploadRequest where
  "demo_create_upload = \<lparr>cmr_region = ''eu'', cmr_bucket = ''b'', cmr_key = ''big'', cmr_user = ''me'', cmr_metadata = []\<rparr>"

definition demo_complete :: CompleteMultipartUploadRequest where
  "demo_complete = \<lparr>cpr_region = ''eu'', cpr_bucket = ''b'', cpr_key = ''big'', cpr_user = ''me'', cpr_uploadId = ''u1'',
     cpr_checksumAlgorithm = ''''\<rparr>"

definition demo_s3_parts :: "demo_files s3_state" where
  "demo_s3_parts =
     (let st1 = snd (S3Service_CreateMultipartUpload demo_world (demo_s3_draws ''o2'' '''') ''u1'' demo_create_upload demo_s3_put);
          st2 = snd (S3Service_UploadPart demo_world ''Hello,'' 9 ''u1'' st1)
      in snd (S3Service_UploadPart demo_world ''World'' 10 ''u1'' st2))"


lemma demo_s3_parts_files:
  "ss_fs demo_s3_parts =
    [(''/d/tmp/u1/u1-10'', ''World''), (''/d/tmp/u1/u1-9'', ''Hello,''), (''/d/s3/f1'', ''hello''), (''/d/s3/'', []),
     (''/d/tmp/'', []), (''/d/tmp/u1/'', [])]"
  by code_simp

lemma files_remove_outside:
  assumes "out \<noteq> p" "take (length p + 1) out \<noteq> p @ ''/''"
  shows "\<exists>fs'. files_remove True p fs = (Inr (), fs') \<and> files_read out fs' = files_read out fs"
  using assms files_read_simps(2) [of out "\<lambda>q. q \<noteq> p \<and> take (length p + 1) q \<noteq> p @ ''/''" fs]
  by (simp add: files_remove_def)

theorem complete_upload_in_order_witness:
  "fs_read demo_fso ''/d/s3/f2'' (ss_fs (snd (S3Service_CompleteMultipartUpload demo_world (demo_s3_draws [] ''f2'') demo_complete demo_s3_parts)))
     = ''Hello,World''"
proof -
  let ?w = demo_world and ?d = "demo_s3_draws [] ''f2''" and ?r = demo_complete
  have wf: "s3_wf (ss_db demo_s3_parts)"
  proof -
    have "s3_reachable demo_world demo_s3_parts"
      unfolding demo_s3_parts_def Let_def
      by (rule s3_reachable.step [OF s3_reachable.step [OF s3_reachable.step [OF demo_s3_reachable(2)
            s3_step.create_upload] s3_step.upload_part] s3_step.upload_part])
    then show ?thesis by (rule s3_reachable_s3_wf)
  qed
  have ex: "S3MemoryDb_ObjectExists (wanted (cpr_region ?r) (cpr_bucket ?r) (cpr_key ?r)) (ss_db demo_s3_parts)"
    by code_simp
  have tmp: "''/d/tmp'' = path_in (cfg_dataDir (w_cfg ?w)) ''tmp''" and dir: "''/d/tmp/u1'' = path_in ''/d/tmp'' (cpr_uploadId ?r)"
    and out: "''/d/s3/f2'' = path_in (s3_dir (w_cfg ?w)) (x_file ?d)" by code_simp+
  have list: "fs_list (w_fso ?w) ''/d/tmp/u1'' (ss_fs demo_s3_parts) = Inr (map (part_file (cpr_uploadId ?r)) [10, 9])"
    unfolding demo_s3_parts_files by code_simp
  have there: "\<forall>n \<in> set [10, 9]. 0 \<le> n \<and> n \<le> long_max \<and> fs_exists (w_fso ?w) (''/d/tmp/u1'' @ ''/'' @ part_file (cpr_uploadId ?r) n) (ss_fs demo_s3_parts)"
    unfolding demo_s3_parts_files by code_simp
  have dirs: "fs_exists (w_fso ?w) (s3_dir (w_cfg ?w)) (ss_fs demo_s3_parts)" "fs_exists (w_fso ?w) ''/d/tmp'' (ss_fs demo_s3_parts)"
    and dash: "CHR ''-'' \<notin> set (cpr_uploadId ?r)" and fresh: "fs_read (w_fso ?w) ''/d/s3/f2'' (ss_fs demo_s3_parts) = []"
    unfolding demo_s3_parts_files by code_simp+
  have content: "''Hello,World'' = concat (map (\<lambda>n. fs_read (w_fso ?w) (''/d/tmp/u1'' @ ''/'' @ part_file (cpr_uploadId ?r) n) (ss_fs demo_s3_parts)) (sort [10, 9]))"
    unfolding demo_s3_parts_files by code_simp
  have rm: "\<exists>fs'. fs_remove (w_fso ?w) True ''/d/tmp/u1'' fs = (Inr (), fs') \<and> fs_read (w_fso ?w) ''/d/s3/f2'' fs' = fs_read (w_fso ?w) ''/d/s3/f2'' fs" for fs
    unfolding demo_world_fields by (rule files_remove_outside) simp_all
  show ?thesis
    using complete_upload_in_order [OF wf demo_world_lawful ex tmp dir dirs list dash there out TrueI fresh rm content prod.collapse [symmetric]]
    by (simp add: demo_world_fields)
qed

end
