(* ===== verification/CString.thy ===== *)
theory CString
  imports Prelude
begin

text \<open>
  Bytes that the code passes on as a C string (\<open>strlen\<close>, \<open>ostream << char *\<close>): what counts is
  what stands before the first NUL byte.
\<close>

definition c_string :: "string \<Rightarrow> string" where
  "c_string = takeWhile (\<lambda>c. c \<noteq> char_of (0 :: nat))"

text \<open>
  A buffer printed as a C string: without a NUL byte among the bytes written to it, the printing
  goes on into memory that was never written.
\<close>

definition as_c_string :: "string \<Rightarrow> string result" where
  "as_c_string chunk =
     (if char_of (0 :: nat) \<in> set chunk then Inr (c_string chunk) else Inl UndefinedBehaviour)"

lemma takeWhile_stops: "x \<in> set xs \<Longrightarrow> \<not> P x \<Longrightarrow> length (takeWhile P xs) < length xs"
  by (induction xs) auto

lemma as_c_string_Inr: "as_c_string chunk = Inr s \<Longrightarrow> s = c_string chunk \<and> length s < length chunk"
  by (auto simp: as_c_string_def c_string_def split: if_splits intro: takeWhile_stops)

lemma c_string_plain: "char_of (0 :: nat) \<notin> set s \<Longrightarrow> c_string s = s"
  unfolding c_string_def by (rule takeWhile_eq_all_conv [THEN iffD2]) auto

end
