(* ===== verification/S3Handler.thy ===== *)
theory S3Handler
  imports SQSHandler S3Service CString
begin

text \<open>
  \<open>service/src/s3/S3Handler.cpp\<close> with the range responses of \<open>AbstractHandler.cpp\<close> and the one
  memory mapped file of the process (\<open>core/src/utils/MemoryMappedFile.cpp\<close>).  The XML documents of
  the requests are read with Poco's DOM parser: the readers are the parameters of \<open>s3_front\<close>.
\<close>

section \<open>The mapped file\<close>

text \<open>The mapping shows the file as it was when it was opened: S3 writes a stored file only once.\<close>

record mapped_file =
  mm_mapped :: bool
  mm_size :: int
  mm_bytes :: string

text \<open>\<open>mmap\<close> refuses an empty file.\<close>

definition MemoryMappedFile_OpenFile ::
  "'fs file_system \<Rightarrow> string \<Rightarrow> 'fs \<Rightarrow> mapped_file \<Rightarrow> bool \<times> mapped_file" where
  "MemoryMappedFile_OpenFile fso filename fs m =
     (let m' = m\<lparr>mm_size := FileUtils_FileSize fso filename fs\<rparr> in
      if \<not> fs_exists fso filename fs \<or> mm_size m' = 0 then (False, m')
      else (True, m'\<lparr>mm_mapped := True, mm_bytes := fs_read fso filename fs\<rparr>))"

definition MemoryMappedFile_CloseFile :: "mapped_file \<Rightarrow> mapped_file" where
  "MemoryMappedFile_CloseFile m = m\<lparr>mm_mapped := False\<rparr>"

definition MemoryMappedFile_ReadChunk :: "int \<Rightarrow> int \<Rightarrow> mapped_file \<Rightarrow> string result" where
  "MemoryMappedFile_ReadChunk start len m =
     (let len' = (if start + len > mm_size m then mm_size m - start else len) in
      if start < 0 \<or> len' < 0 then Inl UndefinedBehaviour
      else Inr (take (nat len') (drop (nat start) (mm_bytes m))))"

text \<open>The buffer of \<open>size\<close> bytes is printed as a C string.\<close>

definition put_headers :: "(string, string) smap \<Rightarrow> (string, string) smap \<Rightarrow> (string, string) smap" where
  "put_headers headers m = fold (\<lambda>(n, v) m. smap_put n v m) headers m"

definition range_body :: "int \<Rightarrow> int \<Rightarrow> mapped_file \<Rightarrow> string result" where
  "range_body lo sz m =
     (if sz < 0 then Inl StdException
      else rbind (MemoryMappedFile_ReadChunk lo sz m) as_c_string)"

definition SendRangeResponse ::
  "'fs file_system \<Rightarrow> string \<Rightarrow> int \<Rightarrow> int \<Rightarrow> int \<Rightarrow> int \<Rightarrow> (string, string) smap \<Rightarrow> 'fs \<Rightarrow> mapped_file \<Rightarrow>
   (string http_response, mapped_file) outcome" where
  "SendRangeResponse fso fileName lo hi sz totalSize headers fs m =
     (let (opened, m1) = (if mm_mapped m then (True, m) else MemoryMappedFile_OpenFile fso fileName fs m) in
      if \<not> opened then (Inl (ServiceException (''Could not open memory mapped file, filename: '' @ fileName)), m1)
      else case range_body lo sz m1 of
             Inl e \<Rightarrow> (Inl e, m1)
           | Inr body \<Rightarrow>
               (Inr \<lparr>rs_status = 206,
                     rs_headers = put_headers headers
                       [(''Content-Length'', to_string (int (length body))),
                        (''Content-Type'', ''application/octet-stream''), (''Server'', ''awsmock'')],
                     rs_body = body\<rparr>,
                if hi = totalSize - 1 then MemoryMappedFile_CloseFile m1 else m1))"

section \<open>Reading the request\<close>

definition StringUtils_Quoted :: "string \<Rightarrow> string" where
  "StringUtils_Quoted s =
     [CHR 0x22] @ concat (map (\<lambda>c. if c = CHR 0x22 \<or> c = CHR 0x5C then [CHR 0x5C, c] else [c]) s) @ [CHR 0x22]"

text \<open>\<open>bytes=min-max\<close>; the vectors of tokens are indexed without a check.\<close>

definition read_range :: "string \<Rightarrow> (int \<times> int) result" where
  "read_range rangeStr =
     rbind (vec_at (StringUtils_Split rangeStr (CHR ''='')) 1) (\<lambda>parts.
     rbind (rbind (vec_at (StringUtils_Split parts (CHR ''-'')) 0) stol) (\<lambda>lo.
     rbind (rbind (vec_at (StringUtils_Split parts (CHR ''-'')) 1) stol) (\<lambda>hi.
     Inr (lo, hi))))"

definition S3Handler_GetRange :: "http_request \<Rightarrow> (int \<times> int) option result" where
  "S3Handler_GetRange request =
     (if \<not> HttpUtils_HasHeader request ''Range'' then Inr None
      else rbind (read_range (HttpUtils_GetHeaderValue request ''Range'' [])) (\<lambda>r. Inr (Some r)))"

text \<open>Names are compared with case; what is skipped is as long as \<open>x-amz-meta-\<close>, of a shorter name nothing
  is left and \<open>substr\<close> throws.\<close>

fun metadata_loop :: "(string \<times> string) list \<Rightarrow> (string, string) smap \<Rightarrow> (string, string) smap result" where
  "metadata_loop [] m = Inr m"
| "metadata_loop ((n, v) # fs) m =
     (if StringUtils_StartsWith n ''x-amz-meta''
      then (if length n < 11 then Inl OutOfRange else metadata_loop fs (smap_put (drop 11 n) v m))
      else metadata_loop fs m)"

definition S3Handler_GetMetadata :: "http_request \<Rightarrow> (string, string) smap result" where
  "S3Handler_GetMetadata request = metadata_loop (rq_fields request) []"

section \<open>The handler\<close>

datatype s3_body =
    S3Text string
  | S3Buckets "Bucket list"
  | S3Contents string "Content list"
  | S3Versions string "Object list"
  | S3File string
  | S3Created CreateBucketResponse
  | S3Copied CopyObjectResponse
  | S3Moved CopyObjectResponse
  | S3PartCopied string
  | S3Configured "NotificationConfiguration list"
  | S3Upload string string string
  | S3Completed string string string
  | S3Deleted "string list"

record 'fs s3_front =
  sf_state :: "'fs s3_state"
  sf_map :: mapped_file

text \<open>
  What the handler takes from outside: the readers of the XML documents (\<open>dto/src/s3\<close> on Poco's DOM),
  \<open>what()\<close> of an exception, the identifiers drawn and stale memory.
\<close>

record s3_request_world =
  hw_what :: "exn \<Rightarrow> string"
  hw_delete_keys :: "string \<Rightarrow> string list result"
  hw_notification :: "string \<Rightarrow> PutBucketNotificationRequest result"
  hw_configuration :: "string \<Rightarrow> PutBucketNotificationConfigurationRequest result"
  hw_requestId :: string
  hw_stale :: S3CommandType
  hw_draws :: s3_draws
  hw_delete_draws :: "nat \<Rightarrow> s3_draws"
  hw_uuid :: "nat \<Rightarrow> string"
  hw_uploadId :: string
  hw_random :: "string list"

type_synonym 'fs s3_result = "(s3_body http_response, 'fs s3_front) outcome"

definition on_s3 :: "('fs s3_state \<Rightarrow> ('a, 'fs s3_state) outcome) \<Rightarrow> 'fs s3_front \<Rightarrow> ('a, 'fs s3_front) outcome" where
  "on_s3 f st = (case f (sf_state st) of (x, s) \<Rightarrow> (x, st\<lparr>sf_state := s\<rparr>))"

definition reading :: "'a result \<Rightarrow> ('a \<Rightarrow> 's \<Rightarrow> ('b, 's) outcome) \<Rightarrow> 's \<Rightarrow> ('b, 's) outcome" where
  "reading r k st = (case r of Inl e \<Rightarrow> (Inl e, st) | Inr x \<Rightarrow> k x st)"

definition s3_answer :: "s3_body \<Rightarrow> (string, string) smap \<Rightarrow> 'fs s3_front \<Rightarrow> 'fs s3_result" where
  "s3_answer body headers st = (Inr (SendOkResponse body headers), st)"

definition s3_bad :: "'fs s3_front \<Rightarrow> 'fs s3_result" where
  "s3_bad st = (Inr (SendBadRequestError (S3Text ''Unknown method'') []), st)"

text \<open>
  The last catch clauses: of a Poco exception the message is sent (\<open>by_message\<close>: where the clause
  names its class), of the other standard exceptions \<open>what()\<close>.
\<close>

definition s3_catch :: "(exn \<Rightarrow> bool) \<Rightarrow> (exn \<Rightarrow> string) \<Rightarrow> 'fs s3_result \<Rightarrow> 'fs s3_result" where
  "s3_catch by_message what r =
     (case r of
        (Inr x, st) \<Rightarrow> (Inr x, st)
      | (Inl UndefinedBehaviour, st) \<Rightarrow> (Inl UndefinedBehaviour, st)
      | (Inl e, st) \<Rightarrow>
          (Inr (HttpUtils_InternalServerError (S3Text
             (case poco_message e of Some m \<Rightarrow> (if by_message e then m else what e) | None \<Rightarrow> what e))), st))"

fun service_or_json :: "exn \<Rightarrow> bool" where
  "service_or_json (ServiceException m) = True"
| "service_or_json (JsonException m) = True"
| "service_or_json _ = False"

definition query_or_empty :: "externals \<Rightarrow> string \<Rightarrow> string \<Rightarrow> string \<Rightarrow> string result" where
  "query_or_empty ext target name dflt =
     rbind (HttpUtils_HasQueryParameter target name) (\<lambda>has.
     if has then HttpUtils_GetQueryParameterValueByName ext target name else Inr dflt)"

text \<open>The listing of \<open>LIST_OBJECTS\<close> and, word for word, of \<open>DELETE_OBJECT\<close>; of what is read only the
  bucket and the prefix reach the store.\<close>

definition handle_list_objects ::
  "'fs s3_world \<Rightarrow> http_request \<Rightarrow> S3ClientCommand \<Rightarrow> 'fs s3_front \<Rightarrow> 'fs s3_result" where
  "handle_list_objects w request c st =
     (let ext = w_ext w; target = rq_target request in
      reading (rbind (HttpUtils_HasQueryParameter target ''list-type'') (\<lambda>typed.
                 if typed
                 then rbind (rbind (HttpUtils_GetQueryParameterValueByName ext target ''list-type'') stoi) (\<lambda>listType.
                      rbind (query_or_empty ext target ''delimiter'' []) (\<lambda>delimiter.
                      rbind (query_or_empty ext target ''prefix'' []) (\<lambda>prefix.
                      rbind (query_or_empty ext target ''encoding_type'' ''url'') (\<lambda>encodingType.
                      Inr prefix))))
                 else Inr []))
        (\<lambda>prefix st. s3_answer (S3Contents (s3c_bucket c) (S3Service_ListBucket (s3c_bucket c) prefix (sf_state st))) [] st) st)"

definition object_headers :: "externals \<Rightarrow> GetObjectResponse \<Rightarrow> (string, string) smap" where
  "object_headers ext resp =
     fold (\<lambda>(n, v) m. smap_put (''x-amz-meta-'' @ n) v m) (gos_metadata resp)
       [(''Content-Type'', gos_contentType resp), (''ETag'', StringUtils_Quoted (gos_md5sum resp)),
        (''Last-Modified'', ext_http_format ext (gos_modified resp))]"

definition range_headers :: "int \<Rightarrow> int \<Rightarrow> GetObjectResponse \<Rightarrow> (string, string) smap \<Rightarrow> (string, string) smap" where
  "range_headers lo hi resp m =
     smap_put ''Content-Length'' (to_string (hi - lo + 1))
       (smap_put ''Content-Range''
          (''bytes '' @ to_string lo @ ''-'' @ to_string hi @ ''/'' @ to_string (gos_size resp))
          (smap_put ''Accept-Ranges'' ''bytes'' m))"

definition send_file :: "'fs s3_world \<Rightarrow> GetObjectResponse \<Rightarrow> (string, string) smap \<Rightarrow> 'fs s3_front \<Rightarrow> 'fs s3_result" where
  "send_file w resp headers st =
     (let body = fs_read (w_fso w) (gos_filename resp) (ss_fs (sf_state st)) in
      (Inr \<lparr>rs_status = 200,
            rs_headers = put_headers headers
              [(''Content-Length'', to_string (int (length body))), (''Content-Type'', ''application/json''), (''Server'', ''awsmock'')],
            rs_body = S3File body\<rparr>, st))"

definition send_range ::
  "'fs s3_world \<Rightarrow> GetObjectResponse \<Rightarrow> int \<Rightarrow> int \<Rightarrow> (string, string) smap \<Rightarrow> 'fs s3_front \<Rightarrow> 'fs s3_result" where
  "send_range w resp lo hi headers st =
     (case SendRangeResponse (w_fso w) (gos_filename resp) lo hi (hi - lo + 1) (gos_size resp) headers
             (ss_fs (sf_state st)) (sf_map st) of
        (Inl e, m) \<Rightarrow> (Inl e, st\<lparr>sf_map := m\<rparr>)
      | (Inr r, m) \<Rightarrow> (Inr \<lparr>rs_status = rs_status r, rs_headers = rs_headers r, rs_body = S3File (rs_body r)\<rparr>,
                       st\<lparr>sf_map := m\<rparr>))"

definition handle_get_object ::
  "'fs s3_world \<Rightarrow> s3_draws \<Rightarrow> http_request \<Rightarrow> S3ClientCommand \<Rightarrow> 'fs s3_front \<Rightarrow> 'fs s3_result" where
  "handle_get_object w d request c st =
     reading (rbind (HttpUtils_GetQueryParameterValueByName (w_ext w) (rq_target request) ''versionId'') (\<lambda>versionId.
              rbind (S3Handler_GetRange request) (\<lambda>range. Inr (versionId, range))))
       (\<lambda>(versionId, range) st.
          andthen (on_s3 (S3Service_GetObject w d
                     \<lparr>gor_region = bc_region c, gor_bucket = s3c_bucket c, gor_key = s3c_key c,
                      gor_versionId = versionId\<rparr>) st) (\<lambda>resp st1.
          let headers = object_headers (w_ext w) resp in
          case range of
            Some (lo, hi) \<Rightarrow> send_range w resp lo hi (range_headers lo hi resp headers) st1
          | None \<Rightarrow> send_file w resp headers st1)) st"

definition handle_list_versions ::
  "'fs s3_world \<Rightarrow> s3_draws \<Rightarrow> http_request \<Rightarrow> S3ClientCommand \<Rightarrow> 'fs s3_front \<Rightarrow> 'fs s3_result" where
  "handle_list_versions w d request c st =
     (let ext = w_ext w; target = rq_target request in
      reading (rbind (HttpUtils_GetQueryParameterValueByName ext target ''delimiter'') (\<lambda>_.
               rbind (HttpUtils_GetQueryParameterValueByName ext target ''encoding-type'') (\<lambda>_.
               rbind (HttpUtils_GetQueryParameterValueByName ext target ''key-marker'') (\<lambda>_.
               rbind (HttpUtils_GetQueryParameterValueByName ext target ''version-id-marker'') (\<lambda>_.
               rbind (HttpUtils_GetQueryParameterValueByName ext target ''max-keys'') (\<lambda>sPageSize.
               if sPageSize = [] then Inr 1000 else stoi sPageSize))))))
        (\<lambda>pageSize st. andthen (on_s3 (S3Service_ListObjectVersions d (bc_region c) (s3c_bucket c) pageSize) st)
           (\<lambda>obs st'. s3_answer (S3Versions (s3c_bucket c) obs) [] st')) st)"

definition S3Handler_HandleGetRequest ::
  "'fs s3_world \<Rightarrow> s3_request_world \<Rightarrow> http_request \<Rightarrow> string \<Rightarrow> string \<Rightarrow> 'fs s3_front \<Rightarrow> 'fs s3_result" where
  "S3Handler_HandleGetRequest w h request region user =
     reading (S3ClientCommand_FromRequest (w_ext w) (hw_stale h) (hw_requestId h) request region user) (\<lambda>c st.
       s3_catch (\<lambda>e. True) (hw_what h)
         (case s3c_command c of
            LIST_BUCKETS \<Rightarrow> s3_answer (S3Buckets (S3Service_ListAllBuckets (sf_state st))) [] st
          | LIST_OBJECTS \<Rightarrow> handle_list_objects w request c st
          | GET_OBJECT \<Rightarrow> handle_get_object w (hw_draws h) request c st
          | LIST_OBJECT_VERSIONS \<Rightarrow> handle_list_versions w (hw_draws h) request c st
          | DELETE_OBJECT \<Rightarrow> handle_list_objects w request c st
          | _ \<Rightarrow> s3_bad st))"

text \<open>The source of a copy, from the header field.\<close>

definition copy_source :: "externals \<Rightarrow> string \<Rightarrow> (string \<times> string) result" where
  "copy_source ext sourceHeader =
     rbind (HttpUtils_GetPathParameter ext sourceHeader 0) (\<lambda>bucket.
     rbind (HttpUtils_GetPathParametersFromIndex ext sourceHeader 1) (\<lambda>key. Inr (bucket, key)))"

definition copy_request :: "S3ClientCommand \<Rightarrow> string \<times> string \<Rightarrow> (string, string) smap \<Rightarrow> CopyObjectRequest" where
  "copy_request c src metadata =
     \<lparr>cor_region = bc_region c, cor_user = bc_user c, cor_sourceBucket = fst src, cor_sourceKey = snd src,
      cor_targetBucket = s3c_bucket c, cor_targetKey = s3c_key c, cor_metadata = metadata\<rparr>"

definition handle_put_object ::
  "'fs s3_world \<Rightarrow> s3_draws \<Rightarrow> http_request \<Rightarrow> S3ClientCommand \<Rightarrow> 'fs s3_front \<Rightarrow> 'fs s3_result" where
  "handle_put_object w d request c =
     reading (S3Handler_GetMetadata request) (\<lambda>metadata.
       if s3c_copyRequest c
       then reading (copy_source (w_ext w) (field_value ''x-amz-copy-source'' request)) (\<lambda>src st.
              andthen (on_s3 (S3Service_CopyObject w d (copy_request c src metadata)) st)
                (\<lambda>resp st'. s3_answer (S3Copied resp) [] st'))
       else (\<lambda>st. andthen (on_s3 (S3Service_PutObject w d
                    \<lparr>por_region = bc_region c, por_bucket = s3c_bucket c, por_key = s3c_key c, por_owner = bc_user c,
                     por_md5Sum = field_value ''Content-MD5'' request,
                     por_contentType = field_value ''Content-Type'' request,
                     por_checksumAlgorithm = HttpUtils_GetHeaderValue request ''x-amz-sdk-checksum-algorithm'' [],
                     por_metadata = metadata\<rparr> (rq_body request)
                    (StringUtils_ContainsIgnoreCase (HttpUtils_GetHeaderValue request ''Content-Encoding'' []) ''aws-chunked'')) st)
                  (\<lambda>_ st'. s3_answer (S3Text []) [] st')))"

definition handle_move_object ::
  "'fs s3_world \<Rightarrow> s3_draws \<Rightarrow> http_request \<Rightarrow> S3ClientCommand \<Rightarrow> 'fs s3_front \<Rightarrow> 'fs s3_result" where
  "handle_move_object w d request c =
     reading (copy_source (w_ext w) (HttpUtils_GetHeaderValue request ''x-amz-copy-source'' [])) (\<lambda>src st.
       andthen (on_s3 (S3Service_MoveObject w d (copy_request c src [])) st)
         (\<lambda>resp st'. s3_answer (S3Moved resp) [] st'))"

definition handle_upload_part ::
  "'fs s3_world \<Rightarrow> http_request \<Rightarrow> 'fs s3_front \<Rightarrow> 'fs s3_result" where
  "handle_upload_part w request =
     reading (rbind (HttpUtils_GetQueryParameterValueByName (w_ext w) (rq_target request) ''partNumber'') (\<lambda>partNumber.
              rbind (HttpUtils_GetQueryParameterValueByName (w_ext w) (rq_target request) ''uploadId'') (\<lambda>uploadId.
              rbind (stoi partNumber) (\<lambda>n. Inr (n, uploadId)))))
       (\<lambda>(n, uploadId) st. andthen (on_s3 (S3Service_UploadPart w (rq_body request) n uploadId) st)
          (\<lambda>eTag st'. s3_answer (S3Text []) [(''ETag'', StringUtils_Quoted eTag)] st'))"

text \<open>The region is the one of the handler; without a range the bounds are what stale memory holds.\<close>

definition handle_upload_part_copy ::
  "'fs s3_world \<Rightarrow> s3_draws \<Rightarrow> http_request \<Rightarrow> string \<Rightarrow> S3ClientCommand \<Rightarrow> int \<times> int \<Rightarrow> 'fs s3_front \<Rightarrow> 'fs s3_result" where
  "handle_upload_part_copy w d request region c stale =
     reading (rbind (HttpUtils_GetQueryParameterValueByName (w_ext w) (rq_target request) ''partNumber'') (\<lambda>partNumber.
              rbind (HttpUtils_GetQueryParameterValueByName (w_ext w) (rq_target request) ''uploadId'') (\<lambda>uploadId.
              rbind (stoi partNumber) (\<lambda>n.
              rbind (copy_source (w_ext w) (HttpUtils_GetHeaderValue request ''x-amz-copy-source'' [])) (\<lambda>src.
              rbind (if HttpUtils_HasHeader request ''x-amz-copy-source-range''
                     then read_range (HttpUtils_GetHeaderValue request ''x-amz-copy-source-range'' []) else Inr stale) (\<lambda>range.
              Inr \<lparr>upc_region = region, upc_uploadId = uploadId, upc_partNumber = n, upc_sourceBucket = fst src,
                   upc_sourceKey = snd src, upc_min = fst range, upc_max = snd range\<rparr>))))))
       (\<lambda>r st. andthen (on_s3 (S3Service_UploadPartCopy w d r) st) (\<lambda>eTag st'. s3_answer (S3PartCopied eTag) [] st'))"

definition s3_no_content :: "'fs s3_front \<Rightarrow> 'fs s3_result" where
  "s3_no_content st = (Inr (SendNoContentResponse (S3Text []) []), st)"

text \<open>Every case of the switch returns; the versioning request behind it is never reached.\<close>

definition S3Handler_HandlePutRequest ::
  "'fs s3_world \<Rightarrow> s3_request_world \<Rightarrow> int \<times> int \<Rightarrow> http_request \<Rightarrow> string \<Rightarrow> string \<Rightarrow> 'fs s3_front \<Rightarrow> 'fs s3_result" where
  "S3Handler_HandlePutRequest w h stale request region user =
     reading (S3ClientCommand_FromRequest (w_ext w) (hw_stale h) (hw_requestId h) request region user) (\<lambda>c st.
       s3_catch (\<lambda>e. True) (hw_what h)
         (case s3c_command c of
            CREATE_BUCKET \<Rightarrow>
              andthen (on_s3 (S3Service_CreateBucket w (hw_draws h)
                         \<lparr>cbr_region = bc_region c, cbr_name = s3c_bucket c, cbr_owner = bc_user c\<rparr>) st)
                (\<lambda>resp st'. s3_answer (S3Created resp) [] st')
          | PUT_OBJECT \<Rightarrow> handle_put_object w (hw_draws h) request c st
          | MOVE_OBJECT \<Rightarrow> handle_move_object w (hw_draws h) request c st
          | UPLOAD_PART \<Rightarrow> handle_upload_part w request st
          | UPLOAD_PART_COPY \<Rightarrow> handle_upload_part_copy w (hw_draws h) request region c stale st
          | BUCKET_NOTIFICATION \<Rightarrow>
              reading (hw_notification h (rq_body request)) (\<lambda>r st.
                andthen (on_s3 (S3Service_PutBucketNotification (hw_draws h)
                           (r\<lparr>pbn_region := bc_region c, pbn_bucket := s3c_bucket c\<rparr>)) st)
                  (\<lambda>_ st'. s3_no_content st')) st
          | PUT_BUCKET_NOTIFICATION_CONFIGURATION \<Rightarrow>
              reading (hw_configuration h (rq_body request)) (\<lambda>r st.
                andthen (on_s3 (S3Service_PutBucketNotificationConfiguration (hw_draws h) (hw_uuid h)
                           (\<lambda>i. hw_uuid h (1000 + i)) (\<lambda>i. hw_uuid h (2000 + i))
                           (r\<lparr>pbc_region := bc_region c, pbc_bucket := s3c_bucket c\<rparr>)) st)
                  (\<lambda>cs st'. s3_answer (S3Configured cs) [] st')) st
          | PUT_BUCKET_ENCRYPTION \<Rightarrow>
              andthen (on_s3 (S3Service_PutBucketEncryption (hw_draws h) (bc_region c) (s3c_bucket c)
                         \<lparr>be_sseAlgorithm = [], be_kmsKeyId = []\<rparr>) st)
                (\<lambda>_ st'. s3_answer (S3Text []) [] st')
          | _ \<Rightarrow> s3_bad st))"

definition handle_complete_upload ::
  "'fs s3_world \<Rightarrow> s3_draws \<Rightarrow> http_request \<Rightarrow> S3ClientCommand \<Rightarrow> 'fs s3_front \<Rightarrow> 'fs s3_result" where
  "handle_complete_upload w d request c =
     reading (HttpUtils_GetQueryParameterValueByName (w_ext w) (rq_target request) ''uploadId'') (\<lambda>uploadId st.
       andthen (on_s3 (S3Service_CompleteMultipartUpload w d
                  \<lparr>cpr_region = bc_region c, cpr_bucket = s3c_bucket c, cpr_key = s3c_key c, cpr_user = bc_user c,
                   cpr_uploadId = uploadId, cpr_checksumAlgorithm = []\<rparr>) st)
         (\<lambda>etag st'. s3_answer (S3Completed (s3c_bucket c) (s3c_key c) etag) [(''ETag'', StringUtils_Quoted etag)] st'))"

definition handle_create_upload ::
  "'fs s3_world \<Rightarrow> s3_request_world \<Rightarrow> S3ClientCommand \<Rightarrow> (string, string) smap \<Rightarrow> 'fs s3_front \<Rightarrow> 'fs s3_result" where
  "handle_create_upload w h c metadata st =
     andthen (on_s3 (S3Service_CreateMultipartUpload w (hw_draws h) (hw_uploadId h)
                \<lparr>cmr_region = bc_region c, cmr_bucket = s3c_bucket c, cmr_key = s3c_key c, cmr_user = bc_user c,
                 cmr_metadata = metadata\<rparr>) st)
       (\<lambda>uploadId st'. s3_answer (S3Upload (s3c_bucket c) (s3c_key c) uploadId) [] st')"

definition handle_delete_objects ::
  "'fs s3_world \<Rightarrow> s3_request_world \<Rightarrow> http_request \<Rightarrow> S3ClientCommand \<Rightarrow> 'fs s3_front \<Rightarrow> 'fs s3_result" where
  "handle_delete_objects w h request c st =
     (if rq_body request = [] then s3_no_content st
      else reading (hw_delete_keys h (rq_body request)) (\<lambda>keys st.
             andthen (on_s3 (S3Service_DeleteObjects w (hw_delete_draws h) (bc_region c) (s3c_bucket c) keys) st)
               (\<lambda>_ st'. s3_answer (S3Deleted keys) [] st')) st)"

definition S3Handler_HandlePostRequest ::
  "'fs s3_world \<Rightarrow> s3_request_world \<Rightarrow> http_request \<Rightarrow> string \<Rightarrow> string \<Rightarrow> 'fs s3_front \<Rightarrow> 'fs s3_result" where
  "S3Handler_HandlePostRequest w h request region user =
     reading (S3ClientCommand_FromRequest (w_ext w) (hw_stale h) (hw_requestId h) request region user) (\<lambda>c st.
       s3_catch service_or_json (hw_what h)
         (case s3c_command c of
            COPY_OBJECT \<Rightarrow>
              (if s3c_multipartRequest c then handle_create_upload w h c [] st
               else handle_complete_upload w (hw_draws h) request c st)
          | DELETE_OBJECTS \<Rightarrow> handle_delete_objects w h request c st
          | CREATE_MULTIPART_UPLOAD \<Rightarrow>
              reading (S3Handler_GetMetadata request) (\<lambda>metadata st. handle_create_upload w h c metadata st) st
          | COMPLETE_MULTIPART_UPLOAD \<Rightarrow> handle_complete_upload w (hw_draws h) request c st
          | _ \<Rightarrow> s3_bad st))"

definition S3Handler_HandleDeleteRequest ::
  "'fs s3_world \<Rightarrow> s3_request_world \<Rightarrow> http_request \<Rightarrow> string \<Rightarrow> string \<Rightarrow> 'fs s3_front \<Rightarrow> 'fs s3_result" where
  "S3Handler_HandleDeleteRequest w h request region user =
     reading (S3ClientCommand_FromRequest (w_ext w) (hw_stale h) (hw_requestId h) request region user) (\<lambda>c st.
       s3_catch service_or_json (hw_what h)
         (case s3c_command c of
            DELETE_BUCKET \<Rightarrow>
              andthen (on_s3 (S3Service_DeleteBucket w (bc_region c) (s3c_bucket c)) st) (\<lambda>_ st'. s3_no_content st')
          | MOVE_OBJECT \<Rightarrow>
              andthen (on_s3 (S3Service_DeleteObject w (hw_draws h) (bc_region c) (s3c_bucket c) (s3c_key c)) st)
                (\<lambda>_ st'. s3_no_content st')
          | DELETE_OBJECT \<Rightarrow>
              andthen (on_s3 (S3Service_DeleteObject w (hw_draws h) (bc_region c) (s3c_bucket c) (s3c_key c)) st)
                (\<lambda>_ st'. s3_no_content st')
          | ABORT_MULTIPART_UPLOAD \<Rightarrow> s3_no_content st
          | _ \<Rightarrow> s3_bad st))"

text \<open>The three random identifiers of the header fields are \<open>hw_random\<close>.\<close>

definition head_headers :: "externals \<Rightarrow> string list \<Rightarrow> GetMetadataResponse \<Rightarrow> (string, string) smap" where
  "head_headers ext rnd resp =
     fold (\<lambda>(n, v) m. smap_put (''x-amz-meta-'' @ n) v m) (gmr_metadata resp)
      (put_headers
        [(''Handler'', ''awsmock''), (''Content-Type'', ''application/json''),
         (''Last-Modified'', ext_http_format ext (gmr_modified resp)), (''Content-Length'', to_string (gmr_size resp)),
         (''ETag'', [CHR 0x22] @ gmr_md5Sum resp @ [CHR 0x22]), (''accept-ranges'', ''bytes''),
         (''x-amz-userPoolId-2'', rnd ! 0), (''x-amz-request-userPoolId'', rnd ! 1),
         (''x-amz-version-userPoolId'', rnd ! 2), (''x-amz-bucket-region'', gmr_region resp),
         (''x-amz-location-name'', gmr_region resp)] [])"

definition S3Handler_HandleHeadRequest ::
  "'fs s3_world \<Rightarrow> s3_request_world \<Rightarrow> http_request \<Rightarrow> string \<Rightarrow> string \<Rightarrow> 'fs s3_front \<Rightarrow> 'fs s3_result" where
  "S3Handler_HandleHeadRequest w h request region user =
     reading (S3ClientCommand_FromRequest (w_ext w) (hw_stale h) (hw_requestId h) request region user) (\<lambda>c st.
       s3_catch (\<lambda>e. True) (hw_what h)
         (andthen (on_s3 (if s3c_key c = []
                          then S3Service_GetBucketMetadata (hw_draws h) (bc_region c) (s3c_bucket c)
                          else S3Service_GetObjectMetadata (hw_draws h) (bc_region c) (s3c_bucket c) (s3c_key c)) st)
            (\<lambda>resp st'. s3_answer (S3Text []) (head_headers (w_ext w) (hw_random h) resp) st')))"

end
