(* ===== verification/S3HandlerProperties.thy ===== *)
theory S3HandlerProperties
  imports S3Handler S3Invariant S3Examples
begin

text \<open>
  What clients of the S3 handler get: range requests, and the state of versioning.  The operations
  are followed through the handler with an invariant of the store.
\<close>

section \<open>Ranges\<close>

lemma chunk_of_range:
  "MemoryMappedFile_ReadChunk lo sz m = Inr chunk \<Longrightarrow> 0 \<le> sz \<Longrightarrow> mm_size m = int (length (mm_bytes m)) \<Longrightarrow>
   chunk = take (nat sz) (drop (nat lo) (mm_bytes m))"
  by (auto simp: MemoryMappedFile_ReadChunk_def Let_def split: if_splits)

lemma chunk_length: "MemoryMappedFile_ReadChunk lo sz m = Inr chunk \<Longrightarrow> 0 \<le> sz \<Longrightarrow> int (length chunk) \<le> sz"
  by (auto simp: MemoryMappedFile_ReadChunk_def Let_def min_def split: if_splits)

text \<open>What the mapping holds once a range has been answered.\<close>

definition opened ::
  "'fs file_system \<Rightarrow> string \<Rightarrow> 'fs \<Rightarrow> mapped_file \<Rightarrow> mapped_file" where
  "opened fso fileName fs m = (if mm_mapped m then m else snd (MemoryMappedFile_OpenFile fso fileName fs m))"

lemma SendRangeResponse_Inr:
  assumes "SendRangeResponse fso fileName lo hi sz totalSize headers fs m = (Inr r, m')"
  shows "0 \<le> sz" "rs_status r = 206" "mm_mapped (opened fso fileName fs m)"
    "\<exists>chunk. MemoryMappedFile_ReadChunk lo sz (opened fso fileName fs m) = Inr chunk \<and>
             rs_body r = c_string chunk \<and> length (rs_body r) < length chunk"
    "m' = (if hi = totalSize - 1 then MemoryMappedFile_CloseFile (opened fso fileName fs m) else opened fso fileName fs m)"
    "\<exists>n. rs_headers r = put_headers headers [(''Content-Length'', to_string n),
                        (''Content-Type'', ''application/octet-stream''), (''Server'', ''awsmock'')]"
proof -
  obtain o' where o': "(if mm_mapped m then (True, m) else MemoryMappedFile_OpenFile fso fileName fs m) = (o', opened fso fileName fs m)"
    by (cases "mm_mapped m"; cases "MemoryMappedFile_OpenFile fso fileName fs m") (auto simp: opened_def)
  from assms have o1: o' unfolding SendRangeResponse_def o' by (auto split: if_splits)
  with o' show mapped: "mm_mapped (opened fso fileName fs m)"
    by (auto simp: MemoryMappedFile_OpenFile_def opened_def Let_def split: if_splits)
  from assms o1 obtain body where body: "range_body lo sz (opened fso fileName fs m) = Inr body" "rs_body r = body"
      "rs_status r = 206"
      "m' = (if hi = totalSize - 1 then MemoryMappedFile_CloseFile (opened fso fileName fs m) else opened fso fileName fs m)"
      "rs_headers r = put_headers headers [(''Content-Length'', to_string (int (length body))),
                        (''Content-Type'', ''application/octet-stream''), (''Server'', ''awsmock'')]"
    unfolding SendRangeResponse_def o' by (auto split: sum.splits)
  show "rs_status r = 206" "m' = (if hi = totalSize - 1 then MemoryMappedFile_CloseFile (opened fso fileName fs m) else opened fso fileName fs m)"
    by (fact body)+
  show "\<exists>n. rs_headers r = put_headers headers [(''Content-Length'', to_string n),
                        (''Content-Type'', ''application/octet-stream''), (''Server'', ''awsmock'')]" by (rule exI [of _ "int (length body)"]) (rule body(5))
  show "0 \<le> sz" using body(1) by (simp add: range_body_def split: if_splits)
  show "\<exists>chunk. MemoryMappedFile_ReadChunk lo sz (opened fso fileName fs m) = Inr chunk \<and>
             rs_body r = c_string chunk \<and> length (rs_body r) < length chunk"
    using body(1,2) by (auto dest: as_c_string_Inr simp: range_body_def rbind_Inr_iff split: if_splits)
qed

lemma range_body_incomplete:
  assumes "SendRangeResponse fso fileName lo hi sz totalSize headers fs m = (Inr r, m')"
  shows "int (length (rs_body r)) < sz"
proof -
  note R = SendRangeResponse_Inr [OF assms]
  obtain chunk where "MemoryMappedFile_ReadChunk lo sz (opened fso fileName fs m) = Inr chunk"
      "length (rs_body r) < length chunk" using R(4) by blast
  then show ?thesis using chunk_length [of lo sz] R(1) by fastforce
qed

text \<open>The headers set last win.\<close>

lemma put_headers_get:
  "distinct (map fst hs) \<Longrightarrow> smap_inv m \<Longrightarrow>
   smap_get k (put_headers hs m) = (case map_of hs k of Some v \<Rightarrow> Some v | None \<Rightarrow> smap_get k m) \<and>
   smap_inv (put_headers hs m)"
  unfolding put_headers_def
  by (induction hs arbitrary: m) (auto split: option.split dest: map_of_SomeD simp: image_iff)

lemma put_headers_first:
  "smap_inv hs \<Longrightarrow> smap_inv m \<Longrightarrow> map_of hs k = Some v \<Longrightarrow> smap_get k (put_headers hs m) = Some v"
  using put_headers_get [OF smap_inv_distinct, of hs m k] by simp

lemma handle_get_range:
  assumes "S3Handler_GetRange request = Inr (Some (lo, hi))"
    and "handle_get_object w d request c st = (Inr a, st')"
  obtains v resp s1 where
    "HttpUtils_GetQueryParameterValueByName (w_ext w) (rq_target request) ''versionId'' = Inr v"
    "S3Service_GetObject w d \<lparr>gor_region = bc_region c, gor_bucket = s3c_bucket c, gor_key = s3c_key c,
       gor_versionId = v\<rparr> (sf_state st) = (Inr resp, s1)"
    "send_range w resp lo hi (range_headers lo hi resp (object_headers (w_ext w) resp)) (st\<lparr>sf_state := s1\<rparr>) = (Inr a, st')"
proof -
  obtain v where v: "HttpUtils_GetQueryParameterValueByName (w_ext w) (rq_target request) ''versionId'' = Inr v"
    using assms(2) by (cases "HttpUtils_GetQueryParameterValueByName (w_ext w) (rq_target request) ''versionId''")
      (auto simp: handle_get_object_def reading_def)
  obtain resp s1 where get: "S3Service_GetObject w d \<lparr>gor_region = bc_region c, gor_bucket = s3c_bucket c, gor_key = s3c_key c,
       gor_versionId = v\<rparr> (sf_state st) = (Inr resp, s1)"
    using assms(2) by (cases "S3Service_GetObject w d \<lparr>gor_region = bc_region c, gor_bucket = s3c_bucket c, gor_key = s3c_key c,
       gor_versionId = v\<rparr> (sf_state st)" rule: andthen_cases)
      (auto simp: handle_get_object_def reading_def v assms(1) on_s3_def)
  have "send_range w resp lo hi (range_headers lo hi resp (object_headers (w_ext w) resp)) (st\<lparr>sf_state := s1\<rparr>) = (Inr a, st')"
    using assms(2) by (simp add: handle_get_object_def reading_def v assms(1) on_s3_def get Let_def)
  with v get that show thesis by blast
qed

lemma send_range_Inr:
  assumes "send_range w resp lo hi headers st = (Inr a, st')"
  obtains r m where "SendRangeResponse (w_fso w) (gos_filename resp) lo hi (hi - lo + 1) (gos_size resp) headers
      (ss_fs (sf_state st)) (sf_map st) = (Inr r, m)"
    "a = \<lparr>rs_status = rs_status r, rs_headers = rs_headers r, rs_body = S3File (rs_body r)\<rparr>" "st' = st\<lparr>sf_map := m\<rparr>"
  using assms by (auto simp: send_range_def split: prod.splits sum.splits)

lemma object_headers_inv: "smap_inv (object_headers ext resp)"
proof -
  have "smap_inv (fold (\<lambda>(n, v) m. smap_put (''x-amz-meta-'' @ n) v m) kvs m)" if "smap_inv m"
    for kvs :: "(string \<times> string) list" and m
    using that by (induction kvs arbitrary: m) auto
  moreover have "smap_inv [(''Content-Type'', a), (''ETag'', b), (''Last-Modified'', c :: string)]" for a b c
    by (simp add: smap_inv_def)
  ultimately show ?thesis unfolding object_headers_def by blast
qed

lemma range_headers_inv: "smap_inv (range_headers lo hi resp (object_headers ext resp))"
  unfolding range_headers_def by (intro smap_inv_put object_headers_inv)

lemma range_headers_length:
  "map_of (range_headers lo hi resp (object_headers ext resp)) ''Content-Length'' = Some (to_string (hi - lo + 1))"
proof -
  let ?hs = "range_headers lo hi resp (object_headers ext resp)"
  have "smap_get ''Content-Length'' ?hs = Some (to_string (hi - lo + 1))"
    unfolding range_headers_def by (subst smap_get_put) (simp_all add: object_headers_inv smap_inv_put)
  then have "(''Content-Length'', to_string (hi - lo + 1)) \<in> set ?hs"
    by (simp only: smap_get_iff [OF range_headers_inv])
  then show ?thesis by (simp only: map_of_eq_Some_iff [OF smap_inv_distinct [OF range_headers_inv]])
qed

text \<open>C36: every range that the S3 handler answers is announced with the length of the range and carries
  fewer bytes: the bytes are printed as a C string, so the answer ends at the first NUL byte of the
  range (and a range without one is undefined behaviour, not an answer).
\<close>

theorem range_answers_are_short:
  assumes range: "S3Handler_GetRange request = Inr (Some (lo, hi))"
    and answer: "handle_get_object w d request c st = (Inr a, st')"
  shows "\<exists>body. rs_body a = S3File body \<and> int (length body) < hi - lo + 1 \<and>
           smap_get ''Content-Length'' (rs_headers a) = Some (to_string (hi - lo + 1))"
proof -
  obtain v resp s1 where send: "send_range w resp lo hi (range_headers lo hi resp (object_headers (w_ext w) resp))
      (st\<lparr>sf_state := s1\<rparr>) = (Inr a, st')"
    by (rule handle_get_range [OF range answer]) blast
  let ?hs = "range_headers lo hi resp (object_headers (w_ext w) resp)"
  from send obtain r m where r: "SendRangeResponse (w_fso w) (gos_filename resp) lo hi (hi - lo + 1) (gos_size resp) ?hs
      (ss_fs s1) (sf_map st) = (Inr r, m)" "rs_body a = S3File (rs_body r)" "rs_headers a = rs_headers r"
    by (rule send_range_Inr) auto
  obtain n where hs: "rs_headers r = put_headers ?hs [(''Content-Length'', to_string n),
      (''Content-Type'', ''application/octet-stream''), (''Server'', ''awsmock'')]"
    using SendRangeResponse_Inr(6) [OF r(1)] by blast
  have inv: "smap_inv [(''Content-Length'', x), (''Content-Type'', y), (''Server'', z :: string)]" for x y z
    by (simp add: smap_inv_def)
  have "smap_get ''Content-Length'' (rs_headers a) = Some (to_string (hi - lo + 1))"
    unfolding r(3) hs by (rule put_headers_first [OF range_headers_inv inv range_headers_length])
  with range_body_incomplete [OF r(1)] r(2) show ?thesis by simp
qed

section \<open>One mapping for all files\<close>

lemma send_range_leaves_mapped:
  assumes "send_range w resp lo hi headers st = (Inr a, st')" "\<not> mm_mapped (sf_map st)" "hi \<noteq> gos_size resp - 1"
  shows "mm_mapped (sf_map st')"
    "mm_bytes (sf_map st') = fs_read (w_fso w) (gos_filename resp) (ss_fs (sf_state st))"
    "mm_size (sf_map st') = int (length (fs_read (w_fso w) (gos_filename resp) (ss_fs (sf_state st))))"
proof -
  from assms(1) obtain r m where r: "SendRangeResponse (w_fso w) (gos_filename resp) lo hi (hi - lo + 1) (gos_size resp)
      headers (ss_fs (sf_state st)) (sf_map st) = (Inr r, m)" "st' = st\<lparr>sf_map := m\<rparr>"
    by (rule send_range_Inr)
  note R = SendRangeResponse_Inr [OF r(1)]
  have m: "sf_map st' = opened (w_fso w) (gos_filename resp) (ss_fs (sf_state st)) (sf_map st)"
    using R(5) r(2) assms(3) by simp
  show "mm_mapped (sf_map st')" unfolding m by (rule R(3))
  from R(3) assms(2) show "mm_bytes (sf_map st') = fs_read (w_fso w) (gos_filename resp) (ss_fs (sf_state st))"
    "mm_size (sf_map st') = int (length (fs_read (w_fso w) (gos_filename resp) (ss_fs (sf_state st))))"
    unfolding m opened_def MemoryMappedFile_OpenFile_def FileUtils_FileSize_def by (auto simp: Let_def split: if_splits)
qed

lemma send_range_of_mapped:
  assumes "send_range w resp lo hi headers st = (Inr a, st')" "mm_mapped (sf_map st)"
    "mm_size (sf_map st) = int (length (mm_bytes (sf_map st)))"
  shows "rs_body a = S3File (c_string (take (nat (hi - lo + 1)) (drop (nat lo) (mm_bytes (sf_map st)))))"
proof -
  from assms(1) obtain r m where r: "SendRangeResponse (w_fso w) (gos_filename resp) lo hi (hi - lo + 1) (gos_size resp)
      headers (ss_fs (sf_state st)) (sf_map st) = (Inr r, m)" "rs_body a = S3File (rs_body r)"
    by (rule send_range_Inr) auto
  note R = SendRangeResponse_Inr [OF r(1)]
  have eq: "opened (w_fso w) (gos_filename resp) (ss_fs (sf_state st)) (sf_map st) = sf_map st"
    using assms(2) by (simp add: opened_def)
  from R(4) obtain chunk where chunk: "MemoryMappedFile_ReadChunk lo (hi - lo + 1) (sf_map st) = Inr chunk" "rs_body r = c_string chunk"
    unfolding eq by blast
  show ?thesis using chunk_of_range [OF chunk(1) R(1) assms(3)] chunk(2) r(2) by simp
qed

text \<open>C37: the process maps one file for all its range requests.  When a range of one object that is not
  the last has been answered, the next range request, of any object in any bucket, is answered with
  bytes of the first object.
\<close>

theorem range_answers_from_another_object:
  assumes unmapped: "\<not> mm_mapped (sf_map st)"
    and range1: "S3Handler_GetRange request1 = Inr (Some (lo1, hi1))"
    and version1: "HttpUtils_GetQueryParameterValueByName (w_ext w) (rq_target request1) ''versionId'' = Inr v"
    and object1: "S3Service_GetObject w d1 \<lparr>gor_region = bc_region c1, gor_bucket = s3c_bucket c1, gor_key = s3c_key c1,
       gor_versionId = v\<rparr> (sf_state st) = (Inr resp1, s1)"
    and first: "handle_get_object w d1 request1 c1 st = (Inr a1, st1)" and more: "hi1 \<noteq> gos_size resp1 - 1"
    and range2: "S3Handler_GetRange request2 = Inr (Some (lo2, hi2))"
    and second: "handle_get_object w d2 request2 c2 st1 = (Inr a2, st2)"
  shows "rs_body a2 = S3File (c_string (take (nat (hi2 - lo2 + 1)) (drop (nat lo2)
           (fs_read (w_fso w) (gos_filename resp1) (ss_fs s1)))))"
proof -
  obtain v' resp s where got: "HttpUtils_GetQueryParameterValueByName (w_ext w) (rq_target request1) ''versionId'' = Inr v'"
      "S3Service_GetObject w d1 \<lparr>gor_region = bc_region c1, gor_bucket = s3c_bucket c1, gor_key = s3c_key c1,
       gor_versionId = v'\<rparr> (sf_state st) = (Inr resp, s)"
      "send_range w resp lo1 hi1 (range_headers lo1 hi1 resp (object_headers (w_ext w) resp)) (st\<lparr>sf_state := s\<rparr>) = (Inr a1, st1)"
    by (rule handle_get_range [OF range1 first])
  have v: "v' = v" using got(1) version1 by simp
  have same: "resp = resp1" "s = s1" using got(2) object1 unfolding v by simp_all
  note send1 = got(3) [unfolded same]
  note M = send_range_leaves_mapped [OF send1 _ more]
  obtain v2 resp2 s2 where send2: "send_range w resp2 lo2 hi2 (range_headers lo2 hi2 resp2 (object_headers (w_ext w) resp2))
      (st1\<lparr>sf_state := s2\<rparr>) = (Inr a2, st2)"
    by (rule handle_get_range [OF range2 second]) blast
  show ?thesis using send_range_of_mapped [OF send2] M unmapped by simp
qed

section \<open>An example\<close>

text \<open>Two objects, each with a NUL byte, and a range request for each.\<close>

definition demo_nul :: string where
  "demo_nul = ''ab'' @ [char_of (0 :: nat)] @ ''cd''"

definition demo_s3_nul :: "demo_files s3_state" where
  "demo_s3_nul = snd (S3Service_PutObject demo_world (demo_s3_draws ''o2'' ''f2'') (demo_put\<lparr>por_key := ''l''\<rparr>)
     (''xy'' @ [char_of (0 :: nat)] @ ''z'') False
     (snd (S3Service_PutObject demo_world (demo_s3_draws ''o1'' ''f1'') demo_put demo_nul False demo_s3_bucket)))"

definition demo_front :: "demo_files s3_front" where
  "demo_front = \<lparr>sf_state = demo_s3_nul, sf_map = \<lparr>mm_mapped = False, mm_size = 0, mm_bytes = []\<rparr>\<rparr>"

definition demo_range :: "string \<Rightarrow> http_request" where
  "demo_range key = \<lparr>rq_method = HttpGet, rq_target = ''/b/'' @ key, rq_fields = [(''Range'', ''bytes=0-3'')], rq_body = []\<rparr>"

definition demo_s3_command :: "string \<Rightarrow> S3ClientCommand" where
  "demo_s3_command key = BaseClientCommand.extend
     \<lparr>bc_url = ''/b/'' @ key, bc_method = HttpGet, bc_headers = [], bc_payload = [], bc_contentType = [],
      bc_contentLength = 0, bc_region = ''eu'', bc_user = ''me'', bc_requestId = []\<rparr>
     (S3ClientCommand.fields GET_OBJECT ''b'' key [] False False False False False False False False [])"

definition demo_get :: "string \<Rightarrow> demo_files s3_front \<Rightarrow> demo_files s3_result" where
  "demo_get key = handle_get_object demo_world (demo_s3_draws [] []) (demo_range key) (demo_s3_command key)"

lemma demo_ranges:
  "S3Handler_GetRange (demo_range ''k'') = Inr (Some (0, 3))"
  "S3Handler_GetRange (demo_range ''l'') = Inr (Some (0, 3))"
  "map_sum (\<lambda>e. e) rs_body (fst (demo_get ''k'' demo_front)) = Inr (S3File ''ab'')"
  "map_sum (\<lambda>e. e) rs_body (fst (demo_get ''l'' (snd (demo_get ''k'' demo_front)))) = Inr (S3File ''ab'')"
  by code_simp+

lemma map_sum_InrD: "map_sum (\<lambda>e. e) f (fst p) = Inr y \<Longrightarrow> \<exists>a st. p = (Inr a, st) \<and> f a = y"
  by (cases p; cases "fst p") auto

theorem range_answers_are_short_witness:
  "\<exists>a st'. handle_get_object demo_world (demo_s3_draws [] []) (demo_range ''k'') (demo_s3_command ''k'') demo_front = (Inr a, st') \<and>
     (\<exists>body. rs_body a = S3File body \<and> int (length body) < 4 \<and>
        smap_get ''Content-Length'' (rs_headers a) = Some (to_string 4))"
proof -
  obtain a st' where get: "handle_get_object demo_world (demo_s3_draws [] []) (demo_range ''k'') (demo_s3_command ''k'') demo_front = (Inr a, st')"
    using map_sum_InrD [OF demo_ranges(3)] unfolding demo_get_def by blast
  show ?thesis using range_answers_are_short [OF demo_ranges(1) get] get by auto
qed


abbreviation demo_get_k :: GetObjectRequest where
  "demo_get_k \<equiv> \<lparr>gor_region = bc_region (demo_s3_command ''k''), gor_bucket = s3c_bucket (demo_s3_command ''k''),
     gor_key = s3c_key (demo_s3_command ''k''), gor_versionId = []\<rparr>"

lemma demo_object1:
  "fst (S3Service_GetObject demo_world (demo_s3_draws [] []) demo_get_k (sf_state demo_front)) =
     Inr \<lparr>gos_bucket = ''b'', gos_key = ''k'', gos_size = 5, gos_filename = ''/d/s3/f1'',
       gos_contentType = ''text'', gos_metadata = [], gos_md5sum = ''6162006364'', gos_modified = 0\<rparr>"
  "fs_read (w_fso demo_world) ''/d/s3/f1''
     (ss_fs (snd (S3Service_GetObject demo_world (demo_s3_draws [] []) demo_get_k (sf_state demo_front)))) = demo_nul"
  "HttpUtils_GetQueryParameterValueByName (w_ext demo_world) (rq_target (demo_range ''k'')) ''versionId'' = Inr []"
  "c_string (take (nat (3 - 0 + 1)) (drop (nat 0) demo_nul)) = ''ab''"
  by code_simp+

theorem range_answers_from_another_object_witness:
  "\<exists>a1 st1 a2 st2.
     handle_get_object demo_world (demo_s3_draws [] []) (demo_range ''k'') (demo_s3_command ''k'') demo_front = (Inr a1, st1) \<and>
     handle_get_object demo_world (demo_s3_draws [] []) (demo_range ''l'') (demo_s3_command ''l'') st1 = (Inr a2, st2) \<and>
     rs_body a2 = S3File ''ab''"
proof -
  obtain a1 st1 where first: "handle_get_object demo_world (demo_s3_draws [] []) (demo_range ''k'') (demo_s3_command ''k'') demo_front = (Inr a1, st1)"
    using map_sum_InrD [OF demo_ranges(3)] unfolding demo_get_def by blast
  then have st1: "snd (demo_get ''k'' demo_front) = st1" by (simp add: demo_get_def)
  obtain a2 st2 where second: "handle_get_object demo_world (demo_s3_draws [] []) (demo_range ''l'') (demo_s3_command ''l'') st1 = (Inr a2, st2)"
    using map_sum_InrD [OF demo_ranges(4)] unfolding st1 unfolding demo_get_def by blast
  have object1: "S3Service_GetObject demo_world (demo_s3_draws [] []) demo_get_k (sf_state demo_front) =
      (Inr \<lparr>gos_bucket = ''b'', gos_key = ''k'', gos_size = 5, gos_filename = ''/d/s3/f1'',
         gos_contentType = ''text'', gos_metadata = [], gos_md5sum = ''6162006364'', gos_modified = 0\<rparr>,
       snd (S3Service_GetObject demo_world (demo_s3_draws [] []) demo_get_k (sf_state demo_front)))"
    by (rule prod_eqI) (simp_all only: fst_conv snd_conv demo_object1(1))
  have unmapped: "\<not> mm_mapped (sf_map demo_front)" by (simp add: demo_front_def)
  have more: "(3 :: int) \<noteq> gos_size \<lparr>gos_bucket = ''b'', gos_key = ''k'', gos_size = 5, gos_filename = ''/d/s3/f1'',
         gos_contentType = ''text'', gos_metadata = [], gos_md5sum = ''6162006364'', gos_modified = 0\<rparr> - 1" by simp
  have "rs_body a2 = S3File ''ab''"
    using range_answers_from_another_object
      [OF unmapped demo_ranges(1) demo_object1(3) object1 first more demo_ranges(2) second]
    by (simp only: GetObjectResponse.simps demo_object1(2,4))
  with first second show ?thesis by blast
qed

end
