(* ===== verification/S3HttpInvariant.thy ===== *)
theory S3HttpInvariant
  imports S3Handler S3Invariant S3Examples
begin

text \<open>
  The store under the requests of the S3 handler: every request keeps the invariant of the store,
  and none turns the versioning of a bucket on.
\<close>

section \<open>Buckets without versioning\<close>

declare snd_andthen_return [simp]

lemma db_on_db [simp]: "ss_db (snd (on_db f st)) = snd (f (ss_db st))"
  by (simp add: on_db_def case_prod_beta)

definition unversioned :: "s3_db \<Rightarrow> bool" where
  "unversioned db \<longleftrightarrow> s3_wf db \<and> (\<forall>(k, b) \<in> set (s3_buckets db). \<not> Bucket_IsVersioned b)"

lemma unversioned_wf: "unversioned db \<Longrightarrow> s3_wf db"
  by (simp add: unversioned_def)

lemma keeps_unversioned:
  "(\<And>st0. keeps_buckets st0 st \<Longrightarrow> keeps_buckets st0 st') \<Longrightarrow> unversioned (ss_db st) \<Longrightarrow> unversioned (ss_db st')"
  using keeps_start [of st] unfolding unversioned_def by (fastforce simp: keeps_buckets_def)

lemma unversioned_need_bucket:
  assumes "unversioned (ss_db st)" "S3MemoryDb_BucketExists region name (ss_db st) \<Longrightarrow> unversioned (ss_db (snd (k st)))"
  shows "unversioned (ss_db (snd (need_bucket region name m st k)))"
  using assms by (simp add: need_bucket_def)

text \<open>Writing back a bucket with its id, region, name and version status.\<close>

lemma GetBucket_then_Update_unversioned:
  assumes un: "unversioned db" and ex: "S3MemoryDb_BucketExists region name db"
  obtains b where "b_region b = region" "b_name b = name"
    "\<And>now. S3MemoryDb_GetBucketByRegionName now region name db = (b, db)"
    "\<And>b'. b_oid b' = b_oid b \<Longrightarrow> b_region b' = region \<Longrightarrow> b_name b' = name \<Longrightarrow> b_versionStatus b' = b_versionStatus b \<Longrightarrow>
       unversioned (snd (S3MemoryDb_UpdateBucket b' db))"
proof -
  note wf = unversioned_wf [OF un]
  obtain k b where b: "(k, b) \<in> set (s3_buckets db)" "b_region b = region" "b_name b = name" "b_oid b = k"
    "\<And>now. S3MemoryDb_GetBucketByRegionName now region name db = (b, db)"
    and upd: "\<And>b'. b_oid b' = k \<Longrightarrow> b_region b' = region \<Longrightarrow> b_name b' = name \<Longrightarrow>
       S3MemoryDb_UpdateBucket b' db = (Inr b', db\<lparr>s3_buckets := smap_put k b' (s3_buckets db)\<rparr>) \<and>
       s3_wf (db\<lparr>s3_buckets := smap_put k b' (s3_buckets db)\<rparr>)"
    by (rule GetBucket_then_Update [OF wf ex]) blast
  have "unversioned (snd (S3MemoryDb_UpdateBucket b' db))"
    if b': "b_oid b' = b_oid b" "b_region b' = region" "b_name b' = name" "b_versionStatus b' = b_versionStatus b" for b'
  proof -
    have "\<not> Bucket_IsVersioned b" using un b(1) by (auto simp: unversioned_def)
    then have "\<not> Bucket_IsVersioned b'" using b'(4) by (simp add: Bucket_IsVersioned_def)
    then show ?thesis using upd [of b'] b' b(4) un s3_invD(2) [OF s3_wfD(1) [OF wf]]
      by (auto simp: unversioned_def set_smap_put)
  qed
  with b that show thesis by blast
qed

lemma unversioned_PutBucketEncryption:
  assumes "unversioned (ss_db st)"
  shows "unversioned (ss_db (snd (S3Service_PutBucketEncryption d region bucket encryption st)))"
  unfolding S3Service_PutBucketEncryption_def
proof (rule unversioned_need_bucket [OF assms])
  assume "S3MemoryDb_BucketExists region bucket (ss_db st)"
  then show "unversioned (ss_db (snd (catch_poco (case on_db (S3MemoryDb_GetBucketByRegionName (x_now d) region bucket) st of
      (b, st') \<Rightarrow> andthen (on_db (S3MemoryDb_UpdateBucket (b\<lparr>b_bucketEncryption := encryption\<rparr>)) st')
                    (\<lambda>_ st''. (Inr (), st''))))))"
    by (rule GetBucket_then_Update_unversioned [OF assms]) (simp add: on_db_def [of "S3MemoryDb_GetBucketByRegionName _ _ _"])
qed

lemma unversioned_PutBucketNotificationConfiguration:
  assumes "unversioned (ss_db st)"
  shows "unversioned (ss_db (snd (S3Service_PutBucketNotificationConfiguration d uq ut ul request st)))"
  unfolding S3Service_PutBucketNotificationConfiguration_def
proof (rule unversioned_need_bucket [OF assms])
  assume ex: "S3MemoryDb_BucketExists (pbc_region request) (pbc_bucket request) (ss_db st)"
  show "unversioned (ss_db (snd (catch_poco (case on_db (S3MemoryDb_GetBucketByRegionName (x_now d) (pbc_region request) (pbc_bucket request)) st of
      (bucket, st') \<Rightarrow>
           let b1 = S3Service_GetQueueNotificationConfigurations uq (pbc_queueConfigurations request) bucket;
               b2 = S3Service_GetTopicNotificationConfigurations ut (pbc_topicConfigurations request) b1;
               b3 = S3Service_GetLambdaNotificationConfigurations ul (pbc_lambdaConfigurations request) b2
           in andthen (on_db (S3MemoryDb_UpdateBucket b3) st') (\<lambda>_ st''. (Inr (pbc_queueConfigurations request), st''))))))"
    by (rule GetBucket_then_Update_unversioned [OF assms ex])
       (simp add: on_db_def [of "S3MemoryDb_GetBucketByRegionName _ _ _"] Let_def S3Service_GetQueueNotificationConfigurations_def
         S3Service_GetTopicNotificationConfigurations_def S3Service_GetLambdaNotificationConfigurations_def)
qed

lemma unversioned_PutBucketNotification:
  assumes "unversioned (ss_db st)"
  shows "unversioned (ss_db (snd (S3Service_PutBucketNotification d request st)))"
  unfolding S3Service_PutBucketNotification_def
proof (rule unversioned_need_bucket [OF assms])
  assume ex: "S3MemoryDb_BucketExists (pbn_region request) (pbn_bucket request) (ss_db st)"
  obtain b where b: "b_region b = pbn_region request" "b_name b = pbn_bucket request"
    "\<And>now. S3MemoryDb_GetBucketByRegionName now (pbn_region request) (pbn_bucket request) (ss_db st) = (b, ss_db st)"
    and upd: "\<And>b'. b_oid b' = b_oid b \<Longrightarrow> b_region b' = pbn_region request \<Longrightarrow> b_name b' = pbn_bucket request \<Longrightarrow>
       b_versionStatus b' = b_versionStatus b \<Longrightarrow> unversioned (snd (S3MemoryDb_UpdateBucket b' (ss_db st)))"
    by (rule GetBucket_then_Update_unversioned [OF assms ex]) blast
  have "unversioned (snd (S3Database_CreateBucketNotification now b n (ss_db st)))" for now n
    unfolding S3Database_CreateBucketNotification_def b by (simp add: upd b)
  then show "unversioned (ss_db (snd (case on_db (S3MemoryDb_GetBucketByRegionName (x_now d) (pbn_region request) (pbn_bucket request)) st of
         (bucket, st') \<Rightarrow>
           if Bucket_HasNotification (pbn_event request) bucket
           then (Inl (NotFoundException ''Bucket notification exists already''), st')
           else catch_poco
             (if pbn_lambdaArn request \<noteq> []
              then andthen (on_db (S3Service_CreateLambdaConfiguration (x_now d) bucket request) st') (\<lambda>_ st''. (Inr (), st''))
              else if pbn_queueArn request \<noteq> []
              then andthen (on_db (S3Service_CreateQueueConfiguration (x_now d) bucket request) st') (\<lambda>_ st''. (Inr (), st''))
              else (Inr (), st')))))"
    using assms
    by (simp add: on_db_def [of "S3MemoryDb_GetBucketByRegionName _ _ _"] b(3) S3Service_CreateLambdaConfiguration_def
        S3Service_CreateQueueConfiguration_def)
qed

lemma unversioned_CreateBucket:
  assumes un: "unversioned (ss_db st)" and fresh: "x_oid d \<notin> fst ` set (s3_buckets (ss_db st))" and name: "cbr_name request \<noteq> []"
  shows "unversioned (ss_db (snd (S3Service_CreateBucket w d request st)))"
proof -
  note wf = unversioned_wf [OF un] note inv = s3_wfD(1) [OF wf]
  have "\<forall>(k, b) \<in> set (s3_buckets (ss_db (snd (S3Service_CreateBucket w d request st)))). \<not> Bucket_IsVersioned b"
    using un by (cases "S3MemoryDb_BucketExists (cbr_region request) (cbr_name request) (ss_db st)")
      (auto simp: S3Service_CreateBucket_def Let_def case_prod_beta on_db_def GetBucketByRegionName_pure CreateBucket_eq inv
        unversioned_def set_smap_put s3_invD Bucket_IsVersioned_def Bucket_init_def)
  with s3_wf_CreateBucket [OF wf fresh name] show ?thesis by (simp add: unversioned_def)
qed

lemma unversioned_DeleteBucket:
  assumes un: "unversioned (ss_db st)"
  shows "unversioned (ss_db (snd (S3Service_DeleteBucket w region bucket st)))"
proof -
  have dir: "ss_db (snd (S3Service_DeleteBucketDirectory w bucket st)) = ss_db st"
    unfolding S3Service_DeleteBucketDirectory_def by (rule andthen_invariant [where P = "\<lambda>s. ss_db s = ss_db st"]) simp_all
  have "set (s3_buckets (ss_db (snd (S3Service_DeleteBucket w region bucket st)))) \<subseteq> set (s3_buckets (ss_db st))"
    unfolding S3Service_DeleteBucket_def Let_def need_bucket_def
    using dir by (cases "S3Service_DeleteBucketDirectory w bucket st" rule: andthen_cases)
      (auto simp: S3MemoryDb_DeleteBucket_def set_smap_erase_if)
  with un s3_wf_DeleteBucket [OF unversioned_wf [OF un]] show ?thesis by (force simp: unversioned_def)
qed

lemmas unversioned_keeps = keeps_unversioned [OF keeps_PutObject] keeps_unversioned [OF keeps_GetObject_service]
  keeps_unversioned [OF keeps_metadata(1)] keeps_unversioned [OF keeps_metadata(2)] keeps_unversioned [OF keeps_metadata(3)]
  keeps_unversioned [OF keeps_copy_or_move] keeps_unversioned [OF keeps_DeleteObject]
  keeps_unversioned [OF keeps_DeleteObjects] keeps_unversioned [OF keeps_CreateMultipartUpload]
  keeps_unversioned [OF keeps_UploadPart] keeps_unversioned [OF keeps_UploadPartCopy]
  keeps_unversioned [OF keeps_CompleteMultipartUpload]

section \<open>The handler\<close>

definition front_ok :: "'fs s3_front \<Rightarrow> bool" where
  "front_ok st \<longleftrightarrow> unversioned (ss_db (sf_state st))"

lemma snd_s3_catch [simp]: "snd (s3_catch by_message what r) = snd r"
  by (cases r; cases "fst r") (auto simp: s3_catch_def split: exn.split)

lemma front_andthen: "front_ok (snd r) \<Longrightarrow> (\<And>x s. front_ok s \<Longrightarrow> front_ok (snd (k x s))) \<Longrightarrow> front_ok (snd (andthen r k))"
  by (rule andthen_invariant)

lemma front_reading: "front_ok st \<Longrightarrow> (\<And>x. r = Inr x \<Longrightarrow> front_ok (snd (k x st))) \<Longrightarrow> front_ok (snd (reading r k st))"
  by (simp add: reading_def split: sum.split)

lemma front_on_s3: "unversioned (ss_db (snd (f (sf_state st)))) \<Longrightarrow> front_ok (snd (on_s3 f st))"
  by (simp add: on_s3_def front_ok_def case_prod_beta)

lemma front_on_keeps:
  "(\<And>st0 s. keeps_buckets st0 s \<Longrightarrow> keeps_buckets st0 (snd (f s))) \<Longrightarrow> front_ok st \<Longrightarrow> front_ok (snd (on_s3 f st))"
  by (rule front_on_s3) (rule keeps_unversioned; simp add: front_ok_def)

lemma front_answers:
  "front_ok st \<Longrightarrow> front_ok (snd (s3_answer body headers st))"
  "front_ok st \<Longrightarrow> front_ok (snd (s3_bad st))"
  "front_ok st \<Longrightarrow> front_ok (snd (s3_no_content st))"
  "front_ok st \<Longrightarrow> front_ok (snd (send_file w resp headers st))"
  "front_ok st \<Longrightarrow> front_ok (snd (send_range w resp lo hi headers st))"
  by (simp_all add: s3_answer_def s3_bad_def s3_no_content_def send_file_def send_range_def front_ok_def Let_def
      split: prod.split sum.split)

lemma front_if:
  "(c \<Longrightarrow> front_ok (snd a)) \<Longrightarrow> (\<not> c \<Longrightarrow> front_ok (snd b)) \<Longrightarrow> front_ok (snd (if c then a else b))"
  "(c \<Longrightarrow> front_ok (snd (f st))) \<Longrightarrow> (\<not> c \<Longrightarrow> front_ok (snd (g st))) \<Longrightarrow> front_ok (snd ((if c then f else g) st))"
  by simp_all

lemmas front_intros = front_if front_andthen front_reading front_answers

lemma front_list_objects: "front_ok st \<Longrightarrow> front_ok (snd (handle_list_objects w request c st))"
  unfolding handle_list_objects_def Let_def by (intro front_intros)

lemma front_get_object: "front_ok st \<Longrightarrow> front_ok (snd (handle_get_object w d request c st))"
  unfolding handle_get_object_def Let_def case_prod_beta
  by (intro front_intros front_on_keeps keeps_GetObject_service) (auto split: option.split intro!: front_answers)

lemma front_list_versions: "front_ok st \<Longrightarrow> front_ok (snd (handle_list_versions w d request c st))"
  unfolding handle_list_versions_def Let_def by (intro front_intros front_on_keeps keeps_metadata(3))

lemma front_get: "front_ok st \<Longrightarrow> front_ok (snd (S3Handler_HandleGetRequest w h request region user st))"
  unfolding S3Handler_HandleGetRequest_def
  by (intro front_reading, assumption, rename_tac c, case_tac "s3c_command c")
     (simp_all add: front_answers front_list_objects front_get_object front_list_versions)

lemma front_put_object: "front_ok st \<Longrightarrow> front_ok (snd (handle_put_object w d request c st))"
  unfolding handle_put_object_def
  by (intro front_intros front_on_keeps keeps_PutObject) (simp_all only: S3Service_CopyObject_def keeps_copy_or_move)

lemma front_move_object: "front_ok st \<Longrightarrow> front_ok (snd (handle_move_object w d request c st))"
  unfolding handle_move_object_def S3Service_MoveObject_def by (intro front_intros front_on_keeps keeps_copy_or_move)

lemma front_upload_part: "front_ok st \<Longrightarrow> front_ok (snd (handle_upload_part w request st))"
  unfolding handle_upload_part_def case_prod_beta by (intro front_intros front_on_keeps keeps_UploadPart)

lemma front_upload_part_copy: "front_ok st \<Longrightarrow> front_ok (snd (handle_upload_part_copy w d request region c stale st))"
  unfolding handle_upload_part_copy_def by (intro front_intros front_on_keeps keeps_UploadPartCopy)

lemma front_complete_upload: "front_ok st \<Longrightarrow> front_ok (snd (handle_complete_upload w d request c st))"
  unfolding handle_complete_upload_def by (intro front_intros front_on_keeps keeps_CompleteMultipartUpload)

lemma front_create_upload: "front_ok st \<Longrightarrow> front_ok (snd (handle_create_upload w h c metadata st))"
  unfolding handle_create_upload_def by (intro front_intros front_on_keeps keeps_CreateMultipartUpload)

lemma front_delete_objects: "front_ok st \<Longrightarrow> front_ok (snd (handle_delete_objects w h request c st))"
  unfolding handle_delete_objects_def
  by (intro front_intros front_on_keeps keeps_DeleteObjects)

lemma s3_command_bucket:
  assumes "S3ClientCommand_FromRequest ext stale rid request region user = Inr c"
  shows "AwsUtils_GetS3BucketName ext request = Inr (s3c_bucket c)"
proof -
  obtain bc c0 where members: "s3_members ext stale bc request = Inr c0" and bucket: "s3c_bucket c = s3c_bucket c0"
    using assms unfolding S3ClientCommand_FromRequest_def rbind_Inr_iff
    by (auto simp: rbind_Inr_iff split: if_splits)
  have "AwsUtils_GetS3BucketName ext request = Inr (s3c_bucket c0)"
    using members unfolding s3_members_def Let_def
    by (auto simp: rbind_Inr_iff BaseClientCommand.defs S3ClientCommand.defs)
  with bucket show ?thesis by simp
qed

lemma front_put:
  assumes "front_ok st" "x_oid (hw_draws h) \<notin> fst ` set (s3_buckets (ss_db (sf_state st)))"
    "AwsUtils_GetS3BucketName (w_ext w) request \<noteq> Inr []"
  shows "front_ok (snd (S3Handler_HandlePutRequest w h stale request region user st))"
  unfolding S3Handler_HandlePutRequest_def
proof (intro front_reading, rule assms(1), unfold snd_s3_catch)
  fix c assume "S3ClientCommand_FromRequest (w_ext w) (hw_stale h) (hw_requestId h) request region user = Inr c"
  from s3_command_bucket [OF this] assms(3) have bucket: "s3c_bucket c \<noteq> []" by auto
  note un = assms(1) [unfolded front_ok_def]
  have create: "front_ok (snd (andthen (on_s3 (S3Service_CreateBucket w (hw_draws h)
      \<lparr>cbr_region = bc_region c, cbr_name = s3c_bucket c, cbr_owner = bc_user c\<rparr>) st) (\<lambda>resp st'. s3_answer (S3Created resp) [] st')))"
    by (intro front_intros front_on_s3 unversioned_CreateBucket un) (simp_all add: assms bucket)
  have encryption: "front_ok (snd (andthen (on_s3 (S3Service_PutBucketEncryption (hw_draws h) (bc_region c) (s3c_bucket c)
      \<lparr>be_sseAlgorithm = [], be_kmsKeyId = []\<rparr>) st) (\<lambda>_ st'. s3_answer (S3Text []) [] st')))"
    by (intro front_intros front_on_s3 unversioned_PutBucketEncryption un)
  have notification: "front_ok (snd (reading (hw_notification h (rq_body request)) (\<lambda>r st.
      andthen (on_s3 (S3Service_PutBucketNotification (hw_draws h) (r\<lparr>pbn_region := bc_region c, pbn_bucket := s3c_bucket c\<rparr>)) st)
        (\<lambda>_ st'. s3_no_content st')) st))"
    by (intro front_intros front_on_s3 unversioned_PutBucketNotification un assms)
  have configuration: "front_ok (snd (reading (hw_configuration h (rq_body request)) (\<lambda>r st.
      andthen (on_s3 (S3Service_PutBucketNotificationConfiguration (hw_draws h) (hw_uuid h)
          (\<lambda>i. hw_uuid h (1000 + i)) (\<lambda>i. hw_uuid h (2000 + i)) (r\<lparr>pbc_region := bc_region c, pbc_bucket := s3c_bucket c\<rparr>)) st)
        (\<lambda>cs st'. s3_answer (S3Configured cs) [] st')) st))"
    by (intro front_intros front_on_s3 unversioned_PutBucketNotificationConfiguration un assms)
  show "front_ok (snd (case s3c_command c of
            CREATE_BUCKET \<Rightarrow>
              andthen (on_s3 (S3Service_CreateBucket w (hw_draws h)
                         \<lparr>cbr_region = bc_region c, cbr_name = s3c_bucket c, cbr_owner = bc_user c\<rparr>) st)
                (\<lambda>resp st'. s3_answer (S3Created resp) [] st')
          | PUT_OBJECT \<Rightarrow> handle_put_object w (hw_draws h) request c st
          | MOVE_OBJECT \<Rightarrow> handle_move_object w (hw_draws h) request c st
          | UPLOAD_PART \<Rightarrow> handle_upload_part w request st
          | UPLOAD_PART_COPY \<Rightarrow> handle_upload_part_copy w (hw_draws h) request region c stale st
          | BUCKET_NOTIFICATION \<Rightarrow>
              reading (hw_notification h (rq_body request)) (\<lambda>r st.
                andthen (on_s3 (S3Service_PutBucketNotification (hw_draws h)
                           (r\<lparr>pbn_region := bc_region c, pbn_bucket := s3c_bucket c\<rparr>)) st)
                  (\<lambda>_ st'. s3_no_content st')) st
          | PUT_BUCKET_NOTIFICATION_CONFIGURATION \<Rightarrow>
              reading (hw_configuration h (rq_body request)) (\<lambda>r st.
                andthen (on_s3 (S3Service_PutBucketNotificationConfiguration (hw_draws h) (hw_uuid h)
                           (\<lambda>i. hw_uuid h (1000 + i)) (\<lambda>i. hw_uuid h (2000 + i))
                           (r\<lparr>pbc_region := bc_region c, pbc_bucket := s3c_bucket c\<rparr>)) st)
                  (\<lambda>cs st'. s3_answer (S3Configured cs) [] st')) st
          | PUT_BUCKET_ENCRYPTION \<Rightarrow>
              andthen (on_s3 (S3Service_PutBucketEncryption (hw_draws h) (bc_region c) (s3c_bucket c)
                         \<lparr>be_sseAlgorithm = [], be_kmsKeyId = []\<rparr>) st)
                (\<lambda>_ st'. s3_answer (S3Text []) [] st')
          | _ \<Rightarrow> s3_bad st))"
    using create encryption notification configuration
    by (cases "s3c_command c")
       (simp_all only: S3CommandType.case assms(1) front_answers front_put_object front_move_object front_upload_part front_upload_part_copy)
qed

lemma front_post: "front_ok st \<Longrightarrow> front_ok (snd (S3Handler_HandlePostRequest w h request region user st))"
  unfolding S3Handler_HandlePostRequest_def
  by (intro front_reading, assumption, rename_tac c, case_tac "s3c_command c")
     (simp_all add: front_answers front_create_upload front_complete_upload front_delete_objects front_reading)

lemma front_delete_bucket: "front_ok st \<Longrightarrow> front_ok (snd (on_s3 (S3Service_DeleteBucket w region bucket) st))"
  by (rule front_on_s3) (simp add: front_ok_def unversioned_DeleteBucket)

lemma front_delete: "front_ok st \<Longrightarrow> front_ok (snd (S3Handler_HandleDeleteRequest w h request region user st))"
  unfolding S3Handler_HandleDeleteRequest_def
  by (intro front_reading, assumption, rename_tac c, case_tac "s3c_command c")
     (simp_all add: front_answers front_andthen front_delete_bucket front_on_keeps keeps_DeleteObject)

lemma front_head: "front_ok st \<Longrightarrow> front_ok (snd (S3Handler_HandleHeadRequest w h request region user st))"
  unfolding S3Handler_HandleHeadRequest_def snd_s3_catch
  by (intro front_reading) (simp_all add: front_answers front_andthen front_on_keeps keeps_metadata)

section \<open>Serving requests\<close>

text \<open>
  One request of a client.  A PUT request names a bucket, in its host or in its path, and the random
  id drawn for a new bucket is new.
\<close>

inductive s3_request :: "'fs s3_world \<Rightarrow> 'fs s3_front \<Rightarrow> 'fs s3_front \<Rightarrow> bool" for w :: "'fs s3_world" where
  get: "s3_request w st (snd (S3Handler_HandleGetRequest w h request region user st))"
| put: "x_oid (hw_draws h) \<notin> fst ` set (s3_buckets (ss_db (sf_state st))) \<Longrightarrow>
    AwsUtils_GetS3BucketName (w_ext w) request \<noteq> Inr [] \<Longrightarrow>
    s3_request w st (snd (S3Handler_HandlePutRequest w h stale request region user st))"
| post: "s3_request w st (snd (S3Handler_HandlePostRequest w h request region user st))"
| delete: "s3_request w st (snd (S3Handler_HandleDeleteRequest w h request region user st))"
| head: "s3_request w st (snd (S3Handler_HandleHeadRequest w h request region user st))"

inductive s3_served :: "'fs s3_world \<Rightarrow> 'fs s3_front \<Rightarrow> 'fs s3_front \<Rightarrow> bool" for w :: "'fs s3_world" where
  start: "s3_served w st st"
| step: "s3_served w st st' \<Longrightarrow> s3_request w st' st'' \<Longrightarrow> s3_served w st st''"

lemma s3_request_front_ok: "s3_request w st st' \<Longrightarrow> front_ok st \<Longrightarrow> front_ok st'"
  by (induction rule: s3_request.induct) (blast intro: front_get front_put front_post front_delete front_head)+


definition demo_versioning :: http_request where
  "demo_versioning = \<lparr>rq_method = HttpPut, rq_target = ''/b?versioning'', rq_fields = [],
     rq_body = ''<VersioningConfiguration><Status>Enabled</Status></VersioningConfiguration>''\<rparr>"

definition demo_s3_request_world :: s3_request_world where
  "demo_s3_request_world = \<lparr>hw_what = (\<lambda>e. []), hw_delete_keys = (\<lambda>s. Inr []),
     hw_notification = (\<lambda>s. Inl (PocoException [])), hw_configuration = (\<lambda>s. Inl (PocoException [])),
     hw_requestId = [], hw_stale = S3_UNKNOWN, hw_draws = demo_s3_draws ''b2'' [], hw_delete_draws = (\<lambda>i. demo_s3_draws [] []),
     hw_uuid = (\<lambda>i. []), hw_uploadId = [], hw_random = []\<rparr>"

definition demo_idle :: "demo_files s3_front" where
  "demo_idle = \<lparr>sf_state = demo_s3_bucket, sf_map = \<lparr>mm_mapped = False, mm_size = 0, mm_bytes = []\<rparr>\<rparr>"

lemma demo_versioning_names_bucket: "AwsUtils_GetS3BucketName (w_ext demo_world) demo_versioning = Inr ''b''"
  by code_simp

lemma demo_idle_buckets:
  "map fst (s3_buckets (ss_db (sf_state demo_idle))) = [''b1'']"
  "list_all (\<lambda>(k, b). b_versionStatus b \<noteq> ENABLED) (s3_buckets (ss_db (sf_state demo_idle)))"
  by code_simp+


end
