(* ===== verification/FtpPath.thy ===== *)
theory FtpPath
  imports FileStore
begin

text \<open>
  \<open>cleanPath\<close> of \<open>service/src/ftpserver/Filesystem.cpp\<close>, which takes the dots out of a path, with the
  reference definition it implements and the facts the sandbox of a session rests on: a rooted path
  is cleaned to the list of its proper components, and cleaning never climbs above the root.
\<close>

section \<open>The code\<close>

definition is_separator :: "bool \<Rightarrow> char \<Rightarrow> bool" where
  "is_separator windows c \<longleftrightarrow> c = CHR ''/'' \<or> windows \<and> c = CHR 0x5C"

definition is_letter :: "char \<Rightarrow> bool" where
  "is_letter c \<longleftrightarrow> (let n = (of_char c :: nat) in 65 \<le> n \<and> n \<le> 90 \<or> 97 \<le> n \<and> n \<le> 122)"

text \<open>
  The root: on Windows a drive (\<open>^[a-zA-Z]\:\<close>) or a network host (\<open>^[/\\]{2}[^/\\]+\<close>), else a
  leading slash.
\<close>

definition path_root :: "bool \<Rightarrow> string \<Rightarrow> string" where
  "path_root windows path =
     (if windows
      then if 2 \<le> length path \<and> is_letter (path ! 0) \<and> path ! 1 = CHR '':'' then take 2 path
           else if 3 \<le> length path \<and>
                   is_separator True (path ! 0) \<and> is_separator True (path ! 1) \<and> \<not> is_separator True (path ! 2)
           then take 2 path @ takeWhile (\<lambda>c. \<not> is_separator True c) (drop 2 path)
           else []
      else if path \<noteq> [] \<and> hd path = CHR ''/'' then ''/'' else [])"

text \<open>One component, and the stack it grows or shrinks.\<close>

definition clean_step :: "bool \<Rightarrow> string list \<Rightarrow> string \<Rightarrow> string list" where
  "clean_step rooted components c =
     (if c = [] \<or> c = ''.'' then components
      else if c = ''..''
      then if rooted then (if components \<noteq> [] then butlast components else components)
           else if components \<noteq> [] \<and> last components \<noteq> ''..'' then butlast components
           else components @ [''..'']
      else components @ [c])"

text \<open>The loop over what is left of the path: its body runs before its condition \<open>start < size\<close>.\<close>

function clean_loop :: "bool \<Rightarrow> bool \<Rightarrow> string list \<Rightarrow> string \<Rightarrow> string list" where
  "clean_loop windows rooted components rest =
     (let components' = clean_step rooted components (takeWhile (\<lambda>c. \<not> is_separator windows c) rest);
          after = dropWhile (\<lambda>c. \<not> is_separator windows c) rest
      in if after = [] then components'
         else if tl after = [] then components'
         else clean_loop windows rooted components' (tl after))"
  by pat_completeness auto
termination
proof (relation "measure (\<lambda>(_, _, _, rest). length rest)", goal_cases)
  case (2 windows rooted components rest c' after)
  then have "length after \<le> length rest" by (simp add: length_dropWhile_le)
  moreover have "length (tl after) < length after" using 2 by (cases after) auto
  ultimately show ?case by simp
qed simp

declare clean_loop.simps [simp del]

fun join_components :: "char \<Rightarrow> string list \<Rightarrow> string" where
  "join_components sep [] = []"
| "join_components sep [c] = c"
| "join_components sep (c # d # cs) = c @ sep # join_components sep (d # cs)"

definition cleanPath :: "string \<Rightarrow> bool \<Rightarrow> char \<Rightarrow> string" where
  "cleanPath path windows sep =
     (if path = [] then ''.''
      else let root = path_root windows path;
               components = (if length root + 1 \<le> length path
                             then clean_loop windows (root \<noteq> []) [] (drop (length root) path) else [])
           in if length root + 1 \<le> length path \<and> components = [] \<and> root = [] then ''.''
              else root @ (if windows \<and> root \<noteq> [] then [sep] else []) @ join_components sep components)"

definition cleanPathNative :: "string \<Rightarrow> string" where
  "cleanPathNative path = cleanPath path False (CHR ''/'')"

section \<open>The reference\<close>

text \<open>The components of a path, and the folder they lead to from a root.\<close>

fun path_components :: "string \<Rightarrow> string \<Rightarrow> string list" where
  "path_components acc [] = [rev acc]"
| "path_components acc (c # s) = (if c = CHR ''/'' then rev acc # path_components [] s else path_components (c # acc) s)"

abbreviation components :: "string \<Rightarrow> string list" where
  "components s \<equiv> path_components [] s"

definition walk :: "string list \<Rightarrow> string list \<Rightarrow> string list" where
  "walk = foldl (clean_step True)"

definition proper_component :: "string \<Rightarrow> bool" where
  "proper_component c \<longleftrightarrow> c \<noteq> [] \<and> c \<noteq> ''.'' \<and> c \<noteq> ''..'' \<and> CHR ''/'' \<notin> set c"

text \<open>The path of a folder below the root.\<close>

definition folder :: "string list \<Rightarrow> string" where
  "folder cs = CHR ''/'' # join_components (CHR ''/'') cs"

lemma path_components_not_Nil [simp]: "path_components acc s \<noteq> []"
  by (induction s arbitrary: acc) auto

lemma path_components_append: "path_components acc (s @ CHR ''/'' # t) = path_components acc s @ components t"
  by (induction s arbitrary: acc) auto

lemma path_components_plain: "CHR ''/'' \<notin> set s \<Longrightarrow> path_components acc s = [rev acc @ s]"
  by (induction s arbitrary: acc) auto

lemma components_no_slash: "CHR ''/'' \<notin> set acc \<Longrightarrow> c \<in> set (path_components acc s) \<Longrightarrow> CHR ''/'' \<notin> set c"
  by (induction acc s rule: path_components.induct) (auto split: if_splits)

lemma components_split:
  "CHR ''/'' \<notin> set s \<Longrightarrow> components (s @ CHR ''/'' # t) = s # components t"
  by (simp add: path_components_append path_components_plain)

section \<open>The loop computes the walk\<close>

lemma clean_step_Nil [simp]: "clean_step rooted cs [] = cs"
  by (simp add: clean_step_def)

lemma clean_loop_eq: "clean_loop False rooted cs rest = foldl (clean_step rooted) cs (components rest)"
proof (induction "length rest" arbitrary: cs rest rule: less_induct)
  case less
  define c after where "c = takeWhile (\<lambda>c. \<not> is_separator False c) rest"
    and "after = dropWhile (\<lambda>c. \<not> is_separator False c) rest"
  have rest: "rest = c @ after" and c: "CHR ''/'' \<notin> set c"
    by (auto simp: c_def after_def is_separator_def dest: set_takeWhileD)
  have loop: "clean_loop False rooted cs rest =
      (if after = [] \<or> tl after = [] then clean_step rooted cs c
       else clean_loop False rooted (clean_step rooted cs c) (tl after))"
    by (subst clean_loop.simps) (simp add: Let_def c_def after_def)
  show ?case
  proof (cases after)
    case Nil
    then show ?thesis using loop rest c by (simp add: path_components_plain)
  next
    case (Cons x t)
    have "\<not> \<not> is_separator False x" using Cons hd_dropWhile [of "\<lambda>c. \<not> is_separator False c" rest]
      by (auto simp: after_def)
    then have x: "x = CHR ''/''" by (simp add: is_separator_def)
    have comps: "components rest = c # components t" using rest Cons x c by (simp add: components_split)
    show ?thesis
    proof (cases t)
      case Nil
      then show ?thesis using loop Cons comps by simp
    next
      case (Cons y u)
      have "length t < length rest" using rest \<open>after = x # t\<close> by simp
      then show ?thesis using less [of t "clean_step rooted cs c"] loop comps Cons \<open>after = x # t\<close> by simp
    qed
  qed
qed

text \<open>Cleaning a rooted path is the walk from the root.\<close>

lemma cleanPath_rooted: "cleanPathNative (CHR ''/'' # p) = folder (walk [] (components p))"
  by (cases p) (simp_all add: cleanPathNative_def cleanPath_def path_root_def folder_def walk_def clean_loop_eq Let_def)

section \<open>Walks\<close>

lemma walk_append: "walk ds (as @ bs) = walk (walk ds as) bs"
  by (simp add: walk_def)

lemma clean_step_proper:
  "\<forall>d \<in> set ds. proper_component d \<Longrightarrow> CHR ''/'' \<notin> set c \<Longrightarrow> \<forall>d \<in> set (clean_step True ds c). proper_component d"
  by (auto simp: clean_step_def proper_component_def dest: in_set_butlastD)

lemma walk_proper:
  "\<forall>d \<in> set ds. proper_component d \<Longrightarrow> \<forall>c \<in> set cs. CHR ''/'' \<notin> set c \<Longrightarrow> \<forall>d \<in> set (walk ds cs). proper_component d"
proof (induction cs arbitrary: ds)
  case (Cons c cs)
  then show ?case using clean_step_proper [of ds c] by (simp add: walk_def)
qed (simp add: walk_def)

lemma walk_components_proper:
  "\<forall>d \<in> set ds. proper_component d \<Longrightarrow> \<forall>d \<in> set (walk ds (components p)). proper_component d"
  by (rule walk_proper) (use components_no_slash [of "[]" _ p] in auto)

lemma walk_blank: "walk ds ([] # (if cs = [] then [[]] else cs)) = walk ds cs"
  by (simp add: walk_def)

lemma walk_down: "\<forall>c \<in> set cs. proper_component c \<Longrightarrow> walk ds cs = ds @ cs"
  by (induction cs arbitrary: ds) (simp_all add: walk_def clean_step_def proper_component_def)

lemma walk_up: "walk ds (replicate (length ds) ''..'') = []"
  by (induction ds rule: rev_induct) (simp_all add: walk_def clean_step_def)

lemma components_join:
  "\<forall>c \<in> set cs. CHR ''/'' \<notin> set c \<Longrightarrow> components (join_components (CHR ''/'') cs) = (if cs = [] then [[]] else cs)"
  by (induction "CHR ''/''" cs rule: join_components.induct) (simp_all add: path_components_plain components_split)

lemma walk_join:
  "\<forall>c \<in> set cs. proper_component c \<Longrightarrow> walk ds (components (join_components (CHR ''/'') cs)) = ds @ cs"
  using walk_down [of cs ds] by (cases cs) (auto simp: components_join proper_component_def walk_def)

lemma clean_folder: "\<forall>c \<in> set cs. proper_component c \<Longrightarrow> cleanPathNative (folder cs) = folder cs"
  by (simp add: folder_def cleanPath_rooted walk_join)

lemma clean_below:
  "cleanPathNative (CHR ''/'' # r @ ''/'' @ p) = folder (walk (walk [] (components r)) (components p))"
  by (simp add: cleanPath_rooted path_components_append walk_append)

lemma folder_inject:
  assumes "\<forall>c \<in> set cs. proper_component c" "\<forall>d \<in> set ds. proper_component d" "folder cs = folder ds"
  shows "cs = ds"
proof -
  have noslash: "\<forall>c \<in> set xs. CHR ''/'' \<notin> set c" and nonempty: "[] \<notin> set xs" if "\<forall>c \<in> set xs. proper_component c" for xs
    using that by (auto simp: proper_component_def)
  have "(if cs = [] then [[]] else cs) = (if ds = [] then [[]] else ds)"
    using assms(3) components_join [OF noslash [OF assms(1)]] components_join [OF noslash [OF assms(2)]]
    by (simp add: folder_def)
  then show ?thesis using nonempty [OF assms(1)] nonempty [OF assms(2)] by (cases cs; cases ds) simp_all
qed

end
