(* ===== verification/FtpFiles.thy ===== *)
theory FtpFiles
  imports FtpPath StdMap "HOL-Library.Word"
begin

unbundle bit_operations_syntax

text \<open>
  Users, permissions, reply codes and file status of the FTP server
  (\<open>service/include/awsmock/ftpserver\<close>, \<open>service/src/ftpserver/Filesystem.cpp\<close>,
  \<open>UserDatabase.cpp\<close>).  The operating system is a parameter.
\<close>

section \<open>The operating system\<close>

record file_stat =
  st_mode :: "32 word"
  st_size :: int
  st_ctime :: int

text \<open>Broken-down local time.\<close>

record tm =
  tm_year :: int  \<comment> \<open>years since 1900\<close>
  tm_mon :: nat
  tm_mday :: int
  tm_hour :: int
  tm_min :: int

text \<open>
  The calls of the session: \<open>stat\<close>, \<open>opendir\<close> with \<open>readdir\<close> (the names, or none when the directory
  does not open), an \<open>fstream\<close> opened for reading, for writing (which creates or truncates) and for
  appending, the position at the end of a file, \<open>unlink\<close>, \<open>rmdir\<close>, \<open>mkdir\<close>, \<open>rename\<close>,
  \<open>localtime_r\<close>.  A path is handed over as the code's string.
\<close>

record 'fs posix =
  px_stat :: "string \<Rightarrow> 'fs \<Rightarrow> file_stat option"
  px_readdir :: "string \<Rightarrow> 'fs \<Rightarrow> string list option"
  px_can_read :: "string \<Rightarrow> 'fs \<Rightarrow> bool"
  px_end_position :: "string \<Rightarrow> 'fs \<Rightarrow> int"
  px_open_write :: "string \<Rightarrow> 'fs \<Rightarrow> bool \<times> 'fs"
  px_open_append :: "string \<Rightarrow> 'fs \<Rightarrow> bool \<times> 'fs"
  px_append :: "string \<Rightarrow> string \<Rightarrow> 'fs \<Rightarrow> 'fs"
  px_unlink :: "string \<Rightarrow> 'fs \<Rightarrow> bool \<times> 'fs"
  px_rmdir :: "string \<Rightarrow> 'fs \<Rightarrow> bool \<times> 'fs"
  px_mkdir :: "string \<Rightarrow> 'fs \<Rightarrow> bool \<times> 'fs"
  px_rename :: "string \<Rightarrow> string \<Rightarrow> 'fs \<Rightarrow> bool \<times> 'fs"
  px_localtime :: "int \<Rightarrow> tm"

section \<open>Permissions and users\<close>

type_synonym permission = "32 word"

definition FileRead :: permission where "FileRead = push_bit 0 1"
definition FileWrite :: permission where "FileWrite = push_bit 1 1"
definition FileAppend :: permission where "FileAppend = push_bit 2 1"
definition FileDelete :: permission where "FileDelete = push_bit 3 1"
definition FileRename :: permission where "FileRename = push_bit 4 1"
definition DirList :: permission where "DirList = push_bit 5 1"
definition DirCreate :: permission where "DirCreate = push_bit 6 1"
definition DirDelete :: permission where "DirDelete = push_bit 7 1"
definition DirRename :: permission where "DirRename = push_bit 8 1"

definition AllPermissions :: permission where
  "AllPermissions = FileRead OR FileWrite OR FileAppend OR FileDelete OR FileRename OR DirList OR DirCreate OR DirDelete OR DirRename"

definition ReadOnly :: permission where
  "ReadOnly = FileRead OR DirList"

record FtpUser =
  fu_username :: string
  fu_password :: string
  fu_local_root_path :: string
  fu_permissions :: permission

definition may :: "permission \<Rightarrow> FtpUser \<Rightarrow> bool" where
  "may p u \<longleftrightarrow> fu_permissions u AND p \<noteq> 0"

record UserDatabase =
  ud_users :: "(string, FtpUser) smap"
  ud_anonymous :: "FtpUser option"

definition isUsernameAnonymousUser :: "string \<Rightarrow> bool" where
  "isUsernameAnonymousUser username \<longleftrightarrow> username = [] \<or> username = ''ftp'' \<or> username = ''anonymous''"

definition UserDatabase_addUser :: "string \<Rightarrow> string \<Rightarrow> string \<Rightarrow> permission \<Rightarrow> UserDatabase \<Rightarrow> bool \<times> UserDatabase" where
  "UserDatabase_addUser username password root permissions db =
     (let user = \<lparr>fu_username = username, fu_password = password, fu_local_root_path = root, fu_permissions = permissions\<rparr>
      in if isUsernameAnonymousUser username
         then case ud_anonymous db of
                Some _ \<Rightarrow> (False, db)
              | None \<Rightarrow> (True, db\<lparr>ud_anonymous := Some user\<rparr>)
         else case smap_get username (ud_users db) of
                None \<Rightarrow> (True, db\<lparr>ud_users := smap_put username user (ud_users db)\<rparr>)
              | Some _ \<Rightarrow> (False, db))"

text \<open>The anonymous user is found under three names and its password is not compared.\<close>

definition UserDatabase_getUser :: "string \<Rightarrow> string \<Rightarrow> UserDatabase \<Rightarrow> FtpUser option" where
  "UserDatabase_getUser username password db =
     (if isUsernameAnonymousUser username then ud_anonymous db
      else case smap_get username (ud_users db) of
             None \<Rightarrow> None
           | Some user \<Rightarrow> if fu_password user = password then Some user else None)"

section \<open>Replies\<close>

datatype FtpReplyCode =
  COMMAND_OK | SYNTAX_ERROR_UNRECOGNIZED_COMMAND | SYNTAX_ERROR_PARAMETERS | COMMAND_NOT_IMPLEMENTED
| COMMANDS_BAD_SEQUENCE | COMMAND_NOT_IMPLEMENTED_FOR_PARAMETER | FILE_STATUS | NAME_SYSTEM_TYPE
| SERVICE_READY_FOR_NEW_USER | SERVICE_CLOSING_CONTROL_CONNECTION | SERVICE_NOT_AVAILABLE
| ERROR_OPENING_DATA_CONNECTION | CLOSING_DATA_CONNECTION | TRANSFER_ABORTED | ENTERING_PASSIVE_MODE
| USER_LOGGED_IN | NOT_LOGGED_IN | USER_NAME_OK | FILE_STATUS_OK_OPENING_DATA_CONNECTION
| FILE_ACTION_COMPLETED | PATHNAME_CREATED | FILE_ACTION_NEEDS_FURTHER_INFO | FILE_ACTION_NOT_TAKEN
| ACTION_NOT_TAKEN | ACTION_ABORTED_LOCAL_ERROR | ACTION_NOT_TAKEN_FILENAME_NOT_ALLOWED
| COMMAND_NOT_IMPLEMENTED_SUPERFLOUS | REPLY_RESTART_MARKER | REPLY_SYSTEM_STATUS
| DIRECTORY_STATUS | HELP_MESSAGE | SERVICE_READY_IN_MINUTES
| DATA_CONNECTION_OPEN_TRANSFER_STARTING | DATA_CONNECTION_OPEN_NO_TRANSFER | NEED_ACCOUNT_FOR_LOGIN
| NEED_ACCOUNT_FOR_STORING_FILES | ACTION_ABORTED_PAGE_TYPE_UNKNOWN | ACTION_NOT_TAKEN_INSUFFICIENT_STORAGE_SPACE
| FILE_ACTION_ABORTED

fun reply_value :: "FtpReplyCode \<Rightarrow> int" where
  "reply_value COMMAND_OK = 200"
| "reply_value SYNTAX_ERROR_UNRECOGNIZED_COMMAND = 500"
| "reply_value SYNTAX_ERROR_PARAMETERS = 501"
| "reply_value COMMAND_NOT_IMPLEMENTED = 502"
| "reply_value COMMANDS_BAD_SEQUENCE = 503"
| "reply_value COMMAND_NOT_IMPLEMENTED_FOR_PARAMETER = 504"
| "reply_value FILE_STATUS = 213"
| "reply_value NAME_SYSTEM_TYPE = 215"
| "reply_value SERVICE_READY_FOR_NEW_USER = 220"
| "reply_value SERVICE_CLOSING_CONTROL_CONNECTION = 221"
| "reply_value SERVICE_NOT_AVAILABLE = 421"
| "reply_value ERROR_OPENING_DATA_CONNECTION = 425"
| "reply_value CLOSING_DATA_CONNECTION = 226"
| "reply_value TRANSFER_ABORTED = 426"
| "reply_value ENTERING_PASSIVE_MODE = 227"
| "reply_value USER_LOGGED_IN = 230"
| "reply_value NOT_LOGGED_IN = 530"
| "reply_value USER_NAME_OK = 331"
| "reply_value FILE_STATUS_OK_OPENING_DATA_CONNECTION = 150"
| "reply_value FILE_ACTION_COMPLETED = 250"
| "reply_value PATHNAME_CREATED = 257"
| "reply_value FILE_ACTION_NEEDS_FURTHER_INFO = 350"
| "reply_value FILE_ACTION_NOT_TAKEN = 450"
| "reply_value ACTION_NOT_TAKEN = 550"
| "reply_value ACTION_ABORTED_LOCAL_ERROR = 451"
| "reply_value ACTION_NOT_TAKEN_FILENAME_NOT_ALLOWED = 553"
| "reply_value COMMAND_NOT_IMPLEMENTED_SUPERFLOUS = 202"
| "reply_value REPLY_RESTART_MARKER = 110"
| "reply_value REPLY_SYSTEM_STATUS = 211"
| "reply_value DIRECTORY_STATUS = 212"
| "reply_value HELP_MESSAGE = 214"
| "reply_value SERVICE_READY_IN_MINUTES = 120"
| "reply_value DATA_CONNECTION_OPEN_TRANSFER_STARTING = 125"
| "reply_value DATA_CONNECTION_OPEN_NO_TRANSFER = 225"
| "reply_value NEED_ACCOUNT_FOR_LOGIN = 332"
| "reply_value NEED_ACCOUNT_FOR_STORING_FILES = 532"
| "reply_value ACTION_ABORTED_PAGE_TYPE_UNKNOWN = 551"
| "reply_value ACTION_NOT_TAKEN_INSUFFICIENT_STORAGE_SPACE = 452"
| "reply_value FILE_ACTION_ABORTED = 552"

type_synonym FtpMessage = "FtpReplyCode \<times> string"

definition crlf :: string where
  "crlf = [CHR 0x0D, CHR 0x0A]"

definition FtpMessage_str :: "FtpMessage \<Rightarrow> string" where
  "FtpMessage_str m = to_string (reply_value (fst m)) @ '' '' @ snd m @ crlf"

section \<open>File status\<close>

datatype FileType = UnknownType | RegularFile | Dir | CharacterDevice | BlockDevice | Fifo | SymbolicLink | Socket

record FileStatus =
  fl_path :: string
  fl_stat :: "file_stat option"

definition FileStatus_of :: "'fs posix \<Rightarrow> string \<Rightarrow> 'fs \<Rightarrow> FileStatus" where
  "FileStatus_of px path fs = \<lparr>fl_path = path, fl_stat = px_stat px path fs\<rparr>"

definition FileStatus_isOk :: "FileStatus \<Rightarrow> bool" where
  "FileStatus_isOk f \<longleftrightarrow> fl_stat f \<noteq> None"

text \<open>\<open>S_IFMT\<close> and the file types of \<open>sys/stat.h\<close>.\<close>

definition FileStatus_type :: "FileStatus \<Rightarrow> FileType" where
  "FileStatus_type f =
     (case fl_stat f of
        None \<Rightarrow> UnknownType
      | Some s \<Rightarrow>
          let m = st_mode s AND 0xF000
          in if m = 0x8000 then RegularFile else if m = 0x4000 then Dir else if m = 0x2000 then CharacterDevice
             else if m = 0x6000 then BlockDevice else if m = 0x1000 then Fifo else if m = 0xA000 then SymbolicLink
             else if m = 0xC000 then Socket else UnknownType)"

definition FileStatus_fileSize :: "FileStatus \<Rightarrow> int" where
  "FileStatus_fileSize f = (case fl_stat f of None \<Rightarrow> 0 | Some s \<Rightarrow> st_size s)"

text \<open>The nine permission bits from \<open>S_IRUSR\<close> (0400) down to \<open>S_IXOTH\<close> (1).\<close>

definition FileStatus_permissionString :: "FileStatus \<Rightarrow> string" where
  "FileStatus_permissionString f =
     (case fl_stat f of
        None \<Rightarrow> replicate 9 (CHR ''-'')
      | Some s \<Rightarrow> map (\<lambda>(b, c). if st_mode s AND push_bit b 1 \<noteq> 0 then c else CHR ''-'') (zip (rev [0..<9]) ''rwxrwxrwx''))"

definition FileStatus_ownerString :: string where "FileStatus_ownerString = ''fineFTP''"
definition FileStatus_groupString :: string where "FileStatus_groupString = ''fineFTP''"

text \<open>\<open>std::setw(n)\<close> with a fill character: padding on the left.\<close>

definition setw :: "nat \<Rightarrow> char \<Rightarrow> string \<Rightarrow> string" where
  "setw n c s = replicate (n - length s) c @ s"

definition month_names :: "string list" where
  "month_names = [''Jan'', ''Feb'', ''Mar'', ''Apr'', ''May'', ''Jun'', ''Jul'', ''Aug'', ''Sep'', ''Oct'', ''Nov'', ''Dec'']"

definition FileStatus_timeString :: "'fs posix \<Rightarrow> int \<Rightarrow> FileStatus \<Rightarrow> string result" where
  "FileStatus_timeString px now f =
     (case fl_stat f of
        None \<Rightarrow> Inr ''Jan  1 1970''
      | Some s \<Rightarrow>
          let t = px_localtime px (st_ctime s);
              date = (if tm_year t = tm_year (px_localtime px now)
                      then setw 3 (CHR '' '') (to_string (tm_mday t)) @ '' '' @ setw 2 (CHR '' '') (to_string (tm_hour t)) @ '':'' @
                           setw 2 (CHR ''0'') (to_string (tm_min t))
                      else setw 3 (CHR '' '') (to_string (tm_mday t)) @ ''  '' @ to_string (tm_year t + 1900))
          in if tm_mon t < length month_names then Inr (month_names ! tm_mon t @ date) else Inl OutOfRange)"

definition FileStatus_canOpenDir :: "'fs posix \<Rightarrow> 'fs \<Rightarrow> FileStatus \<Rightarrow> bool" where
  "FileStatus_canOpenDir px fs f \<longleftrightarrow> FileStatus_isOk f \<and> FileStatus_type f = Dir \<and> px_readdir px (fl_path f) fs \<noteq> None"

text \<open>\<open>std::map::emplace\<close> keeps an entry that is already there.\<close>

definition smap_emplace :: "'k::linorder \<Rightarrow> 'v \<Rightarrow> ('k, 'v) smap \<Rightarrow> ('k, 'v) smap" where
  "smap_emplace k v m = (if smap_get k m = None then smap_put k v m else m)"

definition dirContent :: "'fs posix \<Rightarrow> string \<Rightarrow> 'fs \<Rightarrow> (string, FileStatus) smap" where
  "dirContent px path fs =
     (case px_readdir px path fs of
        None \<Rightarrow> []
      | Some names \<Rightarrow> fold (\<lambda>n. smap_emplace n (FileStatus_of px (path @ ''/'' @ n) fs)) names [])"

end
