(* ===== verification/FtpSession.thy ===== *)
theory FtpSession
  imports FtpFiles S3Service
begin

unbundle bit_operations_syntax

text \<open>
  The control connection of the FTP server, \<open>service/src/ftpserver/FtpSession.cpp\<close>: one handler per
  command, the dispatch, and what happens on the data connections the commands ask for.  Replies are
  the texts appended to the output queue.  A handler may end with an exception of the S3 service.
\<close>

section \<open>State\<close>

text \<open>What waits for the client to connect to the data port.\<close>

datatype data_job =
  ListingJob "(string, FileStatus) smap"
| NamesJob "(string, FileStatus) smap"
| SendJob string
| ReceiveJob string string  \<comment> \<open>path and user\<close>

record 'fs ftp_state =
  se_user :: "FtpUser option"
  se_usernameForLogin :: string
  se_lastCommand :: string
  se_renameFromPath :: string
  se_binary :: bool
  se_acceptor_open :: bool
  se_cwd :: string
  se_sent :: "string list"                 \<comment> \<open>replies, in order\<close>
  se_data :: "string list"                 \<comment> \<open>what was sent on data connections\<close>
  se_jobs :: "data_job list"               \<comment> \<open>accepts posted and not completed\<close>
  se_uploads :: "(string \<times> string) list"   \<comment> \<open>files being received, with their user\<close>
  se_reading :: bool                       \<comment> \<open>the session waits for the next command\<close>
  se_aws :: "'fs s3_state"

record 'fs ftp_world =
  fw_s3 :: "'fs s3_world"
  fw_posix :: "'fs posix"
  fw_users :: UserDatabase
  fw_region :: string
  fw_bucket :: string
  fw_transferDir :: string
  fw_serverName :: string

text \<open>What one command draws: the S3 request, the outcome of opening, binding and listening, the
  address of the control connection, the data port the system chose, the clock.\<close>

record ftp_draws =
  fd_s3 :: s3_draws
  fd_open :: bool
  fd_bind :: bool
  fd_listen :: bool
  fd_address :: "8 word list"
  fd_port :: "16 word"
  fd_now :: int

definition ftp_start :: "'fs s3_state \<Rightarrow> 'fs ftp_state" where
  "ftp_start aws =
     \<lparr>se_user = None, se_usernameForLogin = [], se_lastCommand = [], se_renameFromPath = [], se_binary = False,
      se_acceptor_open = False, se_cwd = ''/'',
      se_sent = [FtpMessage_str (SERVICE_READY_FOR_NEW_USER, ''Welcome to AWS Transfer FTP Handler'')],
      se_data = [], se_jobs = [], se_uploads = [], se_reading = True, se_aws = aws\<rparr>"

abbreviation se_fs :: "'fs ftp_state \<Rightarrow> 'fs" where
  "se_fs st \<equiv> ss_fs (se_aws st)"

definition se_put_fs :: "'fs \<Rightarrow> 'fs ftp_state \<Rightarrow> 'fs ftp_state" where
  "se_put_fs fs st = st\<lparr>se_aws := (se_aws st)\<lparr>ss_fs := fs\<rparr>\<rparr>"

type_synonym 'fs ftp_handler = "'fs ftp_state \<Rightarrow> (unit, 'fs ftp_state) outcome"

definition sendRawFtpMessage :: "string \<Rightarrow> 'fs ftp_state \<Rightarrow> 'fs ftp_state" where
  "sendRawFtpMessage raw st = st\<lparr>se_sent := se_sent st @ [raw]\<rparr>"

definition sendFtpMessage :: "FtpMessage \<Rightarrow> 'fs ftp_state \<Rightarrow> 'fs ftp_state" where
  "sendFtpMessage m = sendRawFtpMessage (FtpMessage_str m)"

definition reply :: "FtpReplyCode \<Rightarrow> string \<Rightarrow> 'fs ftp_handler" where
  "reply code text st = (Inr (), sendFtpMessage (code, text) st)"

text \<open>\<open>if (!_logged_in_user) { \<dots> NOT_LOGGED_IN \<dots>; return; }\<close>, and the test of a permission.\<close>

definition need_login :: "(FtpUser \<Rightarrow> 'fs ftp_handler) \<Rightarrow> 'fs ftp_handler" where
  "need_login k st =
     (case se_user st of None \<Rightarrow> reply NOT_LOGGED_IN ''Not logged in'' st | Some user \<Rightarrow> k user st)"

definition need_permission :: "permission \<Rightarrow> FtpReplyCode \<Rightarrow> FtpUser \<Rightarrow> 'fs ftp_handler \<Rightarrow> 'fs ftp_handler" where
  "need_permission p code user k st = (if \<not> may p user then reply code ''Permission denied'' st else k st)"

definition need_acceptor :: "'fs ftp_handler \<Rightarrow> 'fs ftp_handler" where
  "need_acceptor k st =
     (if \<not> se_acceptor_open st then reply ERROR_OPENING_DATA_CONNECTION ''Error opening data connection'' st else k st)"

section \<open>Paths\<close>

definition toAbsoluteFtpPath :: "string \<Rightarrow> string \<Rightarrow> string" where
  "toAbsoluteFtpPath cwd path =
     (if path \<noteq> [] \<and> hd path = CHR ''/'' then path else cleanPath (cwd @ ''/'' @ path) False (CHR ''/''))"

definition toLocalPath :: "FtpUser \<Rightarrow> string \<Rightarrow> string \<Rightarrow> string" where
  "toLocalPath user cwd path = cleanPathNative (fu_local_root_path user @ ''/'' @ toAbsoluteFtpPath cwd path)"

definition createQuotedFtpPath :: "string \<Rightarrow> string" where
  "createQuotedFtpPath path =
     CHR 0x22 # concat (map (\<lambda>c. if c = CHR 0x22 then [c, c] else [c]) path) @ [CHR 0x22]"

definition FtpSession_GetKey :: "'fs ftp_world \<Rightarrow> string \<Rightarrow> string result" where
  "FtpSession_GetKey w path =
     rbind (StringUtils_StripBeginning path (fw_transferDir w)) (\<lambda>key.
       Inr (if key \<noteq> [] \<and> hd key = CHR ''/'' then tl key else key))"

definition local_status :: "'fs ftp_world \<Rightarrow> FtpUser \<Rightarrow> 'fs ftp_state \<Rightarrow> string \<Rightarrow> FileStatus" where
  "local_status w user st path = FileStatus_of (fw_posix w) (toLocalPath user (se_cwd st) path) (se_fs st)"

definition checkIfPathIsRenamable :: "'fs ftp_world \<Rightarrow> 'fs ftp_state \<Rightarrow> string \<Rightarrow> FtpMessage" where
  "checkIfPathIsRenamable w st path =
     (case se_user st of
        None \<Rightarrow> (NOT_LOGGED_IN, ''Not logged in'')
      | Some user \<Rightarrow>
          if path = [] then (SYNTAX_ERROR_PARAMETERS, ''Empty path'')
          else let f = local_status w user st path
               in if FileStatus_isOk f
                  then let required = (if FileStatus_type f = Dir then DirRename else FileRename)
                       in if fu_permissions user AND required \<noteq> required then (ACTION_NOT_TAKEN, ''Permission denied'')
                          else (COMMAND_OK, [])
                  else (ACTION_NOT_TAKEN, ''File does not exist''))"

definition executeCWD :: "'fs ftp_world \<Rightarrow> string \<Rightarrow> 'fs ftp_state \<Rightarrow> FtpMessage \<times> 'fs ftp_state" where
  "executeCWD w param st =
     (case se_user st of
        None \<Rightarrow> ((NOT_LOGGED_IN, ''Not logged in''), st)
      | Some user \<Rightarrow>
          if \<not> may DirList user then ((ACTION_NOT_TAKEN, ''Permission denied''), st)
          else if param = [] then ((SYNTAX_ERROR_PARAMETERS, ''No path given''), st)
          else let dir = (if hd param = CHR ''/'' then cleanPath param False (CHR ''/'')
                          else cleanPath (se_cwd st @ ''/'' @ param) False (CHR ''/''));
                   f = local_status w user st dir
               in if \<not> FileStatus_isOk f
                  then ((ACTION_NOT_TAKEN, ''Failed ot change directory: The given resource does not exist or permission denied.''), st)
                  else if FileStatus_type f \<noteq> Dir
                  then ((ACTION_NOT_TAKEN, ''Failed ot change directory: The given resource is not a directory.''), st)
                  else if \<not> FileStatus_canOpenDir (fw_posix w) (se_fs st) f
                  then ((ACTION_NOT_TAKEN, ''Failed ot change directory: Permission denied.''), st)
                  else ((FILE_ACTION_COMPLETED, ''Working directory changed to '' @ dir), st\<lparr>se_cwd := dir\<rparr>))"


section \<open>Uploads to S3\<close>

definition ftp_put_request :: "'fs ftp_world \<Rightarrow> FtpUser \<Rightarrow> string \<Rightarrow> string \<Rightarrow> PutObjectRequest" where
  "ftp_put_request w login user key =
     \<lparr>por_region = fw_region w, por_bucket = fw_bucket w, por_key = key, por_owner = user, por_md5Sum = [],
      por_contentType = [], por_checksumAlgorithm = [],
      por_metadata = smap_put ''user-agent-id'' (fu_username login @ ''@'' @ fw_serverName w)
                       (smap_put ''user-agent'' (fw_serverName w) [])\<rparr>"

text \<open>The user of the session is dereferenced without a test.\<close>

definition SendCreateObjectRequest :: "'fs ftp_world \<Rightarrow> ftp_draws \<Rightarrow> string \<Rightarrow> string \<Rightarrow> 'fs ftp_handler" where
  "SendCreateObjectRequest w d user fileName st =
     (case FtpSession_GetKey w fileName of
        Inl e \<Rightarrow> (Inl e, st)
      | Inr key \<Rightarrow>
          case se_user st of
            None \<Rightarrow> (Inl UndefinedBehaviour, st)
          | Some login \<Rightarrow>
              case S3Service_PutObject (fw_s3 w) (fd_s3 d) (ftp_put_request w login user key)
                     (fs_read (w_fso (fw_s3 w)) fileName (se_fs st)) False (se_aws st) of
                (Inl e, aws) \<Rightarrow> (Inl e, st\<lparr>se_aws := aws\<rparr>)
              | (Inr _, aws) \<Rightarrow> (Inr (), st\<lparr>se_aws := aws\<rparr>))"

definition SendDeleteObjectRequest :: "'fs ftp_world \<Rightarrow> ftp_draws \<Rightarrow> string \<Rightarrow> 'fs ftp_handler" where
  "SendDeleteObjectRequest w d fileName st =
     (case FtpSession_GetKey w fileName of
        Inl e \<Rightarrow> (Inl e, st)
      | Inr key \<Rightarrow>
          case S3Service_DeleteObject (fw_s3 w) (fd_s3 d) (fw_region w) (fw_bucket w) key (se_aws st) of
            (r, aws) \<Rightarrow> (r, st\<lparr>se_aws := aws\<rparr>))"

section \<open>Access control commands\<close>

definition handleFtpCommandUSER :: "string \<Rightarrow> 'fs ftp_handler" where
  "handleFtpCommandUSER param st =
     (let st1 = st\<lparr>se_user := None, se_usernameForLogin := param, se_cwd := ''/''\<rparr>
      in if param = [] then reply SYNTAX_ERROR_PARAMETERS ''Please provide username'' st1
         else reply USER_NAME_OK ''Please enter password'' st1)"

definition handleFtpCommandPASS :: "'fs ftp_world \<Rightarrow> string \<Rightarrow> 'fs ftp_handler" where
  "handleFtpCommandPASS w param st =
     (if se_lastCommand st \<noteq> ''USER'' then reply COMMANDS_BAD_SEQUENCE ''Please specify username first'' st
      else case UserDatabase_getUser (se_usernameForLogin st) param (fw_users w) of
             Some user \<Rightarrow> reply USER_LOGGED_IN ''Login successful'' (st\<lparr>se_user := Some user\<rparr>)
           | None \<Rightarrow> reply NOT_LOGGED_IN ''Failed to log in'' st)"

definition unsupported :: "FtpReplyCode \<Rightarrow> string \<Rightarrow> string \<Rightarrow> 'fs ftp_handler" where
  "unsupported code text param st = reply code text st"

definition handleFtpCommandCWD :: "'fs ftp_world \<Rightarrow> string \<Rightarrow> 'fs ftp_handler" where
  "handleFtpCommandCWD w param st = (case executeCWD w param st of (m, st1) \<Rightarrow> (Inr (), sendFtpMessage m st1))"

definition handleFtpCommandCDUP :: "'fs ftp_world \<Rightarrow> string \<Rightarrow> 'fs ftp_handler" where
  "handleFtpCommandCDUP w param = need_login (\<lambda>user. need_permission DirList ACTION_NOT_TAKEN user (\<lambda>st.
     if se_cwd st \<noteq> ''/''
     then case executeCWD w ''..'' st of
            (m, st1) \<Rightarrow> if fst m = FILE_ACTION_COMPLETED then reply COMMAND_OK (snd m) st1
                       else (Inr (), sendFtpMessage m st1)
     else reply ACTION_NOT_TAKEN ''Already at root directory'' st))"

definition handleFtpCommandQUIT :: "string \<Rightarrow> 'fs ftp_handler" where
  "handleFtpCommandQUIT param st =
     reply SERVICE_CLOSING_CONTROL_CONNECTION ''Connection shutting down'' (st\<lparr>se_user := None\<rparr>)"

section \<open>Transfer parameter commands\<close>

text \<open>The reply of \<open>PASV\<close>: the four address bytes and the two bytes of the port.\<close>

definition pasv_text :: "8 word list \<Rightarrow> 16 word \<Rightarrow> string" where
  "pasv_text address port =
     ''('' @ concat (map (\<lambda>i. to_string (uint (address ! i)) @ '','') [0..<4]) @
     to_string (uint (drop_bit 8 port AND 0xff)) @ '','' @ to_string (uint (port AND 0xff)) @ '')''"

text \<open>
  An acceptor that is open is closed first.  When binding or listening fails the acceptor stays open.
\<close>

definition handleFtpCommandPASV :: "ftp_draws \<Rightarrow> string \<Rightarrow> 'fs ftp_handler" where
  "handleFtpCommandPASV d param = need_login (\<lambda>user st.
     if \<not> fd_open d then reply SERVICE_NOT_AVAILABLE ''Failed to enter passive mode.'' (st\<lparr>se_acceptor_open := False\<rparr>)
     else let st1 = st\<lparr>se_acceptor_open := True\<rparr>
          in if \<not> fd_bind d then reply SERVICE_NOT_AVAILABLE ''Failed to enter passive mode.'' st1
             else if \<not> fd_listen d then reply SERVICE_NOT_AVAILABLE ''Failed to enter passive mode.'' st1
             else reply ENTERING_PASSIVE_MODE (''Entering passive mode '' @ pasv_text (fd_address d) (fd_port d)) st1)"

definition handleFtpCommandTYPE :: "string \<Rightarrow> 'fs ftp_handler" where
  "handleFtpCommandTYPE param = need_login (\<lambda>user st.
     if param = ''A'' then reply COMMAND_OK ''Switching to ASCII mode'' (st\<lparr>se_binary := False\<rparr>)
     else if param = ''I'' then reply COMMAND_OK ''Switching to binary mode'' (st\<lparr>se_binary := True\<rparr>)
     else reply COMMAND_NOT_IMPLEMENTED_FOR_PARAMETER ''Unknown or unsupported type'' st)"

section \<open>File commands\<close>

definition handleFtpCommandRETR :: "'fs ftp_world \<Rightarrow> string \<Rightarrow> 'fs ftp_handler" where
  "handleFtpCommandRETR w param = need_login (\<lambda>user. need_permission FileRead ACTION_NOT_TAKEN user (need_acceptor (\<lambda>st.
     let path = toLocalPath user (se_cwd st) param
     in if \<not> px_can_read (fw_posix w) path (se_fs st)
        then reply ACTION_ABORTED_LOCAL_ERROR ''Error opening file for transfer'' st
        else reply FILE_STATUS_OK_OPENING_DATA_CONNECTION ''Sending file'' (st\<lparr>se_jobs := se_jobs st @ [SendJob path]\<rparr>))))"

definition handleFtpCommandSIZE :: "'fs ftp_world \<Rightarrow> string \<Rightarrow> 'fs ftp_handler" where
  "handleFtpCommandSIZE w param = need_login (\<lambda>user. need_permission FileRead ACTION_NOT_TAKEN user (\<lambda>st.
     let path = toLocalPath user (se_cwd st) param; sz = px_end_position (fw_posix w) path (se_fs st)
     in if \<not> px_can_read (fw_posix w) path (se_fs st)
        then reply ACTION_ABORTED_LOCAL_ERROR ''Error opening file for size retrieval'' st
        else if sz = - 1 then reply ACTION_ABORTED_LOCAL_ERROR ''Error getting file size'' st
        else reply FILE_STATUS (to_string sz) st))"

text \<open>The file is opened, and created or truncated, before the client connects.\<close>

definition receive_into ::
  "(string \<Rightarrow> 'fs \<Rightarrow> bool \<times> 'fs) \<Rightarrow> FtpUser \<Rightarrow> string \<Rightarrow> 'fs ftp_handler" where
  "receive_into open_file user path st =
     (case open_file path (se_fs st) of
        (ok, fs) \<Rightarrow>
          let st1 = se_put_fs fs st
          in if \<not> ok then reply ACTION_ABORTED_LOCAL_ERROR ''Error opening file for transfer'' st1
             else reply FILE_STATUS_OK_OPENING_DATA_CONNECTION ''Receiving file''
                    (st1\<lparr>se_jobs := se_jobs st1 @ [ReceiveJob path (fu_username user)]\<rparr>))"

definition handleFtpCommandSTOR :: "'fs ftp_world \<Rightarrow> string \<Rightarrow> 'fs ftp_handler" where
  "handleFtpCommandSTOR w param = need_login (\<lambda>user. need_permission FileWrite ACTION_NOT_TAKEN user (need_acceptor (\<lambda>st.
     let path = toLocalPath user (se_cwd st) param; f = FileStatus_of (fw_posix w) path (se_fs st)
     in if FileStatus_isOk f \<and> FileStatus_type f = RegularFile \<and> \<not> may FileDelete user
        then reply ACTION_NOT_TAKEN_FILENAME_NOT_ALLOWED ''File already exists. Permission denied to overwrite file.'' st
        else if FileStatus_isOk f \<and> FileStatus_type f = Dir
        then reply ACTION_NOT_TAKEN_FILENAME_NOT_ALLOWED ''Cannot create file. A directory with that name already exists.'' st
        else receive_into (px_open_write (fw_posix w)) user path st)))"

definition handleFtpCommandAPPE :: "'fs ftp_world \<Rightarrow> string \<Rightarrow> 'fs ftp_handler" where
  "handleFtpCommandAPPE w param = need_login (\<lambda>user. need_permission FileAppend ACTION_NOT_TAKEN user (need_acceptor (\<lambda>st.
     let path = toLocalPath user (se_cwd st) param; f = FileStatus_of (fw_posix w) path (se_fs st)
     in if \<not> FileStatus_isOk f \<or> FileStatus_type f \<noteq> RegularFile
        then reply ACTION_NOT_TAKEN ''File does not exist.'' st
        else receive_into (px_open_append (fw_posix w)) user path st)))"

definition handleFtpCommandRNFR :: "'fs ftp_world \<Rightarrow> string \<Rightarrow> 'fs ftp_handler" where
  "handleFtpCommandRNFR w param st =
     (let st1 = st\<lparr>se_renameFromPath := []\<rparr>; m = checkIfPathIsRenamable w st1 param
      in if fst m = COMMAND_OK
         then reply FILE_ACTION_NEEDS_FURTHER_INFO ''Enter target name'' (st1\<lparr>se_renameFromPath := param\<rparr>)
         else (Inr (), sendFtpMessage m st1))"

definition handleFtpCommandRNTO :: "'fs ftp_world \<Rightarrow> string \<Rightarrow> 'fs ftp_handler" where
  "handleFtpCommandRNTO w param = need_login (\<lambda>user st.
     if se_lastCommand st \<noteq> ''RNFR'' \<or> se_renameFromPath st = []
     then reply COMMANDS_BAD_SEQUENCE ''Please specify target file first'' st
     else if param = [] then reply SYNTAX_ERROR_PARAMETERS ''No target name given'' st
     else let m = checkIfPathIsRenamable w st (se_renameFromPath st)
          in if fst m = COMMAND_OK
             then if FileStatus_isOk (local_status w user st param)
                  then reply FILE_ACTION_NOT_TAKEN ''Target path exists already.'' st
                  else case px_rename (fw_posix w) (toLocalPath user (se_cwd st) (se_renameFromPath st))
                              (toLocalPath user (se_cwd st) param) (se_fs st) of
                         (ok, fs) \<Rightarrow> if ok then reply FILE_ACTION_COMPLETED ''OK'' (se_put_fs fs st)
                                    else reply FILE_ACTION_NOT_TAKEN ''Error renaming file'' (se_put_fs fs st)
             else (Inr (), sendFtpMessage m st))"

text \<open>The reply comes after the request to S3: an exception there leaves the client without one.\<close>

definition handleFtpCommandDELE :: "'fs ftp_world \<Rightarrow> ftp_draws \<Rightarrow> string \<Rightarrow> 'fs ftp_handler" where
  "handleFtpCommandDELE w d param = need_login (\<lambda>user st.
     let path = toLocalPath user (se_cwd st) param; f = FileStatus_of (fw_posix w) path (se_fs st)
     in if \<not> FileStatus_isOk f then reply ACTION_NOT_TAKEN ''Resource does not exist'' st
        else if FileStatus_type f \<noteq> RegularFile then reply ACTION_NOT_TAKEN ''Resource is not a file'' st
        else if \<not> may FileDelete user then reply ACTION_NOT_TAKEN ''Permission denied'' st
        else case px_unlink (fw_posix w) path (se_fs st) of
               (ok, fs) \<Rightarrow>
                 if ok then andthen (SendDeleteObjectRequest w d path (se_put_fs fs st)) (\<lambda>_.
                         reply FILE_ACTION_COMPLETED ''Successfully deleted file'')
                 else reply FILE_ACTION_NOT_TAKEN ''Unable to delete file'' (se_put_fs fs st))"

definition handleFtpCommandRMD :: "'fs ftp_world \<Rightarrow> string \<Rightarrow> 'fs ftp_handler" where
  "handleFtpCommandRMD w param = need_login (\<lambda>user. need_permission DirDelete ACTION_NOT_TAKEN user (\<lambda>st.
     case px_rmdir (fw_posix w) (toLocalPath user (se_cwd st) param) (se_fs st) of
       (ok, fs) \<Rightarrow> if ok then reply FILE_ACTION_COMPLETED ''Successfully removed directory'' (se_put_fs fs st)
                  else reply ACTION_NOT_TAKEN ''Unable to remove directory'' (se_put_fs fs st)))"

definition handleFtpCommandMKD :: "'fs ftp_world \<Rightarrow> string \<Rightarrow> 'fs ftp_handler" where
  "handleFtpCommandMKD w param = need_login (\<lambda>user. need_permission DirCreate ACTION_NOT_TAKEN user (\<lambda>st.
     case px_mkdir (fw_posix w) (toLocalPath user (se_cwd st) param) (se_fs st) of
       (ok, fs) \<Rightarrow> if ok then reply PATHNAME_CREATED (createQuotedFtpPath (toAbsoluteFtpPath (se_cwd st) param) @ '' Successfully created'') (se_put_fs fs st)
                  else reply ACTION_NOT_TAKEN ''Unable to create directory'' (se_put_fs fs st)))"

definition handleFtpCommandPWD :: "string \<Rightarrow> 'fs ftp_handler" where
  "handleFtpCommandPWD param st =
     (case se_user st of
        None \<Rightarrow> reply ACTION_NOT_TAKEN ''Not logged in'' st
      | Some user \<Rightarrow> reply PATHNAME_CREATED (createQuotedFtpPath (se_cwd st)) st)"


section \<open>Listings\<close>

text \<open>\<open>LIST -a dir\<close> and its kin: the option is dropped.\<close>

definition list_argument :: "string \<Rightarrow> string" where
  "list_argument param =
     (if param \<in> {''-a'', ''-l'', ''-al'', ''-la''} then []
      else if take 3 param \<in> {''-a '', ''-l ''} \<and> 3 < length param then drop 3 param
      else if take 4 param \<in> {''-al '', ''-la ''} \<and> 4 < length param then drop 4 param
      else param)"

definition send_listing ::
  "'fs ftp_world \<Rightarrow> FtpUser \<Rightarrow> string \<Rightarrow> string \<Rightarrow> ((string, FileStatus) smap \<Rightarrow> data_job) \<Rightarrow> 'fs ftp_handler" where
  "send_listing w user param text job st =
     (let path = toLocalPath user (se_cwd st) param; f = FileStatus_of (fw_posix w) path (se_fs st)
      in if FileStatus_isOk f
         then if FileStatus_type f = Dir
              then if FileStatus_canOpenDir (fw_posix w) (se_fs st) f
                   then reply FILE_STATUS_OK_OPENING_DATA_CONNECTION text
                          (st\<lparr>se_jobs := se_jobs st @ [job (dirContent (fw_posix w) path (se_fs st))]\<rparr>)
                   else reply FILE_ACTION_NOT_TAKEN ''Permission denied'' st
              else reply FILE_ACTION_NOT_TAKEN ''Path is not a directory'' st
         else reply FILE_ACTION_NOT_TAKEN ''Path does not exist'' st)"

definition handleFtpCommandLIST :: "'fs ftp_world \<Rightarrow> string \<Rightarrow> 'fs ftp_handler" where
  "handleFtpCommandLIST w param = need_login (\<lambda>user. need_permission DirList FILE_ACTION_NOT_TAKEN user
     (send_listing w user (list_argument param) ''Sending directory listing'' ListingJob))"

definition handleFtpCommandNLST :: "'fs ftp_world \<Rightarrow> string \<Rightarrow> 'fs ftp_handler" where
  "handleFtpCommandNLST w param = need_login (\<lambda>user. need_permission DirList FILE_ACTION_NOT_TAKEN user
     (send_listing w user param ''Sending name list'' NamesJob))"

section \<open>Other commands\<close>

definition handleFtpCommandFEAT :: "string \<Rightarrow> 'fs ftp_handler" where
  "handleFtpCommandFEAT param st =
     (Inr (), sendRawFtpMessage (''211- Feature List:'' @ crlf @ '' UTF8'' @ crlf @ '' SIZE'' @ crlf @ '' LANG EN'' @ crlf @
                ''211 END'' @ crlf) st)"

definition handleFtpCommandOPTS :: "string \<Rightarrow> 'fs ftp_handler" where
  "handleFtpCommandOPTS param st =
     (if to_upper param = ''UTF8 ON'' then reply COMMAND_OK ''OK'' st
      else reply COMMAND_NOT_IMPLEMENTED_FOR_PARAMETER ''Unrecognized parameter'' st)"

section \<open>Dispatch\<close>

definition command_map :: "'fs ftp_world \<Rightarrow> ftp_draws \<Rightarrow> (string \<times> (string \<Rightarrow> 'fs ftp_handler)) list" where
  "command_map w d =
     [(''USER'', handleFtpCommandUSER),
      (''PASS'', handleFtpCommandPASS w),
      (''ACCT'', unsupported SYNTAX_ERROR_UNRECOGNIZED_COMMAND ''Unsupported command''),
      (''CWD'', handleFtpCommandCWD w),
      (''CDUP'', handleFtpCommandCDUP w),
      (''REIN'', unsupported COMMAND_NOT_IMPLEMENTED ''Unsupported command''),
      (''QUIT'', handleFtpCommandQUIT),
      (''PORT'', unsupported SYNTAX_ERROR_UNRECOGNIZED_COMMAND ''FTP active mode is not supported by this manager''),
      (''PASV'', handleFtpCommandPASV d),
      (''TYPE'', handleFtpCommandTYPE),
      (''STRU'', unsupported SYNTAX_ERROR_UNRECOGNIZED_COMMAND ''Unsupported command''),
      (''MODE'', unsupported SYNTAX_ERROR_UNRECOGNIZED_COMMAND ''Unsupported command''),
      (''RETR'', handleFtpCommandRETR w),
      (''STOR'', handleFtpCommandSTOR w),
      (''STOU'', unsupported SYNTAX_ERROR_UNRECOGNIZED_COMMAND ''Command not implemented''),
      (''APPE'', handleFtpCommandAPPE w),
      (''ALLO'', unsupported SYNTAX_ERROR_UNRECOGNIZED_COMMAND ''Command not implemented''),
      (''REST'', unsupported COMMAND_NOT_IMPLEMENTED ''Command not implemented''),
      (''RNFR'', handleFtpCommandRNFR w),
      (''RNTO'', handleFtpCommandRNTO w),
      (''ABOR'', unsupported COMMAND_NOT_IMPLEMENTED ''Command not implemented''),
      (''DELE'', handleFtpCommandDELE w d),
      (''RMD'', handleFtpCommandRMD w),
      (''MKD'', handleFtpCommandMKD w),
      (''PWD'', handleFtpCommandPWD),
      (''LIST'', handleFtpCommandLIST w),
      (''NLST'', handleFtpCommandNLST w),
      (''SITE'', unsupported SYNTAX_ERROR_UNRECOGNIZED_COMMAND ''Command not implemented''),
      (''SYST'', unsupported NAME_SYSTEM_TYPE ''UNIX''),
      (''STAT'', unsupported COMMAND_NOT_IMPLEMENTED ''Command not implemented''),
      (''HELP'', unsupported COMMAND_NOT_IMPLEMENTED ''Command not implemented''),
      (''NOOP'', unsupported COMMAND_OK ''OK''),
      (''FEAT'', handleFtpCommandFEAT),
      (''OPTS'', handleFtpCommandOPTS),
      (''SIZE'', handleFtpCommandSIZE w)]"

text \<open>
  An unknown command leaves \<open>_lastCommand\<close>.  After \<open>QUIT\<close> the session stops reading; the wrapped
  close of the socket is built and never run.  An exception in a handler leaves the session without
  \<open>_lastCommand\<close> set and without a further read.
\<close>

definition handleFtpCommand :: "'fs ftp_world \<Rightarrow> ftp_draws \<Rightarrow> string \<Rightarrow> 'fs ftp_handler" where
  "handleFtpCommand w d command st =
     (let name = to_upper (takeWhile (\<lambda>c. c \<noteq> CHR '' '') command);
          param = (if CHR '' '' \<in> set command then tl (dropWhile (\<lambda>c. c \<noteq> CHR '' '') command) else []);
          st0 = st\<lparr>se_reading := False\<rparr>;
          next_read = (\<lambda>st. (Inr (), st\<lparr>se_reading := se_lastCommand st \<noteq> ''QUIT''\<rparr>))
      in case map_of (command_map w d) name of
           Some handler \<Rightarrow> andthen (handler param st0) (\<lambda>_ st1. next_read (st1\<lparr>se_lastCommand := name\<rparr>))
         | None \<Rightarrow> andthen (reply SYNTAX_ERROR_UNRECOGNIZED_COMMAND ''Unrecognized command'' st0) (\<lambda>_ st1. next_read st1))"

section \<open>Data connections\<close>

definition list_line :: "'fs posix \<Rightarrow> int \<Rightarrow> string \<times> FileStatus \<Rightarrow> string result" where
  "list_line px now entry =
     rbind (FileStatus_timeString px now (snd entry)) (\<lambda>time.
       Inr ((if FileStatus_type (snd entry) = Dir then CHR ''d'' else CHR ''-'') # FileStatus_permissionString (snd entry) @ ''   1 '' @
            setw 10 (CHR '' '') FileStatus_ownerString @ '' '' @ setw 10 (CHR '' '') FileStatus_groupString @ '' '' @
            setw 10 (CHR '' '') (to_string (FileStatus_fileSize (snd entry))) @ '' '' @ time @ '' '' @ fst entry @ crlf))"

definition sendDirectoryListing :: "'fs posix \<Rightarrow> int \<Rightarrow> (string, FileStatus) smap \<Rightarrow> string result" where
  "sendDirectoryListing px now content =
     foldr_result (\<lambda>entry text. rbind (list_line px now entry) (\<lambda>line. Inr (text @ line))) content []"

definition sendNameList :: "(string, FileStatus) smap \<Rightarrow> string" where
  "sendNameList content = concat (map (\<lambda>entry. fst entry @ crlf) content)"

text \<open>The client connected, or the accept failed: the oldest job is served.\<close>

definition send_data :: "string \<Rightarrow> 'fs ftp_handler" where
  "send_data content st = reply CLOSING_DATA_CONNECTION ''Done'' (st\<lparr>se_data := se_data st @ [content]\<rparr>)"

definition data_accepted :: "'fs ftp_world \<Rightarrow> ftp_draws \<Rightarrow> bool \<Rightarrow> 'fs ftp_handler" where
  "data_accepted w d ok st =
     (case se_jobs st of
        [] \<Rightarrow> (Inr (), st)
      | job # jobs \<Rightarrow>
          let st1 = st\<lparr>se_jobs := jobs\<rparr>
          in if \<not> ok then reply TRANSFER_ABORTED ''Data transfer aborted'' st1
             else case job of
                    ListingJob content \<Rightarrow>
                      (case sendDirectoryListing (fw_posix w) (fd_now d) content of
                         Inl e \<Rightarrow> (Inl e, st1)
                       | Inr text \<Rightarrow> send_data text st1)
                  | NamesJob content \<Rightarrow> send_data (sendNameList content) st1
                  | SendJob path \<Rightarrow> send_data (fs_read (w_fso (fw_s3 w)) path (se_fs st1)) st1
                  | ReceiveJob path user \<Rightarrow> (Inr (), st1\<lparr>se_uploads := se_uploads st1 @ [(path, user)]\<rparr>))"

text \<open>
  Bytes arrive for the first upload; when the client closes the connection what came last is
  written, the client is told, and the file goes to S3.
\<close>

definition writeDataToFile :: "'fs ftp_world \<Rightarrow> string \<Rightarrow> string \<Rightarrow> 'fs ftp_state \<Rightarrow> 'fs ftp_state" where
  "writeDataToFile w path bytes st = se_put_fs (px_append (fw_posix w) path bytes (se_fs st)) st"

definition upload_data :: "'fs ftp_world \<Rightarrow> string \<Rightarrow> 'fs ftp_handler" where
  "upload_data w bytes st =
     (case se_uploads st of
        [] \<Rightarrow> (Inr (), st)
      | (path, user) # _ \<Rightarrow> (Inr (), if bytes \<noteq> [] then writeDataToFile w path bytes st else st))"

definition endDataReceiving :: "'fs ftp_world \<Rightarrow> ftp_draws \<Rightarrow> string \<Rightarrow> string \<Rightarrow> 'fs ftp_handler" where
  "endDataReceiving w d path user st =
     SendCreateObjectRequest w d user path (sendFtpMessage (CLOSING_DATA_CONNECTION, ''Done'') st)"

definition upload_end :: "'fs ftp_world \<Rightarrow> ftp_draws \<Rightarrow> string \<Rightarrow> 'fs ftp_handler" where
  "upload_end w d bytes st =
     (case se_uploads st of
        [] \<Rightarrow> (Inr (), st)
      | (path, user) # uploads \<Rightarrow>
          andthen (upload_data w bytes st) (\<lambda>_ st1. endDataReceiving w d path user (st1\<lparr>se_uploads := uploads\<rparr>)))"

end
