(* ===== verification/TransferService.thy ===== *)
theory TransferService
  imports FtpSession EntityStore
begin

text \<open>
  The transfer service: the table of FTP servers (\<open>db/src/memorydb/TransferMemoryDb.cpp\<close>), the
  requests on it (\<open>service/src/transfer/TransferService.cpp\<close>) and the module that runs the servers
  (\<open>service/src/transfer/TransferServer.cpp\<close>).
\<close>

section \<open>Entities\<close>

datatype ServerState = OFFLINE | ONLINE | STARTING | STOPPING | START_FAILED | STOP_FAILED

fun ServerStateToString :: "ServerState \<Rightarrow> string" where
  "ServerStateToString OFFLINE = ''OFFLINE''"
| "ServerStateToString ONLINE = ''ONLINE''"
| "ServerStateToString STARTING = ''STARTING''"
| "ServerStateToString STOPPING = ''STOPPING''"
| "ServerStateToString START_FAILED = ''START_FAILED''"
| "ServerStateToString STOP_FAILED = ''STOP_FAILED''"

record TransferUser =
  tu_userName :: string
  tu_password :: string
  tu_homeDirectory :: string
  tu_arn :: string

record Transfer =
  tr_oid :: string
  tr_region :: string
  tr_serverId :: string
  tr_arn :: string
  tr_protocols :: "string list"
  tr_users :: "TransferUser list"
  tr_state :: string
  tr_concurrency :: int
  tr_port :: int
  tr_listenAddress :: string
  tr_lastStarted :: int
  tr_created :: int
  tr_modified :: int

definition Transfer_init :: "int \<Rightarrow> Transfer" where
  "Transfer_init now =
     \<lparr>tr_oid = [], tr_region = [], tr_serverId = [], tr_arn = [], tr_protocols = [], tr_users = [],
      tr_state = ServerStateToString OFFLINE, tr_concurrency = 8, tr_port = 21, tr_listenAddress = ''0.0.0.0'', tr_lastStarted = now,
      tr_created = now, tr_modified = now\<rparr>"

definition Transfer_HasUser :: "string \<Rightarrow> Transfer \<Rightarrow> bool" where
  "Transfer_HasUser userName t \<longleftrightarrow> find (\<lambda>u. tu_userName u = userName) (tr_users t) \<noteq> None"

definition Transfer_HasProtocol :: "string \<Rightarrow> Transfer \<Rightarrow> bool" where
  "Transfer_HasProtocol p t \<longleftrightarrow> find (\<lambda>q. q = p) (tr_protocols t) \<noteq> None"

record transfer_db =
  db_transfers :: "(string, Transfer) smap"

section \<open>The table\<close>

definition transfer_find :: "(Transfer \<Rightarrow> bool) \<Rightarrow> transfer_db \<Rightarrow> (string \<times> Transfer) option" where
  "transfer_find P db = smap_find_if (\<lambda>(k, t). P t) (db_transfers db)"

definition TransferMemoryDb_TransferExists :: "string \<Rightarrow> string \<Rightarrow> transfer_db \<Rightarrow> bool" where
  "TransferMemoryDb_TransferExists region serverId db \<longleftrightarrow>
     transfer_find (\<lambda>t. tr_region t = region \<and> tr_serverId t = serverId) db \<noteq> None"

definition TransferMemoryDb_TransferExistsId :: "string \<Rightarrow> transfer_db \<Rightarrow> bool" where
  "TransferMemoryDb_TransferExistsId serverId db \<longleftrightarrow> transfer_find (\<lambda>t. tr_serverId t = serverId) db \<noteq> None"

definition TransferMemoryDb_TransferExistsProtocols :: "string \<Rightarrow> string list \<Rightarrow> transfer_db \<Rightarrow> bool" where
  "TransferMemoryDb_TransferExistsProtocols region protocols db \<longleftrightarrow>
     transfer_find (\<lambda>t. tr_region t = region \<and> tr_protocols t = protocols) db \<noteq> None"

definition TransferMemoryDb_ListServers :: "string \<Rightarrow> transfer_db \<Rightarrow> Transfer list" where
  "TransferMemoryDb_ListServers region db =
     (if region = [] then smap_values (db_transfers db)
      else filter (\<lambda>t. tr_region t = region) (smap_values (db_transfers db)))"

text \<open>The getters throw when nothing is found, and write the key into the row otherwise.\<close>

definition transfer_fetch :: "string \<Rightarrow> (string \<times> Transfer \<Rightarrow> bool) \<Rightarrow> transfer_db \<Rightarrow> (Transfer, transfer_db) outcome" where
  "transfer_fetch message P db =
     (case smap_find_if P (db_transfers db) of
        None \<Rightarrow> (Inl (DatabaseException message), db)
      | Some (k, t) \<Rightarrow> (Inr (t\<lparr>tr_oid := k\<rparr>), db\<lparr>db_transfers := smap_put k (t\<lparr>tr_oid := k\<rparr>) (db_transfers db)\<rparr>))"

definition TransferMemoryDb_GetTransferById :: "string \<Rightarrow> transfer_db \<Rightarrow> (Transfer, transfer_db) outcome" where
  "TransferMemoryDb_GetTransferById oid = transfer_fetch (''Get transfer by ID failed, oid: '' @ oid) (\<lambda>(k, t). k = oid)"

definition TransferMemoryDb_GetTransferByServerId :: "string \<Rightarrow> transfer_db \<Rightarrow> (Transfer, transfer_db) outcome" where
  "TransferMemoryDb_GetTransferByServerId serverId =
     transfer_fetch (''Get transfer by serverId failed, serverId: '' @ serverId) (\<lambda>(k, t). tr_serverId t = serverId)"

definition TransferMemoryDb_GetTransferByArn :: "string \<Rightarrow> transfer_db \<Rightarrow> (Transfer, transfer_db) outcome" where
  "TransferMemoryDb_GetTransferByArn arn = transfer_fetch (''Get transfer by arn failed, arn: '' @ arn) (\<lambda>(k, t). tr_arn t = arn)"

definition TransferMemoryDb_ListUsers :: "string \<Rightarrow> string \<Rightarrow> transfer_db \<Rightarrow> (TransferUser list, transfer_db) outcome" where
  "TransferMemoryDb_ListUsers region serverId db =
     andthen (TransferMemoryDb_GetTransferByServerId serverId db) (\<lambda>t db'. (Inr (tr_users t), db'))"

definition TransferMemoryDb_CreateTransfer :: "string \<Rightarrow> Transfer \<Rightarrow> transfer_db \<Rightarrow> (Transfer, transfer_db) outcome" where
  "TransferMemoryDb_CreateTransfer oid t db =
     TransferMemoryDb_GetTransferById oid (db\<lparr>db_transfers := smap_put oid t (db_transfers db)\<rparr>)"

definition TransferMemoryDb_UpdateTransfer :: "Transfer \<Rightarrow> transfer_db \<Rightarrow> (Transfer, transfer_db) outcome" where
  "TransferMemoryDb_UpdateTransfer t db =
     (case transfer_find (\<lambda>t'. tr_region t' = tr_region t \<and> tr_serverId t' = tr_serverId t) db of
        None \<Rightarrow> (Inl (DatabaseException (''Update transfer failed, serverId: '' @ tr_serverId t)), db)
      | Some (k, _) \<Rightarrow> (Inr t, db\<lparr>db_transfers := smap_put k t (db_transfers db)\<rparr>))"

definition TransferMemoryDb_CountServers :: "string \<Rightarrow> transfer_db \<Rightarrow> int" where
  "TransferMemoryDb_CountServers region db =
     (if region = [] then int (length (db_transfers db))
      else smap_count_if (\<lambda>(k, t). tr_region t = region) (db_transfers db))"

definition TransferMemoryDb_DeleteTransfer :: "string \<Rightarrow> transfer_db \<Rightarrow> transfer_db" where
  "TransferMemoryDb_DeleteTransfer serverId db =
     db\<lparr>db_transfers := smap_erase_if (\<lambda>(k, t). tr_serverId t = serverId) (db_transfers db)\<rparr>"

definition TransferMemoryDb_DeleteAllTransfers :: "transfer_db \<Rightarrow> transfer_db" where
  "TransferMemoryDb_DeleteAllTransfers db = db\<lparr>db_transfers := []\<rparr>"

section \<open>The service\<close>

definition AwsUtils_CreateTransferArn :: "string \<Rightarrow> string \<Rightarrow> string \<Rightarrow> string" where
  "AwsUtils_CreateTransferArn region accountId serverId = CreateArn ''transfer'' region accountId (''manager/'' @ serverId)"

definition AwsUtils_CreateTransferUserArn :: "string \<Rightarrow> string \<Rightarrow> string \<Rightarrow> string \<Rightarrow> string" where
  "AwsUtils_CreateTransferUserArn region accountId serverId userName =
     CreateArn ''transfer'' region accountId (serverId @ ''/'' @ userName)"

text \<open>What a request draws: the clock, the key of a new row, the hexadecimal digits of a server id, a password.\<close>

record transfer_draws =
  td_now :: int
  td_oid :: string
  td_hex :: string
  td_password :: string

record CreateServerRequest =
  csr_region :: string
  csr_protocols :: "string list"

text \<open>The answers: region, server id and ARN.\<close>

definition anonymous_user :: TransferUser where
  "anonymous_user = \<lparr>tu_userName = ''anonymous'', tu_password = ''123'', tu_homeDirectory = ''/'', tu_arn = []\<rparr>"

definition new_transfer :: "config \<Rightarrow> int \<Rightarrow> transfer_draws \<Rightarrow> CreateServerRequest \<Rightarrow> Transfer" where
  "new_transfer cfg ftpPort d request =
     (let serverId = ''s-'' @ to_lower (td_hex d)
      in (Transfer_init (td_now d))\<lparr>tr_region := csr_region request, tr_serverId := serverId,
           tr_arn := AwsUtils_CreateTransferArn (csr_region request) (cfg_accountId cfg) serverId,
           tr_protocols := csr_protocols request, tr_users := [anonymous_user], tr_port := ftpPort\<rparr>)"

definition TransferService_CreateTransferServer ::
  "config \<Rightarrow> int \<Rightarrow> transfer_draws \<Rightarrow> CreateServerRequest \<Rightarrow> transfer_db \<Rightarrow> (string \<times> string \<times> string, transfer_db) outcome" where
  "TransferService_CreateTransferServer cfg ftpPort d request db =
     (if TransferMemoryDb_TransferExistsProtocols (csr_region request) (csr_protocols request) db
      then (Inl (ServiceException ''Transfer manager exists already''), db)
      else andthen (TransferMemoryDb_CreateTransfer (td_oid d) (new_transfer cfg ftpPort d request) db) (\<lambda>t db'.
             (Inr (tr_region t, tr_serverId (new_transfer cfg ftpPort d request), tr_arn (new_transfer cfg ftpPort d request)), db')))"

record CreateUserRequest =
  cur_region :: string
  cur_serverId :: string
  cur_userName :: string
  cur_homeDirectory :: string

text \<open>The home directory that defaults to the user name is computed and not used.\<close>

definition TransferService_CreateUser ::
  "config \<Rightarrow> transfer_draws \<Rightarrow> CreateUserRequest \<Rightarrow> transfer_db \<Rightarrow> (string \<times> string \<times> string, transfer_db) outcome" where
  "TransferService_CreateUser cfg d request db =
     (if \<not> TransferMemoryDb_TransferExists (cur_region request) (cur_serverId request) db
      then (Inl (ServiceException (''Transfer manager with ID '' @ [CHR 0x27] @ cur_serverId request @ ''  does not exist'')), db)
      else andthen (TransferMemoryDb_GetTransferByServerId (cur_serverId request) db) (\<lambda>t db1.
        if Transfer_HasUser (cur_userName request) t
        then (Inl (ServiceException (''Transfer manager has already a user with name '' @ [CHR 0x27] @ cur_userName request @ [CHR 0x27])), db1)
        else let user = \<lparr>tu_userName = cur_userName request, tu_password = td_password d,
                         tu_homeDirectory = cur_homeDirectory request,
                         tu_arn = AwsUtils_CreateTransferUserArn (cur_region request) (cfg_accountId cfg) (tr_serverId t) (cur_userName request)\<rparr>
             in andthen (TransferMemoryDb_UpdateTransfer (t\<lparr>tr_users := tr_users t @ [user]\<rparr>) db1) (\<lambda>t' db2.
                  (Inr (tr_region t', tr_serverId t', cur_userName request), db2))))"


definition TransferService_ListServers :: "string \<Rightarrow> transfer_db \<Rightarrow> (string \<times> string \<times> string \<times> int) list" where
  "TransferService_ListServers region db =
     map (\<lambda>t. (tr_arn t, tr_serverId t, tr_state t, int (length (tr_users t)))) (TransferMemoryDb_ListServers region db)"

definition TransferService_ListUsers :: "string \<Rightarrow> string \<Rightarrow> transfer_db \<Rightarrow> (TransferUser list, transfer_db) outcome" where
  "TransferService_ListUsers region serverId db = catch_poco (TransferMemoryDb_ListUsers region serverId db)"

text \<open>
  The body of the three requests on one server, with the handler of their \<open>catch (Poco::Exception &)\<close>:
  it stores the entity read so far (an empty one if none was) with a failure state before it throws, so
  the exception of that update hides the one it handles.
\<close>

definition transfer_request ::
  "ServerState \<Rightarrow> string \<Rightarrow> string \<Rightarrow> int \<Rightarrow> (Transfer \<Rightarrow> transfer_db \<Rightarrow> (unit, transfer_db) outcome) \<Rightarrow> transfer_db \<Rightarrow> (unit, transfer_db) outcome" where
  "transfer_request failed region serverId now body db =
     (let handler = (\<lambda>e server db'.
            andthen (TransferMemoryDb_UpdateTransfer (server\<lparr>tr_state := ServerStateToString failed\<rparr>) db') (\<lambda>_ db''.
              (Inl (rethrow_service e), db'')))
      in if \<not> TransferMemoryDb_TransferExists region serverId db
         then handler (ServiceException (''Handler with ID '' @ [CHR 0x27] @ serverId @ [CHR 0x27] @ '' does not exist'')) (Transfer_init now) db
         else case TransferMemoryDb_GetTransferByServerId serverId db of
                (Inl e, db1) \<Rightarrow> handler e (Transfer_init now) db1
              | (Inr server, db1) \<Rightarrow>
                  case body server db1 of
                    (Inl e, db2) \<Rightarrow> handler e server db2
                  | (Inr _, db2) \<Rightarrow> (Inr (), db2))"

definition TransferService_StartServer :: "int \<Rightarrow> string \<Rightarrow> string \<Rightarrow> transfer_db \<Rightarrow> (unit, transfer_db) outcome" where
  "TransferService_StartServer now region serverId =
     transfer_request START_FAILED region serverId now (\<lambda>server db.
       andthen (TransferMemoryDb_UpdateTransfer (server\<lparr>tr_state := ServerStateToString ONLINE\<rparr>) db) (\<lambda>_ db'. (Inr (), db')))"

definition TransferService_StopServer :: "int \<Rightarrow> string \<Rightarrow> string \<Rightarrow> transfer_db \<Rightarrow> (unit, transfer_db) outcome" where
  "TransferService_StopServer now region serverId =
     transfer_request STOP_FAILED region serverId now (\<lambda>server db.
       andthen (TransferMemoryDb_UpdateTransfer (server\<lparr>tr_state := ServerStateToString OFFLINE\<rparr>) db) (\<lambda>_ db'. (Inr (), db')))"

definition TransferService_DeleteServer :: "int \<Rightarrow> string \<Rightarrow> string \<Rightarrow> transfer_db \<Rightarrow> (unit, transfer_db) outcome" where
  "TransferService_DeleteServer now region serverId =
     transfer_request STOP_FAILED region serverId now (\<lambda>server db.
       andthen (TransferMemoryDb_UpdateTransfer (server\<lparr>tr_state := ServerStateToString OFFLINE\<rparr>) db) (\<lambda>_ db'.
         (Inr (), TransferMemoryDb_DeleteTransfer serverId db')))"

section \<open>The module that runs the servers\<close>

record FtpServer =
  fv_serverId :: string
  fv_port :: int
  fv_users :: UserDatabase
  fv_running :: bool

text \<open>The table of transfers, the FTP servers by their id, and the file system.\<close>

record 'fs transfer_server =
  ts_db :: transfer_db
  ts_list :: "(string, FtpServer) smap"
  ts_fs :: 'fs

text \<open>One user: the home directory is made, the FTP server learns the user with all permissions.\<close>

fun add_transfer_users ::
  "'fs file_system \<Rightarrow> string \<Rightarrow> string \<Rightarrow> TransferUser list \<Rightarrow> 'fs transfer_server \<Rightarrow> (unit, 'fs transfer_server) outcome" where
  "add_transfer_users fso baseDir serverId [] st = (Inr (), st)"
| "add_transfer_users fso baseDir serverId (u # us) st =
     (let homeDir = path_in baseDir (tu_homeDirectory u)
      in case DirUtils_EnsureDirectory fso homeDir (ts_fs st) of
           (Inl e, fs) \<Rightarrow> (Inl e, st\<lparr>ts_fs := fs\<rparr>)
         | (Inr _, fs) \<Rightarrow>
             add_transfer_users fso baseDir serverId us (st\<lparr>ts_fs := fs, ts_list :=
               (case smap_get serverId (ts_list st) of
                  None \<Rightarrow> ts_list st
                | Some server \<Rightarrow> smap_put serverId (server\<lparr>fv_users :=
                    snd (UserDatabase_addUser (tu_userName u) (tu_password u) homeDir AllPermissions (fv_users server))\<rparr>) (ts_list st))\<rparr>))"

text \<open>\<open>starts\<close> tells whether the acceptor of a new server could be set up; the result is not looked at.\<close>

definition set_running :: "bool \<Rightarrow> string \<Rightarrow> 'fs transfer_server \<Rightarrow> 'fs transfer_server" where
  "set_running b serverId st =
     (case smap_get serverId (ts_list st) of
        None \<Rightarrow> st
      | Some server \<Rightarrow> st\<lparr>ts_list := smap_put serverId (server\<lparr>fv_running := b\<rparr>) (ts_list st)\<rparr>)"

definition TransferServer_StartTransferServer ::
  "'fs file_system \<Rightarrow> string \<Rightarrow> (string \<Rightarrow> bool) \<Rightarrow> Transfer \<Rightarrow> 'fs transfer_server \<Rightarrow> (unit, 'fs transfer_server) outcome" where
  "TransferServer_StartTransferServer fso baseDir starts t st =
     (let server = \<lparr>fv_serverId = tr_serverId t, fv_port = tr_port t, fv_users = \<lparr>ud_users = [], ud_anonymous = None\<rparr>, fv_running = False\<rparr>
      in andthen (add_transfer_users fso baseDir (tr_serverId t) (tr_users t) (st\<lparr>ts_list := smap_put (tr_serverId t) server (ts_list st)\<rparr>))
           (\<lambda>_ st1. (Inr (), set_running (starts (tr_serverId t)) (tr_serverId t) st1)))"

text \<open>\<open>operator[]\<close> of the map makes a null pointer for an id that is not in it, which is then called.\<close>

definition TransferServer_StopTransferServer :: "Transfer \<Rightarrow> 'fs transfer_server \<Rightarrow> (unit, 'fs transfer_server) outcome" where
  "TransferServer_StopTransferServer t st =
     (if smap_get (tr_serverId t) (ts_list st) = None then (Inl UndefinedBehaviour, st)
      else (Inr (), set_running False (tr_serverId t) st))"

text \<open>
  The run over the transfers (the region of the module is never set, so those of all regions): it
  looks whether a server is in the list, not whether it runs.
\<close>

fun check_transfers ::
  "'fs file_system \<Rightarrow> string \<Rightarrow> (string \<Rightarrow> bool) \<Rightarrow> Transfer list \<Rightarrow> 'fs transfer_server \<Rightarrow> (unit, 'fs transfer_server) outcome" where
  "check_transfers fso baseDir starts [] st = (Inr (), st)"
| "check_transfers fso baseDir starts (t # ts) st =
     andthen (if tr_state t = ServerStateToString ONLINE
              then if smap_get (tr_serverId t) (ts_list st) = None then TransferServer_StartTransferServer fso baseDir starts t st
                   else (Inr (), st)
              else if tr_state t = ServerStateToString OFFLINE
              then if smap_get (tr_serverId t) (ts_list st) \<noteq> None then TransferServer_StopTransferServer t st
                   else (Inr (), st)
              else (Inr (), st))
       (\<lambda>_ st1. check_transfers fso baseDir starts ts st1)"

text \<open>A server whose transfer is gone is looked up in the table it is gone from.\<close>

fun check_deleted :: "string list \<Rightarrow> 'fs transfer_server \<Rightarrow> (unit, 'fs transfer_server) outcome" where
  "check_deleted [] st = (Inr (), st)"
| "check_deleted (serverId # ids) st =
     andthen (if \<not> TransferMemoryDb_TransferExistsId serverId (ts_db st)
              then case TransferMemoryDb_GetTransferByServerId serverId (ts_db st) of
                     (Inl e, db) \<Rightarrow> (Inl e, st\<lparr>ts_db := db\<rparr>)
                   | (Inr t, db) \<Rightarrow> TransferServer_StopTransferServer t (st\<lparr>ts_db := db\<rparr>)
              else (Inr (), st))
       (\<lambda>_ st1. check_deleted ids st1)"

definition TransferServer_CheckTransferServers ::
  "'fs file_system \<Rightarrow> string \<Rightarrow> (string \<Rightarrow> bool) \<Rightarrow> 'fs transfer_server \<Rightarrow> (unit, 'fs transfer_server) outcome" where
  "TransferServer_CheckTransferServers fso baseDir starts st =
     andthen (check_transfers fso baseDir starts (TransferMemoryDb_ListServers [] (ts_db st)) st) (\<lambda>_ st1.
       check_deleted (map fst (ts_list st1)) st1)"

fun start_transfers ::
  "'fs file_system \<Rightarrow> string \<Rightarrow> (string \<Rightarrow> bool) \<Rightarrow> Transfer list \<Rightarrow> 'fs transfer_server \<Rightarrow> (unit, 'fs transfer_server) outcome" where
  "start_transfers fso baseDir starts [] st = (Inr (), st)"
| "start_transfers fso baseDir starts (t # ts) st =
     andthen (if tr_state t = ServerStateToString ONLINE then TransferServer_StartTransferServer fso baseDir starts t st else (Inr (), st))
       (\<lambda>_ st1. start_transfers fso baseDir starts ts st1)"

definition TransferServer_StartTransferServers ::
  "'fs file_system \<Rightarrow> string \<Rightarrow> (string \<Rightarrow> bool) \<Rightarrow> 'fs transfer_server \<Rightarrow> (unit, 'fs transfer_server) outcome" where
  "TransferServer_StartTransferServers fso baseDir starts st =
     start_transfers fso baseDir starts (TransferMemoryDb_ListServers [] (ts_db st)) st"

end
