(* ===== verification/FtpFacts.thy ===== *)
theory FtpFacts
  imports FtpSession S3Upload
begin

unbundle bit_operations_syntax

text \<open>
  Facts about the FTP session: where its paths lead, what its commands may change, and the step
  relation of a session with its invariant.
\<close>

section \<open>Paths\<close>

lemma toAbsoluteFtpPath_relative:
  assumes "\<forall>c \<in> set cs. proper_component c" "path = [] \<or> hd path \<noteq> CHR ''/''"
  shows "\<exists>ds. (\<forall>d \<in> set ds. proper_component d) \<and> toAbsoluteFtpPath (folder cs) path = folder ds \<and> ds = walk cs (components path)"
proof -
  have "toAbsoluteFtpPath (folder cs) path = cleanPathNative (CHR ''/'' # join_components (CHR ''/'') cs @ ''/'' @ path)"
    using assms(2) by (auto simp: toAbsoluteFtpPath_def cleanPathNative_def folder_def)
  also have "\<dots> = folder (walk cs (components path))"
    using clean_below [of "join_components (CHR ''/'') cs" path] assms(1) by (simp add: walk_join)
  finally show ?thesis using walk_components_proper [OF assms(1)] by simp
qed

lemma toLocalPath_folder:
  assumes "fu_local_root_path user = CHR ''/'' # r"
  shows "cleanPathNative (fu_local_root_path user @ ''/'' @ p) = folder (walk (walk [] (components r)) (components p))"
  using assms clean_below [of r p] by simp

text \<open>A path that does not start with a slash stays below the root of the user.\<close>

lemma toLocalPath_relative:
  assumes "fu_local_root_path user = CHR ''/'' # r" "\<forall>c \<in> set cs. proper_component c" "path = [] \<or> hd path \<noteq> CHR ''/''"
  obtains ds where "\<forall>d \<in> set ds. proper_component d"
    "toLocalPath user (folder cs) path = folder (walk [] (components r) @ ds)"
proof -
  obtain ds where ds: "\<forall>d \<in> set ds. proper_component d" "toAbsoluteFtpPath (folder cs) path = folder ds"
    using toAbsoluteFtpPath_relative [OF assms(2,3)] by blast
  have "components (folder ds) = [] # components (join_components (CHR ''/'') ds)"
    using components_split [of "[]" "join_components (CHR ''/'') ds"] by (simp add: folder_def)
  then have "toLocalPath user (folder cs) path = folder (walk (walk [] (components r)) (components (join_components (CHR ''/'') ds)))"
    using toLocalPath_folder [OF assms(1), of "folder ds"] ds by (simp add: toLocalPath_def walk_def)
  then show ?thesis using that [of ds] ds(1) walk_join [OF ds(1)] by simp
qed

text \<open>A path that does start with one is not cleaned before it is put behind the root.\<close>

lemma toLocalPath_absolute:
  assumes "fu_local_root_path user = CHR ''/'' # r" "\<forall>t \<in> set ts. proper_component t"
  shows "toLocalPath user cwd (folder (replicate (length (walk [] (components r))) ''..'' @ ts)) = folder ts"
proof -
  let ?root = "walk [] (components r)" and ?dots = "replicate (length (walk [] (components r))) ''..''"
  have noslash: "\<forall>c \<in> set (?dots @ ts). CHR ''/'' \<notin> set c"
  proof
    fix c assume "c \<in> set (?dots @ ts)"
    then consider "c = ''..''" | "c \<in> set ts" by auto
    then show "CHR ''/'' \<notin> set c" using assms(2) by cases (simp_all add: proper_component_def)
  qed
  have "components (folder (?dots @ ts)) = [] # (if ?dots @ ts = [] then [[]] else ?dots @ ts)"
    using components_split [of "[]" "join_components (CHR ''/'') (?dots @ ts)"] components_join [OF noslash] by (simp add: folder_def)
  then have "walk ?root (components (folder (?dots @ ts))) = walk ?root (?dots @ ts)"
    by (simp only: walk_blank)
  also have "\<dots> = ts" using walk_up [of ?root] walk_down [OF assms(2), of "[]"] by (simp add: walk_append)
  finally show ?thesis
    using toLocalPath_folder [OF assms(1), of "folder (?dots @ ts)"]
    by (simp add: toLocalPath_def toAbsoluteFtpPath_def folder_def)
qed

section \<open>What a session may change\<close>

definition WritePermissions :: permission where
  "WritePermissions = FileWrite OR FileAppend OR FileDelete OR FileRename OR DirCreate OR DirDelete OR DirRename"

lemmas permission_defs = FileRead_def FileWrite_def FileAppend_def FileDelete_def FileRename_def DirList_def
  DirCreate_def DirDelete_def DirRename_def

lemma no_write:
  assumes "fu_permissions u AND WritePermissions = 0"
    and "p \<in> {FileWrite, FileAppend, FileDelete, FileRename, DirCreate, DirDelete, DirRename}"
  shows "fu_permissions u AND p = 0" "p \<noteq> 0"
proof -
  have p: "WritePermissions AND p = p" "p \<noteq> 0"
    using assms(2) by (auto simp: WritePermissions_def permission_defs)
  have "fu_permissions u AND p = (fu_permissions u AND WritePermissions) AND p"
    by (simp add: and.assoc p(1))
  then show "fu_permissions u AND p = 0" "p \<noteq> 0" using assms(1) p(2) by simp_all
qed

definition no_writer :: "'fs ftp_state \<Rightarrow> bool" where
  "no_writer st \<longleftrightarrow> (case se_user st of None \<Rightarrow> True | Some u \<Rightarrow> fu_permissions u AND WritePermissions = 0)"

fun is_upload :: "data_job \<Rightarrow> bool" where
  "is_upload (ReceiveJob _ _) = True"
| "is_upload _ = False"

text \<open>Nothing was written and no upload was opened.\<close>

definition no_effect :: "'fs ftp_state \<Rightarrow> (unit, 'fs ftp_state) outcome \<Rightarrow> bool" where
  "no_effect st r \<longleftrightarrow> fst r = Inr () \<and> se_aws (snd r) = se_aws st \<and> se_uploads (snd r) = se_uploads st \<and>
     filter is_upload (se_jobs (snd r)) = filter is_upload (se_jobs st)"

lemma no_effect_reply:
  "se_aws st' = se_aws st \<Longrightarrow> se_uploads st' = se_uploads st \<Longrightarrow>
     filter is_upload (se_jobs st') = filter is_upload (se_jobs st) \<Longrightarrow> no_effect st (reply code text st')"
  "se_aws st' = se_aws st \<Longrightarrow> se_uploads st' = se_uploads st \<Longrightarrow>
     filter is_upload (se_jobs st') = filter is_upload (se_jobs st) \<Longrightarrow> no_effect st (Inr (), sendFtpMessage m st')"
  by (simp_all add: no_effect_def reply_def sendFtpMessage_def sendRawFtpMessage_def)

lemma no_effect_need_login:
  "(\<And>u. se_user st = Some u \<Longrightarrow> no_effect st (k u st)) \<Longrightarrow> no_effect st (need_login k st)"
  by (auto simp: need_login_def no_effect_reply split: option.splits)

lemma no_effect_need_permission:
  "(may p u \<Longrightarrow> no_effect st (k st)) \<Longrightarrow> no_effect st (need_permission p code u k st)"
  by (simp add: need_permission_def no_effect_reply)

lemma no_effect_need_acceptor: "no_effect st (k st) \<Longrightarrow> no_effect st (need_acceptor k st)"
  by (simp add: need_acceptor_def no_effect_reply)

lemma executeCWD_state: "executeCWD w param st = (m, st') \<Longrightarrow> \<exists>dir. st' = st\<lparr>se_cwd := dir\<rparr>"
  by (auto simp: executeCWD_def Let_def split: option.splits if_splits intro: exI [of _ "se_cwd st"])

lemma no_effect_CWD: "no_effect st (handleFtpCommandCWD w param st)" "no_effect st (handleFtpCommandCDUP w param st)"
proof -
  obtain m st' where "executeCWD w param st = (m, st')" by fastforce
  then show "no_effect st (handleFtpCommandCWD w param st)"
    using executeCWD_state [of w param st m st'] by (auto simp: handleFtpCommandCWD_def no_effect_reply)
  obtain m2 st2 where "executeCWD w ''..'' st = (m2, st2)" by fastforce
  then show "no_effect st (handleFtpCommandCDUP w param st)"
    using executeCWD_state [of w "''..''" st m2 st2] unfolding handleFtpCommandCDUP_def
    by (intro no_effect_need_login no_effect_need_permission) (auto simp: no_effect_reply)
qed

text \<open>The commands that need no write permission.\<close>

lemma no_effect_harmless:
  "no_effect st (handleFtpCommandUSER param st)" "no_effect st (handleFtpCommandPASS w param st)"
  "no_effect st (unsupported code text param st)" "no_effect st (handleFtpCommandQUIT param st)"
  "no_effect st (handleFtpCommandPASV d param st)" "no_effect st (handleFtpCommandTYPE param st)"
  "no_effect st (handleFtpCommandRETR w param st)" "no_effect st (handleFtpCommandSIZE w param st)"
  "no_effect st (handleFtpCommandRNFR w param st)" "no_effect st (handleFtpCommandPWD param st)"
  "no_effect st (handleFtpCommandLIST w param st)" "no_effect st (handleFtpCommandNLST w param st)"
  "no_effect st (handleFtpCommandFEAT param st)" "no_effect st (handleFtpCommandOPTS param st)"
  by (auto simp: handleFtpCommandUSER_def handleFtpCommandPASS_def unsupported_def handleFtpCommandQUIT_def
      handleFtpCommandPASV_def handleFtpCommandTYPE_def handleFtpCommandRETR_def handleFtpCommandSIZE_def
      handleFtpCommandRNFR_def handleFtpCommandPWD_def handleFtpCommandLIST_def handleFtpCommandNLST_def send_listing_def
      handleFtpCommandFEAT_def handleFtpCommandOPTS_def Let_def no_effect_def sendRawFtpMessage_def
      need_login_def need_permission_def need_acceptor_def reply_def sendFtpMessage_def
      split: option.splits if_splits)

text \<open>The other commands, for a session that may not write.\<close>

lemma no_writer_may:
  assumes "no_writer st" "se_user st = Some u"
    and "p \<in> {FileWrite, FileAppend, FileDelete, FileRename, DirCreate, DirDelete, DirRename}"
  shows "\<not> may p u" "fu_permissions u AND p \<noteq> p"
  using no_write [of u p] assms by (simp_all add: no_writer_def may_def)

lemma no_effect_write_commands:
  assumes "no_writer st"
  shows "no_effect st (handleFtpCommandSTOR w param st)" "no_effect st (handleFtpCommandAPPE w param st)"
    "no_effect st (handleFtpCommandDELE w d param st)" "no_effect st (handleFtpCommandRMD w param st)"
    "no_effect st (handleFtpCommandMKD w param st)"
  using no_writer_may [OF assms]
  by (auto simp: handleFtpCommandSTOR_def handleFtpCommandAPPE_def handleFtpCommandDELE_def handleFtpCommandRMD_def
      handleFtpCommandMKD_def need_login_def need_permission_def no_effect_reply Let_def split: option.splits)

lemma checkIfPathIsRenamable_no_writer: "no_writer st \<Longrightarrow> fst (checkIfPathIsRenamable w st path) \<noteq> COMMAND_OK"
  using no_writer_may(2) [of st _ DirRename] no_writer_may(2) [of st _ FileRename]
  by (auto simp: checkIfPathIsRenamable_def Let_def split: option.splits if_splits)

lemma no_effect_RNTO: "no_writer st \<Longrightarrow> no_effect st (handleFtpCommandRNTO w param st)"
  using checkIfPathIsRenamable_no_writer [of st w "se_renameFromPath st"]
  by (auto simp: handleFtpCommandRNTO_def need_login_def no_effect_reply Let_def split: option.splits)

lemma no_effect_command:
  assumes "no_writer st" "(name, handler) \<in> set (command_map w d)"
  shows "no_effect st (handler param st)"
  using assms(2) unfolding command_map_def list.set insert_iff empty_iff prod.inject
  by (elim disjE conjE FalseE;
      simp add: no_effect_harmless no_effect_CWD no_effect_write_commands [OF assms(1)] no_effect_RNTO [OF assms(1)])

lemma handleFtpCommand_no_effect:
  assumes "no_writer st"
  shows "no_effect st (handleFtpCommand w d command st)"
proof -
  let ?st0 = "st\<lparr>se_reading := False\<rparr>" and ?name = "to_upper (takeWhile (\<lambda>c. c \<noteq> CHR '' '') command)"
  have st0: "no_writer ?st0" using assms by (simp add: no_writer_def)
  show ?thesis
  proof (cases "map_of (command_map w d) ?name")
    case None
    then show ?thesis
      by (simp add: handleFtpCommand_def Let_def no_effect_def reply_def sendFtpMessage_def sendRawFtpMessage_def)
  next
    case (Some handler)
    let ?param = "if CHR '' '' \<in> set command then tl (dropWhile (\<lambda>c. c \<noteq> CHR '' '') command) else []"
    have eff: "no_effect ?st0 (handler ?param ?st0)"
      by (rule no_effect_command [OF st0 map_of_SomeD [OF Some]])
    then obtain st1 where run: "handler ?param ?st0 = (Inr (), st1)"
      by (cases "handler ?param ?st0") (simp add: no_effect_def)
    have "handleFtpCommand w d command st = (Inr (), st1\<lparr>se_lastCommand := ?name, se_reading := ?name \<noteq> ''QUIT''\<rparr>)"
      unfolding handleFtpCommand_def Let_def Some option.case run by simp
    then show ?thesis using eff by (simp add: no_effect_def run)
  qed
qed

section \<open>Logging in\<close>

text \<open>Only \<open>PASS\<close> right after \<open>USER\<close> logs a session in, and only as a user of the database.\<close>

definition known_user :: "'fs ftp_world \<Rightarrow> 'fs ftp_state \<Rightarrow> bool" where
  "known_user w st \<longleftrightarrow> (\<forall>u. se_user st = Some u \<longrightarrow> (\<exists>password. UserDatabase_getUser (se_usernameForLogin st) password (fw_users w) = Some u))"

text \<open>What the session itself is: where it stands and who uses it.\<close>

definition ftp_wf :: "'fs ftp_world \<Rightarrow> 'fs ftp_state \<Rightarrow> bool" where
  "ftp_wf w st \<longleftrightarrow> (\<exists>cs. (\<forall>c \<in> set cs. proper_component c) \<and> se_cwd st = folder cs) \<and> known_user w st"

definition same_session :: "'fs ftp_state \<Rightarrow> 'fs ftp_state \<Rightarrow> bool" where
  "same_session st st' \<longleftrightarrow> se_cwd st' = se_cwd st \<and> se_user st' = se_user st \<and> se_usernameForLogin st' = se_usernameForLogin st"

lemma ftp_wf_same: "ftp_wf w st \<Longrightarrow> same_session st st' \<Longrightarrow> ftp_wf w st'"
  by (simp add: ftp_wf_def same_session_def known_user_def)

lemma same_session_reply: "same_session st st' \<Longrightarrow> same_session st (snd (reply code text st'))"
  by (simp add: same_session_def reply_def sendFtpMessage_def sendRawFtpMessage_def)

lemma SendCreateObjectRequest_same: "same_session st (snd (SendCreateObjectRequest w d user fileName st))"
  by (auto simp: SendCreateObjectRequest_def same_session_def split: sum.splits option.splits prod.splits)

lemma SendDeleteObjectRequest_same: "same_session st (snd (SendDeleteObjectRequest w d fileName st))"
  by (auto simp: SendDeleteObjectRequest_def same_session_def split: sum.splits prod.splits)

lemma same_session_trans: "same_session st st1 \<Longrightarrow> same_session st1 st2 \<Longrightarrow> same_session st st2"
  by (simp add: same_session_def)

lemma folder_Nil: "folder [] = ''/''"
  by (simp add: folder_def)

lemma ftp_wf_executeCWD:
  assumes wf: "ftp_wf w st"
  shows "ftp_wf w (snd (executeCWD w param st))"
proof -
  obtain cs where cs: "\<forall>c \<in> set cs. proper_component c" "se_cwd st = folder cs" using wf by (auto simp: ftp_wf_def)
  have clean: "\<exists>ds. (\<forall>d \<in> set ds. proper_component d) \<and> cleanPath (CHR ''/'' # p) False (CHR ''/'') = folder ds" for p
    using cleanPath_rooted [of p] walk_components_proper [of "[]" p] by (auto simp: cleanPathNative_def)
  have "\<exists>ds. (\<forall>d \<in> set ds. proper_component d) \<and>
      (if hd param = CHR ''/'' then cleanPath param False (CHR ''/'') else cleanPath (se_cwd st @ ''/'' @ param) False (CHR ''/'')) = folder ds"
    if "param \<noteq> []"
    using that clean [of "tl param"] clean [of "join_components (CHR ''/'') cs @ ''/'' @ param"] cs(2)
    by (cases param) (auto simp: folder_def)
  then show ?thesis
    using wf by (auto simp: executeCWD_def ftp_wf_def known_user_def Let_def split: option.splits)
qed

lemma ftp_wf_reply: "ftp_wf w st \<Longrightarrow> ftp_wf w (snd (reply code text st))" "ftp_wf w st \<Longrightarrow> ftp_wf w (sendFtpMessage m st)"
  by (simp_all add: ftp_wf_def known_user_def reply_def sendFtpMessage_def sendRawFtpMessage_def)

lemma ftp_wf_need_login: "ftp_wf w st \<Longrightarrow> (\<And>u. ftp_wf w (snd (k u st))) \<Longrightarrow> ftp_wf w (snd (need_login k st))"
  by (auto simp: need_login_def ftp_wf_reply split: option.splits)

lemma ftp_wf_logins:
  assumes wf: "ftp_wf w st"
  shows "ftp_wf w (snd (handleFtpCommandUSER param st))" "ftp_wf w (snd (handleFtpCommandPASS w param st))"
    "ftp_wf w (snd (handleFtpCommandQUIT param st))" "ftp_wf w (snd (handleFtpCommandCWD w param st))"
    "ftp_wf w (snd (handleFtpCommandCDUP w param st))"
proof -
  show "ftp_wf w (snd (handleFtpCommandUSER param st))"
    by (auto simp: handleFtpCommandUSER_def Let_def ftp_wf_def known_user_def reply_def sendFtpMessage_def sendRawFtpMessage_def
        intro!: exI [of _ "[]"] simp flip: folder_Nil)
  show "ftp_wf w (snd (handleFtpCommandPASS w param st))"
    using wf by (auto simp: handleFtpCommandPASS_def ftp_wf_def known_user_def reply_def sendFtpMessage_def sendRawFtpMessage_def
        split: option.splits)
  show "ftp_wf w (snd (handleFtpCommandQUIT param st))"
    using wf by (simp add: handleFtpCommandQUIT_def ftp_wf_def known_user_def reply_def sendFtpMessage_def sendRawFtpMessage_def)
  show "ftp_wf w (snd (handleFtpCommandCWD w param st))"
    using ftp_wf_executeCWD [OF wf, of param]
    by (cases "executeCWD w param st") (simp add: handleFtpCommandCWD_def ftp_wf_reply)
  show "ftp_wf w (snd (handleFtpCommandCDUP w param st))"
    unfolding handleFtpCommandCDUP_def using wf
    by (rule ftp_wf_need_login)
       (use wf ftp_wf_executeCWD [OF wf, of "''..''"] in
         \<open>cases "executeCWD w ''..'' st"; auto simp: need_permission_def ftp_wf_reply\<close>)
qed


text \<open>All other commands leave the session where it is.\<close>

lemma same_session_refl [simp]: "same_session st st" by (simp add: same_session_def)

lemma same_session_updates [simp]:
  "same_session st (st'\<lparr>se_jobs := js\<rparr>) = same_session st st'" "same_session st (st'\<lparr>se_aws := a\<rparr>) = same_session st st'"
  "same_session st (st'\<lparr>se_renameFromPath := s\<rparr>) = same_session st st'" "same_session st (st'\<lparr>se_binary := b\<rparr>) = same_session st st'"
  "same_session st (st'\<lparr>se_acceptor_open := b\<rparr>) = same_session st st'" "same_session st (st'\<lparr>se_uploads := us\<rparr>) = same_session st st'"
  "same_session st (st'\<lparr>se_lastCommand := s\<rparr>) = same_session st st'" "same_session st (st'\<lparr>se_reading := b\<rparr>) = same_session st st'"
  "same_session st (st'\<lparr>se_data := ds\<rparr>) = same_session st st'" "same_session st (se_put_fs fs st') = same_session st st'"
  "same_session st (sendFtpMessage m st') = same_session st st'" "same_session st (sendRawFtpMessage raw st') = same_session st st'"
  by (simp_all add: same_session_def se_put_fs_def sendFtpMessage_def sendRawFtpMessage_def)

lemmas handler_defs = unsupported_def handleFtpCommandPASV_def handleFtpCommandTYPE_def handleFtpCommandRETR_def
  handleFtpCommandSIZE_def handleFtpCommandSTOR_def handleFtpCommandAPPE_def handleFtpCommandRNFR_def
  handleFtpCommandRNTO_def handleFtpCommandRMD_def handleFtpCommandMKD_def handleFtpCommandPWD_def
  handleFtpCommandLIST_def handleFtpCommandNLST_def handleFtpCommandFEAT_def handleFtpCommandOPTS_def
  receive_into_def send_listing_def

lemma same_session_handlers:
  "same_session st (snd (unsupported code text param st))"
  "same_session st (snd (handleFtpCommandPASV d param st))" "same_session st (snd (handleFtpCommandTYPE param st))"
  "same_session st (snd (handleFtpCommandRETR w param st))" "same_session st (snd (handleFtpCommandSIZE w param st))"
  "same_session st (snd (handleFtpCommandSTOR w param st))" "same_session st (snd (handleFtpCommandAPPE w param st))"
  "same_session st (snd (handleFtpCommandRNFR w param st))" "same_session st (snd (handleFtpCommandRNTO w param st))"
  "same_session st (snd (handleFtpCommandRMD w param st))" "same_session st (snd (handleFtpCommandMKD w param st))"
  "same_session st (snd (handleFtpCommandPWD param st))" "same_session st (snd (handleFtpCommandLIST w param st))"
  "same_session st (snd (handleFtpCommandNLST w param st))" "same_session st (snd (handleFtpCommandFEAT param st))"
  "same_session st (snd (handleFtpCommandOPTS param st))"
  by (auto simp: handler_defs need_login_def need_permission_def need_acceptor_def reply_def Let_def
      split: option.split prod.split)

lemma same_session_DELE: "same_session st (snd (handleFtpCommandDELE w d param st))"
proof -
  have del: "same_session st (snd (andthen (SendDeleteObjectRequest w d path st') (\<lambda>_. reply code msg)))"
    if "same_session st st'" for path st' code msg
    using same_session_trans [OF that SendDeleteObjectRequest_same [of st' w d path]]
    by (cases "SendDeleteObjectRequest w d path st'" rule: andthen_cases) (auto simp: reply_def)
  then show ?thesis
    by (auto simp: handleFtpCommandDELE_def need_login_def reply_def [abs_def] Let_def split: option.split prod.split)
qed

lemma ftp_wf_command:
  assumes wf: "ftp_wf w st" and "(name, handler) \<in> set (command_map w d)"
  shows "ftp_wf w (snd (handler param st))"
  using assms(2) unfolding command_map_def list.set insert_iff empty_iff prod.inject
  by (elim disjE conjE FalseE;
      simp add: ftp_wf_logins [OF wf] ftp_wf_same [OF wf] same_session_handlers same_session_DELE)

lemma ftp_wf_handleFtpCommand:
  assumes wf: "ftp_wf w st"
  shows "ftp_wf w (snd (handleFtpCommand w d command st))"
proof -
  let ?st0 = "st\<lparr>se_reading := False\<rparr>" and ?name = "to_upper (takeWhile (\<lambda>c. c \<noteq> CHR '' '') command)"
  let ?param = "if CHR '' '' \<in> set command then tl (dropWhile (\<lambda>c. c \<noteq> CHR '' '') command) else []"
  have st0: "ftp_wf w ?st0" using wf by (rule ftp_wf_same) simp
  have upd: "ftp_wf w (st'\<lparr>se_lastCommand := s\<rparr>) \<longleftrightarrow> ftp_wf w st'"
    "ftp_wf w (st'\<lparr>se_reading := b\<rparr>) \<longleftrightarrow> ftp_wf w st'" for st' s b
    by (simp_all add: ftp_wf_def known_user_def)
  show ?thesis
  proof (cases "map_of (command_map w d) ?name")
    case None
    then show ?thesis using st0
      by (simp add: handleFtpCommand_def Let_def reply_def ftp_wf_reply upd)
  next
    case (Some handler)
    have "ftp_wf w (snd (handler ?param ?st0))" by (rule ftp_wf_command [OF st0 map_of_SomeD [OF Some]])
    then show ?thesis unfolding handleFtpCommand_def Let_def Some option.case
      by (cases "handler ?param ?st0" rule: andthen_cases) (simp_all add: upd)
  qed
qed

section \<open>The session as a step relation\<close>

text \<open>
  A session takes a command when it waits for one; jobs and uploads proceed on their own; other
  clients, other services and the system change the rest of the world.  An exception that leaves a
  handler ends the process, so steps are those that return.
\<close>

inductive ftp_step :: "'fs ftp_world \<Rightarrow> 'fs ftp_state \<Rightarrow> 'fs ftp_state \<Rightarrow> bool" for w where
  command: "se_reading st \<Longrightarrow> handleFtpCommand w d line st = (Inr (), st') \<Longrightarrow> ftp_step w st st'"
| accepted: "data_accepted w d ok st = (Inr (), st') \<Longrightarrow> ftp_step w st st'"
| arrived: "upload_data w bytes st = (Inr (), st') \<Longrightarrow> ftp_step w st st'"
| finished: "upload_end w d bytes st = (Inr (), st') \<Longrightarrow> ftp_step w st st'"
| others: "ftp_step w st (st\<lparr>se_aws := aws\<rparr>)"

inductive ftp_reachable :: "'fs ftp_world \<Rightarrow> 'fs ftp_state \<Rightarrow> bool" for w where
  start: "ftp_reachable w (ftp_start aws)"
| step: "ftp_reachable w st \<Longrightarrow> ftp_step w st st' \<Longrightarrow> ftp_reachable w st'"

lemma same_session_data:
  "same_session st (snd (data_accepted w d ok st))" "same_session st (snd (upload_data w bytes st))"
  "same_session st (snd (upload_end w d bytes st))"
proof -
  show "same_session st (snd (data_accepted w d ok st))"
    by (auto simp: data_accepted_def reply_def send_data_def Let_def split: list.split data_job.split sum.split)
  show up: "same_session st (snd (upload_data w bytes st))" for bytes
    by (auto simp: upload_data_def writeDataToFile_def split: list.split)
  show "same_session st (snd (upload_end w d bytes st))"
  proof (cases "se_uploads st")
    case (Cons pu us)
    obtain path user where pu: "pu = (path, user)" by (cases pu)
    obtain st1 where u: "upload_data w bytes st = (Inr (), st1)" by (simp add: upload_data_def Cons pu)
    then have st1: "same_session st st1" using up [of bytes] by simp
    have "same_session st (snd (SendCreateObjectRequest w d user path (sendFtpMessage m (st1\<lparr>se_uploads := us\<rparr>))))" for m
      by (rule same_session_trans [OF _ SendCreateObjectRequest_same]) (simp add: st1)
    then show ?thesis by (simp add: upload_end_def Cons pu u endDataReceiving_def)
  qed (simp add: upload_end_def)
qed

lemma ftp_reachable_ftp_wf: "ftp_reachable w st \<Longrightarrow> ftp_wf w st"
proof (induction rule: ftp_reachable.induct)
  case (start aws)
  have "\<exists>cs. (\<forall>c \<in> set cs. proper_component c) \<and> ''/'' = folder cs" by (rule exI [of _ "[]"]) (simp add: folder_def)
  then show ?case by (simp add: ftp_start_def ftp_wf_def known_user_def)
next
  case (step st st')
  from step.hyps(2) show ?case
  proof cases
    case (command d line)
    then show ?thesis using ftp_wf_handleFtpCommand [OF step.IH, of d line] by simp
  qed (use ftp_wf_same [OF step.IH] same_session_data [where st = st] in \<open>(metis snd_conv | simp)\<close>)+
qed


text \<open>A command line \<open>name param\<close>.\<close>

lemma handleFtpCommand_line:
  assumes "CHR '' '' \<notin> set name" "to_upper name = up" "map_of (command_map w d) up = Some handler"
  shows "handleFtpCommand w d (name @ '' '' @ param) st =
    andthen (handler param (st\<lparr>se_reading := False\<rparr>)) (\<lambda>_ st1. (Inr (), st1\<lparr>se_lastCommand := up, se_reading := up \<noteq> ''QUIT''\<rparr>))"
proof -
  have "takeWhile (\<lambda>c. c \<noteq> CHR '' '') (name @ '' '' @ param) = name" "dropWhile (\<lambda>c. c \<noteq> CHR '' '') (name @ '' '' @ param) = '' '' @ param"
    using assms(1) by (auto simp: takeWhile_append dropWhile_append)
  then show ?thesis using assms(2,3) by (simp add: handleFtpCommand_def)
qed

end
