(* ===== verification/FtpProperties.thy ===== *)
theory FtpProperties
  imports FtpFacts S3Properties
begin

unbundle bit_operations_syntax

text \<open>
  Properties of the FTP server: what paths a session can reach, who may change files, the reply of
  \<open>PASV\<close>, and what becomes of an upload.
\<close>

section \<open>An installation\<close>

definition demo_stat :: "string \<Rightarrow> demo_files \<Rightarrow> file_stat option" where
  "demo_stat p fs =
     (if p @ ''/'' \<in> set (map fst fs) then Some \<lparr>st_mode = 0x41ED, st_size = 0, st_ctime = 0\<rparr>
      else if p \<in> set (map fst fs) then Some \<lparr>st_mode = 0x81A4, st_size = int (length (files_read p fs)), st_ctime = 0\<rparr>
      else None)"

definition demo_posix :: "demo_files posix" where
  "demo_posix =
     \<lparr>px_stat = demo_stat, px_readdir = (\<lambda>p fs. case fs_list demo_fso p fs of Inl _ \<Rightarrow> None | Inr names \<Rightarrow> Some names),
      px_can_read = files_exist, px_end_position = (\<lambda>p fs. int (length (files_read p fs))),
      px_open_write = (\<lambda>p fs. (True, fs_write demo_fso p [] fs)), px_open_append = (\<lambda>p fs. (True, fs)),
      px_append = (\<lambda>p b fs. fs_write demo_fso p (files_read p fs @ b) fs),
      px_unlink = (\<lambda>p fs. (True, filter (\<lambda>(q, _). q \<noteq> p) fs)), px_rmdir = (\<lambda>p fs. (False, fs)),
      px_mkdir = (\<lambda>p fs. (True, (p @ ''/'', []) # fs)), px_rename = (\<lambda>p q fs. (False, fs)),
      px_localtime = (\<lambda>t. \<lparr>tm_year = 70, tm_mon = 0, tm_mday = 1, tm_hour = 0, tm_min = 0\<rparr>)\<rparr>"

definition demo_ftp_user :: FtpUser where
  "demo_ftp_user = \<lparr>fu_username = ''joe'', fu_password = ''pw'', fu_local_root_path = ''/t/joe'', fu_permissions = AllPermissions\<rparr>"

definition demo_ftp_world :: "demo_files ftp_world" where
  "demo_ftp_world =
     \<lparr>fw_s3 = demo_world, fw_posix = demo_posix,
      fw_users = snd (UserDatabase_addUser ''joe'' ''pw'' ''/t/joe'' AllPermissions \<lparr>ud_users = [], ud_anonymous = None\<rparr>),
      fw_region = ''eu'', fw_bucket = ''b'', fw_transferDir = ''/t'', fw_serverName = ''s-1''\<rparr>"

definition demo_ftp_draws :: "string \<Rightarrow> string \<Rightarrow> ftp_draws" where
  "demo_ftp_draws oid name = \<lparr>fd_s3 = demo_s3_draws oid name, fd_open = True, fd_bind = True, fd_listen = True,
     fd_address = [127, 0, 0, 1], fd_port = 50000, fd_now = 0\<rparr>"

text \<open>A session after some commands; a command that ends with an exception stops it.\<close>

fun ftp_commands :: "'fs ftp_world \<Rightarrow> ftp_draws \<Rightarrow> string list \<Rightarrow> 'fs ftp_state \<Rightarrow> 'fs ftp_state option" where
  "ftp_commands w d [] st = Some st"
| "ftp_commands w d (c # cs) st =
     (if \<not> se_reading st then None
      else case handleFtpCommand w d c st of
             (Inl _, _) \<Rightarrow> None
           | (Inr _, st') \<Rightarrow> ftp_commands w d cs st')"

lemma ftp_commands_reachable:
  "ftp_commands w d cs st = Some st' \<Longrightarrow> ftp_reachable w st \<Longrightarrow> ftp_reachable w st'"
proof (induction cs arbitrary: st)
  case (Cons c cs)
  then obtain st1 where "se_reading st" "handleFtpCommand w d c st = (Inr (), st1)" "ftp_commands w d cs st1 = Some st'"
    by (auto split: if_splits prod.splits sum.splits)
  then show ?case using Cons.IH ftp_reachable.step [OF Cons.prems(2) ftp_step.command] by blast
qed simp

definition demo_ftp_start :: "demo_files ftp_state" where
  "demo_ftp_start = ftp_start (demo_s3_bucket\<lparr>ss_fs := (''/t/joe/'', []) # (''/etc/passwd'', ''root'') # ss_fs demo_s3_bucket\<rparr>)"

definition demo_ftp_login :: "demo_files ftp_state" where
  "demo_ftp_login = the (ftp_commands demo_ftp_world (demo_ftp_draws ''o1'' ''f1'') [''USER joe'', ''PASS pw'', ''PASV''] demo_ftp_start)"

lemmas demo_ftp_defs = demo_ftp_world_def demo_ftp_draws_def demo_ftp_user_def handleFtpCommand_def command_map_def to_upper_def
  to_upper_char_def handleFtpCommandUSER_def handleFtpCommandPASS_def handleFtpCommandPASV_def handleFtpCommandSTOR_def
  need_login_def need_permission_def need_acceptor_def reply_def sendFtpMessage_def sendRawFtpMessage_def
  UserDatabase_getUser_def UserDatabase_addUser_def isUsernameAnonymousUser_def smap_get_def Let_def

lemma demo_ftp_login_eq:
  "demo_ftp_login = demo_ftp_start\<lparr>se_user := Some demo_ftp_user, se_usernameForLogin := ''joe'', se_lastCommand := ''PASV'',
    se_acceptor_open := True, se_sent := se_sent demo_ftp_start @ map FtpMessage_str [(USER_NAME_OK, ''Please enter password''),
      (USER_LOGGED_IN, ''Login successful''), (ENTERING_PASSIVE_MODE, ''Entering passive mode '' @ pasv_text [127, 0, 0, 1] 50000)]\<rparr>"
  "ftp_commands demo_ftp_world (demo_ftp_draws ''o1'' ''f1'') [''USER joe'', ''PASS pw'', ''PASV''] demo_ftp_start = Some demo_ftp_login"
  by (simp_all add: demo_ftp_login_def demo_ftp_start_def ftp_start_def demo_ftp_defs)

lemma demo_ftp_login_reachable: "ftp_reachable demo_ftp_world demo_ftp_login"
  by (rule ftp_commands_reachable [OF demo_ftp_login_eq(2)]) (simp add: demo_ftp_start_def ftp_reachable.start)

lemma demo_s3_bucket_fs: "ss_fs demo_s3_bucket = []"
  by code_simp

lemma demo_permissions: "may FileWrite demo_ftp_user" "may FileDelete demo_ftp_user"
  by (simp_all add: may_def demo_ftp_user_def AllPermissions_def permission_defs)

lemma demo_ftp_login_fields:
  "se_user demo_ftp_login = Some demo_ftp_user" "se_acceptor_open demo_ftp_login" "se_cwd demo_ftp_login = ''/''"
  "se_jobs demo_ftp_login = []" "se_uploads demo_ftp_login = []" "se_reading demo_ftp_login"
  "se_aws demo_ftp_login = demo_s3_bucket\<lparr>ss_fs := [(''/t/joe/'', []), (''/etc/passwd'', ''root'')]\<rparr>"
  by (simp_all add: demo_ftp_login_eq(1) demo_ftp_start_def ftp_start_def demo_s3_bucket_fs)

section \<open>Where a session can reach\<close>

text \<open>C24: the sandbox of relative paths: in every reachable session, whatever sequence of commands led to
  its working directory, a path that does not start with a slash is mapped to the cleaned root
  directory of the user extended by proper path components (non-empty, without dots or slashes).\<close>

theorem relative_path_stays_below_root:
  assumes "ftp_reachable w st" and "fu_local_root_path user = CHR ''/'' # r" and "path = [] \<or> hd path \<noteq> CHR ''/''"
  shows "\<exists>rs ds. cleanPathNative (fu_local_root_path user) = folder rs \<and>
    toLocalPath user (se_cwd st) path = folder (rs @ ds) \<and> (\<forall>c \<in> set (rs @ ds). proper_component c)"
proof -
  obtain cs where cs: "\<forall>c \<in> set cs. proper_component c" "se_cwd st = folder cs"
    using ftp_reachable_ftp_wf [OF assms(1)] by (auto simp: ftp_wf_def)
  obtain ds where "\<forall>d \<in> set ds. proper_component d" "toLocalPath user (folder cs) path = folder (walk [] (components r) @ ds)"
    by (rule toLocalPath_relative [OF assms(2) cs(1) assms(3)])
  then show ?thesis
    using assms(2) cs(2) cleanPath_rooted [of r] walk_components_proper [of "[]" r]
    by (intro exI [of _ "walk [] (components r)"] exI [of _ ds]) auto
qed

theorem relative_path_stays_below_root_witness:
  "\<exists>rs ds. ''/t/joe'' = folder rs \<and> toLocalPath demo_ftp_user (se_cwd demo_ftp_login) ''a/../../../x'' = folder (rs @ ds)"
proof -
  have clean: "cleanPathNative (fu_local_root_path demo_ftp_user) = ''/t/joe''" by code_simp
  have "fu_local_root_path demo_ftp_user = CHR ''/'' # ''t/joe''" by (simp add: demo_ftp_user_def)
  from relative_path_stays_below_root [OF demo_ftp_login_reachable this, of "''a/../../../x''"]
  show ?thesis unfolding clean by auto
qed

text \<open>C25: an absolute path is put behind the root of the user as it is, so leading dots climb out of it: for
  every path of the machine there is an argument with which \<open>STOR\<close> of a user who may write and
  overwrite opens (truncates) that path, unless it is a directory.\<close>

theorem absolute_path_escapes:
  assumes user: "se_user st = Some user" "may FileWrite user" "may FileDelete user" "fu_local_root_path user = CHR ''/'' # r"
    and acceptor: "se_acceptor_open st"
    and target: "\<forall>t \<in> set ts. proper_component t" "FileStatus_type (FileStatus_of (fw_posix w) (folder ts) (se_fs st)) \<noteq> Dir"
    and opens: "px_open_write (fw_posix w) (folder ts) (se_fs st) = (True, fs')"
  shows "\<exists>param st'. handleFtpCommand w d (''STOR '' @ param) st = (Inr (), st') \<and>
    se_fs st' = fs' \<and> se_jobs st' = se_jobs st @ [ReceiveJob (folder ts) (fu_username user)]"
proof -
  let ?param = "folder (replicate (length (walk [] (components r))) ''..'' @ ts)"
  have path: "toLocalPath user cwd ?param = folder ts" for cwd by (rule toLocalPath_absolute [OF user(4) target(1)])
  have command: "handleFtpCommand w d (''STOR '' @ param) st =
      andthen (handleFtpCommandSTOR w param (st\<lparr>se_reading := False\<rparr>)) (\<lambda>_ st1. (Inr (), st1\<lparr>se_lastCommand := ''STOR'', se_reading := True\<rparr>))" for param
    using handleFtpCommand_line [of "''STOR''" "''STOR''" w d "handleFtpCommandSTOR w" param st]
    by (simp add: command_map_def to_upper_def to_upper_char_def)
  have "\<exists>st1. handleFtpCommandSTOR w ?param (st\<lparr>se_reading := False\<rparr>) = (Inr (), st1) \<and> se_fs st1 = fs' \<and>
      se_jobs st1 = se_jobs st @ [ReceiveJob (folder ts) (fu_username user)]"
    using user acceptor target(2) opens
    by (simp add: handleFtpCommandSTOR_def need_login_def need_permission_def need_acceptor_def path Let_def
        receive_into_def reply_def sendFtpMessage_def sendRawFtpMessage_def se_put_fs_def)
  then obtain st1 where "handleFtpCommandSTOR w ?param (st\<lparr>se_reading := False\<rparr>) = (Inr (), st1)" "se_fs st1 = fs'"
      "se_jobs st1 = se_jobs st @ [ReceiveJob (folder ts) (fu_username user)]" by blast
  then show ?thesis
    by (intro exI [of _ ?param]) (simp only: command andthen_simps, simp)
qed

theorem absolute_path_escapes_witness:
  "\<exists>param st'. handleFtpCommand demo_ftp_world (demo_ftp_draws [] []) (''STOR '' @ param) demo_ftp_login = (Inr (), st') \<and>
    files_read ''/etc/passwd'' (se_fs demo_ftp_login) = ''root'' \<and> files_read ''/etc/passwd'' (se_fs st') = []"
proof -
  let ?fs = "fs_write demo_fso ''/etc/passwd'' [] (se_fs demo_ftp_login)"
  have root: "fu_local_root_path demo_ftp_user = CHR ''/'' # ''t/joe''" by (simp add: demo_ftp_user_def)
  have target: "\<forall>t \<in> set [''etc'', ''passwd'']. proper_component t" by (simp add: proper_component_def)
  have opens: "px_open_write (fw_posix demo_ftp_world) (folder [''etc'', ''passwd'']) (se_fs demo_ftp_login) = (True, ?fs)"
    by (simp add: demo_ftp_world_def demo_posix_def folder_def)
  have type: "FileStatus_type (FileStatus_of (fw_posix demo_ftp_world) (folder [''etc'', ''passwd'']) (se_fs demo_ftp_login)) \<noteq> Dir"
    by (simp add: demo_ftp_world_def demo_posix_def folder_def FileStatus_of_def FileStatus_type_def demo_stat_def demo_ftp_login_fields)
  have before: "files_read ''/etc/passwd'' (se_fs demo_ftp_login) = ''root''" and after: "files_read ''/etc/passwd'' ?fs = []"
    by (simp_all add: demo_ftp_login_fields files_read_def demo_fso_def)
  show ?thesis
    using absolute_path_escapes [OF demo_ftp_login_fields(1) demo_permissions root demo_ftp_login_fields(2) target type opens, of "demo_ftp_draws [] []"]
      before after by metis
qed

section \<open>Who may change files\<close>

text \<open>C26: a session that is not logged in, or whose user has none of the permissions to write, append,
  delete, rename or create, changes nothing: any command line is answered without an exception and
  leaves the file system and all services as they are, and opens no upload.\<close>

theorem no_write_permission_no_effect:
  assumes "case se_user st of None \<Rightarrow> True | Some u \<Rightarrow>
    fu_permissions u AND (FileWrite OR FileAppend OR FileDelete OR FileRename OR DirCreate OR DirDelete OR DirRename) = 0"
  shows "fst (handleFtpCommand w d command st) = Inr () \<and> se_aws (snd (handleFtpCommand w d command st)) = se_aws st \<and>
    filter is_upload (se_jobs (snd (handleFtpCommand w d command st))) = filter is_upload (se_jobs st)"
proof -
  have "no_writer st" using assms unfolding no_writer_def WritePermissions_def .
  then show ?thesis using handleFtpCommand_no_effect [of st w d command] by (simp add: no_effect_def)
qed

theorem no_write_permission_no_effect_witness:
  "se_aws (snd (handleFtpCommand demo_ftp_world (demo_ftp_draws [] []) ''DELE /../../etc/passwd''
     (demo_ftp_login\<lparr>se_user := Some (demo_ftp_user\<lparr>fu_permissions := ReadOnly\<rparr>)\<rparr>))) = se_aws demo_ftp_login"
proof -
  have "ReadOnly AND (FileWrite OR FileAppend OR FileDelete OR FileRename OR DirCreate OR DirDelete OR DirRename) = 0"
    by (simp add: ReadOnly_def permission_defs)
  then show ?thesis
    using no_write_permission_no_effect [of "demo_ftp_login\<lparr>se_user := Some (demo_ftp_user\<lparr>fu_permissions := ReadOnly\<rparr>)\<rparr>"
        demo_ftp_world "demo_ftp_draws [] []" "''DELE /../../etc/passwd''"]
    by (simp add: demo_ftp_user_def)
qed


section \<open>The reply of PASV\<close>

lemma port_bytes:
  fixes port :: "16 word"
  shows "uint (drop_bit 8 port AND 0xff) = uint port div 256" "uint (port AND 0xff) = uint port mod 256"
proof -
  have port: "0 \<le> uint port" "uint port < 2 ^ 16" using uint_bounded [of port] by simp_all
  have low: "x AND 0xff = x mod 256" for x :: int
    using take_bit_eq_mask [of 8 x] by (simp add: take_bit_eq_mod mask_eq_exp_minus_1)
  have "uint (port AND 0xff) = uint port AND 0xff" by (simp add: uint_and)
  also have "\<dots> = uint port mod 256" by (rule low)
  finally show "uint (port AND 0xff) = uint port mod 256" .
  have "uint (drop_bit 8 port AND 0xff) = drop_bit 8 (uint port) AND 0xff"
    using port by (simp add: uint_and unsigned_drop_bit_eq take_bit_int_eq_self)
  also have "\<dots> = (uint port div 256) mod 256" unfolding low by (simp add: drop_bit_eq_div)
  also have "\<dots> = uint port div 256" using port by (intro mod_pos_pos_trivial) (auto simp: pos_imp_zdiv_nonneg_iff)
  finally show "uint (drop_bit 8 port AND 0xff) = uint port div 256" .
qed

text \<open>the reply of \<open>PASV\<close> names the data port: the two numbers at its end are bytes and give the port,
  as the first times 256 plus the second, for every 16 bit port the system may choose.\<close>

theorem pasv_reply_names_port:
  assumes "se_user st = Some user" "fd_open d" "fd_bind d" "fd_listen d" "fd_address d = [a1, a2, a3, a4]"
  shows "\<exists>hi lo. 0 \<le> hi \<and> hi \<le> 255 \<and> 0 \<le> lo \<and> lo \<le> 255 \<and> uint (fd_port d) = 256 * hi + lo \<and>
    handleFtpCommandPASV d param st =
      reply ENTERING_PASSIVE_MODE (''Entering passive mode ('' @ to_string (uint a1) @ '','' @ to_string (uint a2) @ '','' @
        to_string (uint a3) @ '','' @ to_string (uint a4) @ '','' @ to_string hi @ '','' @ to_string lo @ '')'') (st\<lparr>se_acceptor_open := True\<rparr>)"
proof -
  have port: "0 \<le> uint (fd_port d)" "uint (fd_port d) < 2 ^ 16" using uint_bounded [of "fd_port d"] by simp_all
  then have "0 \<le> uint (fd_port d) div 256" "uint (fd_port d) div 256 \<le> 255" "0 \<le> uint (fd_port d) mod 256"
    "uint (fd_port d) mod 256 \<le> 255" "uint (fd_port d) = 256 * (uint (fd_port d) div 256) + uint (fd_port d) mod 256"
    by (auto simp: pos_imp_zdiv_nonneg_iff)
  moreover have "pasv_text (fd_address d) (fd_port d) = ''('' @ to_string (uint a1) @ '','' @ to_string (uint a2) @ '','' @
        to_string (uint a3) @ '','' @ to_string (uint a4) @ '','' @ to_string (uint (fd_port d) div 256) @ '','' @
        to_string (uint (fd_port d) mod 256) @ '')''"
    unfolding pasv_text_def assms(5) port_bytes(1) unfolding port_bytes(2) by (simp add: upt_rec)
  moreover have "handleFtpCommandPASV d param st =
      reply ENTERING_PASSIVE_MODE (''Entering passive mode '' @ pasv_text (fd_address d) (fd_port d)) (st\<lparr>se_acceptor_open := True\<rparr>)"
    using assms(1-4) by (simp add: handleFtpCommandPASV_def need_login_def)
  ultimately show ?thesis
    by (intro exI [of _ "uint (fd_port d) div 256"] exI [of _ "uint (fd_port d) mod 256"] conjI) simp_all
qed

theorem pasv_reply_names_port_witness:
  "snd (handleFtpCommandPASV (demo_ftp_draws [] []) [] demo_ftp_login) =
      sendFtpMessage (ENTERING_PASSIVE_MODE, ''Entering passive mode (127,0,0,1,195,80)'') (demo_ftp_login\<lparr>se_acceptor_open := True\<rparr>)"
proof -
  let ?d = "demo_ftp_draws [] []"
  have d: "fd_open ?d" "fd_bind ?d" "fd_listen ?d" "fd_address ?d = [127, 0, 0, 1]" by (simp_all add: demo_ftp_draws_def)
  have port: "uint (fd_port ?d) = 50000" by (simp add: demo_ftp_draws_def)
  obtain hi lo where num: "0 \<le> lo" "lo \<le> 255" "uint (fd_port ?d) = 256 * hi + lo" and run:
    "handleFtpCommandPASV ?d [] demo_ftp_login =
      reply ENTERING_PASSIVE_MODE (''Entering passive mode ('' @ to_string (uint (127 :: 8 word)) @ '','' @ to_string (uint (0 :: 8 word)) @ '','' @
        to_string (uint (0 :: 8 word)) @ '','' @ to_string (uint (1 :: 8 word)) @ '','' @ to_string hi @ '','' @ to_string lo @ '')'')
        (demo_ftp_login\<lparr>se_acceptor_open := True\<rparr>)"
    using pasv_reply_names_port [OF demo_ftp_login_fields(1) d, of "[]"] by (elim exE conjE) (rule that)
  have bytes: "hi = 195" "lo = 80" using num unfolding port by presburger+
  have digits: "to_string 127 = ''127''" "to_string 0 = ''0''" "to_string 1 = ''1''" "to_string 195 = ''195''" "to_string 80 = ''80''"
    by (simp_all add: to_string_eval)
  have uints: "uint (127 :: 8 word) = 127" "uint (0 :: 8 word) = 0" "uint (1 :: 8 word) = 1" by simp_all
  show ?thesis unfolding run bytes uints digits by (simp add: reply_def)
qed

section \<open>Uploads\<close>

text \<open>C28: a client that logs out, or starts to log in again, while its upload runs brings the server down: the
  end of the upload dereferences the user of the session.  The client has been told that the transfer
  is done, and nothing was stored.\<close>

theorem logout_during_upload:
  assumes upload: "se_uploads st = (path, user) # us" and key: "FtpSession_GetKey w path = Inr key"
    and command: "line = ''USER '' @ name \<or> line = ''QUIT ''"
  shows "\<exists>st1 st2. handleFtpCommand w d line st = (Inr (), st1) \<and>
    upload_end w d' [] st1 = (Inl UndefinedBehaviour, st2) \<and> se_aws st2 = se_aws st \<and>
    last (se_sent st2) = FtpMessage_str (CLOSING_DATA_CONNECTION, ''Done'')"
proof -
  have user: "handleFtpCommand w d (''USER '' @ name) st =
      andthen (handleFtpCommandUSER name (st\<lparr>se_reading := False\<rparr>)) (\<lambda>_ st1. (Inr (), st1\<lparr>se_lastCommand := ''USER'', se_reading := True\<rparr>))"
    using handleFtpCommand_line [of "''USER''" "''USER''" w d handleFtpCommandUSER name st]
    by (simp add: command_map_def to_upper_def to_upper_char_def)
  have quit: "handleFtpCommand w d (''QUIT '') st =
      andthen (handleFtpCommandQUIT [] (st\<lparr>se_reading := False\<rparr>)) (\<lambda>_ st1. (Inr (), st1\<lparr>se_lastCommand := ''QUIT'', se_reading := False\<rparr>))"
    using handleFtpCommand_line [of "''QUIT''" "''QUIT''" w d handleFtpCommandQUIT "[]" st]
    by (simp add: command_map_def to_upper_def to_upper_char_def)
  obtain st1 where run: "handleFtpCommand w d line st = (Inr (), st1)" and st1: "se_user st1 = None" "se_uploads st1 = (path, user) # us" "se_aws st1 = se_aws st"
    using command upload
    by (elim disjE; simp only: user quit handleFtpCommandUSER_def handleFtpCommandQUIT_def Let_def;
        cases "name = []"; simp add: reply_def sendFtpMessage_def sendRawFtpMessage_def)
  have "upload_end w d' [] st1 = (Inl UndefinedBehaviour, sendFtpMessage (CLOSING_DATA_CONNECTION, ''Done'') (st1\<lparr>se_uploads := us\<rparr>))"
    using st1 key by (simp add: upload_end_def upload_data_def endDataReceiving_def SendCreateObjectRequest_def
        sendFtpMessage_def sendRawFtpMessage_def)
  then show ?thesis using run st1(3) by (simp add: sendFtpMessage_def sendRawFtpMessage_def)
qed


definition demo_ftp_stor :: "demo_files ftp_state" where
  "demo_ftp_stor = the (ftp_commands demo_ftp_world (demo_ftp_draws ''o1'' ''f1'') [''STOR x''] demo_ftp_login)"

lemma demo_ftp_path: "toLocalPath demo_ftp_user ''/'' ''x'' = ''/t/joe/x''"
  by code_simp

lemma demo_ftp_stor_fields:
  "se_jobs demo_ftp_stor = [ReceiveJob ''/t/joe/x'' ''joe'']" "se_uploads demo_ftp_stor = []"
  "files_read ''/t/joe/x'' (se_fs demo_ftp_stor) = []" "se_user demo_ftp_stor = Some demo_ftp_user"
  "ss_db (se_aws demo_ftp_stor) = ss_db demo_s3_bucket" "ss_kms (se_aws demo_ftp_stor) = ss_kms demo_s3_bucket"
  "FtpSession_GetKey demo_ftp_world ''/t/joe/x'' = Inr ''joe/x''"
proof -
  have "handleFtpCommandSTOR demo_ftp_world ''x'' (demo_ftp_login\<lparr>se_reading := False\<rparr>) =
      receive_into (px_open_write demo_posix) demo_ftp_user ''/t/joe/x'' (demo_ftp_login\<lparr>se_reading := False\<rparr>)"
    using demo_permissions
    by (simp add: handleFtpCommandSTOR_def need_login_def need_permission_def need_acceptor_def demo_ftp_login_fields demo_ftp_path
        demo_ftp_world_def demo_posix_def FileStatus_of_def FileStatus_isOk_def demo_stat_def Let_def)
  then have eq: "demo_ftp_stor = (demo_ftp_login\<lparr>se_aws := demo_s3_bucket\<lparr>ss_fs := fs_write demo_fso ''/t/joe/x'' [] (se_fs demo_ftp_login)\<rparr>,
      se_sent := se_sent demo_ftp_login @ [FtpMessage_str (FILE_STATUS_OK_OPENING_DATA_CONNECTION, ''Receiving file'')],
      se_jobs := [ReceiveJob ''/t/joe/x'' ''joe''], se_lastCommand := ''STOR'', se_reading := True\<rparr>)"
    by (simp add: demo_ftp_stor_def demo_ftp_login_fields handleFtpCommand_def command_map_def to_upper_def to_upper_char_def Let_def
        receive_into_def demo_posix_def se_put_fs_def reply_def sendFtpMessage_def sendRawFtpMessage_def demo_ftp_user_def)
  show "se_jobs demo_ftp_stor = [ReceiveJob ''/t/joe/x'' ''joe'']" "se_uploads demo_ftp_stor = []"
    "files_read ''/t/joe/x'' (se_fs demo_ftp_stor) = []" "se_user demo_ftp_stor = Some demo_ftp_user"
    "ss_db (se_aws demo_ftp_stor) = ss_db demo_s3_bucket" "ss_kms (se_aws demo_ftp_stor) = ss_kms demo_s3_bucket"
    unfolding eq by (simp_all add: demo_ftp_login_fields demo_fso_def files_read_def)
  show "FtpSession_GetKey demo_ftp_world ''/t/joe/x'' = Inr ''joe/x''"
    by (simp add: FtpSession_GetKey_def demo_ftp_world_def StringUtils_StripBeginning_def rbind_def)
qed

definition demo_ftp_upload :: "demo_files ftp_state" where
  "demo_ftp_upload = snd (data_accepted demo_ftp_world (demo_ftp_draws ''o1'' ''f1'') True demo_ftp_stor)"

lemma demo_ftp_upload_fields: "se_uploads demo_ftp_upload = [(''/t/joe/x'', ''joe'')]"
  by (simp add: demo_ftp_upload_def data_accepted_def demo_ftp_stor_fields)

theorem logout_during_upload_witness:
  "\<exists>st1 st2. handleFtpCommand demo_ftp_world (demo_ftp_draws [] []) ''QUIT '' demo_ftp_upload = (Inr (), st1) \<and>
    upload_end demo_ftp_world (demo_ftp_draws [] []) [] st1 = (Inl UndefinedBehaviour, st2)"
  using logout_during_upload [OF demo_ftp_upload_fields demo_ftp_stor_fields(7), of "''QUIT ''"] by blast

text \<open>The bytes of an upload are written in the order they arrive.\<close>

lemma upload_blocks:
  fixes w :: "'fs ftp_world"
  assumes append: "\<And>p b fs. fs_read (w_fso (fw_s3 w)) p (px_append (fw_posix w) p b fs) = fs_read (w_fso (fw_s3 w)) p fs @ b"
    and keeps: "\<And>p b q fs. ready q fs \<Longrightarrow> ready q (px_append (fw_posix w) p b fs)"
    and upload: "se_uploads st = (path, user) # us"
  obtains fs' where "fold (\<lambda>b st. snd (upload_data w b st)) blocks st = se_put_fs fs' st"
    "fs_read (w_fso (fw_s3 w)) path fs' = fs_read (w_fso (fw_s3 w)) path (se_fs st) @ concat blocks"
    "\<And>q. ready q (se_fs st) \<Longrightarrow> ready q fs'"
proof -
  have "\<exists>fs'. fold (\<lambda>b st. snd (upload_data w b st)) blocks st = se_put_fs fs' st \<and>
      fs_read (w_fso (fw_s3 w)) path fs' = fs_read (w_fso (fw_s3 w)) path (se_fs st) @ concat blocks \<and>
      (\<forall>q. ready q (se_fs st) \<longrightarrow> ready q fs')"
    using upload
  proof (induction blocks arbitrary: st)
    case Nil
    show ?case by (rule exI [of _ "se_fs st"]) (simp add: se_put_fs_def)
  next
    case (Cons b blocks)
    let ?fs1 = "if b \<noteq> [] then px_append (fw_posix w) path b (se_fs st) else se_fs st"
    have step: "snd (upload_data w b st) = se_put_fs ?fs1 st"
      using Cons.prems by (simp add: upload_data_def writeDataToFile_def se_put_fs_def)
    obtain fs' where "fold (\<lambda>b st. snd (upload_data w b st)) blocks (se_put_fs ?fs1 st) = se_put_fs fs' (se_put_fs ?fs1 st)"
      "fs_read (w_fso (fw_s3 w)) path fs' = fs_read (w_fso (fw_s3 w)) path ?fs1 @ concat blocks"
      "\<forall>q. ready q ?fs1 \<longrightarrow> ready q fs'"
      using Cons.IH [of "se_put_fs ?fs1 st"] Cons.prems by (auto simp: se_put_fs_def)
    then show ?case
      using keeps by (intro exI [of _ fs']) (auto simp: step se_put_fs_def append)
  qed
  then show ?thesis using that by blast
qed



definition demo_ftp_end :: "demo_files ftp_state" where
  "demo_ftp_end = snd (upload_end demo_ftp_world (demo_ftp_draws ''o1'' ''f1'') ''lo''
     (fold (\<lambda>b st. snd (upload_data demo_ftp_world b st)) [''h'', ''el'']
       (snd (data_accepted demo_ftp_world (demo_ftp_draws ''o1'' ''f1'') True demo_ftp_stor))))"


end
