(* ===== verification/TransferProperties.thy ===== *)
theory TransferProperties
  imports TransferService FtpProperties
begin

text \<open>
  Properties of the transfer service and the module that runs its FTP servers.
\<close>

section \<open>The servers in the list\<close>

lemma set_running_list:
  "smap_inv (ts_list st) \<Longrightarrow> smap_inv (ts_list (set_running b serverId st))"
  "smap_inv (ts_list st) \<Longrightarrow> smap_get k (ts_list (set_running b serverId st)) =
     (if k = serverId then map_option (\<lambda>server. server\<lparr>fv_running := b\<rparr>) (smap_get k (ts_list st)) else smap_get k (ts_list st))"
  "ts_db (set_running b serverId st) = ts_db st"
  by (auto simp: set_running_def split: option.split)

lemma add_transfer_users_list:
  assumes "smap_inv (ts_list st)"
  shows "smap_inv (ts_list (snd (add_transfer_users fso base serverId us st))) \<and>
    (k \<noteq> serverId \<longrightarrow> smap_get k (ts_list (snd (add_transfer_users fso base serverId us st))) = smap_get k (ts_list st)) \<and>
    ts_db (snd (add_transfer_users fso base serverId us st)) = ts_db st"
  using assms
  by (induction fso base serverId us st rule: add_transfer_users.induct)
     (auto simp: Let_def split: prod.split sum.split option.split)

text \<open>The check run neither starts nor forgets a server it knows.\<close>

lemma check_transfers_known:
  assumes "smap_inv (ts_list st)" "smap_get k (ts_list st) = Some server" "\<not> fv_running server"
  shows "smap_inv (ts_list (snd (check_transfers fso base starts ts st))) \<and>
    smap_get k (ts_list (snd (check_transfers fso base starts ts st))) = Some server \<and>
    ts_db (snd (check_transfers fso base starts ts st)) = ts_db st"
  using assms
proof (induction ts arbitrary: st)
  case (Cons t ts)
  define r where "r = (if tr_state t = ServerStateToString ONLINE
              then if smap_get (tr_serverId t) (ts_list st) = None then TransferServer_StartTransferServer fso base starts t st
                   else (Inr (), st)
              else if tr_state t = ServerStateToString OFFLINE
              then if smap_get (tr_serverId t) (ts_list st) \<noteq> None then TransferServer_StopTransferServer t st
                   else (Inr (), st)
              else (Inr (), st))"
  have start: "smap_inv (ts_list (snd (TransferServer_StartTransferServer fso base starts t st))) \<and>
      smap_get k (ts_list (snd (TransferServer_StartTransferServer fso base starts t st))) = Some server \<and>
      ts_db (snd (TransferServer_StartTransferServer fso base starts t st)) = ts_db st" if "smap_get (tr_serverId t) (ts_list st) = None"
  proof -
    let ?st = "st\<lparr>ts_list := smap_put (tr_serverId t) \<lparr>fv_serverId = tr_serverId t, fv_port = tr_port t,
        fv_users = \<lparr>ud_users = [], ud_anonymous = None\<rparr>, fv_running = False\<rparr> (ts_list st)\<rparr>"
    have k: "k \<noteq> tr_serverId t" using that Cons.prems(2) by auto
    show ?thesis
      using add_transfer_users_list [of ?st fso base "tr_serverId t" "tr_users t" k] k Cons.prems
      by (cases "add_transfer_users fso base (tr_serverId t) (tr_users t) ?st" rule: andthen_cases)
         (auto simp: TransferServer_StartTransferServer_def Let_def set_running_list)
  qed
  have "smap_inv (ts_list (snd r)) \<and> smap_get k (ts_list (snd r)) = Some server \<and> ts_db (snd r) = ts_db st"
    using start Cons.prems by (auto simp: r_def TransferServer_StopTransferServer_def set_running_list)
  moreover have "check_transfers fso base starts (t # ts) st = andthen r (\<lambda>_. check_transfers fso base starts ts)"
    by (simp only: check_transfers.simps r_def)
  ultimately show ?case
    using Cons.IH [of "snd r"] Cons.prems(3) by (cases r rule: andthen_cases) simp_all
qed simp

lemma check_deleted_known:
  assumes "smap_inv (ts_list st)" "smap_get k (ts_list st) = Some server" "\<not> fv_running server"
  shows "smap_get k (ts_list (snd (check_deleted ids st))) = Some server"
  using assms
proof (induction ids arbitrary: st)
  case (Cons serverId ids)
  define r where "r = (if \<not> TransferMemoryDb_TransferExistsId serverId (ts_db st)
              then case TransferMemoryDb_GetTransferByServerId serverId (ts_db st) of
                     (Inl e, db) \<Rightarrow> (Inl e, st\<lparr>ts_db := db\<rparr>)
                   | (Inr t, db) \<Rightarrow> TransferServer_StopTransferServer t (st\<lparr>ts_db := db\<rparr>)
              else (Inr (), st))"
  have "smap_inv (ts_list (snd r)) \<and> smap_get k (ts_list (snd r)) = Some server"
    using Cons.prems by (auto simp: r_def TransferServer_StopTransferServer_def set_running_list split: prod.split sum.split)
  moreover have "check_deleted (serverId # ids) st = andthen r (\<lambda>_. check_deleted ids)"
    by (simp only: check_deleted.simps r_def)
  ultimately show ?case
    using Cons.IH [of "snd r"] Cons.prems(3) by (cases r rule: andthen_cases) simp_all
qed simp


definition demo_transfer_draws :: transfer_draws where
  "demo_transfer_draws = \<lparr>td_now = 0, td_oid = ''t1'', td_hex = ''AB'', td_password = ''pw''\<rparr>"

definition demo_transfer_db :: transfer_db where
  "demo_transfer_db = snd (TransferService_CreateTransferServer demo_cfg 21 demo_transfer_draws
     \<lparr>csr_region = ''eu'', csr_protocols = [''FTP'']\<rparr> \<lparr>db_transfers = []\<rparr>)"

definition demo_module_run :: "transfer_db \<Rightarrow> demo_files transfer_server \<Rightarrow> demo_files transfer_server" where
  "demo_module_run db st = snd (TransferServer_CheckTransferServers demo_fso ''/t'' (\<lambda>_. True) (st\<lparr>ts_db := db\<rparr>))"

text \<open>Started, stopped, started again.\<close>

definition demo_started :: transfer_db where "demo_started = snd (TransferService_StartServer 0 ''eu'' ''s-ab'' demo_transfer_db)"
definition demo_stopped :: transfer_db where "demo_stopped = snd (TransferService_StopServer 0 ''eu'' ''s-ab'' demo_started)"

definition demo_module :: "demo_files transfer_server" where
  "demo_module = demo_module_run demo_stopped (demo_module_run demo_started \<lparr>ts_db = demo_transfer_db, ts_list = [], ts_fs = []\<rparr>)"



section \<open>Who may log in\<close>

lemma add_transfer_users_keeps:
  assumes "smap_inv (ts_list st)" "smap_get serverId (ts_list st) = Some server" "ud_anonymous (fv_users server) = Some u"
    and "add_transfer_users fso base serverId us st = (Inr (), st')"
  shows "\<exists>server'. smap_get serverId (ts_list st') = Some server' \<and> ud_anonymous (fv_users server') = Some u"
  using assms
proof (induction fso base serverId us st arbitrary: server rule: add_transfer_users.induct)
  case (2 fso base serverId v us st)
  obtain fs where fs: "DirUtils_EnsureDirectory fso (path_in base (tu_homeDirectory v)) (ts_fs st) = (Inr (), fs)"
    using 2(5) by (auto simp: Let_def split: prod.splits sum.splits)
  let ?server = "server\<lparr>fv_users := snd (UserDatabase_addUser (tu_userName v) (tu_password v) (path_in base (tu_homeDirectory v)) AllPermissions (fv_users server))\<rparr>"
  let ?st = "st\<lparr>ts_fs := fs, ts_list := smap_put serverId ?server (ts_list st)\<rparr>"
  have "add_transfer_users fso base serverId us ?st = (Inr (), st')" using 2(3,5) by (simp add: Let_def fs)
  moreover have "ud_anonymous (fv_users ?server) = Some u"
    using 2(4) by (auto simp: UserDatabase_addUser_def Let_def split: option.split)
  ultimately show ?case using 2(1) [OF refl fs [symmetric] refl, of ?server] 2(2,3) by simp
qed auto




end
