(* ===== verification/JsonRequests.thy ===== *)
theory JsonRequests
  imports SQSRequests
begin

text \<open>
  How the request objects of the secrets manager and of the key management are read: the parser and
  the conversion to an object run outside the \<open>try\<close>, the members inside; the exceptions of Poco
  become the exception that the class of the request names.
\<close>

definition json_as :: "(exn \<Rightarrow> exn) \<Rightarrow> externals \<Rightarrow> string \<Rightarrow> ((string \<times> json) list \<Rightarrow> 'a result) \<Rightarrow> 'a result" where
  "json_as rethrow ext jsonString read =
     rbind (ext_json_parse ext jsonString) (\<lambda>v.
     rbind (ext_json_object ext v) (\<lambda>rootObject.
     case read rootObject of Inl e \<Rightarrow> Inl (rethrow e) | Inr x \<Rightarrow> Inr x))"

text \<open>\<open>for (\<dots>) v.emplace_back(array->getElement<std::string>(i))\<close>\<close>

fun texts_loop :: "externals \<Rightarrow> json list \<Rightarrow> string list \<Rightarrow> string list result" where
  "texts_loop ext [] vs = Inr vs"
| "texts_loop ext (j # js) vs = rbind (ext_json_text ext j) (\<lambda>v. texts_loop ext js (vs @ [v]))"

end
