(* ===== verification/SecretsManager.thy ===== *)
theory SecretsManager
  imports EntityStore SQSHandler CString JsonRequests
begin

text \<open>
  The secrets manager: the entity of \<open>db/include/awsmock/entity/secretsmanager\<close>, its store
  \<open>db/src/memorydb/SecretsManagerMemoryDb.cpp\<close>, the service and the handler of
  \<open>service/src/secretsmanager\<close>, and the request documents of \<open>dto/src/secretsmanager\<close>.
\<close>

section \<open>Entities and store\<close>

record RotationRules =
  rr_automaticallyAfterDays :: int
  rr_duration :: string
  rr_scheduleExpression :: string

record Secret =
  sec_oid :: string
  sec_region :: string
  sec_name :: string
  sec_arn :: string
  sec_secretId :: string
  sec_kmsKeyId :: string
  sec_secretString :: string
  sec_secretBinary :: string
  sec_versionId :: string
  sec_description :: string
  sec_owningService :: string
  sec_primaryRegion :: string
  sec_rotationRules :: RotationRules
  sec_createdDate :: int
  sec_deletedDate :: int
  sec_lastAccessedDate :: int
  sec_lastChangedDate :: int
  sec_lastRotatedDate :: int
  sec_nextRotatedDate :: int
  sec_rotationEnabled :: bool
  sec_rotationLambdaARN :: string
  sec_created :: int
  sec_modified :: int

record secrets_db =
  sm_secrets :: "(string, Secret) smap"

definition Secret_init :: "int \<Rightarrow> Secret" where
  "Secret_init now =
     \<lparr>sec_oid = [], sec_region = [], sec_name = [], sec_arn = [], sec_secretId = [], sec_kmsKeyId = [],
      sec_secretString = [], sec_secretBinary = [], sec_versionId = [], sec_description = [],
      sec_owningService = [], sec_primaryRegion = [],
      sec_rotationRules = \<lparr>rr_automaticallyAfterDays = 0, rr_duration = [], rr_scheduleExpression = []\<rparr>,
      sec_createdDate = 0, sec_deletedDate = 0, sec_lastAccessedDate = 0, sec_lastChangedDate = 0,
      sec_lastRotatedDate = 0, sec_nextRotatedDate = 0, sec_rotationEnabled = False,
      sec_rotationLambdaARN = [], sec_created = now, sec_modified = now\<rparr>"

definition named :: "string \<Rightarrow> string \<Rightarrow> string \<times> Secret \<Rightarrow> bool" where
  "named region name = (\<lambda>(oid, s). sec_region s = region \<and> sec_name s = name)"

definition with_secretId :: "string \<Rightarrow> string \<times> Secret \<Rightarrow> bool" where
  "with_secretId secretId = (\<lambda>(oid, s). sec_secretId s = secretId)"

definition secret_fetch :: "(string \<times> Secret \<Rightarrow> bool) \<Rightarrow> int \<Rightarrow> secrets_db \<Rightarrow> Secret \<times> secrets_db" where
  "secret_fetch P now db =
     (case smap_fetch P (\<lambda>oid s. s\<lparr>sec_oid := oid\<rparr>) (Secret_init now) (sm_secrets db) of
        (s, m) \<Rightarrow> (s, db\<lparr>sm_secrets := m\<rparr>))"

definition SecretsManagerMemoryDb_SecretExists :: "string \<Rightarrow> string \<Rightarrow> secrets_db \<Rightarrow> bool" where
  "SecretsManagerMemoryDb_SecretExists region name db \<longleftrightarrow> smap_find_if (named region name) (sm_secrets db) \<noteq> None"

definition SecretsManagerMemoryDb_SecretIdExists :: "string \<Rightarrow> secrets_db \<Rightarrow> bool" where
  "SecretsManagerMemoryDb_SecretIdExists secretId db \<longleftrightarrow>
     smap_find_if (with_secretId secretId) (sm_secrets db) \<noteq> None"

definition SecretsManagerMemoryDb_GetSecretById :: "int \<Rightarrow> string \<Rightarrow> secrets_db \<Rightarrow> Secret \<times> secrets_db" where
  "SecretsManagerMemoryDb_GetSecretById now oid = secret_fetch (\<lambda>(oid', s). oid' = oid) now"

definition SecretsManagerMemoryDb_GetSecretByRegionName ::
  "int \<Rightarrow> string \<Rightarrow> string \<Rightarrow> secrets_db \<Rightarrow> Secret \<times> secrets_db" where
  "SecretsManagerMemoryDb_GetSecretByRegionName now region name = secret_fetch (named region name) now"

definition SecretsManagerMemoryDb_GetSecretBySecretId ::
  "int \<Rightarrow> string \<Rightarrow> secrets_db \<Rightarrow> Secret \<times> secrets_db" where
  "SecretsManagerMemoryDb_GetSecretBySecretId now secretId = secret_fetch (with_secretId secretId) now"

definition SecretsManagerMemoryDb_CreateSecret ::
  "int \<Rightarrow> string \<Rightarrow> Secret \<Rightarrow> secrets_db \<Rightarrow> Secret \<times> secrets_db" where
  "SecretsManagerMemoryDb_CreateSecret now oid s db =
     SecretsManagerMemoryDb_GetSecretById now oid (db\<lparr>sm_secrets := smap_put oid s (sm_secrets db)\<rparr>)"

definition SecretsManagerMemoryDb_UpdateSecret :: "Secret \<Rightarrow> secrets_db \<Rightarrow> (Secret, secrets_db) outcome" where
  "SecretsManagerMemoryDb_UpdateSecret s db =
     (case smap_replace (with_secretId (sec_secretId s)) s (sm_secrets db) of
        (r, m) \<Rightarrow> (r, db\<lparr>sm_secrets := m\<rparr>))"

definition SecretsManagerMemoryDb_ListSecrets :: "secrets_db \<Rightarrow> Secret list" where
  "SecretsManagerMemoryDb_ListSecrets db = smap_values (sm_secrets db)"

definition SecretsManagerMemoryDb_CountSecrets :: "string \<Rightarrow> secrets_db \<Rightarrow> int" where
  "SecretsManagerMemoryDb_CountSecrets region db =
     (if region = [] then int (length (sm_secrets db))
      else int (length (filter (\<lambda>s. sec_region s = region) (smap_values (sm_secrets db)))))"

definition SecretsManagerMemoryDb_DeleteSecret :: "Secret \<Rightarrow> secrets_db \<Rightarrow> secrets_db" where
  "SecretsManagerMemoryDb_DeleteSecret s db =
     db\<lparr>sm_secrets := smap_erase_if (named (sec_region s) (sec_name s)) (sm_secrets db)\<rparr>"

definition SecretsManagerMemoryDb_DeleteAllSecrets :: "secrets_db \<Rightarrow> secrets_db" where
  "SecretsManagerMemoryDb_DeleteAllSecrets db = db\<lparr>sm_secrets := []\<rparr>"

section \<open>Requests\<close>

record CreateSecretRequest =
  csr_region :: string
  csr_name :: string
  csr_description :: string
  csr_secretString :: string
  csr_secretBinary :: string
  csr_kmsKeyId :: string

record UpdateSecretRequest =
  usr_region :: string
  usr_secretId :: string
  usr_kmsKeyId :: string
  usr_description :: string
  usr_secretString :: string
  usr_secretBinary :: string

text \<open>The requests that name one secret (\<open>DescribeSecret\<close>, \<open>GetSecretValue\<close>, \<open>RotateSecret\<close>) are their
  secret id here, \<open>DeleteSecret\<close> its name; the other members reach nothing.\<close>

definition CreateSecretRequest_FromJson ::
  "externals \<Rightarrow> bool \<Rightarrow> string \<Rightarrow> CreateSecretRequest \<Rightarrow> CreateSecretRequest result" where
  "CreateSecretRequest_FromJson ext stale jsonString r =
     json_as rethrow_json ext jsonString (\<lambda>obj.
       rbind (JsonUtils_GetJsonValueString ext ''Name'' obj (csr_name r)) (\<lambda>name.
       rbind (JsonUtils_GetJsonValueString ext ''ClientRequestToken'' obj []) (\<lambda>token.
       rbind (JsonUtils_GetJsonValueString ext ''Description'' obj (csr_description r)) (\<lambda>description.
       rbind (JsonUtils_GetJsonValueString ext ''SecretString'' obj (csr_secretString r)) (\<lambda>secretString.
       rbind (JsonUtils_GetJsonValueString ext ''SecretBinary'' obj (csr_secretBinary r)) (\<lambda>secretBinary.
       rbind (JsonUtils_GetJsonValueBool ext ''ForceOverwriteReplicaSecret'' obj stale) (\<lambda>overwrite.
       rbind (JsonUtils_GetJsonValueString ext ''KmsKeyId'' obj (csr_kmsKeyId r)) (\<lambda>kmsKeyId.
       Inr (r\<lparr>csr_name := name, csr_description := description, csr_secretString := secretString,
              csr_secretBinary := secretBinary, csr_kmsKeyId := kmsKeyId\<rparr>)))))))))"

definition DeleteSecretRequest_FromJson :: "externals \<Rightarrow> string \<Rightarrow> string result" where
  "DeleteSecretRequest_FromJson ext jsonString =
     json_as rethrow_service ext jsonString (\<lambda>obj. JsonUtils_GetJsonValueString ext ''Name'' obj [])"

definition DescribeSecretRequest_FromJson :: "externals \<Rightarrow> string \<Rightarrow> string result" where
  "DescribeSecretRequest_FromJson ext jsonString =
     json_as rethrow_json ext jsonString (\<lambda>obj. JsonUtils_GetJsonValueString ext ''SecretId'' obj [])"

definition GetSecretValueRequest_FromJson :: "externals \<Rightarrow> string \<Rightarrow> string result" where
  "GetSecretValueRequest_FromJson ext jsonString =
     json_as rethrow_service ext jsonString (\<lambda>obj. JsonUtils_GetJsonValueString ext ''SecretId'' obj [])"

definition UpdateSecretRequest_FromJson ::
  "externals \<Rightarrow> string \<Rightarrow> UpdateSecretRequest \<Rightarrow> UpdateSecretRequest result" where
  "UpdateSecretRequest_FromJson ext jsonString r =
     json_as rethrow_service ext jsonString (\<lambda>obj.
       rbind (JsonUtils_GetJsonValueString ext ''Region'' obj (usr_region r)) (\<lambda>region.
       rbind (JsonUtils_GetJsonValueString ext ''SecretId'' obj (usr_secretId r)) (\<lambda>secretId.
       rbind (JsonUtils_GetJsonValueString ext ''Description'' obj (usr_description r)) (\<lambda>description.
       rbind (JsonUtils_GetJsonValueString ext ''SecretString'' obj (usr_secretString r)) (\<lambda>secretString.
       rbind (JsonUtils_GetJsonValueString ext ''SecretBinary'' obj (usr_secretBinary r)) (\<lambda>secretBinary.
       rbind (JsonUtils_GetJsonValueString ext ''KmsKeyId'' obj (usr_kmsKeyId r)) (\<lambda>kmsKeyId.
       Inr \<lparr>usr_region = region, usr_secretId = secretId, usr_kmsKeyId = kmsKeyId, usr_description = description,
            usr_secretString = secretString, usr_secretBinary = secretBinary\<rparr>)))))))"

text \<open>The getters start with \<open>jsonObject->has(\<dots>)\<close>, also on the null pointer of a missing object.\<close>

definition RotationRules_FromJsonObject :: "externals \<Rightarrow> (string \<times> json) list option \<Rightarrow> RotationRules \<Rightarrow> RotationRules result" where
  "RotationRules_FromJsonObject ext jsonObject r =
     (case rbind (deref jsonObject) (\<lambda>obj.
           rbind (JsonUtils_GetJsonValueLong ext ''AutomaticallyAfterDays'' obj (rr_automaticallyAfterDays r)) (\<lambda>days.
           rbind (JsonUtils_GetJsonValueString ext ''Duration'' obj (rr_duration r)) (\<lambda>duration.
           rbind (JsonUtils_GetJsonValueString ext ''ScheduleExpression'' obj (rr_scheduleExpression r)) (\<lambda>expression.
           Inr \<lparr>rr_automaticallyAfterDays = days, rr_duration = duration, rr_scheduleExpression = expression\<rparr>)))) of
        Inl e \<Rightarrow> Inl (rethrow_service e)
      | Inr x \<Rightarrow> Inr x)"

definition RotateSecretRequest_FromJson :: "externals \<Rightarrow> bool \<Rightarrow> RotationRules \<Rightarrow> string \<Rightarrow> string result" where
  "RotateSecretRequest_FromJson ext stale rules jsonString =
     json_as rethrow_service ext jsonString (\<lambda>obj.
       rbind (JsonUtils_GetJsonValueString ext ''Region'' obj []) (\<lambda>region.
       rbind (JsonUtils_GetJsonValueString ext ''SecretId'' obj []) (\<lambda>secretId.
       rbind (JsonUtils_GetJsonValueString ext ''ClientRequestToken'' obj []) (\<lambda>token.
       rbind (JsonUtils_GetJsonValueString ext ''RotationLambdaARN'' obj []) (\<lambda>arn.
       rbind (JsonUtils_GetJsonValueBool ext ''RotateImmediately'' obj stale) (\<lambda>immediately.
       rbind (RotationRules_FromJsonObject ext (ext_json_child ext (map_of obj ''RotationRules'')) rules) (\<lambda>rules'.
       Inr secretId)))))))"

definition Filter_FromJsonObject :: "externals \<Rightarrow> (string \<times> json) list option \<Rightarrow> (string \<times> string list) result" where
  "Filter_FromJsonObject ext jsonObject =
     (case rbind (deref jsonObject) (\<lambda>obj.
           rbind (JsonUtils_GetJsonValueString ext ''Key'' obj []) (\<lambda>key.
           rbind (deref (ext_json_array ext (map_of obj ''Values''))) (\<lambda>js.
           rbind (texts_loop ext js []) (\<lambda>vs. Inr (key, vs))))) of
        Inl e \<Rightarrow> Inl (rethrow_json e)
      | Inr x \<Rightarrow> Inr x)"

fun filters_loop :: "externals \<Rightarrow> json list \<Rightarrow> (string \<times> string list) list \<Rightarrow> (string \<times> string list) list result" where
  "filters_loop ext [] fs = Inr fs"
| "filters_loop ext (j # js) fs =
     rbind (Filter_FromJsonObject ext (ext_json_child ext (Some j))) (\<lambda>f. filters_loop ext js (fs @ [f]))"

text \<open>What is read of a listing: the filters, which nothing uses.\<close>

definition ListSecretsRequest_FromJson :: "externals \<Rightarrow> int \<Rightarrow> string \<Rightarrow> (string \<times> string list) list result" where
  "ListSecretsRequest_FromJson ext stale jsonString =
     json_as rethrow_json ext jsonString (\<lambda>obj.
       rbind (JsonUtils_GetJsonValueString ext ''Region'' obj []) (\<lambda>region.
       rbind (JsonUtils_GetJsonValueString ext ''SortOrder'' obj []) (\<lambda>sortOrder.
       rbind (JsonUtils_GetJsonValueString ext ''NextToken'' obj []) (\<lambda>nextToken.
       rbind (JsonUtils_GetJsonValueInt ext ''MaxResults'' obj stale) (\<lambda>maxResults.
       rbind (JsonUtils_GetJsonValueBool ext ''IncludePlannedDeletion'' obj False) (\<lambda>planned.
       if map_of obj ''Filters'' = None then Inr []
       else rbind (deref (ext_json_array ext (map_of obj ''Filters''))) (\<lambda>js. filters_loop ext js [])))))))"

section \<open>The service\<close>

text \<open>
  What the service takes from outside: OpenSSL's cipher under the fixed key of the service, of the
  bytes up to the first NUL, and Poco's Base64 encoder.
\<close>

record secrets_world =
  sw_cfg :: config
  sw_ext :: externals
  sw_encrypt :: "string \<Rightarrow> string"
  sw_base64 :: "string \<Rightarrow> string"

text \<open>The random values and the clock of one operation (\<open>sdr_epoch\<close>: the second since 1970).\<close>

record secrets_draws =
  sdr_versionId :: string
  sdr_hex :: string
  sdr_epoch :: int
  sdr_oid :: string
  sdr_now :: int

record SecretAnswer =
  sa_region :: string
  sa_name :: string
  sa_arn :: string
  sa_versionId :: string

record SecretListEntry =
  sle_primaryRegion :: string
  sle_arn :: string
  sle_name :: string
  sle_description :: string
  sle_kmsKeyId :: string
  sle_createdDate :: int
  sle_deletedDate :: int
  sle_lastAccessedDate :: int
  sle_lastChangedDate :: int
  sle_lastRotatedDate :: int
  sle_nextRotatedDate :: int
  sle_rotationEnabled :: bool
  sle_rotationLambdaARN :: string
  sle_rotationRules :: RotationRules

definition AwsUtils_CreateSecretArn :: "string \<Rightarrow> string \<Rightarrow> string \<Rightarrow> string" where
  "AwsUtils_CreateSecretArn region accountId secretId =
     CreateArn ''secretsmanager'' region accountId (''secret:'' @ secretId)"

definition answer_of :: "Secret \<Rightarrow> SecretAnswer" where
  "answer_of s = \<lparr>sa_region = sec_region s, sa_name = sec_name s, sa_arn = sec_arn s, sa_versionId = sec_versionId s\<rparr>"

definition new_secret :: "secrets_world \<Rightarrow> secrets_draws \<Rightarrow> CreateSecretRequest \<Rightarrow> Secret" where
  "new_secret w d request =
     (let secretId = csr_name request @ ''-'' @ sdr_hex d;
          s = (Secret_init (sdr_now d))\<lparr>sec_region := csr_region request, sec_name := csr_name request,
                sec_versionId := sdr_versionId d, sec_secretId := secretId,
                sec_arn := AwsUtils_CreateSecretArn (csr_region request) (cfg_accountId (sw_cfg w)) secretId,
                sec_createdDate := sdr_epoch d\<rparr> in
      if csr_secretString request \<noteq> []
      then s\<lparr>sec_secretString := sw_base64 w (sw_encrypt w (c_string (csr_secretString request)))\<rparr>
      else s\<lparr>sec_secretBinary := csr_secretBinary request\<rparr>)"

definition SecretsManagerService_CreateSecret ::
  "secrets_world \<Rightarrow> secrets_draws \<Rightarrow> CreateSecretRequest \<Rightarrow> secrets_db \<Rightarrow> (SecretAnswer, secrets_db) outcome" where
  "SecretsManagerService_CreateSecret w d request db =
     (if SecretsManagerMemoryDb_SecretExists (csr_region request) (csr_name request) db
      then (Inl (ServiceException ''Secret exists already''), db)
      else if csr_secretString request \<noteq> [] \<and> csr_secretBinary request \<noteq> []
      then (Inl (ServiceException ''Secret must not have secretString and secretBinary''), db)
      else if csr_secretString request = [] \<and> csr_secretBinary request = []
      then (Inl (ServiceException ''Secret must have either secretString or secretBinary''), db)
      else case SecretsManagerMemoryDb_CreateSecret (sdr_now d) (sdr_oid d) (new_secret w d request) db of
             (s, db') \<Rightarrow> (Inr (answer_of s), db'))"

definition not_found :: "string \<Rightarrow> string" where
  "not_found secretId = ''Secret does not exist, secretId: '' @ secretId"

text \<open>\<open>DescribeSecret\<close> leaves the version of its answer empty.\<close>

definition SecretsManagerService_DescribeSecret ::
  "secrets_draws \<Rightarrow> string \<Rightarrow> secrets_db \<Rightarrow> (SecretAnswer, secrets_db) outcome" where
  "SecretsManagerService_DescribeSecret d secretId db =
     (if \<not> SecretsManagerMemoryDb_SecretIdExists secretId db then (Inl (NotFoundException (not_found secretId)), db)
      else case SecretsManagerMemoryDb_GetSecretBySecretId (sdr_now d) secretId db of
             (s, db') \<Rightarrow> (Inr ((answer_of s)\<lparr>sa_versionId := []\<rparr>), db'))"

text \<open>
  Of a secret with a string, the code decodes into a temporary, keeps the pointer to its bytes, and
  decrypts them after the temporary is gone, with a length that was never set.  What is answered
  otherwise has neither string nor binary.
\<close>

definition SecretsManagerService_GetSecretValue ::
  "secrets_draws \<Rightarrow> string \<Rightarrow> secrets_db \<Rightarrow> (SecretAnswer, secrets_db) outcome" where
  "SecretsManagerService_GetSecretValue d secretId db =
     (if \<not> SecretsManagerMemoryDb_SecretIdExists secretId db then (Inl (ServiceException (not_found secretId)), db)
      else case SecretsManagerMemoryDb_GetSecretBySecretId (sdr_now d) secretId db of
             (s, db') \<Rightarrow>
               if sec_secretString s \<noteq> [] then (Inl UndefinedBehaviour, db')
               else catch_poco (andthen
                      (SecretsManagerMemoryDb_UpdateSecret (s\<lparr>sec_lastAccessedDate := sdr_epoch d\<rparr>) db')
                      (\<lambda>_ db''. (Inr ((answer_of s)\<lparr>sa_region := []\<rparr>), db''))))"

definition list_entry :: "Secret \<Rightarrow> SecretListEntry" where
  "list_entry s =
     \<lparr>sle_primaryRegion = sec_primaryRegion s, sle_arn = sec_arn s, sle_name = sec_name s,
      sle_description = sec_description s, sle_kmsKeyId = sec_kmsKeyId s, sle_createdDate = sec_createdDate s,
      sle_deletedDate = sec_deletedDate s, sle_lastAccessedDate = sec_lastAccessedDate s,
      sle_lastChangedDate = sec_lastChangedDate s, sle_lastRotatedDate = sec_lastRotatedDate s,
      sle_nextRotatedDate = sec_nextRotatedDate s, sle_rotationEnabled = sec_rotationEnabled s,
      sle_rotationLambdaARN = sec_rotationLambdaARN s, sle_rotationRules = sec_rotationRules s\<rparr>"

definition SecretsManagerService_ListSecrets :: "secrets_db \<Rightarrow> SecretListEntry list" where
  "SecretsManagerService_ListSecrets db = map list_entry (SecretsManagerMemoryDb_ListSecrets db)"

definition SecretsManagerService_UpdateSecret ::
  "secrets_draws \<Rightarrow> UpdateSecretRequest \<Rightarrow> secrets_db \<Rightarrow> (SecretAnswer, secrets_db) outcome" where
  "SecretsManagerService_UpdateSecret d request db =
     (if \<not> SecretsManagerMemoryDb_SecretIdExists (usr_secretId request) db
      then (Inl (ServiceException (not_found (usr_secretId request))), db)
      else case SecretsManagerMemoryDb_GetSecretBySecretId (sdr_now d) (usr_secretId request) db of
             (s, db') \<Rightarrow>
               catch_poco (andthen
                 (SecretsManagerMemoryDb_UpdateSecret
                   (s\<lparr>sec_kmsKeyId := usr_kmsKeyId request, sec_secretString := usr_secretString request,
                      sec_secretBinary := usr_secretBinary request, sec_description := usr_description request,
                      sec_lastChangedDate := sdr_epoch d\<rparr>) db')
                 (\<lambda>s' db''. (Inr (answer_of s'), db''))))"

definition SecretsManagerService_RotateSecret ::
  "secrets_draws \<Rightarrow> string \<Rightarrow> secrets_db \<Rightarrow> (SecretAnswer, secrets_db) outcome" where
  "SecretsManagerService_RotateSecret d secretId db =
     (if \<not> SecretsManagerMemoryDb_SecretIdExists secretId db then (Inl (NotFoundException (not_found secretId)), db)
      else case SecretsManagerMemoryDb_GetSecretBySecretId (sdr_now d) secretId db of
             (s, db') \<Rightarrow>
               catch_poco (andthen
                 (SecretsManagerMemoryDb_UpdateSecret (s\<lparr>sec_lastRotatedDate := sdr_epoch d\<rparr>) db')
                 (\<lambda>s' db''. (Inr \<lparr>sa_region = sec_region s', sa_name = [], sa_arn = sec_arn s', sa_versionId = []\<rparr>, db''))))"

definition SecretsManagerService_DeleteSecret ::
  "secrets_draws \<Rightarrow> string \<Rightarrow> string \<Rightarrow> secrets_db \<Rightarrow> (SecretAnswer \<times> int, secrets_db) outcome" where
  "SecretsManagerService_DeleteSecret d region name db =
     (if \<not> SecretsManagerMemoryDb_SecretExists region name db
      then (Inl (ServiceException (''Secret does not exist, name: '' @ name)), db)
      else case SecretsManagerMemoryDb_GetSecretByRegionName (sdr_now d) region name db of
             (s, db') \<Rightarrow>
               (Inr (\<lparr>sa_region = region, sa_name = sec_name s, sa_arn = sec_arn s, sa_versionId = []\<rparr>, sdr_epoch d),
                SecretsManagerMemoryDb_DeleteSecret s db'))"

section \<open>The handler\<close>

datatype secrets_body =
    SecretsText string
  | CreateSecretBody SecretAnswer
  | DeleteSecretBody "SecretAnswer \<times> int"
  | DescribeSecretBody SecretAnswer
  | SecretValueBody SecretAnswer
  | UpdateSecretBody SecretAnswer
  | RotateSecretBody SecretAnswer
  | ListSecretsBody "SecretListEntry list"

text \<open>Identifiers drawn and the values of memory that is read before it is written.\<close>

record secrets_request_world =
  sr_requestId :: string
  sr_method :: http_verb
  sr_bool :: bool
  sr_int :: int
  sr_rules :: RotationRules
  sr_draws :: secrets_draws

text \<open>The classes that the handler catches; a missing secret and a document that does not parse are not among them.\<close>

fun secrets_caught :: "exn \<Rightarrow> string option" where
  "secrets_caught (JsonException m) = Some m"
| "secrets_caught (DatabaseException m) = Some m"
| "secrets_caught (ServiceException m) = Some m"
| "secrets_caught _ = None"

definition secrets_catch ::
  "(secrets_body http_response, 's) outcome \<Rightarrow> (secrets_body http_response, 's) outcome" where
  "secrets_catch r =
     (case r of
        (Inr x, s) \<Rightarrow> (Inr x, s)
      | (Inl e, s) \<Rightarrow> (case secrets_caught e of
                         Some m \<Rightarrow> (Inr (HttpUtils_InternalServerError (SecretsText m)), s)
                       | None \<Rightarrow> (Inl e, s)))"

definition secrets_serve ::
  "'r result \<Rightarrow> ('r \<Rightarrow> secrets_db \<Rightarrow> ('a, secrets_db) outcome) \<Rightarrow> ('a \<Rightarrow> secrets_body) \<Rightarrow> secrets_db \<Rightarrow>
   (secrets_body http_response, secrets_db) outcome" where
  "secrets_serve r f body db =
     (case r of
        Inl e \<Rightarrow> (Inl e, db)
      | Inr request \<Rightarrow> andthen (f request db) (\<lambda>x db'. (Inr (SendOkResponse (body x) []), db')))"

definition secrets_dispatch ::
  "secrets_world \<Rightarrow> secrets_request_world \<Rightarrow> SecretsManagerClientCommand \<Rightarrow> secrets_db \<Rightarrow>
   (secrets_body http_response, secrets_db) outcome" where
  "secrets_dispatch w h c =
     (let ext = sw_ext w; d = sr_draws h; payload = bc_payload c in
      case smc_command c of
        CREATE_SECRET \<Rightarrow>
          secrets_serve (CreateSecretRequest_FromJson ext (sr_bool h) payload
              \<lparr>csr_region = bc_region c, csr_name = [], csr_description = [], csr_secretString = [],
               csr_secretBinary = [], csr_kmsKeyId = []\<rparr>)
            (SecretsManagerService_CreateSecret w d) CreateSecretBody
      | DELETE_SECRET \<Rightarrow>
          secrets_serve (DeleteSecretRequest_FromJson ext payload)
            (\<lambda>name. SecretsManagerService_DeleteSecret d (bc_region c) name) DeleteSecretBody
      | DESCRIBE_SECRET \<Rightarrow>
          secrets_serve (DescribeSecretRequest_FromJson ext payload)
            (SecretsManagerService_DescribeSecret d) DescribeSecretBody
      | GET_SECRET_VALUE \<Rightarrow>
          secrets_serve (GetSecretValueRequest_FromJson ext payload)
            (SecretsManagerService_GetSecretValue d) SecretValueBody
      | UPDATE_SECRET \<Rightarrow>
          secrets_serve (UpdateSecretRequest_FromJson ext payload
              \<lparr>usr_region = bc_region c, usr_secretId = [], usr_kmsKeyId = [], usr_description = [],
               usr_secretString = [], usr_secretBinary = []\<rparr>)
            (SecretsManagerService_UpdateSecret d) UpdateSecretBody
      | ROTATE_SECRET \<Rightarrow>
          secrets_serve (RotateSecretRequest_FromJson ext (sr_bool h) (sr_rules h) payload)
            (SecretsManagerService_RotateSecret d) RotateSecretBody
      | LIST_SECRETS \<Rightarrow>
          secrets_serve (ListSecretsRequest_FromJson ext (sr_int h) payload)
            (\<lambda>_ db. (Inr (SecretsManagerService_ListSecrets db), db)) ListSecretsBody
      | SECRETS_UNKNOWN \<Rightarrow>
          (\<lambda>db. (Inr (SendBadRequestError (SecretsText ''Unknown method'') []), db)))"

definition SecretsManagerHandler_HandlePostRequest ::
  "secrets_world \<Rightarrow> secrets_request_world \<Rightarrow> http_request \<Rightarrow> string \<Rightarrow> string \<Rightarrow> secrets_db \<Rightarrow>
   (secrets_body http_response, secrets_db) outcome" where
  "SecretsManagerHandler_HandlePostRequest w h request region user db =
     (case SecretsManagerClientCommand_FromRequest (sr_method h) (sr_requestId h) request region user of
        Inl e \<Rightarrow> (Inl e, db)
      | Inr c \<Rightarrow> secrets_catch (secrets_dispatch w h c db))"

end
