(* ===== verification/SecretsProperties.thy ===== *)
theory SecretsProperties
  imports SecretsManager SQSExamples
begin

text \<open>
  The secrets manager: its table, the invariant of its store under the requests of the handler, and
  what becomes of a secret that was created or updated.
\<close>

section \<open>The table of secrets\<close>

definition secrets_inv :: "secrets_db \<Rightarrow> bool" where
  "secrets_inv db \<longleftrightarrow> rows_tagged sec_oid (sm_secrets db)"

lemma secrets_invD: "secrets_inv db \<Longrightarrow> rows_tagged sec_oid (sm_secrets db)" "secrets_inv db \<Longrightarrow> smap_inv (sm_secrets db)"
  by (simp_all add: secrets_inv_def rows_tagged_inv)

lemma secret_fetch_inv:
  "secrets_inv db \<Longrightarrow> secret_fetch P now db =
     (case smap_find_if P (sm_secrets db) of None \<Rightarrow> Secret_init now | Some (oid, s) \<Rightarrow> s, db)"
  by (simp add: secret_fetch_def smap_fetch_tagged [where oid_of = sec_oid] secrets_invD)

lemma CreateSecret_eq:
  "secrets_inv db \<Longrightarrow> SecretsManagerMemoryDb_CreateSecret now oid s db =
     (s\<lparr>sec_oid := oid\<rparr>, db\<lparr>sm_secrets := smap_put oid (s\<lparr>sec_oid := oid\<rparr>) (sm_secrets db)\<rparr>)"
  by (simp add: SecretsManagerMemoryDb_CreateSecret_def SecretsManagerMemoryDb_GetSecretById_def secret_fetch_def
      smap_fetch_def smap_find_if_key secrets_invD)

interpretation secret_table: entity_table secrets_inv sm_secrets sec_oid "\<lambda>oid s. s\<lparr>sec_oid := oid\<rparr>"
  SecretsManagerMemoryDb_CreateSecret SecretsManagerMemoryDb_GetSecretById Secret_init
  SecretsManagerMemoryDb_DeleteAllSecrets
proof unfold_locales
  fix db now oid and e :: Secret
  assume inv: "secrets_inv db"
  show "rows_tagged sec_oid (sm_secrets db)" using inv by (rule secrets_invD)
  show "fst (SecretsManagerMemoryDb_CreateSecret now oid e db) = e\<lparr>sec_oid := oid\<rparr>"
    "sm_secrets (snd (SecretsManagerMemoryDb_CreateSecret now oid e db)) = smap_put oid (e\<lparr>sec_oid := oid\<rparr>) (sm_secrets db)"
    "secrets_inv (snd (SecretsManagerMemoryDb_CreateSecret now oid e db))"
    using inv by (simp_all add: CreateSecret_eq secrets_inv_def rows_tagged_put)
  show "smap_get oid (sm_secrets db) = Some e \<Longrightarrow> SecretsManagerMemoryDb_GetSecretById now oid db = (e, db)"
    "smap_get oid (sm_secrets db) = None \<Longrightarrow> SecretsManagerMemoryDb_GetSecretById now oid db = (Secret_init now, db)"
    using inv by (simp_all add: SecretsManagerMemoryDb_GetSecretById_def secret_fetch_inv smap_find_if_key secrets_invD)
  show "secrets_inv (SecretsManagerMemoryDb_DeleteAllSecrets db)"
    using inv by (simp add: SecretsManagerMemoryDb_DeleteAllSecrets_def secrets_inv_def)
qed (simp add: SecretsManagerMemoryDb_DeleteAllSecrets_def)

section \<open>The invariant of the store\<close>

text \<open>A region has one secret of a name, and its id and ARN are the ones it was created with.\<close>

definition well_named :: "secrets_world \<Rightarrow> Secret \<Rightarrow> bool" where
  "well_named w s \<longleftrightarrow>
     (\<exists>hex. sec_secretId s = sec_name s @ ''-'' @ hex) \<and>
     sec_arn s = AwsUtils_CreateSecretArn (sec_region s) (cfg_accountId (sw_cfg w)) (sec_secretId s)"

definition secrets_wf :: "secrets_world \<Rightarrow> secrets_db \<Rightarrow> bool" where
  "secrets_wf w db \<longleftrightarrow> secrets_inv db \<and>
     (\<forall>(k1, s1) \<in> set (sm_secrets db). well_named w s1 \<and>
        (\<forall>(k2, s2) \<in> set (sm_secrets db). sec_region s1 = sec_region s2 \<and> sec_name s1 = sec_name s2 \<longrightarrow> k1 = k2))"

lemma secrets_wfD:
  assumes "secrets_wf w db"
  shows "secrets_inv db" "(k, s) \<in> set (sm_secrets db) \<Longrightarrow> well_named w s"
    "(k, s) \<in> set (sm_secrets db) \<Longrightarrow> (k', s') \<in> set (sm_secrets db) \<Longrightarrow> sec_region s = sec_region s' \<Longrightarrow>
     sec_name s = sec_name s' \<Longrightarrow> k = k'"
  using assms by (force simp: secrets_wf_def)+

text \<open>Writing back a secret that was fetched by its id, with its id, names and ARN.\<close>

lemma fetched_then_updated:
  assumes wf: "secrets_wf w db" and ex: "SecretsManagerMemoryDb_SecretIdExists secretId db"
  obtains k s where "(k, s) \<in> set (sm_secrets db)" "sec_secretId s = secretId" "sec_oid s = k"
    "smap_find_if (with_secretId secretId) (sm_secrets db) = Some (k, s)"
    "\<And>now. SecretsManagerMemoryDb_GetSecretBySecretId now secretId db = (s, db)"
    "\<And>s'. sec_oid s' = k \<Longrightarrow> sec_region s' = sec_region s \<Longrightarrow> sec_name s' = sec_name s \<Longrightarrow> sec_secretId s' = secretId \<Longrightarrow>
       sec_arn s' = sec_arn s \<Longrightarrow>
       SecretsManagerMemoryDb_UpdateSecret s' db = (Inr s', db\<lparr>sm_secrets := smap_put k s' (sm_secrets db)\<rparr>) \<and>
       secrets_wf w (db\<lparr>sm_secrets := smap_put k s' (sm_secrets db)\<rparr>)"
proof -
  note inv = secrets_wfD(1) [OF wf]
  obtain k s where find: "smap_find_if (with_secretId secretId) (sm_secrets db) = Some (k, s)"
    using ex by (auto simp: SecretsManagerMemoryDb_SecretIdExists_def)
  then have row: "(k, s) \<in> set (sm_secrets db)" "sec_secretId s = secretId"
    by (auto dest: smap_find_if_Some simp: with_secretId_def)
  have tag: "sec_oid s = k" using rows_taggedD [OF secrets_invD(1) [OF inv] row(1)] .
  have "SecretsManagerMemoryDb_UpdateSecret s' db = (Inr s', db\<lparr>sm_secrets := smap_put k s' (sm_secrets db)\<rparr>) \<and>
       secrets_wf w (db\<lparr>sm_secrets := smap_put k s' (sm_secrets db)\<rparr>)"
    if s': "sec_oid s' = k" "sec_region s' = sec_region s" "sec_name s' = sec_name s" "sec_secretId s' = secretId"
      "sec_arn s' = sec_arn s" for s'
  proof
    show "SecretsManagerMemoryDb_UpdateSecret s' db = (Inr s', db\<lparr>sm_secrets := smap_put k s' (sm_secrets db)\<rparr>)"
      by (simp add: SecretsManagerMemoryDb_UpdateSecret_def smap_replace_def s'(4) find)
    have set: "set (smap_put k s' (sm_secrets db)) = insert (k, s') {kv \<in> set (sm_secrets db). fst kv \<noteq> k}"
      by (simp add: set_smap_put secrets_invD(2) [OF inv])
    have "well_named w s'" using secrets_wfD(2) [OF wf row(1)] s' row(2) by (simp add: well_named_def)
    moreover have "secrets_inv (db\<lparr>sm_secrets := smap_put k s' (sm_secrets db)\<rparr>)"
      using inv s'(1) by (simp add: secrets_inv_def rows_tagged_put)
    moreover have "k2 = k" if "(k2, s2) \<in> set (sm_secrets db)" "sec_region s' = sec_region s2" "sec_name s' = sec_name s2" for k2 s2
      using secrets_wfD(3) [OF wf that(1) row(1)] that s' by simp
    ultimately show "secrets_wf w (db\<lparr>sm_secrets := smap_put k s' (sm_secrets db)\<rparr>)"
      using secrets_wfD(2,3) [OF wf] unfolding secrets_wf_def by (simp add: set) (blast dest: sym)
  qed
  moreover have "SecretsManagerMemoryDb_GetSecretBySecretId now secretId db = (s, db)" for now
    by (simp add: SecretsManagerMemoryDb_GetSecretBySecretId_def secret_fetch_inv inv find)
  ultimately show thesis using that row tag find by blast
qed

declare snd_andthen_return [simp]

lemma wf_GetSecretValue:
  assumes "secrets_wf w db" shows "secrets_wf w (snd (SecretsManagerService_GetSecretValue d secretId db))"
proof (cases "SecretsManagerMemoryDb_SecretIdExists secretId db")
  case True
  show ?thesis by (rule fetched_then_updated [OF assms True]) (simp add: SecretsManagerService_GetSecretValue_def assms)
qed (simp add: SecretsManagerService_GetSecretValue_def assms)

lemma wf_DescribeSecret:
  assumes "secrets_wf w db" shows "secrets_wf w (snd (SecretsManagerService_DescribeSecret d secretId db))"
proof (cases "SecretsManagerMemoryDb_SecretIdExists secretId db")
  case True
  show ?thesis by (rule fetched_then_updated [OF assms True]) (simp add: SecretsManagerService_DescribeSecret_def assms)
qed (simp add: SecretsManagerService_DescribeSecret_def assms)

lemma wf_UpdateSecret:
  assumes "secrets_wf w db" shows "secrets_wf w (snd (SecretsManagerService_UpdateSecret d request db))"
proof (cases "SecretsManagerMemoryDb_SecretIdExists (usr_secretId request) db")
  case True
  show ?thesis by (rule fetched_then_updated [OF assms True]) (simp add: SecretsManagerService_UpdateSecret_def True)
qed (simp add: SecretsManagerService_UpdateSecret_def assms)

lemma wf_RotateSecret:
  assumes "secrets_wf w db" shows "secrets_wf w (snd (SecretsManagerService_RotateSecret d secretId db))"
proof (cases "SecretsManagerMemoryDb_SecretIdExists secretId db")
  case True
  show ?thesis by (rule fetched_then_updated [OF assms True]) (simp add: SecretsManagerService_RotateSecret_def True)
qed (simp add: SecretsManagerService_RotateSecret_def assms)

lemma wf_DeleteSecret:
  assumes wf: "secrets_wf w db" shows "secrets_wf w (snd (SecretsManagerService_DeleteSecret d region name db))"
proof -
  have "secrets_wf w (SecretsManagerMemoryDb_DeleteSecret s db)" for s
    using wf unfolding secrets_wf_def SecretsManagerMemoryDb_DeleteSecret_def secrets_inv_def
    by (fastforce simp: rows_tagged_erase_if set_smap_erase_if)
  moreover have "snd (SecretsManagerMemoryDb_GetSecretByRegionName now region name db) = db" for now
    by (simp add: SecretsManagerMemoryDb_GetSecretByRegionName_def secret_fetch_inv secrets_wfD(1) [OF wf])
  ultimately show ?thesis using wf by (simp add: SecretsManagerService_DeleteSecret_def case_prod_beta)
qed

definition stored_secret :: "secrets_world \<Rightarrow> secrets_draws \<Rightarrow> CreateSecretRequest \<Rightarrow> Secret" where
  "stored_secret w d request = (new_secret w d request)\<lparr>sec_oid := sdr_oid d\<rparr>"

lemma stored_secret_fields:
  "sec_oid (stored_secret w d request) = sdr_oid d" "sec_region (stored_secret w d request) = csr_region request"
  "sec_name (stored_secret w d request) = csr_name request"
  "sec_secretId (stored_secret w d request) = csr_name request @ ''-'' @ sdr_hex d"
  "sec_versionId (stored_secret w d request) = sdr_versionId d"
  "sec_arn (stored_secret w d request) = AwsUtils_CreateSecretArn (csr_region request) (cfg_accountId (sw_cfg w)) (csr_name request @ ''-'' @ sdr_hex d)"
  "sec_secretString (stored_secret w d request) =
     (if csr_secretString request \<noteq> [] then sw_base64 w (sw_encrypt w (c_string (csr_secretString request))) else [])"
  by (simp_all add: stored_secret_def new_secret_def Let_def Secret_init_def)

lemma CreateSecret_cases:
  assumes "secrets_inv db"
  shows "(SecretsManagerService_CreateSecret w d request db =
            (Inr (answer_of (stored_secret w d request)),
             db\<lparr>sm_secrets := smap_put (sdr_oid d) (stored_secret w d request) (sm_secrets db)\<rparr>) \<and>
          \<not> SecretsManagerMemoryDb_SecretExists (csr_region request) (csr_name request) db \<and>
          (csr_secretString request = []) = (csr_secretBinary request \<noteq> [])) \<or>
         (\<exists>m. SecretsManagerService_CreateSecret w d request db = (Inl (ServiceException m), db))"
  using assms by (simp add: SecretsManagerService_CreateSecret_def CreateSecret_eq stored_secret_def)

lemma wf_CreateSecret:
  assumes wf: "secrets_wf w db" and fresh: "sdr_oid d \<notin> fst ` set (sm_secrets db)"
  shows "secrets_wf w (snd (SecretsManagerService_CreateSecret w d request db))"
proof -
  note inv = secrets_wfD(1) [OF wf]
  have "secrets_wf w (db\<lparr>sm_secrets := smap_put (sdr_oid d) (stored_secret w d request) (sm_secrets db)\<rparr>)" (is "secrets_wf w ?db")
    if none: "\<not> SecretsManagerMemoryDb_SecretExists (csr_region request) (csr_name request) db"
  proof -
    have set: "set (sm_secrets ?db) = insert (sdr_oid d, stored_secret w d request) (set (sm_secrets db))"
      using fresh by (force simp: set_smap_put secrets_invD(2) [OF inv])
    have other: "\<not> (sec_region s = csr_region request \<and> sec_name s = csr_name request)" if "(k, s) \<in> set (sm_secrets db)" for k s
      using none that by (auto simp: SecretsManagerMemoryDb_SecretExists_def smap_find_if_None named_def)
    have "well_named w (stored_secret w d request)" by (simp add: well_named_def stored_secret_fields)
    moreover have "secrets_inv ?db" using inv by (simp add: secrets_inv_def rows_tagged_put stored_secret_fields)
    ultimately show ?thesis using secrets_wfD(2,3) [OF wf] other
      unfolding secrets_wf_def set by (auto simp: stored_secret_fields dest: sym)
  qed
  then show ?thesis using CreateSecret_cases [OF inv, of w d request] wf by auto
qed

section \<open>Serving requests\<close>

lemma snd_secrets_catch [simp]: "snd (secrets_catch r) = snd r"
  by (cases r; cases "fst r") (auto simp: secrets_catch_def split: option.split)

lemma wf_serve:
  "secrets_wf w db \<Longrightarrow> (\<And>request. secrets_wf w (snd (f request db))) \<Longrightarrow> secrets_wf w (snd (secrets_serve r f body db))"
  by (simp add: secrets_serve_def split: sum.split)

inductive secrets_request :: "secrets_world \<Rightarrow> secrets_db \<Rightarrow> secrets_db \<Rightarrow> bool" for w :: secrets_world where
  post: "sdr_oid (sr_draws h) \<notin> fst ` set (sm_secrets db) \<Longrightarrow>
    secrets_request w db (snd (SecretsManagerHandler_HandlePostRequest w h request region user db))"

inductive secrets_served :: "secrets_world \<Rightarrow> secrets_db \<Rightarrow> bool" for w :: secrets_world where
  start: "secrets_served w \<lparr>sm_secrets = []\<rparr>"
| step: "secrets_served w db \<Longrightarrow> secrets_request w db db' \<Longrightarrow> secrets_served w db'"

lemma secrets_request_wf: "secrets_request w db db' \<Longrightarrow> secrets_wf w db \<Longrightarrow> secrets_wf w db'"
proof (induction rule: secrets_request.induct)
  case (post h db request region user)
  then show ?case
    by (cases "SecretsManagerClientCommand_FromRequest (sr_method h) (sr_requestId h) request region user")
       (auto simp: SecretsManagerHandler_HandlePostRequest_def secrets_dispatch_def Let_def
          split: SecretsManagerCommandType.split
          intro!: wf_serve wf_CreateSecret wf_DeleteSecret wf_DescribeSecret wf_GetSecretValue wf_UpdateSecret wf_RotateSecret)
qed

lemma secrets_served_wf: "secrets_served w db \<Longrightarrow> secrets_wf w db"
proof (induction rule: secrets_served.induct)
  case start
  then show ?case by (simp add: secrets_wf_def secrets_inv_def)
next
  case step
  then show ?case by (blast intro: secrets_request_wf)
qed

text \<open>C33: under any sequence of requests to the secrets manager, a region has at most one secret of a
  name, the rows of the store carry their keys, and every secret keeps the id
  (\<open>name-suffix\<close>) and the ARN built from its region, the account and that id.
\<close>

theorem secret_names_unique:
  assumes "secrets_served w db" "(k, s) \<in> set (sm_secrets db)"
  shows "sec_oid s = k \<and> (\<exists>hex. sec_secretId s = sec_name s @ ''-'' @ hex) \<and>
         sec_arn s = AwsUtils_CreateSecretArn (sec_region s) (cfg_accountId (sw_cfg w)) (sec_secretId s) \<and>
         (\<forall>(k', s') \<in> set (sm_secrets db). sec_region s' = sec_region s \<and> sec_name s' = sec_name s \<longrightarrow> k' = k)"
proof -
  note wf = secrets_served_wf [OF assms(1)]
  have "\<forall>(k', s') \<in> set (sm_secrets db). sec_region s' = sec_region s \<and> sec_name s' = sec_name s \<longrightarrow> k' = k"
    using secrets_wfD(3) [OF wf _ assms(2)] by blast
  moreover have "sec_oid s = k" using rows_taggedD [OF secrets_invD(1) [OF secrets_wfD(1) [OF wf]] assms(2)] .
  ultimately show ?thesis using secrets_wfD(2) [OF wf assms(2)] by (simp add: well_named_def)
qed

lemma find_created:
  assumes "smap_inv m" "smap_find_if P m = None" "P (k, v)"
  shows "smap_find_if P (smap_put k v m) = Some (k, v)"
proof (rule smap_find_if_unique)
  show "(k, v) \<in> set (smap_put k v m)" by (simp add: set_smap_put assms(1))
  show "P (k, v)" by (fact assms(3))
  show "kv = (k, v)" if "kv \<in> set (smap_put k v m)" "P kv" for kv
    using that assms(2) by (auto simp: set_smap_put assms(1) smap_find_if_None)
qed


text \<open>C35: an update of a secret stores the string as it was sent, not encrypted as a creation does: the
  row of the secret holds the clear text, keeps its region, name and ARN, and no other row changes.
\<close>

theorem updated_secret_is_clear_text:
  assumes served: "secrets_served w db"
    and update: "SecretsManagerService_UpdateSecret d request db = (Inr a, db')"
  shows "\<exists>k s. smap_get k (sm_secrets db) = Some s \<and> sec_secretId s = usr_secretId request \<and>
           (\<exists>s'. smap_get k (sm_secrets db') = Some s' \<and> sec_secretString s' = usr_secretString request \<and>
                 sec_secretBinary s' = usr_secretBinary request \<and> answer_of s' = answer_of s \<and> a = answer_of s) \<and>
           (\<forall>k'. k' \<noteq> k \<longrightarrow> smap_get k' (sm_secrets db') = smap_get k' (sm_secrets db))"
proof -
  note wf = secrets_served_wf [OF served] note inv = secrets_invD(2) [OF secrets_wfD(1) [OF wf]]
  have ex: "SecretsManagerMemoryDb_SecretIdExists (usr_secretId request) db"
    using update by (auto simp: SecretsManagerService_UpdateSecret_def split: if_splits)
  obtain k s where row: "(k, s) \<in> set (sm_secrets db)" "sec_secretId s = usr_secretId request" "sec_oid s = k"
    and get: "\<And>now. SecretsManagerMemoryDb_GetSecretBySecretId now (usr_secretId request) db = (s, db)"
    and upd: "\<And>s'. sec_oid s' = k \<Longrightarrow> sec_region s' = sec_region s \<Longrightarrow> sec_name s' = sec_name s \<Longrightarrow>
       sec_secretId s' = usr_secretId request \<Longrightarrow> sec_arn s' = sec_arn s \<Longrightarrow>
       SecretsManagerMemoryDb_UpdateSecret s' db = (Inr s', db\<lparr>sm_secrets := smap_put k s' (sm_secrets db)\<rparr>)"
    by (rule fetched_then_updated [OF wf ex]) blast
  let ?s' = "s\<lparr>sec_kmsKeyId := usr_kmsKeyId request, sec_secretString := usr_secretString request,
      sec_secretBinary := usr_secretBinary request, sec_description := usr_description request, sec_lastChangedDate := sdr_epoch d\<rparr>"
  have "SecretsManagerService_UpdateSecret d request db =
      (Inr (answer_of ?s'), db\<lparr>sm_secrets := smap_put k ?s' (sm_secrets db)\<rparr>)"
    by (simp add: SecretsManagerService_UpdateSecret_def ex get upd row)
  then have db': "a = answer_of ?s'" "db' = db\<lparr>sm_secrets := smap_put k ?s' (sm_secrets db)\<rparr>" using update by simp_all
  have "smap_get k (sm_secrets db) = Some s" using row(1) by (simp add: smap_get_iff inv)
  moreover have "smap_get k (sm_secrets db') = Some ?s'" by (simp add: db' inv)
  moreover have "answer_of ?s' = answer_of s" by (simp add: answer_of_def)
  ultimately show ?thesis using row(2) db'
    by (intro exI [of _ k] exI [of _ s] conjI exI [of _ ?s']) (simp_all add: inv)
qed

text \<open>the handler answers a \<open>GetSecretValue\<close> for an unknown secret with status 500, but the
  \<open>NotFoundException\<close> of a \<open>DescribeSecret\<close> for it is of no class that the handler catches: it leaves
  the handler and the client gets no answer.
\<close>

theorem unknown_secret_leaves_handler:
  assumes command: "SecretsManagerClientCommand_FromRequest (sr_method h) (sr_requestId h) request region user = Inr c"
    and missing: "\<not> SecretsManagerMemoryDb_SecretIdExists secretId db"
    and document: "DescribeSecretRequest_FromJson (sw_ext w) (bc_payload c) = Inr secretId"
  shows "(smc_command c = DESCRIBE_SECRET \<longrightarrow>
            SecretsManagerHandler_HandlePostRequest w h request region user db =
              (Inl (NotFoundException (''Secret does not exist, secretId: '' @ secretId)), db)) \<and>
         (smc_command c = GET_SECRET_VALUE \<longrightarrow>
            (\<exists>r. SecretsManagerHandler_HandlePostRequest w h request region user db = (Inr r, db) \<and> rs_status r = 500 \<and>
                 rs_body r = SecretsText (''Secret does not exist, secretId: '' @ secretId)))"
proof -
  have gsv: "GetSecretValueRequest_FromJson (sw_ext w) (bc_payload c) = Inr secretId"
    using document unfolding DescribeSecretRequest_FromJson_def GetSecretValueRequest_FromJson_def json_as_def
    by (auto simp: rbind_Inr_iff split: sum.splits)
  show ?thesis
    using missing by (simp add: SecretsManagerHandler_HandlePostRequest_def command secrets_dispatch_def Let_def document gsv
        secrets_serve_def SecretsManagerService_DescribeSecret_def SecretsManagerService_GetSecretValue_def secrets_catch_def
        not_found_def HttpUtils_InternalServerError_def html_response_def)
qed

section \<open>An example\<close>

definition demo_secrets_world :: secrets_world where
  "demo_secrets_world = \<lparr>sw_cfg = demo_cfg, sw_ext = demo_ext, sw_encrypt = (\<lambda>s. ''e'' @ s), sw_base64 = (\<lambda>s. s)\<rparr>"

definition demo_secret_draws :: "string \<Rightarrow> secrets_draws" where
  "demo_secret_draws oid = \<lparr>sdr_versionId = ''v'', sdr_hex = ''00ff00'', sdr_epoch = 7, sdr_oid = oid, sdr_now = 7\<rparr>"

definition demo_secret_request :: CreateSecretRequest where
  "demo_secret_request = \<lparr>csr_region = ''eu'', csr_name = ''s'', csr_description = [], csr_secretString = ''pw'',
     csr_secretBinary = [], csr_kmsKeyId = []\<rparr>"

text \<open>The parser of the example reads any document as the request to create the example's secret.\<close>

definition demo_create_world :: secrets_world where
  "demo_create_world = demo_secrets_world\<lparr>sw_ext := demo_ext\<lparr>ext_json_parse := (\<lambda>s. Inr (JObject
     [(''Name'', JString ''s''), (''SecretString'', JString ''pw''), (''SecretId'', JString s)]))\<rparr>\<rparr>"

definition demo_secrets_request :: "http_verb \<Rightarrow> string \<Rightarrow> secrets_request_world" where
  "demo_secrets_request stale oid = \<lparr>sr_requestId = [], sr_method = stale, sr_bool = False, sr_int = 0,
     sr_rules = \<lparr>rr_automaticallyAfterDays = 0, rr_duration = [], rr_scheduleExpression = []\<rparr>,
     sr_draws = demo_secret_draws oid\<rparr>"

definition demo_secrets_post :: "string \<Rightarrow> string \<Rightarrow> http_request" where
  "demo_secrets_post target body = \<lparr>rq_method = HttpPost, rq_target = ''/'',
     rq_fields = [(''X-Amz-Target'', ''secretsmanager.'' @ target)], rq_body = body\<rparr>"

definition demo_secrets :: secrets_db where
  "demo_secrets = snd (SecretsManagerHandler_HandlePostRequest demo_create_world (demo_secrets_request HttpPost ''x1'')
     (demo_secrets_post ''CreateSecret'' []) ''eu'' ''me'' \<lparr>sm_secrets = []\<rparr>)"

lemma demo_secrets_served: "secrets_served demo_create_world demo_secrets"
  unfolding demo_secrets_def
  by (rule secrets_served.step [OF secrets_served.start secrets_request.post]) simp

lemma demo_secrets_rows:
  "map (\<lambda>(k, s). (k, sec_region s, sec_name s, sec_secretId s, sec_secretString s)) (sm_secrets demo_secrets) =
     [(''x1'', ''eu'', ''s'', ''s-00ff00'', ''epw'')]"
  by code_simp

theorem secret_names_unique_witness:
  "\<exists>k s. (k, s) \<in> set (sm_secrets demo_secrets) \<and> sec_oid s = k \<and>
     (\<forall>(k', s') \<in> set (sm_secrets demo_secrets). sec_region s' = sec_region s \<and> sec_name s' = sec_name s \<longrightarrow> k' = k)"
proof -
  obtain k s where "(k, s) \<in> set (sm_secrets demo_secrets)"
    using arg_cong [OF demo_secrets_rows, of length] by (cases "sm_secrets demo_secrets") auto
  then show ?thesis using secret_names_unique [OF demo_secrets_served] by blast
qed

lemma demo_secret_created:
  "map_sum (\<lambda>e. e) sa_name (fst (SecretsManagerService_CreateSecret demo_create_world (demo_secret_draws ''x2'')
     (demo_secret_request\<lparr>csr_region := ''us'', csr_name := ''t''\<rparr>) demo_secrets)) = Inr ''t''"
  "\<not> SecretsManagerMemoryDb_SecretIdExists ''t-00ff00'' demo_secrets"
  "''x2'' \<notin> set (map fst (sm_secrets demo_secrets))"
  by code_simp+

lemma demo_encoder: "\<forall>s. s \<noteq> [] \<longrightarrow> sw_base64 demo_create_world s \<noteq> []" "\<forall>s. sw_encrypt demo_create_world s \<noteq> []"
  by (simp_all add: demo_create_world_def demo_secrets_world_def)


definition demo_secret_update :: UpdateSecretRequest where
  "demo_secret_update = \<lparr>usr_region = ''eu'', usr_secretId = ''s-00ff00'', usr_kmsKeyId = [], usr_description = [],
     usr_secretString = ''clear'', usr_secretBinary = []\<rparr>"

lemma demo_secret_updated:
  "map_sum (\<lambda>e. e) sa_name (fst (SecretsManagerService_UpdateSecret (demo_secret_draws []) demo_secret_update demo_secrets)) = Inr ''s''"
  by code_simp

theorem updated_secret_is_clear_text_witness:
  "\<exists>a db' k s'. SecretsManagerService_UpdateSecret (demo_secret_draws []) demo_secret_update demo_secrets = (Inr a, db') \<and>
     smap_get k (sm_secrets db') = Some s' \<and> sec_secretString s' = ''clear''"
proof -
  obtain a db' where update: "SecretsManagerService_UpdateSecret (demo_secret_draws []) demo_secret_update demo_secrets = (Inr a, db')"
    using demo_secret_updated
    by (cases "SecretsManagerService_UpdateSecret (demo_secret_draws []) demo_secret_update demo_secrets" rule: andthen_cases) auto
  have string: "usr_secretString demo_secret_update = ''clear''" by (simp add: demo_secret_update_def)
  show ?thesis using updated_secret_is_clear_text [OF demo_secrets_served update] update unfolding string by blast
qed

lemma demo_describe_command:
  "map_sum (\<lambda>e. e) (\<lambda>c. (smc_command c, bc_payload c)) (SecretsManagerClientCommand_FromRequest HttpPost []
     (demo_secrets_post ''DescribeSecret'' ''nn'') ''eu'' ''me'') = Inr (DESCRIBE_SECRET, ''nn'')"
  "DescribeSecretRequest_FromJson (sw_ext demo_create_world) ''nn'' = Inr ''nn''"
  "\<not> SecretsManagerMemoryDb_SecretIdExists ''nn'' demo_secrets"
  by code_simp+

theorem unknown_secret_leaves_handler_witness:
  "SecretsManagerHandler_HandlePostRequest demo_create_world (demo_secrets_request HttpPost [])
     (demo_secrets_post ''DescribeSecret'' ''nn'') ''eu'' ''me'' demo_secrets =
     (Inl (NotFoundException (''Secret does not exist, secretId: '' @ ''nn'')), demo_secrets)"
proof -
  let ?h = "demo_secrets_request HttpPost []"
  have h: "sr_method ?h = HttpPost" "sr_requestId ?h = []" by (simp_all add: demo_secrets_request_def)
  obtain c where c: "SecretsManagerClientCommand_FromRequest (sr_method ?h) (sr_requestId ?h)
      (demo_secrets_post ''DescribeSecret'' ''nn'') ''eu'' ''me'' = Inr c" "smc_command c = DESCRIBE_SECRET" "bc_payload c = ''nn''"
    using demo_describe_command(1) unfolding h
    by (cases "SecretsManagerClientCommand_FromRequest HttpPost [] (demo_secrets_post ''DescribeSecret'' ''nn'') ''eu'' ''me''") auto
  have doc: "DescribeSecretRequest_FromJson (sw_ext demo_create_world) (bc_payload c) = Inr ''nn''"
    unfolding c(3) by (rule demo_describe_command(2))
  show ?thesis using unknown_secret_leaves_handler [OF c(1) demo_describe_command(3) doc] c(2) by blast
qed

end
