(* ===== verification/KMSService.thy ===== *)
theory KMSService
  imports KMSMemoryDb SQSHandler CString JsonRequests
begin

text \<open>
  The key management service: \<open>service/src/kms\<close> (the service, the detached thread that makes the key
  material, the handler), the requests of \<open>dto/src/kms\<close> and the enumerations of
  \<open>dto/include/awsmock/dto/kms/model\<close>.
\<close>

section \<open>Enumerations\<close>

datatype KeySpec =
    RSA_2048 | RSA_3072 | RSA_4096 | ECC_NIST_P256 | ECC_NIST_P384 | ECC_NIST_P521 | ECC_SECG_P256K1
  | SYMMETRIC_DEFAULT | HMAC_224 | HMAC_256 | HMAC_384 | HMAC_512

datatype KeyState =
    KEY_CREATING | KEY_ENABLED | KEY_DISABLED | KEY_PENDING_DELETION | KEY_PENDING_IMPORT
  | KEY_PENDING_REPLICATION_DELETION | KEY_UNAVAILABLE | KEY_UPDATING

datatype KeyUsage = SIGN_VERIFY | ENCRYPT_DECRYPT | GENERATE_VERIFY_MAC

datatype EncryptionAlgorithm = ALG_SYMMETRIC_DEFAULT | RSAES_OAEP_SHA_1 | RSAES_OAEP_SHA_256 | SM2PKE

definition KeySpecNames :: "(KeySpec \<times> string) list" where
  "KeySpecNames =
     [(RSA_2048, ''RSA_2048''), (RSA_3072, ''RSA_3072''), (RSA_4096, ''RSA_4096''),
      (ECC_NIST_P256, ''ECC_NIST_P256''), (ECC_NIST_P384, ''ECC_NIST_P384''), (ECC_NIST_P521, ''ECC_NIST_P521''),
      (ECC_SECG_P256K1, ''ECC_SECG_P256K1''), (SYMMETRIC_DEFAULT, ''SYMMETRIC_DEFAULT''),
      (HMAC_224, ''HMAC_224''), (HMAC_256, ''HMAC_256''), (HMAC_384, ''HMAC_384''), (HMAC_512, ''HMAC_512'')]"

definition KeyStateNames :: "(KeyState \<times> string) list" where
  "KeyStateNames =
     [(KEY_CREATING, ''Creating''), (KEY_ENABLED, ''Enabled''), (KEY_DISABLED, ''Disabled''),
      (KEY_PENDING_DELETION, ''PendingDeletion''), (KEY_PENDING_IMPORT, ''PendingImport''),
      (KEY_PENDING_REPLICATION_DELETION, ''PendingReplicaDeletion''), (KEY_UNAVAILABLE, ''Unavailable''),
      (KEY_UPDATING, ''Updating'')]"

definition KeyUsageNames :: "(KeyUsage \<times> string) list" where
  "KeyUsageNames =
     [(SIGN_VERIFY, ''SIGN_VERIFY''), (ENCRYPT_DECRYPT, ''ENCRYPT_DECRYPT''),
      (GENERATE_VERIFY_MAC, ''GENERATE_VERIFY_MAC'')]"

definition EncryptionAlgorithmsNames :: "(EncryptionAlgorithm \<times> string) list" where
  "EncryptionAlgorithmsNames =
     [(ALG_SYMMETRIC_DEFAULT, ''SYMMETRIC_DEFAULT''), (RSAES_OAEP_SHA_1, ''RSAES_OAEP_SHA_1''),
      (RSAES_OAEP_SHA_256, ''RSAES_OAEP_SHA_256''), (SM2PKE, ''SM2PKE'')]"

text \<open>\<open>Names[e]\<close>, and the walk over the map that compares the names; \<open>d\<close> is what it ends with.\<close>

definition enum_name :: "('e \<times> string) list \<Rightarrow> 'e \<Rightarrow> string" where
  "enum_name names e = (case map_of names e of None \<Rightarrow> [] | Some n \<Rightarrow> n)"

definition enum_of :: "('e \<times> string) list \<Rightarrow> 'e \<Rightarrow> string \<Rightarrow> 'e" where
  "enum_of names d n = (case List.find (\<lambda>(e, m). m = n) names of None \<Rightarrow> d | Some (e, m) \<Rightarrow> e)"

definition KeySpecToString :: "KeySpec \<Rightarrow> string" where
  "KeySpecToString = enum_name KeySpecNames"

definition KeySpecFromString :: "string \<Rightarrow> KeySpec" where
  "KeySpecFromString = enum_of KeySpecNames SYMMETRIC_DEFAULT"

definition KeyStateToString :: "KeyState \<Rightarrow> string" where
  "KeyStateToString = enum_name KeyStateNames"

definition KeyStateFromString :: "string \<Rightarrow> KeyState" where
  "KeyStateFromString = enum_of KeyStateNames KEY_UNAVAILABLE"

definition KeyUsageToString :: "KeyUsage \<Rightarrow> string" where
  "KeyUsageToString = enum_name KeyUsageNames"

definition KeyUsageFromString :: "string \<Rightarrow> KeyUsage" where
  "KeyUsageFromString = enum_of KeyUsageNames ENCRYPT_DECRYPT"

definition EncryptionAlgorithmsFromString :: "string \<Rightarrow> EncryptionAlgorithm" where
  "EncryptionAlgorithmsFromString = enum_of EncryptionAlgorithmsNames ALG_SYMMETRIC_DEFAULT"

section \<open>Cryptography\<close>

text \<open>
  What is OpenSSL's and Poco's: the Base64 coder, \<open>OPENSSL_hexstr2buf\<close> (\<open>None\<close>: the null pointer),
  AES with the key derivation (decrypting: the bytes of the updates and those of the end), RSA with the keys as PEM texts (\<open>None\<close>: the key does not parse or the
  text is too long, and the code goes on with a buffer that was never written), and HMAC from the
  bits, the key and the message to the bytes of the digest.
\<close>

record kms_world =
  kw_cfg :: config
  kw_ext :: externals
  kw_base64 :: "string \<Rightarrow> string"
  kw_unbase64 :: "string \<Rightarrow> string"
  kw_hexbuf :: "string \<Rightarrow> string option"
  kw_aes :: "string \<Rightarrow> string \<Rightarrow> string"
  kw_aes_decrypt :: "string \<Rightarrow> string \<Rightarrow> string \<times> string"
  kw_rsa_encrypt :: "string \<Rightarrow> string \<Rightarrow> string option"
  kw_rsa_decrypt :: "string \<Rightarrow> string \<Rightarrow> string option"
  kw_hmac :: "nat \<Rightarrow> string \<Rightarrow> string \<Rightarrow> string"

text \<open>\<open>HexDecode\<close> writes a NUL byte behind the bytes it got, also through the null pointer.\<close>

definition Crypto_HexDecode :: "kms_world \<Rightarrow> string \<Rightarrow> string result" where
  "Crypto_HexDecode w hex = (case kw_hexbuf w hex of None \<Rightarrow> Inl UndefinedBehaviour | Some raw \<Rightarrow> Inr raw)"

text \<open>The length of the raw key is taken by \<open>strlen\<close>.\<close>

definition Crypto_Aes256EncryptString :: "kms_world \<Rightarrow> string \<Rightarrow> string \<Rightarrow> string" where
  "Crypto_Aes256EncryptString w plaintext key = kw_aes w (c_string key) plaintext"

text \<open>
  The buffer has the length of the ciphertext; the last bytes are put behind it and the closing NUL
  byte behind these.
\<close>

definition Crypto_Aes256DecryptString :: "kms_world \<Rightarrow> string \<Rightarrow> string \<Rightarrow> string result" where
  "Crypto_Aes256DecryptString w ciphertext key =
     (let c_len = length ciphertext;
          (updated, final) = kw_aes_decrypt w (c_string key) ciphertext;
          p_len = c_len + length final in
      if p_len < c_len then Inr (updated @ final) else Inl UndefinedBehaviour)"

text \<open>Key and message change places in the call of \<open>HMAC\<close>.\<close>

definition Crypto_GetHmacFromString :: "kms_world \<Rightarrow> nat \<Rightarrow> string \<Rightarrow> string \<Rightarrow> string" where
  "Crypto_GetHmacFromString w bits key msg = Crypto_HexEncode (kw_hmac w bits msg key)"

definition Crypto_RsaEncrypt :: "kms_world \<Rightarrow> string \<Rightarrow> string \<Rightarrow> string result" where
  "Crypto_RsaEncrypt w publicKey s =
     (case kw_rsa_encrypt w publicKey s of None \<Rightarrow> Inl UndefinedBehaviour | Some c \<Rightarrow> Inr c)"

definition Crypto_RsaDecrypt :: "kms_world \<Rightarrow> string \<Rightarrow> string \<Rightarrow> string result" where
  "Crypto_RsaDecrypt w privateKey s =
     (case kw_rsa_decrypt w privateKey s of None \<Rightarrow> Inl UndefinedBehaviour | Some c \<Rightarrow> Inr c)"

text \<open>\<open>std::string{s, n}\<close>: the substring that starts at \<open>n\<close>.\<close>

definition string_from :: "string \<Rightarrow> nat \<Rightarrow> string result" where
  "string_from s n = (if length s < n then Inl OutOfRange else Inr (drop n s))"

definition KMSService_EncryptPlaintext :: "kms_world \<Rightarrow> Key \<Rightarrow> string \<Rightarrow> string result" where
  "KMSService_EncryptPlaintext w key plainText =
     (let rawPlaintext = kw_unbase64 w plainText;
          rsa = rbind (Crypto_RsaEncrypt w (k_rsaPublicKey key) rawPlaintext) (\<lambda>c. Inr (kw_base64 w c)) in
      case KeySpecFromString (k_keySpec key) of
        SYMMETRIC_DEFAULT \<Rightarrow>
          rbind (Crypto_HexDecode w (k_aes256Key key)) (\<lambda>rawKey.
          Inr (kw_base64 w (Crypto_Aes256EncryptString w rawPlaintext rawKey)))
      | RSA_2048 \<Rightarrow> rsa
      | RSA_3072 \<Rightarrow> rsa
      | RSA_4096 \<Rightarrow> rsa
      | HMAC_224 \<Rightarrow>
          rbind (string_from (Crypto_GetHmacFromString w 224 (k_hmac224Key key) rawPlaintext) (length rawPlaintext))
            (\<lambda>s. Inr (kw_base64 w s))
      | HMAC_256 \<Rightarrow>
          rbind (string_from (Crypto_GetHmacFromString w 256 (k_hmac256Key key) rawPlaintext) (length rawPlaintext))
            (\<lambda>s. Inr (kw_base64 w s))
      | HMAC_384 \<Rightarrow>
          Inr (kw_base64 w (take (length (kw_hmac w 384 rawPlaintext (k_hmac384Key key)))
                 (Crypto_GetHmacFromString w 384 (k_hmac384Key key) rawPlaintext)))
      | HMAC_512 \<Rightarrow>
          Inr (kw_base64 w (take (2 * length (kw_hmac w 512 rawPlaintext (k_hmac512Key key)))
                 (Crypto_GetHmacFromString w 512 (k_hmac512Key key) rawPlaintext)))
      | _ \<Rightarrow> Inr [])"

definition KMSService_DecryptPlaintext :: "kms_world \<Rightarrow> Key \<Rightarrow> string \<Rightarrow> string result" where
  "KMSService_DecryptPlaintext w key ciphertext =
     (let rawCiphertext = kw_unbase64 w ciphertext;
          rsa = rbind (Crypto_RsaDecrypt w (k_rsaPrivateKey key) rawCiphertext) (\<lambda>p. Inr (kw_base64 w p)) in
      case KeySpecFromString (k_keySpec key) of
        SYMMETRIC_DEFAULT \<Rightarrow>
          rbind (Crypto_HexDecode w (k_aes256Key key)) (\<lambda>rawKey.
          rbind (Crypto_Aes256DecryptString w rawCiphertext rawKey) (\<lambda>p. Inr (kw_base64 w (c_string p))))
      | RSA_2048 \<Rightarrow> rsa
      | RSA_3072 \<Rightarrow> rsa
      | RSA_4096 \<Rightarrow> rsa
      | _ \<Rightarrow> Inr [])"

section \<open>Requests\<close>

record CreateKeyRequest =
  ckr_region :: string
  ckr_description :: string
  ckr_keySpec :: KeySpec
  ckr_keyUsage :: KeyUsage

record CryptRequest =
  cyr_region :: string
  cyr_keyId :: string
  cyr_text :: string
  cyr_algorithm :: EncryptionAlgorithm

text \<open>One variable holds the names of the two enumerations: without a usage, the name of the key
  specification is looked up again, as a usage.\<close>

definition CreateKeyRequest_FromJson :: "externals \<Rightarrow> string \<Rightarrow> CreateKeyRequest \<Rightarrow> CreateKeyRequest result" where
  "CreateKeyRequest_FromJson ext jsonString r =
     json_as rethrow_json ext jsonString (\<lambda>obj.
       rbind (JsonUtils_GetJsonValueBool ext ''BypassPolicyLockoutSafetyCheck'' obj False) (\<lambda>bypass.
       rbind (JsonUtils_GetJsonValueString ext ''KeySpec'' obj []) (\<lambda>tmp1.
       rbind (JsonUtils_GetJsonValueString ext ''KeyUsage'' obj tmp1) (\<lambda>tmp2.
       rbind (JsonUtils_GetJsonValueString ext ''CustomKeyStoreId'' obj []) (\<lambda>customKeyStoreId.
       rbind (JsonUtils_GetJsonValueString ext ''Description'' obj (ckr_description r)) (\<lambda>description.
       rbind (JsonUtils_GetJsonValueString ext ''Origin'' obj []) (\<lambda>origin.
       rbind (JsonUtils_GetJsonValueString ext ''Policy'' obj []) (\<lambda>policy.
       rbind (JsonUtils_GetJsonValueString ext ''XksKeyId'' obj []) (\<lambda>xksKeyId.
       Inr (r\<lparr>ckr_description := description,
              ckr_keySpec := (if tmp1 = [] then ckr_keySpec r else KeySpecFromString tmp1),
              ckr_keyUsage := (if tmp2 = [] then ckr_keyUsage r else KeyUsageFromString tmp2)\<rparr>))))))))))"

definition ScheduleKeyDeletionRequest_FromJson :: "externals \<Rightarrow> string \<Rightarrow> (string \<times> int) result" where
  "ScheduleKeyDeletionRequest_FromJson ext jsonString =
     json_as rethrow_json ext jsonString (\<lambda>obj.
       rbind (JsonUtils_GetJsonValueString ext ''Region'' obj []) (\<lambda>region.
       rbind (JsonUtils_GetJsonValueString ext ''KeyId'' obj []) (\<lambda>keyId.
       rbind (JsonUtils_GetJsonValueInt ext ''PendingWindowInDays'' obj 30) (\<lambda>days.
       Inr (keyId, days)))))"

definition grant_tokens :: "externals \<Rightarrow> (string \<times> json) list \<Rightarrow> string list result" where
  "grant_tokens ext obj =
     (if map_of obj ''GrantTokens'' = None then Inr []
      else rbind (deref (ext_json_array ext (map_of obj ''GrantTokens''))) (\<lambda>js. texts_loop ext js []))"

definition DescribeKeyRequest_FromJson :: "externals \<Rightarrow> string \<Rightarrow> string result" where
  "DescribeKeyRequest_FromJson ext jsonString =
     json_as rethrow_json ext jsonString (\<lambda>obj.
       rbind (JsonUtils_GetJsonValueString ext ''KeyId'' obj []) (\<lambda>keyId.
       rbind (grant_tokens ext obj) (\<lambda>tokens. Inr keyId)))"

definition ListKeysRequest_FromJson :: "externals \<Rightarrow> int \<Rightarrow> string \<Rightarrow> unit result" where
  "ListKeysRequest_FromJson ext stale jsonString =
     json_as rethrow_json ext jsonString (\<lambda>obj.
       rbind (JsonUtils_GetJsonValueString ext ''Marker'' obj []) (\<lambda>marker.
       rbind (JsonUtils_GetJsonValueLong ext ''Limit'' obj stale) (\<lambda>limit. Inr ())))"

text \<open>\<open>EncryptRequest\<close> and \<open>DecryptRequest\<close> differ in the name of the text.\<close>

definition CryptRequest_FromJson :: "externals \<Rightarrow> string \<Rightarrow> string \<Rightarrow> CryptRequest \<Rightarrow> CryptRequest result" where
  "CryptRequest_FromJson ext textName jsonString r =
     json_as rethrow_json ext jsonString (\<lambda>obj.
       rbind (JsonUtils_GetJsonValueString ext ''Region'' obj (cyr_region r)) (\<lambda>region.
       rbind (JsonUtils_GetJsonValueString ext ''KeyId'' obj (cyr_keyId r)) (\<lambda>keyId.
       rbind (JsonUtils_GetJsonValueBool ext ''DryRun'' obj False) (\<lambda>dryRun.
       rbind (JsonUtils_GetJsonValueString ext textName obj (cyr_text r)) (\<lambda>content.
       rbind (JsonUtils_GetJsonValueString ext ''EncryptionAlgorithm'' obj []) (\<lambda>tmpStr.
       rbind (grant_tokens ext obj) (\<lambda>tokens.
       Inr \<lparr>cyr_region = region, cyr_keyId = keyId, cyr_text = content,
            cyr_algorithm = (if tmpStr = [] then cyr_algorithm r else EncryptionAlgorithmsFromString tmpStr)\<rparr>)))))))"

section \<open>The service\<close>

text \<open>
  The store, the threads that were started for a new key and have not read it yet (by the id of the
  key), and the copies that the running threads work on.
\<close>

record kms_state =
  km_db :: kms_db
  km_started :: "string list"
  km_copies :: "Key list"

record KeyAnswer =
  ka_keyId :: string
  ka_arn :: string
  ka_keySpec :: KeySpec
  ka_keyUsage :: KeyUsage
  ka_keyState :: KeyState
  ka_description :: string

record KeyDescription =
  kd_key :: KeyAnswer
  kd_creationDate :: int
  kd_deletionDate :: int
  kd_enabled :: bool

record DeletionAnswer =
  da_keyId :: string
  da_keyState :: string
  da_deletionDate :: int
  da_pendingWindowInDays :: int

record CryptAnswer =
  ca_region :: string
  ca_keyId :: string
  ca_algorithm :: EncryptionAlgorithm
  ca_text :: string

definition key_answer :: "Key \<Rightarrow> KeyAnswer" where
  "key_answer k =
     \<lparr>ka_keyId = k_keyId k, ka_arn = k_arn k, ka_keySpec = KeySpecFromString (k_keySpec k),
      ka_keyUsage = KeyUsageFromString (k_keyUsage k), ka_keyState = KeyStateFromString (k_keyState k),
      ka_description = k_description k\<rparr>"

definition KMSService_ListKeys :: "kms_db \<Rightarrow> (string \<times> string) list" where
  "KMSService_ListKeys db = map (\<lambda>k. (k_keyId k, k_arn k)) (KMSMemoryDb_ListKeys [] db)"

definition AwsUtils_CreateKMSKeyArn :: "string \<Rightarrow> string \<Rightarrow> string \<Rightarrow> string" where
  "AwsUtils_CreateKMSKeyArn region accountId keyId = CreateArn ''kms'' region accountId (''key/'' @ keyId)"

definition new_key :: "kms_world \<Rightarrow> int \<Rightarrow> string \<Rightarrow> CreateKeyRequest \<Rightarrow> Key" where
  "new_key w now keyId request =
     (Key_init now)\<lparr>k_region := ckr_region request, k_keyId := keyId,
        k_keyUsage := KeyUsageToString (ckr_keyUsage request), k_keySpec := KeySpecToString (ckr_keySpec request),
        k_arn := AwsUtils_CreateKMSKeyArn (ckr_region request) (cfg_accountId (kw_cfg w)) keyId,
        k_description := ckr_description request\<rparr>"

definition KMSService_CreateKey ::
  "kms_world \<Rightarrow> int \<Rightarrow> string \<Rightarrow> string \<Rightarrow> CreateKeyRequest \<Rightarrow> kms_state \<Rightarrow> (KeyAnswer, kms_state) outcome" where
  "KMSService_CreateKey w now oid keyId request st =
     (case KMSMemoryDb_CreateKey now oid (new_key w now keyId request) (km_db st) of
        (k, db) \<Rightarrow> (Inr (key_answer k), st\<lparr>km_db := db, km_started := km_started st @ [keyId]\<rparr>))"

text \<open>Nanoseconds in a \<open>long\<close>, whose overflow is undefined.\<close>

definition add_days :: "int \<Rightarrow> int \<Rightarrow> int result" where
  "add_days now days =
     (let d = days * (86400 * 1000000000) in
      if d < - (2 ^ 63) \<or> 2 ^ 63 \<le> d \<or> now + d < - (2 ^ 63) \<or> 2 ^ 63 \<le> now + d then Inl UndefinedBehaviour
      else Inr (now + d))"

definition key_missing :: "string \<Rightarrow> exn" where
  "key_missing keyId = ServiceException (''Key not found, keyId: '' @ keyId)"

definition KMSService_ScheduleKeyDeletion ::
  "int \<Rightarrow> string \<Rightarrow> int \<Rightarrow> kms_state \<Rightarrow> (DeletionAnswer, kms_state) outcome" where
  "KMSService_ScheduleKeyDeletion now keyId days st =
     (if \<not> KMSMemoryDb_KeyExists keyId (km_db st) then (Inl (key_missing keyId), st)
      else case KMSMemoryDb_GetKeyByKeyId now keyId (km_db st) of
             (k, db) \<Rightarrow>
               (case add_days now days of
                  Inl e \<Rightarrow> (Inl e, st\<lparr>km_db := db\<rparr>)
                | Inr t \<Rightarrow>
                    (case KMSMemoryDb_UpdateKey (k\<lparr>k_pendingWindowInDays := days, k_scheduledDeletion := t,
                              k_keyState := KeyStateToString KEY_PENDING_DELETION\<rparr>) db of
                       (k', db') \<Rightarrow>
                         (Inr \<lparr>da_keyId = keyId, da_keyState = k_keyState k', da_deletionDate = k_scheduledDeletion k',
                               da_pendingWindowInDays = days\<rparr>, st\<lparr>km_db := db'\<rparr>))))"

definition KMSService_DescribeKey :: "int \<Rightarrow> string \<Rightarrow> kms_state \<Rightarrow> (KeyDescription, kms_state) outcome" where
  "KMSService_DescribeKey now keyId st =
     (if \<not> KMSMemoryDb_KeyExists keyId (km_db st) then (Inl (key_missing keyId), st)
      else case KMSMemoryDb_GetKeyByKeyId now keyId (km_db st) of
             (k, db) \<Rightarrow>
               (Inr \<lparr>kd_key = key_answer k, kd_creationDate = k_created k, kd_deletionDate = k_scheduledDeletion k,
                     kd_enabled = StringUtils_Equals (k_keyState k) (KeyStateToString KEY_ENABLED)\<rparr>,
                st\<lparr>km_db := db\<rparr>))"

definition with_key ::
  "(Key \<Rightarrow> string \<Rightarrow> string result) \<Rightarrow> int \<Rightarrow> CryptRequest \<Rightarrow> kms_state \<Rightarrow> (CryptAnswer, kms_state) outcome" where
  "with_key f now request st =
     (if \<not> KMSMemoryDb_KeyExists (cyr_keyId request) (km_db st) then (Inl (key_missing (cyr_keyId request)), st)
      else case KMSMemoryDb_GetKeyByKeyId now (cyr_keyId request) (km_db st) of
             (k, db) \<Rightarrow>
               (rbind (f k (cyr_text request)) (\<lambda>s.
                  Inr \<lparr>ca_region = cyr_region request, ca_keyId = k_keyId k, ca_algorithm = cyr_algorithm request, ca_text = s\<rparr>),
                st\<lparr>km_db := db\<rparr>))"

definition KMSService_Encrypt :: "kms_world \<Rightarrow> int \<Rightarrow> CryptRequest \<Rightarrow> kms_state \<Rightarrow> (CryptAnswer, kms_state) outcome" where
  "KMSService_Encrypt w = with_key (KMSService_EncryptPlaintext w)"

definition KMSService_Decrypt :: "kms_world \<Rightarrow> int \<Rightarrow> CryptRequest \<Rightarrow> kms_state \<Rightarrow> (CryptAnswer, kms_state) outcome" where
  "KMSService_Decrypt w = with_key (KMSService_DecryptPlaintext w)"

section \<open>The thread that makes the key material\<close>

record key_material =
  mat_key :: string
  mat_iv :: string
  mat_hmac :: string
  mat_public :: string
  mat_private :: string

definition KMSCreator_GenerateAes256Key :: "key_material \<Rightarrow> Key \<Rightarrow> Key" where
  "KMSCreator_GenerateAes256Key m key =
     key\<lparr>k_aes256Key := Crypto_HexEncode (mat_key m), k_aes256Iv := Crypto_HexEncode (mat_iv m)\<rparr>"

definition KMSCreator_CreateHmacKey :: "key_material \<Rightarrow> Key \<Rightarrow> nat \<Rightarrow> Key" where
  "KMSCreator_CreateHmacKey m key len =
     (let hexKey = Crypto_HexEncode (mat_hmac m) in
      if len = 224 then key\<lparr>k_hmac224Key := hexKey\<rparr>
      else if len = 256 then key\<lparr>k_hmac256Key := hexKey\<rparr>
      else if len = 384 then key\<lparr>k_hmac384Key := hexKey\<rparr>
      else if len = 512 then key\<lparr>k_hmac512Key := hexKey\<rparr>
      else key)"

definition KMSCreator_GenerateRsaKeyPair :: "key_material \<Rightarrow> Key \<Rightarrow> Key" where
  "KMSCreator_GenerateRsaKeyPair m key = key\<lparr>k_rsaPublicKey := mat_public m, k_rsaPrivateKey := mat_private m\<rparr>"

text \<open>\<open>CreateKmsKey\<close> reads the key, works on its copy, and stores the copy when the material is made.\<close>

definition made_key :: "key_material \<Rightarrow> Key \<Rightarrow> Key" where
  "made_key m k =
     (let key = k\<lparr>k_keyState := KeyStateToString KEY_ENABLED\<rparr> in
      case KeySpecFromString (k_keySpec key) of
        SYMMETRIC_DEFAULT \<Rightarrow> KMSCreator_GenerateAes256Key m key
      | RSA_2048 \<Rightarrow> KMSCreator_GenerateRsaKeyPair m key
      | RSA_3072 \<Rightarrow> KMSCreator_GenerateRsaKeyPair m key
      | RSA_4096 \<Rightarrow> KMSCreator_GenerateRsaKeyPair m key
      | HMAC_224 \<Rightarrow> KMSCreator_CreateHmacKey m key 224
      | HMAC_256 \<Rightarrow> KMSCreator_CreateHmacKey m key 256
      | HMAC_384 \<Rightarrow> KMSCreator_CreateHmacKey m key 384
      | HMAC_512 \<Rightarrow> KMSCreator_CreateHmacKey m key 512
      | _ \<Rightarrow> key)"

definition KMSCreator_read :: "key_material \<Rightarrow> int \<Rightarrow> string \<Rightarrow> kms_state \<Rightarrow> kms_state" where
  "KMSCreator_read m now keyId st =
     (case KMSMemoryDb_GetKeyByKeyId now keyId (km_db st) of
        (k, db) \<Rightarrow> st\<lparr>km_db := db, km_started := remove1 keyId (km_started st), km_copies := made_key m k # km_copies st\<rparr>)"

definition KMSCreator_store :: "Key \<Rightarrow> kms_state \<Rightarrow> kms_state" where
  "KMSCreator_store copy st =
     (case KMSMemoryDb_UpdateKey copy (km_db st) of
        (_, db) \<Rightarrow> st\<lparr>km_db := db, km_copies := remove1 copy (km_copies st)\<rparr>)"

section \<open>The worker\<close>

text \<open>The loop walks over the list taken at its start.\<close>

definition KMSWorker_DeleteKeys :: "int \<Rightarrow> kms_db \<Rightarrow> kms_db" where
  "KMSWorker_DeleteKeys now db =
     fold (\<lambda>key db.
        if k_keyState key = KeyStateToString KEY_PENDING_DELETION \<and> k_scheduledDeletion key < now
        then KMSMemoryDb_DeleteKey key db else db)
       (KMSMemoryDb_ListKeys [] db) db"

section \<open>The handler\<close>

datatype kms_body =
    CreateKeyBody KeyAnswer
  | DeletionBody DeletionAnswer
  | ListKeysBody "(string \<times> string) list"
  | DescribeKeyBody KeyDescription
  | EncryptBody CryptAnswer
  | DecryptBody CryptAnswer

record kms_draws =
  kr_requestId :: string
  kr_now :: int
  kr_oid :: string
  kr_keyId :: string
  kr_limit :: int
  kr_algorithm :: EncryptionAlgorithm

definition kms_serve ::
  "'r result \<Rightarrow> ('r \<Rightarrow> kms_state \<Rightarrow> ('a, kms_state) outcome) \<Rightarrow> ('a \<Rightarrow> kms_body) \<Rightarrow> kms_state \<Rightarrow>
   (kms_body http_response, kms_state) outcome" where
  "kms_serve r f body st =
     (case r of
        Inl e \<Rightarrow> (Inl e, st)
      | Inr request \<Rightarrow> andthen (f request st) (\<lambda>x st'. (Inr (SendOkResponse (body x) []), st')))"

text \<open>There is no \<open>try\<close>: every exception leaves the handler.\<close>

definition KMSHandler_HandlePostRequest ::
  "kms_world \<Rightarrow> kms_draws \<Rightarrow> http_request \<Rightarrow> string \<Rightarrow> string \<Rightarrow> kms_state \<Rightarrow>
   (kms_body http_response, kms_state) outcome" where
  "KMSHandler_HandlePostRequest w d request region user st =
     (case KMSClientCommand_FromRequest (kr_requestId d) request region user of
        Inl e \<Rightarrow> (Inl e, st)
      | Inr c \<Rightarrow>
          (let ext = kw_ext w; payload = bc_payload c;
               blank = \<lparr>cyr_region = [], cyr_keyId = [], cyr_text = [], cyr_algorithm = kr_algorithm d\<rparr> in
           case kmc_command c of
             CREATE_KEY \<Rightarrow>
               kms_serve (CreateKeyRequest_FromJson ext payload
                   \<lparr>ckr_region = [], ckr_description = [], ckr_keySpec = SYMMETRIC_DEFAULT, ckr_keyUsage = ENCRYPT_DECRYPT\<rparr>)
                 (\<lambda>r. KMSService_CreateKey w (kr_now d) (kr_oid d) (kr_keyId d) (r\<lparr>ckr_region := bc_region c\<rparr>)) CreateKeyBody st
           | SCHEDULE_KEY_DELETION \<Rightarrow>
               kms_serve (ScheduleKeyDeletionRequest_FromJson ext payload)
                 (\<lambda>(keyId, days). KMSService_ScheduleKeyDeletion (kr_now d) keyId days) DeletionBody st
           | LIST_KEYS \<Rightarrow>
               kms_serve (ListKeysRequest_FromJson ext (kr_limit d) payload)
                 (\<lambda>_ st. (Inr (KMSService_ListKeys (km_db st)), st)) ListKeysBody st
           | DESCRIBE_KEY \<Rightarrow>
               kms_serve (DescribeKeyRequest_FromJson ext payload) (KMSService_DescribeKey (kr_now d)) DescribeKeyBody st
           | ENCRYPT \<Rightarrow>
               kms_serve (CryptRequest_FromJson ext ''Plaintext'' payload blank)
                 (\<lambda>r. KMSService_Encrypt w (kr_now d) (r\<lparr>cyr_region := bc_region c\<rparr>)) EncryptBody st
           | DECRYPT \<Rightarrow>
               kms_serve (CryptRequest_FromJson ext ''CiphertextBlob'' payload blank)
                 (\<lambda>r. KMSService_Decrypt w (kr_now d) (r\<lparr>cyr_region := bc_region c\<rparr>)) DecryptBody st
           | KMS_UNKNOWN \<Rightarrow> (Inl (ServiceException ''Unimplemented command called''), st)))"

end
