(* ===== verification/KMSProperties.thy ===== *)
theory KMSProperties
  imports KMSService SQSExamples
begin

text \<open>
  The key management under requests, key-making threads and the worker: the invariant of its store,
  the round trip of the keys that have one, and what the thread of a new key does to a deletion.
\<close>

section \<open>Enumerations\<close>

lemma find_own_name:
  "distinct (map snd names) \<Longrightarrow> (e, n) \<in> set names \<Longrightarrow> List.find (\<lambda>(e, m). m = n) names = Some (e, n)"
  by (induction names) (auto simp: image_iff)

lemma enum_of_own:
  "distinct (map snd names) \<Longrightarrow> (e, n) \<in> set names \<Longrightarrow> enum_of names d n = e"
  by (simp add: enum_of_def find_own_name)

lemma KeySpec_roundtrip: "KeySpecFromString (KeySpecToString spec) = spec"
  by (cases spec) (simp_all only: KeySpecToString_def KeySpecFromString_def, code_simp+)

section \<open>The invariant of the store\<close>

text \<open>What a key keeps from its creation on.\<close>

definition same_key :: "Key \<Rightarrow> Key \<Rightarrow> bool" where
  "same_key k k' \<longleftrightarrow> k_oid k = k_oid k' \<and> k_keyId k = k_keyId k' \<and> k_region k = k_region k' \<and> k_arn k = k_arn k' \<and>
     k_keySpec k = k_keySpec k' \<and> k_keyUsage k = k_keyUsage k'"

definition kms_wf :: "kms_world \<Rightarrow> kms_state \<Rightarrow> bool" where
  "kms_wf w st \<longleftrightarrow> kms_inv (km_db st) \<and>
     (\<forall>(oid, k) \<in> set (kms_keys (km_db st)). k_keyId k \<noteq> [] \<and>
        k_arn k = AwsUtils_CreateKMSKeyArn (k_region k) (cfg_accountId (kw_cfg w)) (k_keyId k) \<and>
        (\<forall>(oid', k') \<in> set (kms_keys (km_db st)). k_keyId k = k_keyId k' \<longrightarrow> oid = oid') \<and>
        (\<forall>c \<in> set (km_copies st). k_keyId c = k_keyId k \<longrightarrow> same_key c k))"

lemma kms_wfD:
  assumes "kms_wf w st"
  shows "kms_inv (km_db st)"
    "(oid, k) \<in> set (kms_keys (km_db st)) \<Longrightarrow> k_keyId k \<noteq> []"
    "(oid, k) \<in> set (kms_keys (km_db st)) \<Longrightarrow> k_arn k = AwsUtils_CreateKMSKeyArn (k_region k) (cfg_accountId (kw_cfg w)) (k_keyId k)"
    "(oid, k) \<in> set (kms_keys (km_db st)) \<Longrightarrow> (oid', k') \<in> set (kms_keys (km_db st)) \<Longrightarrow> k_keyId k = k_keyId k' \<Longrightarrow> oid = oid'"
    "(oid, k) \<in> set (kms_keys (km_db st)) \<Longrightarrow> c \<in> set (km_copies st) \<Longrightarrow> k_keyId c = k_keyId k \<Longrightarrow> same_key c k"
  using assms by (force simp: kms_wf_def)+

lemma kms_wfI:
  assumes "kms_inv (km_db st)"
    "\<And>oid k. (oid, k) \<in> set (kms_keys (km_db st)) \<Longrightarrow> k_keyId k \<noteq> [] \<and>
       k_arn k = AwsUtils_CreateKMSKeyArn (k_region k) (cfg_accountId (kw_cfg w)) (k_keyId k)"
    "\<And>oid k oid' k'. (oid, k) \<in> set (kms_keys (km_db st)) \<Longrightarrow> (oid', k') \<in> set (kms_keys (km_db st)) \<Longrightarrow> k_keyId k = k_keyId k' \<Longrightarrow> oid = oid'"
    "\<And>oid k c. (oid, k) \<in> set (kms_keys (km_db st)) \<Longrightarrow> c \<in> set (km_copies st) \<Longrightarrow> k_keyId c = k_keyId k \<Longrightarrow> same_key c k"
  shows "kms_wf w st"
  using assms unfolding kms_wf_def by blast

text \<open>A key that is there is fetched, and an update with the same identity replaces its row.\<close>

lemma key_there:
  assumes wf: "kms_wf w st" and ex: "KMSMemoryDb_KeyExists keyId (km_db st)"
  obtains oid k where "(oid, k) \<in> set (kms_keys (km_db st))" "k_keyId k = keyId" "k_oid k = oid"
    "smap_find_if (\<lambda>(oid, k). k_keyId k = keyId) (kms_keys (km_db st)) = Some (oid, k)"
    "\<And>now. KMSMemoryDb_GetKeyByKeyId now keyId (km_db st) = (k, km_db st)"
proof -
  note inv = kms_wfD(1) [OF wf]
  obtain oid k where find: "smap_find_if (\<lambda>(oid, k). k_keyId k = keyId) (kms_keys (km_db st)) = Some (oid, k)"
    using ex by (auto simp: KMSMemoryDb_KeyExists_def)
  then have row: "(oid, k) \<in> set (kms_keys (km_db st))" "k_keyId k = keyId" by (auto dest: smap_find_if_Some)
  moreover have "k_oid k = oid" using rows_taggedD [OF kms_invD(1) [OF inv] row(1)] .
  moreover have "KMSMemoryDb_GetKeyByKeyId now keyId (km_db st) = (k, km_db st)" for now
    by (simp add: KMSMemoryDb_GetKeyByKeyId_def key_fetch_inv inv find)
  ultimately show thesis using that find by blast
qed

lemma key_not_there:
  assumes "kms_wf w st" "\<not> KMSMemoryDb_KeyExists keyId (km_db st)"
  shows "KMSMemoryDb_GetKeyByKeyId now keyId (km_db st) = (Key_init now, km_db st)"
  using assms by (auto simp: KMSMemoryDb_GetKeyByKeyId_def key_fetch_inv kms_wfD(1) KMSMemoryDb_KeyExists_def split: option.split)

text \<open>The store after an update with a key that has the identity of the stored one.\<close>

lemma update_key:
  assumes wf: "kms_wf w st" and same: "\<And>oid k'. (oid, k') \<in> set (kms_keys (km_db st)) \<Longrightarrow> k_keyId k' = k_keyId k \<Longrightarrow> same_key k k'"
  shows "KMSMemoryDb_UpdateKey k (km_db st) =
           (k, if KMSMemoryDb_KeyExists (k_keyId k) (km_db st)
               then (km_db st)\<lparr>kms_keys := smap_put (k_oid k) k (kms_keys (km_db st))\<rparr> else km_db st)"
    "kms_wf w (st\<lparr>km_db := snd (KMSMemoryDb_UpdateKey k (km_db st))\<rparr>)"
proof -
  note inv = kms_wfD(1) [OF wf]
  have ex: "KMSMemoryDb_UpdateKey k (km_db st) = (k, (km_db st)\<lparr>kms_keys := smap_put (k_oid k) k (kms_keys (km_db st))\<rparr>) \<and>
      kms_wf w (st\<lparr>km_db := (km_db st)\<lparr>kms_keys := smap_put (k_oid k) k (kms_keys (km_db st))\<rparr>\<rparr>)"
    if there: "KMSMemoryDb_KeyExists (k_keyId k) (km_db st)"
  proof -
    obtain oid k0 where row: "(oid, k0) \<in> set (kms_keys (km_db st))" "k_keyId k0 = k_keyId k" "k_oid k0 = oid"
      and find: "smap_find_if (\<lambda>(oid, k'). k_keyId k' = k_keyId k) (kms_keys (km_db st)) = Some (oid, k0)"
      by (rule key_there [OF wf there]) blast
    have eq: "k_oid k = oid" "k_keyId k = k_keyId k0" "k_region k = k_region k0" "k_arn k = k_arn k0"
      "k_keySpec k = k_keySpec k0" "k_keyUsage k = k_keyUsage k0"
      using same [OF row(1,2)] row by (simp_all add: same_key_def)
    let ?st = "st\<lparr>km_db := (km_db st)\<lparr>kms_keys := smap_put oid k (kms_keys (km_db st))\<rparr>\<rparr>"
    have set: "set (kms_keys (km_db ?st)) = insert (oid, k) {kv \<in> set (kms_keys (km_db st)). fst kv \<noteq> oid}"
      by (simp add: set_smap_put kms_invD [OF inv])
    have "kms_wf w ?st"
    proof (rule kms_wfI)
      show "kms_inv (km_db ?st)" using inv eq(1) by (simp add: kms_inv_def rows_tagged_put)
      show "k_keyId k' \<noteq> [] \<and> k_arn k' = AwsUtils_CreateKMSKeyArn (k_region k') (cfg_accountId (kw_cfg w)) (k_keyId k')"
        if "(oid', k') \<in> set (kms_keys (km_db ?st))" for oid' k'
        using that kms_wfD(2,3) [OF wf, of oid' k'] kms_wfD(2,3) [OF wf row(1)] eq unfolding set by auto
      show "o1 = o2" if "(o1, k1) \<in> set (kms_keys (km_db ?st))" "(o2, k2) \<in> set (kms_keys (km_db ?st))" "k_keyId k1 = k_keyId k2"
        for o1 k1 o2 k2
        using that kms_wfD(4) [OF wf] row(1,2) unfolding set by auto
      show "same_key c k'" if "(oid', k') \<in> set (kms_keys (km_db ?st))" "c \<in> set (km_copies ?st)" "k_keyId c = k_keyId k'" for oid' k' c
        using that kms_wfD(5) [OF wf row(1), of c] kms_wfD(5) [OF wf, of oid' k' c] eq row(3) unfolding set
        by (auto simp: same_key_def)
    qed
    moreover have "KMSMemoryDb_UpdateKey k (km_db st) = (k, (km_db st)\<lparr>kms_keys := smap_put oid k (kms_keys (km_db st))\<rparr>)"
      by (simp add: KMSMemoryDb_UpdateKey_def find)
    ultimately show ?thesis by (simp add: eq(1))
  qed
  have none: "KMSMemoryDb_UpdateKey k (km_db st) = (k, km_db st)" if "\<not> KMSMemoryDb_KeyExists (k_keyId k) (km_db st)"
    using that by (auto simp: KMSMemoryDb_UpdateKey_def KMSMemoryDb_KeyExists_def split: option.split)
  show "KMSMemoryDb_UpdateKey k (km_db st) =
           (k, if KMSMemoryDb_KeyExists (k_keyId k) (km_db st)
               then (km_db st)\<lparr>kms_keys := smap_put (k_oid k) k (kms_keys (km_db st))\<rparr> else km_db st)"
    using ex none by simp
  show "kms_wf w (st\<lparr>km_db := snd (KMSMemoryDb_UpdateKey k (km_db st))\<rparr>)"
    using ex none wf by (cases "KMSMemoryDb_KeyExists (k_keyId k) (km_db st)") simp_all
qed

lemma wf_same_db: "kms_wf w st \<Longrightarrow> km_db st' = km_db st \<Longrightarrow> set (km_copies st') \<subseteq> set (km_copies st) \<Longrightarrow> kms_wf w st'"
  by (rule kms_wfI) (use kms_wfD [of w st] in \<open>auto\<close>)

lemma get_key_pure: "kms_wf w st \<Longrightarrow> snd (KMSMemoryDb_GetKeyByKeyId now keyId (km_db st)) = km_db st"
  by (cases "KMSMemoryDb_KeyExists keyId (km_db st)") (auto simp: key_not_there elim: key_there)

lemma new_key_fields:
  "k_keyId (new_key w now keyId request) = keyId" "k_region (new_key w now keyId request) = ckr_region request"
  "k_arn (new_key w now keyId request) = AwsUtils_CreateKMSKeyArn (ckr_region request) (cfg_accountId (kw_cfg w)) keyId"
  "k_keySpec (new_key w now keyId request) = KeySpecToString (ckr_keySpec request)" "k_keyState (new_key w now keyId request) = []"
  "k_scheduledDeletion (new_key w now keyId request) = now"
  by (simp_all add: new_key_def Key_init_def)

lemma CreateKey_service_eq:
  "kms_inv (km_db st) \<Longrightarrow> KMSService_CreateKey w now oid keyId request st =
     (Inr (key_answer ((new_key w now keyId request)\<lparr>k_oid := oid\<rparr>)),
      st\<lparr>km_db := (km_db st)\<lparr>kms_keys := smap_put oid ((new_key w now keyId request)\<lparr>k_oid := oid\<rparr>) (kms_keys (km_db st))\<rparr>,
         km_started := km_started st @ [keyId]\<rparr>)"
  by (simp add: KMSService_CreateKey_def CreateKey_eq)

text \<open>The ids drawn for a new key are new.\<close>

definition fresh_ids :: "string \<Rightarrow> string \<Rightarrow> kms_state \<Rightarrow> bool" where
  "fresh_ids oid keyId st \<longleftrightarrow> keyId \<noteq> [] \<and> oid \<notin> fst ` set (kms_keys (km_db st)) \<and>
     keyId \<notin> (k_keyId \<circ> snd) ` set (kms_keys (km_db st)) \<and> keyId \<notin> k_keyId ` set (km_copies st)"

lemma wf_CreateKey:
  assumes wf: "kms_wf w st" and fresh: "fresh_ids oid keyId st"
  shows "kms_wf w (snd (KMSService_CreateKey w now oid keyId request st))"
proof -
  note inv = kms_wfD(1) [OF wf]
  let ?k = "(new_key w now keyId request)\<lparr>k_oid := oid\<rparr>"
  let ?st = "st\<lparr>km_db := (km_db st)\<lparr>kms_keys := smap_put oid ?k (kms_keys (km_db st))\<rparr>, km_started := km_started st @ [keyId]\<rparr>"
  have set: "set (kms_keys (km_db ?st)) = insert (oid, ?k) (set (kms_keys (km_db st)))"
    using fresh by (force simp: set_smap_put kms_invD [OF inv] fresh_ids_def)
  have others: "k_keyId k \<noteq> keyId" if "(oid', k) \<in> set (kms_keys (km_db st))" for oid' k
    using fresh that by (force simp: fresh_ids_def)
  have copies: "k_keyId c \<noteq> keyId" if "c \<in> set (km_copies st)" for c using fresh that by (force simp: fresh_ids_def)
  have "kms_wf w ?st"
  proof (rule kms_wfI)
    show "kms_inv (km_db ?st)" using inv by (simp add: kms_inv_def rows_tagged_put)
    show "k_keyId k' \<noteq> [] \<and> k_arn k' = AwsUtils_CreateKMSKeyArn (k_region k') (cfg_accountId (kw_cfg w)) (k_keyId k')"
      if "(oid', k') \<in> set (kms_keys (km_db ?st))" for oid' k'
      using that kms_wfD(2,3) [OF wf, of oid' k'] fresh unfolding set by (auto simp: new_key_fields fresh_ids_def)
    show "o1 = o2" if "(o1, k1) \<in> set (kms_keys (km_db ?st))" "(o2, k2) \<in> set (kms_keys (km_db ?st))" "k_keyId k1 = k_keyId k2"
      for o1 k1 o2 k2
      using that kms_wfD(4) [OF wf, of o1 k1 o2 k2] unfolding set by (auto simp: new_key_fields dest: others)
    show "same_key c k'" if "(oid', k') \<in> set (kms_keys (km_db ?st))" "c \<in> set (km_copies ?st)" "k_keyId c = k_keyId k'" for oid' k' c
      using that kms_wfD(5) [OF wf, of oid' k' c] copies unfolding set by (auto simp: new_key_fields)
  qed
  then show ?thesis by (simp add: CreateKey_service_eq inv)
qed

lemma wf_ScheduleKeyDeletion:
  assumes wf: "kms_wf w st" shows "kms_wf w (snd (KMSService_ScheduleKeyDeletion now keyId days st))"
proof (cases "KMSMemoryDb_KeyExists keyId (km_db st)")
  case True
  obtain oid k where row: "(oid, k) \<in> set (kms_keys (km_db st))" "k_keyId k = keyId"
    and get: "\<And>now. KMSMemoryDb_GetKeyByKeyId now keyId (km_db st) = (k, km_db st)"
    by (rule key_there [OF wf True]) blast
  have same: "same_key (k\<lparr>k_pendingWindowInDays := days, k_scheduledDeletion := t, k_keyState := s\<rparr>) k'"
    if "(oid', k') \<in> set (kms_keys (km_db st))" "k_keyId k' = k_keyId k" for t s oid' k'
  proof -
    have "oid' = oid" using kms_wfD(4) [OF wf that(1) row(1)] that(2) by simp
    then have "k' = k" using that(1) row(1) eq_key_imp_eq_value [OF smap_inv_distinct [OF kms_invD(2) [OF kms_wfD(1) [OF wf]]]] by blast
    then show ?thesis by (simp add: same_key_def)
  qed
  have "kms_wf w (st\<lparr>km_db := snd (KMSMemoryDb_UpdateKey (k\<lparr>k_pendingWindowInDays := days, k_scheduledDeletion := t,
      k_keyState := KeyStateToString KEY_PENDING_DELETION\<rparr>) (km_db st))\<rparr>)" for t
    by (rule update_key(2) [OF wf]) (simp add: same)
  then show ?thesis
    using wf True by (auto simp: KMSService_ScheduleKeyDeletion_def get case_prod_beta split: sum.split)
qed (simp add: KMSService_ScheduleKeyDeletion_def wf)

lemma wf_DescribeKey: "kms_wf w st \<Longrightarrow> kms_wf w (snd (KMSService_DescribeKey now keyId st))"
  by (cases "KMSMemoryDb_KeyExists keyId (km_db st)") (auto simp: KMSService_DescribeKey_def case_prod_beta get_key_pure)

lemma wf_with_key: "kms_wf w st \<Longrightarrow> kms_wf w (snd (with_key f now request st))"
  by (cases "KMSMemoryDb_KeyExists (cyr_keyId request) (km_db st)") (auto simp: with_key_def case_prod_beta get_key_pure)

lemma made_key_same: "same_key (made_key m k) k"
  by (cases "KeySpecFromString (k_keySpec k)")
     (simp_all add: made_key_def same_key_def Let_def KMSCreator_GenerateAes256Key_def KMSCreator_CreateHmacKey_def
        KMSCreator_GenerateRsaKeyPair_def)

lemma made_key_id: "k_keyId (made_key m k) = k_keyId k"
  using made_key_same [of m k] by (simp add: same_key_def)

lemma wf_creator_read:
  assumes wf: "kms_wf w st" shows "kms_wf w (KMSCreator_read m now keyId st)"
proof (cases "KMSMemoryDb_KeyExists keyId (km_db st)")
  case True
  obtain oid k where row: "(oid, k) \<in> set (kms_keys (km_db st))" "k_keyId k = keyId"
    and get: "\<And>now. KMSMemoryDb_GetKeyByKeyId now keyId (km_db st) = (k, km_db st)"
    by (rule key_there [OF wf True]) blast
  have new: "same_key (made_key m k) k'" if "(oid', k') \<in> set (kms_keys (km_db st))" "k_keyId k = k_keyId k'" for oid' k'
  proof -
    have "oid = oid'" using kms_wfD(4) [OF wf row(1) that] .
    then have "k = k'" using that(1) row(1) eq_key_imp_eq_value [OF smap_inv_distinct [OF kms_invD(2) [OF kms_wfD(1) [OF wf]]]] by blast
    then show ?thesis using made_key_same by blast
  qed
  show ?thesis unfolding KMSCreator_read_def get prod.case
    by (rule kms_wfI) (use kms_wfD [OF wf] new in \<open>auto simp: made_key_id\<close>)
next
  case False
  have named: "[] \<noteq> k_keyId k" if "(oid, k) \<in> set (kms_keys (km_db st))" for oid k
    using kms_wfD(2) [OF wf that] by simp
  show ?thesis unfolding KMSCreator_read_def key_not_there [OF wf False] prod.case
    by (rule kms_wfI) (use kms_wfD [OF wf] named in \<open>auto simp: made_key_id Key_init_def\<close>)
qed

lemma wf_creator_store:
  assumes wf: "kms_wf w st" and copy: "c \<in> set (km_copies st)"
  shows "kms_wf w (KMSCreator_store c st)"
proof -
  have "kms_wf w (st\<lparr>km_db := snd (KMSMemoryDb_UpdateKey c (km_db st))\<rparr>)"
    by (rule update_key(2) [OF wf]) (use kms_wfD(5) [OF wf _ copy] in simp)
  then show ?thesis
    by (rule wf_same_db) (auto simp: KMSCreator_store_def case_prod_beta dest: set_remove1_subset [THEN subsetD])
qed

lemma wf_DeleteKey: "kms_wf w st \<Longrightarrow> kms_wf w (st\<lparr>km_db := KMSMemoryDb_DeleteKey k (km_db st)\<rparr>)"
  unfolding kms_wf_def KMSMemoryDb_DeleteKey_def kms_inv_def
  by (auto simp: rows_tagged_erase_if set_smap_erase_if)

lemma wf_DeleteKeys: "kms_wf w st \<Longrightarrow> kms_wf w (st\<lparr>km_db := KMSWorker_DeleteKeys now (km_db st)\<rparr>)"
proof -
  have "kms_wf w (st\<lparr>km_db := db\<rparr>) \<Longrightarrow> kms_wf w (st\<lparr>km_db := fold (\<lambda>key db.
        if k_keyState key = KeyStateToString KEY_PENDING_DELETION \<and> k_scheduledDeletion key < now
        then KMSMemoryDb_DeleteKey key db else db) ks db\<rparr>)" for ks db
  proof (induction ks arbitrary: db)
    case (Cons k ks)
    then show ?case using wf_DeleteKey [OF Cons.prems, of k] by simp
  qed simp
  from this [of "km_db st"] show "kms_wf w st \<Longrightarrow> kms_wf w (st\<lparr>km_db := KMSWorker_DeleteKeys now (km_db st)\<rparr>)"
    by (simp add: KMSWorker_DeleteKeys_def)
qed

section \<open>Reachable states\<close>

inductive kms_step :: "kms_world \<Rightarrow> kms_state \<Rightarrow> kms_state \<Rightarrow> bool" for w :: kms_world where
  request: "fresh_ids (kr_oid d) (kr_keyId d) st \<Longrightarrow>
    kms_step w st (snd (KMSHandler_HandlePostRequest w d request region user st))"
| creator_read: "keyId \<in> set (km_started st) \<Longrightarrow> kms_step w st (KMSCreator_read m now keyId st)"
| creator_store: "c \<in> set (km_copies st) \<Longrightarrow> kms_step w st (KMSCreator_store c st)"
| worker: "kms_step w st (st\<lparr>km_db := KMSWorker_DeleteKeys now (km_db st)\<rparr>)"

inductive kms_reachable :: "kms_world \<Rightarrow> kms_state \<Rightarrow> bool" for w :: kms_world where
  start: "kms_reachable w \<lparr>km_db = \<lparr>kms_keys = []\<rparr>, km_started = [], km_copies = []\<rparr>"
| step: "kms_reachable w st \<Longrightarrow> kms_step w st st' \<Longrightarrow> kms_reachable w st'"

lemma wf_kms_serve:
  "kms_wf w st \<Longrightarrow> (\<And>request. kms_wf w (snd (f request st))) \<Longrightarrow> kms_wf w (snd (kms_serve r f body st))"
  by (auto simp: kms_serve_def andthen_def split: sum.split prod.split) (metis snd_conv)+

lemma kms_step_wf: "kms_step w st st' \<Longrightarrow> kms_wf w st \<Longrightarrow> kms_wf w st'"
proof (induction rule: kms_step.induct)
  case (request d st request region user)
  show ?case
  proof (cases "KMSClientCommand_FromRequest (kr_requestId d) request region user")
    case (Inl e)
    then show ?thesis using request.prems by (simp add: KMSHandler_HandlePostRequest_def)
  next
    case (Inr c)
    show ?thesis unfolding KMSHandler_HandlePostRequest_def Inr sum.case Let_def
      by (cases "kmc_command c")
         (simp_all add: wf_kms_serve wf_CreateKey [OF request.prems request.hyps] wf_ScheduleKeyDeletion wf_DescribeKey
            KMSService_Encrypt_def KMSService_Decrypt_def wf_with_key request.prems case_prod_beta)
  qed
qed (simp_all add: wf_creator_read wf_creator_store wf_DeleteKeys)

lemma kms_reachable_wf: "kms_reachable w st \<Longrightarrow> kms_wf w st"
proof (induction rule: kms_reachable.induct)
  case start
  then show ?case by (simp add: kms_wf_def kms_inv_def)
next
  case step
  then show ?case by (blast intro: kms_step_wf)
qed

text \<open>C10: whatever requests, key-making threads and runs of the worker interleave, a key id names one row
  of the store, the row carries its key, the ARN is the one of region, account and key id, and every
  copy that a thread still holds of a stored key has its identity (region, ARN, specification, usage).
\<close>

theorem kms_key_identity:
  assumes "kms_reachable w st" "(oid, k) \<in> set (kms_keys (km_db st))"
  shows "k_oid k = oid \<and> k_arn k = AwsUtils_CreateKMSKeyArn (k_region k) (cfg_accountId (kw_cfg w)) (k_keyId k) \<and>
         (\<forall>(oid', k') \<in> set (kms_keys (km_db st)). k_keyId k' = k_keyId k \<longrightarrow> oid' = oid) \<and>
         (\<forall>c \<in> set (km_copies st). k_keyId c = k_keyId k \<longrightarrow> same_key c k)"
proof -
  note wf = kms_reachable_wf [OF assms(1)]
  have "k_oid k = oid" using rows_taggedD [OF kms_invD(1) [OF kms_wfD(1) [OF wf]] assms(2)] .
  moreover have "\<forall>(oid', k') \<in> set (kms_keys (km_db st)). k_keyId k' = k_keyId k \<longrightarrow> oid' = oid"
    using kms_wfD(4) [OF wf _ assms(2)] by blast
  ultimately show ?thesis using kms_wfD(3,5) [OF wf assms(2)] by blast
qed

section \<open>A deletion and the thread of the key\<close>

lemma get_after_update:
  assumes wf: "kms_wf w st" and same: "\<And>oid k'. (oid, k') \<in> set (kms_keys (km_db st)) \<Longrightarrow> k_keyId k' = k_keyId k \<Longrightarrow> same_key k k'"
    and ex: "KMSMemoryDb_KeyExists (k_keyId k) (km_db st)"
  shows "KMSMemoryDb_GetKeyByKeyId now (k_keyId k) (snd (KMSMemoryDb_UpdateKey k (km_db st))) =
           (k, snd (KMSMemoryDb_UpdateKey k (km_db st)))"
    "KMSMemoryDb_KeyExists (k_keyId k) (snd (KMSMemoryDb_UpdateKey k (km_db st)))"
proof -
  let ?db = "snd (KMSMemoryDb_UpdateKey k (km_db st))" let ?st = "st\<lparr>km_db := ?db\<rparr>"
  have wf': "kms_wf w ?st" using wf same by (rule update_key(2))
  have "(k_oid k, k) \<in> set (kms_keys ?db)"
    using update_key(1) [OF wf same] ex by (simp add: set_smap_put kms_invD [OF kms_wfD(1) [OF wf]])
  then have row: "(k_oid k, k) \<in> set (kms_keys (km_db ?st))" by simp
  then have ex': "KMSMemoryDb_KeyExists (k_keyId k) (km_db ?st)"
    by (force simp: KMSMemoryDb_KeyExists_def smap_find_if_None)
  then show "KMSMemoryDb_KeyExists (k_keyId k) ?db" by simp
  obtain oid k1 where k1: "(oid, k1) \<in> set (kms_keys (km_db ?st))" "k_keyId k1 = k_keyId k"
    "\<And>now. KMSMemoryDb_GetKeyByKeyId now (k_keyId k) (km_db ?st) = (k1, km_db ?st)"
    by (rule key_there [OF wf' ex']) blast
  have "oid = k_oid k" using kms_wfD(4) [OF wf' k1(1) row k1(2)] .
  then have "k1 = k" using k1(1) row eq_key_imp_eq_value [OF smap_inv_distinct [OF kms_invD(2) [OF kms_wfD(1) [OF wf']]]] by blast
  then show "KMSMemoryDb_GetKeyByKeyId now (k_keyId k) ?db = (k, ?db)" using k1(3) [of now] by simp
qed

lemma worker_keeps:
  assumes wf: "kms_wf w st" and row: "(oid, k) \<in> set (kms_keys (km_db st))"
    and alive: "k_keyState k \<noteq> KeyStateToString KEY_PENDING_DELETION"
  shows "KMSMemoryDb_KeyExists (k_keyId k) (KMSWorker_DeleteKeys now (km_db st))"
proof -
  have "(oid, k) \<in> set (kms_keys (fold (\<lambda>key db.
        if k_keyState key = KeyStateToString KEY_PENDING_DELETION \<and> k_scheduledDeletion key < now
        then KMSMemoryDb_DeleteKey key db else db) ks db))"
    if "(oid, k) \<in> set (kms_keys db)" "\<forall>k' \<in> set ks. k_keyId k' = k_keyId k \<longrightarrow> k_keyState k' \<noteq> KeyStateToString KEY_PENDING_DELETION" for ks db
    using that
  proof (induction ks arbitrary: db)
    case (Cons k' ks)
    have "(oid, k) \<in> set (kms_keys (if k_keyState k' = KeyStateToString KEY_PENDING_DELETION \<and> k_scheduledDeletion k' < now
        then KMSMemoryDb_DeleteKey k' db else db))"
      using Cons.prems by (auto simp: KMSMemoryDb_DeleteKey_def set_smap_erase_if)
    from Cons.IH [OF this] Cons.prems(2) show ?case by simp
  qed simp
  moreover have "k_keyState k' \<noteq> KeyStateToString KEY_PENDING_DELETION"
    if k': "k' \<in> set (smap_values (kms_keys (km_db st)))" "k_keyId k' = k_keyId k" for k'
  proof -
    obtain oid' where mem: "(oid', k') \<in> set (kms_keys (km_db st))" using k'(1) by (auto simp: smap_values_def)
    have "oid' = oid" using kms_wfD(4) [OF wf mem row k'(2)] .
    then have "k' = k" using mem row eq_key_imp_eq_value [OF smap_inv_distinct [OF kms_invD(2) [OF kms_wfD(1) [OF wf]]]] by blast
    then show ?thesis using alive by simp
  qed
  ultimately have "(oid, k) \<in> set (kms_keys (KMSWorker_DeleteKeys now (km_db st)))"
    using row unfolding KMSWorker_DeleteKeys_def KMSMemoryDb_ListKeys_def by simp
  then show ?thesis by (force simp: KMSMemoryDb_KeyExists_def smap_find_if_None)
qed

lemma made_key_state: "k_keyState (made_key m k) = ''Enabled''" "k_scheduledDeletion (made_key m k) = k_scheduledDeletion k"
proof -
  have "KeyStateToString KEY_ENABLED = ''Enabled''" by code_simp
  then show "k_keyState (made_key m k) = ''Enabled''" "k_scheduledDeletion (made_key m k) = k_scheduledDeletion k"
    by (cases "KeySpecFromString (k_keySpec k)",
        simp_all add: made_key_def Let_def KMSCreator_GenerateAes256Key_def KMSCreator_CreateHmacKey_def
          KMSCreator_GenerateRsaKeyPair_def)+
qed

lemma key_state_names: "KeyStateToString KEY_ENABLED = ''Enabled''" "KeyStateToString KEY_PENDING_DELETION = ''PendingDeletion''"
  by code_simp+

text \<open>Storing the copy of a key that is still there: the key is the copy.\<close>

lemma creator_store_effect:
  assumes wf: "kms_wf w st" and copy: "c \<in> set (km_copies st)" and ex: "KMSMemoryDb_KeyExists (k_keyId c) (km_db st)"
  shows "kms_wf w (KMSCreator_store c st)"
    "KMSMemoryDb_KeyExists (k_keyId c) (km_db (KMSCreator_store c st))"
    "KMSMemoryDb_GetKeyByKeyId now (k_keyId c) (km_db (KMSCreator_store c st)) = (c, km_db (KMSCreator_store c st))"
proof -
  have same: "same_key c k'" if "(oid, k') \<in> set (kms_keys (km_db st))" "k_keyId k' = k_keyId c" for oid k'
    using kms_wfD(5) [OF wf that(1) copy] that(2) by simp
  have db: "km_db (KMSCreator_store c st) = snd (KMSMemoryDb_UpdateKey c (km_db st))"
    by (simp add: KMSCreator_store_def case_prod_beta)
  show "kms_wf w (KMSCreator_store c st)" by (rule wf_creator_store [OF wf copy])
  show "KMSMemoryDb_KeyExists (k_keyId c) (km_db (KMSCreator_store c st))"
    unfolding db by (rule get_after_update(2) [OF wf _ ex]) (rule same)
  show "KMSMemoryDb_GetKeyByKeyId now (k_keyId c) (km_db (KMSCreator_store c st)) = (c, km_db (KMSCreator_store c st))"
    unfolding db by (rule get_after_update(1) [OF wf _ ex]) (rule same)
qed

lemma schedule_effect:
  assumes wf: "kms_wf w st" and ok: "KMSService_ScheduleKeyDeletion now keyId days st = (Inr a, st')"
  shows "KMSMemoryDb_KeyExists keyId (km_db st')" "km_copies st' = km_copies st" "kms_wf w st'"
    "da_keyState a = ''PendingDeletion''"
proof -
  have ex: "KMSMemoryDb_KeyExists keyId (km_db st)" using ok by (auto simp: KMSService_ScheduleKeyDeletion_def split: if_splits)
  obtain oid k where row: "(oid, k) \<in> set (kms_keys (km_db st))" "k_keyId k = keyId"
    and get: "\<And>now. KMSMemoryDb_GetKeyByKeyId now keyId (km_db st) = (k, km_db st)"
    by (rule key_there [OF wf ex]) blast
  from ok obtain t where t: "add_days now days = Inr t"
    by (auto simp: KMSService_ScheduleKeyDeletion_def ex get split: sum.splits)
  let ?k = "k\<lparr>k_pendingWindowInDays := days, k_scheduledDeletion := t, k_keyState := KeyStateToString KEY_PENDING_DELETION\<rparr>"
  have same: "same_key ?k k'" if "(oid', k') \<in> set (kms_keys (km_db st))" "k_keyId k' = k_keyId ?k" for oid' k'
  proof -
    have "oid' = oid" using kms_wfD(4) [OF wf that(1) row(1)] that(2) by simp
    then have "k' = k" using that(1) row(1) eq_key_imp_eq_value [OF smap_inv_distinct [OF kms_invD(2) [OF kms_wfD(1) [OF wf]]]] by blast
    then show ?thesis by (simp add: same_key_def)
  qed
  have upd: "KMSMemoryDb_UpdateKey ?k (km_db st) = (?k, snd (KMSMemoryDb_UpdateKey ?k (km_db st)))"
    by (subst update_key(1) [OF wf same]) (simp_all add: update_key(1) [OF wf same])
  have eq: "a = \<lparr>da_keyId = keyId, da_keyState = KeyStateToString KEY_PENDING_DELETION, da_deletionDate = t, da_pendingWindowInDays = days\<rparr>"
    "st' = st\<lparr>km_db := snd (KMSMemoryDb_UpdateKey ?k (km_db st))\<rparr>"
    using ok unfolding KMSService_ScheduleKeyDeletion_def get prod.case t sum.case
    by (simp_all add: ex, (subst (asm) upd, simp)+)
  show "km_copies st' = km_copies st" "da_keyState a = ''PendingDeletion''" by (simp_all add: eq key_state_names)
  show "kms_wf w st'" using wf_ScheduleKeyDeletion [OF wf, of now keyId days] ok by simp
  show "KMSMemoryDb_KeyExists keyId (km_db st')"
    using get_after_update(2) [OF wf same] ex row(2) by (simp add: eq)
qed

text \<open>C32: a deletion that is scheduled while the thread of a new key is making the key material is
  answered with \<open>PendingDeletion\<close> and then lost: when the thread stores its copy, the key is enabled
  again with the deletion date it had before, and no run of the worker deletes it.
\<close>

theorem deletion_undone_by_creator:
  assumes reach: "kms_reachable w st" and started: "keyId \<in> set (km_started st)"
    and ex: "KMSMemoryDb_KeyExists keyId (km_db st)"
    and read: "KMSMemoryDb_GetKeyByKeyId now keyId (km_db st) = (k, db)" "st1 = KMSCreator_read m now keyId st"
    and schedule: "KMSService_ScheduleKeyDeletion now' keyId days st1 = (Inr a, st2)"
    and store: "st3 = KMSCreator_store (made_key m k) st2"
  shows "da_keyState a = ''PendingDeletion'' \<and>
         (\<exists>kd. KMSService_DescribeKey now'' keyId st3 = (Inr kd, st3) \<and> kd_enabled kd \<and>
               kd_deletionDate kd = k_scheduledDeletion k) \<and>
         KMSMemoryDb_KeyExists keyId (KMSWorker_DeleteKeys t (km_db st3))"
proof -
  note wf = kms_reachable_wf [OF reach]
  have wf1: "kms_wf w st1" unfolding read(2) by (rule wf_creator_read [OF wf])
  obtain k' where k': "k_keyId k' = keyId" "\<And>now. KMSMemoryDb_GetKeyByKeyId now keyId (km_db st) = (k', km_db st)"
    by (rule key_there [OF wf ex]) blast
  have id: "k_keyId (made_key m k) = keyId" using read(1) k' by (simp add: made_key_id)
  have copies: "made_key m k \<in> set (km_copies st1)" unfolding read(2) KMSCreator_read_def read(1) by simp
  note S = schedule_effect [OF wf1 schedule]
  have copy2: "made_key m k \<in> set (km_copies st2)" using copies S(2) by simp
  note C = creator_store_effect [OF S(3) copy2, unfolded id, OF S(1), folded store]
  obtain oid c where row: "(oid, c) \<in> set (kms_keys (km_db st3))" "k_keyId c = keyId"
    "\<And>now. KMSMemoryDb_GetKeyByKeyId now keyId (km_db st3) = (c, km_db st3)"
    by (rule key_there [OF C(1,2)]) blast
  have c: "c = made_key m k" using row(3) C(3) by simp
  have "KMSMemoryDb_KeyExists keyId (KMSWorker_DeleteKeys t (km_db st3))"
    using worker_keeps [OF C(1) row(1)] row(2) unfolding c made_key_state key_state_names by simp
  moreover have "KMSService_DescribeKey now'' keyId st3 =
      (Inr \<lparr>kd_key = key_answer c, kd_creationDate = k_created c, kd_deletionDate = k_scheduledDeletion c, kd_enabled = True\<rparr>, st3)"
    by (simp add: KMSService_DescribeKey_def C(2) row(3) c made_key_state key_state_names StringUtils_Equals_def)
  ultimately show ?thesis using S(4) by (simp add: c made_key_state)
qed

section \<open>The life of a key\<close>

lemma CreateKey_then_read:
  assumes wf: "kms_wf w st" and fresh: "fresh_ids oid keyId st"
    and create: "KMSService_CreateKey w now oid keyId request st = (Inr a, st1)"
  shows "kms_wf w st1" "KMSMemoryDb_KeyExists keyId (km_db st1)" "keyId \<in> set (km_started st1)"
    "KMSMemoryDb_GetKeyByKeyId now' keyId (km_db st1) = ((new_key w now keyId request)\<lparr>k_oid := oid\<rparr>, km_db st1)"
proof -
  note inv = kms_wfD(1) [OF wf]
  let ?k = "(new_key w now keyId request)\<lparr>k_oid := oid\<rparr>"
  have st1: "st1 = st\<lparr>km_db := (km_db st)\<lparr>kms_keys := smap_put oid ?k (kms_keys (km_db st))\<rparr>, km_started := km_started st @ [keyId]\<rparr>"
    using create by (simp add: CreateKey_service_eq inv)
  show wf1: "kms_wf w st1" using wf_CreateKey [OF wf fresh, of now request] create by simp
  show "keyId \<in> set (km_started st1)" by (simp add: st1)
  have row: "(oid, ?k) \<in> set (kms_keys (km_db st1))" by (simp add: st1 set_smap_put kms_invD [OF inv])
  then show ex: "KMSMemoryDb_KeyExists keyId (km_db st1)"
    by (force simp: KMSMemoryDb_KeyExists_def smap_find_if_None new_key_fields)
  obtain oid1 k1 where k1: "(oid1, k1) \<in> set (kms_keys (km_db st1))" "k_keyId k1 = keyId"
    "\<And>now. KMSMemoryDb_GetKeyByKeyId now keyId (km_db st1) = (k1, km_db st1)"
    by (rule key_there [OF wf1 ex]) blast
  have "oid1 = oid" using kms_wfD(4) [OF wf1 k1(1) row] k1(2) by (simp add: new_key_fields)
  then have "k1 = ?k" using k1(1) row eq_key_imp_eq_value [OF smap_inv_distinct [OF kms_invD(2) [OF kms_wfD(1) [OF wf1]]]] by blast
  then show "KMSMemoryDb_GetKeyByKeyId now' keyId (km_db st1) = (?k, km_db st1)" using k1(3) by simp
qed

definition is_rsa :: "KeySpec \<Rightarrow> bool" where
  "is_rsa spec \<longleftrightarrow> spec \<in> {RSA_2048, RSA_3072, RSA_4096}"

lemma made_key_rsa:
  assumes "is_rsa (KeySpecFromString (k_keySpec k))"
  shows "k_rsaPublicKey (made_key m k) = mat_public m" "k_rsaPrivateKey (made_key m k) = mat_private m"
    "k_keySpec (made_key m k) = k_keySpec k"
  using assms by (auto simp: is_rsa_def made_key_def Let_def KMSCreator_GenerateRsaKeyPair_def)

lemma crypt_rsa:
  assumes "is_rsa (KeySpecFromString (k_keySpec k))"
  shows "KMSService_EncryptPlaintext w k s =
           rbind (Crypto_RsaEncrypt w (k_rsaPublicKey k) (kw_unbase64 w s)) (\<lambda>c. Inr (kw_base64 w c))"
    "KMSService_DecryptPlaintext w k s =
           rbind (Crypto_RsaDecrypt w (k_rsaPrivateKey k) (kw_unbase64 w s)) (\<lambda>p. Inr (kw_base64 w p))"
  using assms by (auto simp: is_rsa_def KMSService_EncryptPlaintext_def KMSService_DecryptPlaintext_def Let_def)

text \<open>C31: a new RSA key encrypts and decrypts: once the thread of the key has stored the key pair, what
  \<open>Encrypt\<close> answers for a text is decrypted by \<open>Decrypt\<close> to that text, and neither changes the store;
  before that, \<open>Encrypt\<close> works with an empty key and has no defined behaviour.
\<close>

theorem rsa_key_roundtrip:
  assumes reach: "kms_reachable w st" and fresh: "fresh_ids oid keyId st" and spec: "is_rsa (ckr_keySpec request)"
    and create: "KMSService_CreateKey w now oid keyId request st = (Inr a, st1)"
    and read: "st2 = KMSCreator_read m now keyId st1"
    and store: "st3 = KMSCreator_store (made_key m (fst (KMSMemoryDb_GetKeyByKeyId now keyId (km_db st1)))) st2"
    and base64: "\<forall>s. kw_unbase64 w (kw_base64 w s) = s"
    and pair: "\<exists>c. kw_rsa_encrypt w (mat_public m) (kw_unbase64 w (cyr_text r)) = Some c \<and>
                   kw_rsa_decrypt w (mat_private m) c = Some (kw_unbase64 w (cyr_text r))"
    and no_key: "kw_rsa_encrypt w [] (kw_unbase64 w (cyr_text r)) = None" and key: "cyr_keyId r = keyId"
  shows "fst (KMSService_Encrypt w now r st2) = Inl UndefinedBehaviour \<and>
         (\<exists>c p. KMSService_Encrypt w now r st3 = (Inr c, st3) \<and>
                KMSService_Decrypt w now (r\<lparr>cyr_text := ca_text c\<rparr>) st3 = (Inr p, st3) \<and>
                kw_unbase64 w (ca_text p) = kw_unbase64 w (cyr_text r))"
proof -
  note wf = kms_reachable_wf [OF reach]
  note N = CreateKey_then_read [OF wf fresh create]
  let ?k = "(new_key w now keyId request)\<lparr>k_oid := oid\<rparr>"
  have wf2: "kms_wf w st2" unfolding read by (rule wf_creator_read [OF N(1)])
  have st2: "km_db st2 = km_db st1" "made_key m ?k \<in> set (km_copies st2)"
    unfolding read KMSCreator_read_def N(4) by simp_all
  have id: "k_keyId (made_key m ?k) = keyId" by (simp add: made_key_id new_key_fields)
  have ex2: "KMSMemoryDb_KeyExists (k_keyId (made_key m ?k)) (km_db st2)" using N(2) by (simp add: id st2)
  have st3: "st3 = KMSCreator_store (made_key m ?k) st2" using store by (simp add: N(4))
  note C = creator_store_effect [OF wf2 st2(2) ex2, unfolded id, folded st3]
  have rsa: "is_rsa (KeySpecFromString (k_keySpec ?k))" using spec by (simp add: new_key_fields KeySpec_roundtrip)
  have pub: "k_rsaPublicKey ?k = []" by (simp add: new_key_def Key_init_def)
  have "fst (KMSService_Encrypt w now r st2) = Inl UndefinedBehaviour"
    using N(2) by (simp add: KMSService_Encrypt_def with_key_def key st2 N(4) crypt_rsa(1) [OF rsa] pub Crypto_RsaEncrypt_def no_key)
  moreover obtain c where c: "kw_rsa_encrypt w (mat_public m) (kw_unbase64 w (cyr_text r)) = Some c"
    "kw_rsa_decrypt w (mat_private m) c = Some (kw_unbase64 w (cyr_text r))" using pair by blast
  note M = made_key_rsa [OF rsa, of m]
  have rsa': "is_rsa (KeySpecFromString (k_keySpec (made_key m ?k)))" using rsa unfolding M(3) .
  have same: "st3\<lparr>km_db := km_db st3\<rparr> = st3" by simp
  have "KMSService_Encrypt w now r st3 =
      (Inr \<lparr>ca_region = cyr_region r, ca_keyId = keyId, ca_algorithm = cyr_algorithm r, ca_text = kw_base64 w c\<rparr>, st3)"
    unfolding KMSService_Encrypt_def with_key_def key C(3) prod.case crypt_rsa(1) [OF rsa'] M(1) Crypto_RsaEncrypt_def c(1) same id
    by (simp add: C(2))
  moreover have "KMSService_Decrypt w now (r\<lparr>cyr_text := ca_text \<lparr>ca_region = cyr_region r, ca_keyId = keyId,
        ca_algorithm = cyr_algorithm r, ca_text = kw_base64 w c\<rparr>\<rparr>) st3 =
      (Inr \<lparr>ca_region = cyr_region r, ca_keyId = keyId, ca_algorithm = cyr_algorithm r,
            ca_text = kw_base64 w (kw_unbase64 w (cyr_text r))\<rparr>, st3)"
    using base64 by (simp add: KMSService_Decrypt_def with_key_def key C(2,3) crypt_rsa(2) [OF rsa'] M(2) Crypto_RsaDecrypt_def c(2) id)
  moreover have "kw_unbase64 w (ca_text \<lparr>ca_region = cyr_region r, ca_keyId = keyId, ca_algorithm = cyr_algorithm r,
            ca_text = kw_base64 w (kw_unbase64 w (cyr_text r))\<rparr>) = kw_unbase64 w (cyr_text r)"
    using base64 by simp
  ultimately show ?thesis by blast
qed

text \<open>a symmetric key encrypts once its key material is there, but nothing that it encrypted can be
  decrypted: whatever the ciphertext, \<open>Decrypt\<close> under a symmetric key has no defined behaviour (the
  closing NUL byte is written behind the buffer).
\<close>

theorem symmetric_key_never_decrypts:
  assumes spec: "KeySpecFromString (k_keySpec k) = SYMMETRIC_DEFAULT" and raw: "kw_hexbuf w (k_aes256Key k) = Some key"
  shows "KMSService_EncryptPlaintext w k plain = Inr (kw_base64 w (kw_aes w (c_string key) (kw_unbase64 w plain))) \<and>
         KMSService_DecryptPlaintext w k cipher = Inl UndefinedBehaviour"
  using assms by (simp add: KMSService_EncryptPlaintext_def KMSService_DecryptPlaintext_def Crypto_HexDecode_def
      Crypto_Aes256EncryptString_def Crypto_Aes256DecryptString_def case_prod_beta Let_def)

section \<open>An example\<close>

definition demo_kms_world :: kms_world where
  "demo_kms_world = \<lparr>kw_cfg = demo_cfg,
     kw_ext = demo_ext\<lparr>ext_json_parse := (\<lambda>s. Inr (JObject [(''KeySpec'', JString ''RSA_2048'')]))\<rparr>,
     kw_base64 = (\<lambda>s. s), kw_unbase64 = (\<lambda>s. s), kw_hexbuf = Some, kw_aes = (\<lambda>k s. s), kw_aes_decrypt = (\<lambda>k s. (s, [])),
     kw_rsa_encrypt = (\<lambda>k s. if k = [] then None else Some (rev s)),
     kw_rsa_decrypt = (\<lambda>k s. if k = [] then None else Some (rev s)), kw_hmac = (\<lambda>n k s. s)\<rparr>"

definition demo_material :: key_material where
  "demo_material = \<lparr>mat_key = ''k'', mat_iv = ''i'', mat_hmac = ''h'', mat_public = ''pub'', mat_private = ''priv''\<rparr>"

definition demo_kms_start :: kms_state where
  "demo_kms_start = \<lparr>km_db = \<lparr>kms_keys = []\<rparr>, km_started = [], km_copies = []\<rparr>"

definition demo_kms_draws :: kms_draws where
  "demo_kms_draws = \<lparr>kr_requestId = [], kr_now = 5, kr_oid = ''o'', kr_keyId = ''k1'', kr_limit = 0, kr_algorithm = SM2PKE\<rparr>"

definition demo_create_key :: http_request where
  "demo_create_key = \<lparr>rq_method = HttpPost, rq_target = ''/'', rq_fields = [(''X-Amz-Target'', ''TrentService.CreateKey'')],
     rq_body = []\<rparr>"

definition demo_kms_created :: kms_state where
  "demo_kms_created = snd (KMSHandler_HandlePostRequest demo_kms_world demo_kms_draws demo_create_key ''eu'' ''me'' demo_kms_start)"

lemma demo_kms_reachable: "kms_reachable demo_kms_world demo_kms_start" "kms_reachable demo_kms_world demo_kms_created"
proof -
  show start: "kms_reachable demo_kms_world demo_kms_start" unfolding demo_kms_start_def by (rule kms_reachable.start)
  show "kms_reachable demo_kms_world demo_kms_created" unfolding demo_kms_created_def
    by (rule kms_reachable.step [OF start kms_step.request])
       (simp add: fresh_ids_def demo_kms_start_def demo_kms_draws_def)
qed

lemma demo_kms_created_rows:
  "km_started demo_kms_created = [''k1'']"
  "map (\<lambda>(oid, k). (oid, k_keyId k, k_keySpec k)) (kms_keys (km_db demo_kms_created)) = [(''o'', ''k1'', ''RSA_2048'')]"
  "KMSMemoryDb_KeyExists ''k1'' (km_db demo_kms_created)"
  by code_simp+

theorem kms_key_identity_witness:
  "\<exists>oid k. (oid, k) \<in> set (kms_keys (km_db demo_kms_created)) \<and> k_oid k = oid"
proof -
  obtain oid k where "(oid, k) \<in> set (kms_keys (km_db demo_kms_created))"
    using arg_cong [OF demo_kms_created_rows(2), of length] by (cases "kms_keys (km_db demo_kms_created)") auto
  then show ?thesis using kms_key_identity [OF demo_kms_reachable(2)] by blast
qed

definition demo_kms_reading :: kms_state where
  "demo_kms_reading = KMSCreator_read demo_material 5 ''k1'' demo_kms_created"

lemma demo_kms_scheduled:
  "map_sum (\<lambda>e. e) da_deletionDate (fst (KMSService_ScheduleKeyDeletion 5 ''k1'' 7 demo_kms_reading)) = Inr 604800000000005"
  by code_simp

theorem deletion_undone_by_creator_witness:
  "\<exists>a st2 st3 kd. KMSService_ScheduleKeyDeletion 5 ''k1'' 7 demo_kms_reading = (Inr a, st2) \<and> da_keyState a = ''PendingDeletion'' \<and>
     st3 = KMSCreator_store (made_key demo_material (fst (KMSMemoryDb_GetKeyByKeyId 5 ''k1'' (km_db demo_kms_created)))) st2 \<and>
     KMSService_DescribeKey 9 ''k1'' st3 = (Inr kd, st3) \<and> kd_enabled kd"
proof -
  obtain a st2 where schedule: "KMSService_ScheduleKeyDeletion 5 ''k1'' 7 demo_kms_reading = (Inr a, st2)"
    using demo_kms_scheduled by (cases "KMSService_ScheduleKeyDeletion 5 ''k1'' 7 demo_kms_reading" rule: andthen_cases) auto
  have started: "''k1'' \<in> set (km_started demo_kms_created)" by (simp add: demo_kms_created_rows)
  obtain k db where read: "KMSMemoryDb_GetKeyByKeyId 5 ''k1'' (km_db demo_kms_created) = (k, db)" by (cases "KMSMemoryDb_GetKeyByKeyId 5 ''k1'' (km_db demo_kms_created)")
  show ?thesis
    using deletion_undone_by_creator [OF demo_kms_reachable(2) started demo_kms_created_rows(3) read demo_kms_reading_def schedule refl, of 9]
      schedule read by auto
qed

definition demo_rsa_request :: CreateKeyRequest where
  "demo_rsa_request = \<lparr>ckr_region = ''eu'', ckr_description = [], ckr_keySpec = RSA_2048, ckr_keyUsage = ENCRYPT_DECRYPT\<rparr>"

definition demo_crypt :: CryptRequest where
  "demo_crypt = \<lparr>cyr_region = ''eu'', cyr_keyId = ''k1'', cyr_text = ''secret'', cyr_algorithm = RSAES_OAEP_SHA_1\<rparr>"

theorem rsa_key_roundtrip_witness:
  "\<exists>st3 c p. KMSService_Encrypt demo_kms_world 5 demo_crypt st3 = (Inr c, st3) \<and>
     KMSService_Decrypt demo_kms_world 5 (demo_crypt\<lparr>cyr_text := ca_text c\<rparr>) st3 = (Inr p, st3) \<and> ca_text p = ''secret''"
proof -
  obtain a st1 where create: "KMSService_CreateKey demo_kms_world 5 ''o'' ''k1'' demo_rsa_request demo_kms_start = (Inr a, st1)"
    by (simp add: CreateKey_service_eq kms_inv_def demo_kms_start_def)
  have fresh: "fresh_ids ''o'' ''k1'' demo_kms_start" by (simp add: fresh_ids_def demo_kms_start_def)
  have spec: "is_rsa (ckr_keySpec demo_rsa_request)" by (simp add: is_rsa_def demo_rsa_request_def)
  have laws: "\<forall>s. kw_unbase64 demo_kms_world (kw_base64 demo_kms_world s) = s"
    "\<exists>c. kw_rsa_encrypt demo_kms_world (mat_public demo_material) (kw_unbase64 demo_kms_world (cyr_text demo_crypt)) = Some c \<and>
         kw_rsa_decrypt demo_kms_world (mat_private demo_material) c = Some (kw_unbase64 demo_kms_world (cyr_text demo_crypt))"
    "kw_rsa_encrypt demo_kms_world [] (kw_unbase64 demo_kms_world (cyr_text demo_crypt)) = None" "cyr_keyId demo_crypt = ''k1''"
    "kw_unbase64 demo_kms_world s = s" "cyr_text demo_crypt = ''secret''" for s
    by (simp_all add: demo_kms_world_def demo_material_def demo_crypt_def)
  show ?thesis
    using rsa_key_roundtrip [OF demo_kms_reachable(1) fresh spec create refl refl laws(1) laws(2) laws(3) laws(4)]
    unfolding laws(5,6) by blast
qed

theorem symmetric_key_never_decrypts_witness:
  "KMSService_DecryptPlaintext demo_kms_world ((Key_init 0)\<lparr>k_aes256Key := ''00''\<rparr>) ''x'' = Inl UndefinedBehaviour"
proof -
  have spec: "KeySpecFromString (k_keySpec ((Key_init 0)\<lparr>k_aes256Key := ''00''\<rparr>)) = SYMMETRIC_DEFAULT" by code_simp
  have raw: "kw_hexbuf demo_kms_world (k_aes256Key ((Key_init 0)\<lparr>k_aes256Key := ''00''\<rparr>)) = Some ''00''"
    by (simp add: demo_kms_world_def)
  show ?thesis using symmetric_key_never_decrypts [OF spec raw] by blast
qed

end
