(* ===== verification/Signature.thy ===== *)
theory Signature
  imports ClientCommand
begin

text \<open>
  The AWS signature of a request: \<open>VerifySignature\<close> and \<open>AddAuthorizationHeader\<close> of
  \<open>core/src/utils/AwsUtils.cpp\<close> with what they are made of.  SHA-256 and HMAC are OpenSSL's, the
  encoding of a target Poco's: the members of \<open>auth_world\<close>.  The pattern of the field
  \<open>Authorization\<close> is translated: its groups but two end before a character they cannot hold, so
  that only the last two can be divided in several ways, of which the first found has the longest
  list of signed header fields.
\<close>

record auth_world =
  au_url_encode :: "string \<Rightarrow> string"
  au_sha256 :: "string \<Rightarrow> string"
  au_hmac :: "string \<Rightarrow> string \<Rightarrow> string"
  au_method_name :: "http_verb \<Rightarrow> string"

record AuthorizationHeaderKeys =
  ak_signingVersion :: string
  ak_secretAccessKey :: string
  ak_dateTime :: string
  ak_isoDateTime :: string
  ak_scope :: string
  ak_region :: string
  ak_module :: string
  ak_requestVersion :: string
  ak_signedHeaders :: string
  ak_signature :: string

definition no_keys :: AuthorizationHeaderKeys where
  "no_keys =
     \<lparr>ak_signingVersion = [], ak_secretAccessKey = [], ak_dateTime = [], ak_isoDateTime = [], ak_scope = [],
      ak_region = [], ak_module = [], ak_requestVersion = [], ak_signedHeaders = [], ak_signature = []\<rparr>"

section \<open>The pattern of the authorization\<close>

text \<open>\<open>[a-zA-Z0-9]\<close> and \<open>[a-zA-Z0-9\-]\<close>.\<close>

definition is_alnum :: "char \<Rightarrow> bool" where
  "is_alnum c \<longleftrightarrow> is_digit c \<or> (CHR ''a'' \<le> c \<and> c \<le> CHR ''z'') \<or> (CHR ''A'' \<le> c \<and> c \<le> CHR ''Z'')"

definition is_name_char :: "char \<Rightarrow> bool" where
  "is_name_char c \<longleftrightarrow> is_alnum c \<or> c = CHR ''-''"

text \<open>What stands behind a prefix, and a run of a class, which must not be empty, before a prefix.\<close>

definition after :: "string \<Rightarrow> string \<Rightarrow> string option" where
  "after prefix xs = (if starts_with xs prefix then Some (drop (length prefix) xs) else None)"

definition run_of :: "(char \<Rightarrow> bool) \<Rightarrow> string \<Rightarrow> string \<Rightarrow> (string \<times> string) option" where
  "run_of is_class stop xs =
     (let r = takeWhile is_class xs in
      if r = [] then None else map_option (\<lambda>rest. (r, rest)) (after stop (dropWhile is_class xs)))"

text \<open>\<open>(.*),\ ?Signature=(.*)$\<close>\<close>

fun last_signature :: "string \<Rightarrow> (string \<times> string) option" where
  "last_signature [] = None"
| "last_signature (c # cs) =
     (case last_signature cs of
        Some (h, s) \<Rightarrow> Some (c # h, s)
      | None \<Rightarrow>
          (case after '',Signature='' (c # cs) of
             Some s \<Rightarrow> Some ([], s)
           | None \<Rightarrow> map_option (\<lambda>s. ([], s)) (after '', Signature='' (c # cs))))"

definition signed_part :: "string \<Rightarrow> (string \<times> string) option" where
  "signed_part xs =
     (case after ''SignedHeaders='' xs of
        Some rest \<Rightarrow> last_signature rest
      | None \<Rightarrow> Option.bind (after '' SignedHeaders='' xs) last_signature)"

record authorization_match =
  am_dateTime :: string
  am_region :: string
  am_module :: string
  am_signedHeaders :: string
  am_signature :: string

definition eight_digits :: "string \<Rightarrow> (string \<times> string) option" where
  "eight_digits xs =
     (let d = take 8 xs in
      if length d = 8 \<and> list_all is_digit d
      then map_option (\<lambda>rest. (d, rest)) (after ''/'' (drop 8 xs)) else None)"

definition match_here :: "string \<Rightarrow> authorization_match option" where
  "match_here xs =
     Option.bind (after ''Credential='' xs) (\<lambda>xs.
     Option.bind (run_of is_alnum ''/'' xs) (\<lambda>(accessKey, xs).
     Option.bind (eight_digits xs) (\<lambda>(date, xs).
     Option.bind (run_of is_name_char ''/'' xs) (\<lambda>(region, xs).
     Option.bind (run_of is_name_char ''/'' xs) (\<lambda>(module, xs).
     Option.bind (after ''aws4_request,'' xs) (\<lambda>xs.
     Option.bind (signed_part xs) (\<lambda>(headers, signature).
     Some \<lparr>am_dateTime = date, am_region = region, am_module = module, am_signedHeaders = headers,
           am_signature = signature\<rparr>)))))))"

fun match_authorization :: "string \<Rightarrow> authorization_match option" where
  "match_authorization [] = None"
| "match_authorization (c # cs) =
     (case match_here (c # cs) of Some m \<Rightarrow> Some m | None \<Rightarrow> match_authorization cs)"

text \<open>
  \<open>GetAuthorizationKeys\<close>: the first word of the field is taken without a check; a field that does not
  match gives the empty keys, also an empty signing version.
\<close>

definition authorization_keys :: "string \<Rightarrow> string \<Rightarrow> string \<Rightarrow> AuthorizationHeaderKeys result" where
  "authorization_keys authorizationHeader secretAccessKey isoDateTime =
     rbind (vec_at (StringUtils_Split authorizationHeader (CHR '' '')) 0) (\<lambda>signingVersion.
     Inr (case match_authorization authorizationHeader of
            None \<Rightarrow> no_keys
          | Some m \<Rightarrow>
              \<lparr>ak_signingVersion = signingVersion,
               ak_secretAccessKey = (if secretAccessKey = [] then ''none'' else secretAccessKey),
               ak_dateTime = am_dateTime m, ak_isoDateTime = isoDateTime,
               ak_scope = am_dateTime m @ ''/'' @ am_region m @ ''/'' @ am_module m @ ''/'' @ ''aws4_request'',
               ak_region = am_region m, ak_module = am_module m, ak_requestVersion = ''aws4_request'',
               ak_signedHeaders = am_signedHeaders m, ak_signature = am_signature m\<rparr>))"

definition AwsUtils_GetAuthorizationKeys ::
  "string \<Rightarrow> http_request \<Rightarrow> string \<Rightarrow> AuthorizationHeaderKeys result" where
  "AwsUtils_GetAuthorizationKeys now request secretAccessKey =
     authorization_keys (field_value ''Authorization'' request) secretAccessKey
       (if HttpUtils_HasHeader request ''x-amz-date'' then HttpUtils_GetHeaderValue request ''x-amz-date'' [] else now)"

section \<open>The canonical request\<close>

text \<open>A parameter without an equals sign or without a value has no second token.\<close>

fun query_map :: "string list \<Rightarrow> (string, string) smap \<Rightarrow> (string, string) smap result" where
  "query_map [] m = Inr m"
| "query_map (it # its) m =
     rbind (vec_at (StringUtils_Split it (CHR ''='')) 0) (\<lambda>name.
     rbind (vec_at (StringUtils_Split it (CHR ''='')) 1) (\<lambda>v.
     query_map its (smap_put name v m)))"

definition HttpUtils_GetQueryParameters :: "string \<Rightarrow> (string, string) smap result" where
  "HttpUtils_GetQueryParameters uri =
     (if \<not> StringUtils_Contains uri ''?'' then Inr [] else query_map (query_parameters uri) [])"

definition AwsUtils_GetCanonicalQueryParameters :: "string \<Rightarrow> string result" where
  "AwsUtils_GetCanonicalQueryParameters path =
     rbind (HttpUtils_GetQueryParameters path) (\<lambda>queryParameters.
     let s = concat (map (\<lambda>(n, v). n @ ''='' @ v @ ''&'') queryParameters) in
     Inr (if StringUtils_Contains s ''&'' then butlast s else s))"

definition StringUtils_Trim :: "string \<Rightarrow> string" where
  "StringUtils_Trim s = rev (dropWhile (\<lambda>c. c = CHR '' '') (rev (dropWhile (\<lambda>c. c = CHR '' '') s)))"

definition AwsUtils_GetCanonicalHeaders :: "http_request \<Rightarrow> AuthorizationHeaderKeys \<Rightarrow> string" where
  "AwsUtils_GetCanonicalHeaders request keys =
     concat (map (\<lambda>header.
         if HttpUtils_HasHeader request header
         then to_lower header @ '':'' @ StringUtils_Trim (HttpUtils_GetHeaderValue request header []) @ [CHR 0x0A]
         else [])
       (StringUtils_Split (ak_signedHeaders keys) (CHR '';'')))"

definition AwsUtils_GetHashedPayload :: "auth_world \<Rightarrow> string \<Rightarrow> string" where
  "AwsUtils_GetHashedPayload w payload = Crypto_HexEncode (au_sha256 w payload)"

definition AwsUtils_GetCanonicalRequest ::
  "auth_world \<Rightarrow> http_request \<Rightarrow> AuthorizationHeaderKeys \<Rightarrow> string result" where
  "AwsUtils_GetCanonicalRequest w request keys =
     rbind (AwsUtils_GetCanonicalQueryParameters (rq_target request)) (\<lambda>parameters.
     Inr (au_method_name w (rq_method request) @ [CHR 0x0A] @ au_url_encode w (rq_target request) @ [CHR 0x0A]
          @ parameters @ [CHR 0x0A] @ AwsUtils_GetCanonicalHeaders request keys @ [CHR 0x0A]
          @ ak_signedHeaders keys @ [CHR 0x0A] @ AwsUtils_GetHashedPayload w (rq_body request)))"

definition AwsUtils_GetStringToSign :: "auth_world \<Rightarrow> string \<Rightarrow> AuthorizationHeaderKeys \<Rightarrow> string" where
  "AwsUtils_GetStringToSign w canonicalRequest keys =
     ak_signingVersion keys @ [CHR 0x0A] @ ak_isoDateTime keys @ [CHR 0x0A] @ ak_scope keys @ [CHR 0x0A]
     @ Crypto_HexEncode (au_sha256 w canonicalRequest)"

definition AwsUtils_GetSignature :: "auth_world \<Rightarrow> AuthorizationHeaderKeys \<Rightarrow> string \<Rightarrow> string" where
  "AwsUtils_GetSignature w keys stringToSign =
     (let d1 = au_hmac w (''AWS4'' @ ak_secretAccessKey keys) (ak_dateTime keys);
          d2 = au_hmac w d1 (ak_region keys);
          d3 = au_hmac w d2 (ak_module keys);
          d4 = au_hmac w d3 (ak_requestVersion keys) in
      Crypto_HexEncode (au_hmac w d4 stringToSign))"

section \<open>Verifying and signing\<close>

definition request_signature :: "auth_world \<Rightarrow> http_request \<Rightarrow> AuthorizationHeaderKeys \<Rightarrow> string result" where
  "request_signature w request keys =
     rbind (AwsUtils_GetCanonicalRequest w request keys) (\<lambda>canonicalRequest.
     Inr (AwsUtils_GetSignature w keys (AwsUtils_GetStringToSign w canonicalRequest keys)))"

definition AwsUtils_VerifySignature :: "auth_world \<Rightarrow> string \<Rightarrow> http_request \<Rightarrow> string \<Rightarrow> bool result" where
  "AwsUtils_VerifySignature w now request secretAccessKey =
     rbind (AwsUtils_GetAuthorizationKeys now request secretAccessKey) (\<lambda>keys.
     rbind (request_signature w request keys) (\<lambda>signature.
     Inr (StringUtils_Equals signature (ak_signature keys))))"

text \<open>\<open>request.set(name, value)\<close>: the fields of the name are replaced by one at the end.\<close>

definition field_set :: "string \<Rightarrow> string \<Rightarrow> http_request \<Rightarrow> http_request" where
  "field_set name v request =
     request\<lparr>rq_fields := filter (\<lambda>(n, w). \<not> StringUtils_EqualsIgnoreCase n name) (rq_fields request) @ [(name, v)]\<rparr>"

text \<open>The configured values, the host name, and the three readings of the clock.\<close>

record signing =
  sg_region :: string
  sg_accessKeyId :: string
  sg_secretAccessKey :: string
  sg_host :: string
  sg_amz_date :: string
  sg_date :: string
  sg_iso_date :: string

definition signing_keys :: "signing \<Rightarrow> string \<Rightarrow> string \<Rightarrow> AuthorizationHeaderKeys" where
  "signing_keys g module signedHeaders =
     \<lparr>ak_signingVersion = ''AWS4-HMAC-SHA256'', ak_secretAccessKey = sg_secretAccessKey g,
      ak_dateTime = sg_date g, ak_isoDateTime = sg_iso_date g,
      ak_scope = sg_date g @ ''/'' @ sg_region g @ ''/'' @ module @ ''/'' @ ''aws4_request'',
      ak_region = sg_region g, ak_module = module, ak_requestVersion = ''aws4_request'',
      ak_signedHeaders = signedHeaders, ak_signature = []\<rparr>"

definition authorization_text :: "signing \<Rightarrow> string \<Rightarrow> string \<Rightarrow> string \<Rightarrow> string" where
  "authorization_text g module signedHeaders signature =
     ''AWS4-HMAC-SHA256 Credential='' @ sg_accessKeyId g @ ''/'' @ sg_date g @ ''/'' @ sg_region g @ ''/'' @ module
     @ ''/'' @ ''aws4_request'' @ '',SignedHeaders='' @ signedHeaders @ '',Signature='' @ signature"

definition with_mandatory :: "auth_world \<Rightarrow> signing \<Rightarrow> string \<Rightarrow> string \<Rightarrow> http_request \<Rightarrow> http_request" where
  "with_mandatory w g contentType payload request =
     field_set ''x-amz-security-token'' (sg_secretAccessKey g)
       (field_set ''x-amz-date'' (sg_amz_date g)
         (field_set ''x-amz-content-sha256'' (Crypto_HexEncode (au_sha256 w payload))
           (field_set ''Content-Type'' contentType (field_set ''Host'' (sg_host g) request))))"

definition AwsUtils_AddAuthorizationHeader ::
  "auth_world \<Rightarrow> signing \<Rightarrow> string \<Rightarrow> string \<Rightarrow> string \<Rightarrow> string \<Rightarrow> http_request \<Rightarrow> http_request result" where
  "AwsUtils_AddAuthorizationHeader w g module contentType signedHeaders payload request =
     (let request1 = with_mandatory w g contentType payload request in
      rbind (request_signature w request1 (signing_keys g module signedHeaders)) (\<lambda>signature.
      Inr (field_set ''Authorization'' (authorization_text g module signedHeaders signature) request1)))"

end
