(* ===== verification/SNSHandler.thy ===== *)
theory SNSHandler
  imports SNSService SQSHandler
begin

text \<open>
  \<open>service/src/sns/SNSHandler.cpp\<close>: the POST requests of the SNS clients.  Whatever the content type,
  the arguments are read from the body as form parameters; there is no \<open>try\<close>, so that every
  exception leaves the handler.  The bodies are the response objects, which are printed in XML.
\<close>

datatype sns_body =
    SnsText string
  | CreateTopicBody CreateTopicResponse
  | ListTopicsBody "Topic list"
  | TopicAttributesBody GetTopicAttributesResponse
  | PublishBody string
  | SubscribeBody string
  | UnsubscribeBody string
  | SubscriptionsBody "DtoSubscription list"
  | TagResourceBody
  | DeleteTopicBody

text \<open>What one request draws: the id of a new row, a new subscription, the clock, and the draws of a publish.\<close>

record sns_draws =
  nr_requestId :: string
  nr_now :: int
  nr_oid :: string
  nr_uuid :: string
  nr_publish :: publish_draws

type_synonym sns_result = "(sns_body http_response, messaging) outcome"

definition on_sns :: "(sns_db \<Rightarrow> ('a, sns_db) outcome) \<Rightarrow> messaging \<Rightarrow> ('a, messaging) outcome" where
  "on_sns f st = (case f (mg_sns st) of (x, db) \<Rightarrow> (x, st\<lparr>mg_sns := db\<rparr>))"

text \<open>Read the arguments, call the service, answer with its response.\<close>

definition sns_serve ::
  "'r result \<Rightarrow> ('r \<Rightarrow> messaging \<Rightarrow> ('a, messaging) outcome) \<Rightarrow> ('a \<Rightarrow> sns_body) \<Rightarrow> messaging \<Rightarrow> sns_result" where
  "sns_serve r f body st =
     (case r of
        Inl e \<Rightarrow> (Inl e, st)
      | Inr request \<Rightarrow> andthen (f request st) (\<lambda>x st'. (Inr (SendOkResponse (body x) []), st')))"

definition sns_value :: "externals \<Rightarrow> SNSClientCommand \<Rightarrow> string \<Rightarrow> string result" where
  "sns_value ext c name = HttpUtils_GetQueryParameterValueByName ext (bc_payload c) name"

definition publish_request :: "externals \<Rightarrow> SNSClientCommand \<Rightarrow> PublishRequest result" where
  "publish_request ext c =
     rbind (sns_value ext c ''TopicArn'') (\<lambda>topicArn.
     rbind (sns_value ext c ''TargetArn'') (\<lambda>targetArn.
     rbind (sns_value ext c ''Message'') (\<lambda>message.
     Inr \<lparr>pbr_region = bc_region c, pbr_topicArn = topicArn, pbr_targetArn = targetArn, pbr_message = message\<rparr>)))"

definition subscribe_request :: "externals \<Rightarrow> SNSClientCommand \<Rightarrow> SubscribeRequest result" where
  "subscribe_request ext c =
     rbind (sns_value ext c ''TopicArn'') (\<lambda>topicArn.
     rbind (sns_value ext c ''Protocol'') (\<lambda>protocol.
     rbind (sns_value ext c ''Endpoint'') (\<lambda>endpoint.
     Inr \<lparr>sbr_region = bc_region c, sbr_topicArn = topicArn, sbr_protocol = protocol, sbr_endpoint = endpoint,
          sbr_owner = bc_user c\<rparr>)))"

definition resource_tags :: "externals \<Rightarrow> SNSClientCommand \<Rightarrow> (string \<times> (string, string) smap) result" where
  "resource_tags ext c =
     rbind (sns_value ext c ''ResourceArn'') (\<lambda>resourceArn.
     rbind (numbered (\<lambda>i tags.
              rbind (sns_value ext c (''Tags.member.'' @ i @ ''.Key'')) (\<lambda>key.
              rbind (sns_value ext c (''Tags.member.'' @ i @ ''.Value'')) (\<lambda>v.
              Inr (smap_put key v tags))))
            [1 .. HttpUtils_CountQueryParametersByPrefix (bc_payload c) ''Tags.member'' div 2] []) (\<lambda>tags.
     Inr (resourceArn, tags)))"

definition sns_dispatch ::
  "config \<Rightarrow> externals \<Rightarrow> sns_draws \<Rightarrow> SNSClientCommand \<Rightarrow> messaging \<Rightarrow> sns_result" where
  "sns_dispatch cfg ext d c =
     (case snc_command c of
        CREATE_TOPIC \<Rightarrow>
          sns_serve (sns_value ext c ''Name'')
            (\<lambda>name. on_sns (SNSService_CreateTopic cfg (nr_now d) (nr_oid d)
               \<lparr>ctr_region = bc_region c, ctr_topicName = name, ctr_owner = bc_user c\<rparr>)) CreateTopicBody
      | LIST_TOPICS \<Rightarrow>
          sns_serve (Inr ()) (\<lambda>_ st. (Inr (SNSService_ListTopics (bc_region c) (mg_sns st)), st)) ListTopicsBody
      | GET_TOPIC_ATTRIBUTES \<Rightarrow>
          sns_serve (sns_value ext c ''TopicArn'')
            (\<lambda>arn. on_sns (SNSService_GetTopicAttributes (nr_now d) arn)) TopicAttributesBody
      | PUBLISH \<Rightarrow>
          sns_serve (publish_request ext c) (SNSService_Publish ext (nr_publish d)) PublishBody
      | SUBSCRIBE \<Rightarrow>
          sns_serve (subscribe_request ext c)
            (\<lambda>r. on_sns (SNSService_Subscribe cfg (nr_now d) (nr_uuid d) r)) SubscribeBody
      | UNSUBSCRIBE \<Rightarrow>
          sns_serve (sns_value ext c ''SubscriptionArn'') (\<lambda>arn. on_sns (SNSService_Unsubscribe arn)) UnsubscribeBody
      | LIST_SUBSCRIPTIONS_BY_TOPIC \<Rightarrow>
          sns_serve (sns_value ext c ''TopicArn'')
            (\<lambda>arn. on_sns (SNSService_ListSubscriptionsByTopic (nr_now d) arn)) SubscriptionsBody
      | TAG_RESOURCE \<Rightarrow>
          sns_serve (resource_tags ext c)
            (\<lambda>(arn, tags). on_sns (SNSService_TagResource (nr_now d) arn tags)) (\<lambda>_. TagResourceBody)
      | DELETE_TOPIC \<Rightarrow>
          sns_serve (sns_value ext c ''TopicArn'')
            (\<lambda>arn. on_sns (SNSService_DeleteTopic (bc_region c) arn)) (\<lambda>_. DeleteTopicBody)
      | SNS_UNKNOWN \<Rightarrow> (\<lambda>st. (Inr (SendBadRequestError (SnsText ''Unknown method'') []), st)))"

definition SNSHandler_HandlePostRequest ::
  "config \<Rightarrow> externals \<Rightarrow> sns_draws \<Rightarrow> http_request \<Rightarrow> string \<Rightarrow> string \<Rightarrow> messaging \<Rightarrow> sns_result" where
  "SNSHandler_HandlePostRequest cfg ext d request region user st =
     (case SNSClientCommand_FromRequest ext (nr_requestId d) request region user of
        Inl e \<Rightarrow> (Inl e, st)
      | Inr c \<Rightarrow> sns_dispatch cfg ext d c st)"

end
