(* ===== verification/Gateway.thy ===== *)
theory Gateway
  imports Signature SNSHandler S3Handler SecretsManager KMSService
begin

text \<open>
  \<open>service/src/gateway/GatewaySession.cpp\<close>: the one entrance of all services.  A request is checked,
  its signature verified when that is configured, the service and the region are read from the
  credential of the field \<open>Authorization\<close>, and the handler of the service answers.  The state is
  that of all services; SQS, SNS and the key store are those that the S3 service uses.  The handlers
  of the services without a model (Lambda, Transfer, Cognito, DynamoDB) are parameters.
\<close>

datatype gateway_body =
    NoBody
  | GatewayText string
  | S3Body s3_body
  | SqsBody sqs_body
  | SnsBody sns_body
  | SecretsBody secrets_body
  | KmsBody kms_body
  | OtherBody string

record ('fs, 'r) gateway_state =
  gw_front :: "'fs s3_front"
  gw_secrets :: secrets_db
  gw_started :: "string list"
  gw_copies :: "Key list"
  gw_rest :: 'r

type_synonym ('fs, 'r) gateway_result = "(gateway_body http_response, ('fs, 'r) gateway_state) outcome"

text \<open>What one request draws, in each of the services.\<close>

record gateway_draws =
  gd_now :: string
  gd_s3 :: s3_request_world
  gd_range :: "int \<times> int"
  gd_sqs :: sqs_draws
  gd_sns :: sns_draws
  gd_secrets :: secrets_request_world
  gd_kms :: kms_draws

record ('fs, 'r) gateway_world =
  gc_verify :: bool
  gc_auth :: auth_world
  gc_s3 :: "'fs s3_world"
  gc_secrets :: secrets_world
  gc_kms :: kms_world
  gc_others :: "string \<Rightarrow> (http_request \<Rightarrow> string \<Rightarrow> 'r \<Rightarrow> (string http_response, 'r) outcome) option"

definition gateway_cfg :: "('fs, 'r) gateway_world \<Rightarrow> config" where
  "gateway_cfg w = w_cfg (gc_s3 w)"

definition gateway_ext :: "('fs, 'r) gateway_world \<Rightarrow> externals" where
  "gateway_ext w = w_ext (gc_s3 w)"

section \<open>One service of the state\<close>

definition body_map :: "('a \<Rightarrow> 'b) \<Rightarrow> 'a http_response \<Rightarrow> 'b http_response" where
  "body_map f r = \<lparr>rs_status = rs_status r, rs_headers = rs_headers r, rs_body = f (rs_body r)\<rparr>"

text \<open>Run a handler on a part of the state.\<close>

definition at_part ::
  "('s \<Rightarrow> 'p) \<Rightarrow> ('p \<Rightarrow> 's \<Rightarrow> 's) \<Rightarrow> ('a \<Rightarrow> 'b) \<Rightarrow> ('p \<Rightarrow> ('a http_response, 'p) outcome) \<Rightarrow> 's \<Rightarrow> ('b http_response, 's) outcome" where
  "at_part get put f h st =
     (case h (get st) of
        (Inl e, p) \<Rightarrow> (Inl e, put p st)
      | (Inr r, p) \<Rightarrow> (Inr (body_map f r), put p st))"

definition gw_msg :: "('fs, 'r) gateway_state \<Rightarrow> messaging" where
  "gw_msg st = ss_msg (sf_state (gw_front st))"

definition put_msg :: "messaging \<Rightarrow> ('fs, 'r) gateway_state \<Rightarrow> ('fs, 'r) gateway_state" where
  "put_msg m st = st\<lparr>gw_front := (gw_front st)\<lparr>sf_state := (sf_state (gw_front st))\<lparr>ss_msg := m\<rparr>\<rparr>\<rparr>"

definition gw_kms :: "('fs, 'r) gateway_state \<Rightarrow> kms_state" where
  "gw_kms st = \<lparr>km_db = ss_kms (sf_state (gw_front st)), km_started = gw_started st, km_copies = gw_copies st\<rparr>"

definition put_kms :: "kms_state \<Rightarrow> ('fs, 'r) gateway_state \<Rightarrow> ('fs, 'r) gateway_state" where
  "put_kms k st =
     st\<lparr>gw_front := (gw_front st)\<lparr>sf_state := (sf_state (gw_front st))\<lparr>ss_kms := km_db k\<rparr>\<rparr>,
        gw_started := km_started k, gw_copies := km_copies k\<rparr>"

definition put_sqs :: "sqs_db \<Rightarrow> ('fs, 'r) gateway_state \<Rightarrow> ('fs, 'r) gateway_state" where
  "put_sqs db st = put_msg ((gw_msg st)\<lparr>mg_sqs := db\<rparr>) st"

section \<open>The routing table\<close>

datatype gateway_module = ModuleS3 | ModuleSqs | ModuleSns | ModuleSecrets | ModuleKms | ModuleOther string

definition routing_table :: "(string \<times> gateway_module) list" where
  "routing_table =
     [(''s3'', ModuleS3), (''s3api'', ModuleS3), (''sqs'', ModuleSqs), (''sns'', ModuleSns),
      (''lambda'', ModuleOther ''lambda''), (''transfer'', ModuleOther ''transfer''),
      (''cognito-idp'', ModuleOther ''cognito-idp''), (''cognito-identity'', ModuleOther ''cognito-identity''),
      (''secretsmanager'', ModuleSecrets), (''kms'', ModuleKms), (''dynamodb'', ModuleOther ''dynamodb'')]"

text \<open>The methods that a handler does not override answer with a default constructed response.\<close>

definition empty_response :: "gateway_body http_response" where
  "empty_response = \<lparr>rs_status = 200, rs_headers = [], rs_body = NoBody\<rparr>"

definition only_post ::
  "http_verb \<Rightarrow> (('fs, 'r) gateway_state \<Rightarrow> ('fs, 'r) gateway_result) \<Rightarrow> ('fs, 'r) gateway_state \<Rightarrow> ('fs, 'r) gateway_result" where
  "only_post verb h st = (if verb = HttpPost then h st else (Inr empty_response, st))"

definition handle_s3 ::
  "('fs, 'r) gateway_world \<Rightarrow> gateway_draws \<Rightarrow> http_request \<Rightarrow> string \<Rightarrow> ('fs, 'r) gateway_state \<Rightarrow> ('fs, 'r) gateway_result" where
  "handle_s3 w d request region =
     (let run = at_part gw_front (\<lambda>f st. st\<lparr>gw_front := f\<rparr>) S3Body in
      case rq_method request of
        HttpGet \<Rightarrow> run (S3Handler_HandleGetRequest (gc_s3 w) (gd_s3 d) request region ''none'')
      | HttpPut \<Rightarrow> run (S3Handler_HandlePutRequest (gc_s3 w) (gd_s3 d) (gd_range d) request region ''none'')
      | HttpPost \<Rightarrow> run (S3Handler_HandlePostRequest (gc_s3 w) (gd_s3 d) request region ''none'')
      | HttpDelete \<Rightarrow> run (S3Handler_HandleDeleteRequest (gc_s3 w) (gd_s3 d) request region ''none'')
      | HttpHead \<Rightarrow> run (S3Handler_HandleHeadRequest (gc_s3 w) (gd_s3 d) request region ''none'')
      | HttpOther \<Rightarrow> (\<lambda>st. (Inr (HttpUtils_NotImplemented (GatewayText ''Not yet implemented'')), st)))"

text \<open>\<open>None\<close>: a long poll of SQS that the given number of turns does not end.\<close>

definition handle_module ::
  "('fs, 'r) gateway_world \<Rightarrow> gateway_draws \<Rightarrow> gateway_module \<Rightarrow> http_request \<Rightarrow> string \<Rightarrow> ('fs, 'r) gateway_state \<Rightarrow>
   ('fs, 'r) gateway_result option" where
  "handle_module w d m request region st =
     (let cfg = gateway_cfg w; ext = gateway_ext w; verb = rq_method request in
      case m of
        ModuleS3 \<Rightarrow> Some (handle_s3 w d request region st)
      | ModuleSqs \<Rightarrow>
          (if verb = HttpPost
           then map_option (\<lambda>r. at_part (\<lambda>st. mg_sqs (gw_msg st)) put_sqs SqsBody (\<lambda>_. r) st)
                  (SQSHandler_HandlePostRequest cfg ext (gd_sqs d) request region ''none'' (mg_sqs (gw_msg st)))
           else Some (Inr empty_response, st))
      | ModuleSns \<Rightarrow>
          Some (only_post verb (at_part gw_msg put_msg SnsBody
            (SNSHandler_HandlePostRequest cfg ext (gd_sns d) request region ''none'')) st)
      | ModuleSecrets \<Rightarrow>
          Some (only_post verb (at_part gw_secrets (\<lambda>db st. st\<lparr>gw_secrets := db\<rparr>) SecretsBody
            (SecretsManagerHandler_HandlePostRequest (gc_secrets w) (gd_secrets d) request region ''none'')) st)
      | ModuleKms \<Rightarrow>
          Some (only_post verb (at_part gw_kms put_kms KmsBody
            (KMSHandler_HandlePostRequest (gc_kms w) (gd_kms d) request region ''none'')) st)
      | ModuleOther name \<Rightarrow>
          Some (case gc_others w name of
                  None \<Rightarrow> (Inr empty_response, st)
                | Some h \<Rightarrow> at_part gw_rest (\<lambda>r st. st\<lparr>gw_rest := r\<rparr>) OtherBody (h request region) st))"

section \<open>The request\<close>

definition GatewaySession_GetAuthorizationKeys :: "string \<Rightarrow> string \<Rightarrow> AuthorizationHeaderKeys result" where
  "GatewaySession_GetAuthorizationKeys authorizationHeader secretAccessKey =
     authorization_keys authorizationHeader secretAccessKey []"

definition legal_target :: "string \<Rightarrow> bool" where
  "legal_target target \<longleftrightarrow> target \<noteq> [] \<and> hd target = CHR ''/'' \<and> \<not> StringUtils_Contains target ''..''"

definition route ::
  "('fs, 'r) gateway_world \<Rightarrow> gateway_draws \<Rightarrow> http_request \<Rightarrow> ('fs, 'r) gateway_state \<Rightarrow> ('fs, 'r) gateway_result option" where
  "route w d request st =
     (case GatewaySession_GetAuthorizationKeys (field_value ''Authorization'' request) [] of
        Inl e \<Rightarrow> Some (Inl e, st)
      | Inr authKey \<Rightarrow>
          (case map_of routing_table (ak_module authKey) of
             None \<Rightarrow> Some (Inr (HttpUtils_NotImplemented (GatewayText ''Not yet implemented'')), st)
           | Some m \<Rightarrow> handle_module w d m request (ak_region authKey) st))"

definition GatewaySession_HandleRequest ::
  "('fs, 'r) gateway_world \<Rightarrow> gateway_draws \<Rightarrow> http_request \<Rightarrow> ('fs, 'r) gateway_state \<Rightarrow> ('fs, 'r) gateway_result option" where
  "GatewaySession_HandleRequest w d request st =
     (if rq_method request = HttpOther \<or> \<not> legal_target (rq_target request)
      then Some (Inr (HttpUtils_BadRequest (GatewayText ''Unknown HTTP-method'')), st)
      else if gc_verify w
      then (case AwsUtils_VerifySignature (gc_auth w) (gd_now d) request ''none'' of
              Inl e \<Rightarrow> Some (Inl e, st)
            | Inr verified \<Rightarrow>
                if verified then route w d request st
                else Some (Inr (HttpUtils_Unauthorized (GatewayText ''AWS signature could not be verified'')), st))
      else route w d request st)"

end
