(* ===== verification/SignatureFacts.thy ===== *)
theory SignatureFacts
  imports Signature HttpFacts
begin

text \<open>
  Facts on the signature: the text that signing writes is read back by the pattern, setting a field
  leaves the other fields alone, and the canonical request of a signed request is the one that was
  signed.
\<close>

section \<open>Fields\<close>

lemma field_set_simps [simp]:
  "rq_method (field_set name v request) = rq_method request"
  "rq_target (field_set name v request) = rq_target request"
  "rq_body (field_set name v request) = rq_body request"
  by (simp_all add: field_set_def)

lemma find_append: "List.find P (xs @ ys) = (case List.find P xs of None \<Rightarrow> List.find P ys | Some x \<Rightarrow> Some x)"
  by (induction xs) simp_all

lemma find_filter_implies: "(\<And>x. P x \<Longrightarrow> Q x) \<Longrightarrow> List.find P (filter Q xs) = List.find P xs"
  by (induction xs) auto

lemma field_find_set:
  "field_find h (field_set name v request) =
     (if StringUtils_EqualsIgnoreCase name h then Some v else field_find h request)"
proof (cases "StringUtils_EqualsIgnoreCase name h")
  case True
  then have "List.find (\<lambda>(n, w). StringUtils_EqualsIgnoreCase n h)
      (filter (\<lambda>(n, w). \<not> StringUtils_EqualsIgnoreCase n name) (rq_fields request)) = None"
    by (auto simp: find_None_filter filter_empty_conv StringUtils_EqualsIgnoreCase_def)
  with True show ?thesis by (simp add: field_find_def field_set_def find_append)
next
  case False
  then have "List.find (\<lambda>(n, w). StringUtils_EqualsIgnoreCase n h)
      (filter (\<lambda>(n, w). \<not> StringUtils_EqualsIgnoreCase n name) (rq_fields request)) =
     List.find (\<lambda>(n, w). StringUtils_EqualsIgnoreCase n h) (rq_fields request)"
    by (intro find_filter_implies) (auto simp: StringUtils_EqualsIgnoreCase_def)
  with False show ?thesis by (simp add: field_find_def field_set_def find_append split: option.split)
qed

lemma canonical_headers_other:
  assumes "\<And>h. h \<in> set (StringUtils_Split (ak_signedHeaders keys) (CHR '';'')) \<Longrightarrow> \<not> StringUtils_EqualsIgnoreCase name h"
  shows "AwsUtils_GetCanonicalHeaders (field_set name v request) keys = AwsUtils_GetCanonicalHeaders request keys"
  using assms unfolding AwsUtils_GetCanonicalHeaders_def
  by (intro arg_cong [where f = concat] map_cong refl)
     (simp add: HttpUtils_HasHeader_def HttpUtils_GetHeaderValue_def field_value_def field_find_set)

text \<open>A signature depends on the request only by its method, target, body and signed fields, on the keys
  not by the signature they carry.\<close>

lemma request_signature_other:
  assumes "\<And>h. h \<in> set (StringUtils_Split (ak_signedHeaders keys) (CHR '';'')) \<Longrightarrow> \<not> StringUtils_EqualsIgnoreCase name h"
  shows "request_signature w (field_set name v request) keys = request_signature w request keys"
  using canonical_headers_other [OF assms]
  by (simp add: request_signature_def AwsUtils_GetCanonicalRequest_def)

lemma request_signature_keys: "request_signature w request (keys\<lparr>ak_signature := s\<rparr>) = request_signature w request keys"
  by (simp add: request_signature_def AwsUtils_GetCanonicalRequest_def AwsUtils_GetCanonicalHeaders_def
      AwsUtils_GetStringToSign_def AwsUtils_GetSignature_def)

section \<open>The pattern\<close>

lemma after_same [simp]: "after p (p @ xs) = Some xs"
  by (simp add: after_def starts_with_def)

lemma after_other_head: "p \<noteq> [] \<Longrightarrow> hd p \<noteq> c \<Longrightarrow> after p (c # xs) = None"
  by (cases p) (simp_all add: after_def starts_with_def)

lemma run_of_exact:
  assumes "r \<noteq> []" "list_all is_class r" "stop = c # cs" "\<not> is_class c"
  shows "run_of is_class stop (r @ stop @ xs) = Some (r, xs)"
proof -
  have "takeWhile is_class (r @ stop @ xs) = r" "dropWhile is_class (r @ stop @ xs) = stop @ xs"
    using assms by (simp_all add: takeWhile_append dropWhile_append list_all_iff takeWhile_eq_all_conv)
  with assms(1) show ?thesis by (simp add: run_of_def Let_def)
qed

lemma last_signature_plain: "CHR '','' \<notin> set s \<Longrightarrow> last_signature s = None"
  by (induction s) (simp_all add: after_other_head)

lemma last_signature_append: "last_signature cs = Some (h, s) \<Longrightarrow> last_signature (x @ cs) = Some (x @ h, s)"
  by (induction x) simp_all

lemma last_signature_mark: "CHR '','' \<notin> set s \<Longrightarrow> last_signature ('',Signature='' @ s) = Some ([], s)"
  using last_signature_plain [of "''Signature='' @ s"] after_same [of "'',Signature=''" s] by simp

lemma signed_part_exact:
  assumes "CHR '','' \<notin> set s"
  shows "signed_part (''SignedHeaders='' @ h @ '',Signature='' @ s) = Some (h, s)"
  unfolding signed_part_def after_same option.case
  by (rule last_signature_append [OF last_signature_mark [OF assms], of h, unfolded append_Nil2])

lemma eight_digits_exact:
  "length d = 8 \<Longrightarrow> list_all is_digit d \<Longrightarrow> eight_digits (d @ ''/'' @ xs) = Some (d, xs)"
  using after_same [of "''/''" xs] by (simp add: eight_digits_def Let_def)

lemma match_here_exact:
  assumes "accessKey \<noteq> []" "list_all is_alnum accessKey" "length date = 8" "list_all is_digit date"
    and "region \<noteq> []" "list_all is_name_char region" "module \<noteq> []" "list_all is_name_char module"
    and "CHR '','' \<notin> set signature"
  shows "match_here (''Credential='' @ accessKey @ ''/'' @ date @ ''/'' @ region @ ''/'' @ module @ ''/'' @ ''aws4_request,'' @
      ''SignedHeaders='' @ headers @ '',Signature='' @ signature) =
    Some \<lparr>am_dateTime = date, am_region = region, am_module = module, am_signedHeaders = headers, am_signature = signature\<rparr>"
proof -
  have slash: "\<not> is_alnum (CHR ''/'')" "\<not> is_name_char (CHR ''/'')"
    by (simp_all add: is_name_char_def is_alnum_def is_digit_def less_eq_char_def)
  show ?thesis
    unfolding match_here_def after_same Option.bind.simps run_of_exact [OF assms(1,2) refl slash(1)] prod.case
      eight_digits_exact [OF assms(3,4)] run_of_exact [OF assms(5,6) refl slash(2)]
      run_of_exact [OF assms(7,8) refl slash(2)] signed_part_exact [OF assms(9)] ..
qed

lemma match_authorization_scheme:
  "match_authorization (''AWS4-HMAC-SHA256 '' @ xs) = match_authorization xs"
  by (simp add: match_here_def after_def starts_with_def)

lemma match_authorization_here: "match_here xs = Some m \<Longrightarrow> match_authorization xs = Some m"
  by (cases xs) (simp_all add: match_here_def after_def starts_with_def)

lemma hex_char_no_comma: "d < 16 \<Longrightarrow> hex_char d \<noteq> CHR '',''"
proof
  assume d: "d < 16" "hex_char d = CHR '',''"
  then have "of_char (hex_char d) = (44 :: nat)" by simp
  with d(1) show False by (simp add: hex_char_def split: if_splits)
qed

lemma HexEncode_no_comma: "CHR '','' \<notin> set (Crypto_HexEncode h)"
proof
  assume "CHR '','' \<in> set (Crypto_HexEncode h)"
  then obtain x where "CHR '','' \<in> set (hex_byte x)" by (auto simp: Crypto_HexEncode_def)
  then have "hex_char (of_char x div 16) = CHR '','' \<or> hex_char (of_char x mod 16) = CHR '',''"
    by (auto simp: hex_byte_def Let_def)
  moreover have "of_char x div 16 < (16 :: nat)"
    using of_char_mod_256 [of x, where 'a = nat] mod_less_divisor [of "256 :: nat" "of_char x"] by linarith
  ultimately show False using hex_char_no_comma [of "of_char x div 16"] hex_char_no_comma [of "of_char x mod 16"] by auto
qed

section \<open>Reading a signed request\<close>

text \<open>The configured values that the pattern can read back.\<close>

definition signing_ok :: "signing \<Rightarrow> string \<Rightarrow> bool" where
  "signing_ok g module \<longleftrightarrow>
     sg_accessKeyId g \<noteq> [] \<and> list_all is_alnum (sg_accessKeyId g) \<and>
     length (sg_date g) = 8 \<and> list_all is_digit (sg_date g) \<and>
     sg_region g \<noteq> [] \<and> list_all is_name_char (sg_region g) \<and> module \<noteq> [] \<and> list_all is_name_char module"

lemma match_authorization_text:
  assumes "signing_ok g module" "CHR '','' \<notin> set signature"
  shows "match_authorization (authorization_text g module headers signature) =
    Some \<lparr>am_dateTime = sg_date g, am_region = sg_region g, am_module = module, am_signedHeaders = headers,
          am_signature = signature\<rparr>"
proof -
  have "authorization_text g module headers signature =
      ''AWS4-HMAC-SHA256 '' @ (''Credential='' @ sg_accessKeyId g @ ''/'' @ sg_date g @ ''/'' @ sg_region g @ ''/'' @ module
        @ ''/'' @ ''aws4_request,'' @ ''SignedHeaders='' @ headers @ '',Signature='' @ signature)"
    by (simp add: authorization_text_def)
  moreover have "match_authorization (''Credential='' @ sg_accessKeyId g @ ''/'' @ sg_date g @ ''/'' @ sg_region g @ ''/'' @ module
        @ ''/'' @ ''aws4_request,'' @ ''SignedHeaders='' @ headers @ '',Signature='' @ signature) =
      Some \<lparr>am_dateTime = sg_date g, am_region = sg_region g, am_module = module, am_signedHeaders = headers,
            am_signature = signature\<rparr>"
    by (rule match_authorization_here, rule match_here_exact) (use assms in \<open>simp_all only: signing_ok_def not_False_eq_True\<close>)
  ultimately show ?thesis by (simp only: match_authorization_scheme)
qed

lemma authorization_scheme:
  "vec_at (StringUtils_Split (authorization_text g module headers signature) (CHR '' '')) 0 = Inr ''AWS4-HMAC-SHA256''"
proof -
  have "authorization_text g module headers signature =
      ''AWS4-HMAC-SHA256'' @ CHR '' '' # (''Credential='' @ sg_accessKeyId g @ ''/'' @ sg_date g @ ''/'' @ sg_region g @ ''/'' @ module
        @ ''/'' @ ''aws4_request,'' @ ''SignedHeaders='' @ headers @ '',Signature='' @ signature)"
    by (simp add: authorization_text_def)
  then show ?thesis using Split_append_delim [of "CHR '' ''" "''AWS4-HMAC-SHA256''"] by (simp del: append_Cons append.simps)
qed

lemma authorization_keys_text:
  assumes "signing_ok g module" "CHR '','' \<notin> set signature"
  shows "authorization_keys (authorization_text g module headers signature) secret isoDateTime =
    Inr ((signing_keys g module headers)\<lparr>ak_secretAccessKey := (if secret = [] then ''none'' else secret),
           ak_isoDateTime := isoDateTime, ak_signature := signature\<rparr>)"
  by (simp add: authorization_keys_def authorization_scheme match_authorization_text [OF assms] signing_keys_def)

end
