(* ===== verification/GatewayProperties.thy ===== *)
theory GatewayProperties
  imports Gateway SignatureFacts S3HttpInvariant SecretsProperties KMSProperties SNSProperties SQSHandlerProperties
begin

text \<open>
  The gateway: which requests are rejected, which end in undefined behaviour, that a signed request
  reaches the handler of its service, and that no sequence of requests breaks the invariants of the
  services behind it.
\<close>

section \<open>An example\<close>

definition demo_auth :: auth_world where
  "demo_auth = \<lparr>au_url_encode = (\<lambda>s. s), au_sha256 = (\<lambda>s. ''0''), au_hmac = (\<lambda>k s. replicate 32 (CHR ''h'')),
     au_method_name = (\<lambda>v. ''GET'')\<rparr>"

definition demo_gateway :: "bool \<Rightarrow> (demo_files, unit) gateway_world" where
  "demo_gateway verify = \<lparr>gc_verify = verify, gc_auth = demo_auth, gc_s3 = demo_world, gc_secrets = demo_create_world,
     gc_kms = demo_kms_world, gc_others = (\<lambda>_. None)\<rparr>"

definition demo_gateway_draws :: gateway_draws where
  "demo_gateway_draws = \<lparr>gd_now = ''t'', gd_s3 = demo_s3_request_world, gd_range = (0, 0), gd_sqs = demo_sqs_draws,
     gd_sns = \<lparr>nr_requestId = [], nr_now = 5, nr_oid = ''o'', nr_uuid = ''u'', nr_publish = demo_publish_draws\<rparr>,
     gd_secrets = demo_secrets_request HttpPost ''x1'', gd_kms = demo_kms_draws\<rparr>"

definition demo_gateway_state :: "(demo_files, unit) gateway_state" where
  "demo_gateway_state = \<lparr>gw_front = demo_idle, gw_secrets = demo_secrets, gw_started = [], gw_copies = [], gw_rest = ()\<rparr>"

definition demo_signing :: signing where
  "demo_signing = \<lparr>sg_region = ''eu-1'', sg_accessKeyId = ''none'', sg_secretAccessKey = ''none'', sg_host = ''h'',
     sg_amz_date = ''20250101T000000Z'', sg_date = ''20250101'', sg_iso_date = ''20250101T000000Z''\<rparr>"

definition demo_request :: "string \<Rightarrow> http_request" where
  "demo_request target = \<lparr>rq_method = HttpGet, rq_target = target, rq_fields = [], rq_body = []\<rparr>"

definition demo_signed :: http_request where
  "demo_signed = projr (AwsUtils_AddAuthorizationHeader demo_auth demo_signing ''s3'' ''text'' ''host;x-amz-date'' [] (demo_request ''/b''))"

section \<open>Signed requests\<close>

lemma header_names:
  "StringUtils_EqualsIgnoreCase ''x-amz-security-token'' ''x-amz-date'' = False"
  "StringUtils_EqualsIgnoreCase ''Authorization'' ''x-amz-date'' = False"
  "StringUtils_EqualsIgnoreCase n n = True"
  by (code_simp, code_simp, simp add: StringUtils_EqualsIgnoreCase_def)

lemma signed_request_signature:
  assumes sign: "AwsUtils_AddAuthorizationHeader w g module contentType headers payload request = Inr signed"
    and ok: "signing_ok g module"
    and secret: "sg_secretAccessKey g = ''none''"
    and hmac: "\<forall>key msg. length (au_hmac w key msg) = 32"
    and own: "\<forall>h \<in> set (StringUtils_Split headers (CHR '';'')). \<not> StringUtils_EqualsIgnoreCase ''Authorization'' h"
    and clock: "sg_iso_date g = sg_amz_date g"
  obtains keys where "ak_signature keys \<noteq> []"
    "AwsUtils_GetAuthorizationKeys now signed ''none'' = Inr keys" "request_signature w signed keys = Inr (ak_signature keys)"
    "GatewaySession_GetAuthorizationKeys (field_value ''Authorization'' signed) [] = Inr (keys\<lparr>ak_isoDateTime := []\<rparr>)"
    "ak_module keys = module" "ak_region keys = sg_region g"
proof -
  define request1 where "request1 = with_mandatory w g contentType payload request"
  from sign obtain s where s: "request_signature w request1 (signing_keys g module headers) = Inr s"
    and signed: "signed = field_set ''Authorization'' (authorization_text g module headers s) request1"
    by (auto simp: AwsUtils_AddAuthorizationHeader_def Let_def request1_def rbind_Inr_iff)
  obtain key msg where hex: "s = Crypto_HexEncode (au_hmac w key msg)"
    using s by (auto simp: request_signature_def rbind_Inr_iff AwsUtils_GetSignature_def Let_def)
  then have "CHR '','' \<notin> set s" by (simp add: HexEncode_no_comma)
  note keys = authorization_keys_text [OF ok this]
  have "length s = 64" by (simp add: hex length_HexEncode hmac)
  then have "s \<noteq> []" by auto
  define ks where "ks = (signing_keys g module headers)\<lparr>ak_signature := s\<rparr>"
  have find: "field_find ''Authorization'' signed = Some (authorization_text g module headers s)"
    "field_find ''x-amz-date'' signed = Some (sg_amz_date g)"
    by (simp_all add: signed request1_def with_mandatory_def field_find_set header_names)
  have same: "(signing_keys g module headers)\<lparr>ak_secretAccessKey := ''none'', ak_isoDateTime := sg_amz_date g, ak_signature := s\<rparr> = ks"
    using secret clock by (simp add: ks_def signing_keys_def)
  have "ak_signature ks \<noteq> []" using \<open>s \<noteq> []\<close> by (simp add: ks_def)
  moreover have "AwsUtils_GetAuthorizationKeys now signed ''none'' = Inr ks"
    using same by (simp add: AwsUtils_GetAuthorizationKeys_def field_value_def find HttpUtils_HasHeader_def
        HttpUtils_GetHeaderValue_def keys)
  moreover have "request_signature w signed ks = Inr (ak_signature ks)"
  proof -
    have "request_signature w signed ks = request_signature w request1 (signing_keys g module headers)"
      unfolding signed ks_def request_signature_keys
      by (rule request_signature_other) (use own in \<open>simp add: signing_keys_def\<close>)
    then show ?thesis by (simp add: s ks_def)
  qed
  moreover have "GatewaySession_GetAuthorizationKeys (field_value ''Authorization'' signed) [] = Inr (ks\<lparr>ak_isoDateTime := []\<rparr>)"
    using secret by (simp add: GatewaySession_GetAuthorizationKeys_def field_value_def find keys ks_def signing_keys_def)
  ultimately show thesis by (rule that) (simp_all add: ks_def signing_keys_def)
qed

text \<open>C7: C0: a request that was signed with the secret \<open>none\<close> (its access key letters and digits, its date eight
  digits, region and service made of letters, digits and dashes, the signed fields not listing the
  authorization itself, the clock giving the same second twice) passes the verification whenever it
  is received, and the handler of the named service answers it for the region of the signer.
\<close>
theorem signed_request_reaches_service:
  assumes "AwsUtils_AddAuthorizationHeader (gc_auth w) g module contentType headers payload request = Inr signed"
    and "signing_ok g module" "sg_secretAccessKey g = ''none''" "sg_iso_date g = sg_amz_date g"
    and "\<forall>h \<in> set (StringUtils_Split headers (CHR '';'')). \<not> StringUtils_EqualsIgnoreCase ''Authorization'' h"
    and "\<forall>key msg. length (au_hmac (gc_auth w) key msg) = 32"
    and legal: "rq_method request \<noteq> HttpOther" "legal_target (rq_target request)"
  shows "GatewaySession_HandleRequest w d signed st =
    (case map_of routing_table module of
       None \<Rightarrow> Some (Inr (HttpUtils_NotImplemented (GatewayText ''Not yet implemented'')), st)
     | Some m \<Rightarrow> handle_module w d m signed (sg_region g) st)"
proof -
  obtain keys where keys: "ak_signature keys \<noteq> []" "AwsUtils_GetAuthorizationKeys (gd_now d) signed ''none'' = Inr keys"
      "request_signature (gc_auth w) signed keys = Inr (ak_signature keys)"
      "GatewaySession_GetAuthorizationKeys (field_value ''Authorization'' signed) [] = Inr (keys\<lparr>ak_isoDateTime := []\<rparr>)"
      "ak_module keys = module" "ak_region keys = sg_region g"
    by (rule signed_request_signature [OF assms(1,2,3,6,5,4)])
  have "rq_method signed = rq_method request" "rq_target signed = rq_target request"
    using assms(1) by (auto simp: AwsUtils_AddAuthorizationHeader_def Let_def rbind_Inr_iff with_mandatory_def)
  moreover have "AwsUtils_VerifySignature (gc_auth w) (gd_now d) signed ''none'' = Inr True"
    by (simp add: AwsUtils_VerifySignature_def keys StringUtils_Equals_def)
  ultimately show ?thesis
    using legal by (cases "map_of routing_table module") (simp_all add: GatewaySession_HandleRequest_def route_def keys)
qed

lemma demo_legal: "legal_target ''/b''" "legal_target ''/b?versioning''"
  by code_simp+

lemma demo_signed_host:
  "\<not> StringUtils_EqualsIgnoreCase ''Authorization'' ''host''"
  "\<not> StringUtils_EqualsIgnoreCase ''Authorization'' ''x-amz-date''"
  "StringUtils_Split ''host;x-amz-date'' (CHR '';'') = [''host'', ''x-amz-date'']"
  by code_simp+

lemma demo_signing_ok: "signing_ok demo_signing ''s3''"
  by code_simp

lemma demo_signed_ok:
  "AwsUtils_AddAuthorizationHeader demo_auth demo_signing ''s3'' ''text'' ''host;x-amz-date'' [] (demo_request ''/b'') = Inr demo_signed"
proof -
  have "\<not> StringUtils_Contains ''/b'' ''?''" by code_simp
  then show ?thesis
    by (simp add: demo_signed_def AwsUtils_AddAuthorizationHeader_def Let_def request_signature_def
        AwsUtils_GetCanonicalRequest_def AwsUtils_GetCanonicalQueryParameters_def HttpUtils_GetQueryParameters_def
        with_mandatory_def field_set_def demo_request_def)
qed

theorem signed_request_reaches_service_witness:
  "GatewaySession_HandleRequest (demo_gateway True) demo_gateway_draws demo_signed demo_gateway_state =
     Some (handle_s3 (demo_gateway True) demo_gateway_draws demo_signed ''eu-1'' demo_gateway_state)"
proof -
  have w: "gc_auth (demo_gateway True) = demo_auth" "sg_secretAccessKey demo_signing = ''none''" "sg_iso_date demo_signing = sg_amz_date demo_signing"
    "sg_region demo_signing = ''eu-1''" "\<forall>key msg. length (au_hmac demo_auth key msg) = 32"
    "rq_method (demo_request ''/b'') \<noteq> HttpOther" "rq_target (demo_request ''/b'') = ''/b''"
    by (simp_all add: demo_gateway_def demo_signing_def demo_auth_def demo_request_def)
  have "map_of routing_table ''s3'' = Some ModuleS3" by (simp add: routing_table_def)
  then show ?thesis
    using signed_request_reaches_service [of "demo_gateway True" demo_signing "''s3''" "''text''" "''host;x-amz-date''" "[]"
        "demo_request ''/b''" demo_signed demo_gateway_draws demo_gateway_state]
    by (simp add: w demo_signed_ok demo_signing_ok demo_signed_host demo_legal handle_module_def)
qed

section \<open>Requests that are not answered\<close>

text \<open>
  C0: a request without the field \<open>Authorization\<close>, or with an empty one, is not rejected: the first
  word of the empty field is read behind the end of a vector, whether signatures are verified or not.
\<close>
theorem missing_authorization_undefined:
  assumes "field_value ''Authorization'' request = []"
    and "rq_method request \<noteq> HttpOther" "legal_target (rq_target request)"
  shows "GatewaySession_HandleRequest w d request st = Some (Inl UndefinedBehaviour, st)"
  using assms by (simp add: GatewaySession_HandleRequest_def route_def GatewaySession_GetAuthorizationKeys_def
      AwsUtils_VerifySignature_def AwsUtils_GetAuthorizationKeys_def authorization_keys_def StringUtils_Split_def)

theorem missing_authorization_undefined_witness:
  "GatewaySession_HandleRequest (demo_gateway False) demo_gateway_draws (demo_request ''/b'') demo_gateway_state =
     Some (Inl UndefinedBehaviour, demo_gateway_state)"
  by (rule missing_authorization_undefined)
     (simp_all add: demo_legal demo_request_def field_value_def field_find_def)

lemma query_map_missing:
  assumes "it \<in> set its" "length (StringUtils_Split it (CHR ''='')) < 2"
  shows "query_map its m = Inl UndefinedBehaviour"
  using assms
proof (induction its arbitrary: m)
  case (Cons x xs)
  show ?case
  proof (cases "length (StringUtils_Split x (CHR ''='')) < 2")
    case True
    then show ?thesis by (auto simp: vec_at_def rbind_def)
  next
    case False
    then show ?thesis using Cons by (auto simp: vec_at_def rbind_def)
  qed
qed simp

text \<open>C39: C0: when signatures are verified, a request whose target has a parameter without a value (as
  \<open>?uploads\<close>, \<open>?versioning\<close> and \<open>?notification\<close> of S3) ends in undefined behaviour, whatever it
  is signed with.
\<close>
theorem verified_query_needs_values:
  assumes "gc_verify w" "CHR ''?'' \<in> set (rq_target request)"
    and "it \<in> set (query_parameters (rq_target request))" "length (StringUtils_Split it (CHR ''='')) < 2"
    and "rq_method request \<noteq> HttpOther" "legal_target (rq_target request)"
  shows "GatewaySession_HandleRequest w d request st = Some (Inl UndefinedBehaviour, st)"
proof -
  have "StringUtils_Contains (rq_target request) ''?''"
    using assms(2) by (simp add: StringUtils_Contains_def find_sub_char)
  then have "request_signature (gc_auth w) request keys = Inl UndefinedBehaviour" for keys
    by (simp add: request_signature_def AwsUtils_GetCanonicalRequest_def AwsUtils_GetCanonicalQueryParameters_def
        HttpUtils_GetQueryParameters_def query_map_missing [OF assms(3,4)])
  then have "AwsUtils_VerifySignature (gc_auth w) (gd_now d) request ''none'' = Inl UndefinedBehaviour"
    by (cases "vec_at (StringUtils_Split (field_value ''Authorization'' request) (CHR '' '')) 0")
       (auto simp: AwsUtils_VerifySignature_def AwsUtils_GetAuthorizationKeys_def authorization_keys_def vec_at_def split: if_splits)
  then show ?thesis using assms by (simp add: GatewaySession_HandleRequest_def)
qed

theorem verified_query_needs_values_witness:
  "GatewaySession_HandleRequest (demo_gateway True) demo_gateway_draws (demo_request ''/b?versioning'') demo_gateway_state =
     Some (Inl UndefinedBehaviour, demo_gateway_state)"
proof -
  have "query_parameters ''/b?versioning'' = [''versioning'']" by code_simp
  moreover have "length (StringUtils_Split ''versioning'' (CHR ''='')) < 2" by code_simp
  ultimately show ?thesis
    by (intro verified_query_needs_values [where it = "''versioning''"])
       (simp_all add: demo_legal demo_request_def demo_gateway_def)
qed

end
