(* ===== verification/Spec2Isabelle.thy ===== *)
theory Spec2Isabelle
  imports SQSProperties2 SQSHandlerProperties SNSProperties S3Multipart S3HandlerProperties S3HttpInvariant
    TransferProperties SecretsProperties KMSProperties GatewayProperties
begin

text \<open>
  \<^bold>\<open>awsmock: a verification development.\<close>

  awsmock imitates a set of AWS services on one machine.  A gateway receives the HTTP requests, checks
  the signature and hands each request to the handler of its service; the handler decodes it and calls
  a service class (the behaviour), which keeps its entities in a database class that sends every call
  either to MongoDB or to an in-memory store; some services have a worker that runs periodically or
  threads they start.  The transfer service is a set of FTP servers that store uploads in S3.  This
  development models gateway, handlers, services, in-memory stores and workers of SQS, SNS, S3, the
  secrets manager and KMS, the transfer service and the FTP server, with the utilities they use.

  \<^bold>\<open>Theories.\<close>
  \<^item> \<open>Prelude\<close>: exceptions (\<open>core/exception\<close>), the shape of an operation that may throw, fact
    collections and list lemmas.  \<open>StdMap\<close>: \<open>std::map\<close> as a list of key-value pairs sorted by key.
    \<open>EntityStore\<close>: what all in-memory stores share - a map from generated ids to entities, the
    fetch and update idioms (with the end iterator dereferenced as undefined behaviour), and the
    locale \<open>entity_table\<close> of their laws.  \<open>StdString\<close>: \<open>std::string\<close>, \<open>std::getline\<close>,
    \<open>std::to_string\<close> and \<open>std::stoi\<close>.  \<open>CString\<close>: what a C string shows of a buffer.
  \<^item> \<open>CoreUtils\<close>: \<open>core/src/utils/StringUtils.cpp\<close>, \<open>AwsUtils.cpp\<close>/\<open>.h\<close>, the digest texts of
    \<open>CryptoUtils.cpp\<close>.  \<open>Externals\<close>: the libraries as parameters (MD5, Poco's JSON) and
    \<open>db/src/entity/sqs/RedrivePolicy.cpp\<close>.  \<open>FileStore\<close>: \<open>FileUtils\<close>, \<open>DirUtils\<close>, \<open>NumberUtils\<close> and the
    file functions of \<open>CryptoUtils\<close> over a file system that is a parameter with the laws \<open>fs_lawful\<close>.
  \<^item> SQS: \<open>SQSEntities\<close> (\<open>db/include/awsmock/entity/sqs\<close>), \<open>SQSMemoryDb\<close>
    (\<open>db/src/memorydb/SQSMemoryDb.cpp\<close>), \<open>SQSDto\<close> (\<open>dto/include/awsmock/dto/sqs\<close> and the MD5 input of
    \<open>dto/src/sqs/model/MessageAttribute.cpp\<close>), \<open>SQSService\<close> (\<open>service/src/sqs/SQSService.cpp\<close> and
    \<open>SQSWorker.cpp\<close>), \<open>SQSRequests\<close> (\<open>FromJson\<close> of \<open>dto/src/sqs\<close>), \<open>SQSHandler\<close>
    (\<open>service/src/sqs/SQSHandler.cpp\<close> with the answers of \<open>AbstractHandler.cpp\<close>).  Facts:
    \<open>SQSMemoryDbFacts\<close> (each store operation under the store
    invariant), \<open>SQSInvariant\<close> (\<open>sqs_wf\<close> and its preservation by every service operation),
    \<open>SQSWorkerFacts\<close> (the maintenance run, the step relation \<open>sqs_step\<close> of the service and its
    worker, reachability), \<open>SQSDelivery\<close> (the abstract queue, the polling loop), \<open>MessageSink\<close>
    (the interface SNS needs of SQS).
  \<^item> SNS: \<open>SNSMemoryDb\<close> (\<open>db/src/memorydb/SNSMemoryDb.cpp\<close> and entities), \<open>SNSService\<close>
    (\<open>service/src/sns/SNSService.cpp\<close>, \<open>SNSWorker.cpp\<close>), \<open>SNSHandler\<close>
    (\<open>service/src/sns/SNSHandler.cpp\<close>), \<open>SNSFacts\<close> (its interpretations).
  \<^item> S3: \<open>S3MemoryDb\<close> (\<open>db/src/memorydb/S3MemoryDb.cpp\<close>, entities, the methods of \<open>S3Database\<close> that
    combine them), \<open>S3Service\<close> (\<open>service/src/s3/S3Service.cpp\<close>, \<open>S3HashCreator.cpp\<close>, \<open>S3Worker.cpp\<close> and
    the requests of \<open>dto/src/s3\<close>), \<open>S3Handler\<close> (\<open>service/src/s3/S3Handler.cpp\<close> and
    \<open>core/src/utils/MemoryMappedFile.cpp\<close>).  Facts: \<open>S3Facts\<close>, \<open>S3Upload\<close> (what an upload leaves and a
    download finds), \<open>S3Invariant\<close> (\<open>s3_wf\<close>, the step relation \<open>s3_step\<close>), \<open>S3HttpInvariant\<close> (the same
    over the requests of the handler), and the properties in \<open>S3Properties\<close>, \<open>S3Properties2\<close>,
    \<open>S3Multipart\<close>, \<open>S3HandlerProperties\<close> on the installation of \<open>S3Examples\<close>.
  \<^item> Keys and secrets: \<open>KMSMemoryDb\<close>, \<open>KMSService\<close> (\<open>service/src/kms\<close>: \<open>KMSService\<close>, \<open>KMSCreator\<close>,
    \<open>KMSWorker\<close>, \<open>KMSHandler\<close>, and the buffers of the ciphers in \<open>CryptoUtils.cpp\<close>), \<open>KMSProperties\<close>
    (the step relation \<open>kms_step\<close> of requests, key-making threads and worker); \<open>SecretsManager\<close>
    (\<open>SecretsManagerMemoryDb.cpp\<close>, \<open>service/src/secretsmanager\<close>, \<open>dto/src/secretsmanager\<close>),
    \<open>JsonRequests\<close>, \<open>SecretsProperties\<close>.
  \<^item> Transfer: \<open>FtpPath\<close>, \<open>FtpFiles\<close>, \<open>FtpSession\<close> (\<open>service/src/ftpserver\<close>), \<open>TransferService\<close>
    (\<open>TransferMemoryDb.cpp\<close>, \<open>service/src/transfer\<close>); \<open>FtpFacts\<close> (where paths lead, the step relation
    \<open>ftp_step\<close>), \<open>FtpProperties\<close>, \<open>TransferProperties\<close>.
  \<^item> HTTP: \<open>HttpUtils\<close> (\<open>core/src/utils/HttpUtils.cpp\<close>), \<open>ClientCommand\<close> (\<open>dto/src/common\<close>: which command a
    request is), \<open>HttpFacts\<close> (forms written as name=value pairs), \<open>Signature\<close>
    (\<open>core/src/utils/AwsUtils.cpp\<close>: signing and verifying), \<open>SignatureFacts\<close>, \<open>Gateway\<close>
    (\<open>service/src/gateway/GatewaySession.cpp\<close>), \<open>GatewayProperties\<close>.
  \<^item> \<open>SQSProperties\<close>, \<open>SQSProperties2\<close>, \<open>SQSHandlerProperties\<close>, \<open>SNSProperties\<close>: the properties, each
    applied to the small installation of \<open>SQSExamples\<close>.

  \<^bold>\<open>State and operations.\<close>  A store is a record of maps (\<open>sqs_db\<close>, \<open>sns_db\<close>, \<open>s3_db\<close>, \<open>kms_db\<close>,
  \<open>secrets_db\<close>); an operation takes
  the store and returns the result and the store it leaves, also when it throws.  The state of S3
  (\<open>s3_state\<close>) holds its store, the files, the keys and the messaging services it calls; the gateway
  works on all services at once (\<open>gateway_state\<close>).  Every method of a
  store locks its mutex for its whole body, so it is one atomic step; a service method is a sequence of
  such steps.  Where another thread can act between two of them and the code is sensitive to it (two
  polls of a receive, the worker's maintenance and its \<open>UpdateQueue\<close>, the threads that compute
  checksums or make keys) what it does is an argument or a step of the model of its own.  Clock
  readings and generated ids are arguments too: each definition takes the values
  the code draws.  Members that the code reads before it sets them are arguments (\<open>stale\<close>).
  Exceptions are values of \<open>exn\<close>, also those of the standard library; \<open>UndefinedBehaviour\<close> marks the
  places where the C++ program has none.  \<open>long\<close> and \<open>int\<close> values are \<open>int\<close>: counters and times are far
  from their bounds; where a bound is observable (\<open>std::stoi\<close>, \<open>std::stol\<close>, the sum of hours of a scheduled
  deletion, the ports and lengths that are split into bytes) it is written out, on words or with the test.

  \<^bold>\<open>Interfaces.\<close>  \<open>entity_table\<close> is interpreted for the tables of queues, messages, topics, SNS messages,
  buckets, keys and secrets; \<open>message_sink\<close>, the contract \<open>Publish\<close> relies on (an accepted message is
  stored under a fresh key and nothing else changes), is interpreted on \<open>SQSService_SendMessage\<close> and on
  \<open>SNSService_SendSQSMessage\<close>.

  \<^bold>\<open>Assumed of libraries\<close>, each by name where a property needs it and with an instance in its witness:
  the laws of the file system (\<open>fs_lawful\<close>), that the cipher of S3 decrypts what it encrypted, that Poco's
  JSON parser reads what its printer wrote (\<open>json_faithful\<close>), what the URL decoder does on the
  arguments of a form, that base64 and an RSA pair invert each other, that an HMAC has 32 bytes.

  \<^bold>\<open>Fuel.\<close>  Only the polling loop of \<open>ReceiveMessages\<close> may not end; \<open>receive_poll\<close> takes fuel and
  \<open>polling_returns\<close> shows that two turns for each second of the waiting time, and two more, are
  enough.  \<open>None\<close> of the SQS handler and of the gateway is a poll that the fuel did not end.

  \<^bold>\<open>Not modelled.\<close>  MongoDB (the model is of the in-memory branch of the database classes); sockets,
  timeouts and the queue of responses of an HTTP session, and the download of a file in blocks; the texts
  of JSON and XML documents (parsers are parameters, responses are kept as data); Docker, logging and
  metrics, the manager process and the command line, which are input and output or third-party code;
  the services Cognito, Lambda, DynamoDB and the module service, whose handlers are parameters of the gateway.
\<close>

end
